(* ===== verification/Prelude.thy ===== *)
theory Prelude
  imports Main "HOL-Library.Word"
begin

text \<open>
  Shared vocabulary of the development.

  Machine integers are words of their Rust width (\<^theory_text>\<open>u128\<close> is a 128-bit word).  The checked
  operations of the Rust standard library return an option and are characterised once, on the
  natural numbers the words denote; the collection \<^theory_text>\<open>checked\<close> holds these facts, so that a handler
  is reasoned about without ever unfolding a word operation.

  A handler that may panic returns an \<^theory_text>\<open>'a outcome = panic + 'a\<close>: \<^theory_text>\<open>Inl (Panic msg)\<close> is the panic with
  the message of the source, \<^theory_text>\<open>Inr x\<close> the result.  The three combinators \<^theory_text>\<open>ensure\<close>, \<^theory_text>\<open>expect\<close> and \<^theory_text>\<open>attempt\<close> read as the
  statements \<^theory_text>\<open>assert!(..);\<close>, \<^theory_text>\<open>let x = o.expect(..);\<close> and \<^theory_text>\<open>let x = f(..);\<close>, and the collection
  \<^theory_text>\<open>success\<close> inverts a successful run of a chain of them into the facts it established.
\<close>

named_theorems success "inversion of a successful run"
named_theorems failure "the errors a run can end in"
named_theorems checked "meaning of the checked integer operations on naturals"

section \<open>Integer types\<close>

type_synonym u8 = "8 word"
type_synonym u16 = "16 word"
type_synonym u32 = "32 word"
type_synonym u64 = "64 word"
type_synonym u128 = "128 word"
type_synonym u256 = "256 word"
type_synonym u512 = "512 word"

type_synonym bytes = "8 word list"

section \<open>Chains of fallible steps\<close>

datatype panic = Panic (message: string)

type_synonym 'a outcome = "panic + 'a"

definition ensure :: "bool \<Rightarrow> string \<Rightarrow> 'a outcome \<Rightarrow> 'a outcome" where
  "ensure c msg k = (if c then k else Inl (Panic msg))"

definition expect :: "string \<Rightarrow> 'a option \<Rightarrow> ('a \<Rightarrow> 'b outcome) \<Rightarrow> 'b outcome" where
  "expect msg m k = (case m of None \<Rightarrow> Inl (Panic msg) | Some x \<Rightarrow> k x)"

definition attempt :: "'a outcome \<Rightarrow> ('a \<Rightarrow> 'b outcome) \<Rightarrow> 'b outcome" where
  "attempt m k = (case m of Inl e \<Rightarrow> Inl e | Inr x \<Rightarrow> k x)"

text \<open>
  A chain is simplified from its first step on: the congruence rules keep the simplifier out of
  the messages and of the continuation of a step that is not yet decided.
\<close>

lemma ensure_cong [cong]: "c = c' \<Longrightarrow> ensure c msg k = ensure c' msg k"
  by simp

lemma expect_cong [cong]: "m = m' \<Longrightarrow> expect msg m k = expect msg m' k"
  by simp

lemma attempt_cong [cong]: "m = m' \<Longrightarrow> attempt m k = attempt m' k"
  by simp

lemma ensure_simps [simp]:
  "ensure True msg k = k"
  "ensure False msg k = Inl (Panic msg)"
  by (simp_all add: ensure_def)

lemma expect_simps [simp]:
  "expect msg None k = Inl (Panic msg)"
  "expect msg (Some x) k = k x"
  by (simp_all add: expect_def)

lemma attempt_simps [simp]:
  "attempt (Inl e) k = Inl e"
  "attempt (Inr x) k = k x"
  by (simp_all add: attempt_def)

lemma ensure_success [success]: "ensure c msg k = Inr r \<longleftrightarrow> c \<and> k = Inr r"
  by (simp add: ensure_def)

lemma expect_success [success]: "expect msg m k = Inr r \<longleftrightarrow> (\<exists>x. m = Some x \<and> k x = Inr r)"
  by (cases m) simp_all

lemma attempt_success [success]: "attempt m k = Inr r \<longleftrightarrow> (\<exists>x. m = Inr x \<and> k x = Inr r)"
  by (cases m) simp_all

lemma if_success [success]:
  "(if c then Inl e else k) = Inr r \<longleftrightarrow> \<not> c \<and> k = Inr r"
  "(if c then k else Inl e) = Inr r \<longleftrightarrow> c \<and> k = Inr r"
  by simp_all

lemma if_expect_success [success]:
  "(if c then Inr u else expect msg m Inr) = Inr r \<longleftrightarrow> (if c then u = r else m = Some r)"
  by (simp add: expect_success)

lemma ensure_failure [failure]:
  "ensure c msg k = Inl x \<longleftrightarrow> (\<not> c \<and> x = Panic msg) \<or> (c \<and> k = Inl x)"
  by (auto simp: ensure_def)

lemma expect_failure [failure]:
  "expect msg m k = Inl x \<longleftrightarrow> (m = None \<and> x = Panic msg) \<or> (\<exists>y. m = Some y \<and> k y = Inl x)"
  by (cases m) auto

lemma attempt_failure [failure]:
  "attempt m k = Inl x \<longleftrightarrow> m = Inl x \<or> (\<exists>y. m = Inr y \<and> k y = Inl x)"
  by (cases m) auto

text \<open>What \<^theory_text>\<open>unfolding\<close> a successful handler needs besides the collection.\<close>

lemmas inversion = attempt_success expect_success ensure_success split_paired_Ex prod.case prod.inject sum.inject

section \<open>Checked, saturating and narrowing operations\<close>

definition checked_add :: "'a::len word \<Rightarrow> 'a word \<Rightarrow> 'a word option" where
  "checked_add a b = (if unat a + unat b < 2 ^ LENGTH('a) then Some (a + b) else None)"

definition checked_sub :: "'a::len word \<Rightarrow> 'a word \<Rightarrow> 'a word option" where
  "checked_sub a b = (if b \<le> a then Some (a - b) else None)"

definition checked_mul :: "'a::len word \<Rightarrow> 'a word \<Rightarrow> 'a word option" where
  "checked_mul a b = (if unat a * unat b < 2 ^ LENGTH('a) then Some (a * b) else None)"

definition checked_div :: "'a::len word \<Rightarrow> 'a word \<Rightarrow> 'a word option" where
  "checked_div a b = (if b = 0 then None else Some (a div b))"

definition saturating_add :: "'a::len word \<Rightarrow> 'a word \<Rightarrow> 'a word" where
  "saturating_add a b = (if unat a + unat b < 2 ^ LENGTH('a) then a + b else - 1)"

definition saturating_sub :: "'a::len word \<Rightarrow> 'a word \<Rightarrow> 'a word" where
  "saturating_sub a b = (if b \<le> a then a - b else 0)"

definition saturating_mul :: "'a::len word \<Rightarrow> 'a word \<Rightarrow> 'a word" where
  "saturating_mul a b = (if unat a * unat b < 2 ^ LENGTH('a) then a * b else - 1)"

definition narrow :: "'a::len word \<Rightarrow> 'b::len word option" where
  "narrow a = (if unat a < 2 ^ LENGTH('b) then Some (ucast a) else None)"

lemma unat_lt: "unat (a :: 'a::len word) < 2 ^ LENGTH('a)"
  by (rule unsigned_less)

lemma unat_bounded_iff: "unat (c :: 'a::len word) = n \<Longrightarrow> n < 2 ^ LENGTH('a)"
  using unat_lt [of c] by simp

lemma unat_max: "unat (- 1 :: 'a::len word) = 2 ^ LENGTH('a) - 1"
  by (simp add: unsigned_minus_1_eq_mask mask_eq_exp_minus_1)

lemma uint_sum: "unat a = unat b + unat c \<Longrightarrow> uint a = uint b + uint c"
  by (metis of_nat_add uint_nat)

lemma unat_plus_exact:
  fixes a b :: "'a::len word"
  assumes "unat a + unat b < 2 ^ LENGTH('a)"
  shows "unat (a + b) = unat a + unat b"
  using assms by (simp add: unat_word_ariths)

lemma unat_mult_exact:
  fixes a b :: "'a::len word"
  assumes "unat a * unat b < 2 ^ LENGTH('a)"
  shows "unat (a * b) = unat a * unat b"
  using assms by (simp add: unat_word_ariths)

lemma unat_minus_exact:
  fixes a b :: "'a::len word"
  assumes "b \<le> a"
  shows "unat (a - b) = unat a - unat b"
  using assms by (simp add: unat_sub word_le_nat_alt)

lemma checked_add_Some [checked]:
  fixes a b c :: "'a::len word"
  shows "checked_add a b = Some c \<longleftrightarrow> unat c = unat a + unat b"
  by (auto simp: checked_add_def unat_plus_exact word_unat_eq_iff dest: unat_bounded_iff)

lemma checked_add_None [checked]:
  fixes a b :: "'a::len word"
  shows "checked_add a b = None \<longleftrightarrow> 2 ^ LENGTH('a) \<le> unat a + unat b"
  by (auto simp: checked_add_def)

lemma checked_sub_Some [checked]:
  fixes a b c :: "'a::len word"
  shows "checked_sub a b = Some c \<longleftrightarrow> unat a = unat b + unat c"
  by (auto simp: checked_sub_def unat_minus_exact word_unat_eq_iff word_le_nat_alt)

lemma checked_sub_None [checked]: "checked_sub a b = None \<longleftrightarrow> unat a < unat b"
  by (auto simp: checked_sub_def word_le_nat_alt)

lemma checked_mul_Some [checked]:
  fixes a b c :: "'a::len word"
  shows "checked_mul a b = Some c \<longleftrightarrow> unat c = unat a * unat b"
  by (auto simp: checked_mul_def unat_mult_exact word_unat_eq_iff dest: unat_bounded_iff)

lemma checked_mul_None [checked]:
  fixes a b :: "'a::len word"
  shows "checked_mul a b = None \<longleftrightarrow> 2 ^ LENGTH('a) \<le> unat a * unat b"
  by (auto simp: checked_mul_def)

lemma checked_div_Some [checked]:
  "checked_div a b = Some c \<longleftrightarrow> unat b \<noteq> 0 \<and> unat c = unat a div unat b"
  by (auto simp: checked_div_def word_unat_eq_iff unat_div)

lemma checked_div_None [checked]: "checked_div a b = None \<longleftrightarrow> unat b = 0"
  by (auto simp: checked_div_def word_unat_eq_iff)

lemma unat_ucast_exact:
  fixes a :: "'a::len word"
  assumes "unat a < 2 ^ LENGTH('b)"
  shows "unat (ucast a :: 'b::len word) = unat a"
  using assms by (simp add: unsigned_ucast_eq take_bit_nat_eq_self)

lemma narrow_Some [checked]: "narrow a = Some c \<longleftrightarrow> unat c = unat a"
  by (auto simp: narrow_def unat_ucast_exact word_unat_eq_iff dest: unat_bounded_iff)

lemma narrow_None [checked]:
  "(narrow a :: 'b::len word option) = None \<longleftrightarrow> 2 ^ LENGTH('b) \<le> unat a"
  by (auto simp: narrow_def)

lemma unat_saturating_add [checked]:
  fixes a b :: "'a::len word"
  shows "unat (saturating_add a b) = min (unat a + unat b) (2 ^ LENGTH('a) - 1)"
  by (auto simp: saturating_add_def unat_plus_exact unat_max)

lemma unat_saturating_sub [checked]: "unat (saturating_sub a b) = unat a - unat b"
  by (auto simp: saturating_sub_def unat_minus_exact word_le_nat_alt)

lemma unat_saturating_mul [checked]:
  fixes a b :: "'a::len word"
  shows "unat (saturating_mul a b) = min (unat a * unat b) (2 ^ LENGTH('a) - 1)"
  by (auto simp: saturating_mul_def unat_mult_exact unat_max)

lemma unat_widen:
  fixes a :: "'a::len word"
  assumes "LENGTH('a) \<le> LENGTH('b)"
  shows "unat (ucast a :: 'b::len word) = unat a"
proof (rule unat_ucast_exact)
  show "unat a < 2 ^ LENGTH('b)"
    using unat_lt [of a] assms by (meson le_less_trans less_le_trans one_le_numeral power_increasing)
qed

lemma unat_drop_bit: "unat (drop_bit k (w :: 'a::len word)) = unat w div 2 ^ k"
proof -
  have "unat (drop_bit k w) = drop_bit k (take_bit LENGTH('a) (unat w))"
    by (rule unsigned_drop_bit_eq)
  also have "take_bit LENGTH('a) (unat w) = unat w"
    using unat_lt [of w] by (simp add: take_bit_nat_eq_self)
  finally show ?thesis
    by (simp add: drop_bit_eq_div)
qed

section \<open>Signed operations\<close>

text \<open>
  A signed Rust integer is a word read by \<^theory_text>\<open>sint\<close>.  \<^theory_text>\<open>to_signed\<close> is \<^theory_text>\<open>try_from\<close> on a mathematical
  integer; the checked operations compute the exact result and narrow it, the saturating ones clamp.
\<close>

type_synonym i32 = "32 word"
type_synonym i64 = "64 word"
type_synonym i128 = "128 word"
type_synonym i256 = "256 word"

definition to_signed :: "int \<Rightarrow> 'a::len word option" where
  "to_signed k =
    (if - (2 ^ (LENGTH('a) - 1)) \<le> k \<and> k < 2 ^ (LENGTH('a) - 1) then Some (word_of_int k) else None)"

definition clamp_signed :: "int \<Rightarrow> 'a::len word" where
  "clamp_signed k = word_of_int (max (- (2 ^ (LENGTH('a) - 1))) (min (2 ^ (LENGTH('a) - 1) - 1) k))"

definition signed_checked_add :: "'a::len word \<Rightarrow> 'a word \<Rightarrow> 'a word option" where
  "signed_checked_add a b = to_signed (sint a + sint b)"

definition signed_checked_sub :: "'a::len word \<Rightarrow> 'a word \<Rightarrow> 'a word option" where
  "signed_checked_sub a b = to_signed (sint a - sint b)"

definition signed_checked_mul :: "'a::len word \<Rightarrow> 'a word \<Rightarrow> 'a word option" where
  "signed_checked_mul a b = to_signed (sint a * sint b)"

definition signed_saturating_add :: "'a::len word \<Rightarrow> 'a word \<Rightarrow> 'a word" where
  "signed_saturating_add a b = clamp_signed (sint a + sint b)"

definition signed_saturating_sub :: "'a::len word \<Rightarrow> 'a word \<Rightarrow> 'a word" where
  "signed_saturating_sub a b = clamp_signed (sint a - sint b)"

lemma sint_range:
  "- (2 ^ (LENGTH('a) - 1)) \<le> sint (a :: 'a::len word)" "sint a < 2 ^ (LENGTH('a) - 1)"
  using sint_greater_eq [of a] sint_less [of a] by simp_all

lemma sint_word_of_int_exact:
  assumes "- (2 ^ (LENGTH('a) - 1)) \<le> k" "k < 2 ^ (LENGTH('a) - 1)"
  shows "sint (word_of_int k :: 'a::len word) = k"
  using assms by (simp add: signed_of_int signed_take_bit_int_eq_self)

lemma to_signed_Some [checked]: "to_signed k = Some (w :: 'a::len word) \<longleftrightarrow> sint w = k"
proof
  assume "to_signed k = Some w"
  then show "sint w = k"
    by (auto simp: to_signed_def sint_word_of_int_exact split: if_splits)
next
  assume "sint w = k"
  then show "to_signed k = Some w"
    using sint_range [of w] by (auto simp: to_signed_def)
qed

lemma to_signed_total:
  assumes "- (2 ^ (LENGTH('a) - 1)) \<le> k" "k < 2 ^ (LENGTH('a) - 1)"
  shows "\<exists>w :: 'a::len word. to_signed k = Some w \<and> sint w = k"
  using assms by (simp add: to_signed_def sint_word_of_int_exact)

lemma sint_clamp_signed [checked]:
  "sint (clamp_signed k :: 'a::len word) = max (- (2 ^ (LENGTH('a) - 1))) (min (2 ^ (LENGTH('a) - 1) - 1) k)"
proof -
  have "(0::int) < 2 ^ (LENGTH('a) - 1)"
    by simp
  then show ?thesis
    unfolding clamp_signed_def by (intro sint_word_of_int_exact) linarith+
qed

lemmas signed_ops = signed_checked_add_def signed_checked_sub_def signed_checked_mul_def
  signed_saturating_add_def signed_saturating_sub_def to_signed_Some sint_clamp_signed

section \<open>Integers as bytes\<close>

primrec nat_to_le :: "nat \<Rightarrow> nat \<Rightarrow> bytes" where
  "nat_to_le 0 n = []"
| "nat_to_le (Suc k) n = of_nat (n mod 256) # nat_to_le k (n div 256)"

primrec nat_of_le :: "bytes \<Rightarrow> nat" where
  "nat_of_le [] = 0"
| "nat_of_le (b # bs) = unat b + 256 * nat_of_le bs"

definition to_le_bytes :: "'a::len word \<Rightarrow> bytes" where
  "to_le_bytes w = nat_to_le (LENGTH('a) div 8) (unat w)"

definition from_le_bytes :: "bytes \<Rightarrow> 'a::len word" where
  "from_le_bytes bs = of_nat (nat_of_le bs)"

definition to_be_bytes :: "'a::len word \<Rightarrow> bytes" where
  "to_be_bytes w = rev (to_le_bytes w)"

lemma nat_to_le_numeral:
  "nat_to_le (numeral k) n = of_nat (n mod 256) # nat_to_le (pred_numeral k) (n div 256)"
  by (subst numeral_eq_Suc [of k]) simp

lemma length_nat_to_le [simp]: "length (nat_to_le k n) = k"
  by (induction k arbitrary: n) simp_all

lemma nat_of_le_to_le: "n < 256 ^ k \<Longrightarrow> nat_of_le (nat_to_le k n) = n"
proof (induction k arbitrary: n)
  case (Suc k)
  have "n div 256 < 256 ^ k"
    using Suc.prems by (simp add: less_mult_imp_div_less mult.commute)
  then show ?case
    using Suc.IH by (simp add: unat_of_nat)
qed simp

lemma length_to_le_bytes [simp]: "length (to_le_bytes (w :: 'a::len word)) = LENGTH('a) div 8"
  by (simp add: to_le_bytes_def)

lemma length_to_be_bytes [simp]: "length (to_be_bytes (w :: 'a::len word)) = LENGTH('a) div 8"
  by (simp add: to_be_bytes_def)

lemma from_to_le_bytes:
  fixes w :: "'a::len word"
  assumes "8 dvd LENGTH('a)"
  shows "from_le_bytes (to_le_bytes w) = w"
proof -
  have "(256::nat) ^ (LENGTH('a) div 8) = 2 ^ LENGTH('a)"
    using assms by (auto elim!: dvdE simp: power_mult)
  then show ?thesis
    by (simp add: from_le_bytes_def to_le_bytes_def nat_of_le_to_le)
qed

lemma to_be_bytes_inject:
  fixes v w :: "'a::len word"
  assumes "8 dvd LENGTH('a)"
  shows "to_be_bytes v = to_be_bytes w \<longleftrightarrow> v = w"
  by (metis assms from_to_le_bytes rev_rev_ident to_be_bytes_def)

end
