(* ===== verification/Lee.thy ===== *)
theory Lee
  imports Prelude
begin

text \<open>
  The part of the LEZ runtime interface (crates \<^theory_text>\<open>lee_core\<close> and \<^theory_text>\<open>spel_framework\<close>, not in the
  repository) that the programs use.  Accounts, state diffs and chained calls are the data the
  programs build and read; everything the runtime computes is a field of the environment record
  \<^theory_text>\<open>lee_env\<close>, an argument of every handler: account defaults, the SHA-256 hash, the derivation of
  public program-derived addresses, the clock account and its decoding, and the validation the
  SPEL macro generates from the \<^theory_text>\<open>#[account(..)]\<close> attributes.

  Account data is an abstract type \<^theory_text>\<open>'d\<close>; a stored Rust type is read and written through a codec,
  whose only law is the round trip of the locale \<^theory_text>\<open>codec_laws\<close>.  Account identifiers and PDA seeds
  are 256-bit words read big-endian, so that the order on words is the byte order of the arrays.
\<close>

section \<open>Accounts\<close>

type_synonym account_id = u256
type_synonym pda_seed = u256

record 'd account =
  program_owner :: account_id
  balance :: u128
  data :: 'd
  nonce :: u128

record 'd account_with_metadata =
  account :: "'d account"
  is_authorized :: bool
  account_id :: account_id

definition to_bytes :: "account_id \<Rightarrow> bytes" where
  "to_bytes a = to_be_bytes a"

text \<open>A byte-string literal \<^theory_text>\<open>b"..."\<close> of the source.\<close>

definition ascii :: "string \<Rightarrow> bytes" where
  "ascii s = map (\<lambda>c. of_nat (of_char c)) s"

lemma to_bytes_inject [simp]: "to_bytes a = to_bytes b \<longleftrightarrow> a = b"
  by (simp add: to_bytes_def to_be_bytes_inject)

lemma length_to_bytes [simp]: "length (to_bytes a) = 32"
  by (simp add: to_bytes_def)

section \<open>State diffs\<close>

text \<open>
  \<^theory_text>\<open>AccountStateDiff::unchanged(pre)\<close> and \<^theory_text>\<open>AccountStateDiff::new(pre, BalanceDiff::Add(n), data)\<close>,
  the two ways the programs build a diff.
\<close>

datatype balance_diff = Add u128

datatype 'd state_diff =
    Unchanged "'d account_with_metadata"
  | NewData "'d account_with_metadata" balance_diff 'd

primrec pre_state :: "'d state_diff \<Rightarrow> 'd account_with_metadata" where
  "pre_state (Unchanged a) = a"
| "pre_state (NewData a b d) = a"

primrec post_data :: "'d state_diff \<Rightarrow> 'd" where
  "post_data (Unchanged a) = data (account a)"
| "post_data (NewData a b d) = d"

definition writes_data :: "'d state_diff \<Rightarrow> bool" where
  "writes_data s = (post_data s \<noteq> data (account (pre_state s)))"

section \<open>Codecs\<close>

text \<open>
  \<^theory_text>\<open>encode\<close> is \<^theory_text>\<open>Data::from(&x)\<close>, which panics (\<^theory_text>\<open>None\<close>) when the encoding does not fit into
  \<^theory_text>\<open>Data\<close>; \<^theory_text>\<open>decode\<close> is \<^theory_text>\<open>T::try_from(&data)\<close>.
\<close>

record ('a, 'd) codec =
  encode :: "'a \<Rightarrow> 'd option"
  decode :: "'d \<Rightarrow> 'a option"

locale codec_laws =
  fixes C :: "('a, 'd) codec"
  assumes round_trip: "encode C x = Some d \<Longrightarrow> decode C d = Some x"
begin

lemma encode_inj: "encode C x = Some d \<Longrightarrow> encode C y = Some d \<Longrightarrow> x = y"
  using round_trip [of x d] round_trip [of y d] by simp

lemma decode_encode: "encode C x = Some d \<Longrightarrow> decode C d = Some y \<longleftrightarrow> y = x"
  using round_trip [of x d] by auto

end

section \<open>The runtime environment\<close>

text \<open>The attribute flags of a guest account argument: \<^theory_text>\<open>mut\<close>, \<^theory_text>\<open>signer\<close>, \<^theory_text>\<open>init\<close>.\<close>

datatype account_flag = Mut | Signer | Init

record 'd lee_env =
  default_program_owner :: account_id
  account_default :: "'d account"
  sha256 :: "bytes \<Rightarrow> u256"
  for_public_pda :: "account_id \<Rightarrow> pda_seed \<Rightarrow> account_id"
  clock_01_program_account_id :: account_id
  clock_timestamp :: "'d \<Rightarrow> u64"
  spel_validate :: "(account_flag list \<times> 'd account_with_metadata) list \<Rightarrow> bool"

text \<open>
  What the sources rely on: a default account belongs to the default program owner, and the
  runtime forbids an account with that owner to carry data.
\<close>

definition default_owned :: "('d, 'x) lee_env_scheme \<Rightarrow> 'd account \<Rightarrow> bool" where
  "default_owned E a = (program_owner a = default_program_owner E)"

text \<open>Ownership follows a data write: a default-owned account written to gets the writer.\<close>

definition post_owner :: "('d, 'x) lee_env_scheme \<Rightarrow> account_id \<Rightarrow> 'd state_diff \<Rightarrow> account_id" where
  "post_owner E executing s =
    (if default_owned E (account (pre_state s)) \<and> writes_data s then executing
     else program_owner (account (pre_state s)))"

primrec post_account :: "('d, 'x) lee_env_scheme \<Rightarrow> account_id \<Rightarrow> 'd state_diff \<Rightarrow> 'd account" where
  "post_account E executing (Unchanged a) = account a"
| "post_account E executing (NewData a b d) =
    (account a) \<lparr> program_owner := post_owner E executing (NewData a b d),
                  balance := balance (account a) + (case b of Add n \<Rightarrow> n),
                  data := d \<rparr>"

section \<open>Chained calls and outputs\<close>

record 'i chained_call =
  callee :: account_id
  pre_state_ids :: "account_id list"
  instruction_data :: 'i
  pda_seeds :: "pda_seed list"

text \<open>\<^theory_text>\<open>ChainedCall::new(program, ids, &instruction)\<close> and \<^theory_text>\<open>.with_pda_seeds(seeds)\<close>.\<close>

definition chained_call_new :: "account_id \<Rightarrow> account_id list \<Rightarrow> 'i \<Rightarrow> 'i chained_call" where
  "chained_call_new p ids i =
    \<lparr> callee = p, pre_state_ids = ids, instruction_data = i, pda_seeds = [] \<rparr>"

definition with_pda_seeds :: "'i chained_call \<Rightarrow> pda_seed list \<Rightarrow> 'i chained_call" where
  "with_pda_seeds c seeds = c \<lparr> pda_seeds := seeds \<rparr>"

text \<open>The accounts a call is authorized over by its seeds, when made by program \<^theory_text>\<open>caller\<close>.\<close>

definition authorized_pdas :: "('d, 'x) lee_env_scheme \<Rightarrow> account_id \<Rightarrow> 'i chained_call \<Rightarrow> account_id list" where
  "authorized_pdas E caller c = map (for_public_pda E caller) (pda_seeds c)"

section \<open>Facts on diffs\<close>

lemma post_account_Unchanged_fields [simp]:
  "post_data (Unchanged a) = data (account a)"
  "\<not> writes_data (Unchanged a)"
  by (simp_all add: writes_data_def)

lemma writes_data_NewData [simp]: "writes_data (NewData a b d) \<longleftrightarrow> d \<noteq> data (account a)"
  by (simp add: writes_data_def)

lemma post_account_data [simp]: "data (post_account E p s) = post_data s"
  by (cases s) simp_all

lemma post_account_owner [simp]: "program_owner (post_account E p s) = post_owner E p s"
  by (cases s) (simp_all add: post_owner_def)

lemma post_account_balance_zero [simp]:
  "balance (post_account E p (NewData a (Add 0) d)) = balance (account a)"
  by simp

lemma with_pda_seeds_simps [simp]:
  "callee (with_pda_seeds c s) = callee c"
  "pre_state_ids (with_pda_seeds c s) = pre_state_ids c"
  "instruction_data (with_pda_seeds c s) = instruction_data c"
  "pda_seeds (with_pda_seeds c s) = s"
  by (simp_all add: with_pda_seeds_def)

lemma chained_call_new_simps [simp]:
  "callee (chained_call_new p ids i) = p"
  "pre_state_ids (chained_call_new p ids i) = ids"
  "instruction_data (chained_call_new p ids i) = i"
  "pda_seeds (chained_call_new p ids i) = []"
  by (simp_all add: chained_call_new_def)

end
