(* ===== verification/Borsh.thy ===== *)
theory Borsh
  imports Lee
begin

text \<open>
  The Borsh format, the concrete codec the account types derive: little-endian integers, raw
  32-byte identifiers, length-prefixed strings, one tag byte for enums, options and booleans.
  A serialiser and its parser form the interface \<^theory_text>\<open>borsh_type\<close>; each primitive is an interpretation
  of it, and a type that satisfies it yields a codec that satisfies \<^theory_text>\<open>codec_laws\<close>.  UTF-8 validity of
  strings is not modelled: every byte list is a string.
\<close>

type_synonym 'a parser = "bytes \<Rightarrow> ('a \<times> bytes) option"

named_theorems borsh "serialisers, parsers and their inverse laws"

definition de_bind :: "'a parser \<Rightarrow> ('a \<Rightarrow> 'b parser) \<Rightarrow> 'b parser" where
  "de_bind p k bs = (case p bs of None \<Rightarrow> None | Some (x, r) \<Rightarrow> k x r)"

definition de_return :: "'a \<Rightarrow> 'a parser" where
  "de_return x bs = Some (x, bs)"

definition de_fail :: "'a parser" where
  "de_fail bs = None"

lemma de_simps [simp]:
  "de_return x bs = Some (x, bs)"
  "de_fail bs = None"
  by (simp_all add: de_return_def de_fail_def)

lemma de_bind_Some [simp]: "p bs = Some (x, r) \<Longrightarrow> de_bind p k bs = k x r"
  by (simp add: de_bind_def)

section \<open>The interface\<close>

locale borsh_type =
  fixes ser :: "'a \<Rightarrow> bytes" and de :: "'a parser"
  assumes parse: "length (ser x) < 2 ^ 32 \<Longrightarrow> de (ser x @ rest) = Some (x, rest)"
begin

lemma parse_exact: "length (ser x) < 2 ^ 32 \<Longrightarrow> de (ser x) = Some (x, [])"
  using parse [of x "[]"] by simp

text \<open>No serialised value is a proper prefix of another one.\<close>

lemma prefix_free:
  assumes "length (ser x) < 2 ^ 32" "length (ser y) < 2 ^ 32" "ser x @ r = ser y @ r'"
  shows "x = y \<and> r = r'"
  by (metis Pair_inject assms option.inject parse)

end

section \<open>Primitive types\<close>

definition de_word :: "'a::len word parser" where
  "de_word bs =
    (if length bs < LENGTH('a) div 8 then None
     else Some (from_le_bytes (take (LENGTH('a) div 8) bs), drop (LENGTH('a) div 8) bs))"

definition de_id :: "u256 parser" where
  "de_id bs = (if length bs < 32 then None else Some (from_le_bytes (rev (take 32 bs)), drop 32 bs))"

definition ser_string :: "bytes \<Rightarrow> bytes" where
  "ser_string s = to_le_bytes (of_nat (length s) :: u32) @ s"

definition de_string :: "bytes parser" where
  "de_string = de_bind (de_word :: u32 parser)
    (\<lambda>n bs. if length bs < unat n then None else Some (take (unat n) bs, drop (unat n) bs))"

fun ser_bool :: "bool \<Rightarrow> bytes" where
  "ser_bool b = [if b then 1 else 0]"

fun de_bool :: "bool parser" where
  "de_bool [] = None"
| "de_bool (b # bs) = (if b = 0 then Some (False, bs) else if b = 1 then Some (True, bs) else None)"

fun ser_option :: "('a \<Rightarrow> bytes) \<Rightarrow> 'a option \<Rightarrow> bytes" where
  "ser_option f None = [0]"
| "ser_option f (Some x) = 1 # f x"

fun de_option :: "'a parser \<Rightarrow> 'a option parser" where
  "de_option p [] = None"
| "de_option p (b # bs) =
    (if b = 0 then Some (None, bs)
     else if b = 1 then de_bind p (\<lambda>x. de_return (Some x)) bs else None)"

lemma de_word_parse: "8 dvd LENGTH('a) \<Longrightarrow> de_word (to_le_bytes (w :: 'a::len word) @ r) = Some (w, r)"
  by (simp add: de_word_def from_to_le_bytes)

lemma de_word_parse_sizes [borsh]:
  "de_word (to_le_bytes (a :: u8) @ r) = Some (a, r)"
  "de_word (to_le_bytes (b :: u16) @ r) = Some (b, r)"
  "de_word (to_le_bytes (c :: u32) @ r) = Some (c, r)"
  "de_word (to_le_bytes (d :: u64) @ r) = Some (d, r)"
  "de_word (to_le_bytes (e :: u128) @ r) = Some (e, r)"
  by (simp_all add: de_word_parse)

lemma de_id_parse [borsh]: "de_id (to_bytes i @ r) = Some (i, r)"
  using from_to_le_bytes [of i] by (simp add: de_id_def to_bytes_def to_be_bytes_def)

lemma de_string_parse [borsh]:
  assumes "length s < 2 ^ 32"
  shows "de_string (ser_string s @ r) = Some (s, r)"
proof -
  have "unat (of_nat (length s) :: u32) = length s"
    using assms by (simp add: unat_of_nat)
  then show ?thesis
    by (simp add: ser_string_def de_string_def borsh)
qed

lemma length_ser_string [borsh]: "length (ser_string s) = 4 + length s"
  by (simp add: ser_string_def)

lemma de_bool_parse [borsh]: "de_bool (ser_bool b @ r) = Some (b, r)"
  by simp

interpretation borsh_u8: borsh_type "to_le_bytes :: u8 \<Rightarrow> bytes" de_word
  by unfold_locales (simp add: borsh)

interpretation borsh_u64: borsh_type "to_le_bytes :: u64 \<Rightarrow> bytes" de_word
  by unfold_locales (simp add: borsh)

interpretation borsh_u128: borsh_type "to_le_bytes :: u128 \<Rightarrow> bytes" de_word
  by unfold_locales (simp add: borsh)

interpretation borsh_id: borsh_type to_bytes de_id
  by unfold_locales (simp add: borsh)

interpretation borsh_string: borsh_type ser_string de_string
  by unfold_locales (simp add: borsh)

interpretation borsh_bool: borsh_type ser_bool de_bool
  by unfold_locales simp

context borsh_type
begin

lemma parse_option: "length (ser_option ser x) < 2 ^ 32 \<Longrightarrow>
    de_option de (ser_option ser x @ rest) = Some (x, rest)"
  by (cases x) (simp_all add: parse)

end

interpretation borsh_id_option: borsh_type "ser_option to_bytes" "de_option de_id"
  by unfold_locales (rule borsh_id.parse_option)

lemma de_id_option_parse [borsh]: "de_option de_id (ser_option to_bytes x @ r) = Some (x, r)"
  by (cases x) (simp_all add: borsh)

section \<open>Sizes\<close>

text \<open>A fixed-size type consumes its size; the leading word of data that starts with an identifier.\<close>

lemma de_bind_SomeE:
  assumes "de_bind p k bs = Some z"
  obtains x r where "p bs = Some (x, r)" "k x r = Some z"
  using assms by (auto simp: de_bind_def split: option.splits)

lemma de_id_consumes: "de_id bs = Some (i, r) \<Longrightarrow> length bs = 32 + length r"
  by (auto simp: de_id_def split: if_splits)

lemma de_word_consumes: "(de_word bs :: ('a::len word \<times> bytes) option) = Some (w, r) \<Longrightarrow>
    length bs = LENGTH('a) div 8 + length r"
  by (auto simp: de_word_def split: if_splits)

lemma de_bool_consumes: "de_bool bs = Some (b, r) \<Longrightarrow> length bs = 1 + length r"
  by (cases bs) (auto split: if_splits)

definition leading_word :: "bytes \<Rightarrow> u256" where
  "leading_word bs = from_le_bytes (rev (take 32 bs))"

lemma leading_word_id [simp]: "leading_word (to_bytes a @ r) = a"
  using from_to_le_bytes [of a] by (simp add: leading_word_def to_bytes_def to_be_bytes_def)

section \<open>Account data\<close>

text \<open>\<^theory_text>\<open>Data\<close> holds at most 100 KiB; decoding consumes the whole slice.\<close>

definition data_max_length :: nat where
  "data_max_length = 102400"

definition borsh_codec :: "('a \<Rightarrow> bytes) \<Rightarrow> 'a parser \<Rightarrow> ('a, bytes) codec" where
  "borsh_codec ser de =
    \<lparr> encode = (\<lambda>x. if length (ser x) \<le> data_max_length then Some (ser x) else None),
      decode = (\<lambda>bs. case de bs of Some (x, []) \<Rightarrow> Some x | _ \<Rightarrow> None) \<rparr>"

lemma borsh_codec_simps [simp]:
  "encode (borsh_codec ser de) x = (if length (ser x) \<le> data_max_length then Some (ser x) else None)"
  "decode (borsh_codec ser de) bs = (case de bs of Some (x, []) \<Rightarrow> Some x | _ \<Rightarrow> None)"
  by (simp_all add: borsh_codec_def)

context borsh_type
begin

lemma codec: "codec_laws (borsh_codec ser de)"
  by unfold_locales (auto simp: data_max_length_def parse_exact split: if_splits)

end

end
