(* ===== verification/Token_Core.thy ===== *)
theory Token_Core
  imports Lee
begin

text \<open>
  The data of the Token program (\<^theory_text>\<open>programs/token/core/src/lib.rs\<close>): its instruction enum, the
  account types it stores, and the constructors of empty holdings.  A Rust \<^theory_text>\<open>String\<close> is its list
  of UTF-8 bytes.
\<close>

type_synonym rust_string = bytes

datatype new_token_definition =
    NewFungible (name: rust_string) (initial_supply: u128) (mint_authority: "account_id option")
  | NewNonFungible (name: rust_string) (initial_printable: u128)

datatype token_definition =
    DefFungible (def_name: rust_string) (total_supply: u128) (def_metadata: "account_id option")
      (authority: "account_id option")
  | DefNonFungible (def_name: rust_string) (printable_supply: u128) (def_metadata_id: account_id)

datatype token_holding =
    Fungible (definition_id: account_id) (holding_balance: u128)
  | NftMaster (definition_id: account_id) (print_balance: u128)
  | NftPrintedCopy (definition_id: account_id) (owned: bool)

datatype metadata_standard = Simple | Expanded

record new_token_metadata =
  new_standard :: metadata_standard
  new_uri :: rust_string
  new_creators :: rust_string

record token_metadata =
  metadata_definition_id :: account_id
  standard :: metadata_standard
  uri :: rust_string
  creators :: rust_string
  primary_sale_date :: u64

datatype token_instruction =
    Transfer (amount_to_transfer: u128)
  | NewFungibleDefinition rust_string u128 "account_id option"
  | NewDefinitionWithMetadata new_token_definition new_token_metadata
  | InitializeAccount
  | Burn (amount_to_burn: u128)
  | Mint (amount_to_mint: u128)
  | MintWithAuthority (amount_to_mint: u128)
  | PrintNft
  | SetAuthority (new_authority: "account_id option")
  | SetAuthorityWithAuthority (new_authority: "account_id option")

fun zeroized_clone_from :: "token_holding \<Rightarrow> token_holding" where
  "zeroized_clone_from (Fungible d b) = Fungible d 0"
| "zeroized_clone_from (NftMaster d p) = NftMaster d 0"
| "zeroized_clone_from (NftPrintedCopy d ow) = NftPrintedCopy d False"

fun zeroized_from_definition :: "account_id \<Rightarrow> token_definition \<Rightarrow> token_holding" where
  "zeroized_from_definition i (DefFungible n s m a) = Fungible i 0"
| "zeroized_from_definition i (DefNonFungible n p m) = NftPrintedCopy i False"

text \<open>The codecs of the three account types: Borsh, a parameter of the model.\<close>

record 'd token_env = "'d lee_env" +
  definition_codec :: "(token_definition, 'd) codec"
  holding_codec :: "(token_holding, 'd) codec"
  metadata_codec :: "(token_metadata, 'd) codec"

section \<open>What a holding is worth\<close>

text \<open>
  The abstract quantities the ledger preserves: the units a holding carries of its definition
  (a fungible balance, the prints left of an NFT master, one for an owned printed copy) and the
  supply a definition records.
\<close>

fun units :: "token_holding \<Rightarrow> nat" where
  "units (Fungible d b) = unat b"
| "units (NftMaster d p) = unat p"
| "units (NftPrintedCopy d ow) = (if ow then 1 else 0)"

fun recorded_supply :: "token_definition \<Rightarrow> nat" where
  "recorded_supply (DefFungible n s m a) = unat s"
| "recorded_supply (DefNonFungible n p m) = unat p"

lemma definition_id_zeroized_clone [simp]:
  "definition_id (zeroized_clone_from h) = definition_id h"
  by (cases h) simp_all

lemma units_zeroized_clone [simp]: "units (zeroized_clone_from h) = 0"
  by (cases h) simp_all

lemma definition_id_zeroized_from_definition [simp]:
  "definition_id (zeroized_from_definition i d) = i"
  by (cases d) simp_all

lemma units_zeroized_from_definition [simp]: "units (zeroized_from_definition i d) = 0"
  by (cases d) simp_all

end
