(* ===== verification/Token.thy ===== *)
theory Token
  imports Token_Core
begin

text \<open>
  The handlers of the Token program, one definition per function of \<^theory_text>\<open>programs/token/src\<close>, and the
  guest dispatch of \<^theory_text>\<open>programs/token/methods/guest/src/bin/token.rs\<close>.
\<close>

section \<open>Storing\<close>

text \<open>\<^theory_text>\<open>Data::from(&definition)\<close>, \<^theory_text>\<open>Data::from(&holding)\<close>, \<^theory_text>\<open>Data::from(&metadata)\<close>.\<close>

definition definition_data :: "('d, 'x) token_env_scheme \<Rightarrow> token_definition \<Rightarrow> 'd outcome" where
  "definition_data E x =
    expect ''Token definition encoded data should fit into Data'' (encode (definition_codec E) x) Inr"

definition holding_data :: "('d, 'x) token_env_scheme \<Rightarrow> token_holding \<Rightarrow> 'd outcome" where
  "holding_data E x =
    expect ''Token holding encoded data should fit into Data'' (encode (holding_codec E) x) Inr"

definition metadata_data :: "('d, 'x) token_env_scheme \<Rightarrow> token_metadata \<Rightarrow> 'd outcome" where
  "metadata_data E x =
    expect ''Token metadata encoded data should fit into Data'' (encode (metadata_codec E) x) Inr"

section \<open>transfer.rs\<close>

text \<open>The match on the two holdings: the pair of updated holdings.\<close>

fun move_balance :: "token_holding \<Rightarrow> token_holding \<Rightarrow> u128 \<Rightarrow> (token_holding \<times> token_holding) outcome" where
  "move_balance (Fungible d1 sender_balance) (Fungible d2 recipient_balance) balance_to_move =
    expect ''Insufficient balance'' (checked_sub sender_balance balance_to_move) (\<lambda>sender_balance'.
    expect ''Recipient balance overflow'' (checked_add recipient_balance balance_to_move) (\<lambda>recipient_balance'.
    Inr (Fungible d1 sender_balance', Fungible d2 recipient_balance')))"
| "move_balance (NftMaster d1 sender_print_balance) (NftMaster d2 recipient_print_balance) balance_to_move =
    ensure (recipient_print_balance = 0) ''Invalid balance in recipient account for NFT transfer'' (
    ensure (sender_print_balance = balance_to_move) ''Invalid balance for NFT Master transfer'' (
    Inr (NftMaster d1 recipient_print_balance, NftMaster d2 sender_print_balance)))"
| "move_balance (NftPrintedCopy d1 sender_owned) (NftPrintedCopy d2 recipient_owned) balance_to_move =
    ensure (balance_to_move = 1) ''Invalid balance for NFT Printed Copy transfer'' (
    ensure sender_owned ''Sender does not own the NFT Printed Copy'' (
    ensure (\<not> recipient_owned) ''Recipient already owns the NFT Printed Copy'' (
    Inr (NftPrintedCopy d1 False, NftPrintedCopy d2 True))))"
| "move_balance sender_holding recipient_holding balance_to_move =
    Inl (Panic ''Mismatched token holding types for transfer'')"

definition transfer ::
  "('d, 'x) token_env_scheme \<Rightarrow> 'd account_with_metadata \<Rightarrow> 'd account_with_metadata \<Rightarrow> u128 \<Rightarrow>
    'd state_diff list outcome" where
  "transfer E sender recipient balance_to_move =
    ensure (is_authorized sender) ''Sender authorization is missing'' (
    expect ''Invalid sender data'' (decode (holding_codec E) (data (account sender))) (\<lambda>sender_holding.
    attempt (if account recipient = account_default E then Inr (zeroized_clone_from sender_holding)
             else expect ''Invalid recipient data''
                    (decode (holding_codec E) (data (account recipient))) Inr) (\<lambda>recipient_holding.
    ensure (definition_id sender_holding = definition_id recipient_holding)
      ''Sender and recipient definition id mismatch'' (
    attempt (move_balance sender_holding recipient_holding balance_to_move)
      (\<lambda>(sender_holding', recipient_holding').
    attempt (holding_data E sender_holding') (\<lambda>sender_data.
    attempt (holding_data E recipient_holding') (\<lambda>recipient_data.
    Inr [NewData sender (Add 0) sender_data, NewData recipient (Add 0) recipient_data])))))))"

section \<open>initialize.rs\<close>

definition initialize_account ::
  "('d, 'x) token_env_scheme \<Rightarrow> 'd account_with_metadata \<Rightarrow> 'd account_with_metadata \<Rightarrow> account_id \<Rightarrow>
    'd state_diff list outcome" where
  "initialize_account E definition_account account_to_initialize token_program_id =
    ensure (account account_to_initialize = account_default E)
      ''Only Uninitialized accounts can be initialized'' (
    ensure (is_authorized account_to_initialize) ''Account to initialize must be authorized'' (
    ensure (program_owner (account definition_account) = token_program_id)
      ''Token definition must be owned by token program'' (
    expect ''Definition account must be valid''
      (decode (definition_codec E) (data (account definition_account))) (\<lambda>defn.
    attempt (holding_data E (zeroized_from_definition (account_id definition_account) defn)) (\<lambda>holding.
    Inr [Unchanged definition_account, NewData account_to_initialize (Add 0) holding])))))"

section \<open>mint.rs\<close>

text \<open>The account that proves authority: the external one when given, else the definition itself.\<close>

definition authority_ref ::
  "'d account_with_metadata \<Rightarrow> 'd account_with_metadata option \<Rightarrow> 'd account_with_metadata" where
  "authority_ref definition_account authority_account =
    (case authority_account of Some a \<Rightarrow> a | None \<Rightarrow> definition_account)"

fun check_mint_authority ::
  "'d account_with_metadata \<Rightarrow> 'd account_with_metadata option \<Rightarrow> token_definition \<Rightarrow> unit outcome" where
  "check_mint_authority definition_account authority_account (DefFungible n s m stored_authority) =
    expect ''Mint authority check failed: authority revoked, supply is fixed'' stored_authority
      (\<lambda>current_authority.
    ensure (is_authorized (authority_ref definition_account authority_account))
      ''Mint authority must authorize the transaction'' (
    ensure (account_id (authority_ref definition_account authority_account) = current_authority)
      ''Mint authority check failed: signer is not the current authority'' (Inr ())))"
| "check_mint_authority definition_account authority_account (DefNonFungible n p m) = Inr ()"

fun add_supply :: "token_definition \<Rightarrow> token_holding \<Rightarrow> u128 \<Rightarrow> (token_definition \<times> token_holding) outcome" where
  "add_supply (DefFungible n s m a) (Fungible d b) amount =
    expect ''Balance overflow on minting'' (checked_add b amount) (\<lambda>b'.
    expect ''Total supply overflow'' (checked_add s amount) (\<lambda>s'.
    Inr (DefFungible n s' m a, Fungible d b')))"
| "add_supply (DefNonFungible n p m) (NftMaster d b) amount =
    Inl (Panic ''Cannot mint additional supply for Non-Fungible Tokens'')"
| "add_supply (DefNonFungible n p m) (NftPrintedCopy d ow) amount =
    Inl (Panic ''Cannot mint additional supply for Non-Fungible Tokens'')"
| "add_supply defn holding amount =
    Inl (Panic ''Mismatched Token Definition and Token Holding types'')"

definition mint_inner ::
  "('d, 'x) token_env_scheme \<Rightarrow> 'd account_with_metadata \<Rightarrow> 'd account_with_metadata \<Rightarrow>
    'd account_with_metadata option \<Rightarrow> u128 \<Rightarrow> account_id \<Rightarrow> 'd state_diff list outcome" where
  "mint_inner E definition_account user_holding_account authority_account amount token_program_id =
    ensure (program_owner (account definition_account) = token_program_id)
      ''Token definition must be owned by token program'' (
    expect ''Token Definition account must be valid''
      (decode (definition_codec E) (data (account definition_account))) (\<lambda>defn.
    attempt (check_mint_authority definition_account authority_account defn) (\<lambda>_.
    attempt (if account user_holding_account = account_default E
             then Inr (zeroized_from_definition (account_id definition_account) defn)
             else expect ''Token Holding account must be valid''
                    (decode (holding_codec E) (data (account user_holding_account))) Inr) (\<lambda>holding.
    ensure (account_id definition_account = definition_id holding)
      ''Mismatch Token Definition and Token Holding'' (
    attempt (add_supply defn holding amount) (\<lambda>(defn', holding').
    attempt (definition_data E defn') (\<lambda>definition_post.
    attempt (holding_data E holding') (\<lambda>holding_post.
    Inr ([NewData definition_account (Add 0) definition_post,
          NewData user_holding_account (Add 0) holding_post] @
         (case authority_account of Some a \<Rightarrow> [Unchanged a] | None \<Rightarrow> []))))))))))"

definition mint ::
  "('d, 'x) token_env_scheme \<Rightarrow> 'd account_with_metadata \<Rightarrow> 'd account_with_metadata \<Rightarrow> u128 \<Rightarrow>
    account_id \<Rightarrow> 'd state_diff list outcome" where
  "mint E definition_account user_holding_account amount token_program_id =
    mint_inner E definition_account user_holding_account None amount token_program_id"

definition mint_with_authority ::
  "('d, 'x) token_env_scheme \<Rightarrow> 'd account_with_metadata \<Rightarrow> 'd account_with_metadata \<Rightarrow>
    'd account_with_metadata \<Rightarrow> u128 \<Rightarrow> account_id \<Rightarrow> 'd state_diff list outcome" where
  "mint_with_authority E definition_account user_holding_account authority_account amount token_program_id =
    mint_inner E definition_account user_holding_account (Some authority_account) amount token_program_id"

section \<open>burn.rs\<close>

fun remove_supply :: "token_definition \<Rightarrow> token_holding \<Rightarrow> u128 \<Rightarrow> (token_definition \<times> token_holding) outcome" where
  "remove_supply (DefFungible n s m a) (Fungible d b) amount =
    expect ''Insufficient balance to burn'' (checked_sub b amount) (\<lambda>b'.
    expect ''Total supply underflow'' (checked_sub s amount) (\<lambda>s'.
    Inr (DefFungible n s' m a, Fungible d b')))"
| "remove_supply (DefNonFungible n p m) (NftMaster d b) amount =
    expect ''Printable supply underflow'' (checked_sub p amount) (\<lambda>p'.
    expect ''Insufficient balance to burn'' (checked_sub b amount) (\<lambda>b'.
    Inr (DefNonFungible n p' m, NftMaster d b')))"
| "remove_supply (DefNonFungible n p m) (NftPrintedCopy d ow) amount =
    ensure (amount = 1) ''Invalid balance to burn for NFT Printed Copy'' (
    ensure ow ''Cannot burn unowned NFT Printed Copy'' (
    expect ''Printable supply underflow'' (checked_sub p 1) (\<lambda>p'.
    Inr (DefNonFungible n p' m, NftPrintedCopy d False))))"
| "remove_supply defn holding amount =
    Inl (Panic ''Mismatched Token Definition and Token Holding types'')"

definition burn ::
  "('d, 'x) token_env_scheme \<Rightarrow> 'd account_with_metadata \<Rightarrow> 'd account_with_metadata \<Rightarrow> u128 \<Rightarrow>
    'd state_diff list outcome" where
  "burn E definition_account user_holding_account amount =
    ensure (is_authorized user_holding_account) ''Authorization is missing'' (
    expect ''Token Definition account must be valid''
      (decode (definition_codec E) (data (account definition_account))) (\<lambda>defn.
    expect ''Token Holding account must be valid''
      (decode (holding_codec E) (data (account user_holding_account))) (\<lambda>holding.
    ensure (account_id definition_account = definition_id holding)
      ''Mismatch Token Definition and Token Holding'' (
    attempt (remove_supply defn holding amount) (\<lambda>(defn', holding').
    attempt (definition_data E defn') (\<lambda>definition_post.
    attempt (holding_data E holding') (\<lambda>holding_post.
    Inr [NewData definition_account (Add 0) definition_post,
         NewData user_holding_account (Add 0) holding_post])))))))"

section \<open>set_authority.rs\<close>

text \<open>\<^theory_text>\<open>id.value() != &[0u8; 32]\<close>: an all-zero identifier cannot be a signer.\<close>

definition non_zero_authority :: "account_id option \<Rightarrow> bool" where
  "non_zero_authority a = (case a of Some i \<Rightarrow> i \<noteq> 0 | None \<Rightarrow> True)"

fun rotate_authority ::
  "'d account_with_metadata \<Rightarrow> 'd account_with_metadata option \<Rightarrow> account_id option \<Rightarrow>
    token_definition \<Rightarrow> token_definition outcome" where
  "rotate_authority definition_account authority_account new (DefFungible n s m stored_authority) =
    expect ''SetAuthority failed: authority already revoked'' stored_authority (\<lambda>current.
    ensure (is_authorized (authority_ref definition_account authority_account))
      ''Mint authority must authorize the transaction'' (
    ensure (account_id (authority_ref definition_account authority_account) = current)
      ''SetAuthority failed: signer is not the current authority'' (
    ensure (non_zero_authority new) ''New mint authority must be a valid non-zero account ID'' (
    Inr (DefFungible n s m new)))))"
| "rotate_authority definition_account authority_account new (DefNonFungible n p m) =
    Inl (Panic ''SetAuthority is not supported for Non-Fungible Tokens'')"

definition set_authority_inner ::
  "('d, 'x) token_env_scheme \<Rightarrow> 'd account_with_metadata \<Rightarrow> 'd account_with_metadata option \<Rightarrow>
    account_id option \<Rightarrow> account_id \<Rightarrow> 'd state_diff list outcome" where
  "set_authority_inner E definition_account authority_account new token_program_id =
    ensure (program_owner (account definition_account) = token_program_id)
      ''Token definition must be owned by token program'' (
    expect ''Token Definition account must be valid''
      (decode (definition_codec E) (data (account definition_account))) (\<lambda>defn.
    attempt (rotate_authority definition_account authority_account new defn) (\<lambda>defn'.
    attempt (definition_data E defn') (\<lambda>definition_post.
    Inr (NewData definition_account (Add 0) definition_post #
         (case authority_account of Some a \<Rightarrow> [Unchanged a] | None \<Rightarrow> []))))))"

definition set_authority ::
  "('d, 'x) token_env_scheme \<Rightarrow> 'd account_with_metadata \<Rightarrow> account_id option \<Rightarrow> account_id \<Rightarrow>
    'd state_diff list outcome" where
  "set_authority E definition_account new token_program_id =
    set_authority_inner E definition_account None new token_program_id"

definition set_authority_with_authority ::
  "('d, 'x) token_env_scheme \<Rightarrow> 'd account_with_metadata \<Rightarrow> 'd account_with_metadata \<Rightarrow>
    account_id option \<Rightarrow> account_id \<Rightarrow> 'd state_diff list outcome" where
  "set_authority_with_authority E definition_account authority_account new token_program_id =
    set_authority_inner E definition_account (Some authority_account) new token_program_id"

section \<open>new_definition.rs\<close>

definition validate_mint_authority :: "account_id option \<Rightarrow> account_id option outcome" where
  "validate_mint_authority mint_auth =
    ensure (non_zero_authority mint_auth) ''Mint authority must be a valid non-zero account ID'' (
    Inr mint_auth)"

definition new_fungible_definition ::
  "('d, 'x) token_env_scheme \<Rightarrow> 'd account_with_metadata \<Rightarrow> 'd account_with_metadata \<Rightarrow>
    rust_string \<Rightarrow> u128 \<Rightarrow> account_id option \<Rightarrow> 'd state_diff list outcome" where
  "new_fungible_definition E definition_target_account holding_target_account nm total_amount mint_auth =
    ensure (account definition_target_account = account_default E)
      ''Definition target account must have default values'' (
    ensure (account holding_target_account = account_default E)
      ''Holding target account must have default values'' (
    ensure (is_authorized definition_target_account)
      ''Definition target account must be authorized'' (
    ensure (is_authorized holding_target_account)
      ''Holding target account must be authorized'' (
    attempt (validate_mint_authority mint_auth) (\<lambda>valid_authority.
    attempt (definition_data E (DefFungible nm total_amount None valid_authority)) (\<lambda>definition_post.
    attempt (holding_data E (Fungible (account_id definition_target_account) total_amount)) (\<lambda>holding_post.
    Inr [NewData definition_target_account (Add 0) definition_post,
         NewData holding_target_account (Add 0) holding_post])))))))"

fun build_definition ::
  "account_id \<Rightarrow> account_id \<Rightarrow> new_token_definition \<Rightarrow> (token_definition \<times> token_holding) outcome" where
  "build_definition definition_target metadata_target (NewFungible nm total_amount mint_auth) =
    attempt (validate_mint_authority mint_auth) (\<lambda>valid_authority.
    Inr (DefFungible nm total_amount (Some metadata_target) valid_authority, Fungible definition_target total_amount))"
| "build_definition definition_target metadata_target (NewNonFungible nm printable) =
    Inr (DefNonFungible nm printable metadata_target, NftMaster definition_target printable)"

definition new_definition_with_metadata ::
  "('d, 'x) token_env_scheme \<Rightarrow> 'd account_with_metadata \<Rightarrow> 'd account_with_metadata \<Rightarrow>
    'd account_with_metadata \<Rightarrow> new_token_definition \<Rightarrow> new_token_metadata \<Rightarrow> 'd state_diff list outcome" where
  "new_definition_with_metadata E definition_target_account holding_target_account
      metadata_target_account new_definition metadata =
    ensure (account definition_target_account = account_default E)
      ''Definition target account must have default values'' (
    ensure (account holding_target_account = account_default E)
      ''Holding target account must have default values'' (
    ensure (account metadata_target_account = account_default E)
      ''Metadata target account must have default values'' (
    ensure (is_authorized definition_target_account)
      ''Definition target account must be authorized'' (
    ensure (is_authorized holding_target_account)
      ''Holding target account must be authorized'' (
    ensure (is_authorized metadata_target_account)
      ''Metadata target account must be authorized'' (
    attempt (build_definition (account_id definition_target_account)
               (account_id metadata_target_account) new_definition) (\<lambda>(defn, holding).
    attempt (definition_data E defn) (\<lambda>definition_post.
    attempt (holding_data E holding) (\<lambda>holding_post.
    attempt (metadata_data E
      \<lparr> metadata_definition_id = account_id definition_target_account,
        standard = new_standard metadata,
        uri = new_uri metadata,
        creators = new_creators metadata,
        primary_sale_date = 0 \<rparr>) (\<lambda>metadata_post.
    Inr [NewData definition_target_account (Add 0) definition_post,
         NewData holding_target_account (Add 0) holding_post,
         NewData metadata_target_account (Add 0) metadata_post]))))))))))"

section \<open>print_nft.rs\<close>

definition print_nft ::
  "('d, 'x) token_env_scheme \<Rightarrow> 'd account_with_metadata \<Rightarrow> 'd account_with_metadata \<Rightarrow>
    'd state_diff list outcome" where
  "print_nft E master_account printed_account =
    ensure (is_authorized master_account) ''Master NFT Account must be authorized'' (
    ensure (account printed_account = account_default E) ''Printed Account must be uninitialized'' (
    ensure (is_authorized printed_account) ''Printed Account must be authorized'' (
    expect ''Invalid Token Holding data''
      (decode (holding_codec E) (data (account master_account))) (\<lambda>master_account_data.
    (case master_account_data of
       NftMaster defn_id prints \<Rightarrow>
         ensure (1 < prints) ''Insufficient balance to print another NFT copy'' (
         expect ''print balance must be greater than one after validation'' (checked_sub prints 1) (\<lambda>prints'.
         attempt (holding_data E (NftMaster defn_id prints')) (\<lambda>master_post.
         attempt (holding_data E (NftPrintedCopy defn_id True)) (\<lambda>printed_post.
         Inr [NewData master_account (Add 0) master_post,
              NewData printed_account (Add 0) printed_post]))))
     | _ \<Rightarrow> Inl (Panic ''Invalid Token Holding provided as NFT Master Account''))))))"

section \<open>The guest\<close>

text \<open>
  The generated entry point: it dispatches on the instruction, binds the accounts in order,
  validates their attributes (\<^theory_text>\<open>spel_validate\<close>) and calls the handler.  The Token program emits no
  chained calls.
\<close>

definition token_main ::
  "('d, 'x) token_env_scheme \<Rightarrow> account_id \<Rightarrow> token_instruction \<Rightarrow> 'd account_with_metadata list \<Rightarrow>
    'd state_diff list outcome" where
  "token_main E self_account_id instruction accounts =
    (case (instruction, accounts) of
       (Transfer amount, [sender, recipient]) \<Rightarrow>
         ensure (spel_validate E [([Mut, Signer], sender), ([Mut], recipient)]) ''account validation failed'' (
         transfer E sender recipient amount)
     | (NewFungibleDefinition nm total_amount mint_auth, [defn, holding]) \<Rightarrow>
         ensure (spel_validate E [([Init, Signer], defn), ([Init, Signer], holding)])
           ''account validation failed'' (
         new_fungible_definition E defn holding nm total_amount mint_auth)
     | (NewDefinitionWithMetadata new_defn new_meta, [defn, holding, meta]) \<Rightarrow>
         ensure (spel_validate E [([Init, Signer], defn), ([Init, Signer], holding), ([Init, Signer], meta)])
           ''account validation failed'' (
         new_definition_with_metadata E defn holding meta new_defn new_meta)
     | (InitializeAccount, [defn, target]) \<Rightarrow>
         ensure (spel_validate E [([], defn), ([Init, Signer], target)]) ''account validation failed'' (
         initialize_account E defn target self_account_id)
     | (Burn amount, [defn, holding]) \<Rightarrow>
         ensure (spel_validate E [([Mut], defn), ([Mut, Signer], holding)]) ''account validation failed'' (
         burn E defn holding amount)
     | (Mint amount, [defn, holding]) \<Rightarrow>
         ensure (spel_validate E [([Mut, Signer], defn), ([Mut], holding)]) ''account validation failed'' (
         mint E defn holding amount self_account_id)
     | (MintWithAuthority amount, [defn, holding, auth]) \<Rightarrow>
         ensure (spel_validate E [([Mut], defn), ([Mut], holding), ([Signer], auth)])
           ''account validation failed'' (
         mint_with_authority E defn holding auth amount self_account_id)
     | (PrintNft, [master, printed]) \<Rightarrow>
         ensure (spel_validate E [([Mut, Signer], master), ([Init, Signer], printed)])
           ''account validation failed'' (
         print_nft E master printed)
     | (SetAuthority new, [defn]) \<Rightarrow>
         ensure (spel_validate E [([Mut, Signer], defn)]) ''account validation failed'' (
         set_authority E defn new self_account_id)
     | (SetAuthorityWithAuthority new, [defn, auth]) \<Rightarrow>
         ensure (spel_validate E [([Mut], defn), ([Signer], auth)]) ''account validation failed'' (
         set_authority_with_authority E defn auth new self_account_id)
     | _ \<Rightarrow> Inl (Panic ''wrong number of accounts''))"

end
