(* ===== verification/Token_Ledger.thy ===== *)
theory Token_Ledger
  imports Token
begin

text \<open>
  The ledger the Token program keeps: all accounts of the chain, changed by token instructions
  (under the runtime's write rule) and by everything else that runs on the chain.  The locale
  \<^theory_text>\<open>token_runtime\<close> states what the program relies on; inside it each handler is shown to balance
  the units it writes to holdings against the supply it writes to definitions, and the step
  relation is shown to keep every definition's recorded supply equal to the units in circulation.
\<close>

section \<open>Accounts and diffs\<close>

type_synonym 'd ledger = "account_id \<Rightarrow> 'd account"

definition apply_diffs ::
  "('d, 'x) lee_env_scheme \<Rightarrow> account_id \<Rightarrow> 'd ledger \<Rightarrow> 'd state_diff list \<Rightarrow> 'd ledger" where
  "apply_diffs E p s ds =
    foldl (\<lambda>s d. s (account_id (pre_state d) := post_account E p d)) s ds"

text \<open>The runtime's write rule: data is written only by the owner, or to an unowned account.\<close>

definition permitted_write :: "('d, 'x) lee_env_scheme \<Rightarrow> account_id \<Rightarrow> 'd state_diff \<Rightarrow> bool" where
  "permitted_write E p d =
    (writes_data d \<longrightarrow> default_owned E (account (pre_state d)) \<or> program_owner (account (pre_state d)) = p)"

definition reads_state :: "'d ledger \<Rightarrow> 'd account_with_metadata list \<Rightarrow> bool" where
  "reads_state s accounts =
    (distinct (map account_id accounts) \<and> list_all (\<lambda>a. account a = s (account_id a)) accounts)"

section \<open>Units and supply of an account\<close>

definition account_units ::
  "('d, 'x) token_env_scheme \<Rightarrow> account_id \<Rightarrow> account_id \<Rightarrow> 'd account \<Rightarrow> nat" where
  "account_units E T D a =
    (if program_owner a = T
     then case decode (holding_codec E) (data a) of
            Some h \<Rightarrow> if definition_id h = D then units h else 0
          | None \<Rightarrow> 0
     else 0)"

definition account_supply ::
  "('d, 'x) token_env_scheme \<Rightarrow> account_id \<Rightarrow> 'd account \<Rightarrow> nat" where
  "account_supply E T a =
    (if program_owner a = T
     then case decode (definition_codec E) (data a) of Some f \<Rightarrow> recorded_supply f | None \<Rightarrow> 0
     else 0)"

definition circulating :: "('d, 'x) token_env_scheme \<Rightarrow> account_id \<Rightarrow> 'd ledger \<Rightarrow> account_id \<Rightarrow> nat" where
  "circulating E T s D = (\<Sum>i\<in>UNIV. account_units E T D (s i))"

section \<open>Steps\<close>

text \<open>
  No written data reads both as a definition and as a holding, and the metadata a token is
  created with reads as neither: the account types carry no tag that would rule it out.
\<close>

definition unambiguous :: "('d, 'x) token_env_scheme \<Rightarrow> 'd \<Rightarrow> bool" where
  "unambiguous E d = (decode (definition_codec E) d = None \<or> decode (holding_codec E) d = None)"

definition unambiguous_writes ::
  "('d, 'x) token_env_scheme \<Rightarrow> token_instruction \<Rightarrow> 'd state_diff list \<Rightarrow> bool" where
  "unambiguous_writes E instruction ds =
    (list_all (\<lambda>d. unambiguous E (post_data d)) ds \<and>
     (case (instruction, ds) of
        (NewDefinitionWithMetadata f m, [df, dh, dm]) \<Rightarrow>
          decode (definition_codec E) (post_data dm) = None \<and> decode (holding_codec E) (post_data dm) = None
      | _ \<Rightarrow> True))"

inductive token_step ::
  "('d, 'x) token_env_scheme \<Rightarrow> account_id \<Rightarrow> 'd ledger \<Rightarrow> 'd ledger \<Rightarrow> bool" for E T where
  run: "\<lbrakk> reads_state s accounts;
          token_main E T instruction accounts = Inr ds;
          list_all (permitted_write E T) ds;
          unambiguous_writes E instruction ds \<rbrakk>
        \<Longrightarrow> token_step E T s (apply_diffs E T s ds)"
| other: "\<lbrakk> \<And>i. program_owner (s i) = T \<Longrightarrow> program_owner (s' i) = T \<and> data (s' i) = data (s i);
            \<And>i. program_owner (s' i) = T \<Longrightarrow> program_owner (s i) = T;
            \<And>i. default_owned E (s' i) \<Longrightarrow> data (s' i) = data (account_default E) \<rbrakk>
        \<Longrightarrow> token_step E T s s'"

inductive ledger_reachable ::
  "('d, 'x) token_env_scheme \<Rightarrow> account_id \<Rightarrow> 'd ledger \<Rightarrow> 'd ledger \<Rightarrow> bool" for E T s0 where
  start: "ledger_reachable E T s0 s0"
| step: "ledger_reachable E T s0 s \<Longrightarrow> token_step E T s s' \<Longrightarrow> ledger_reachable E T s0 s'"

definition ledger_ok :: "('d, 'x) token_env_scheme \<Rightarrow> account_id \<Rightarrow> 'd ledger \<Rightarrow> bool" where
  "ledger_ok E T s \<longleftrightarrow>
    (\<forall>i. default_owned E (s i) \<longrightarrow> data (s i) = data (account_default E)) \<and>
    (\<forall>i. program_owner (s i) = T \<longrightarrow> unambiguous E (data (s i))) \<and>
    (\<forall>D. circulating E T s D = account_supply E T (s D))"

text \<open>A token instruction reports the accounts it was given.\<close>

lemma token_main_mirrors:
  assumes "token_main E T instruction accounts = Inr ds"
  shows "map pre_state ds = accounts"
proof -
  have print: "map pre_state ds = [a, b]" if "print_nft E a b = Inr ds" for a b
  proof -
    from that obtain m where "decode (holding_codec E) (data (account a)) = Some m"
      by (auto simp: print_nft_def success)
    with that show ?thesis
      by (cases m) (auto simp: print_nft_def success)
  qed
  show ?thesis
    using assms
    by (auto simp: token_main_def success print transfer_def initialize_account_def mint_def
        mint_with_authority_def mint_inner_def burn_def set_authority_def
        set_authority_with_authority_def set_authority_inner_def new_fungible_definition_def
        new_definition_with_metadata_def
        split: token_instruction.splits list.splits)
qed

section \<open>Sums over the ledger\<close>

lemma apply_diffs_Nil [simp]: "apply_diffs E p s [] = s"
  by (simp add: apply_diffs_def)

lemma apply_diffs_Cons [simp]:
  "apply_diffs E p s (d # ds) = apply_diffs E p (s (account_id (pre_state d) := post_account E p d)) ds"
  by (simp add: apply_diffs_def)

lemma apply_diffs_other:
  "i \<notin> (account_id \<circ> pre_state) ` set ds \<Longrightarrow> apply_diffs E p s ds i = s i"
  by (induction ds arbitrary: s) auto

lemma apply_diffs_at:
  "distinct (map (account_id \<circ> pre_state) ds) \<Longrightarrow> d \<in> set ds \<Longrightarrow>
    apply_diffs E p s ds (account_id (pre_state d)) = post_account E p d"
  by (induction ds arbitrary: s) (auto simp: apply_diffs_other)

lemma apply_diffs_cases:
  assumes "distinct (map (account_id \<circ> pre_state) ds)"
  obtains (same) "apply_diffs E p s ds i = s i"
    | (written) d where "d \<in> set ds" "i = account_id (pre_state d)"
        "apply_diffs E p s ds i = post_account E p d"
proof (cases "i \<in> (account_id \<circ> pre_state) ` set ds")
  case True
  then obtain d where "d \<in> set ds" "i = account_id (pre_state d)"
    by auto
  then show ?thesis
    using written apply_diffs_at [OF assms] by blast
next
  case False
  then show ?thesis
    using same apply_diffs_other by blast
qed

text \<open>The total of a per-account quantity moves by what the diffs move.\<close>

lemma sum_apply_diffs:
  fixes f :: "account_id \<Rightarrow> 'd account \<Rightarrow> nat"
  assumes "distinct (map (account_id \<circ> pre_state) ds)"
    and "\<And>d. d \<in> set ds \<Longrightarrow> account (pre_state d) = s (account_id (pre_state d))"
  shows "(\<Sum>i\<in>UNIV. f i (apply_diffs E p s ds i)) +
           (\<Sum>d\<leftarrow>ds. f (account_id (pre_state d)) (account (pre_state d))) =
         (\<Sum>i\<in>UNIV. f i (s i)) + (\<Sum>d\<leftarrow>ds. f (account_id (pre_state d)) (post_account E p d))"
  using assms
proof (induction ds arbitrary: s)
  case (Cons d ds)
  define k where "k = account_id (pre_state d)"
  define s1 where "s1 = s (k := post_account E p d)"
  have pre: "account (pre_state d) = s k"
    using Cons.prems(2) [of d] by (simp add: k_def)
  have "account (pre_state e) = s1 (account_id (pre_state e))" if "e \<in> set ds" for e
    using that Cons.prems(1) Cons.prems(2) [of e] by (auto simp: s1_def k_def image_iff)
  with Cons.IH [of s1] Cons.prems(1)
  have IH: "(\<Sum>i\<in>UNIV. f i (apply_diffs E p s1 ds i)) +
      (\<Sum>d\<leftarrow>ds. f (account_id (pre_state d)) (account (pre_state d))) =
      (\<Sum>i\<in>UNIV. f i (s1 i)) + (\<Sum>d\<leftarrow>ds. f (account_id (pre_state d)) (post_account E p d))"
    by simp
  have "(\<Sum>i\<in>UNIV. f i (s1 i)) + f k (s k) = (\<Sum>i\<in>UNIV. f i (s i)) + f k (post_account E p d)"
    by (simp add: s1_def sum.remove [of UNIV k])
  with IH pre show ?case
    by (simp add: s1_def k_def)
qed simp

section \<open>What the handlers do to units and supply\<close>

lemma move_balance_units:
  assumes "move_balance h1 h2 n = Inr (h1', h2')"
  shows "definition_id h1' = definition_id h1" "definition_id h2' = definition_id h2"
    and "units h1' + units h2' = units h1 + units h2"
  using assms by (cases "(h1, h2, n)" rule: move_balance.cases; auto simp: success checked)+

lemma add_supply_units:
  assumes "add_supply f h n = Inr (f', h')"
  shows "definition_id h' = definition_id h"
    and "units h' = units h + unat n" "recorded_supply f' = recorded_supply f + unat n"
  using assms by (cases "(f, h, n)" rule: add_supply.cases; auto simp: success checked)+

lemma remove_supply_units:
  assumes "remove_supply f h n = Inr (f', h')"
  shows "definition_id h' = definition_id h"
    and "units h = units h' + unat n" "recorded_supply f = recorded_supply f' + unat n"
  using assms by (cases "(f, h, n)" rule: remove_supply.cases; auto simp: success checked)+

lemma rotate_authority_supply:
  "rotate_authority a b new f = Inr f' \<Longrightarrow> recorded_supply f' = recorded_supply f"
  by (cases f) (auto simp: success)

lemma build_definition_units:
  "build_definition i m f = Inr (f', h') \<Longrightarrow> definition_id h' = i \<and> units h' = recorded_supply f'"
  by (cases f) (auto simp: success)

lemma encoded_success [success]:
  "definition_data E f = Inr d \<longleftrightarrow> encode (definition_codec E) f = Some d"
  "holding_data E h = Inr d \<longleftrightarrow> encode (holding_codec E) h = Some d"
  "metadata_data E m = Inr d \<longleftrightarrow> encode (metadata_codec E) m = Some d"
  by (simp_all add: definition_data_def holding_data_def metadata_data_def success)

lemmas handler_defs =
  transfer_def initialize_account_def mint_def mint_with_authority_def mint_inner_def burn_def
  set_authority_def set_authority_with_authority_def set_authority_inner_def
  new_fungible_definition_def new_definition_with_metadata_def print_nft_def

section \<open>Balanced diffs\<close>

definition diff_units ::
  "('d, 'x) token_env_scheme \<Rightarrow> account_id \<Rightarrow> account_id \<Rightarrow> 'd state_diff list \<Rightarrow> nat \<times> nat" where
  "diff_units E T D ds =
    (\<Sum>d\<leftarrow>ds. account_units E T D (account (pre_state d)),
     \<Sum>d\<leftarrow>ds. account_units E T D (post_account E T d))"

definition supply_at :: "('d, 'x) token_env_scheme \<Rightarrow> account_id \<Rightarrow> account_id \<Rightarrow> account_id \<Rightarrow> 'd account \<Rightarrow> nat" where
  "supply_at E T D i a = (if i = D then account_supply E T a else 0)"

definition diff_supply ::
  "('d, 'x) token_env_scheme \<Rightarrow> account_id \<Rightarrow> account_id \<Rightarrow> 'd state_diff list \<Rightarrow> nat \<times> nat" where
  "diff_supply E T D ds =
    (\<Sum>d\<leftarrow>ds. supply_at E T D (account_id (pre_state d)) (account (pre_state d)),
     \<Sum>d\<leftarrow>ds. supply_at E T D (account_id (pre_state d)) (post_account E T d))"

definition balanced ::
  "('d, 'x) token_env_scheme \<Rightarrow> account_id \<Rightarrow> account_id \<Rightarrow> 'd state_diff list \<Rightarrow> bool" where
  "balanced E T D ds \<longleftrightarrow>
    snd (diff_units E T D ds) + fst (diff_supply E T D ds) =
    fst (diff_units E T D ds) + snd (diff_supply E T D ds)"

lemma balanced_Nil [simp]: "balanced E T D []"
  by (simp add: balanced_def diff_units_def diff_supply_def)

lemma balanced_Unchanged [simp]: "balanced E T D (Unchanged a # ds) \<longleftrightarrow> balanced E T D ds"
  by (auto simp: balanced_def diff_units_def diff_supply_def)

lemma balanced_append_Unchanged [simp]:
  "balanced E T D (ds @ [Unchanged a]) \<longleftrightarrow> balanced E T D ds"
  by (auto simp: balanced_def diff_units_def diff_supply_def)

text \<open>An account before an instruction, in a ledger that satisfies the invariant.\<close>

definition sane :: "('d, 'x) token_env_scheme \<Rightarrow> account_id \<Rightarrow> 'd account \<Rightarrow> bool" where
  "sane E T a \<longleftrightarrow>
    (default_owned E a \<longrightarrow> data a = data (account_default E)) \<and>
    (program_owner a = T \<longrightarrow> unambiguous E (data a))"

text \<open>
  How an instruction whose accounts authorize the identifiers \<^theory_text>\<open>A\<close> may change a stored definition:
  its name, kind and metadata never, its supply upwards or its authority only under the authority.
\<close>

fun definition_evolves :: "account_id set \<Rightarrow> token_definition \<Rightarrow> token_definition \<Rightarrow> bool" where
  "definition_evolves A (DefFungible n s m a) (DefFungible n' s' m' a') \<longleftrightarrow>
    n' = n \<and> m' = m \<and> (s < s' \<or> a' \<noteq> a \<longrightarrow> (\<exists>i\<in>A. a = Some i))"
| "definition_evolves A (DefNonFungible n p m) (DefNonFungible n' p' m') \<longleftrightarrow> n' = n \<and> m' = m \<and> p' \<le> p"
| "definition_evolves A f f' \<longleftrightarrow> False"

definition authorized_ids :: "'d account_with_metadata list \<Rightarrow> account_id set" where
  "authorized_ids accounts = set (map account_id (filter is_authorized accounts))"

lemma authorized_ids_simps [simp]:
  "authorized_ids [] = {}"
  "authorized_ids (a # as) =
    (if is_authorized a then insert (account_id a) (authorized_ids as) else authorized_ids as)"
  by (simp_all add: authorized_ids_def)

text \<open>A stored holding keeps its definition, and loses units only when its account is authorized.\<close>

definition holding_evolves :: "bool \<Rightarrow> token_holding \<Rightarrow> token_holding \<Rightarrow> bool" where
  "holding_evolves authorized h h' \<longleftrightarrow>
    definition_id h' = definition_id h \<and> (units h' < units h \<longrightarrow> authorized)"

definition stored_definition ::
  "('d, 'x) token_env_scheme \<Rightarrow> account_id \<Rightarrow> 'd account \<Rightarrow> token_definition option" where
  "stored_definition E T a = (if program_owner a = T then decode (definition_codec E) (data a) else None)"

definition stored_holding ::
  "('d, 'x) token_env_scheme \<Rightarrow> account_id \<Rightarrow> 'd account \<Rightarrow> token_holding option" where
  "stored_holding E T a = (if program_owner a = T then decode (holding_codec E) (data a) else None)"

definition diff_evolves ::
  "('d, 'x) token_env_scheme \<Rightarrow> account_id \<Rightarrow> account_id set \<Rightarrow> 'd state_diff \<Rightarrow> bool" where
  "diff_evolves E T A d \<longleftrightarrow>
    (\<forall>f. stored_definition E T (account (pre_state d)) = Some f \<longrightarrow>
      (\<exists>f'. stored_definition E T (post_account E T d) = Some f' \<and> definition_evolves A f f')) \<and>
    (\<forall>h. stored_holding E T (account (pre_state d)) = Some h \<longrightarrow>
      (\<exists>h'. stored_holding E T (post_account E T d) = Some h' \<and>
            holding_evolves (is_authorized (pre_state d)) h h'))"

lemma definition_evolves_refl [simp]: "definition_evolves A f f"
  by (cases f) simp_all

lemma holding_evolves_refl [simp]: "holding_evolves b h h"
  by (simp add: holding_evolves_def)

lemma diff_evolves_Unchanged [simp]: "diff_evolves E T A (Unchanged a)"
  by (simp add: diff_evolves_def)

lemma move_balance_recipient:
  "move_balance h1 h2 n = Inr (h1', h2') \<Longrightarrow> units h2 \<le> units h2'"
  by (cases "(h1, h2, n)" rule: move_balance.cases) (auto simp: success checked)

lemma add_supply_evolves:
  "add_supply f h n = Inr (f', h') \<Longrightarrow> check_mint_authority a auth f = Inr u \<Longrightarrow>
    definition_evolves (authorized_ids [authority_ref a auth]) f f'"
  by (cases "(f, h, n)" rule: add_supply.cases) (auto simp: success)

lemma remove_supply_evolves:
  "remove_supply f h n = Inr (f', h') \<Longrightarrow> definition_evolves A f f'"
  by (cases "(f, h, n)" rule: remove_supply.cases)
    (auto simp: success checked word_less_nat_alt word_le_nat_alt)

lemma rotate_authority_evolves:
  "rotate_authority a auth new f = Inr f' \<Longrightarrow>
    definition_evolves (authorized_ids [authority_ref a auth]) f f'"
  by (cases f) (auto simp: success)

lemma definition_evolves_mono:
  "definition_evolves A f f' \<Longrightarrow> A \<subseteq> B \<Longrightarrow> definition_evolves B f f'"
  by (cases "(A, f, f')" rule: definition_evolves.cases) auto

locale token_runtime =
  fixes E :: "('d, 'x) token_env_scheme" and T :: account_id
  assumes definition_laws: "codec_laws (definition_codec E)"
    and holding_laws: "codec_laws (holding_codec E)"
    and empty_definition: "decode (definition_codec E) (data (account_default E)) = None"
    and empty_holding: "decode (holding_codec E) (data (account_default E)) = None"
    and default_is_unowned: "default_owned E (account_default E)"
    and token_is_a_program: "T \<noteq> default_program_owner E"
begin

text \<open>A diff that stores a holding with \<^theory_text>\<open>n\<close> units where \<^theory_text>\<open>k\<close> were read.\<close>

lemma holding_write:
  assumes "sane E T (account a)" "permitted_write E T (NewData a (Add 0) x)"
    and "encode (holding_codec E) h' = Some x" "unambiguous E x"
    and "(account a = account_default E \<and> k = 0) \<or>
         (\<exists>h. decode (holding_codec E) (data (account a)) = Some h \<and>
              definition_id h = definition_id h' \<and> k = units h)"
  shows "account_units E T D (post_account E T (NewData a (Add 0) x)) + (if definition_id h' = D then k else 0) =
         account_units E T D (account a) + (if definition_id h' = D then units h' else 0)"
    and "account_supply E T (account a) = 0"
    and "account_supply E T (post_account E T (NewData a (Add 0) x)) = 0"
proof -
  have dec: "decode (holding_codec E) x = Some h'"
    using codec_laws.round_trip [OF holding_laws] assms(3) .
  consider (unowned) "account a = account_default E" "k = 0" "x \<noteq> data (account a)"
    | (own) h where "program_owner (account a) = T" "decode (holding_codec E) (data (account a)) = Some h"
        "definition_id h = definition_id h'" "k = units h" "\<not> default_owned E (account a)"
    | (foreign) "program_owner (account a) \<noteq> T" "x = data (account a)" "k = units h'"
    using assms dec empty_holding default_is_unowned token_is_a_program
    by (fastforce simp: sane_def permitted_write_def default_owned_def)
  note cs = this
  show "account_units E T D (post_account E T (NewData a (Add 0) x)) + (if definition_id h' = D then k else 0) =
         account_units E T D (account a) + (if definition_id h' = D then units h' else 0)"
    using cs by cases (use dec default_is_unowned token_is_a_program in
      \<open>auto simp: account_units_def post_owner_def default_owned_def\<close>)
  show "account_supply E T (account a) = 0"
    using cs by cases (use assms(1) default_is_unowned token_is_a_program in
      \<open>auto simp: account_supply_def default_owned_def sane_def unambiguous_def split: option.splits\<close>)
  show "account_supply E T (post_account E T (NewData a (Add 0) x)) = 0"
    using dec assms(4) by (auto simp: account_supply_def unambiguous_def split: option.splits)
qed

lemma definition_write:
  assumes "sane E T (account a)" "permitted_write E T (NewData a (Add 0) x)"
    and "encode (definition_codec E) f' = Some x" "unambiguous E x"
    and "(account a = account_default E \<and> k = 0) \<or>
         (\<exists>f. decode (definition_codec E) (data (account a)) = Some f \<and> k = recorded_supply f)"
  shows "account_supply E T (post_account E T (NewData a (Add 0) x)) + k =
         account_supply E T (account a) + recorded_supply f'"
    and "account_units E T D (account a) = 0"
    and "account_units E T D (post_account E T (NewData a (Add 0) x)) = 0"
proof -
  have dec: "decode (definition_codec E) x = Some f'"
    using codec_laws.round_trip [OF definition_laws] assms(3) .
  consider (unowned) "account a = account_default E" "k = 0" "x \<noteq> data (account a)"
    | (own) f where "program_owner (account a) = T" "decode (definition_codec E) (data (account a)) = Some f"
        "k = recorded_supply f" "\<not> default_owned E (account a)"
    | (foreign) "program_owner (account a) \<noteq> T" "x = data (account a)" "k = recorded_supply f'"
    using assms dec empty_definition default_is_unowned token_is_a_program
    by (fastforce simp: sane_def permitted_write_def default_owned_def)
  note cs = this
  show "account_supply E T (post_account E T (NewData a (Add 0) x)) + k =
         account_supply E T (account a) + recorded_supply f'"
    using cs by cases (use dec default_is_unowned token_is_a_program in
      \<open>auto simp: account_supply_def post_owner_def default_owned_def\<close>)
  show "account_units E T D (account a) = 0"
    using cs by cases (use assms(1) default_is_unowned token_is_a_program in
      \<open>auto simp: account_units_def default_owned_def sane_def unambiguous_def split: option.splits\<close>)
  show "account_units E T D (post_account E T (NewData a (Add 0) x)) = 0"
    using dec assms(4) by (auto simp: account_units_def unambiguous_def split: option.splits)
qed

text \<open>Two holdings written, a definition and a holding written: the shapes the handlers produce.\<close>

lemma balanced_two_holdings:
  assumes "sane E T (account a)" "sane E T (account b)"
    and "list_all (permitted_write E T) [NewData a (Add 0) x, NewData b (Add 0) y]"
    and "list_all (\<lambda>d. unambiguous E (post_data d)) [NewData a (Add 0) x, NewData b (Add 0) y]"
    and "encode (holding_codec E) ha = Some x" "encode (holding_codec E) hb = Some y"
    and "(account a = account_default E \<and> k = 0) \<or>
         (\<exists>h. decode (holding_codec E) (data (account a)) = Some h \<and>
              definition_id h = definition_id ha \<and> k = units h)"
    and "(account b = account_default E \<and> l = 0) \<or>
         (\<exists>h. decode (holding_codec E) (data (account b)) = Some h \<and>
              definition_id h = definition_id hb \<and> l = units h)"
    and "definition_id ha = definition_id hb" "units ha + units hb = k + l"
  shows "balanced E T D [NewData a (Add 0) x, NewData b (Add 0) y]"
  using holding_write(1) [where D = D, OF assms(1) _ assms(5) _ assms(7)]
    holding_write(1) [where D = D, OF assms(2) _ assms(6) _ assms(8)]
    holding_write(2,3) [OF assms(1) _ assms(5) _ assms(7)]
    holding_write(2,3) [OF assms(2) _ assms(6) _ assms(8)] assms(3,4,9,10)
  by (auto simp: balanced_def diff_units_def diff_supply_def supply_at_def simp del: post_account.simps
      split: if_splits)

lemma balanced_definition_holding:
  assumes "sane E T (account a)" "sane E T (account b)"
    and "list_all (permitted_write E T) [NewData a (Add 0) x, NewData b (Add 0) y]"
    and "list_all (\<lambda>d. unambiguous E (post_data d)) [NewData a (Add 0) x, NewData b (Add 0) y]"
    and "encode (definition_codec E) f = Some x" "encode (holding_codec E) h = Some y"
    and "(account a = account_default E \<and> k = 0) \<or>
         (\<exists>f. decode (definition_codec E) (data (account a)) = Some f \<and> k = recorded_supply f)"
    and "(account b = account_default E \<and> l = 0) \<or>
         (\<exists>h'. decode (holding_codec E) (data (account b)) = Some h' \<and>
              definition_id h' = definition_id h \<and> l = units h')"
    and "definition_id h = account_id a" "recorded_supply f + l = units h + k"
  shows "balanced E T D [NewData a (Add 0) x, NewData b (Add 0) y]"
  using definition_write(1) [OF assms(1) _ assms(5) _ assms(7)]
    definition_write(2,3) [where D = D, OF assms(1) _ assms(5) _ assms(7)]
    holding_write(1) [where D = D, OF assms(2) _ assms(6) _ assms(8)]
    holding_write(2,3) [OF assms(2) _ assms(6) _ assms(8)] assms(3,4,9,10)
  by (auto simp: balanced_def diff_units_def diff_supply_def supply_at_def simp del: post_account.simps
      split: if_splits)

lemma balanced_holding:
  assumes "sane E T (account a)" "permitted_write E T (NewData a (Add 0) x)" "unambiguous E x"
    and "encode (holding_codec E) h = Some x" "account a = account_default E" "units h = 0"
  shows "balanced E T D [NewData a (Add 0) x]"
  using holding_write(1) [where D = D and k = 0, OF assms(1,2,4,3)]
    holding_write(2,3) [where k = 0, OF assms(1,2,4,3)] assms(5,6)
  by (auto simp: balanced_def diff_units_def diff_supply_def supply_at_def simp del: post_account.simps
      split: if_splits)

lemma balanced_definition:
  assumes "sane E T (account a)" "permitted_write E T (NewData a (Add 0) x)" "unambiguous E x"
    and "encode (definition_codec E) f' = Some x" "decode (definition_codec E) (data (account a)) = Some f"
    and "recorded_supply f' = recorded_supply f"
  shows "balanced E T D [NewData a (Add 0) x]"
  using definition_write(1) [where k = "recorded_supply f", OF assms(1,2,4,3)]
    definition_write(2,3) [where D = D and k = "recorded_supply f", OF assms(1,2,4,3)] assms(5,6)
  by (auto simp: balanced_def diff_units_def diff_supply_def supply_at_def simp del: post_account.simps
      split: if_splits)

lemma transfer_balanced:
  assumes "transfer E a b n = Inr ds"
    and "sane E T (account a)" "sane E T (account b)"
    and "list_all (permitted_write E T) ds" "list_all (\<lambda>d. unambiguous E (post_data d)) ds"
  shows "balanced E T D ds" "map pre_state ds = [a, b]"
proof -
  from assms(1) obtain h1 h2 h1' h2' x y where h:
    "decode (holding_codec E) (data (account a)) = Some h1"
    "if account b = account_default E then zeroized_clone_from h1 = h2
     else decode (holding_codec E) (data (account b)) = Some h2"
    "definition_id h1 = definition_id h2" "move_balance h1 h2 n = Inr (h1', h2')"
    "encode (holding_codec E) h1' = Some x" "encode (holding_codec E) h2' = Some y"
    "ds = [NewData a (Add 0) x, NewData b (Add 0) y]"
    by (auto simp: transfer_def success)
  note m = move_balance_units [OF h(4)]
  show "balanced E T D ds"
    unfolding h(7)
    by (rule balanced_two_holdings [OF assms(2,3) _ _ h(5,6), of "units h1" "units h2"])
      (use assms h m in \<open>auto split: if_splits\<close>)
  show "map pre_state ds = [a, b]"
    by (simp add: h(7))
qed

lemma balanced_inert:
  assumes "account a = account_default E"
    and "decode (definition_codec E) x = None" "decode (holding_codec E) x = None"
  shows "balanced E T D [NewData a (Add 0) x]"
  using assms empty_definition empty_holding
  by (simp add: balanced_def diff_units_def diff_supply_def supply_at_def account_units_def
      account_supply_def del: post_account.simps)

lemma mint_balanced:
  assumes "mint_inner E a b auth n T = Inr ds"
    and "sane E T (account a)" "sane E T (account b)"
    and "list_all (permitted_write E T) ds" "list_all (\<lambda>d. unambiguous E (post_data d)) ds"
  shows "balanced E T D ds" "map pre_state ds = [a, b] @ (case auth of Some c \<Rightarrow> [c] | None \<Rightarrow> [])"
proof -
  from assms(1) obtain f h f' h' x y where h:
    "decode (definition_codec E) (data (account a)) = Some f"
    "if account b = account_default E then zeroized_from_definition (account_id a) f = h
     else decode (holding_codec E) (data (account b)) = Some h"
    "account_id a = definition_id h" "add_supply f h n = Inr (f', h')"
    "encode (definition_codec E) f' = Some x" "encode (holding_codec E) h' = Some y"
    "ds = [NewData a (Add 0) x, NewData b (Add 0) y] @ (case auth of Some c \<Rightarrow> [Unchanged c] | None \<Rightarrow> [])"
    by (auto simp: mint_inner_def success)
  note m = add_supply_units [OF h(4)]
  have z: "units h = 0" if "account b = account_default E"
    using h(2) that by auto
  have "balanced E T D [NewData a (Add 0) x, NewData b (Add 0) y]"
    by (rule balanced_definition_holding [OF assms(2,3) _ _ h(5,6), of "recorded_supply f" "units h"])
      (use assms h m z in \<open>auto split: if_splits\<close>)
  then show "balanced E T D ds"
    using balanced_append_Unchanged [of E T D "[NewData a (Add 0) x, NewData b (Add 0) y]"]
    by (auto simp: h(7) split: option.split)
  show "map pre_state ds = [a, b] @ (case auth of Some c \<Rightarrow> [c] | None \<Rightarrow> [])"
    by (simp add: h(7) split: option.split)
qed

lemma burn_balanced:
  assumes "burn E a b n = Inr ds"
    and "sane E T (account a)" "sane E T (account b)"
    and "list_all (permitted_write E T) ds" "list_all (\<lambda>d. unambiguous E (post_data d)) ds"
  shows "balanced E T D ds" "map pre_state ds = [a, b]"
proof -
  from assms(1) obtain f h f' h' x y where h:
    "decode (definition_codec E) (data (account a)) = Some f"
    "decode (holding_codec E) (data (account b)) = Some h"
    "account_id a = definition_id h" "remove_supply f h n = Inr (f', h')"
    "encode (definition_codec E) f' = Some x" "encode (holding_codec E) h' = Some y"
    "ds = [NewData a (Add 0) x, NewData b (Add 0) y]"
    by (auto simp: burn_def success)
  note m = remove_supply_units [OF h(4)]
  show "balanced E T D ds"
    unfolding h(7)
    by (rule balanced_definition_holding [OF assms(2,3) _ _ h(5,6), of "recorded_supply f" "units h"])
      (use assms h m in auto)
  show "map pre_state ds = [a, b]"
    by (simp add: h(7))
qed

lemma initialize_balanced:
  assumes "initialize_account E a b T = Inr ds" "sane E T (account b)"
    and "list_all (permitted_write E T) ds" "list_all (\<lambda>d. unambiguous E (post_data d)) ds"
  shows "balanced E T D ds" "map pre_state ds = [a, b]"
proof -
  from assms(1) obtain f y where h:
    "account b = account_default E"
    "encode (holding_codec E) (zeroized_from_definition (account_id a) f) = Some y"
    "ds = [Unchanged a, NewData b (Add 0) y]"
    by (auto simp: initialize_account_def success)
  show "balanced E T D ds"
    using balanced_holding [OF assms(2) _ _ h(2,1)] assms(3,4) by (simp add: h(3))
  show "map pre_state ds = [a, b]"
    by (simp add: h(3))
qed

lemma set_authority_balanced:
  assumes "set_authority_inner E a auth new T = Inr ds" "sane E T (account a)"
    and "list_all (permitted_write E T) ds" "list_all (\<lambda>d. unambiguous E (post_data d)) ds"
  shows "balanced E T D ds" "map pre_state ds = a # (case auth of Some c \<Rightarrow> [c] | None \<Rightarrow> [])"
proof -
  from assms(1) obtain f f' x where h:
    "decode (definition_codec E) (data (account a)) = Some f"
    "rotate_authority a auth new f = Inr f'" "encode (definition_codec E) f' = Some x"
    "ds = NewData a (Add 0) x # (case auth of Some c \<Rightarrow> [Unchanged c] | None \<Rightarrow> [])"
    by (auto simp: set_authority_inner_def success)
  have "balanced E T D [NewData a (Add 0) x]"
    using balanced_definition [OF assms(2) _ _ h(3,1) rotate_authority_supply [OF h(2)]] assms(3,4)
    by (simp add: h(4))
  then show "balanced E T D ds"
    using balanced_append_Unchanged [of E T D "[NewData a (Add 0) x]"]
    by (auto simp: h(4) split: option.split)
  show "map pre_state ds = a # (case auth of Some c \<Rightarrow> [c] | None \<Rightarrow> [])"
    by (simp add: h(4) split: option.split)
qed

lemma print_balanced:
  assumes "print_nft E a b = Inr ds" "sane E T (account a)" "sane E T (account b)"
    and "list_all (permitted_write E T) ds" "list_all (\<lambda>d. unambiguous E (post_data d)) ds"
  shows "balanced E T D ds" "map pre_state ds = [a, b]"
proof -
  from assms(1) obtain m where m: "decode (holding_codec E) (data (account a)) = Some m"
    by (auto simp: print_nft_def success)
  with assms(1) obtain i p p' x y where h:
    "decode (holding_codec E) (data (account a)) = Some (NftMaster i p)"
    "account b = account_default E" "unat p = 1 + unat p'"
    "encode (holding_codec E) (NftMaster i p') = Some x"
    "encode (holding_codec E) (NftPrintedCopy i True) = Some y"
    "ds = [NewData a (Add 0) x, NewData b (Add 0) y]"
    by (cases m) (auto simp: print_nft_def success checked)
  show "balanced E T D ds"
    unfolding h(6)
    by (rule balanced_two_holdings [OF assms(2,3) _ _ h(4,5), of "unat p" 0])
      (use assms h in auto)
  show "map pre_state ds = [a, b]"
    by (simp add: h(6))
qed

lemma new_fungible_balanced:
  assumes "new_fungible_definition E a b nm n auth = Inr ds"
    and "sane E T (account a)" "sane E T (account b)"
    and "list_all (permitted_write E T) ds" "list_all (\<lambda>d. unambiguous E (post_data d)) ds"
  shows "balanced E T D ds" "map pre_state ds = [a, b]"
proof -
  from assms(1) obtain x y where h:
    "account a = account_default E" "account b = account_default E"
    "encode (definition_codec E) (DefFungible nm n None auth) = Some x"
    "encode (holding_codec E) (Fungible (account_id a) n) = Some y"
    "ds = [NewData a (Add 0) x, NewData b (Add 0) y]"
    by (auto simp: new_fungible_definition_def validate_mint_authority_def success)
  show "balanced E T D ds"
    unfolding h(5)
    by (rule balanced_definition_holding [OF assms(2,3) _ _ h(3,4), of 0 0])
      (use assms h in auto)
  show "map pre_state ds = [a, b]"
    by (simp add: h(5))
qed

lemma new_with_metadata_balanced:
  assumes "new_definition_with_metadata E a b c f m = Inr ds"
    and "sane E T (account a)" "sane E T (account b)"
    and "list_all (permitted_write E T) ds"
    and "unambiguous_writes E (NewDefinitionWithMetadata f m) ds"
  shows "balanced E T D ds" "map pre_state ds = [a, b, c]"
proof -
  from assms(1) obtain f' h' x y z where h:
    "account a = account_default E" "account b = account_default E" "account c = account_default E"
    "build_definition (account_id a) (account_id c) f = Inr (f', h')"
    "encode (definition_codec E) f' = Some x" "encode (holding_codec E) h' = Some y"
    "ds = [NewData a (Add 0) x, NewData b (Add 0) y] @ [NewData c (Add 0) z]"
    by (auto simp: new_definition_with_metadata_def success)
  have "balanced E T D [NewData a (Add 0) x, NewData b (Add 0) y]"
    by (rule balanced_definition_holding [OF assms(2,3) _ _ h(5,6), of 0 0])
      (use assms h build_definition_units [OF h(4)] in \<open>auto simp: unambiguous_writes_def\<close>)
  moreover have "balanced E T D [NewData c (Add 0) z]"
    using assms(5) h by (intro balanced_inert) (simp_all add: unambiguous_writes_def)
  ultimately show "balanced E T D ds"
    by (simp add: h(7) balanced_def diff_units_def diff_supply_def del: post_account.simps)
  show "map pre_state ds = [a, b, c]"
    by (simp add: h(7))
qed

text \<open>Every instruction: the diffs answer the accounts in order, and they balance.\<close>

lemma token_main_balanced:
  assumes "token_main E T instruction accounts = Inr ds"
    and "list_all (\<lambda>a. sane E T (account a)) accounts"
    and "list_all (permitted_write E T) ds" "unambiguous_writes E instruction ds"
  shows "balanced E T D ds \<and> map pre_state ds = accounts"
proof -
  have u: "list_all (\<lambda>d. unambiguous E (post_data d)) ds"
    using assms(4) by (simp add: unambiguous_writes_def)
  show ?thesis
    using assms u
    by (auto simp: token_main_def success mint_def mint_with_authority_def set_authority_def
        set_authority_with_authority_def transfer_balanced mint_balanced burn_balanced
        initialize_balanced set_authority_balanced print_balanced new_fungible_balanced
        new_with_metadata_balanced
        split: token_instruction.splits list.splits)
qed

section \<open>What an instruction may do to a stored account\<close>

lemma diff_evolves_unowned:
  "account a = account_default E \<Longrightarrow> diff_evolves E T A (NewData a b x)"
  using default_is_unowned token_is_a_program
  by (simp add: diff_evolves_def stored_definition_def stored_holding_def default_owned_def
      del: post_account.simps)

lemma diff_evolves_holding:
  assumes "sane E T (account a)" "encode (holding_codec E) h' = Some x"
    and "decode (holding_codec E) (data (account a)) = Some h" "holding_evolves (is_authorized a) h h'"
  shows "diff_evolves E T A (NewData a b x)"
  using assms codec_laws.round_trip [OF holding_laws assms(2)] token_is_a_program
  by (auto simp: diff_evolves_def stored_definition_def stored_holding_def post_owner_def
      default_owned_def sane_def unambiguous_def simp del: post_account.simps)

lemma diff_evolves_definition:
  assumes "sane E T (account a)" "encode (definition_codec E) f' = Some x"
    and "decode (definition_codec E) (data (account a)) = Some f" "definition_evolves A f f'"
  shows "diff_evolves E T A (NewData a b x)"
  using assms codec_laws.round_trip [OF definition_laws assms(2)] token_is_a_program
  by (auto simp: diff_evolves_def stored_definition_def stored_holding_def post_owner_def
      default_owned_def sane_def unambiguous_def simp del: post_account.simps)

lemma transfer_evolves:
  assumes "transfer E a b n = Inr ds" "sane E T (account a)" "sane E T (account b)"
  shows "list_all (diff_evolves E T A) ds"
proof -
  from assms(1) obtain h1 h2 h1' h2' x y where h:
    "is_authorized a" "decode (holding_codec E) (data (account a)) = Some h1"
    "if account b = account_default E then zeroized_clone_from h1 = h2
     else decode (holding_codec E) (data (account b)) = Some h2"
    "move_balance h1 h2 n = Inr (h1', h2')"
    "encode (holding_codec E) h1' = Some x" "encode (holding_codec E) h2' = Some y"
    "ds = [NewData a (Add 0) x, NewData b (Add 0) y]"
    by (auto simp: transfer_def success)
  note m = move_balance_units [OF h(4)] move_balance_recipient [OF h(4)]
  have "diff_evolves E T A (NewData a (Add 0) x)"
    using diff_evolves_holding [OF assms(2) h(5,2)] h(1) m by (simp add: holding_evolves_def)
  moreover have "diff_evolves E T A (NewData b (Add 0) y)"
  proof (cases "account b = account_default E")
    case False
    then show ?thesis
      using diff_evolves_holding [OF assms(3) h(6)] h(3) m by (simp add: holding_evolves_def)
  qed (rule diff_evolves_unowned)
  ultimately show ?thesis
    by (simp add: h(7))
qed

lemma mint_evolves:
  assumes "mint_inner E a b auth n T = Inr ds" "sane E T (account a)" "sane E T (account b)"
    and "authorized_ids [authority_ref a auth] \<subseteq> A"
  shows "list_all (diff_evolves E T A) ds"
proof -
  from assms(1) obtain f h f' h' x y u where h:
    "decode (definition_codec E) (data (account a)) = Some f" "check_mint_authority a auth f = Inr u"
    "if account b = account_default E then zeroized_from_definition (account_id a) f = h
     else decode (holding_codec E) (data (account b)) = Some h"
    "add_supply f h n = Inr (f', h')"
    "encode (definition_codec E) f' = Some x" "encode (holding_codec E) h' = Some y"
    "ds = [NewData a (Add 0) x, NewData b (Add 0) y] @ (case auth of Some c \<Rightarrow> [Unchanged c] | None \<Rightarrow> [])"
    by (auto simp: mint_inner_def success)
  have "diff_evolves E T A (NewData a (Add 0) x)"
    using diff_evolves_definition [OF assms(2) h(5,1)]
      definition_evolves_mono [OF add_supply_evolves [OF h(4,2)] assms(4)] by blast
  moreover have "diff_evolves E T A (NewData b (Add 0) y)"
  proof (cases "account b = account_default E")
    case False
    then show ?thesis
      using diff_evolves_holding [OF assms(3) h(6)] h(3) add_supply_units [OF h(4)]
      by (simp add: holding_evolves_def)
  qed (rule diff_evolves_unowned)
  ultimately show ?thesis
    by (simp add: h(7) split: option.split)
qed

lemma burn_evolves:
  assumes "burn E a b n = Inr ds" "sane E T (account a)" "sane E T (account b)"
  shows "list_all (diff_evolves E T A) ds"
proof -
  from assms(1) obtain f h f' h' x y where h:
    "is_authorized b" "decode (definition_codec E) (data (account a)) = Some f"
    "decode (holding_codec E) (data (account b)) = Some h" "remove_supply f h n = Inr (f', h')"
    "encode (definition_codec E) f' = Some x" "encode (holding_codec E) h' = Some y"
    "ds = [NewData a (Add 0) x, NewData b (Add 0) y]"
    by (auto simp: burn_def success)
  show ?thesis
    using diff_evolves_definition [OF assms(2) h(5,2) remove_supply_evolves [OF h(4)]]
      diff_evolves_holding [OF assms(3) h(6,3)] h(1,7) remove_supply_units [OF h(4)]
    by (simp add: holding_evolves_def)
qed

lemma set_authority_evolves:
  assumes "set_authority_inner E a auth new T = Inr ds" "sane E T (account a)"
    and "authorized_ids [authority_ref a auth] \<subseteq> A"
  shows "list_all (diff_evolves E T A) ds"
proof -
  from assms(1) obtain f f' x where h:
    "decode (definition_codec E) (data (account a)) = Some f"
    "rotate_authority a auth new f = Inr f'" "encode (definition_codec E) f' = Some x"
    "ds = NewData a (Add 0) x # (case auth of Some c \<Rightarrow> [Unchanged c] | None \<Rightarrow> [])"
    by (auto simp: set_authority_inner_def success)
  show ?thesis
    using diff_evolves_definition [OF assms(2) h(3,1)]
      definition_evolves_mono [OF rotate_authority_evolves [OF h(2)] assms(3)]
    by (simp add: h(4) split: option.split)
qed

lemma print_evolves:
  assumes "print_nft E a b = Inr ds" "sane E T (account a)"
  shows "list_all (diff_evolves E T A) ds"
proof -
  from assms(1) obtain m where m: "decode (holding_codec E) (data (account a)) = Some m"
    by (auto simp: print_nft_def success)
  with assms(1) obtain i p p' x y where h:
    "is_authorized a" "decode (holding_codec E) (data (account a)) = Some (NftMaster i p)"
    "account b = account_default E" "encode (holding_codec E) (NftMaster i p') = Some x"
    "ds = [NewData a (Add 0) x, NewData b (Add 0) y]"
    by (cases m) (auto simp: print_nft_def success)
  show ?thesis
    using diff_evolves_holding [OF assms(2) h(4,2)] diff_evolves_unowned [OF h(3)] h(1)
    by (simp add: h(5) holding_evolves_def)
qed

lemma creation_evolves:
  "initialize_account E a b P = Inr ds \<Longrightarrow> list_all (diff_evolves E T A) ds"
  "new_fungible_definition E a b nm n auth = Inr ds \<Longrightarrow> list_all (diff_evolves E T A) ds"
  "new_definition_with_metadata E a b c f m = Inr ds \<Longrightarrow> list_all (diff_evolves E T A) ds"
  by (auto simp: initialize_account_def new_fungible_definition_def new_definition_with_metadata_def
      success diff_evolves_unowned)

lemma token_main_evolves:
  assumes "token_main E T instruction accounts = Inr ds"
    and "list_all (\<lambda>a. sane E T (account a)) accounts"
  shows "list_all (diff_evolves E T (authorized_ids accounts)) ds"
  using assms
  by (auto simp: token_main_def success mint_def mint_with_authority_def set_authority_def
      set_authority_with_authority_def creation_evolves authority_ref_def
      intro: transfer_evolves burn_evolves print_evolves mint_evolves set_authority_evolves
      elim!: mint_evolves set_authority_evolves
      split: token_instruction.splits list.splits)

section \<open>Steps keep the ledger\<close>

lemma reads_sane:
  assumes "ledger_ok E T s" "reads_state s accounts"
  shows "list_all (\<lambda>a. sane E T (account a)) accounts"
  using assms by (auto simp: ledger_ok_def reads_state_def sane_def list_all_iff)

lemma run_ledger_ok:
  assumes "ledger_ok E T s" "reads_state s accounts"
    and "token_main E T instruction accounts = Inr ds"
    and "list_all (permitted_write E T) ds" "unambiguous_writes E instruction ds"
  shows "ledger_ok E T (apply_diffs E T s ds)"
proof -
  note bal = token_main_balanced [OF assms(3) reads_sane [OF assms(1,2)] assms(4,5)]
  have ids: "map (account_id \<circ> pre_state) ds = map account_id accounts"
    using bal map_map [of account_id pre_state ds] by simp
  have dist: "distinct (map (account_id \<circ> pre_state) ds)"
    using assms(2) by (simp add: ids reads_state_def)
  have pre: "account (pre_state d) = s (account_id (pre_state d))" if "d \<in> set ds" for d
  proof -
    have "pre_state d \<in> set accounts"
      using that bal by (metis image_eqI set_map)
    then show ?thesis
      using assms(2) by (simp add: reads_state_def list_all_iff)
  qed
  let ?s' = "apply_diffs E T s ds"
  have "default_owned E (?s' i) \<longrightarrow> data (?s' i) = data (account_default E)"
    and "program_owner (?s' i) = T \<longrightarrow> unambiguous E (data (?s' i))" for i
    using apply_diffs_cases [OF dist, of E T s i]
      assms(1,4,5) pre token_is_a_program
    by (cases; auto simp: ledger_ok_def post_owner_def default_owned_def writes_data_def
        permitted_write_def list_all_iff unambiguous_writes_def split: if_splits)+
  moreover have "circulating E T ?s' D = account_supply E T (?s' D)" for D
  proof -
    let ?pu = "\<Sum>d\<leftarrow>ds. account_units E T D (account (pre_state d))"
    let ?qu = "\<Sum>d\<leftarrow>ds. account_units E T D (post_account E T d)"
    let ?ps = "\<Sum>d\<leftarrow>ds. supply_at E T D (account_id (pre_state d)) (account (pre_state d))"
    let ?qs = "\<Sum>d\<leftarrow>ds. supply_at E T D (account_id (pre_state d)) (post_account E T d)"
    have "?qu + ?ps = ?pu + ?qs"
      using bal by (simp add: balanced_def diff_units_def diff_supply_def)
    moreover have "circulating E T ?s' D + ?pu = circulating E T s D + ?qu"
      unfolding circulating_def
      using sum_apply_diffs [OF dist pre, of "\<lambda>i. account_units E T D" E T] by simp
    moreover have "(\<Sum>i\<in>UNIV. supply_at E T D i (?s' i)) + ?ps = (\<Sum>i\<in>UNIV. supply_at E T D i (s i)) + ?qs"
      using sum_apply_diffs [OF dist pre, of "supply_at E T D" E T] by simp
    moreover have "(\<Sum>i\<in>UNIV. supply_at E T D i (s' i)) = account_supply E T (s' D)" for s' :: "'d ledger"
      by (simp add: supply_at_def)
    moreover have "circulating E T s D = account_supply E T (s D)"
      using assms(1) by (simp add: ledger_ok_def)
    ultimately show ?thesis
      by simp
  qed
  ultimately show ?thesis
    by (simp add: ledger_ok_def)
qed

lemma step_ledger_ok:
  assumes "token_step E T s s'" "ledger_ok E T s"
  shows "ledger_ok E T s'"
  using assms
proof cases
  case (run accounts instruction ds)
  then show ?thesis
    using run_ledger_ok assms(2) by blast
next
  case other
  have "account_units E T D (s' i) = account_units E T D (s i)" for D i
    using other(1,2) [of i] by (auto simp: account_units_def)
  moreover have "account_supply E T (s' D) = account_supply E T (s D)" for D
    using other(1,2) [of D] by (auto simp: account_supply_def)
  ultimately show ?thesis
    using assms(2) other by (auto simp: ledger_ok_def circulating_def)
qed

lemma reachable_ledger_ok:
  "ledger_reachable E T s0 s \<Longrightarrow> ledger_ok E T s0 \<Longrightarrow> ledger_ok E T s"
  by (induction rule: ledger_reachable.induct) (auto intro: step_ledger_ok)

text \<open>An account of the ledger under one step, seen by what it stores.\<close>

lemma step_stored_definition:
  assumes "token_step E T s s'" "ledger_ok E T s" "stored_definition E T (s i) = Some f"
  shows "\<exists>f' A. stored_definition E T (s' i) = Some f' \<and> definition_evolves A f f'"
  using assms(1)
proof cases
  case (run accounts instruction ds)
  note sane = reads_sane [OF assms(2) run(2)]
  have ids: "map pre_state ds = accounts"
    using token_main_balanced [OF run(3) sane run(4,5)] by blast
  then have dist: "distinct (map (account_id \<circ> pre_state) ds)"
    using run(2) map_map [of account_id pre_state ds] by (simp add: reads_state_def)
  show ?thesis
  proof (rule apply_diffs_cases [OF dist, of E T s i])
    assume "apply_diffs E T s ds i = s i"
    then show ?thesis
      using assms(3) run(1) definition_evolves_refl by metis
  next
    fix d
    assume d: "d \<in> set ds" "i = account_id (pre_state d)" "apply_diffs E T s ds i = post_account E T d"
    have "account (pre_state d) = s i"
      using d ids run(2) by (auto simp: reads_state_def list_all_iff)
    moreover have "diff_evolves E T (authorized_ids accounts) d"
      using token_main_evolves [OF run(3) sane] d(1) by (simp add: list_all_iff)
    ultimately show ?thesis
      using assms(3) d(3) run(1) by (auto simp: diff_evolves_def)
  qed
next
  case other
  then show ?thesis
    using assms(3) definition_evolves_refl by (fastforce simp: stored_definition_def split: if_splits)
qed

lemma reachable_fixed_supply:
  assumes "ledger_reachable E T s0 s" "ledger_ok E T s0"
    and "stored_definition E T (s0 i) = Some (DefFungible n s1 m None)"
  shows "\<exists>s2. stored_definition E T (s i) = Some (DefFungible n s2 m None) \<and> s2 \<le> s1"
  using assms
proof (induction rule: ledger_reachable.induct)
  case (step s s')
  then obtain s2 where s2: "stored_definition E T (s i) = Some (DefFungible n s2 m None)" "s2 \<le> s1"
    by blast
  obtain f' A where f': "stored_definition E T (s' i) = Some f'"
      "definition_evolves A (DefFungible n s2 m None) f'"
    using step_stored_definition [OF step.hyps(2) reachable_ledger_ok [OF step.hyps(1) step.prems(1)] s2(1)]
    by blast
  show ?case
    using f' s2(2) by (cases f') auto
qed auto

end

end
