(* ===== verification/Token_Borsh.thy ===== *)
theory Token_Borsh
  imports Borsh Token_Ledger
begin

text \<open>
  The Borsh codecs of the Token program's account types, and a concrete environment with them:
  the interface \<^theory_text>\<open>token_runtime\<close> interpreted on the real byte format.
\<close>

fun ser_definition :: "token_definition \<Rightarrow> bytes" where
  "ser_definition (DefFungible n s m a) =
    0 # ser_string n @ to_le_bytes s @ ser_option to_bytes m @ ser_option to_bytes a"
| "ser_definition (DefNonFungible n p m) = 1 # ser_string n @ to_le_bytes p @ to_bytes m"

fun de_definition :: "token_definition parser" where
  "de_definition [] = None"
| "de_definition (tag # bs) =
    (if tag = 0 then
       de_bind de_string (\<lambda>n. de_bind de_word (\<lambda>s. de_bind (de_option de_id) (\<lambda>m.
       de_bind (de_option de_id) (\<lambda>a. de_return (DefFungible n s m a))))) bs
     else if tag = 1 then
       de_bind de_string (\<lambda>n. de_bind de_word (\<lambda>p. de_bind de_id (\<lambda>m.
       de_return (DefNonFungible n p m)))) bs
     else None)"

fun ser_holding :: "token_holding \<Rightarrow> bytes" where
  "ser_holding (Fungible d b) = 0 # to_bytes d @ to_le_bytes b"
| "ser_holding (NftMaster d p) = 1 # to_bytes d @ to_le_bytes p"
| "ser_holding (NftPrintedCopy d ow) = 2 # to_bytes d @ ser_bool ow"

fun de_holding :: "token_holding parser" where
  "de_holding [] = None"
| "de_holding (tag # bs) =
    (if tag = 0 then de_bind de_id (\<lambda>d. de_bind de_word (\<lambda>b. de_return (Fungible d b))) bs
     else if tag = 1 then de_bind de_id (\<lambda>d. de_bind de_word (\<lambda>p. de_return (NftMaster d p))) bs
     else if tag = 2 then de_bind de_id (\<lambda>d. de_bind de_bool (\<lambda>ow. de_return (NftPrintedCopy d ow))) bs
     else None)"

fun ser_standard :: "metadata_standard \<Rightarrow> bytes" where
  "ser_standard Simple = [0]"
| "ser_standard Expanded = [1]"

fun de_standard :: "metadata_standard parser" where
  "de_standard [] = None"
| "de_standard (b # bs) =
    (if b = 0 then Some (Simple, bs) else if b = 1 then Some (Expanded, bs) else None)"

definition ser_metadata :: "token_metadata \<Rightarrow> bytes" where
  "ser_metadata m =
    to_bytes (metadata_definition_id m) @ ser_standard (standard m) @ ser_string (uri m) @
    ser_string (creators m) @ to_le_bytes (primary_sale_date m)"

definition de_metadata :: "token_metadata parser" where
  "de_metadata =
    de_bind de_id (\<lambda>d. de_bind de_standard (\<lambda>st. de_bind de_string (\<lambda>u. de_bind de_string (\<lambda>c.
    de_bind de_word (\<lambda>t. de_return
      \<lparr> metadata_definition_id = d, standard = st, uri = u, creators = c, primary_sale_date = t \<rparr>)))))"

interpretation borsh_definition: borsh_type ser_definition de_definition
proof
  show "de_definition (ser_definition x @ rest) = Some (x, rest)"
    if "length (ser_definition x) < 2 ^ 32" for x rest
    using that by (cases x) (simp_all add: borsh)
qed

interpretation borsh_holding: borsh_type ser_holding de_holding
proof
  show "de_holding (ser_holding x @ rest) = Some (x, rest)"
    if "length (ser_holding x) < 2 ^ 32" for x rest
    by (cases x) (simp_all add: borsh)
qed

interpretation borsh_metadata: borsh_type ser_metadata de_metadata
proof
  have st: "de_standard (ser_standard x @ r) = Some (x, r)" for x r
    by (cases x) simp_all
  show "de_metadata (ser_metadata x @ rest) = Some (x, rest)"
    if "length (ser_metadata x) < 2 ^ 32" for x rest
    using that by (simp add: borsh st ser_metadata_def de_metadata_def)
qed

section \<open>A concrete environment\<close>

fun flag_holds :: "'d account \<Rightarrow> 'd account_with_metadata \<Rightarrow> account_flag \<Rightarrow> bool" where
  "flag_holds dflt a Mut = True"
| "flag_holds dflt a Signer = is_authorized a"
| "flag_holds dflt a Init = (account a = dflt)"

lemma flags_hold:
  "list_all (flag_holds dflt a) fs \<longleftrightarrow>
    (Signer \<in> set fs \<longrightarrow> is_authorized a) \<and> (Init \<in> set fs \<longrightarrow> account a = dflt)"
proof -
  have "flag_holds dflt a f \<longleftrightarrow> (f = Signer \<longrightarrow> is_authorized a) \<and> (f = Init \<longrightarrow> account a = dflt)" for f
    by (cases f) simp_all
  then show ?thesis
    by (induction fs) auto
qed

definition empty_account :: "bytes account" where
  "empty_account = \<lparr> program_owner = 0, balance = 0, data = [], nonce = 0 \<rparr>"

definition borsh_env :: "bytes token_env" where
  "borsh_env =
    \<lparr> default_program_owner = 0,
      account_default = empty_account,
      sha256 = (\<lambda>bs. from_le_bytes bs),
      for_public_pda = (\<lambda>p seed. p + 7 * seed),
      clock_01_program_account_id = 1,
      clock_timestamp = from_le_bytes,
      spel_validate = list_all (\<lambda>(fs, a). list_all (flag_holds empty_account a) fs),
      definition_codec = borsh_codec ser_definition de_definition,
      holding_codec = borsh_codec ser_holding de_holding,
      metadata_codec = borsh_codec ser_metadata de_metadata \<rparr>"

lemma borsh_env_simps [simp]:
  "default_program_owner borsh_env = 0"
  "account_default borsh_env = empty_account"
  "spel_validate borsh_env xs = list_all (\<lambda>(fs, a). list_all (flag_holds empty_account a) fs) xs"
  "definition_codec borsh_env = borsh_codec ser_definition de_definition"
  "holding_codec borsh_env = borsh_codec ser_holding de_holding"
  "metadata_codec borsh_env = borsh_codec ser_metadata de_metadata"
  by (simp_all add: borsh_env_def)

lemma empty_account_simps [simp]:
  "program_owner empty_account = 0" "data empty_account = []"
  by (simp_all add: empty_account_def)

interpretation borsh_runtime: token_runtime borsh_env 2
proof (rule token_runtime.intro)
  show "codec_laws (definition_codec borsh_env)" "codec_laws (holding_codec borsh_env)"
    using borsh_definition.codec borsh_holding.codec by simp_all
qed (simp_all add: default_owned_def)

end
