(* ===== verification/Ata.thy ===== *)
theory Ata
  imports Token_Props
begin

text \<open>
  The Associated Token Account program (\<^theory_text>\<open>programs/ata\<close>): the derivation of an owner's account for
  a token definition, the three instructions, each of which reports its accounts unchanged and
  delegates to the Token program by a chained call, and their properties.
\<close>

datatype ata_instruction =
    AtaCreate (token_program_id: account_id)
  | AtaTransfer (token_program_id: account_id) u128
  | AtaBurn (token_program_id: account_id) u128

type_synonym 'd token_output = "('d state_diff list \<times> token_instruction chained_call list) outcome"

section \<open>Addresses\<close>

definition ata_seed_bytes :: "account_id \<Rightarrow> account_id \<Rightarrow> account_id \<Rightarrow> bytes" where
  "ata_seed_bytes token_program owner_id defn_id =
    to_bytes token_program @ to_bytes owner_id @ to_bytes defn_id"

definition compute_ata_seed ::
  "('d, 'x) lee_env_scheme \<Rightarrow> account_id \<Rightarrow> account_id \<Rightarrow> account_id \<Rightarrow> pda_seed" where
  "compute_ata_seed E token_program owner_id defn_id =
    sha256 E (ata_seed_bytes token_program owner_id defn_id)"

definition get_associated_token_account_id ::
  "('d, 'x) lee_env_scheme \<Rightarrow> account_id \<Rightarrow> pda_seed \<Rightarrow> account_id" where
  "get_associated_token_account_id E ata_program seed = for_public_pda E ata_program seed"

definition verify_ata_and_get_seed ::
  "('d, 'x) lee_env_scheme \<Rightarrow> 'd account_with_metadata \<Rightarrow> 'd account_with_metadata \<Rightarrow>
    account_id \<Rightarrow> account_id \<Rightarrow> account_id \<Rightarrow> pda_seed outcome" where
  "verify_ata_and_get_seed E ata_account owner token_program defn_id ata_program =
    (let seed = compute_ata_seed E token_program (account_id owner) defn_id in
     ensure (account_id ata_account = get_associated_token_account_id E ata_program seed)
       ''ATA account ID does not match expected derivation'' (Inr seed))"

section \<open>Instructions\<close>

definition create_associated_token_account ::
  "('d, 'x) token_env_scheme \<Rightarrow> 'd account_with_metadata \<Rightarrow> 'd account_with_metadata \<Rightarrow>
    'd account_with_metadata \<Rightarrow> account_id \<Rightarrow> account_id \<Rightarrow> 'd token_output" where
  "create_associated_token_account E owner token_defn ata_account ata_program token_program =
    ensure (program_owner (account token_defn) = token_program)
      ''Token definition must be owned by expected token program'' (
    expect ''Token definition must be valid''
      (decode (definition_codec E) (data (account token_defn))) (\<lambda>_.
    attempt (verify_ata_and_get_seed E ata_account owner token_program (account_id token_defn) ata_program)
      (\<lambda>seed.
    (if account ata_account \<noteq> account_default E then
       ensure (program_owner (account ata_account) = token_program)
         ''Existing ATA must be owned by expected token program'' (
       expect ''Existing ATA must hold a valid token''
         (decode (holding_codec E) (data (account ata_account))) (\<lambda>holding.
       ensure (definition_id holding = account_id token_defn)
         ''Existing ATA token definition does not match'' (
       Inr ([Unchanged owner, Unchanged token_defn, Unchanged ata_account], []))))
     else
       Inr ([Unchanged owner, Unchanged token_defn, Unchanged ata_account],
            [with_pda_seeds
               (chained_call_new token_program [account_id token_defn, account_id ata_account]
                  InitializeAccount)
               [seed]])))))"

definition transfer_from_associated_token_account ::
  "('d, 'x) token_env_scheme \<Rightarrow> 'd account_with_metadata \<Rightarrow> 'd account_with_metadata \<Rightarrow>
    'd account_with_metadata \<Rightarrow> account_id \<Rightarrow> account_id \<Rightarrow> u128 \<Rightarrow> 'd token_output" where
  "transfer_from_associated_token_account E owner sender_ata recipient ata_program token_program amount =
    ensure (is_authorized owner) ''Owner authorization is missing'' (
    ensure (program_owner (account sender_ata) = token_program)
      ''Sender ATA must be owned by expected token program'' (
    expect ''Sender ATA must hold a valid token''
      (decode (holding_codec E) (data (account sender_ata))) (\<lambda>sender_holding.
    attempt (verify_ata_and_get_seed E sender_ata owner token_program (definition_id sender_holding) ata_program)
      (\<lambda>sender_seed.
    ensure (account recipient \<noteq> account_default E) ''Recipient token holding must be initialized'' (
    ensure (program_owner (account recipient) = token_program)
      ''Recipient must be owned by the same token program as the sender ATA'' (
    expect ''Recipient must hold a valid token''
      (decode (holding_codec E) (data (account recipient))) (\<lambda>recipient_holding.
    ensure (definition_id recipient_holding = definition_id sender_holding)
      ''Recipient and sender token definitions do not match'' (
    Inr ([Unchanged owner, Unchanged sender_ata, Unchanged recipient],
         [with_pda_seeds
            (chained_call_new token_program [account_id sender_ata, account_id recipient]
               (Transfer amount))
            [sender_seed]])))))))))"

definition burn_from_associated_token_account ::
  "('d, 'x) token_env_scheme \<Rightarrow> 'd account_with_metadata \<Rightarrow> 'd account_with_metadata \<Rightarrow>
    'd account_with_metadata \<Rightarrow> account_id \<Rightarrow> account_id \<Rightarrow> u128 \<Rightarrow> 'd token_output" where
  "burn_from_associated_token_account E owner holder_ata token_defn ata_program token_program amount =
    ensure (is_authorized owner) ''Owner authorization is missing'' (
    ensure (program_owner (account holder_ata) = token_program)
      ''Holder ATA must be owned by expected token program'' (
    ensure (program_owner (account token_defn) = token_program)
      ''Token definition must be owned by expected token program'' (
    expect ''Holder ATA must hold a valid token''
      (decode (holding_codec E) (data (account holder_ata))) (\<lambda>holding.
    ensure (definition_id holding = account_id token_defn) ''Holder ATA token definition does not match'' (
    attempt (verify_ata_and_get_seed E holder_ata owner token_program (definition_id holding) ata_program)
      (\<lambda>seed.
    Inr ([Unchanged owner, Unchanged holder_ata, Unchanged token_defn],
         [with_pda_seeds
            (chained_call_new token_program [account_id token_defn, account_id holder_ata]
               (Burn amount))
            [seed]])))))))"

definition ata_main ::
  "('d, 'x) token_env_scheme \<Rightarrow> account_id \<Rightarrow> ata_instruction \<Rightarrow> 'd account_with_metadata list \<Rightarrow>
    'd token_output" where
  "ata_main E self_account_id instruction accounts =
    (case (instruction, accounts) of
       (AtaCreate token_program, [owner, token_defn, ata_account]) \<Rightarrow>
         ensure (spel_validate E [([Mut], owner), ([], token_defn), ([Mut], ata_account)])
           ''account validation failed'' (
         create_associated_token_account E owner token_defn ata_account self_account_id token_program)
     | (AtaTransfer token_program amount, [owner, sender_ata, recipient]) \<Rightarrow>
         ensure (spel_validate E [([Signer], owner), ([Mut], sender_ata), ([Mut], recipient)])
           ''account validation failed'' (
         transfer_from_associated_token_account E owner sender_ata recipient self_account_id
           token_program amount)
     | (AtaBurn token_program amount, [owner, holder_ata, token_defn]) \<Rightarrow>
         ensure (spel_validate E [([Signer], owner), ([Mut], holder_ata), ([Mut], token_defn)])
           ''account validation failed'' (
         burn_from_associated_token_account E owner holder_ata token_defn self_account_id
           token_program amount)
     | _ \<Rightarrow> Inl (Panic ''wrong number of accounts''))"

lemma verify_ata_success [success]:
  "verify_ata_and_get_seed E a owner t d p = Inr seed \<longleftrightarrow>
    seed = compute_ata_seed E t (account_id owner) d \<and> account_id a = for_public_pda E p seed"
  by (auto simp: verify_ata_and_get_seed_def get_associated_token_account_id_def Let_def success)

lemma ata_seed_bytes_inject:
  "ata_seed_bytes t w d = ata_seed_bytes t' w' d' \<longleftrightarrow> t = t' \<and> w = w' \<and> d = d'"
  by (auto simp: ata_seed_bytes_def)

section \<open>Properties\<close>

text \<open>A demonstration: owner 20 opens and uses its account for the demo token.\<close>

definition demo_ata_id :: account_id where
  "demo_ata_id = for_public_pda borsh_env 3 (compute_ata_seed borsh_env 2 20 10)"

definition demo_owner :: "bytes account_with_metadata" where
  "demo_owner = \<lparr> account = empty_account, is_authorized = True, account_id = 20 \<rparr>"

definition demo_token :: "bytes account_with_metadata" where
  "demo_token = \<lparr> account = demo_ledger 1000 10, is_authorized = False, account_id = 10 \<rparr>"

definition demo_ata :: "bytes account \<Rightarrow> bool \<Rightarrow> bytes account_with_metadata" where
  "demo_ata a auth = \<lparr> account = a, is_authorized = auth, account_id = demo_ata_id \<rparr>"

lemma demo_token_simps [simp]:
  "program_owner (account demo_token) = 2" "account_id demo_token = 10"
  "data (account demo_token) = ser_definition (demo_definition 1000)"
  by (simp_all add: demo_token_def demo_ledger_def)

lemma demo_owner_simps [simp]: "is_authorized demo_owner" "account_id demo_owner = 20"
  by (simp_all add: demo_owner_def)

lemma demo_ata_simps [simp]:
  "account (demo_ata a b) = a" "account_id (demo_ata a b) = demo_ata_id" "is_authorized (demo_ata a b) = b"
  by (simp_all add: demo_ata_def)

lemma demo_ata_address [simp]: "for_public_pda borsh_env 3 (compute_ata_seed borsh_env 2 20 10) = demo_ata_id"
  by (simp add: demo_ata_id_def)

text \<open>
  C25. The ATA program only delegates over its own addresses.  A successful instruction reports its
  accounts in order and writes none of them; every call it makes goes to the token program named in
  the instruction, carries exactly one PDA seed, that of (token program, first account, some
  definition), whose address is one of the accounts of the call, and, unless it only opens the
  account, is made with the owner's signature.
\<close>

theorem ata_delegates_own_address:
  assumes "ata_main E self instruction accounts = Inr (ds, cs)" "c \<in> set cs"
  shows "ds = map Unchanged accounts \<and> callee c = token_program_id instruction \<and>
    (\<exists>D. pda_seeds c = [compute_ata_seed E (token_program_id instruction) (account_id (hd accounts)) D]) \<and>
    set (authorized_pdas E self c) \<subseteq> set (pre_state_ids c) \<and>
    (instruction_data c = InitializeAccount \<or> is_authorized (hd accounts))"
  using assms
  by (auto simp: ata_main_def create_associated_token_account_def
      transfer_from_associated_token_account_def burn_from_associated_token_account_def
      authorized_pdas_def success
      split: ata_instruction.splits list.splits if_splits)

theorem ata_delegates_own_address_witness:
  "\<exists>ds c. ata_main borsh_env 3 (AtaBurn 2 5)
     [demo_owner, demo_ata (stored (ser_holding (Fungible 10 7))) False, demo_token] = Inr (ds, [c]) \<and>
     callee c = 2 \<and> set (authorized_pdas borsh_env 3 c) \<subseteq> set (pre_state_ids c)"
proof -
  obtain ds c where run: "ata_main borsh_env 3 (AtaBurn 2 5)
     [demo_owner, demo_ata (stored (ser_holding (Fungible 10 7))) False, demo_token] = Inr (ds, [c])"
    by (simp add: ata_main_def burn_from_associated_token_account_def verify_ata_and_get_seed_def
        get_associated_token_account_id_def)
  then show ?thesis
    using ata_delegates_own_address [OF run] by auto
qed

text \<open>
  Creation is idempotent across the two programs.  If creating an associated account emits a
  call, and the Token program executes that call, then creating the account again succeeds and emits
  no call: the holding the Token program stored satisfies every check of the second creation.
\<close>

theorem create_is_idempotent:
  assumes "token_runtime E T"
    and "create_associated_token_account E owner defn ata P T = Inr (ds, [c])"
    and "token_main E T (instruction_data c) [defn, ata \<lparr> is_authorized := True \<rparr>] = Inr ds'"
  shows "\<exists>ds''. create_associated_token_account E owner defn
    (ata \<lparr> account := post_account E T (ds' ! 1) \<rparr>) P T = Inr (ds'', [])"
proof -
  have runtime: "codec_laws (holding_codec E)"
    "decode (holding_codec E) (data (account_default E)) = None"
    "program_owner (account_default E) = default_program_owner E" "T \<noteq> default_program_owner E"
    using assms(1) by (simp_all add: token_runtime_def default_owned_def)
  from assms(2) obtain f where a: "program_owner (account defn) = T"
    "decode (definition_codec E) (data (account defn)) = Some f"
    "account_id ata = for_public_pda E P (compute_ata_seed E T (account_id owner) (account_id defn))"
    "account ata = account_default E" "instruction_data c = InitializeAccount"
    by (auto simp: create_associated_token_account_def success split: if_splits)
  from assms(3) obtain x where x: "ds' = [Unchanged defn, NewData (ata \<lparr> is_authorized := True \<rparr>) (Add 0) x]"
    "encode (holding_codec E) (zeroized_from_definition (account_id defn) f) = Some x"
    by (auto simp: a token_main_def initialize_account_def success)
  have dec: "decode (holding_codec E) x = Some (zeroized_from_definition (account_id defn) f)"
    using codec_laws.round_trip [OF runtime(1) x(2)] .
  have post: "program_owner (post_account E T (ds' ! 1)) = T" "data (post_account E T (ds' ! 1)) = x"
    using a(4) dec runtime by (auto simp: x(1) post_owner_def default_owned_def simp del: post_account.simps)
  then have "post_account E T (ds' ! 1) \<noteq> account_default E"
    using runtime(3,4) by metis
  then show ?thesis
    using a post dec
    by (simp add: create_associated_token_account_def verify_ata_and_get_seed_def
        get_associated_token_account_id_def del: post_account.simps)
qed

theorem create_is_idempotent_witness:
  "\<exists>ds''. create_associated_token_account borsh_env demo_owner demo_token
     (demo_ata (stored (ser_holding (Fungible 10 0))) False) 3 2 = Inr (ds'', [])"
proof -
  let ?ata = "demo_ata empty_account False"
  let ?ds' = "[Unchanged demo_token, NewData (?ata \<lparr> is_authorized := True \<rparr>) (Add 0) (ser_holding (Fungible 10 0))]"
  obtain ds c where create: "create_associated_token_account borsh_env demo_owner demo_token ?ata 3 2 = Inr (ds, [c])"
      "instruction_data c = InitializeAccount"
    by (simp add: create_associated_token_account_def verify_ata_and_get_seed_def
        get_associated_token_account_id_def)
  have run: "token_main borsh_env 2 (instruction_data c) [demo_token, ?ata \<lparr> is_authorized := True \<rparr>] = Inr ?ds'"
    by (simp add: create(2) token_main_def initialize_account_def holding_data_def)
      (simp add: demo_definition_def)
  have "post_account borsh_env 2 (?ds' ! 1) = stored (ser_holding (Fungible 10 0))"
    by (simp add: post_owner_def default_owned_def stored_def empty_account_def ser_not_empty)
  then show ?thesis
    using create_is_idempotent [OF borsh_runtime.token_runtime_axioms create(1) run]
    by (simp add: demo_ata_def)
qed

end
