(* ===== verification/Faucet.thy ===== *)
theory Faucet
  imports Ata
begin

text \<open>
  The Token-Mint-Authority program (\<^theory_text>\<open>programs/token_mint_authority\<close>): a faucet that holds the mint
  authority of its tokens as a program-derived address and grants a fixed amount per recipient and
  token, at most once a day.
\<close>

definition ONE_TOKEN :: u128 where
  "ONE_TOKEN = 1000000000000000000"

definition FAUCET_MINT_AMOUNT :: u128 where
  "FAUCET_MINT_AMOUNT = 10000 * ONE_TOKEN"

definition MINT_COOLDOWN_MS :: u64 where
  "MINT_COOLDOWN_MS = 24 * 60 * 60 * 1000"

datatype faucet_instruction = FaucetMint

record mint_allowance =
  recipient_id :: account_id
  allowance_definition_id :: account_id
  last_mint_ms :: u64

record 'd faucet_env = "'d token_env" +
  allowance_codec :: "(mint_allowance, 'd) codec"

section \<open>Addresses\<close>

definition MINT_AUTHORITY_PDA_DOMAIN :: bytes where
  "MINT_AUTHORITY_PDA_DOMAIN = ascii ''TOKEN_MINT_AUTHORITY__MINT_AUTHORITY''"

definition MINT_ALLOWANCE_PDA_DOMAIN :: bytes where
  "MINT_ALLOWANCE_PDA_DOMAIN = ascii ''TOKEN_MINT_AUTHORITY__MINT_ALLOWANCE''"

definition compute_mint_authority_pda_seed :: "('d, 'x) lee_env_scheme \<Rightarrow> pda_seed" where
  "compute_mint_authority_pda_seed E = sha256 E MINT_AUTHORITY_PDA_DOMAIN"

definition compute_mint_authority_pda :: "('d, 'x) lee_env_scheme \<Rightarrow> account_id \<Rightarrow> account_id" where
  "compute_mint_authority_pda E program = for_public_pda E program (compute_mint_authority_pda_seed E)"

definition mint_allowance_seed_bytes :: "account_id \<Rightarrow> account_id \<Rightarrow> bytes" where
  "mint_allowance_seed_bytes recipient defn_id =
    to_bytes recipient @ to_bytes defn_id @ MINT_ALLOWANCE_PDA_DOMAIN"

definition compute_mint_allowance_pda_seed ::
  "('d, 'x) lee_env_scheme \<Rightarrow> account_id \<Rightarrow> account_id \<Rightarrow> pda_seed" where
  "compute_mint_allowance_pda_seed E recipient defn_id =
    sha256 E (mint_allowance_seed_bytes recipient defn_id)"

definition compute_mint_allowance_pda ::
  "('d, 'x) lee_env_scheme \<Rightarrow> account_id \<Rightarrow> account_id \<Rightarrow> account_id \<Rightarrow> account_id" where
  "compute_mint_allowance_pda E program recipient defn_id =
    for_public_pda E program (compute_mint_allowance_pda_seed E recipient defn_id)"

definition verify_mint_authority_and_get_seed ::
  "('d, 'x) lee_env_scheme \<Rightarrow> 'd account_with_metadata \<Rightarrow> account_id \<Rightarrow> pda_seed outcome" where
  "verify_mint_authority_and_get_seed E mint_auth program =
    ensure (account_id mint_auth = for_public_pda E program (compute_mint_authority_pda_seed E))
      ''Mint authority account ID does not match expected PDA derivation'' (
    Inr (compute_mint_authority_pda_seed E))"

definition verify_mint_allowance_and_get_seed ::
  "('d, 'x) lee_env_scheme \<Rightarrow> 'd account_with_metadata \<Rightarrow> account_id \<Rightarrow> account_id \<Rightarrow> account_id \<Rightarrow>
    pda_seed outcome" where
  "verify_mint_allowance_and_get_seed E allowance recipient defn_id program =
    ensure (account_id allowance = for_public_pda E program (compute_mint_allowance_pda_seed E recipient defn_id))
      ''Mint allowance account ID does not match expected PDA derivation'' (
    Inr (compute_mint_allowance_pda_seed E recipient defn_id))"

section \<open>The instruction\<close>

definition read_clock :: "('d, 'x) lee_env_scheme \<Rightarrow> 'd account_with_metadata \<Rightarrow> u64 outcome" where
  "read_clock E clock =
    ensure (account_id clock = clock_01_program_account_id E)
      ''Clock account must be the system CLOCK_01 account'' (
    ensure (account clock \<noteq> account_default E) ''Clock account must be initialized'' (
    Inr (clock_timestamp E (data (account clock)))))"

text \<open>The stored authority of the faucet token, if this program holds it.\<close>

fun check_faucet_authority :: "account_id \<Rightarrow> token_definition \<Rightarrow> unit outcome" where
  "check_faucet_authority mint_auth_id (DefFungible n s m auth) =
    expect ''Faucet token has a renounced mint authority (fixed supply)'' auth (\<lambda>a.
    ensure (a = mint_auth_id) ''Faucet token mint authority is not this program's mint-authority PDA'' (
    Inr ()))"
| "check_faucet_authority mint_auth_id (DefNonFungible n p m) =
    Inl (Panic ''Faucet token definition must be Fungible'')"

definition check_cooldown ::
  "('d, 'x) faucet_env_scheme \<Rightarrow> 'd account_with_metadata \<Rightarrow> account_id \<Rightarrow> u64 \<Rightarrow> unit outcome" where
  "check_cooldown E allowance program now =
    (if account allowance \<noteq> account_default E then
       ensure (program_owner (account allowance) = program)
         ''Mint allowance account is not owned by this program'' (
       expect ''Mint allowance account must decode as a MintAllowance''
         (decode (allowance_codec E) (data (account allowance))) (\<lambda>previous.
       ensure (MINT_COOLDOWN_MS \<le> saturating_sub now (last_mint_ms previous))
         ''FaucetMint cooldown has not elapsed'' (Inr ())))
     else Inr ())"

definition faucet_mint ::
  "('d, 'x) faucet_env_scheme \<Rightarrow> 'd account_with_metadata \<Rightarrow> 'd account_with_metadata \<Rightarrow>
    'd account_with_metadata \<Rightarrow> 'd account_with_metadata \<Rightarrow> 'd account_with_metadata \<Rightarrow>
    'd account_with_metadata \<Rightarrow> account_id \<Rightarrow> 'd token_output" where
  "faucet_mint E recipient allowance user_holding token_defn mint_auth clock program =
    ensure (is_authorized recipient) ''Recipient authorization is missing'' (
    ensure (account token_defn \<noteq> account_default E) ''Faucet token definition must be initialized'' (
    attempt (if account user_holding \<noteq> account_default E then
               ensure (program_owner (account user_holding) = program_owner (account token_defn))
                 ''User holding must be owned by the same Token Program as the token definition'' (Inr ())
             else ensure (is_authorized user_holding)
                 ''A fresh user holding must be authorized by its owner'' (Inr ())) (\<lambda>_.
    attempt (verify_mint_authority_and_get_seed E mint_auth program) (\<lambda>authority_seed.
    expect ''Faucet token definition must decode as a TokenDefinition''
      (decode (definition_codec E) (data (account token_defn))) (\<lambda>defn.
    attempt (check_faucet_authority (account_id mint_auth) defn) (\<lambda>_.
    attempt (read_clock E clock) (\<lambda>now.
    attempt (verify_mint_allowance_and_get_seed E allowance (account_id recipient) (account_id token_defn) program)
      (\<lambda>_.
    attempt (check_cooldown E allowance program now) (\<lambda>_.
    expect ''MintAllowance encoded data should fit into Data''
      (encode (allowance_codec E)
        \<lparr> recipient_id = account_id recipient, allowance_definition_id = account_id token_defn,
          last_mint_ms = now \<rparr>) (\<lambda>updated.
    Inr ([Unchanged recipient, NewData allowance (Add 0) updated, Unchanged user_holding,
          Unchanged token_defn, Unchanged mint_auth, Unchanged clock],
         [with_pda_seeds
            (chained_call_new (program_owner (account token_defn))
               [account_id token_defn, account_id user_holding, account_id mint_auth]
               (MintWithAuthority FAUCET_MINT_AMOUNT))
            [authority_seed]])))))))))))"

definition faucet_main ::
  "('d, 'x) faucet_env_scheme \<Rightarrow> account_id \<Rightarrow> faucet_instruction \<Rightarrow> 'd account_with_metadata list \<Rightarrow>
    'd token_output" where
  "faucet_main E self_account_id instruction accounts =
    (case (instruction, accounts) of
       (FaucetMint, [recipient, allowance, user_holding, token_defn, mint_auth, clock]) \<Rightarrow>
         ensure (spel_validate E [([Signer], recipient), ([Mut], allowance), ([Mut], user_holding),
                   ([Mut], token_defn), ([], mint_auth), ([], clock)])
           ''account validation failed'' (
         faucet_mint E recipient allowance user_holding token_defn mint_auth clock self_account_id)
     | _ \<Rightarrow> Inl (Panic ''wrong number of accounts''))"

lemma read_clock_success [success]:
  "read_clock E clock = Inr now \<longleftrightarrow>
    account_id clock = clock_01_program_account_id E \<and> account clock \<noteq> account_default E \<and>
    now = clock_timestamp E (data (account clock))"
  by (auto simp: read_clock_def success)

lemma check_faucet_authority_success [success]:
  "check_faucet_authority i f = Inr u \<longleftrightarrow> (\<exists>n s m. f = DefFungible n s m (Some i))"
  by (cases f) (auto simp: success)

lemma verify_faucet_success [success]:
  "verify_mint_authority_and_get_seed E a p = Inr seed \<longleftrightarrow>
    seed = compute_mint_authority_pda_seed E \<and> account_id a = for_public_pda E p seed"
  "verify_mint_allowance_and_get_seed E a r d p = Inr seed \<longleftrightarrow>
    seed = compute_mint_allowance_pda_seed E r d \<and> account_id a = for_public_pda E p seed"
  by (auto simp: verify_mint_authority_and_get_seed_def verify_mint_allowance_and_get_seed_def success)


section \<open>Successive grants\<close>

text \<open>
  The grants to one recipient for one token, threading the allowance account.  Between two grants
  other transactions may credit the account, but its owner and data are the program's.
\<close>

inductive faucet_grants ::
  "('d, 'x) faucet_env_scheme \<Rightarrow> account_id \<Rightarrow> account_id \<Rightarrow> account_id \<Rightarrow> 'd account \<Rightarrow> u64 list \<Rightarrow> bool"
  for E program r d where
  none: "faucet_grants E program r d a []"
| grant: "\<lbrakk> faucet_mint E recipient allowance user_holding token_defn mint_auth clock program = Inr (ds, cs);
            account_id recipient = r; account_id token_defn = d; account allowance = a;
            read_clock E clock = Inr now;
            program_owner b = program_owner (post_account E program (ds ! 1));
            data b = data (post_account E program (ds ! 1));
            faucet_grants E program r d b ts \<rbrakk>
          \<Longrightarrow> faucet_grants E program r d a (now # ts)"

inductive_cases faucet_grants_ConsE: "faucet_grants E program r d a (now # ts)"



section \<open>Properties\<close>

definition ser_allowance :: "mint_allowance \<Rightarrow> bytes" where
  "ser_allowance m = to_bytes (recipient_id m) @ to_bytes (allowance_definition_id m) @ to_le_bytes (last_mint_ms m)"

definition de_allowance :: "mint_allowance parser" where
  "de_allowance = de_bind de_id (\<lambda>r. de_bind de_id (\<lambda>d. de_bind de_word (\<lambda>t.
    de_return \<lparr> recipient_id = r, allowance_definition_id = d, last_mint_ms = t \<rparr>)))"

interpretation borsh_allowance: borsh_type ser_allowance de_allowance
  by unfold_locales (simp add: ser_allowance_def de_allowance_def borsh)

definition borsh_faucet_env :: "bytes faucet_env" where
  "borsh_faucet_env = token_env.extend borsh_env \<lparr> allowance_codec = borsh_codec ser_allowance de_allowance \<rparr>"

definition faucet_clock :: "u64 \<Rightarrow> bytes account_with_metadata" where
  "faucet_clock t =
    \<lparr> account = \<lparr> program_owner = 99, balance = 0, data = to_le_bytes t, nonce = 0 \<rparr>,
      is_authorized = False, account_id = 1 \<rparr>"

text \<open>The faucet program is 5; its token 10 has the faucet's address as authority; the recipient is 20.\<close>

definition faucet_token :: "bytes account_with_metadata" where
  "faucet_token =
    \<lparr> account = stored (ser_definition (DefFungible [84] 0 None (Some (compute_mint_authority_pda borsh_env 5)))),
      is_authorized = False, account_id = 10 \<rparr>"

definition faucet_holding :: "bytes account_with_metadata" where
  "faucet_holding =
    \<lparr> account = stored (ser_holding (Fungible 10 0)), is_authorized = False, account_id = 21 \<rparr>"

definition faucet_authority :: "bytes account_with_metadata" where
  "faucet_authority =
    \<lparr> account = empty_account, is_authorized = False, account_id = compute_mint_authority_pda borsh_env 5 \<rparr>"

definition faucet_allowance :: "bytes account \<Rightarrow> bytes account_with_metadata" where
  "faucet_allowance a =
    \<lparr> account = a, is_authorized = False, account_id = compute_mint_allowance_pda borsh_env 5 20 10 \<rparr>"

definition allowance_at :: "u64 \<Rightarrow> bytes" where
  "allowance_at t = ser_allowance \<lparr> recipient_id = 20, allowance_definition_id = 10, last_mint_ms = t \<rparr>"

lemma faucet_env_simps [simp]:
  "default_program_owner borsh_faucet_env = 0"
  "account_default borsh_faucet_env = empty_account"
  "definition_codec borsh_faucet_env = borsh_codec ser_definition de_definition"
  "holding_codec borsh_faucet_env = borsh_codec ser_holding de_holding"
  "allowance_codec borsh_faucet_env = borsh_codec ser_allowance de_allowance"
  "sha256 borsh_faucet_env = sha256 borsh_env"
  "for_public_pda borsh_faucet_env = for_public_pda borsh_env"
  "clock_01_program_account_id borsh_faucet_env = 1"
  "clock_timestamp borsh_faucet_env = from_le_bytes"
  "spel_validate borsh_faucet_env = spel_validate borsh_env"
  by (simp_all add: borsh_faucet_env_def token_env.extend_def borsh_env_def)


lemma allowance_at_codec [simp]:
  "encode (borsh_codec ser_allowance de_allowance)
     \<lparr> recipient_id = 20, allowance_definition_id = 10, last_mint_ms = t \<rparr> = Some (allowance_at t)"
  "decode (borsh_codec ser_allowance de_allowance) (allowance_at t) =
     Some \<lparr> recipient_id = 20, allowance_definition_id = 10, last_mint_ms = t \<rparr>"
proof -
  show enc: "encode (borsh_codec ser_allowance de_allowance)
     \<lparr> recipient_id = 20, allowance_definition_id = 10, last_mint_ms = t \<rparr> = Some (allowance_at t)"
    by (simp add: borsh_codec_simps allowance_at_def ser_allowance_def data_max_length_def)
  show "decode (borsh_codec ser_allowance de_allowance) (allowance_at t) =
     Some \<lparr> recipient_id = 20, allowance_definition_id = 10, last_mint_ms = t \<rparr>"
    by (rule codec_laws.round_trip [OF borsh_allowance.codec enc])
qed

lemma faucet_token_encode [simp]:
  "encode (borsh_codec ser_definition de_definition) (DefFungible [84] n None (Some i)) =
     Some (ser_definition (DefFungible [84] n None (Some i)))"
  by (simp add: borsh_codec_simps ser_definition.simps ser_string_def data_max_length_def)

lemma faucet_token_codec [simp]:
  "decode (borsh_codec ser_definition de_definition) (ser_definition (DefFungible [84] n None (Some i))) =
     Some (DefFungible [84] n None (Some i))"
  by (rule codec_laws.round_trip [OF borsh_definition.codec])
    (simp add: borsh_codec_simps ser_definition.simps ser_string_def data_max_length_def)

lemma faucet_addresses [simp]:
  "compute_mint_authority_pda_seed borsh_faucet_env = compute_mint_authority_pda_seed borsh_env"
  "compute_mint_allowance_pda_seed borsh_faucet_env r d = compute_mint_allowance_pda_seed borsh_env r d"
  by (simp_all add: compute_mint_authority_pda_seed_def compute_mint_allowance_pda_seed_def)

lemma faucet_clock_reads [simp]: "read_clock borsh_faucet_env (faucet_clock t) = Inr t"
  by (simp add: read_clock_def faucet_clock_def from_to_le_bytes empty_account_def)

lemma faucet_demo_mint:
  assumes "account a = empty_account \<or>
    (program_owner (account a) = 5 \<and> data (account a) = allowance_at t \<and> unat t + 86400000 \<le> unat now)"
    and "a = faucet_allowance b"
  shows "\<exists>ds c. faucet_mint borsh_faucet_env demo_owner a faucet_holding faucet_token faucet_authority
      (faucet_clock now) 5 = Inr (ds, [c]) \<and> ds ! 1 = NewData a (Add 0) (allowance_at now) \<and>
      callee c = 2 \<and> instruction_data c = MintWithAuthority FAUCET_MINT_AMOUNT"
proof -
  have "check_cooldown borsh_faucet_env a 5 now = Inr ()"
    using assms
    by (auto simp: check_cooldown_def MINT_COOLDOWN_MS_def word_le_nat_alt unat_saturating_sub le_diff_conv2)
  then show ?thesis
    by (simp add: assms(2) faucet_mint_def faucet_holding_def faucet_token_def faucet_authority_def
        faucet_allowance_def compute_mint_authority_pda_def compute_mint_allowance_pda_def
        verify_mint_authority_and_get_seed_def verify_mint_allowance_and_get_seed_def)
qed




text \<open>
  A grant is the fixed amount, under the faucet's own authority.  A successful grant makes
  exactly one call, to the program that owns the definition, authorized over the faucet's authority
  address, which the definition stores as its mint authority; when the Token program executes it, the
  recorded supply and the holding grow by exactly ten thousand whole tokens.
\<close>

theorem faucet_grants_fixed_amount:
  assumes "faucet_mint E recipient allowance user_holding token_defn mint_auth clock program = Inr (ds, cs)"
    and "token_main E (program_owner (account token_defn)) (instruction_data (hd cs))
      [token_defn, user_holding, mint_auth \<lparr> is_authorized := True \<rparr>] = Inr ds'"
  shows "length cs = 1 \<and> callee (hd cs) = program_owner (account token_defn) \<and> is_authorized recipient \<and>
    authorized_pdas E program (hd cs) = [compute_mint_authority_pda E program] \<and>
    (\<exists>nm s s' m holding holding' x y.
      decode (definition_codec E) (data (account token_defn)) =
        Some (DefFungible nm s m (Some (compute_mint_authority_pda E program))) \<and>
      unat s' = unat s + 10000 * 10 ^ 18 \<and> units holding' = units holding + 10000 * 10 ^ 18 \<and>
      (account user_holding \<noteq> account_default E \<longrightarrow>
        decode (holding_codec E) (data (account user_holding)) = Some holding) \<and>
      encode (definition_codec E)
        (DefFungible nm s' m (Some (compute_mint_authority_pda E program))) = Some x \<and>
      encode (holding_codec E) holding' = Some y \<and>
      ds' = [NewData token_defn (Add 0) x, NewData user_holding (Add 0) y,
             Unchanged (mint_auth \<lparr> is_authorized := True \<rparr>)])"
proof -
  have amount: "unat FAUCET_MINT_AMOUNT = 10000 * 10 ^ 18"
    by (simp add: FAUCET_MINT_AMOUNT_def ONE_TOKEN_def)
  from assms(1) obtain nm s m where f: "is_authorized recipient"
    "account_id mint_auth = for_public_pda E program (compute_mint_authority_pda_seed E)"
    "decode (definition_codec E) (data (account token_defn)) = Some (DefFungible nm s m (Some (account_id mint_auth)))"
    "cs = [with_pda_seeds (chained_call_new (program_owner (account token_defn))
       [account_id token_defn, account_id user_holding, account_id mint_auth]
       (MintWithAuthority FAUCET_MINT_AMOUNT)) [compute_mint_authority_pda_seed E]]"
    by (auto simp: faucet_mint_def success)
  from assms(2) obtain h f' h' x y where t:
    "if account user_holding = account_default E
     then zeroized_from_definition (account_id token_defn) (DefFungible nm s m (Some (account_id mint_auth))) = h
     else decode (holding_codec E) (data (account user_holding)) = Some h"
    "add_supply (DefFungible nm s m (Some (account_id mint_auth))) h FAUCET_MINT_AMOUNT = Inr (f', h')"
    "encode (definition_codec E) f' = Some x" "encode (holding_codec E) h' = Some y"
    "ds' = [NewData token_defn (Add 0) x, NewData user_holding (Add 0) y,
            Unchanged (mint_auth \<lparr> is_authorized := True \<rparr>)]"
    by (auto simp: f(3,4) token_main_def mint_with_authority_def mint_inner_def success)
  then obtain s' where s': "f' = DefFungible nm s' m (Some (account_id mint_auth))"
    "unat s' = unat s + 10000 * 10 ^ 18" "units h' = units h + 10000 * 10 ^ 18"
    using add_supply_units [OF t(2)] amount
    by (cases h) (auto simp: success)
  show ?thesis
    using f s' t by (auto simp: authorized_pdas_def compute_mint_authority_pda_def)
qed

theorem faucet_grants_fixed_amount_witness:
  "\<exists>ds c ds'. faucet_mint borsh_faucet_env demo_owner (faucet_allowance empty_account) faucet_holding
      faucet_token faucet_authority (faucet_clock 7) 5 = Inr (ds, [c]) \<and>
    authorized_pdas borsh_faucet_env 5 c = [compute_mint_authority_pda borsh_faucet_env 5] \<and>
    token_main borsh_faucet_env 2 (instruction_data c)
      [faucet_token, faucet_holding, faucet_authority \<lparr> is_authorized := True \<rparr>] = Inr ds'"
proof -
  obtain ds c where run: "faucet_mint borsh_faucet_env demo_owner (faucet_allowance empty_account)
      faucet_holding faucet_token faucet_authority (faucet_clock 7) 5 = Inr (ds, [c])"
      "instruction_data c = MintWithAuthority FAUCET_MINT_AMOUNT"
    using faucet_demo_mint [of "faucet_allowance empty_account" _ 7 empty_account]
    by (auto simp: faucet_allowance_def)
  have own: "program_owner (account faucet_token) = 2"
    by (simp add: faucet_token_def)
  obtain ds' where mint: "token_main borsh_faucet_env 2 (instruction_data c)
      [faucet_token, faucet_holding, faucet_authority \<lparr> is_authorized := True \<rparr>] = Inr ds'"
    by (simp add: run(2) token_main_def mint_with_authority_def mint_inner_def faucet_token_def
        faucet_holding_def faucet_authority_def authority_ref_def checked_add_def
        FAUCET_MINT_AMOUNT_def ONE_TOKEN_def definition_data_def holding_data_def)
  show ?thesis
    using faucet_grants_fixed_amount [OF run(1), of ds'] run(1) mint own by auto
qed

end
