(* ===== verification/Amm_Math.thy ===== *)
theory Amm_Math
  imports Prelude
begin

text \<open>
  The arithmetic of the AMM (\<^theory_text>\<open>programs/amm/core/src/lib.rs\<close>): fee validation, the wide
  multiply-divide routines, the spot price, the constant-product swap amounts in both directions and
  the geometric mean.  Amounts are 128-bit words; the intermediate products are 256-bit words, as in
  the source.  Each routine is characterised on the natural numbers its words denote.
\<close>

section \<open>Constants and fee checks\<close>

definition MINIMUM_LIQUIDITY :: u128 where
  "MINIMUM_LIQUIDITY = 1000"

definition FEE_BPS_DENOMINATOR :: u128 where
  "FEE_BPS_DENOMINATOR = 10000"

definition SUPPORTED_FEE_TIERS :: "u128 list" where
  "SUPPORTED_FEE_TIERS = [1, 5, 30, 100]"

definition is_supported_fee_tier :: "u128 \<Rightarrow> bool" where
  "is_supported_fee_tier fees = (fees = 1 \<or> fees = 5 \<or> fees = 30 \<or> fees = 100)"

definition assert_supported_fee_tier :: "u128 \<Rightarrow> unit outcome" where
  "assert_supported_fee_tier fees =
    ensure (is_supported_fee_tier fees) ''Fee tier must be one of 1, 5, 30, or 100 basis points'' (Inr ())"

definition assert_valid_swap_fee_bps :: "u128 \<Rightarrow> unit outcome" where
  "assert_valid_swap_fee_bps swap_fee_bps =
    ensure (swap_fee_bps < FEE_BPS_DENOMINATOR)
      ''Swap fee must be below FEE_BPS_DENOMINATOR (100%) basis points'' (Inr ())"

definition assert_valid_protocol_fee_bps :: "u128 \<Rightarrow> unit outcome" where
  "assert_valid_protocol_fee_bps protocol_fee_bps =
    ensure (protocol_fee_bps \<le> FEE_BPS_DENOMINATOR)
      ''Protocol fee must be at most FEE_BPS_DENOMINATOR (100% of the swap fee) basis points'' (Inr ())"

section \<open>Wide multiply and divide\<close>

definition widen256 :: "u128 \<Rightarrow> u256" where
  "widen256 a = ucast a"

definition mul_div_floor :: "u128 \<Rightarrow> u128 \<Rightarrow> u128 \<Rightarrow> u128 outcome" where
  "mul_div_floor a b c =
    ensure (c \<noteq> 0) ''mul_div_floor: divisor must be non-zero'' (
    expect ''u128 * u128 always fits in U256'' (checked_mul (widen256 a) (widen256 b)) (\<lambda>product.
    expect ''mul_div_floor: divisor is non-zero after the assertion above''
      (checked_div product (widen256 c)) (\<lambda>result.
    expect ''mul_div_floor result exceeds u128'' (narrow result) Inr)))"

text \<open>\<^theory_text>\<open>U256::div_ceil\<close>.\<close>

definition div_ceil :: "u256 \<Rightarrow> u256 \<Rightarrow> u256" where
  "div_ceil a b = (if a mod b = 0 then a div b else a div b + 1)"

definition mul_div_ceil :: "u128 \<Rightarrow> u128 \<Rightarrow> u128 \<Rightarrow> u128 outcome" where
  "mul_div_ceil a b c =
    ensure (c \<noteq> 0) ''mul_div_ceil: divisor must be non-zero'' (
    expect ''u128 * u128 always fits in U256'' (checked_mul (widen256 a) (widen256 b)) (\<lambda>product.
    expect ''mul_div_ceil result exceeds u128'' (narrow (div_ceil product (widen256 c))) Inr))"

definition protocol_fee_amount :: "u128 \<Rightarrow> u128 \<Rightarrow> u128 outcome" where
  "protocol_fee_amount swap_fee protocol_fee_bps =
    mul_div_floor swap_fee protocol_fee_bps FEE_BPS_DENOMINATOR"

section \<open>Prices\<close>

text \<open>\<^theory_text>\<open>U256::checked_shl(64)\<close>: \<^theory_text>\<open>None\<close> when a set bit would be shifted out.\<close>

definition checked_shl64 :: "u256 \<Rightarrow> u256 option" where
  "checked_shl64 a = (if unat a < 2 ^ 192 then Some (push_bit 64 a) else None)"

definition spot_price_q64_64 :: "u128 \<Rightarrow> u128 \<Rightarrow> u128 outcome" where
  "spot_price_q64_64 reserve_base reserve_quote =
    ensure (reserve_base \<noteq> 0) ''spot_price_q64_64: reserve_base must be non-zero'' (
    expect ''reserve_quote < 2^128, so reserve_quote << 64 fits in U256''
      (checked_shl64 (widen256 reserve_quote)) (\<lambda>numerator.
    expect ''reserve_base is non-zero after the assertion above''
      (checked_div numerator (widen256 reserve_base)) (\<lambda>price.
    Inr (case narrow price of Some p \<Rightarrow> p | None \<Rightarrow> - 1))))"

definition price_impact_bps :: "u128 \<Rightarrow> u128 \<Rightarrow> u128 \<Rightarrow> u128 \<Rightarrow> u32 outcome" where
  "price_impact_bps amount_in amount_out reserve_in reserve_out =
    (if reserve_in = 0 then Inr 0 else
     expect ''u128 * u128 always fits in U256''
       (checked_mul (widen256 reserve_out) (widen256 amount_in)) (\<lambda>product.
     expect ''reserve_in is non-zero after the guard above''
       (checked_div product (widen256 reserve_in)) (\<lambda>spot.
     (if spot = 0 then Inr 0 else
      expect ''FEE_BPS_DENOMINATOR * u128 always fits in U256''
        (checked_mul (widen256 FEE_BPS_DENOMINATOR) (widen256 amount_out)) (\<lambda>numerator.
      expect ''spot is non-zero after the is_zero check above'' (checked_div numerator spot) (\<lambda>kept.
      (let kept' = min (case narrow kept of Some k \<Rightarrow> k | None \<Rightarrow> FEE_BPS_DENOMINATOR) FEE_BPS_DENOMINATOR
       in Inr (case narrow (saturating_sub FEE_BPS_DENOMINATOR kept') of Some k \<Rightarrow> k | None \<Rightarrow> - 1))))))))"

section \<open>Swap amounts\<close>

definition swap_exact_in_amounts :: "u128 \<Rightarrow> u128 \<Rightarrow> u128 \<Rightarrow> u128 \<Rightarrow> (u128 \<times> u128) outcome" where
  "swap_exact_in_amounts amount_in reserve_in reserve_out fee_bps =
    (let fee_multiplier = saturating_sub FEE_BPS_DENOMINATOR fee_bps in
     attempt (mul_div_floor amount_in fee_multiplier FEE_BPS_DENOMINATOR) (\<lambda>effective_amount_in.
     (case checked_add reserve_in effective_amount_in of
        None \<Rightarrow> Inr (effective_amount_in, 0)
      | Some reserve_plus_effective \<Rightarrow>
          (if reserve_plus_effective = 0 then Inr (effective_amount_in, 0)
           else attempt (mul_div_floor reserve_out effective_amount_in reserve_plus_effective)
                  (\<lambda>amount_out. Inr (effective_amount_in, amount_out))))))"

definition swap_exact_out_amounts ::
  "u128 \<Rightarrow> u128 \<Rightarrow> u128 \<Rightarrow> u128 \<Rightarrow> (u128 \<times> u128) option outcome" where
  "swap_exact_out_amounts amount_out reserve_in reserve_out fee_bps =
    (case checked_sub reserve_out amount_out of
       None \<Rightarrow> Inr None
     | Some denominator \<Rightarrow>
         (if denominator = 0 then Inr None
          else if reserve_in = 0 then Inr None
          else attempt (mul_div_ceil reserve_in amount_out denominator) (\<lambda>effective_in_min.
            (case checked_sub FEE_BPS_DENOMINATOR fee_bps of
               None \<Rightarrow> Inr None
             | Some fee_multiplier \<Rightarrow>
                 (if fee_multiplier = 0 then Inr None
                  else attempt (mul_div_ceil effective_in_min FEE_BPS_DENOMINATOR fee_multiplier)
                    (\<lambda>required_in. Inr (Some (effective_in_min, required_in))))))))"

text \<open>\<^theory_text>\<open>root\<close> is \<^theory_text>\<open>ruint\<close>'s integer square root, a parameter with its documented law.\<close>

definition isqrt_product :: "(u256 \<Rightarrow> u256) \<Rightarrow> u128 \<Rightarrow> u128 \<Rightarrow> u128 outcome" where
  "isqrt_product root a b =
    expect ''u128 * u128 always fits in U256'' (checked_mul (widen256 a) (widen256 b)) (\<lambda>product.
    expect ''isqrt_product result exceeds u128'' (narrow (root product)) Inr)"

definition floor_root :: "(u256 \<Rightarrow> u256) \<Rightarrow> bool" where
  "floor_root root \<longleftrightarrow> (\<forall>x. unat (root x) ^ 2 \<le> unat x \<and> unat x < (unat (root x) + 1) ^ 2)"

section \<open>Meaning on naturals\<close>

definition cdiv :: "nat \<Rightarrow> nat \<Rightarrow> nat" where
  "cdiv m n = (m + n - 1) div n"

lemma cdiv_le_iff: "0 < n \<Longrightarrow> cdiv m n \<le> k \<longleftrightarrow> m \<le> n * k"
proof -
  assume n: "0 < n"
  have "cdiv m n < Suc k \<longleftrightarrow> m + n - 1 < n * Suc k"
    using n by (simp add: cdiv_def div_less_iff_less_mult mult.commute)
  also have "\<dots> \<longleftrightarrow> m \<le> n * k"
    using n by auto
  finally show "cdiv m n \<le> k \<longleftrightarrow> m \<le> n * k"
    by (simp only: less_Suc_eq_le)
qed

lemma le_div_iff: "0 < (n::nat) \<Longrightarrow> k \<le> m div n \<longleftrightarrow> k * n \<le> m"
  by (rule less_eq_div_iff_mult_less_eq)

lemma cdiv_mod:
  assumes "0 < n"
  shows "cdiv m n = (if m mod n = 0 then m div n else m div n + 1)"
proof -
  define q r where "q = m div n" and "r = m mod n"
  have m: "m = n * q + r" and r: "r < n"
    using assms by (simp_all add: q_def r_def)
  have "cdiv m n = (if r = 0 then q else q + 1)"
  proof (cases "r = 0")
    case True
    have "cdiv m n \<le> k \<longleftrightarrow> q \<le> k" for k
      using assms by (simp add: cdiv_le_iff m True)
    then show ?thesis
      using True by (metis eq_iff)
  next
    case False
    have "cdiv m n \<le> k \<longleftrightarrow> q + 1 \<le> k" for k
    proof -
      have "n * q + r \<le> n * k \<longleftrightarrow> q < k"
      proof
        assume "n * q + r \<le> n * k"
        then have "n * q < n * k"
          using False by linarith
        then show "q < k"
          by simp
      next
        assume "q < k"
        then have "n * (q + 1) \<le> n * k"
          by (intro mult_le_mono2) simp
        then show "n * q + r \<le> n * k"
          using r by simp
      qed
      then show ?thesis
        using assms by (simp add: cdiv_le_iff m Suc_le_eq)
    qed
    then show ?thesis
      using False by (metis eq_iff)
  qed
  then show ?thesis
    by (simp add: q_def r_def)
qed

lemma unat_widen256 [simp]: "unat (widen256 a) = unat a"
  by (simp add: widen256_def unat_widen)

lemma widen256_eq_0 [simp]: "widen256 a = 0 \<longleftrightarrow> a = 0"
  by (metis unat_widen256 unat_eq_zero)

lemma unat_pos_iff: "unat (c :: 'a::len word) \<noteq> 0 \<longleftrightarrow> c \<noteq> 0"
  by (simp add: unat_eq_zero)

lemma product_fits: "unat (a :: u128) * unat (b :: u128) < 2 ^ 256"
proof -
  have "unat a * unat b < 2 ^ 128 * 2 ^ 128"
    using unat_lt [of a] unat_lt [of b] by (intro mult_strict_mono) simp_all
  then show ?thesis
    by simp
qed

lemma checked_mul_widen:
  "\<exists>p. checked_mul (widen256 a) (widen256 b) = Some p \<and> unat p = unat a * unat b"
  using product_fits [of a b] by (simp add: checked_mul_def unat_mult_exact)

lemma unat_div_ceil: "b \<noteq> 0 \<Longrightarrow> unat (div_ceil a b) = cdiv (unat a) (unat b)"
proof -
  assume b: "b \<noteq> 0"
  have pos: "0 < unat b"
    using b by (simp add: unat_gt_0)
  show ?thesis
  proof (cases "a mod b = 0")
    case True
    then have "unat a mod unat b = 0"
      by (metis unat_mod_distrib unat_0)
    then show ?thesis
      using True pos by (simp add: div_ceil_def cdiv_mod unat_div)
  next
    case False
    then have m: "unat a mod unat b \<noteq> 0"
      by (metis unat_mod_distrib unat_eq_zero)
    then have "unat a div unat b < unat a"
      using pos by (metis div_less_dividend bot_nat_0.not_eq_extremum mod_by_1 mod_0 less_one
          linorder_neqE_nat)
    then have "unat (a div b + 1) = unat a div unat b + 1"
      using unat_lt [of a] by (subst unat_plus_exact) (simp_all add: unat_div)
    then show ?thesis
      using False m pos by (simp add: div_ceil_def cdiv_mod)
  qed
qed

lemma mul_div_floor_Inr [success]:
  "mul_div_floor a b c = Inr r \<longleftrightarrow> c \<noteq> 0 \<and> unat r = unat a * unat b div unat c"
proof -
  obtain p where p: "checked_mul (widen256 a) (widen256 b) = Some p" "unat p = unat a * unat b"
    using checked_mul_widen by blast
  show ?thesis
    by (auto simp: mul_div_floor_def p success checked_div_def narrow_Some unat_div)
qed

lemma mul_div_ceil_Inr [success]:
  "mul_div_ceil a b c = Inr r \<longleftrightarrow> c \<noteq> 0 \<and> unat r = cdiv (unat a * unat b) (unat c)"
proof -
  obtain p where p: "checked_mul (widen256 a) (widen256 b) = Some p" "unat p = unat a * unat b"
    using checked_mul_widen by blast
  show ?thesis
    by (auto simp: mul_div_ceil_def p success narrow_Some unat_div_ceil)
qed

lemma mul_div_floor_cases:
  "mul_div_floor a b c =
    (if c = 0 then Inl (Panic ''mul_div_floor: divisor must be non-zero'')
     else if 2 ^ 128 \<le> unat a * unat b div unat c then Inl (Panic ''mul_div_floor result exceeds u128'')
     else Inr (of_nat (unat a * unat b div unat c)))"
proof -
  obtain p where p: "checked_mul (widen256 a) (widen256 b) = Some p" "unat p = unat a * unat b"
    using checked_mul_widen by blast
  have r: "unat (p div widen256 c) = unat a * unat b div unat c"
    by (simp add: unat_div p)
  have "(ucast (p div widen256 c) :: u128) = of_nat (unat a * unat b div unat c)"
    unfolding r [symmetric] by simp
  with p r show ?thesis
    by (simp add: mul_div_floor_def checked_div_def narrow_def)
qed

lemma mul_div_ceil_cases:
  "mul_div_ceil a b c =
    (if c = 0 then Inl (Panic ''mul_div_ceil: divisor must be non-zero'')
     else if 2 ^ 128 \<le> cdiv (unat a * unat b) (unat c) then Inl (Panic ''mul_div_ceil result exceeds u128'')
     else Inr (of_nat (cdiv (unat a * unat b) (unat c))))"
proof (cases "c = 0")
  case False
  obtain p where p: "checked_mul (widen256 a) (widen256 b) = Some p" "unat p = unat a * unat b"
    using checked_mul_widen by blast
  have r: "unat (div_ceil p (widen256 c)) = cdiv (unat a * unat b) (unat c)"
    using False by (simp add: unat_div_ceil p)
  have "(ucast (div_ceil p (widen256 c)) :: u128) = of_nat (cdiv (unat a * unat b) (unat c))"
    unfolding r [symmetric] by simp
  with p r False show ?thesis
    by (simp add: mul_div_ceil_def narrow_def)
qed (simp add: mul_div_ceil_def)

text \<open>A fraction of at most one never overflows.\<close>

lemma mul_div_floor_le:
  assumes "c \<noteq> 0" "b \<le> c"
  shows "\<exists>r. mul_div_floor a b c = Inr r \<and> unat r = unat a * unat b div unat c \<and> unat r \<le> unat a"
proof -
  have "unat a * unat b div unat c \<le> unat a * unat c div unat c"
    using assms(2) by (intro div_le_mono mult_le_mono2) (simp add: word_le_nat_alt)
  then have le: "unat a * unat b div unat c \<le> unat a"
    using assms(1) by (simp add: unat_eq_zero)
  then have "unat a * unat b div unat c < 2 ^ 128"
    using unat_lt [of a] by simp
  then show ?thesis
    using assms(1) le by (simp add: mul_div_floor_cases unat_of_nat)
qed

lemma unat_denominator [simp]: "unat FEE_BPS_DENOMINATOR = 10000"
  by (simp add: FEE_BPS_DENOMINATOR_def)

lemma denominator_nonzero [simp]: "FEE_BPS_DENOMINATOR \<noteq> 0"
  by (simp add: FEE_BPS_DENOMINATOR_def)

section \<open>The swap amounts on naturals\<close>

text \<open>The input that reaches the pool after the fee, and the output the curve pays for it.\<close>

definition effective_in :: "nat \<Rightarrow> nat \<Rightarrow> nat" where
  "effective_in amount fee = amount * (10000 - fee) div 10000"

definition curve_out :: "nat \<Rightarrow> nat \<Rightarrow> nat \<Rightarrow> nat" where
  "curve_out rin rout e = rout * e div (rin + e)"

lemma effective_in_le: "effective_in x f \<le> x"
proof -
  have "x * (10000 - f) div 10000 \<le> x * 10000 div 10000"
    by (intro div_le_mono mult_le_mono2) simp
  then show ?thesis
    by (simp add: effective_in_def)
qed

lemma curve_out_less: "0 < rin \<Longrightarrow> 0 < rout \<Longrightarrow> curve_out rin rout e < rout"
  by (simp add: curve_out_def div_less_iff_less_mult)

text \<open>The product of the reserves, with the effective input added and the output removed, never falls.\<close>

lemma curve_product:
  assumes "0 < rin"
  shows "rin * rout \<le> (rin + e) * (rout - curve_out rin rout e)"
proof -
  have "curve_out rin rout e * (rin + e) \<le> rout * e"
    using assms by (simp add: curve_out_def)
  then have "(rin + e) * curve_out rin rout e \<le> rout * e"
    by (simp add: mult.commute)
  then show ?thesis
    by (simp add: right_diff_distrib' algebra_simps)
qed

text \<open>An input pays at least a given output exactly from the ceiling of the inverse curve on.\<close>

lemma curve_inverse:
  assumes "0 < rin" "out < rout"
  shows "out \<le> curve_out rin rout e \<longleftrightarrow> cdiv (rin * out) (rout - out) \<le> e"
proof -
  have "out \<le> curve_out rin rout e \<longleftrightarrow> out * (rin + e) \<le> rout * e"
    using assms(1) by (simp add: curve_out_def le_div_iff)
  also have "\<dots> \<longleftrightarrow> rin * out \<le> (rout - out) * e"
    using assms(2) by (auto simp: diff_mult_distrib algebra_simps le_diff_conv2)
  also have "\<dots> \<longleftrightarrow> cdiv (rin * out) (rout - out) \<le> e"
    using assms(2) by (simp add: cdiv_le_iff)
  finally show ?thesis .
qed

lemma effective_inverse:
  assumes "f < 10000"
  shows "e \<le> effective_in x f \<longleftrightarrow> cdiv (e * 10000) (10000 - f) \<le> x"
  using assms by (simp add: effective_in_def le_div_iff cdiv_le_iff mult.commute)

lemma swap_exact_in_amounts_cases:
  assumes "rin \<noteq> 0" "fee \<le> FEE_BPS_DENOMINATOR"
  shows "\<exists>e out. swap_exact_in_amounts x rin rout fee = Inr (e, out) \<and>
    unat e = effective_in (unat x) (unat fee) \<and>
    unat out = (if unat rin + unat e < 2 ^ 128 then curve_out (unat rin) (unat rout) (unat e) else 0)"
proof -
  have "saturating_sub FEE_BPS_DENOMINATOR fee \<le> FEE_BPS_DENOMINATOR"
    by (simp add: word_le_nat_alt unat_saturating_sub)
  then obtain e where e: "mul_div_floor x (saturating_sub FEE_BPS_DENOMINATOR fee) FEE_BPS_DENOMINATOR = Inr e"
      "unat e = effective_in (unat x) (unat fee)"
    using mul_div_floor_le [OF denominator_nonzero, of "saturating_sub FEE_BPS_DENOMINATOR fee" x]
    by (auto simp: unat_saturating_sub effective_in_def)
  show ?thesis
  proof (cases "checked_add rin e")
    case None
    then have "swap_exact_in_amounts x rin rout fee = Inr (e, 0)"
      using e by (simp add: swap_exact_in_amounts_def)
    moreover have "\<not> unat rin + unat e < 2 ^ 128"
      using None by (simp add: checked_add_None)
    ultimately show ?thesis
      using e(2) by auto
  next
    case (Some s)
    have s: "unat s = unat rin + unat e"
      using Some by (simp add: checked_add_Some)
    have "s \<noteq> 0" "e \<le> s"
      using s assms(1) by (auto simp: word_le_nat_alt simp flip: unat_pos_iff)
    then obtain out where "mul_div_floor rout e s = Inr out" "unat out = unat rout * unat e div unat s"
      using mul_div_floor_le by blast
    then show ?thesis
      using e(1) Some s \<open>s \<noteq> 0\<close> unat_lt [of s]
      by (intro exI [of _ e] exI [of _ out])
        (simp add: swap_exact_in_amounts_def Let_def curve_out_def e(2) [symmetric])
  qed
qed

lemma swap_exact_out_amounts_Some:
  assumes "swap_exact_out_amounts out rin rout fee = Inr (Some (e, x))"
  shows "rin \<noteq> 0" "unat out < unat rout" "unat fee < 10000"
    and "unat e = cdiv (unat rin * unat out) (unat rout - unat out)"
    and "unat x = cdiv (unat e * 10000) (10000 - unat fee)"
proof -
  from assms obtain d m where d: "checked_sub rout out = Some d" "d \<noteq> 0" "rin \<noteq> 0"
    "mul_div_ceil rin out d = Inr e"
    "checked_sub FEE_BPS_DENOMINATOR fee = Some m" "m \<noteq> 0" "mul_div_ceil e FEE_BPS_DENOMINATOR m = Inr x"
    by (auto simp: swap_exact_out_amounts_def success split: option.splits if_splits)
  have "unat rout = unat out + unat d" "unat d \<noteq> 0" "10000 = unat fee + unat m" "unat m \<noteq> 0"
    using d by (simp_all add: checked_sub_Some unat_eq_zero)
  then show "rin \<noteq> 0" "unat out < unat rout" "unat fee < 10000"
    "unat e = cdiv (unat rin * unat out) (unat rout - unat out)"
    "unat x = cdiv (unat e * 10000) (10000 - unat fee)"
    using d by (simp_all add: success) (metis add_diff_cancel_left')+
qed

lemma unat_of_nat_small: "n < 2 ^ LENGTH('a) \<Longrightarrow> unat (of_nat n :: 'a::len word) = n"
  by (simp add: unat_of_nat)

lemma protocol_fee_le:
  assumes "bps \<le> FEE_BPS_DENOMINATOR"
  shows "\<exists>f. protocol_fee_amount swap_fee bps = Inr f \<and>
    unat f = unat swap_fee * unat bps div 10000 \<and> unat f \<le> unat swap_fee"
  using mul_div_floor_le [OF denominator_nonzero assms, of swap_fee] by (simp add: protocol_fee_amount_def)

section \<open>A concrete integer root\<close>

fun nat_sqrt :: "nat \<Rightarrow> nat" where
  "nat_sqrt n = (if n = 0 then 0 else
     let r = 2 * nat_sqrt (n div 4) in if (r + 1) ^ 2 \<le> n then r + 1 else r)"

declare nat_sqrt.simps [simp del]

lemma nat_sqrt_bounds: "nat_sqrt n ^ 2 \<le> n \<and> n < (nat_sqrt n + 1) ^ 2"
proof (induction n rule: nat_sqrt.induct)
  case (1 n)
  show ?case
  proof (cases "n = 0")
    case False
    define s where "s = nat_sqrt (n div 4)"
    have s: "s\<^sup>2 \<le> n div 4" "n div 4 < (s + 1)\<^sup>2"
      using 1 [OF False] by (simp_all add: s_def)
    have "4 * s\<^sup>2 \<le> n"
      using s(1) by linarith
    moreover have "n < 4 * (s + 1)\<^sup>2"
      using s(2) by (simp add: div_less_iff_less_mult mult.commute)
    moreover have "nat_sqrt n = (if (2 * s + 1)\<^sup>2 \<le> n then 2 * s + 1 else 2 * s)"
      by (subst nat_sqrt.simps) (simp add: False s_def Let_def)
    ultimately show ?thesis
      by (auto simp: power2_eq_square algebra_simps)
  qed (simp add: nat_sqrt.simps)
qed

definition word_sqrt :: "u256 \<Rightarrow> u256" where
  "word_sqrt x = of_nat (nat_sqrt (unat x))"

lemma word_sqrt_floor_root: "floor_root word_sqrt"
proof -
  have "unat (word_sqrt x) = nat_sqrt (unat x)" for x
  proof -
    have "nat_sqrt (unat x) \<le> nat_sqrt (unat x) ^ 2"
      by (simp add: power2_nat_le_imp_le)
    then have "nat_sqrt (unat x) < 2 ^ 256"
      using nat_sqrt_bounds [of "unat x"] unat_lt [of x] by simp
    then show ?thesis
      by (simp add: word_sqrt_def unat_of_nat)
  qed
  then show ?thesis
    using nat_sqrt_bounds by (simp add: floor_root_def)
qed

lemma spot_price_cases:
  "spot_price_q64_64 base quote =
    (if base = 0 then Inl (Panic ''spot_price_q64_64: reserve_base must be non-zero'')
     else Inr (of_nat (min (unat quote * 2 ^ 64 div unat base) (2 ^ 128 - 1))))"
proof (cases "base = 0")
  case False
  have small: "unat (widen256 quote) < 2 ^ 192"
    using unat_lt [of quote] by simp
  have shift: "unat (push_bit 64 (widen256 quote)) = unat quote * 2 ^ 64"
  proof -
    have "push_bit 64 (widen256 quote) = widen256 quote * 2 ^ 64"
      by (simp add: push_bit_eq_mult)
    moreover have "unat (widen256 quote * 2 ^ 64) = unat (widen256 quote) * unat (2 ^ 64 :: u256)"
      using unat_lt [of quote] by (intro unat_mult_exact) simp
    ultimately show ?thesis
      by simp
  qed
  let ?q = "push_bit 64 (widen256 quote) div widen256 base"
  have q: "unat ?q = unat quote * 2 ^ 64 div unat base"
    by (simp add: unat_div shift)
  have run: "spot_price_q64_64 base quote = Inr (case narrow ?q of Some p \<Rightarrow> p | None \<Rightarrow> - 1)"
    using False small by (simp add: spot_price_q64_64_def checked_shl64_def checked_div_def)
  show ?thesis
  proof (cases "unat ?q < 2 ^ 128")
    case True
    then have "narrow ?q = Some (of_nat (unat quote * 2 ^ 64 div unat base) :: u128)"
      using q by (simp add: narrow_Some unat_of_nat)
    then show ?thesis
      using False True run q by (simp add: min_def)
  next
    case big: False
    then have "(narrow ?q :: u128 option) = None"
      by (simp add: narrow_None)
    moreover have "(of_nat (2 ^ 128 - 1) :: u128) = - 1"
      by simp
    ultimately show ?thesis
      using False big run q by (simp add: min_def)
  qed
qed (simp add: spot_price_q64_64_def)

end
