(* ===== verification/Amm_Math_Props.thy ===== *)
theory Amm_Math_Props
  imports Amm_Math
begin

text \<open>
  The properties of the AMM arithmetic, each on the whole range of 128-bit inputs.
\<close>

text \<open>
  C27. Exact-output is the inverse of exact-input.  Whenever the exact-output routine quotes a gross
  input for a desired output, that input is the least one for which the exact-input routine, on the
  same reserves and fee, pays at least that output: paying it is enough, and one unit less is not.
  (Inputs whose effective part overflows the reserve are the ones the exact-input routine answers with 0.)
\<close>

theorem exact_out_is_least_input:
  assumes "swap_exact_out_amounts out rin rout fee = Inr (Some (eff, required))"
    and "swap_exact_in_amounts x rin rout fee = Inr (e, paid)"
    and "unat rin + unat e < 2 ^ 128"
  shows "out \<le> paid \<longleftrightarrow> required \<le> x"
proof -
  note q = swap_exact_out_amounts_Some [OF assms(1)]
  have "fee \<le> FEE_BPS_DENOMINATOR"
    using q(3) by (simp add: word_le_nat_alt)
  then have p: "unat e = effective_in (unat x) (unat fee)"
    "unat paid = curve_out (unat rin) (unat rout) (unat e)"
    using swap_exact_in_amounts_cases [OF q(1), of fee x rout] assms(2,3) by auto
  have "unat out \<le> unat paid \<longleftrightarrow> unat eff \<le> unat e"
    using curve_inverse [of "unat rin" "unat out" "unat rout"] q(1,2,4) p(2) by (simp add: unat_gt_0)
  also have "\<dots> \<longleftrightarrow> unat required \<le> unat x"
    using effective_inverse [OF q(3), of "unat eff" "unat x"] q(5) p(1) by simp
  finally show ?thesis
    by (simp add: word_le_nat_alt)
qed

theorem exact_out_is_least_input_witness:
  "swap_exact_out_amounts 90 1000 1000 30 = Inr (Some (99, 100)) \<and>
   swap_exact_in_amounts 100 1000 1000 30 = Inr (99, 90) \<and> (90 :: u128) \<le> 90"
proof -
  have q: "swap_exact_out_amounts 90 1000 1000 30 = Inr (Some (99, 100))"
    by (simp add: swap_exact_out_amounts_def checked_sub_def FEE_BPS_DENOMINATOR_def mul_div_ceil_cases cdiv_def)
  have i: "swap_exact_in_amounts 100 1000 1000 30 = Inr (99, 90)"
    by (simp add: swap_exact_in_amounts_def saturating_sub_def checked_add_def FEE_BPS_DENOMINATOR_def
        mul_div_floor_cases)
  show ?thesis
    using exact_out_is_least_input [OF q i] q i by simp
qed

text \<open>
  Exact-input pricing respects the curve.  On a pool with positive reserves and a fee of at most
  100%, the routine never panics; the effective input is at most the input, the output is strictly
  less than the reserve, and the product of the reserves does not fall even when only the effective
  input is counted.
\<close>

theorem exact_in_respects_curve:
  assumes "rin \<noteq> 0" "rout \<noteq> 0" "fee \<le> FEE_BPS_DENOMINATOR"
  shows "\<exists>e out. swap_exact_in_amounts x rin rout fee = Inr (e, out) \<and>
    e \<le> x \<and> out < rout \<and>
    unat rin * unat rout \<le> (unat rin + unat e) * (unat rout - unat out)"
proof -
  obtain e out where s: "swap_exact_in_amounts x rin rout fee = Inr (e, out)"
    "unat e = effective_in (unat x) (unat fee)"
    "unat out = (if unat rin + unat e < 2 ^ 128 then curve_out (unat rin) (unat rout) (unat e) else 0)"
    using swap_exact_in_amounts_cases [OF assms(1,3)] by blast
  have "unat e \<le> unat x"
    using s(2) effective_in_le by simp
  moreover have "unat out < unat rout"
    using s(3) assms(1,2) curve_out_less by (simp add: unat_gt_0)
  moreover have "unat rin * unat rout \<le> (unat rin + unat e) * (unat rout - unat out)"
    using s(3) assms(1) curve_product by (simp add: unat_gt_0)
  ultimately show ?thesis
    using s(1) by (auto simp: word_le_nat_alt word_less_nat_alt)
qed

theorem exact_in_respects_curve_witness:
  "\<exists>e out. swap_exact_in_amounts 100 1000 1000 30 = Inr (e, out) \<and> out < 1000 \<and>
    1000 * 1000 \<le> (1000 + unat e) * (1000 - unat out)"
  using exact_in_respects_curve [of 1000 1000 30 100]
  by (auto simp: FEE_BPS_DENOMINATOR_def)

text \<open>
  The wide multiply-divide routines are exact.  Over all inputs, the floor routine panics on a
  zero divisor, panics when the quotient needs more than 128 bits, and otherwise returns the exact
  floor of the product over the divisor; the ceiling routine likewise returns the exact ceiling.
\<close>

theorem mul_div_exact:
  "mul_div_floor a b c =
     (if c = 0 then Inl (Panic ''mul_div_floor: divisor must be non-zero'')
      else if 2 ^ 128 \<le> unat a * unat b div unat c then Inl (Panic ''mul_div_floor result exceeds u128'')
      else Inr (of_nat (unat a * unat b div unat c))) \<and>
   mul_div_ceil a b c =
     (if c = 0 then Inl (Panic ''mul_div_ceil: divisor must be non-zero'')
      else if 2 ^ 128 \<le> cdiv (unat a * unat b) (unat c) then Inl (Panic ''mul_div_ceil result exceeds u128'')
      else Inr (of_nat (cdiv (unat a * unat b) (unat c))))"
  using mul_div_floor_cases mul_div_ceil_cases by blast

text \<open>
  Every outcome of the exact-output quote.  The routine answers \<^theory_text>\<open>None\<close> for an unfulfillable
  trade, the two rounded-up amounts when they fit, and panics when one of them needs more than
  128 bits, although the trade is then merely too large.
\<close>

theorem exact_out_every_outcome:
  "swap_exact_out_amounts out rin rout fee =
    (let e = cdiv (unat rin * unat out) (unat rout - unat out);
         x = cdiv (e * 10000) (10000 - unat fee) in
     if rout \<le> out \<or> rin = 0 then Inr None
     else if 2 ^ 128 \<le> e then Inl (Panic ''mul_div_ceil result exceeds u128'')
     else if 10000 \<le> unat fee then Inr None
     else if 2 ^ 128 \<le> x then Inl (Panic ''mul_div_ceil result exceeds u128'')
     else Inr (Some (of_nat e, of_nat x)))"
proof (cases "rout \<le> out \<or> rin = 0")
  case True
  then show ?thesis
    by (auto simp: swap_exact_out_amounts_def checked_sub_def split: if_splits)
next
  case False
  then have d: "checked_sub rout out = Some (rout - out)" "unat (rout - out) = unat rout - unat out"
    "rout - out \<noteq> 0" "rin \<noteq> 0" "\<not> rout \<le> out"
    by (auto simp: checked_sub_def unat_minus_exact)
  show ?thesis
  proof (cases "2 ^ 128 \<le> cdiv (unat rin * unat out) (unat rout - unat out)")
    case True
    then show ?thesis
      using d by (simp add: swap_exact_out_amounts_def mul_div_ceil_cases)
  next
    case small: False
    let ?e = "of_nat (cdiv (unat rin * unat out) (unat rout - unat out)) :: u128"
    have e: "unat ?e = cdiv (unat rin * unat out) (unat rout - unat out)"
      using small by (simp add: unat_of_nat)
    have first: "mul_div_ceil rin out (rout - out) = Inr ?e"
      using small d by (simp add: mul_div_ceil_cases)
    show ?thesis
    proof (cases "10000 \<le> unat fee")
      case True
      then have "checked_sub FEE_BPS_DENOMINATOR fee = None \<or> checked_sub FEE_BPS_DENOMINATOR fee = Some 0"
        by (auto simp: checked_sub_None checked_sub_Some)
      then show ?thesis
        using True small d first by (auto simp: swap_exact_out_amounts_def)
    next
      case fee: False
      then have m: "checked_sub FEE_BPS_DENOMINATOR fee = Some (FEE_BPS_DENOMINATOR - fee)"
        "unat (FEE_BPS_DENOMINATOR - fee) = 10000 - unat fee" "FEE_BPS_DENOMINATOR - fee \<noteq> 0"
        by (auto simp: checked_sub_def word_le_nat_alt unat_minus_exact simp flip: unat_pos_iff)
      show ?thesis
        using small d first m fee e
        by (simp add: swap_exact_out_amounts_def mul_div_ceil_cases Let_def)
    qed
  qed
qed

text \<open>
  The geometric mean.  With an integer root that is the floor of the square root, the routine
  never panics and returns the floor of the square root of the full 256-bit product.
\<close>

theorem isqrt_product_floor:
  assumes "floor_root root"
  shows "\<exists>r. isqrt_product root a b = Inr r \<and>
    unat r ^ 2 \<le> unat a * unat b \<and> unat a * unat b < (unat r + 1) ^ 2"
proof -
  obtain p where p: "checked_mul (widen256 a) (widen256 b) = Some p" "unat p = unat a * unat b"
    using checked_mul_widen by blast
  have root: "unat (root p) ^ 2 \<le> unat p" "unat p < (unat (root p) + 1) ^ 2"
    using assms by (simp_all add: floor_root_def)
  have "unat (root p) ^ 2 < (2 ^ 128) ^ 2"
    using root(1) unat_lt [of p] by simp
  then have "unat (root p) < 2 ^ 128"
    by (rule power_less_imp_less_base) simp
  then obtain r :: u128 where r: "narrow (root p) = Some r"
    by (simp add: narrow_def)
  then have "unat r = unat (root p)"
    by (simp add: narrow_Some)
  then show ?thesis
    using p root r by (simp add: isqrt_product_def)
qed

theorem isqrt_product_floor_witness:
  "\<exists>r. isqrt_product word_sqrt 2000 8000 = Inr r \<and> unat r ^ 2 \<le> 16000000"
  using isqrt_product_floor [OF word_sqrt_floor_root, of 2000 8000] by auto

text \<open>
  The spot price.  The routine panics exactly on a zero base reserve and otherwise returns the
  floor of the Q64.64 quotient, saturated at the largest 128-bit value.
\<close>

theorem spot_price_saturates:
  "spot_price_q64_64 base quote =
    (if base = 0 then Inl (Panic ''spot_price_q64_64: reserve_base must be non-zero'')
     else Inr (of_nat (min (unat quote * 2 ^ 64 div unat base) (2 ^ 128 - 1))))"
  by (rule spot_price_cases)

text \<open>
  The displayed price impact.  The routine never panics, on any input, and its result is at most
  10000 basis points.
\<close>

theorem price_impact_bounded:
  "\<exists>k. price_impact_bps amount_in amount_out rin rout = Inr k \<and> unat k \<le> 10000"
proof -
  obtain p where p: "checked_mul (widen256 rout) (widen256 amount_in) = Some p"
    using checked_mul_widen by blast
  obtain n where n: "checked_mul (widen256 FEE_BPS_DENOMINATOR) (widen256 amount_out) = Some n"
    using checked_mul_widen by blast
  have "\<exists>k. (case narrow (saturating_sub FEE_BPS_DENOMINATOR y) of Some k \<Rightarrow> k | None \<Rightarrow> - 1) = (k :: u32) \<and>
      unat k \<le> 10000" for y :: u128
  proof -
    have le: "unat (saturating_sub FEE_BPS_DENOMINATOR y) \<le> 10000"
      by (simp add: unat_saturating_sub)
    then have "unat (saturating_sub FEE_BPS_DENOMINATOR y) < 2 ^ 32"
      by simp
    then obtain k :: u32 where k: "narrow (saturating_sub FEE_BPS_DENOMINATOR y) = Some k"
      by (simp add: narrow_def)
    then have "unat k = unat (saturating_sub FEE_BPS_DENOMINATOR y)"
      by (simp add: narrow_Some)
    then show ?thesis
      using le k by simp
  qed
  then show ?thesis
    using p n by (auto simp: price_impact_bps_def checked_div_def Let_def)
qed

end
