(* ===== verification/Twap_Core.thy ===== *)
theory Twap_Core
  imports Token_Core
begin

text \<open>
  The data of the TWAP oracle (\<^theory_text>\<open>programs/twap_oracle/core/src/lib.rs\<close>): its instructions and
  accounts, the derivation of their addresses, the bitwise integer square root and the conversions
  between prices and ticks.  The tick arithmetic itself is the crate \<^theory_text>\<open>uniswap_v3_math\<close>, a parameter.
\<close>

section \<open>Instructions and accounts\<close>

datatype twap_instruction =
    CreatePriceObservations (initial_tick: i32) (window_duration: u64)
  | CreateOraclePriceAccount (base_asset: account_id) (quote_asset: account_id) (initial_price: u128)
      (window_duration: u64)
  | CreateCurrentTickAccount (initial_price: u128)
  | UpdateCurrentTick (new_price: u128)
  | PublishPrice (source: account_id) (window_duration: u64)
  | RecordTick (source: account_id) (window_duration: u64)

definition MAX_TICK_DELTA :: int where
  "MAX_TICK_DELTA = 9116"

definition OBSERVATIONS_CAPACITY :: nat where
  "OBSERVATIONS_CAPACITY = 2048"

definition MAX_TAIL_INTERVALS :: u64 where
  "MAX_TAIL_INTERVALS = 4"

record observation_entry =
  entry_timestamp :: u64
  tick_cumulative :: i64

record price_observations =
  price_source_id :: account_id
  write_index :: u32
  total_entries :: u64
  last_recorded_tick :: i32
  entries :: "observation_entry list"

record oracle_price_account =
  oracle_base_asset :: account_id
  oracle_quote_asset :: account_id
  oracle_price :: u128
  oracle_timestamp :: u64
  oracle_source_id :: account_id
  confidence_interval :: u128

record current_tick_account =
  tick :: i32
  last_updated :: u64

section \<open>The environment\<close>

text \<open>
  The codecs of the three accounts and the functions of \<^theory_text>\<open>uniswap_v3_math\<close>:
  \<^theory_text>\<open>get_tick_at_sqrt_ratio\<close>, \<^theory_text>\<open>get_sqrt_ratio_at_tick\<close> and \<^theory_text>\<open>mul_div\<close> return \<^theory_text>\<open>None\<close> for an error.
\<close>

record 'd twap_env = "'d token_env" +
  observations_codec :: "(price_observations, 'd) codec"
  oracle_price_codec :: "(oracle_price_account, 'd) codec"
  current_tick_codec :: "(current_tick_account, 'd) codec"
  MIN_SQRT_RATIO :: u256
  MIN_TICK :: i32
  MAX_TICK :: i32
  get_tick_at_sqrt_ratio :: "u256 \<Rightarrow> i32 option"
  get_sqrt_ratio_at_tick :: "i32 \<Rightarrow> u256 option"
  full_math_mul_div :: "u256 \<Rightarrow> u256 \<Rightarrow> u256 \<Rightarrow> u256 option"

section \<open>Addresses\<close>

definition PRICE_OBSERVATIONS_PDA_SEED :: bytes where
  "PRICE_OBSERVATIONS_PDA_SEED = ascii ''PRICE_OBSERVATIONS''"

definition ORACLE_PRICE_ACCOUNT_PDA_SEED :: bytes where
  "ORACLE_PRICE_ACCOUNT_PDA_SEED = ascii ''ORACLE_PRICE_ACCOUNT''"

definition CURRENT_TICK_ACCOUNT_PDA_SEED :: bytes where
  "CURRENT_TICK_ACCOUNT_PDA_SEED = ascii ''CURRENT_TICK_ACCOUNT''"

definition price_observations_seed_bytes :: "account_id \<Rightarrow> u64 \<Rightarrow> bytes" where
  "price_observations_seed_bytes source_id window =
    to_bytes source_id @ to_le_bytes window @ PRICE_OBSERVATIONS_PDA_SEED"

definition compute_price_observations_pda_seed ::
  "('d, 'x) lee_env_scheme \<Rightarrow> account_id \<Rightarrow> u64 \<Rightarrow> pda_seed" where
  "compute_price_observations_pda_seed E source_id window =
    sha256 E (price_observations_seed_bytes source_id window)"

definition compute_price_observations_pda ::
  "('d, 'x) lee_env_scheme \<Rightarrow> account_id \<Rightarrow> account_id \<Rightarrow> u64 \<Rightarrow> account_id" where
  "compute_price_observations_pda E oracle_program source_id window =
    for_public_pda E oracle_program (compute_price_observations_pda_seed E source_id window)"

definition oracle_price_account_seed_bytes :: "account_id \<Rightarrow> u64 \<Rightarrow> bytes" where
  "oracle_price_account_seed_bytes source_id window =
    to_bytes source_id @ to_le_bytes window @ ORACLE_PRICE_ACCOUNT_PDA_SEED"

definition compute_oracle_price_account_pda_seed ::
  "('d, 'x) lee_env_scheme \<Rightarrow> account_id \<Rightarrow> u64 \<Rightarrow> pda_seed" where
  "compute_oracle_price_account_pda_seed E source_id window =
    sha256 E (oracle_price_account_seed_bytes source_id window)"

definition compute_oracle_price_account_pda ::
  "('d, 'x) lee_env_scheme \<Rightarrow> account_id \<Rightarrow> account_id \<Rightarrow> u64 \<Rightarrow> account_id" where
  "compute_oracle_price_account_pda E oracle_program source_id window =
    for_public_pda E oracle_program (compute_oracle_price_account_pda_seed E source_id window)"

definition current_tick_account_seed_bytes :: "account_id \<Rightarrow> bytes" where
  "current_tick_account_seed_bytes source_id = to_bytes source_id @ CURRENT_TICK_ACCOUNT_PDA_SEED"

definition compute_current_tick_account_pda_seed ::
  "('d, 'x) lee_env_scheme \<Rightarrow> account_id \<Rightarrow> pda_seed" where
  "compute_current_tick_account_pda_seed E source_id = sha256 E (current_tick_account_seed_bytes source_id)"

definition compute_current_tick_account_pda ::
  "('d, 'x) lee_env_scheme \<Rightarrow> account_id \<Rightarrow> account_id \<Rightarrow> account_id" where
  "compute_current_tick_account_pda E oracle_program source_id =
    for_public_pda E oracle_program (compute_current_tick_account_pda_seed E source_id)"

section \<open>Integer square root\<close>

fun bit_length :: "nat \<Rightarrow> nat" where
  "bit_length n = (if n = 0 then 0 else Suc (bit_length (n div 2)))"

declare bit_length.simps [simp del]

definition leading_zeros :: "u256 \<Rightarrow> nat" where
  "leading_zeros n = 256 - bit_length (unat n)"

text \<open>One iteration per digit of the root: \<^theory_text>\<open>d\<close> walks down the powers of four.\<close>

function isqrt_loop :: "u256 \<Rightarrow> u256 \<Rightarrow> u256 \<Rightarrow> u256 outcome" where
  "isqrt_loop d c x =
    (if d = 0 then Inr c else
     expect ''c + d stays below the root, no overflow'' (checked_add c d) (\<lambda>cd.
     (if cd \<le> x then
        expect ''guarded by x >= cd'' (checked_sub x cd) (\<lambda>x'.
        expect ''c/2 + d stays below the root, no overflow'' (checked_add (drop_bit 1 c) d) (\<lambda>c'.
        isqrt_loop (drop_bit 2 d) c' x'))
      else isqrt_loop (drop_bit 2 d) (drop_bit 1 c) x)))"
  by pat_completeness auto

termination
proof (relation "measure (\<lambda>(d, c, x). unat d)")
  have "unat (drop_bit 2 d) < unat d" if "d \<noteq> 0" for d :: u256
    using that by (simp add: unat_drop_bit unat_gt_0)
  then show "((drop_bit 2 d, c', x'), (d, c, x)) \<in> measure (\<lambda>(d, c, x). unat d)"
    if "d \<noteq> 0" for d c x c' x' :: u256
    using that by simp
  then show "((drop_bit 2 d, drop_bit 1 c, x), (d, c, x)) \<in> measure (\<lambda>(d, c, x). unat d)"
    if "d \<noteq> 0" for d c x :: u256
    using that by simp
qed auto

declare isqrt_loop.simps [simp del]

definition integer_sqrt :: "u256 \<Rightarrow> u256 outcome" where
  "integer_sqrt n =
    (if n = 0 then Inr 0 else
     expect ''n is non-zero, so leading_zeros <= 255''
       (if leading_zeros n \<le> 255 then Some (255 - leading_zeros n) else None) (\<lambda>msb.
     (let start = msb - msb mod 2 in
      expect ''start < 256'' (if start < 256 then Some (push_bit start 1) else None) (\<lambda>d.
      isqrt_loop d 0 n))))"

lemma isqrt_loop_zero: "isqrt_loop 0 c x = Inr c"
  by (simp add: isqrt_loop.simps)

text \<open>
  Before digit \<^theory_text>\<open>k\<close> the root found so far is \<^theory_text>\<open>R\<close>, a multiple of \<^theory_text>\<open>2 ^ (k + 1)\<close>; the loop holds
  \<^theory_text>\<open>d = 4 ^ k\<close>, \<^theory_text>\<open>c = R * 2 ^ (k + 1)\<close> and the remainder \<^theory_text>\<open>x = n - R\<^sup>2\<close>.
\<close>

lemma isqrt_loop_floor:
  assumes "unat d = 4 ^ k" "unat c = R * 2 ^ (k + 1)" "unat x = n - R ^ 2"
    and "R ^ 2 \<le> n" "n < (R + 2 ^ (k + 1)) ^ 2" "R + 2 ^ (k + 1) \<le> 2 ^ 128"
  shows "\<exists>r. isqrt_loop d c x = Inr r \<and> unat r ^ 2 \<le> n \<and> n < (unat r + 1) ^ 2"
  using assms
proof (induction k arbitrary: d c x R)
  case 0
  have d0: "drop_bit 2 d = 0"
    using 0(1) by (simp add: word_unat_eq_iff unat_drop_bit)
  have half: "unat (drop_bit 1 c) = R"
    using 0(2) by (simp add: unat_drop_bit)
  have "unat c + unat d < 2 ^ 256"
    using 0 by simp
  then obtain cd where cd: "checked_add c d = Some cd" "unat cd = 2 * R + 1"
    using 0 by (simp add: checked_add_def unat_plus_exact)
  have dn: "d \<noteq> 0"
    using 0(1) by auto
  show ?case
  proof (cases "cd \<le> x")
    case True
    then have ge: "(R + 1) ^ 2 \<le> n"
      using cd 0 by (simp add: word_le_nat_alt power2_eq_square)
    have "unat (drop_bit 1 c) + unat d < 2 ^ 256"
      using half 0 by simp
    then obtain c' where c': "checked_add (drop_bit 1 c) d = Some c'" "unat c' = R + 1"
      using half 0(1) by (simp add: checked_add_def unat_plus_exact)
    have "isqrt_loop d c x = Inr c'"
      using True dn cd(1) c'(1) d0
      by (subst isqrt_loop.simps) (simp add: checked_sub_def isqrt_loop_zero)
    then show ?thesis
      using c'(2) ge 0(5) by simp
  next
    case False
    then have "n < (R + 1) ^ 2"
      using cd 0 by (simp add: word_le_nat_alt power2_eq_square)
    moreover have "isqrt_loop d c x = Inr (drop_bit 1 c)"
      using False dn cd(1) d0 by (subst isqrt_loop.simps) (simp add: isqrt_loop_zero)
    ultimately show ?thesis
      using half 0(4) by simp
  qed
next
  case (Suc k)
  let ?p = "2 ^ (k + 1) :: nat"
  have p4: "(4::nat) ^ Suc k = ?p ^ 2"
    by (simp add: power2_eq_square flip: power_mult_distrib)
  have dd: "unat (drop_bit 2 d) = 4 ^ k" and dn: "d \<noteq> 0"
    using Suc.prems(1) by (auto simp: unat_drop_bit)
  have half: "unat (drop_bit 1 c) = R * ?p"
    using Suc.prems(2) by (simp add: unat_drop_bit)
  have R: "R + 2 * ?p \<le> 2 ^ 128"
    using Suc.prems(6) by simp
  have bound: "2 * R * ?p + ?p ^ 2 < 2 ^ 256"
  proof -
    have "2 * R * ?p + ?p ^ 2 + R ^ 2 = (R + ?p) ^ 2"
      by (simp add: power2_eq_square algebra_simps)
    moreover have "R + ?p < 2 ^ 128"
      by (rule less_le_trans [OF _ R]) simp
    then have "(R + ?p) ^ 2 < (2 ^ 128) ^ 2"
      by (intro power_strict_mono) simp_all
    ultimately show ?thesis
      by simp
  qed
  have uc: "unat c = 2 * R * ?p" and ud: "unat d = ?p ^ 2"
    using Suc.prems(1,2) p4 by simp_all
  have lt: "unat c + unat d < 2 ^ LENGTH(256)"
    unfolding uc ud using bound by simp
  obtain cd where cd: "checked_add c d = Some cd" "unat cd = 2 * R * ?p + ?p ^ 2"
    using lt unat_plus_exact [OF lt] uc ud by (simp only: checked_add_def if_True)
  have sq: "(R + ?p) ^ 2 = R ^ 2 + (2 * R * ?p + ?p ^ 2)"
    by (simp add: power2_eq_square algebra_simps)
  show ?case
  proof (cases "cd \<le> x")
    case True
    then have ge: "(R + ?p) ^ 2 \<le> n"
      using cd Suc.prems(3,4) sq by (simp add: word_le_nat_alt)
    have lt': "unat (drop_bit 1 c) + unat d < 2 ^ LENGTH(256)"
      unfolding half ud using bound by simp
    obtain c' where c': "checked_add (drop_bit 1 c) d = Some c'" "unat c' = R * ?p + ?p ^ 2"
      using lt' unat_plus_exact [OF lt'] half ud by (simp only: checked_add_def if_True)
    obtain x' where x': "checked_sub x cd = Some x'" "unat x' = n - (R + ?p) ^ 2"
      using True cd(2) Suc.prems(3) sq by (simp add: checked_sub_def unat_minus_exact)
    have "isqrt_loop d c x = isqrt_loop (drop_bit 2 d) c' x'"
      using True dn cd(1) c'(1) x'(1) by (subst isqrt_loop.simps) simp
    moreover have "\<exists>r. isqrt_loop (drop_bit 2 d) c' x' = Inr r \<and> unat r ^ 2 \<le> n \<and> n < (unat r + 1) ^ 2"
    proof (rule Suc.IH [OF dd _ x'(2) ge])
      show "unat c' = (R + ?p) * 2 ^ (k + 1)"
        using c'(2) by (simp add: power2_eq_square algebra_simps)
      show "n < (R + ?p + 2 ^ (k + 1)) ^ 2"
        using Suc.prems(5) by (simp add: algebra_simps)
      show "R + ?p + 2 ^ (k + 1) \<le> 2 ^ 128"
        using R by simp
    qed
    ultimately show ?thesis
      by simp
  next
    case False
    then have "n < (R + ?p) ^ 2"
      using cd Suc.prems(3,4) sq by (simp add: word_le_nat_alt)
    moreover have "isqrt_loop d c x = isqrt_loop (drop_bit 2 d) (drop_bit 1 c) x"
      using False dn cd(1) by (subst isqrt_loop.simps) simp
    ultimately show ?thesis
      using Suc.IH [OF dd half Suc.prems(3,4)] R by simp
  qed
qed

lemma bit_length_bounds: "0 < n \<Longrightarrow> 0 < bit_length n \<and> 2 ^ (bit_length n - 1) \<le> n \<and> n < 2 ^ bit_length n"
proof (induction n rule: bit_length.induct)
  case (1 n)
  show ?case
  proof (cases "n div 2 = 0")
    case True
    then have "n = 1"
      using 1(2) by simp
    then show ?thesis
      by (simp add: bit_length.simps [of "Suc 0"] bit_length.simps [of 0])
  next
    case False
    have b: "0 < bit_length (n div 2)" "2 ^ (bit_length (n div 2) - 1) \<le> n div 2"
        "n div 2 < 2 ^ bit_length (n div 2)"
      using 1 False by simp_all
    have "2 * 2 ^ (bit_length (n div 2) - 1) = (2::nat) ^ bit_length (n div 2)"
      using b(1) by (simp flip: power_Suc)
    then have "2 ^ bit_length (n div 2) \<le> n"
      using b(2) by linarith
    moreover have "n < 2 * 2 ^ bit_length (n div 2)"
      using b(3) by linarith
    ultimately show ?thesis
      using 1(2) by (simp add: bit_length.simps [of n])
  qed
qed

lemma integer_sqrt_floor:
  "\<exists>r. integer_sqrt n = Inr r \<and> unat r ^ 2 \<le> unat n \<and> unat n < (unat r + 1) ^ 2"
proof (cases "n = 0")
  case False
  then have n: "0 < unat n"
    by (simp add: unat_gt_0)
  let ?b = "bit_length (unat n)"
  note b = bit_length_bounds [OF n]
  have "2 ^ (?b - 1) < (2::nat) ^ 256"
    using b unat_lt [of n] by simp
  then have "?b - 1 < 256"
    by (rule power_less_imp_less_exp [rotated]) simp
  then have b256: "?b \<le> 256"
    by simp
  define k where "k = (?b - 1) div 2"
  have start: "255 - leading_zeros n - (255 - leading_zeros n) mod 2 = 2 * k" "leading_zeros n \<le> 255"
    using b256 b by (auto simp: leading_zeros_def k_def minus_mod_eq_mult_div)
  have k: "k \<le> 127"
    using b256 by (simp add: k_def)
  have pow: "unat (push_bit (2 * k) (1 :: u256)) = 4 ^ k"
  proof -
    have "(2::nat) ^ (2 * k) < 2 ^ 256"
      using k by (intro power_strict_increasing) simp_all
    moreover have "push_bit (2 * k) (1 :: u256) = of_nat (2 ^ (2 * k))"
      by simp
    ultimately have "unat (push_bit (2 * k) (1 :: u256)) = 2 ^ (2 * k)"
      by (simp only: unat_of_nat) simp
    then show ?thesis
      by (simp add: power_mult)
  qed
  have "?b \<le> 2 * (k + 1)"
    by (simp add: k_def)
  then have "(2::nat) ^ ?b \<le> 2 ^ (2 * (k + 1))"
    by (intro power_increasing) simp_all
  then have up: "unat n < (2 ^ (k + 1)) ^ 2"
    using b by (simp add: power_mult [symmetric] mult.commute)
  have "2 ^ (k + 1) \<le> (2::nat) ^ 128"
    using k by (intro power_increasing) simp_all
  then have "\<exists>r. isqrt_loop (push_bit (2 * k) 1) 0 n = Inr r \<and> unat r ^ 2 \<le> unat n \<and> unat n < (unat r + 1) ^ 2"
    using isqrt_loop_floor [OF pow, of 0 0 n "unat n"] up by simp
  moreover have "2 * k < 256"
    using k by simp
  ultimately show ?thesis
    using False start by (simp add: integer_sqrt_def Let_def)
qed (simp add: integer_sqrt_def)

section \<open>Prices and ticks\<close>

definition price_to_tick :: "('d, 'x) twap_env_scheme \<Rightarrow> u128 \<Rightarrow> i32 outcome" where
  "price_to_tick E price =
    expect ''price < 2^128, so price << 128 fits in U256''
      (if unat price < 2 ^ 128 then Some (push_bit 128 (ucast price :: u256)) else None) (\<lambda>shifted.
    attempt (integer_sqrt shifted) (\<lambda>root.
    expect ''sqrt_price_x96 is clamped into [MIN_SQRT_RATIO, MAX_SQRT_RATIO)''
      (get_tick_at_sqrt_ratio E (max root (MIN_SQRT_RATIO E))) Inr))"

definition clamp_i32 :: "i32 \<Rightarrow> i32 \<Rightarrow> i32 \<Rightarrow> i32" where
  "clamp_i32 v lo hi = (if sint v < sint lo then lo else if sint hi < sint v then hi else v)"

definition tick_to_oracle_price :: "('d, 'x) twap_env_scheme \<Rightarrow> i32 \<Rightarrow> u128 outcome" where
  "tick_to_oracle_price E t =
    expect ''clamped tick is within [MIN_TICK, MAX_TICK]''
      (get_sqrt_ratio_at_tick E (clamp_i32 t (MIN_TICK E) (MAX_TICK E))) (\<lambda>sqrt_price_x96.
    expect ''1.0001^tick * 2^64 fits in U256 for any valid tick''
      (full_math_mul_div E sqrt_price_x96 sqrt_price_x96 (2 ^ 128)) (\<lambda>price_q64_64.
    Inr (case narrow price_q64_64 of Some p \<Rightarrow> p | None \<Rightarrow> - 1)))"

end
