(* ===== verification/Amm_Core.thy ===== *)
theory Amm_Core
  imports Amm_Math Twap_Core
begin

text \<open>
  The data of the AMM (\<^theory_text>\<open>programs/amm/core/src/lib.rs\<close>): its instructions, the configuration and
  pool accounts, the derivation of every address it uses, and the reading of token holdings.  The
  arithmetic of the same file is in \<^theory_text>\<open>Amm_Math\<close>.
\<close>

section \<open>Instructions and accounts\<close>

text \<open>A 32-byte nonce is a 256-bit word, like an account identifier.\<close>

datatype amm_instruction =
    Initialize (init_nonce: u256) (init_token_program: account_id) (init_oracle_program: account_id)
      (init_authority: account_id) (init_swap_fee: u128) (init_protocol_fee: u128)
  | UpdateConfig account_id
  | PoolPriceObservations u64
  | PoolOraclePriceAccount u64
  | NewDefinition (token_a_amount: u128) (token_b_amount: u128) (deadline: u64)
  | AddLiquidity (min_amount_liquidity: u128) (max_amount_a: u128) (max_amount_b: u128) (deadline: u64)
  | RemoveLiquidity (remove_amount: u128) (min_amount_a: u128) (min_amount_b: u128) (deadline: u64)
  | SwapExactInput (swap_amount_in: u128) (min_amount_out: u128) (deadline: u64)
  | SwapExactOutput (exact_amount_out: u128) (max_amount_in: u128) (deadline: u64)
  | SyncReserves
  | WithdrawProtocolFees u128

record pool_definition =
  definition_token_a_id :: account_id
  definition_token_b_id :: account_id
  vault_a_id :: account_id
  vault_b_id :: account_id
  liquidity_pool_id :: account_id
  liquidity_pool_supply :: u128
  reserve_a :: u128
  reserve_b :: u128

record amm_config =
  config_token_program :: account_id
  config_oracle_program :: account_id
  config_authority :: account_id
  swap_fee_bps :: u128
  protocol_fee_bps :: u128

text \<open>
  The environment adds the codecs of the two accounts and \<^theory_text>\<open>ruint\<close>'s integer root.
\<close>

record 'd amm_env = "'d twap_env" +
  config_codec :: "(amm_config, 'd) codec"
  pool_codec :: "(pool_definition, 'd) codec"
  uint_root :: "u256 \<Rightarrow> u256"

text \<open>The AMM calls two programs; a call carries the serialized instruction of one of them.\<close>

datatype callee_instruction =
    TokenCall token_instruction
  | OracleCall twap_instruction

type_synonym amm_call = "callee_instruction chained_call"
type_synonym 'd amm_output = "('d state_diff list \<times> amm_call list) outcome"

text \<open>\<^theory_text>\<open>Data::from(&pool)\<close> and \<^theory_text>\<open>Data::from(&config)\<close>.\<close>

definition pool_data :: "('d, 'x) amm_env_scheme \<Rightarrow> pool_definition \<Rightarrow> 'd outcome" where
  "pool_data E p = expect ''Token definition encoded data should fit into Data'' (encode (pool_codec E) p) Inr"

definition config_data :: "('d, 'x) amm_env_scheme \<Rightarrow> amm_config \<Rightarrow> 'd outcome" where
  "config_data E c = expect ''AMM config encoded data should fit into Data'' (encode (config_codec E) c) Inr"

lemma amm_encoded_success [success]:
  "pool_data E p = Inr d \<longleftrightarrow> encode (pool_codec E) p = Some d"
  "config_data E c = Inr d \<longleftrightarrow> encode (config_codec E) c = Some d"
  by (simp_all add: pool_data_def config_data_def success)

section \<open>Addresses\<close>

definition CONFIG_PDA_SEED :: bytes where
  "CONFIG_PDA_SEED = ascii ''CONFIG''"

definition LIQUIDITY_TOKEN_PDA_SEED :: bytes where
  "LIQUIDITY_TOKEN_PDA_SEED = ascii ''LIQUIDITY_TOKEN''"

definition LP_LOCK_HOLDING_PDA_SEED :: bytes where
  "LP_LOCK_HOLDING_PDA_SEED = ascii ''LP_LOCK_HOLDING''"

definition PROTOCOL_FEE_HOLDING_PDA_SEED :: bytes where
  "PROTOCOL_FEE_HOLDING_PDA_SEED = ascii ''PROTOCOL_FEE_HOLDING''"

text \<open>The byte strings that are hashed into the seeds.\<close>

definition config_seed_bytes :: "account_id \<Rightarrow> u256 \<Rightarrow> bytes" where
  "config_seed_bytes owner nonce_bytes = CONFIG_PDA_SEED @ to_bytes owner @ to_bytes nonce_bytes"

definition pool_seed_bytes :: "account_id \<Rightarrow> account_id \<Rightarrow> account_id \<Rightarrow> bytes outcome" where
  "pool_seed_bytes config_id token_a token_b =
    (if token_a < token_b then Inr (to_bytes config_id @ to_bytes token_b @ to_bytes token_a)
     else if token_b < token_a then Inr (to_bytes config_id @ to_bytes token_a @ to_bytes token_b)
     else Inl (Panic ''Definitions match''))"

definition vault_seed_bytes :: "account_id \<Rightarrow> account_id \<Rightarrow> bytes" where
  "vault_seed_bytes pool_id token_id = to_bytes pool_id @ to_bytes token_id"

definition protocol_fee_seed_bytes :: "account_id \<Rightarrow> account_id \<Rightarrow> bytes" where
  "protocol_fee_seed_bytes config_id token_id =
    to_bytes config_id @ to_bytes token_id @ PROTOCOL_FEE_HOLDING_PDA_SEED"

definition liquidity_token_seed_bytes :: "account_id \<Rightarrow> bytes" where
  "liquidity_token_seed_bytes pool_id = to_bytes pool_id @ LIQUIDITY_TOKEN_PDA_SEED"

definition lp_lock_holding_seed_bytes :: "account_id \<Rightarrow> bytes" where
  "lp_lock_holding_seed_bytes pool_id = to_bytes pool_id @ LP_LOCK_HOLDING_PDA_SEED"

definition compute_config_pda_seed :: "('d, 'x) lee_env_scheme \<Rightarrow> account_id \<Rightarrow> u256 \<Rightarrow> pda_seed" where
  "compute_config_pda_seed E owner nonce_bytes = sha256 E (config_seed_bytes owner nonce_bytes)"

definition compute_config_pda ::
  "('d, 'x) lee_env_scheme \<Rightarrow> account_id \<Rightarrow> account_id \<Rightarrow> u256 \<Rightarrow> account_id" where
  "compute_config_pda E amm_program owner nonce_bytes =
    for_public_pda E amm_program (compute_config_pda_seed E owner nonce_bytes)"

definition compute_pool_pda_seed ::
  "('d, 'x) lee_env_scheme \<Rightarrow> account_id \<Rightarrow> account_id \<Rightarrow> account_id \<Rightarrow> pda_seed outcome" where
  "compute_pool_pda_seed E config_id token_a token_b =
    attempt (pool_seed_bytes config_id token_a token_b) (\<lambda>bs. Inr (sha256 E bs))"

definition compute_pool_pda ::
  "('d, 'x) lee_env_scheme \<Rightarrow> account_id \<Rightarrow> account_id \<Rightarrow> account_id \<Rightarrow> account_id \<Rightarrow> account_id outcome" where
  "compute_pool_pda E amm_program config_id token_a token_b =
    attempt (compute_pool_pda_seed E config_id token_a token_b) (\<lambda>seed. Inr (for_public_pda E amm_program seed))"

definition compute_vault_pda_seed :: "('d, 'x) lee_env_scheme \<Rightarrow> account_id \<Rightarrow> account_id \<Rightarrow> pda_seed" where
  "compute_vault_pda_seed E pool_id token_id = sha256 E (vault_seed_bytes pool_id token_id)"

definition compute_vault_pda ::
  "('d, 'x) lee_env_scheme \<Rightarrow> account_id \<Rightarrow> account_id \<Rightarrow> account_id \<Rightarrow> account_id" where
  "compute_vault_pda E amm_program pool_id token_id =
    for_public_pda E amm_program (compute_vault_pda_seed E pool_id token_id)"

definition compute_protocol_fee_pda_seed ::
  "('d, 'x) lee_env_scheme \<Rightarrow> account_id \<Rightarrow> account_id \<Rightarrow> pda_seed" where
  "compute_protocol_fee_pda_seed E config_id token_id = sha256 E (protocol_fee_seed_bytes config_id token_id)"

definition compute_protocol_fee_pda ::
  "('d, 'x) lee_env_scheme \<Rightarrow> account_id \<Rightarrow> account_id \<Rightarrow> account_id \<Rightarrow> account_id" where
  "compute_protocol_fee_pda E amm_program config_id token_id =
    for_public_pda E amm_program (compute_protocol_fee_pda_seed E config_id token_id)"

definition compute_liquidity_token_pda_seed :: "('d, 'x) lee_env_scheme \<Rightarrow> account_id \<Rightarrow> pda_seed" where
  "compute_liquidity_token_pda_seed E pool_id = sha256 E (liquidity_token_seed_bytes pool_id)"

definition compute_liquidity_token_pda ::
  "('d, 'x) lee_env_scheme \<Rightarrow> account_id \<Rightarrow> account_id \<Rightarrow> account_id" where
  "compute_liquidity_token_pda E amm_program pool_id =
    for_public_pda E amm_program (compute_liquidity_token_pda_seed E pool_id)"

definition compute_lp_lock_holding_pda_seed :: "('d, 'x) lee_env_scheme \<Rightarrow> account_id \<Rightarrow> pda_seed" where
  "compute_lp_lock_holding_pda_seed E pool_id = sha256 E (lp_lock_holding_seed_bytes pool_id)"

definition compute_lp_lock_holding_pda ::
  "('d, 'x) lee_env_scheme \<Rightarrow> account_id \<Rightarrow> account_id \<Rightarrow> account_id" where
  "compute_lp_lock_holding_pda E amm_program pool_id =
    for_public_pda E amm_program (compute_lp_lock_holding_pda_seed E pool_id)"

section \<open>Reading holdings\<close>

definition read_fungible_holding ::
  "('d, 'x) token_env_scheme \<Rightarrow> 'd account_with_metadata \<Rightarrow> string \<Rightarrow> (account_id \<times> u128) outcome" where
  "read_fungible_holding E a ctx =
    expect (ctx @ '': AMM Program expects a valid Token Holding Account'')
      (decode (holding_codec E) (data (account a))) (\<lambda>holding.
    (case holding of
       Fungible d b \<Rightarrow> Inr (d, b)
     | _ \<Rightarrow> Inl (Panic (ctx @ '': AMM Program expects a valid Fungible Token Holding Account''))))"

definition read_vault_fungible_balances ::
  "('d, 'x) token_env_scheme \<Rightarrow> string \<Rightarrow> 'd account_with_metadata \<Rightarrow> 'd account_with_metadata \<Rightarrow>
    (u128 \<times> u128) outcome" where
  "read_vault_fungible_balances E ctx vault_a vault_b =
    attempt (read_fungible_holding E vault_a (ctx @ '': Vault A'')) (\<lambda>(_, vault_a_balance).
    attempt (read_fungible_holding E vault_b (ctx @ '': Vault B'')) (\<lambda>(_, vault_b_balance).
    Inr (vault_a_balance, vault_b_balance)))"

section \<open>Facts\<close>

lemma read_fungible_holding_Inr [success]:
  "read_fungible_holding E a ctx = Inr (d, b) \<longleftrightarrow>
    decode (holding_codec E) (data (account a)) = Some (Fungible d b)"
  by (auto simp: read_fungible_holding_def expect_def split: option.splits token_holding.splits)

lemma read_vaults_Inr [success]:
  "read_vault_fungible_balances E ctx va vb = Inr (a, b) \<longleftrightarrow>
    (\<exists>da db. decode (holding_codec E) (data (account va)) = Some (Fungible da a) \<and>
             decode (holding_codec E) (data (account vb)) = Some (Fungible db b))"
  by (force simp: read_vault_fungible_balances_def success)

lemma pool_seed_bytes_Inr [success]:
  "pool_seed_bytes c a b = Inr bs \<longleftrightarrow>
    a \<noteq> b \<and> bs = to_bytes c @ to_bytes (max a b) @ to_bytes (min a b)"
  by (auto simp: pool_seed_bytes_def max_def min_def not_less)

lemma compute_pool_pda_seed_Inr [success]:
  "compute_pool_pda_seed E c a b = Inr seed \<longleftrightarrow>
    a \<noteq> b \<and> seed = sha256 E (to_bytes c @ to_bytes (max a b) @ to_bytes (min a b))"
  by (auto simp: compute_pool_pda_seed_def success)

lemma compute_pool_pda_Inr [success]:
  "compute_pool_pda E p c a b = Inr i \<longleftrightarrow>
    (\<exists>seed. compute_pool_pda_seed E c a b = Inr seed \<and> i = for_public_pda E p seed)"
  by (auto simp: compute_pool_pda_def success)

lemma compute_pool_pda_attempt:
  "attempt (compute_pool_pda E p c a b) k = Inr r \<longleftrightarrow>
    (\<exists>seed. compute_pool_pda_seed E c a b = Inr seed \<and> k (for_public_pda E p seed) = Inr r)"
  by (auto simp: compute_pool_pda_def success)

text \<open>The pre-images of the seeds are told apart by their length, or by their tag.\<close>

lemma length_seed_bytes:
  "length (config_seed_bytes ow n) = 70"
  "pool_seed_bytes c a b = Inr bs \<Longrightarrow> length bs = 96"
  "length (vault_seed_bytes p t) = 64"
  "length (protocol_fee_seed_bytes c t) = 84"
  "length (liquidity_token_seed_bytes p) = 47"
  "length (lp_lock_holding_seed_bytes p) = 47"
  by (auto simp: config_seed_bytes_def vault_seed_bytes_def protocol_fee_seed_bytes_def
      liquidity_token_seed_bytes_def lp_lock_holding_seed_bytes_def success CONFIG_PDA_SEED_def
      LIQUIDITY_TOKEN_PDA_SEED_def LP_LOCK_HOLDING_PDA_SEED_def PROTOCOL_FEE_HOLDING_PDA_SEED_def ascii_def)

lemma tags_differ: "LIQUIDITY_TOKEN_PDA_SEED \<noteq> LP_LOCK_HOLDING_PDA_SEED"
  by (simp add: LIQUIDITY_TOKEN_PDA_SEED_def LP_LOCK_HOLDING_PDA_SEED_def ascii_def)

lemma max_min_pair:
  fixes a b a' b' :: "'a::linorder"
  shows "max a b = max a' b' \<and> min a b = min a' b' \<longleftrightarrow> {a, b} = {a', b'}"
  by (auto simp: max_def min_def doubleton_eq_iff)

end
