(* ===== verification/Amm_Swap.thy ===== *)
theory Amm_Swap
  imports Amm_Core
begin

text \<open>
  The two swaps of the AMM (\<^theory_text>\<open>programs/amm/src/swap.rs\<close>).  Both run the same checks on the pool, the
  configuration and the holdings, price the trade, emit the token transfers and finish with the new
  reserves and the call that refreshes the pool's current tick at the oracle.
\<close>

section \<open>Setup\<close>

definition validate_swap_setup ::
  "('d, 'x) amm_env_scheme \<Rightarrow> 'd account_with_metadata \<Rightarrow> 'd account_with_metadata \<Rightarrow>
    'd account_with_metadata \<Rightarrow> pool_definition outcome" where
  "validate_swap_setup E pool vault_a vault_b =
    expect ''AMM Program expects a valid Pool Definition Account''
      (decode (pool_codec E) (data (account pool))) (\<lambda>pool_def.
    ensure (MINIMUM_LIQUIDITY \<le> liquidity_pool_supply pool_def)
      ''Pool liquidity supply is below minimum liquidity'' (
    ensure (account_id vault_a = vault_a_id pool_def) ''Vault A was not provided'' (
    ensure (account_id vault_b = vault_b_id pool_def) ''Vault B was not provided'' (
    attempt (read_vault_fungible_balances E ''Validate swap setup'' vault_a vault_b)
      (\<lambda>(vault_a_balance, vault_b_balance).
    ensure (reserve_a pool_def \<le> vault_a_balance) ''Reserve for Token A exceeds vault balance'' (
    ensure (reserve_b pool_def \<le> vault_b_balance) ''Reserve for Token B exceeds vault balance'' (
    Inr pool_def)))))))"

definition assert_pool_in_config_namespace ::
  "('d, 'x) amm_env_scheme \<Rightarrow> 'd account_with_metadata \<Rightarrow> 'd account_with_metadata \<Rightarrow>
    pool_definition \<Rightarrow> account_id \<Rightarrow> unit outcome" where
  "assert_pool_in_config_namespace E pool config pool_def amm_program =
    attempt (compute_pool_pda E amm_program (account_id config)
      (definition_token_a_id pool_def) (definition_token_b_id pool_def)) (\<lambda>pool_pda.
    ensure (account_id pool = pool_pda)
      ''Swap: pool account is not derived under this config's namespace'' (Inr ()))"

text \<open>
  The checks both swaps make, word for word, with the name of the instruction \<^theory_text>\<open>ctx\<close> in front of the
  messages that carry it.  The result is the pool, the configuration, the definition of the token
  sold, and the user's two holdings in the pool's order.
\<close>

definition swap_checks ::
  "('d, 'x) amm_env_scheme \<Rightarrow> string \<Rightarrow> 'd account_with_metadata \<Rightarrow> 'd account_with_metadata \<Rightarrow>
    'd account_with_metadata \<Rightarrow> 'd account_with_metadata \<Rightarrow> 'd account_with_metadata \<Rightarrow>
    'd account_with_metadata \<Rightarrow> 'd account_with_metadata \<Rightarrow> 'd account_with_metadata \<Rightarrow>
    'd account_with_metadata \<Rightarrow> account_id \<Rightarrow>
    (pool_definition \<times> amm_config \<times> account_id \<times> 'd account_with_metadata \<times> 'd account_with_metadata) outcome" where
  "swap_checks E ctx config pool vault_a vault_b user_input_holding user_output_holding tick_account clock
      protocol_fee_holding amm_program =
    attempt (validate_swap_setup E pool vault_a vault_b) (\<lambda>pool_def.
    ensure (program_owner (account config) = amm_program)
      (ctx @ '': AMM config account must be owned by the AMM Program'') (
    expect (ctx @ '': AMM Program must be initialized before use'')
      (decode (config_codec E) (data (account config))) (\<lambda>cfg.
    attempt (assert_pool_in_config_namespace E pool config pool_def amm_program) (\<lambda>_.
    ensure (program_owner (account vault_a) = config_token_program cfg)
      ''Vault A must be owned by the configured Token Program'' (
    ensure (program_owner (account vault_b) = config_token_program cfg)
      ''Vault B must be owned by the configured Token Program'' (
    expect (ctx @ '': input holding must be a valid token holding'')
      (decode (holding_codec E) (data (account user_input_holding))) (\<lambda>input_holding.
    (let token_in_id = definition_id input_holding in
     attempt (if token_in_id = definition_token_a_id pool_def then
                Inr (user_input_holding, user_output_holding)
              else if token_in_id = definition_token_b_id pool_def then
                Inr (user_output_holding, user_input_holding)
              else Inl (Panic (ctx @ '': input holding token is not part of the pool'')))
       (\<lambda>(user_holding_a, user_holding_b).
     ensure (program_owner (account user_holding_a) = config_token_program cfg)
       ''User Token A holding must be owned by the configured Token Program'' (
     ensure (program_owner (account user_holding_b) = config_token_program cfg)
       ''User Token B holding must be owned by the configured Token Program'' (
     ensure (account_id protocol_fee_holding =
             compute_protocol_fee_pda E amm_program (account_id config) token_in_id)
       (ctx @ '': protocol-fee holding does not match the input token's protocol PDA'') (
     ensure (account_id clock = clock_01_program_account_id E)
       (ctx @ '': clock account must be the canonical 1-block LEZ clock account'') (
     ensure (account_id tick_account =
             compute_current_tick_account_pda E (config_oracle_program cfg) (account_id pool))
       (ctx @ '': current tick Account ID does not match PDA'') (
     Inr (pool_def, cfg, token_in_id, user_holding_a, user_holding_b)))))))))))))))"

section \<open>Finishing\<close>

text \<open>The call that reports a spot price to the oracle, under the seed of the pool.\<close>

definition update_tick_call ::
  "('d, 'x) amm_env_scheme \<Rightarrow> account_id \<Rightarrow> account_id \<Rightarrow> account_id \<Rightarrow> account_id \<Rightarrow> account_id \<Rightarrow>
    pool_definition \<Rightarrow> u128 \<Rightarrow> amm_call outcome" where
  "update_tick_call E oracle_program tick_id pool_id clock_id config_id pool_def price =
    attempt (compute_pool_pda_seed E config_id (definition_token_a_id pool_def) (definition_token_b_id pool_def))
      (\<lambda>seed.
    Inr (with_pda_seeds
      (chained_call_new oracle_program [tick_id, pool_id, clock_id] (OracleCall (UpdateCurrentTick price)))
      [seed]))"

definition finalize_swap ::
  "('d, 'x) amm_env_scheme \<Rightarrow> 'd account_with_metadata \<Rightarrow> 'd account_with_metadata \<Rightarrow> pool_definition \<Rightarrow>
    'd account_with_metadata \<Rightarrow> 'd account_with_metadata \<Rightarrow> 'd account_with_metadata \<Rightarrow>
    'd account_with_metadata \<Rightarrow> 'd account_with_metadata \<Rightarrow> 'd account_with_metadata \<Rightarrow>
    'd account_with_metadata \<Rightarrow> u128 \<Rightarrow> u128 \<Rightarrow> u128 \<Rightarrow> u128 \<Rightarrow> account_id \<Rightarrow>
    ('d state_diff list \<times> amm_call) outcome" where
  "finalize_swap E config pool pool_def vault_a vault_b user_holding_input user_holding_output tick_account
      clock protocol_fee_holding deposit_a withdraw_a deposit_b withdraw_b oracle_program =
    expect ''reserve_a + deposit_a overflows u128'' (checked_add (reserve_a pool_def) deposit_a) (\<lambda>raised_a.
    expect ''reserve_a + deposit_a - withdraw_a underflows'' (checked_sub raised_a withdraw_a) (\<lambda>new_a.
    expect ''reserve_b + deposit_b overflows u128'' (checked_add (reserve_b pool_def) deposit_b) (\<lambda>raised_b.
    expect ''reserve_b + deposit_b - withdraw_b underflows'' (checked_sub raised_b withdraw_b) (\<lambda>new_b.
    attempt (spot_price_q64_64 new_a new_b) (\<lambda>price.
    attempt (update_tick_call E oracle_program (account_id tick_account) (account_id pool) (account_id clock)
      (account_id config) pool_def price) (\<lambda>tick_call.
    attempt (pool_data E (pool_def \<lparr> reserve_a := new_a, reserve_b := new_b \<rparr>)) (\<lambda>d.
    Inr ([Unchanged config, NewData pool (Add 0) d, Unchanged vault_a, Unchanged vault_b,
          Unchanged user_holding_input, Unchanged user_holding_output, Unchanged tick_account,
          Unchanged clock, Unchanged protocol_fee_holding],
         tick_call))))))))"

section \<open>Pricing and transfers\<close>

text \<open>
  The transfers of a swap: the input into the deposit vault, the output from the withdraw vault under
  its seed, and, when there is one, the protocol's cut from the deposit vault to the protocol-fee
  holding under both seeds.
\<close>

definition swap_transfers ::
  "('d, 'x) amm_env_scheme \<Rightarrow> account_id \<Rightarrow> account_id \<Rightarrow> account_id \<Rightarrow> account_id \<Rightarrow> account_id \<Rightarrow>
    account_id \<Rightarrow> account_id \<Rightarrow> account_id \<Rightarrow> account_id \<Rightarrow> account_id \<Rightarrow> u128 \<Rightarrow> u128 \<Rightarrow> u128 \<Rightarrow> amm_call list" where
  "swap_transfers E token_program user_deposit_id vault_deposit_id vault_withdraw_id user_withdraw_id
      protocol_fee_holding_id pool_id config_id deposit_token_id withdraw_token_id
      deposit_amount withdraw_amount protocol_fee =
    [chained_call_new token_program [user_deposit_id, vault_deposit_id] (TokenCall (Transfer deposit_amount)),
     with_pda_seeds
       (chained_call_new token_program [vault_withdraw_id, user_withdraw_id] (TokenCall (Transfer withdraw_amount)))
       [compute_vault_pda_seed E pool_id withdraw_token_id]] @
    (if protocol_fee \<noteq> 0 then
       [with_pda_seeds
         (chained_call_new token_program [vault_deposit_id, protocol_fee_holding_id]
            (TokenCall (Transfer protocol_fee)))
         [compute_vault_pda_seed E pool_id deposit_token_id,
          compute_protocol_fee_pda_seed E config_id deposit_token_id]]
     else [])"

definition swap_logic ::
  "('d, 'x) amm_env_scheme \<Rightarrow> 'd account_with_metadata \<Rightarrow> 'd account_with_metadata \<Rightarrow>
    'd account_with_metadata \<Rightarrow> 'd account_with_metadata \<Rightarrow> u128 \<Rightarrow> u128 \<Rightarrow> u128 \<Rightarrow> u128 \<Rightarrow>
    'd account_with_metadata \<Rightarrow> u128 \<Rightarrow> u128 \<Rightarrow> account_id \<Rightarrow> account_id \<Rightarrow>
    (amm_call list \<times> u128 \<times> u128) outcome" where
  "swap_logic E user_deposit vault_deposit vault_withdraw user_withdraw amount_in min_out fee_bps
      protocol_bps protocol_fee_holding reserve_deposit reserve_withdraw pool_id config_id =
    attempt (swap_exact_in_amounts amount_in reserve_deposit reserve_withdraw fee_bps)
      (\<lambda>(effective_amount_in, withdraw_amount).
    ensure (effective_amount_in \<noteq> 0) ''Effective swap amount should be nonzero'' (
    ensure (min_out \<le> withdraw_amount) ''Withdraw amount is less than minimal amount out'' (
    ensure (withdraw_amount \<noteq> 0) ''Withdraw amount should be nonzero'' (
    expect ''Swap Logic: AMM Program expects valid token data''
      (decode (holding_codec E) (data (account vault_deposit))) (\<lambda>deposit_holding.
    expect ''effective_amount_in <= swap_amount_in'' (checked_sub amount_in effective_amount_in) (\<lambda>swap_fee.
    attempt (protocol_fee_amount swap_fee protocol_bps) (\<lambda>protocol_fee.
    expect ''Swap Logic: AMM Program expects valid token data''
      (decode (holding_codec E) (data (account vault_withdraw))) (\<lambda>withdraw_holding.
    expect ''protocol_fee <= swap_fee <= swap_amount_in'' (checked_sub amount_in protocol_fee) (\<lambda>net_deposit.
    Inr (swap_transfers E (program_owner (account user_deposit)) (account_id user_deposit)
           (account_id vault_deposit) (account_id vault_withdraw) (account_id user_withdraw)
           (account_id protocol_fee_holding) pool_id config_id (definition_id deposit_holding)
           (definition_id withdraw_holding) amount_in withdraw_amount protocol_fee,
         net_deposit, withdraw_amount))))))))))"

definition exact_output_swap_logic ::
  "('d, 'x) amm_env_scheme \<Rightarrow> 'd account_with_metadata \<Rightarrow> 'd account_with_metadata \<Rightarrow>
    'd account_with_metadata \<Rightarrow> 'd account_with_metadata \<Rightarrow> u128 \<Rightarrow> u128 \<Rightarrow> u128 \<Rightarrow> u128 \<Rightarrow> u128 \<Rightarrow> u128 \<Rightarrow>
    'd account_with_metadata \<Rightarrow> account_id \<Rightarrow> account_id \<Rightarrow> (amm_call list \<times> u128 \<times> u128) outcome" where
  "exact_output_swap_logic E user_deposit vault_deposit vault_withdraw user_withdraw amount_out max_in
      reserve_deposit reserve_withdraw fee_bps protocol_bps protocol_fee_holding pool_id config_id =
    ensure (amount_out \<noteq> 0) ''Exact amount out must be nonzero'' (
    ensure (amount_out < reserve_withdraw) ''Exact amount out exceeds reserve'' (
    attempt (swap_exact_out_amounts amount_out reserve_deposit reserve_withdraw fee_bps) (\<lambda>quote.
    expect ''swap exact output: reserves and fee must yield a valid input'' quote
      (\<lambda>(effective_amount_in, deposit_amount).
    ensure (deposit_amount \<le> max_in) ''Required input exceeds maximum amount in'' (
    expect ''Exact Output Swap Logic: AMM Program expects valid token data''
      (decode (holding_codec E) (data (account vault_deposit))) (\<lambda>deposit_holding.
    expect ''effective_amount_in <= deposit_amount'' (checked_sub deposit_amount effective_amount_in) (\<lambda>swap_fee.
    attempt (protocol_fee_amount swap_fee protocol_bps) (\<lambda>protocol_fee.
    expect ''Exact Output Swap Logic: AMM Program expects valid token data''
      (decode (holding_codec E) (data (account vault_withdraw))) (\<lambda>withdraw_holding.
    expect ''protocol_fee <= swap_fee <= deposit_amount'' (checked_sub deposit_amount protocol_fee) (\<lambda>net_deposit.
    Inr (swap_transfers E (program_owner (account user_deposit)) (account_id user_deposit)
           (account_id vault_deposit) (account_id vault_withdraw) (account_id user_withdraw)
           (account_id protocol_fee_holding) pool_id config_id (definition_id deposit_holding)
           (definition_id withdraw_holding) deposit_amount amount_out protocol_fee,
         net_deposit, amount_out)))))))))))"

section \<open>The two swaps\<close>

text \<open>
  The direction of a swap: the pricing routine \<^theory_text>\<open>logic\<close> is run from the deposit side to the withdraw
  side, and its deposit and withdrawal are booked on the token they belong to, as the four amounts
  deposit A, withdraw A, deposit B, withdraw B.
\<close>

definition swap_direction ::
  "account_id \<Rightarrow> pool_definition \<Rightarrow> 'd account_with_metadata \<Rightarrow> 'd account_with_metadata \<Rightarrow>
    'd account_with_metadata \<Rightarrow> 'd account_with_metadata \<Rightarrow>
    ('d account_with_metadata \<Rightarrow> 'd account_with_metadata \<Rightarrow> 'd account_with_metadata \<Rightarrow>
      'd account_with_metadata \<Rightarrow> u128 \<Rightarrow> u128 \<Rightarrow> (amm_call list \<times> u128 \<times> u128) outcome) \<Rightarrow>
    (amm_call list \<times> u128 \<times> u128 \<times> u128 \<times> u128) outcome" where
  "swap_direction token_in_id pool_def user_holding_a user_holding_b vault_a vault_b logic =
    (if token_in_id = definition_token_a_id pool_def then
       attempt (logic user_holding_a vault_a vault_b user_holding_b (reserve_a pool_def) (reserve_b pool_def))
         (\<lambda>(calls, deposit_a, withdraw_b). Inr (calls, deposit_a, 0, 0, withdraw_b))
     else if token_in_id = definition_token_b_id pool_def then
       attempt (logic user_holding_b vault_b vault_a user_holding_a (reserve_b pool_def) (reserve_a pool_def))
         (\<lambda>(calls, deposit_b, withdraw_a). Inr (calls, 0, withdraw_a, deposit_b, 0))
     else Inl (Panic ''AccountId is not a token type for the pool''))"

definition swap_exact_input ::
  "('d, 'x) amm_env_scheme \<Rightarrow> 'd account_with_metadata \<Rightarrow> 'd account_with_metadata \<Rightarrow>
    'd account_with_metadata \<Rightarrow> 'd account_with_metadata \<Rightarrow> 'd account_with_metadata \<Rightarrow>
    'd account_with_metadata \<Rightarrow> 'd account_with_metadata \<Rightarrow> 'd account_with_metadata \<Rightarrow>
    'd account_with_metadata \<Rightarrow> u128 \<Rightarrow> u128 \<Rightarrow> account_id \<Rightarrow> 'd amm_output" where
  "swap_exact_input E config pool vault_a vault_b user_input_holding user_output_holding tick_account clock
      protocol_fee_holding amount_in min_out amm_program =
    attempt (swap_checks E ''Swap exact input'' config pool vault_a vault_b user_input_holding
      user_output_holding tick_account clock protocol_fee_holding amm_program)
      (\<lambda>(pool_def, cfg, token_in_id, user_holding_a, user_holding_b).
    attempt (swap_direction token_in_id pool_def user_holding_a user_holding_b vault_a vault_b
      (\<lambda>user_deposit vault_deposit vault_withdraw user_withdraw reserve_deposit reserve_withdraw.
         swap_logic E user_deposit vault_deposit vault_withdraw user_withdraw amount_in min_out
           (swap_fee_bps cfg) (protocol_fee_bps cfg) protocol_fee_holding reserve_deposit reserve_withdraw
           (account_id pool) (account_id config)))
      (\<lambda>(calls, deposit_a, withdraw_a, deposit_b, withdraw_b).
    (let (user_holding_input, user_holding_output) =
           (if token_in_id = definition_token_a_id pool_def then (user_holding_a, user_holding_b)
            else (user_holding_b, user_holding_a)) in
     attempt (finalize_swap E config pool pool_def vault_a vault_b user_holding_input user_holding_output
       tick_account clock protocol_fee_holding deposit_a withdraw_a deposit_b withdraw_b
       (config_oracle_program cfg)) (\<lambda>(state_diffs, tick_call).
     Inr (state_diffs, calls @ [tick_call])))))"

definition swap_exact_output ::
  "('d, 'x) amm_env_scheme \<Rightarrow> 'd account_with_metadata \<Rightarrow> 'd account_with_metadata \<Rightarrow>
    'd account_with_metadata \<Rightarrow> 'd account_with_metadata \<Rightarrow> 'd account_with_metadata \<Rightarrow>
    'd account_with_metadata \<Rightarrow> 'd account_with_metadata \<Rightarrow> 'd account_with_metadata \<Rightarrow>
    'd account_with_metadata \<Rightarrow> u128 \<Rightarrow> u128 \<Rightarrow> account_id \<Rightarrow> 'd amm_output" where
  "swap_exact_output E config pool vault_a vault_b user_input_holding user_output_holding tick_account clock
      protocol_fee_holding amount_out max_in amm_program =
    attempt (swap_checks E ''Swap exact output'' config pool vault_a vault_b user_input_holding
      user_output_holding tick_account clock protocol_fee_holding amm_program)
      (\<lambda>(pool_def, cfg, token_in_id, user_holding_a, user_holding_b).
    attempt (swap_direction token_in_id pool_def user_holding_a user_holding_b vault_a vault_b
      (\<lambda>user_deposit vault_deposit vault_withdraw user_withdraw reserve_deposit reserve_withdraw.
         exact_output_swap_logic E user_deposit vault_deposit vault_withdraw user_withdraw amount_out max_in
           reserve_deposit reserve_withdraw (swap_fee_bps cfg) (protocol_fee_bps cfg) protocol_fee_holding
           (account_id pool) (account_id config)))
      (\<lambda>(calls, deposit_a, withdraw_a, deposit_b, withdraw_b).
    (let (user_holding_input, user_holding_output) =
           (if token_in_id = definition_token_a_id pool_def then (user_holding_a, user_holding_b)
            else (user_holding_b, user_holding_a)) in
     attempt (finalize_swap E config pool pool_def vault_a vault_b user_holding_input user_holding_output
       tick_account clock protocol_fee_holding deposit_a withdraw_a deposit_b withdraw_b
       (config_oracle_program cfg)) (\<lambda>(state_diffs, tick_call).
     Inr (state_diffs, calls @ [tick_call])))))"

end
