(* ===== verification/Amm_Liquidity.thy ===== *)
theory Amm_Liquidity
  imports Amm_Swap
begin

text \<open>
  The life of a pool besides the swaps: its creation (\<^theory_text>\<open>new_definition.rs\<close>), adding and removing
  liquidity (\<^theory_text>\<open>add.rs\<close>, \<^theory_text>\<open>remove.rs\<close>) and the synchronisation of the reserves with the vaults
  (\<^theory_text>\<open>sync.rs\<close>), all of \<^theory_text>\<open>programs/amm/src\<close>.  A \<^theory_text>\<open>NonZeroU128\<close> argument is a word the guest has
  checked to be non-zero.
\<close>

section \<open>new_definition.rs\<close>

definition new_definition ::
  "('d, 'x) amm_env_scheme \<Rightarrow> 'd account_with_metadata \<Rightarrow> 'd account_with_metadata \<Rightarrow>
    'd account_with_metadata \<Rightarrow> 'd account_with_metadata \<Rightarrow> 'd account_with_metadata \<Rightarrow>
    'd account_with_metadata \<Rightarrow> 'd account_with_metadata \<Rightarrow> 'd account_with_metadata \<Rightarrow>
    'd account_with_metadata \<Rightarrow> 'd account_with_metadata \<Rightarrow> 'd account_with_metadata \<Rightarrow>
    u128 \<Rightarrow> u128 \<Rightarrow> account_id \<Rightarrow> 'd amm_output" where
  "new_definition E config pool vault_a vault_b lp_defn lp_lock_holding user_holding_a user_holding_b
      user_holding_lp tick_account clock amount_a amount_b amm_program =
    expect ''New definition: AMM Program expects valid Token Holding account for Token A''
      (decode (holding_codec E) (data (account user_holding_a))) (\<lambda>holding_a.
    expect ''New definition: AMM Program expects valid Token Holding account for Token B''
      (decode (holding_codec E) (data (account user_holding_b))) (\<lambda>holding_b.
    (let token_a = definition_id holding_a; token_b = definition_id holding_b in
    ensure (program_owner (account config) = amm_program)
      ''New definition: AMM config account must be owned by the AMM Program'' (
    expect ''New definition: AMM Program must be initialized before use''
      (decode (config_codec E) (data (account config))) (\<lambda>cfg.
    ensure (program_owner (account user_holding_a) = config_token_program cfg)
      ''User Token A holding must be owned by the configured Token Program'' (
    ensure (program_owner (account user_holding_b) = config_token_program cfg)
      ''User Token B holding must be owned by the configured Token Program'' (
    ensure (token_a \<noteq> token_b) ''Cannot set up a swap for a token with itself'' (
    attempt (compute_pool_pda E amm_program (account_id config) token_a token_b) (\<lambda>pool_pda.
    ensure (account_id pool = pool_pda) ''Pool Definition Account ID does not match PDA'' (
    ensure (account_id vault_a = compute_vault_pda E amm_program (account_id pool) token_a)
      ''Vault ID does not match PDA'' (
    ensure (account_id vault_b = compute_vault_pda E amm_program (account_id pool) token_b)
      ''Vault ID does not match PDA'' (
    ensure (account_id lp_defn = compute_liquidity_token_pda E amm_program (account_id pool))
      ''Liquidity pool Token Definition Account ID does not match PDA'' (
    ensure (account_id lp_lock_holding = compute_lp_lock_holding_pda E amm_program (account_id pool))
      ''LP lock holding Account ID does not match PDA'' (
    ensure (account pool = account_default E) ''Pool account must be uninitialized'' (
    ensure (account user_holding_lp \<noteq> account_default E \<or> is_authorized user_holding_lp)
      ''Fresh user LP holding requires user authorization'' (
    ensure (account_id tick_account = compute_current_tick_account_pda E (config_oracle_program cfg) (account_id pool))
      ''New definition: current tick Account ID does not match PDA'' (
    ensure (account_id clock = clock_01_program_account_id E)
      ''New definition: clock account must be the canonical 1-block LEZ clock account'' (
    attempt (isqrt_product (uint_root E) amount_a amount_b) (\<lambda>initial_lp.
    ensure (MINIMUM_LIQUIDITY < initial_lp) ''Initial liquidity must exceed minimum liquidity lock'' (
    expect ''initial liquidity must exceed minimum liquidity after validation''
      (checked_sub initial_lp MINIMUM_LIQUIDITY) (\<lambda>user_lp.
    attempt (pool_data E
      \<lparr> definition_token_a_id = token_a, definition_token_b_id = token_b, vault_a_id = account_id vault_a,
        vault_b_id = account_id vault_b, liquidity_pool_id = account_id lp_defn,
        liquidity_pool_supply = initial_lp, reserve_a = amount_a, reserve_b = amount_b \<rparr>) (\<lambda>d.
    attempt (spot_price_q64_64 amount_a amount_b) (\<lambda>price.
    attempt (compute_pool_pda_seed E (account_id config) token_a token_b) (\<lambda>pool_seed.
    (let token_program = config_token_program cfg; pool_id = account_id pool;
         call_token_a = with_pda_seeds
           (chained_call_new token_program [account_id user_holding_a, account_id vault_a]
             (TokenCall (Transfer amount_a)))
           [compute_vault_pda_seed E pool_id token_a];
         call_token_b = with_pda_seeds
           (chained_call_new token_program [account_id user_holding_b, account_id vault_b]
             (TokenCall (Transfer amount_b)))
           [compute_vault_pda_seed E pool_id token_b];
         call_token_lp_lock = with_pda_seeds
           (chained_call_new token_program [account_id lp_defn, account_id lp_lock_holding]
             (TokenCall (NewFungibleDefinition (ascii ''LP Token'') MINIMUM_LIQUIDITY (Some (account_id lp_defn)))))
           [compute_liquidity_token_pda_seed E pool_id, compute_lp_lock_holding_pda_seed E pool_id];
         call_token_lp_user = with_pda_seeds
           (chained_call_new token_program [account_id lp_defn, account_id user_holding_lp]
             (TokenCall (Mint user_lp)))
           [compute_liquidity_token_pda_seed E pool_id];
         call_create_current_tick = with_pda_seeds
           (chained_call_new (config_oracle_program cfg) [account_id tick_account, pool_id, account_id clock]
             (OracleCall (CreateCurrentTickAccount price)))
           [pool_seed]
     in Inr ([Unchanged config, NewData pool (Add 0) d, Unchanged vault_a, Unchanged vault_b,
              Unchanged lp_defn, Unchanged lp_lock_holding, Unchanged user_holding_a,
              Unchanged user_holding_b, Unchanged user_holding_lp, Unchanged tick_account, Unchanged clock],
             [call_token_lp_lock, call_token_lp_user, call_token_b, call_token_a,
              call_create_current_tick]))))))))))))))))))))))))))"

section \<open>add.rs\<close>

text \<open>What a deposit with the given maxima takes and what it mints: amounts A and B, and LP units.\<close>

definition deposit_amounts :: "pool_definition \<Rightarrow> u128 \<Rightarrow> u128 \<Rightarrow> u128 \<Rightarrow> (u128 \<times> u128 \<times> u128) outcome" where
  "deposit_amounts pool_def min_liquidity max_a max_b =
    ensure (reserve_a pool_def \<noteq> 0) ''Reserves must be nonzero'' (
    ensure (reserve_b pool_def \<noteq> 0) ''Reserves must be nonzero'' (
    attempt (mul_div_floor (reserve_a pool_def) max_b (reserve_b pool_def)) (\<lambda>ideal_a.
    attempt (mul_div_floor (reserve_b pool_def) max_a (reserve_a pool_def)) (\<lambda>ideal_b.
    (let actual_a = (if max_a < ideal_a then max_a else ideal_a);
         actual_b = (if max_b < ideal_b then max_b else ideal_b) in
     ensure (actual_a \<le> max_a) ''Actual trade amounts cannot exceed max_amounts'' (
     ensure (actual_b \<le> max_b) ''Actual trade amounts cannot exceed max_amounts'' (
     ensure (actual_a \<noteq> 0) ''A trade amount is 0'' (
     ensure (actual_b \<noteq> 0) ''A trade amount is 0'' (
     attempt (mul_div_floor (liquidity_pool_supply pool_def) actual_a (reserve_a pool_def)) (\<lambda>lp_a.
     attempt (mul_div_floor (liquidity_pool_supply pool_def) actual_b (reserve_b pool_def)) (\<lambda>lp_b.
     (let delta_lp = min lp_a lp_b in
      ensure (delta_lp \<noteq> 0) ''Payable LP must be nonzero'' (
      ensure (min_liquidity \<le> delta_lp) ''Payable LP is less than provided minimum LP amount'' (
      Inr (actual_a, actual_b, delta_lp)))))))))))))))"

definition add_liquidity ::
  "('d, 'x) amm_env_scheme \<Rightarrow> 'd account_with_metadata \<Rightarrow> 'd account_with_metadata \<Rightarrow>
    'd account_with_metadata \<Rightarrow> 'd account_with_metadata \<Rightarrow> 'd account_with_metadata \<Rightarrow>
    'd account_with_metadata \<Rightarrow> 'd account_with_metadata \<Rightarrow> 'd account_with_metadata \<Rightarrow>
    'd account_with_metadata \<Rightarrow> 'd account_with_metadata \<Rightarrow> u128 \<Rightarrow> u128 \<Rightarrow> u128 \<Rightarrow> account_id \<Rightarrow> 'd amm_output" where
  "add_liquidity E config pool vault_a vault_b lp_defn user_holding_a user_holding_b user_holding_lp
      tick_account clock min_liquidity max_a max_b amm_program =
    ensure (program_owner (account config) = amm_program)
      ''Add liquidity: AMM config account must be owned by the AMM Program'' (
    expect ''Add liquidity: AMM Program must be initialized before use''
      (decode (config_codec E) (data (account config))) (\<lambda>cfg.
    expect ''Add liquidity: AMM Program expects valid Pool Definition Account''
      (decode (pool_codec E) (data (account pool))) (\<lambda>pool_def.
    attempt (compute_pool_pda E amm_program (account_id config)
      (definition_token_a_id pool_def) (definition_token_b_id pool_def)) (\<lambda>pool_pda.
    ensure (account_id pool = pool_pda)
      ''Add liquidity: pool account is not derived under this config's namespace'' (
    ensure (account_id vault_a = vault_a_id pool_def) ''Vault A was not provided'' (
    ensure (liquidity_pool_id pool_def = account_id lp_defn) ''LP definition mismatch'' (
    ensure (account_id vault_b = vault_b_id pool_def) ''Vault B was not provided'' (
    ensure (program_owner (account vault_a) = config_token_program cfg)
      ''Vault A must be owned by the configured Token Program'' (
    ensure (program_owner (account vault_b) = config_token_program cfg)
      ''Vault B must be owned by the configured Token Program'' (
    ensure (program_owner (account user_holding_a) = config_token_program cfg)
      ''User Token A holding must be owned by the configured Token Program'' (
    ensure (program_owner (account user_holding_b) = config_token_program cfg)
      ''User Token B holding must be owned by the configured Token Program'' (
    ensure (account_id clock = clock_01_program_account_id E)
      ''Add liquidity: clock account must be the canonical 1-block LEZ clock account'' (
    ensure (account_id tick_account = compute_current_tick_account_pda E (config_oracle_program cfg) (account_id pool))
      ''Add liquidity: current tick Account ID does not match PDA'' (
    ensure (max_a \<noteq> 0 \<and> max_b \<noteq> 0) ''Both max-balances must be nonzero'' (
    attempt (read_vault_fungible_balances E ''Add liquidity'' vault_a vault_b)
      (\<lambda>(vault_a_balance, vault_b_balance).
    ensure (reserve_a pool_def \<le> vault_a_balance) ''Vaults' balances must be at least the reserve amounts'' (
    ensure (reserve_b pool_def \<le> vault_b_balance) ''Vaults' balances must be at least the reserve amounts'' (
    attempt (deposit_amounts pool_def min_liquidity max_a max_b) (\<lambda>(actual_a, actual_b, delta_lp).
    expect ''liquidity_pool_supply + delta_lp overflows u128''
      (checked_add (liquidity_pool_supply pool_def) delta_lp) (\<lambda>new_supply.
    expect ''reserve_a + actual_amount_a overflows u128'' (checked_add (reserve_a pool_def) actual_a) (\<lambda>new_a.
    expect ''reserve_b + actual_amount_b overflows u128'' (checked_add (reserve_b pool_def) actual_b) (\<lambda>new_b.
    attempt (spot_price_q64_64 new_a new_b) (\<lambda>price.
    attempt (update_tick_call E (config_oracle_program cfg) (account_id tick_account) (account_id pool)
      (account_id clock) (account_id config) pool_def price) (\<lambda>call_update_tick.
    attempt (pool_data E
      (pool_def \<lparr> liquidity_pool_supply := new_supply, reserve_a := new_a, reserve_b := new_b \<rparr>)) (\<lambda>d.
    (let token_program = config_token_program cfg;
         call_token_a =
           chained_call_new token_program [account_id user_holding_a, account_id vault_a]
             (TokenCall (Transfer actual_a));
         call_token_b =
           chained_call_new token_program [account_id user_holding_b, account_id vault_b]
             (TokenCall (Transfer actual_b));
         call_token_lp = with_pda_seeds
           (chained_call_new token_program [account_id lp_defn, account_id user_holding_lp]
             (TokenCall (Mint delta_lp)))
           [compute_liquidity_token_pda_seed E (account_id pool)]
     in Inr ([Unchanged config, NewData pool (Add 0) d, Unchanged vault_a, Unchanged vault_b,
              Unchanged lp_defn, Unchanged user_holding_a, Unchanged user_holding_b,
              Unchanged user_holding_lp, Unchanged tick_account, Unchanged clock],
             [call_token_lp, call_token_b, call_token_a, call_update_tick])))))))))))))))))))))))))))"

section \<open>remove.rs\<close>

text \<open>What burning \<^theory_text>\<open>remove\<close> LP units of a balance pays out: amounts A and B.\<close>

definition withdrawal_amounts ::
  "pool_definition \<Rightarrow> token_holding \<Rightarrow> u128 \<Rightarrow> u128 \<Rightarrow> u128 \<Rightarrow> (u128 \<times> u128) outcome" where
  "withdrawal_amounts pool_def user_lp_holding remove min_a min_b =
    attempt (case user_lp_holding of
               Fungible _ lp_balance \<Rightarrow> Inr lp_balance
             | _ \<Rightarrow> Inl (Panic ''Remove liquidity: AMM Program expects a valid Fungible Token Holding Account for liquidity token''))
      (\<lambda>user_lp_balance.
    ensure (user_lp_balance \<le> liquidity_pool_supply pool_def) ''Invalid liquidity account provided'' (
    ensure (definition_id user_lp_holding = liquidity_pool_id pool_def) ''Invalid liquidity account provided'' (
    ensure (MINIMUM_LIQUIDITY < liquidity_pool_supply pool_def) ''Pool only contains locked liquidity'' (
    ensure (remove \<le> user_lp_balance) ''Remove amount exceeds user LP balance'' (
    expect ''liquidity supply must be at least the locked minimum after validation''
      (checked_sub (liquidity_pool_supply pool_def) MINIMUM_LIQUIDITY) (\<lambda>unlocked_liquidity.
    ensure (remove \<le> unlocked_liquidity) ''Cannot remove locked minimum liquidity'' (
    attempt (mul_div_floor (reserve_a pool_def) remove (liquidity_pool_supply pool_def)) (\<lambda>withdraw_a.
    attempt (mul_div_floor (reserve_b pool_def) remove (liquidity_pool_supply pool_def)) (\<lambda>withdraw_b.
    ensure (min_a \<le> withdraw_a)
      ''Insufficient minimal withdraw amount (Token A) provided for liquidity amount'' (
    ensure (min_b \<le> withdraw_b)
      ''Insufficient minimal withdraw amount (Token B) provided for liquidity amount'' (
    Inr (withdraw_a, withdraw_b))))))))))))"

definition remove_liquidity ::
  "('d, 'x) amm_env_scheme \<Rightarrow> 'd account_with_metadata \<Rightarrow> 'd account_with_metadata \<Rightarrow>
    'd account_with_metadata \<Rightarrow> 'd account_with_metadata \<Rightarrow> 'd account_with_metadata \<Rightarrow>
    'd account_with_metadata \<Rightarrow> 'd account_with_metadata \<Rightarrow> 'd account_with_metadata \<Rightarrow>
    'd account_with_metadata \<Rightarrow> 'd account_with_metadata \<Rightarrow> u128 \<Rightarrow> u128 \<Rightarrow> u128 \<Rightarrow> account_id \<Rightarrow> 'd amm_output" where
  "remove_liquidity E config pool vault_a vault_b lp_defn user_holding_a user_holding_b user_holding_lp
      tick_account clock remove min_a min_b amm_program =
    ensure (program_owner (account config) = amm_program)
      ''Remove liquidity: AMM config account must be owned by the AMM Program'' (
    expect ''Remove liquidity: AMM Program must be initialized before use''
      (decode (config_codec E) (data (account config))) (\<lambda>cfg.
    expect ''Remove liquidity: AMM Program expects a valid Pool Definition Account''
      (decode (pool_codec E) (data (account pool))) (\<lambda>pool_def.
    attempt (compute_pool_pda E amm_program (account_id config)
      (definition_token_a_id pool_def) (definition_token_b_id pool_def)) (\<lambda>pool_pda.
    ensure (account_id pool = pool_pda)
      ''Remove liquidity: pool account is not derived under this config's namespace'' (
    ensure (MINIMUM_LIQUIDITY \<le> liquidity_pool_supply pool_def)
      ''Pool liquidity supply is below minimum liquidity'' (
    ensure (liquidity_pool_id pool_def = account_id lp_defn) ''LP definition mismatch'' (
    ensure (account_id vault_a = vault_a_id pool_def) ''Vault A was not provided'' (
    ensure (account_id vault_b = vault_b_id pool_def) ''Vault B was not provided'' (
    ensure (program_owner (account vault_a) = config_token_program cfg)
      ''Vault A must be owned by the configured Token Program'' (
    ensure (program_owner (account vault_b) = config_token_program cfg)
      ''Vault B must be owned by the configured Token Program'' (
    ensure (program_owner (account user_holding_a) = config_token_program cfg)
      ''User Token A holding must be owned by the configured Token Program'' (
    ensure (program_owner (account user_holding_b) = config_token_program cfg)
      ''User Token B holding must be owned by the configured Token Program'' (
    ensure (account_id clock = clock_01_program_account_id E)
      ''Remove liquidity: clock account must be the canonical 1-block LEZ clock account'' (
    ensure (account_id tick_account = compute_current_tick_account_pda E (config_oracle_program cfg) (account_id pool))
      ''Remove liquidity: current tick Account ID does not match PDA'' (
    ensure (min_a \<noteq> 0) ''Minimum withdraw amount must be nonzero'' (
    ensure (min_b \<noteq> 0) ''Minimum withdraw amount must be nonzero'' (
    expect ''Remove liquidity: AMM Program expects a valid Token Account for liquidity token''
      (decode (holding_codec E) (data (account user_holding_lp))) (\<lambda>user_lp_holding.
    attempt (withdrawal_amounts pool_def user_lp_holding remove min_a min_b) (\<lambda>(withdraw_a, withdraw_b).
    expect ''liquidity_pool_supply - delta_lp underflows''
      (checked_sub (liquidity_pool_supply pool_def) remove) (\<lambda>new_supply.
    expect ''reserve_a - withdraw_amount_a underflows'' (checked_sub (reserve_a pool_def) withdraw_a) (\<lambda>new_a.
    expect ''reserve_b - withdraw_amount_b underflows'' (checked_sub (reserve_b pool_def) withdraw_b) (\<lambda>new_b.
    attempt (spot_price_q64_64 new_a new_b) (\<lambda>price.
    attempt (update_tick_call E (config_oracle_program cfg) (account_id tick_account) (account_id pool)
      (account_id clock) (account_id config) pool_def price) (\<lambda>call_update_tick.
    attempt (pool_data E
      (pool_def \<lparr> liquidity_pool_supply := new_supply, reserve_a := new_a, reserve_b := new_b \<rparr>)) (\<lambda>d.
    (let token_program = config_token_program cfg; pool_id = account_id pool;
         call_token_a = with_pda_seeds
           (chained_call_new token_program [account_id vault_a, account_id user_holding_a]
             (TokenCall (Transfer withdraw_a)))
           [compute_vault_pda_seed E pool_id (definition_token_a_id pool_def)];
         call_token_b = with_pda_seeds
           (chained_call_new token_program [account_id vault_b, account_id user_holding_b]
             (TokenCall (Transfer withdraw_b)))
           [compute_vault_pda_seed E pool_id (definition_token_b_id pool_def)];
         call_token_lp = with_pda_seeds
           (chained_call_new token_program [account_id lp_defn, account_id user_holding_lp]
             (TokenCall (Burn remove)))
           [compute_liquidity_token_pda_seed E pool_id]
     in Inr ([Unchanged config, NewData pool (Add 0) d, Unchanged vault_a, Unchanged vault_b,
              Unchanged lp_defn, Unchanged user_holding_a, Unchanged user_holding_b,
              Unchanged user_holding_lp, Unchanged tick_account, Unchanged clock],
             [call_token_lp, call_token_b, call_token_a, call_update_tick])))))))))))))))))))))))))))"

section \<open>sync.rs\<close>

definition sync_reserves ::
  "('d, 'x) amm_env_scheme \<Rightarrow> 'd account_with_metadata \<Rightarrow> 'd account_with_metadata \<Rightarrow>
    'd account_with_metadata \<Rightarrow> 'd account_with_metadata \<Rightarrow> 'd account_with_metadata \<Rightarrow>
    'd account_with_metadata \<Rightarrow> account_id \<Rightarrow> 'd amm_output" where
  "sync_reserves E config pool vault_a vault_b tick_account clock amm_program =
    ensure (program_owner (account pool) = amm_program)
      ''Sync reserves: Pool account must be owned by the AMM Program'' (
    expect ''Sync reserves: AMM Program expects a valid Pool Definition Account''
      (decode (pool_codec E) (data (account pool))) (\<lambda>pool_def.
    ensure (program_owner (account config) = amm_program)
      ''Sync reserves: AMM config account must be owned by the AMM Program'' (
    expect ''Sync reserves: AMM Program must be initialized before use''
      (decode (config_codec E) (data (account config))) (\<lambda>cfg.
    attempt (compute_pool_pda E amm_program (account_id config)
      (definition_token_a_id pool_def) (definition_token_b_id pool_def)) (\<lambda>pool_pda.
    ensure (account_id pool = pool_pda)
      ''Sync reserves: pool account is not derived under this config's namespace'' (
    ensure (MINIMUM_LIQUIDITY \<le> liquidity_pool_supply pool_def)
      ''Pool liquidity supply is below minimum liquidity'' (
    ensure (account_id vault_a = vault_a_id pool_def) ''Vault A was not provided'' (
    ensure (account_id vault_b = vault_b_id pool_def) ''Vault B was not provided'' (
    ensure (account_id clock = clock_01_program_account_id E)
      ''Sync reserves: clock account must be the canonical 1-block LEZ clock account'' (
    ensure (account_id tick_account = compute_current_tick_account_pda E (config_oracle_program cfg) (account_id pool))
      ''Sync reserves: current tick Account ID does not match PDA'' (
    attempt (read_vault_fungible_balances E ''Sync reserves'' vault_a vault_b)
      (\<lambda>(vault_a_balance, vault_b_balance).
    ensure (reserve_a pool_def \<le> vault_a_balance)
      ''Sync reserves: vault A balance is less than its reserve'' (
    ensure (reserve_b pool_def \<le> vault_b_balance)
      ''Sync reserves: vault B balance is less than its reserve'' (
    attempt (spot_price_q64_64 vault_a_balance vault_b_balance) (\<lambda>price.
    attempt (update_tick_call E (config_oracle_program cfg) (account_id tick_account) (account_id pool)
      (account_id clock) (account_id config) pool_def price) (\<lambda>tick_call.
    attempt (pool_data E (pool_def \<lparr> reserve_a := vault_a_balance, reserve_b := vault_b_balance \<rparr>)) (\<lambda>d.
    Inr ([Unchanged config, NewData pool (Add 0) d, Unchanged vault_a, Unchanged vault_b,
          Unchanged tick_account, Unchanged clock],
         [tick_call]))))))))))))))))))"

end
