(* ===== verification/Amm_Admin.thy ===== *)
theory Amm_Admin
  imports Amm_Liquidity
begin

text \<open>
  The administration of an AMM instance (\<^theory_text>\<open>initialize.rs\<close>, \<^theory_text>\<open>update_config.rs\<close>,
  \<^theory_text>\<open>withdraw_protocol_fees.rs\<close>), the opening of oracle accounts for a pool
  (\<^theory_text>\<open>create_price_observations.rs\<close>, \<^theory_text>\<open>create_oracle_price_account.rs\<close>), and the guest dispatch.
\<close>

section \<open>initialize.rs and update_config.rs\<close>

definition initialize ::
  "('d, 'x) amm_env_scheme \<Rightarrow> 'd account_with_metadata \<Rightarrow> 'd account_with_metadata \<Rightarrow> u256 \<Rightarrow>
    account_id \<Rightarrow> account_id \<Rightarrow> account_id \<Rightarrow> u128 \<Rightarrow> u128 \<Rightarrow> account_id \<Rightarrow> 'd state_diff list outcome" where
  "initialize E owner config nonce_bytes token_program oracle_program admin swap_fee protocol_fee amm_program =
    ensure (is_authorized owner) ''Initialize: owner account must sign to claim its namespace'' (
    ensure (account_id config = compute_config_pda E amm_program (account_id owner) nonce_bytes)
      ''Initialize: AMM config Account ID does not match namespaced PDA'' (
    ensure (account config = account_default E) ''Initialize: AMM config account must be uninitialized'' (
    attempt (assert_valid_swap_fee_bps swap_fee) (\<lambda>_.
    attempt (assert_valid_protocol_fee_bps protocol_fee) (\<lambda>_.
    attempt (config_data E
      \<lparr> config_token_program = token_program, config_oracle_program = oracle_program,
        config_authority = admin, swap_fee_bps = swap_fee, protocol_fee_bps = protocol_fee \<rparr>) (\<lambda>d.
    Inr [Unchanged owner, NewData config (Add 0) d]))))))"

definition update_config ::
  "('d, 'x) amm_env_scheme \<Rightarrow> 'd account_with_metadata \<Rightarrow> 'd account_with_metadata \<Rightarrow> account_id \<Rightarrow>
    account_id \<Rightarrow> 'd state_diff list outcome" where
  "update_config E config admin new_admin amm_program =
    ensure (program_owner (account config) = amm_program)
      ''Update config: AMM config account must be owned by the AMM Program'' (
    expect ''Update config: AMM Program must be initialized before use''
      (decode (config_codec E) (data (account config))) (\<lambda>cfg.
    ensure (account_id admin = config_authority cfg)
      ''Update config: caller is not the configured admin authority'' (
    ensure (is_authorized admin) ''Update config: admin authority must authorize the update'' (
    attempt (config_data E (cfg \<lparr> config_authority := new_admin \<rparr>)) (\<lambda>d.
    Inr [NewData config (Add 0) d, Unchanged admin])))))"

section \<open>withdraw_protocol_fees.rs\<close>

definition withdraw_protocol_fees ::
  "('d, 'x) amm_env_scheme \<Rightarrow> 'd account_with_metadata \<Rightarrow> 'd account_with_metadata \<Rightarrow>
    'd account_with_metadata \<Rightarrow> 'd account_with_metadata \<Rightarrow> u128 \<Rightarrow> account_id \<Rightarrow> 'd amm_output" where
  "withdraw_protocol_fees E config protocol_fee_holding destination admin amount amm_program =
    ensure (program_owner (account config) = amm_program)
      ''Withdraw protocol fees: AMM config account must be owned by the AMM Program'' (
    expect ''Withdraw protocol fees: AMM Program must be initialized before use''
      (decode (config_codec E) (data (account config))) (\<lambda>cfg.
    ensure (account_id admin = config_authority cfg)
      ''Withdraw protocol fees: caller is not the configured admin authority'' (
    ensure (is_authorized admin)
      ''Withdraw protocol fees: admin authority must authorize the withdrawal'' (
    ensure (program_owner (account protocol_fee_holding) = config_token_program cfg)
      ''Withdraw protocol fees: protocol-fee holding must be owned by the configured Token Program'' (
    expect ''Withdraw protocol fees: protocol-fee holding must be a valid token holding''
      (decode (holding_codec E) (data (account protocol_fee_holding))) (\<lambda>source_holding.
    ensure (account_id protocol_fee_holding =
            compute_protocol_fee_pda E amm_program (account_id config) (definition_id source_holding))
      ''Withdraw protocol fees: holding does not match the protocol-fee PDA'' (
    ensure (program_owner (account destination) = config_token_program cfg)
      ''Withdraw protocol fees: destination must be owned by the configured Token Program'' (
    expect ''Withdraw protocol fees: destination must be a valid token holding''
      (decode (holding_codec E) (data (account destination))) (\<lambda>destination_holding.
    ensure (definition_id destination_holding = definition_id source_holding)
      ''Withdraw protocol fees: destination token does not match the protocol-fee holding's token'' (
    Inr ([Unchanged config, Unchanged protocol_fee_holding, Unchanged destination, Unchanged admin],
         [with_pda_seeds
            (chained_call_new (config_token_program cfg)
              [account_id protocol_fee_holding, account_id destination] (TokenCall (Transfer amount)))
            [compute_protocol_fee_pda_seed E (account_id config) (definition_id source_holding)]])))))))))))"

section \<open>create_price_observations.rs and create_oracle_price_account.rs\<close>

definition pool_create_price_observations ::
  "('d, 'x) amm_env_scheme \<Rightarrow> 'd account_with_metadata \<Rightarrow> 'd account_with_metadata \<Rightarrow>
    'd account_with_metadata \<Rightarrow> 'd account_with_metadata \<Rightarrow> 'd account_with_metadata \<Rightarrow> u64 \<Rightarrow>
    account_id \<Rightarrow> 'd amm_output" where
  "pool_create_price_observations E config pool tick_account observations_account clock window amm_program =
    ensure (program_owner (account config) = amm_program)
      ''Create price observations: AMM config account must be owned by the AMM Program'' (
    expect ''Create price observations: AMM Program must be initialized before use''
      (decode (config_codec E) (data (account config))) (\<lambda>cfg.
    ensure (account_id clock = clock_01_program_account_id E)
      ''Create price observations: clock account must be the canonical 1-block LEZ clock account'' (
    ensure (program_owner (account pool) = amm_program)
      ''Create price observations: Pool account must be owned by the AMM Program'' (
    expect ''Create price observations: AMM Program expects a valid Pool Definition Account''
      (decode (pool_codec E) (data (account pool))) (\<lambda>pool_def.
    attempt (compute_pool_pda E amm_program (account_id config)
      (definition_token_a_id pool_def) (definition_token_b_id pool_def)) (\<lambda>pool_pda.
    ensure (account_id pool = pool_pda)
      ''Create price observations: Pool Account ID does not match PDA'' (
    ensure (account_id tick_account = compute_current_tick_account_pda E (config_oracle_program cfg) (account_id pool))
      ''Create price observations: current tick Account ID does not match PDA'' (
    ensure (program_owner (account tick_account) = config_oracle_program cfg)
      ''Create price observations: current tick account must be owned by the TWAP oracle'' (
    expect ''Create price observations: AMM Program expects a valid CurrentTickAccount''
      (decode (current_tick_codec E) (data (account tick_account))) (\<lambda>current.
    ensure (account_id observations_account =
            compute_price_observations_pda E (config_oracle_program cfg) (account_id pool) window)
      ''Create price observations: price observations Account ID does not match PDA'' (
    ensure (account observations_account = account_default E)
      ''Create price observations: price observations account already exists'' (
    attempt (compute_pool_pda_seed E (account_id config)
      (definition_token_a_id pool_def) (definition_token_b_id pool_def)) (\<lambda>pool_seed.
    Inr ([Unchanged config, Unchanged pool, Unchanged tick_account, Unchanged observations_account,
          Unchanged clock],
         [with_pda_seeds
            (chained_call_new (config_oracle_program cfg)
              [account_id observations_account, account_id pool, account_id clock]
              (OracleCall (CreatePriceObservations (tick current) window)))
            [pool_seed]]))))))))))))))"

definition pool_create_oracle_price_account ::
  "('d, 'x) amm_env_scheme \<Rightarrow> 'd account_with_metadata \<Rightarrow> 'd account_with_metadata \<Rightarrow>
    'd account_with_metadata \<Rightarrow> 'd account_with_metadata \<Rightarrow> u64 \<Rightarrow> account_id \<Rightarrow> 'd amm_output" where
  "pool_create_oracle_price_account E config pool price_account clock window amm_program =
    ensure (program_owner (account config) = amm_program)
      ''Create oracle price account: AMM config account must be owned by the AMM Program'' (
    expect ''Create oracle price account: AMM Program must be initialized before use''
      (decode (config_codec E) (data (account config))) (\<lambda>cfg.
    ensure (account_id clock = clock_01_program_account_id E)
      ''Create oracle price account: clock account must be the canonical 1-block LEZ clock account'' (
    ensure (OBSERVATIONS_CAPACITY \<le> unat window)
      ''Create oracle price account: window_duration must be >= OBSERVATIONS_CAPACITY so a matching PriceObservations account can exist and PublishPrice can update this price account'' (
    ensure (program_owner (account pool) = amm_program)
      ''Create oracle price account: Pool account must be owned by the AMM Program'' (
    expect ''Create oracle price account: AMM Program expects a valid Pool Definition Account''
      (decode (pool_codec E) (data (account pool))) (\<lambda>pool_def.
    attempt (compute_pool_pda E amm_program (account_id config)
      (definition_token_a_id pool_def) (definition_token_b_id pool_def)) (\<lambda>pool_pda.
    ensure (account_id pool = pool_pda)
      ''Create oracle price account: Pool Account ID does not match PDA'' (
    attempt (spot_price_q64_64 (reserve_a pool_def) (reserve_b pool_def)) (\<lambda>price.
    ensure (price \<noteq> 0)
      ''Create oracle price account: pool spot price must be non-zero (zero is the no-price sentinel; pool reserve_b is zero or negligible relative to reserve_a)'' (
    ensure (account_id price_account =
            compute_oracle_price_account_pda E (config_oracle_program cfg) (account_id pool) window)
      ''Create oracle price account: oracle price Account ID does not match PDA'' (
    ensure (account price_account = account_default E)
      ''Create oracle price account: oracle price account already exists'' (
    attempt (compute_pool_pda_seed E (account_id config)
      (definition_token_a_id pool_def) (definition_token_b_id pool_def)) (\<lambda>pool_seed.
    Inr ([Unchanged config, Unchanged pool, Unchanged price_account, Unchanged clock],
         [with_pda_seeds
            (chained_call_new (config_oracle_program cfg)
              [account_id price_account, account_id pool, account_id clock]
              (OracleCall (CreateOraclePriceAccount (definition_token_a_id pool_def)
                 (definition_token_b_id pool_def) price window)))
            [pool_seed]]))))))))))))))"

section \<open>The guest\<close>

text \<open>
  The generated entry point.  Besides the diffs and calls it returns the exclusive upper end of the
  timestamp validity window, which the instructions with a deadline set (\<^theory_text>\<open>..deadline\<close>).
\<close>

type_synonym 'd amm_result = "('d state_diff list \<times> amm_call list \<times> u64 option) outcome"

definition until :: "u64 option \<Rightarrow> 'd amm_output \<Rightarrow> 'd amm_result" where
  "until window m = attempt m (\<lambda>(ds, cs). Inr (ds, cs, window))"

definition no_calls :: "'d state_diff list outcome \<Rightarrow> 'd amm_output" where
  "no_calls m = attempt m (\<lambda>ds. Inr (ds, []))"

definition amm_main ::
  "('d, 'x) amm_env_scheme \<Rightarrow> account_id \<Rightarrow> amm_instruction \<Rightarrow> 'd account_with_metadata list \<Rightarrow>
    'd amm_result" where
  "amm_main E self_account_id instruction accounts =
    (case (instruction, accounts) of
       (Initialize nonce_bytes token_program oracle_program admin swap_fee protocol_fee, [owner, config]) \<Rightarrow>
         ensure (spel_validate E [([Mut, Signer], owner), ([Init], config)]) ''account validation failed'' (
         until None (no_calls (initialize E owner config nonce_bytes token_program oracle_program admin
           swap_fee protocol_fee self_account_id)))
     | (UpdateConfig new_admin, [config, admin]) \<Rightarrow>
         ensure (spel_validate E [([Mut], config), ([Signer], admin)]) ''account validation failed'' (
         until None (no_calls (update_config E config admin new_admin self_account_id)))
     | (PoolPriceObservations window, [config, pool, tick_account, obs, clock]) \<Rightarrow>
         ensure (spel_validate E [([], config), ([], pool), ([], tick_account), ([Init], obs), ([], clock)])
           ''account validation failed'' (
         until None (pool_create_price_observations E config pool tick_account obs clock window self_account_id))
     | (PoolOraclePriceAccount window, [config, pool, price_account, clock]) \<Rightarrow>
         ensure (spel_validate E [([], config), ([], pool), ([Init], price_account), ([], clock)])
           ''account validation failed'' (
         until None (pool_create_oracle_price_account E config pool price_account clock window self_account_id))
     | (NewDefinition amount_a amount_b dl,
        [config, pool, va, vb, lp_defn, lp_lock, ua, ub, ulp, tick_account, clock]) \<Rightarrow>
         ensure (spel_validate E [([], config), ([Init], pool), ([Mut], va), ([Mut], vb), ([Init], lp_defn),
             ([Init], lp_lock), ([Mut, Signer], ua), ([Mut, Signer], ub), ([Mut, Signer], ulp),
             ([Init], tick_account), ([], clock)]) ''account validation failed'' (
         ensure (amount_a \<noteq> 0) ''token_a_amount must be nonzero'' (
         ensure (amount_b \<noteq> 0) ''token_b_amount must be nonzero'' (
         until (Some dl) (new_definition E config pool va vb lp_defn lp_lock ua ub ulp tick_account clock
           amount_a amount_b self_account_id))))
     | (AddLiquidity min_liquidity max_a max_b dl, [config, pool, va, vb, lp_defn, ua, ub, ulp, tick_account, clock]) \<Rightarrow>
         ensure (spel_validate E [([], config), ([Mut], pool), ([Mut], va), ([Mut], vb), ([Mut], lp_defn),
             ([Mut, Signer], ua), ([Mut, Signer], ub), ([Mut], ulp), ([Mut], tick_account), ([], clock)])
           ''account validation failed'' (
         ensure (min_liquidity \<noteq> 0) ''min_amount_liquidity must be nonzero'' (
         until (Some dl) (add_liquidity E config pool va vb lp_defn ua ub ulp tick_account clock
           min_liquidity max_a max_b self_account_id)))
     | (RemoveLiquidity remove min_a min_b dl, [config, pool, va, vb, lp_defn, ua, ub, ulp, tick_account, clock]) \<Rightarrow>
         ensure (spel_validate E [([], config), ([Mut], pool), ([Mut], va), ([Mut], vb), ([Mut], lp_defn),
             ([Mut], ua), ([Mut], ub), ([Mut, Signer], ulp), ([Mut], tick_account), ([], clock)])
           ''account validation failed'' (
         ensure (remove \<noteq> 0) ''remove_liquidity_amount must be nonzero'' (
         until (Some dl) (remove_liquidity E config pool va vb lp_defn ua ub ulp tick_account clock
           remove min_a min_b self_account_id)))
     | (SwapExactInput amount_in min_out dl, [config, pool, va, vb, uin, uout, tick_account, clock, fee_holding]) \<Rightarrow>
         ensure (spel_validate E [([], config), ([Mut], pool), ([Mut], va), ([Mut], vb), ([Mut, Signer], uin),
             ([Mut], uout), ([Mut], tick_account), ([], clock), ([Mut], fee_holding)])
           ''account validation failed'' (
         until (Some dl) (swap_exact_input E config pool va vb uin uout tick_account clock fee_holding
           amount_in min_out self_account_id))
     | (SwapExactOutput amount_out max_in dl, [config, pool, va, vb, uin, uout, tick_account, clock, fee_holding]) \<Rightarrow>
         ensure (spel_validate E [([], config), ([Mut], pool), ([Mut], va), ([Mut], vb), ([Mut, Signer], uin),
             ([Mut], uout), ([Mut], tick_account), ([], clock), ([Mut], fee_holding)])
           ''account validation failed'' (
         until (Some dl) (swap_exact_output E config pool va vb uin uout tick_account clock fee_holding
           amount_out max_in self_account_id))
     | (SyncReserves, [config, pool, va, vb, tick_account, clock]) \<Rightarrow>
         ensure (spel_validate E [([], config), ([Mut], pool), ([], va), ([], vb), ([Mut], tick_account), ([], clock)])
           ''account validation failed'' (
         until None (sync_reserves E config pool va vb tick_account clock self_account_id))
     | (WithdrawProtocolFees amount, [config, fee_holding, destination, admin]) \<Rightarrow>
         ensure (spel_validate E [([], config), ([Mut], fee_holding), ([Mut], destination), ([Signer], admin)])
           ''account validation failed'' (
         until None (withdraw_protocol_fees E config fee_holding destination admin amount self_account_id))
     | _ \<Rightarrow> Inl (Panic ''wrong number of accounts''))"

lemma until_Inr [success]:
  "until w m = Inr (ds, cs, v) \<longleftrightarrow> m = Inr (ds, cs) \<and> v = w"
  by (auto simp: until_def success)

lemma no_calls_Inr [success]: "no_calls m = Inr (ds, cs) \<longleftrightarrow> m = Inr ds \<and> cs = []"
  by (auto simp: no_calls_def success)

end
