(* ===== verification/Amm_Pool.thy ===== *)
theory Amm_Pool
  imports Amm_Admin
begin

text \<open>
  The abstract pool: two reserves and a supply of shares, on natural numbers.  A pool evolves when
  the product of the reserves per squared share does not fall; every instruction that writes a pool
  is shown to be such a step.  The value of a share is compared without division.
\<close>

section \<open>The abstract pool\<close>

definition share_value_le :: "nat \<times> nat \<times> nat \<Rightarrow> nat \<times> nat \<times> nat \<Rightarrow> bool" where
  "share_value_le = (\<lambda>(ra, rb, s) (ra', rb', s'). ra * rb * s'\<^sup>2 \<le> ra' * rb' * s\<^sup>2)"

definition backed :: "nat \<times> nat \<times> nat \<Rightarrow> bool" where
  "backed = (\<lambda>(ra, rb, s). 1000 \<le> s \<and> s\<^sup>2 \<le> ra * rb)"

lemma share_value_refl: "share_value_le v v"
  by (cases v) (simp add: share_value_le_def)

lemma share_value_trans:
  assumes "share_value_le (ra, rb, s) (ra', rb', s')" "share_value_le (ra', rb', s') (ra'', rb'', s'')" "0 < s'"
  shows "share_value_le (ra, rb, s) (ra'', rb'', s'')"
proof -
  have "ra * rb * s''\<^sup>2 * s'\<^sup>2 = ra * rb * s'\<^sup>2 * s''\<^sup>2"
    by simp
  also have "\<dots> \<le> ra' * rb' * s\<^sup>2 * s''\<^sup>2"
    using assms(1) by (intro mult_le_mono1) (simp add: share_value_le_def)
  also have "\<dots> = ra' * rb' * s''\<^sup>2 * s\<^sup>2"
    by simp
  also have "\<dots> \<le> ra'' * rb'' * s'\<^sup>2 * s\<^sup>2"
    using assms(2) by (intro mult_le_mono1) (simp add: share_value_le_def)
  finally have "(ra * rb * s''\<^sup>2) * s'\<^sup>2 \<le> (ra'' * rb'' * s\<^sup>2) * s'\<^sup>2"
    by (simp add: algebra_simps)
  then show ?thesis
    using assms(3) by (simp add: share_value_le_def)
qed

text \<open>A backed pool stays backed when its share value does not fall.\<close>

lemma backed_step:
  assumes "backed (ra, rb, s)" "share_value_le (ra, rb, s) (ra', rb', s')" "1000 \<le> s'"
  shows "backed (ra', rb', s')"
proof -
  have "s'\<^sup>2 * s\<^sup>2 \<le> s'\<^sup>2 * (ra * rb)"
    using assms(1) by (simp add: backed_def)
  also have "\<dots> \<le> ra' * rb' * s\<^sup>2"
    using assms(2) by (simp add: share_value_le_def algebra_simps)
  finally show ?thesis
    using assms(1,3) by (simp add: backed_def)
qed

lemma backed_positive: "backed (ra, rb, s) \<Longrightarrow> 0 < ra \<and> 0 < rb \<and> 0 < s"
  by (auto simp: backed_def intro: ccontr)

lemma share_value_same_supply: "ra * rb \<le> ra' * rb' \<Longrightarrow> share_value_le (ra, rb, s) (ra', rb', s)"
  by (simp add: share_value_le_def)

lemma share_value_each:
  assumes "ra * s' \<le> ra' * s" "rb * s' \<le> rb' * s"
  shows "share_value_le (ra, rb, s) (ra', rb', s')"
proof -
  have "(ra * s') * (rb * s') \<le> (ra' * s) * (rb' * s)"
    using assms by (rule mult_le_mono)
  then show ?thesis
    by (simp add: share_value_le_def power2_eq_square algebra_simps)
qed

lemma deposit_share_value:
  assumes "d * ra \<le> s * a" "d * rb \<le> s * b"
  shows "share_value_le (ra, rb, s) (ra + a, rb + b, s + d)"
  using assms by (intro share_value_each) (simp_all add: algebra_simps)

lemma withdrawal_share_value:
  assumes "a * s \<le> ra * d" "b * s \<le> rb * d"
  shows "share_value_le (ra, rb, s) (ra - a, rb - b, s - d)"
  using assms by (intro share_value_each) (simp_all add: diff_mult_distrib diff_mult_distrib2 algebra_simps)

text \<open>A trade: the input that reaches the reserve is at least the effective one.\<close>

lemma trade_product:
  assumes "0 < rin" "e \<le> net" "out \<le> curve_out rin rout e"
  shows "rin * rout \<le> (rin + net) * (rout - out)"
proof -
  have "rin * rout \<le> (rin + e) * (rout - curve_out rin rout e)"
    using assms(1) by (rule curve_product)
  also have "\<dots> \<le> (rin + net) * (rout - out)"
    using assms by (intro mult_le_mono) simp_all
  finally show ?thesis .
qed

section \<open>The concrete pool\<close>

definition pool_value :: "pool_definition \<Rightarrow> nat \<times> nat \<times> nat" where
  "pool_value p = (unat (reserve_a p), unat (reserve_b p), unat (liquidity_pool_supply p))"

definition same_identity :: "pool_definition \<Rightarrow> pool_definition \<Rightarrow> bool" where
  "same_identity p p' \<longleftrightarrow>
    definition_token_a_id p' = definition_token_a_id p \<and> definition_token_b_id p' = definition_token_b_id p \<and>
    vault_a_id p' = vault_a_id p \<and> vault_b_id p' = vault_b_id p \<and> liquidity_pool_id p' = liquidity_pool_id p"

definition pool_evolves :: "pool_definition \<Rightarrow> pool_definition \<Rightarrow> bool" where
  "pool_evolves p p' \<longleftrightarrow> same_identity p p' \<and> 1000 \<le> unat (liquidity_pool_supply p') \<and>
    share_value_le (pool_value p) (pool_value p')"

definition fees_valid :: "amm_config \<Rightarrow> bool" where
  "fees_valid c \<longleftrightarrow> swap_fee_bps c < FEE_BPS_DENOMINATOR \<and> protocol_fee_bps c \<le> FEE_BPS_DENOMINATOR"

lemma pool_evolves_backed: "pool_evolves p p' \<Longrightarrow> backed (pool_value p) \<Longrightarrow> backed (pool_value p')"
  unfolding pool_evolves_def pool_value_def by (blast intro: backed_step)

lemma pool_evolves_trans:
  assumes "pool_evolves p q" "pool_evolves q r"
  shows "pool_evolves p r"
  using assms unfolding pool_evolves_def pool_value_def same_identity_def
  by (auto intro: share_value_trans)

lemma pool_evolves_refl: "backed (pool_value p) \<Longrightarrow> pool_evolves p p"
  by (simp add: pool_evolves_def same_identity_def share_value_refl backed_def pool_value_def)

lemma unat_minimum [simp]: "unat MINIMUM_LIQUIDITY = 1000"
  by (simp add: MINIMUM_LIQUIDITY_def)

section \<open>Pricing steps\<close>

text \<open>
  What a successful pricing routine gives: the transfers of the trade, and a product of the reserves
  that does not fall when the net input is added and the output removed.
\<close>

lemma swap_logic_run:
  assumes "swap_logic E ud vd vw uw amount_in min_out fee bps fh rin rout pid cid = Inr (cs, net, out)"
  obtains f td tw where
    "cs = swap_transfers E (program_owner (account ud)) (account_id ud) (account_id vd)
      (account_id vw) (account_id uw) (account_id fh) pid cid td tw amount_in out f"
    "unat amount_in = unat net + unat f" "min_out \<le> out" "out \<noteq> 0"
    "rin \<noteq> 0 \<Longrightarrow> fee < FEE_BPS_DENOMINATOR \<Longrightarrow> bps \<le> FEE_BPS_DENOMINATOR \<Longrightarrow>
      unat rin * unat rout \<le> (unat rin + unat net) * (unat rout - unat out)"
proof -
  from assms obtain e swap_fee f td tw where run:
      "swap_exact_in_amounts amount_in rin rout fee = Inr (e, out)" "out \<noteq> 0" "min_out \<le> out"
      "checked_sub amount_in e = Some swap_fee" "protocol_fee_amount swap_fee bps = Inr f"
      "checked_sub amount_in f = Some net"
      "cs = swap_transfers E (program_owner (account ud)) (account_id ud) (account_id vd)
        (account_id vw) (account_id uw) (account_id fh) pid cid td tw amount_in out f"
    by (auto simp: swap_logic_def success)
  have product: "unat rin * unat rout \<le> (unat rin + unat net) * (unat rout - unat out)"
    if valid: "rin \<noteq> 0" "fee < FEE_BPS_DENOMINATOR" "bps \<le> FEE_BPS_DENOMINATOR"
  proof -
    have "unat out = (if unat rin + unat e < 2 ^ 128 then curve_out (unat rin) (unat rout) (unat e) else 0)"
      using swap_exact_in_amounts_cases [OF valid(1), of fee amount_in rout] run(1) valid(2) by auto
    moreover have "unat out \<noteq> 0"
      using run(2) by (simp add: unat_gt_0)
    ultimately have curve: "unat out \<le> curve_out (unat rin) (unat rout) (unat e)"
      by (simp split: if_splits)
    have "unat f \<le> unat swap_fee"
      using protocol_fee_le [OF valid(3), of swap_fee] run(5) by auto
    then have "unat e \<le> unat net"
      using run(4,6) by (simp add: checked_sub_Some)
    then show ?thesis
      using trade_product [OF _ _ curve] valid(1) by (simp add: unat_gt_0)
  qed
  have "unat amount_in = unat net + unat f"
    using run(6) by (simp add: checked_sub_Some)
  then show thesis
    using that run(2,3,7) product by blast
qed

lemma exact_output_logic_run:
  assumes "exact_output_swap_logic E ud vd vw uw amount_out max_in rin rout fee bps fh pid cid = Inr (cs, net, out)"
  obtains f x td tw where
    "cs = swap_transfers E (program_owner (account ud)) (account_id ud) (account_id vd)
      (account_id vw) (account_id uw) (account_id fh) pid cid td tw x out f"
    "unat x = unat net + unat f" "x \<le> max_in" "out = amount_out" "out \<noteq> 0"
    "rin \<noteq> 0 \<Longrightarrow> bps \<le> FEE_BPS_DENOMINATOR \<Longrightarrow>
      unat rin * unat rout \<le> (unat rin + unat net) * (unat rout - unat out)"
proof -
  from assms obtain e x swap_fee f td tw where run:
      "swap_exact_out_amounts amount_out rin rout fee = Inr (Some (e, x))" "amount_out \<noteq> 0" "x \<le> max_in"
      "checked_sub x e = Some swap_fee" "protocol_fee_amount swap_fee bps = Inr f" "checked_sub x f = Some net"
      "out = amount_out"
      "cs = swap_transfers E (program_owner (account ud)) (account_id ud) (account_id vd)
        (account_id vw) (account_id uw) (account_id fh) pid cid td tw x out f"
    by (auto simp: exact_output_swap_logic_def success)
  note quote = swap_exact_out_amounts_Some [OF run(1)]
  have product: "unat rin * unat rout \<le> (unat rin + unat net) * (unat rout - unat out)"
    if valid: "rin \<noteq> 0" "bps \<le> FEE_BPS_DENOMINATOR"
  proof -
    have rin: "0 < unat rin"
      using valid(1) by (simp add: unat_gt_0)
    have "unat f \<le> unat swap_fee"
      using protocol_fee_le [OF valid(2), of swap_fee] run(5) by auto
    then have "unat e \<le> unat net"
      using run(4,6) by (simp add: checked_sub_Some)
    moreover have "unat out \<le> curve_out (unat rin) (unat rout) (unat e)"
      using curve_inverse [OF rin quote(2)] quote(4) run(7) by simp
    ultimately show ?thesis
      using trade_product [OF rin] by simp
  qed
  have "unat x = unat net + unat f"
    using run(6) by (simp add: checked_sub_Some)
  then show thesis
    using that run(2,3,7,8) product by blast
qed

end
