(* ===== verification/Amm_Runs.thy ===== *)
theory Amm_Runs
  imports Amm_Pool
begin

text \<open>
  Inversion of the handlers of a pool: what a successful run has checked, how the reserves it writes
  relate to the ones it read, and which calls it emits.  The flow of an account under a list of calls
  is what their transfers bring it, less what they take from it.
\<close>

section \<open>Calls\<close>

fun transfer_flow :: "account_id \<Rightarrow> amm_call \<Rightarrow> int" where
  "transfer_flow v c =
    (case (instruction_data c, pre_state_ids c) of
       (TokenCall (Transfer n), [a, b]) \<Rightarrow>
         (if b = v then int (unat n) else 0) - (if a = v then int (unat n) else 0)
     | _ \<Rightarrow> 0)"

declare transfer_flow.simps [simp del]

lemma transfer_flow_calls [simp]:
  "transfer_flow v (with_pda_seeds c seeds) = transfer_flow v c"
  "transfer_flow v (chained_call_new T [a, b] (TokenCall (Transfer n))) =
    (if b = v then int (unat n) else 0) - (if a = v then int (unat n) else 0)"
  "transfer_flow v (chained_call_new T ids (TokenCall (Mint n))) = 0"
  "transfer_flow v (chained_call_new T ids (TokenCall (Burn n))) = 0"
  "transfer_flow v (chained_call_new T ids (TokenCall (NewFungibleDefinition nm s auth))) = 0"
  "transfer_flow v (chained_call_new T ids (OracleCall oc)) = 0"
  by (simp_all add: transfer_flow.simps)

definition flow :: "account_id \<Rightarrow> amm_call list \<Rightarrow> int" where
  "flow v cs = (\<Sum>c\<leftarrow>cs. transfer_flow v c)"

lemma flow_simps [simp]:
  "flow v [] = 0"
  "flow v (c # cs) = transfer_flow v c + flow v cs"
  "flow v (cs @ ds) = flow v cs + flow v ds"
  by (simp_all add: flow_def)

lemma flow_swap_transfers:
  assumes "vd \<noteq> vw" "ud \<notin> {vd, vw}" "uw \<notin> {vd, vw}" "fh \<notin> {vd, vw}"
  shows "flow vd (swap_transfers E T ud vd vw uw fh pid cid td tw x out f) = int (unat x) - int (unat f)"
    and "flow vw (swap_transfers E T ud vd vw uw fh pid cid td tw x out f) = - int (unat out)"
  using assms by (auto simp: swap_transfers_def)

lemma flow_swap_users:
  assumes "distinct [vd, vw, ud, uw, fh]"
  shows "flow ud (swap_transfers E T ud vd vw uw fh pid cid td tw x out f) = - int (unat x)"
    and "flow uw (swap_transfers E T ud vd vw uw fh pid cid td tw x out f) = int (unat out)"
    and "flow fh (swap_transfers E T ud vd vw uw fh pid cid td tw x out f) = int (unat f)"
  using assms by (auto simp: swap_transfers_def)

section \<open>The refresh of the current tick\<close>

text \<open>The call that reports the spot price of a pool's reserves, under the pool's seed.\<close>

definition reports_price ::
  "('d, 'x) amm_env_scheme \<Rightarrow> account_id \<Rightarrow> account_id \<Rightarrow> account_id \<Rightarrow> pool_definition \<Rightarrow> amm_call \<Rightarrow> bool" where
  "reports_price E oracle config_id pool_id p c \<longleftrightarrow> callee c = oracle \<and>
    (\<exists>price tick_id seed. instruction_data c = OracleCall (UpdateCurrentTick price) \<and>
       spot_price_q64_64 (reserve_a p) (reserve_b p) = Inr price \<and>
       pre_state_ids c = [tick_id, pool_id, clock_01_program_account_id E] \<and>
       tick_id = compute_current_tick_account_pda E oracle pool_id \<and>
       compute_pool_pda_seed E config_id (definition_token_a_id p) (definition_token_b_id p) = Inr seed \<and>
       pda_seeds c = [seed])"

lemma update_tick_call_Inr [success]:
  "update_tick_call E oracle tick_id pool_id clock_id config_id p price = Inr c \<longleftrightarrow>
    (\<exists>seed. compute_pool_pda_seed E config_id (definition_token_a_id p) (definition_token_b_id p) = Inr seed \<and>
       c = with_pda_seeds (chained_call_new oracle [tick_id, pool_id, clock_id] (OracleCall (UpdateCurrentTick price))) [seed])"
  by (auto simp: update_tick_call_def attempt_success)

lemma update_tick_call_reports:
  assumes "update_tick_call E oracle tick_id pool_id (clock_01_program_account_id E) config_id p price = Inr c"
    and "spot_price_q64_64 (reserve_a p') (reserve_b p') = Inr price"
    and "tick_id = compute_current_tick_account_pda E oracle pool_id"
    and "definition_token_a_id p' = definition_token_a_id p" "definition_token_b_id p' = definition_token_b_id p"
  shows "reports_price E oracle config_id pool_id p' c" "flow v [c] = 0"
  using assms by (auto simp: reports_price_def update_tick_call_Inr)

lemma reports_price_flow: "reports_price E oracle config_id pool_id p c \<Longrightarrow> transfer_flow v c = 0"
  by (auto simp: reports_price_def transfer_flow.simps)

section \<open>The swaps\<close>

lemma finalize_swap_run:
  assumes "finalize_swap E config pool p va vb uin uout tk clk fh da wa db wb oracle = Inr (ds, tick_call)"
  obtains p' d price where
    "same_identity p p'" "liquidity_pool_supply p' = liquidity_pool_supply p"
    "unat (reserve_a p) + unat da = unat (reserve_a p') + unat wa"
    "unat (reserve_b p) + unat db = unat (reserve_b p') + unat wb"
    "encode (pool_codec E) p' = Some d"
    "ds = [Unchanged config, NewData pool (Add 0) d, Unchanged va, Unchanged vb, Unchanged uin, Unchanged uout,
       Unchanged tk, Unchanged clk, Unchanged fh]"
    "spot_price_q64_64 (reserve_a p') (reserve_b p') = Inr price"
    "update_tick_call E oracle (account_id tk) (account_id pool) (account_id clk) (account_id config) p price =
      Inr tick_call"
proof -
  from assms obtain xa na xb nb price d where run:
    "checked_add (reserve_a p) da = Some xa" "checked_sub xa wa = Some na"
    "checked_add (reserve_b p) db = Some xb" "checked_sub xb wb = Some nb"
    "spot_price_q64_64 na nb = Inr price"
    "update_tick_call E oracle (account_id tk) (account_id pool) (account_id clk) (account_id config) p price =
      Inr tick_call"
    "encode (pool_codec E) (p \<lparr> reserve_a := na, reserve_b := nb \<rparr>) = Some d"
    "ds = [Unchanged config, NewData pool (Add 0) d, Unchanged va, Unchanged vb, Unchanged uin, Unchanged uout,
       Unchanged tk, Unchanged clk, Unchanged fh]"
    unfolding finalize_swap_def attempt_success expect_success amm_encoded_success by auto
  show thesis
    by (rule that [of "p \<lparr> reserve_a := na, reserve_b := nb \<rparr>" d price])
      (use run in \<open>simp_all add: checked_add_Some checked_sub_Some same_identity_def\<close>)
qed

text \<open>What the checks of a swap establish.\<close>

lemma swap_checks_run:
  assumes "swap_checks E ctx config pool va vb uin uout tk clk fh amm = Inr (p, c, t, ha, hb)"
  obtains h seed da a db b where
    "decode (pool_codec E) (data (account pool)) = Some p"
    "decode (config_codec E) (data (account config)) = Some c" "program_owner (account config) = amm"
    "1000 \<le> unat (liquidity_pool_supply p)"
    "account_id va = vault_a_id p" "account_id vb = vault_b_id p"
    "decode (holding_codec E) (data (account uin)) = Some h" "definition_id h = t"
    "t = definition_token_a_id p \<and> ha = uin \<and> hb = uout \<or>
     t \<noteq> definition_token_a_id p \<and> t = definition_token_b_id p \<and> ha = uout \<and> hb = uin"
    "program_owner (account va) = config_token_program c" "program_owner (account vb) = config_token_program c"
    "program_owner (account uin) = config_token_program c" "program_owner (account uout) = config_token_program c"
    "account_id clk = clock_01_program_account_id E"
    "account_id tk = compute_current_tick_account_pda E (config_oracle_program c) (account_id pool)"
    "account_id fh = compute_protocol_fee_pda E amm (account_id config) t"
    "compute_pool_pda_seed E (account_id config) (definition_token_a_id p) (definition_token_b_id p) = Inr seed"
    "account_id pool = for_public_pda E amm seed"
    "decode (holding_codec E) (data (account va)) = Some (Fungible da a)"
    "decode (holding_codec E) (data (account vb)) = Some (Fungible db b)"
    "reserve_a p \<le> a" "reserve_b p \<le> b"
proof -
  from assms obtain h u where run: "validate_swap_setup E pool va vb = Inr p"
    "program_owner (account config) = amm" "decode (config_codec E) (data (account config)) = Some c"
    "assert_pool_in_config_namespace E pool config p amm = Inr u"
    "program_owner (account va) = config_token_program c" "program_owner (account vb) = config_token_program c"
    "decode (holding_codec E) (data (account uin)) = Some h" "definition_id h = t"
    "(if definition_id h = definition_token_a_id p then Inr (uin, uout)
      else if definition_id h = definition_token_b_id p then Inr (uout, uin)
      else Inl (Panic (ctx @ '': input holding token is not part of the pool''))) = Inr (ha, hb)"
    "program_owner (account ha) = config_token_program c" "program_owner (account hb) = config_token_program c"
    "account_id fh = compute_protocol_fee_pda E amm (account_id config) t"
    "account_id clk = clock_01_program_account_id E"
    "account_id tk = compute_current_tick_account_pda E (config_oracle_program c) (account_id pool)"
    by (simp only: swap_checks_def Let_def inversion) (elim exE conjE, simp only: prod.inject)
  have side: "t = definition_token_a_id p \<and> ha = uin \<and> hb = uout \<or>
      t \<noteq> definition_token_a_id p \<and> t = definition_token_b_id p \<and> ha = uout \<and> hb = uin"
    using run(8,9) by (auto split: if_splits)
  from run(1) obtain da a db b where valid: "decode (pool_codec E) (data (account pool)) = Some p"
    "MINIMUM_LIQUIDITY \<le> liquidity_pool_supply p" "account_id va = vault_a_id p" "account_id vb = vault_b_id p"
    "decode (holding_codec E) (data (account va)) = Some (Fungible da a)"
    "decode (holding_codec E) (data (account vb)) = Some (Fungible db b)" "reserve_a p \<le> a" "reserve_b p \<le> b"
    by (auto simp: validate_swap_setup_def success)
  from run(4) obtain seed where seed:
    "compute_pool_pda_seed E (account_id config) (definition_token_a_id p) (definition_token_b_id p) = Inr seed"
    "account_id pool = for_public_pda E amm seed"
    by (auto simp: assert_pool_in_config_namespace_def compute_pool_pda_attempt ensure_success)
  have users: "program_owner (account uin) = config_token_program c" "program_owner (account uout) = config_token_program c"
    using run(10,11) side by auto
  have "1000 \<le> unat (liquidity_pool_supply p)"
    using valid(2) by (simp add: word_le_nat_alt)
  then show thesis
    using that run valid seed users side by blast
qed

text \<open>
  The frame of both swaps, around a pricing routine: the pool that is read and the one that is
  written, in the direction of the trade.
\<close>

definition traded ::
  "pool_definition \<Rightarrow> pool_definition \<Rightarrow> bool \<Rightarrow> u128 \<Rightarrow> u128 \<Rightarrow> bool" where
  "traded p p' in_a net out \<longleftrightarrow>
    same_identity p p' \<and> liquidity_pool_supply p' = liquidity_pool_supply p \<and>
    (if in_a
     then unat (reserve_a p') = unat (reserve_a p) + unat net \<and> unat (reserve_b p) = unat (reserve_b p') + unat out
     else unat (reserve_b p') = unat (reserve_b p) + unat net \<and> unat (reserve_a p) = unat (reserve_a p') + unat out)"

lemma swap_body_run:
  assumes "attempt (swap_checks E ctx config pool va vb uin uout tk clk fh amm) (\<lambda>(p, c, t, ha, hb).
      attempt (swap_direction t p ha hb va vb (logic c)) (\<lambda>(calls, da, wa, db, wb).
      (let (user_in, user_out) = (if t = definition_token_a_id p then (ha, hb) else (hb, ha)) in
       attempt (finalize_swap E config pool p va vb user_in user_out tk clk fh da wa db wb
         (config_oracle_program c)) (\<lambda>(state_diffs, tick_call). Inr (state_diffs, calls @ [tick_call]))))) =
      Inr (ds, cs)"
  obtains p c t in_a p' d calls net out tick_call where
    "\<exists>ha hb. swap_checks E ctx config pool va vb uin uout tk clk fh amm = Inr (p, c, t, ha, hb)"
    "in_a \<longleftrightarrow> t = definition_token_a_id p"
    "(if in_a then logic c uin va vb uout (reserve_a p) (reserve_b p)
      else logic c uin vb va uout (reserve_b p) (reserve_a p)) = Inr (calls, net, out)"
    "traded p p' in_a net out" "encode (pool_codec E) p' = Some d"
    "ds = [Unchanged config, NewData pool (Add 0) d, Unchanged va, Unchanged vb, Unchanged uin, Unchanged uout,
       Unchanged tk, Unchanged clk, Unchanged fh]"
    "cs = calls @ [tick_call]"
    "reports_price E (config_oracle_program c) (account_id config) (account_id pool) p' tick_call"
proof -
  from assms obtain p c t ha hb calls da wa db wb tick_call where run:
    "swap_checks E ctx config pool va vb uin uout tk clk fh amm = Inr (p, c, t, ha, hb)"
    "swap_direction t p ha hb va vb (logic c) = Inr (calls, da, wa, db, wb)"
    "(if t = definition_token_a_id p then
        finalize_swap E config pool p va vb ha hb tk clk fh da wa db wb (config_oracle_program c)
      else finalize_swap E config pool p va vb hb ha tk clk fh da wa db wb (config_oracle_program c)) =
      Inr (ds, tick_call)" "cs = calls @ [tick_call]"
    by (auto simp: attempt_success split: if_splits)
  from run(1) obtain seed where checks:
    "t = definition_token_a_id p \<and> ha = uin \<and> hb = uout \<or>
     t \<noteq> definition_token_a_id p \<and> t = definition_token_b_id p \<and> ha = uout \<and> hb = uin"
    "account_id clk = clock_01_program_account_id E"
    "account_id tk = compute_current_tick_account_pda E (config_oracle_program c) (account_id pool)"
    by (rule swap_checks_run) blast
  have "finalize_swap E config pool p va vb uin uout tk clk fh da wa db wb (config_oracle_program c) =
      Inr (ds, tick_call)"
    using run(3) checks(1) by auto
  then obtain p' d price where fin:
    "same_identity p p'" "liquidity_pool_supply p' = liquidity_pool_supply p"
    "unat (reserve_a p) + unat da = unat (reserve_a p') + unat wa"
    "unat (reserve_b p) + unat db = unat (reserve_b p') + unat wb"
    "encode (pool_codec E) p' = Some d"
    "ds = [Unchanged config, NewData pool (Add 0) d, Unchanged va, Unchanged vb, Unchanged uin, Unchanged uout,
       Unchanged tk, Unchanged clk, Unchanged fh]"
    "spot_price_q64_64 (reserve_a p') (reserve_b p') = Inr price"
    "update_tick_call E (config_oracle_program c) (account_id tk) (account_id pool) (account_id clk)
       (account_id config) p price = Inr tick_call"
    by (rule finalize_swap_run) blast
  have tokens: "definition_token_a_id p' = definition_token_a_id p" "definition_token_b_id p' = definition_token_b_id p"
    using fin(1) by (simp_all add: same_identity_def)
  have "reports_price E (config_oracle_program c) (account_id config) (account_id pool) p' tick_call"
    using update_tick_call_reports(1) [OF fin(8) [unfolded checks(2)] fin(7) checks(3) tokens] .
  moreover from checks(1) run(2) obtain net out where
    "(if t = definition_token_a_id p then logic c uin va vb uout (reserve_a p) (reserve_b p)
      else logic c uin vb va uout (reserve_b p) (reserve_a p)) = Inr (calls, net, out)"
    "if t = definition_token_a_id p then da = net \<and> wa = 0 \<and> db = 0 \<and> wb = out
     else da = 0 \<and> wa = out \<and> db = net \<and> wb = 0"
    by (auto simp: swap_direction_def attempt_success split: if_splits)
  moreover from this(2) fin(1-4) have "traded p p' (t = definition_token_a_id p) net out"
    unfolding traded_def by (auto split: if_splits)
  ultimately show thesis
    using that run fin by blast
qed

lemma traded_evolves:
  assumes "traded p p' in_a net out" "1000 \<le> unat (liquidity_pool_supply p)"
    and "if in_a
      then unat (reserve_a p) * unat (reserve_b p) \<le>
        (unat (reserve_a p) + unat net) * (unat (reserve_b p) - unat out)
      else unat (reserve_b p) * unat (reserve_a p) \<le>
        (unat (reserve_b p) + unat net) * (unat (reserve_a p) - unat out)"
  shows "pool_evolves p p'"
proof -
  have same: "same_identity p p'" "liquidity_pool_supply p' = liquidity_pool_supply p"
    using assms(1) by (simp_all add: traded_def)
  have "unat (reserve_a p) * unat (reserve_b p) \<le> unat (reserve_a p') * unat (reserve_b p')"
    using assms(1,3) by (auto simp: traded_def mult.commute split: if_splits)
  then show ?thesis
    using same assms(2) by (simp add: pool_evolves_def pool_value_def share_value_same_supply)
qed

text \<open>
  A pricing routine that emits the transfers of a trade and keeps the product gives a swap that does;
  \<^theory_text>\<open>R\<close> is what the routine promises of the input paid and the output received.
\<close>

definition trades_fairly ::
  "('d, 'x) amm_env_scheme \<Rightarrow> account_id \<Rightarrow> account_id \<Rightarrow> account_id \<Rightarrow> amm_config \<Rightarrow> (u128 \<Rightarrow> u128 \<Rightarrow> bool) \<Rightarrow>
    ('d account_with_metadata \<Rightarrow> 'd account_with_metadata \<Rightarrow> 'd account_with_metadata \<Rightarrow>
      'd account_with_metadata \<Rightarrow> u128 \<Rightarrow> u128 \<Rightarrow> (amm_call list \<times> u128 \<times> u128) outcome) \<Rightarrow> bool" where
  "trades_fairly E fh_id pool_id config_id c R logic \<longleftrightarrow>
    (\<forall>ud vd vw uw rin rout calls net out. logic ud vd vw uw rin rout = Inr (calls, net, out) \<longrightarrow>
      (\<exists>x f td tw. calls = swap_transfers E (program_owner (account ud)) (account_id ud) (account_id vd)
         (account_id vw) (account_id uw) fh_id pool_id config_id td tw x out f \<and>
         unat x = unat net + unat f \<and> out \<noteq> 0 \<and> R x out \<and>
         (rin \<noteq> 0 \<and> fees_valid c \<longrightarrow>
           unat rin * unat rout \<le> (unat rin + unat net) * (unat rout - unat out))))"

lemma exact_input_trades_fairly:
  "trades_fairly E (account_id fh) pool_id config_id c (\<lambda>x out. x = amount_in \<and> min_out \<le> out)
    (\<lambda>ud vd vw uw rin rout. swap_logic E ud vd vw uw amount_in min_out (swap_fee_bps c) (protocol_fee_bps c)
       fh rin rout pool_id config_id)"
  unfolding trades_fairly_def fees_valid_def by (auto elim!: swap_logic_run)

lemma exact_output_trades_fairly:
  "trades_fairly E (account_id fh) pool_id config_id c (\<lambda>x out. x \<le> max_in \<and> out = amount_out)
    (\<lambda>ud vd vw uw rin rout. exact_output_swap_logic E ud vd vw uw amount_out max_in rin rout (swap_fee_bps c)
       (protocol_fee_bps c) fh pool_id config_id)"
  unfolding trades_fairly_def fees_valid_def by (auto elim!: exact_output_logic_run)

definition swap_ran ::
  "('d, 'x) amm_env_scheme \<Rightarrow> account_id \<Rightarrow> string \<Rightarrow> (u128 \<Rightarrow> u128 \<Rightarrow> bool) \<Rightarrow> 'd account_with_metadata list \<Rightarrow>
    amm_config \<Rightarrow> pool_definition \<Rightarrow> pool_definition \<Rightarrow> 'd state_diff list \<Rightarrow> amm_call list \<Rightarrow> bool" where
  "swap_ran E amm ctx R accounts c p p' ds cs \<longleftrightarrow>
    (case accounts of [config, pool, va, vb, uin, uout, tk, clk, fh] \<Rightarrow>
      \<exists>t in_a d net out x f td tw tick_call.
        (\<exists>ha hb. swap_checks E ctx config pool va vb uin uout tk clk fh amm = Inr (p, c, t, ha, hb)) \<and>
        (in_a \<longleftrightarrow> t = definition_token_a_id p) \<and> traded p p' in_a net out \<and> encode (pool_codec E) p' = Some d \<and>
        ds = [Unchanged config, NewData pool (Add 0) d, Unchanged va, Unchanged vb, Unchanged uin,
          Unchanged uout, Unchanged tk, Unchanged clk, Unchanged fh] \<and>
        cs = swap_transfers E (program_owner (account uin)) (account_id uin)
          (account_id (if in_a then va else vb)) (account_id (if in_a then vb else va)) (account_id uout)
          (account_id fh) (account_id pool) (account_id config) td tw x out f @ [tick_call] \<and>
        unat x = unat net + unat f \<and> out \<noteq> 0 \<and> R x out \<and>
        reports_price E (config_oracle_program c) (account_id config) (account_id pool) p' tick_call \<and>
        (backed (pool_value p) \<and> fees_valid c \<longrightarrow> pool_evolves p p')
     | _ \<Rightarrow> False)"

lemma swap_run:
  assumes "attempt (swap_checks E ctx config pool va vb uin uout tk clk fh amm) (\<lambda>(p, c, t, ha, hb).
      attempt (swap_direction t p ha hb va vb (logic c)) (\<lambda>(calls, da, wa, db, wb).
      (let (user_in, user_out) = (if t = definition_token_a_id p then (ha, hb) else (hb, ha)) in
       attempt (finalize_swap E config pool p va vb user_in user_out tk clk fh da wa db wb
         (config_oracle_program c)) (\<lambda>(state_diffs, tick_call). Inr (state_diffs, calls @ [tick_call]))))) =
      Inr (ds, cs)"
    and "\<And>c. trades_fairly E (account_id fh) (account_id pool) (account_id config) c R (logic c)"
  shows "\<exists>c p p'. swap_ran E amm ctx R [config, pool, va, vb, uin, uout, tk, clk, fh] c p p' ds cs"
  using assms(1)
proof (rule swap_body_run)
  fix p c t in_a p' d calls net out tick_call
  assume checks: "\<exists>ha hb. swap_checks E ctx config pool va vb uin uout tk clk fh amm = Inr (p, c, t, ha, hb)"
    and dir: "in_a \<longleftrightarrow> t = definition_token_a_id p"
    and logic: "(if in_a then logic c uin va vb uout (reserve_a p) (reserve_b p)
      else logic c uin vb va uout (reserve_b p) (reserve_a p)) = Inr (calls, net, out)"
    and traded: "traded p p' in_a net out" and rest: "encode (pool_codec E) p' = Some d"
      "ds = [Unchanged config, NewData pool (Add 0) d, Unchanged va, Unchanged vb, Unchanged uin, Unchanged uout,
       Unchanged tk, Unchanged clk, Unchanged fh]" "cs = calls @ [tick_call]"
      "reports_price E (config_oracle_program c) (account_id config) (account_id pool) p' tick_call"
  let ?rin = "if in_a then reserve_a p else reserve_b p" and ?rout = "if in_a then reserve_b p else reserve_a p"
  have "logic c uin (if in_a then va else vb) (if in_a then vb else va) uout ?rin ?rout = Inr (calls, net, out)"
    using logic by (cases in_a) simp_all
  then obtain x f td tw where calls:
    "calls = swap_transfers E (program_owner (account uin)) (account_id uin) (account_id (if in_a then va else vb))
       (account_id (if in_a then vb else va)) (account_id uout) (account_id fh) (account_id pool)
       (account_id config) td tw x out f"
    "unat x = unat net + unat f" "out \<noteq> 0" "R x out"
    "?rin \<noteq> 0 \<and> fees_valid c \<longrightarrow> unat ?rin * unat ?rout \<le> (unat ?rin + unat net) * (unat ?rout - unat out)"
    using assms(2) [of c] unfolding trades_fairly_def by blast
  have "pool_evolves p p'" if "backed (pool_value p)" "fees_valid c"
  proof (rule traded_evolves [OF traded])
    have "reserve_a p \<noteq> 0" "reserve_b p \<noteq> 0"
      using backed_positive [OF that(1) [unfolded pool_value_def]] by auto
    then show "if in_a
      then unat (reserve_a p) * unat (reserve_b p) \<le>
        (unat (reserve_a p) + unat net) * (unat (reserve_b p) - unat out)
      else unat (reserve_b p) * unat (reserve_a p) \<le>
        (unat (reserve_b p) + unat net) * (unat (reserve_a p) - unat out)"
      using calls(5) that(2) by (cases in_a) simp_all
  qed (use that(1) in \<open>simp add: backed_def pool_value_def\<close>)
  then have "swap_ran E amm ctx R [config, pool, va, vb, uin, uout, tk, clk, fh] c p p' ds cs"
    unfolding swap_ran_def list.case using checks dir traded rest calls by blast
  then show ?thesis
    by blast
qed

lemma swap_exact_input_run:
  assumes "swap_exact_input E config pool va vb uin uout tk clk fh amount_in min_out amm = Inr (ds, cs)"
  shows "\<exists>c p p'. swap_ran E amm ''Swap exact input'' (\<lambda>x out. x = amount_in \<and> min_out \<le> out)
    [config, pool, va, vb, uin, uout, tk, clk, fh] c p p' ds cs"
  using assms unfolding swap_exact_input_def by (rule swap_run) (rule exact_input_trades_fairly)

lemma swap_exact_output_run:
  assumes "swap_exact_output E config pool va vb uin uout tk clk fh amount_out max_in amm = Inr (ds, cs)"
  shows "\<exists>c p p'. swap_ran E amm ''Swap exact output'' (\<lambda>x out. x \<le> max_in \<and> out = amount_out)
    [config, pool, va, vb, uin, uout, tk, clk, fh] c p p' ds cs"
  using assms unfolding swap_exact_output_def by (rule swap_run) (rule exact_output_trades_fairly)

end
