(* ===== verification/Amm_Liquidity_Runs.thy ===== *)
theory Amm_Liquidity_Runs
  imports Amm_Runs
begin

text \<open>
  Inversion of the remaining handlers of a pool: deposits, withdrawals, synchronisation and creation.
\<close>

section \<open>Deposits\<close>

lemma deposit_amounts_run:
  assumes "deposit_amounts p min_lp max_a max_b = Inr (a, b, lp)"
  shows "a \<le> max_a" "b \<le> max_b" "a \<noteq> 0" "b \<noteq> 0" "min_lp \<le> lp" "lp \<noteq> 0"
    and "unat lp * unat (reserve_a p) \<le> unat (liquidity_pool_supply p) * unat a"
    and "unat lp * unat (reserve_b p) \<le> unat (liquidity_pool_supply p) * unat b"
    and "unat a * unat (reserve_b p) \<le> unat (reserve_a p) * unat max_b"
    and "unat b * unat (reserve_a p) \<le> unat (reserve_b p) * unat max_a"
proof -
  from assms obtain ia ib la lb where run: "mul_div_floor (reserve_a p) max_b (reserve_b p) = Inr ia"
    "mul_div_floor (reserve_b p) max_a (reserve_a p) = Inr ib"
    "a = (if max_a < ia then max_a else ia)" "b = (if max_b < ib then max_b else ib)"
    "a \<le> max_a" "b \<le> max_b" "a \<noteq> 0" "b \<noteq> 0"
    "mul_div_floor (liquidity_pool_supply p) a (reserve_a p) = Inr la"
    "mul_div_floor (liquidity_pool_supply p) b (reserve_b p) = Inr lb"
    "lp = min la lb" "lp \<noteq> 0" "min_lp \<le> lp"
    unfolding deposit_amounts_def Let_def inversion by blast
  show "a \<le> max_a" "b \<le> max_b" "a \<noteq> 0" "b \<noteq> 0" "min_lp \<le> lp" "lp \<noteq> 0"
    using run by simp_all
  have lp: "unat lp \<le> unat la" "unat lp \<le> unat lb"
    using run(11) by (simp_all add: word_le_nat_alt [symmetric])
  have la: "unat la * unat (reserve_a p) \<le> unat (liquidity_pool_supply p) * unat a"
    and lb: "unat lb * unat (reserve_b p) \<le> unat (liquidity_pool_supply p) * unat b"
    using run(9,10) by (simp_all add: mul_div_floor_Inr)
  show "unat lp * unat (reserve_a p) \<le> unat (liquidity_pool_supply p) * unat a"
    using mult_le_mono1 [OF lp(1)] la by (rule le_trans)
  show "unat lp * unat (reserve_b p) \<le> unat (liquidity_pool_supply p) * unat b"
    using mult_le_mono1 [OF lp(2)] lb by (rule le_trans)
  have "unat a \<le> unat ia" "unat b \<le> unat ib"
    using run(3,4) by (auto simp: word_less_nat_alt split: if_splits)
  moreover have "unat ia * unat (reserve_b p) \<le> unat (reserve_a p) * unat max_b"
    "unat ib * unat (reserve_a p) \<le> unat (reserve_b p) * unat max_a"
    using run(1,2) by (simp_all add: mul_div_floor_Inr)
  ultimately show "unat a * unat (reserve_b p) \<le> unat (reserve_a p) * unat max_b"
    "unat b * unat (reserve_a p) \<le> unat (reserve_b p) * unat max_a"
    using mult_le_mono1 le_trans by blast+
qed

definition add_ran ::
  "('d, 'x) amm_env_scheme \<Rightarrow> account_id \<Rightarrow> u128 \<Rightarrow> u128 \<Rightarrow> u128 \<Rightarrow> 'd account_with_metadata list \<Rightarrow>
    amm_config \<Rightarrow> pool_definition \<Rightarrow> pool_definition \<Rightarrow> 'd state_diff list \<Rightarrow> amm_call list \<Rightarrow> bool" where
  "add_ran E amm min_lp max_a max_b accounts c p p' ds cs \<longleftrightarrow>
    (case accounts of [config, pool, va, vb, lpd, ua, ub, ulp, tk, clk] \<Rightarrow>
      \<exists>d a b lp tick_call.
        decode (pool_codec E) (data (account pool)) = Some p \<and> encode (pool_codec E) p' = Some d \<and>
        decode (config_codec E) (data (account config)) = Some c \<and> program_owner (account config) = amm \<and>
        account_id va = vault_a_id p \<and> account_id vb = vault_b_id p \<and> account_id lpd = liquidity_pool_id p \<and>
        same_identity p p' \<and> deposit_amounts p min_lp max_a max_b = Inr (a, b, lp) \<and>
        unat (liquidity_pool_supply p') = unat (liquidity_pool_supply p) + unat lp \<and>
        unat (reserve_a p') = unat (reserve_a p) + unat a \<and> unat (reserve_b p') = unat (reserve_b p) + unat b \<and>
        ds = [Unchanged config, NewData pool (Add 0) d, Unchanged va, Unchanged vb, Unchanged lpd, Unchanged ua,
          Unchanged ub, Unchanged ulp, Unchanged tk, Unchanged clk] \<and>
        cs = [with_pda_seeds
            (chained_call_new (config_token_program c) [account_id lpd, account_id ulp] (TokenCall (Mint lp)))
            [compute_liquidity_token_pda_seed E (account_id pool)],
          chained_call_new (config_token_program c) [account_id ub, account_id vb] (TokenCall (Transfer b)),
          chained_call_new (config_token_program c) [account_id ua, account_id va] (TokenCall (Transfer a)),
          tick_call] \<and>
        reports_price E (config_oracle_program c) (account_id config) (account_id pool) p' tick_call
     | _ \<Rightarrow> False)"

lemma add_liquidity_run:
  assumes "add_liquidity E config pool va vb lpd ua ub ulp tk clk min_lp max_a max_b amm = Inr (ds, cs)"
  shows "\<exists>c p p'. add_ran E amm min_lp max_a max_b [config, pool, va, vb, lpd, ua, ub, ulp, tk, clk] c p p' ds cs"
proof -
  from assms obtain c p a b lp ns na nb price tick_call d where run:
    "program_owner (account config) = amm" "decode (config_codec E) (data (account config)) = Some c"
    "decode (pool_codec E) (data (account pool)) = Some p"
    "account_id va = vault_a_id p" "liquidity_pool_id p = account_id lpd" "account_id vb = vault_b_id p"
    "account_id clk = clock_01_program_account_id E"
    "account_id tk = compute_current_tick_account_pda E (config_oracle_program c) (account_id pool)"
    "deposit_amounts p min_lp max_a max_b = Inr (a, b, lp)"
    "checked_add (liquidity_pool_supply p) lp = Some ns"
    "checked_add (reserve_a p) a = Some na" "checked_add (reserve_b p) b = Some nb"
    "spot_price_q64_64 na nb = Inr price"
    "update_tick_call E (config_oracle_program c) (account_id tk) (account_id pool) (account_id clk)
       (account_id config) p price = Inr tick_call"
    "encode (pool_codec E) (p \<lparr> liquidity_pool_supply := ns, reserve_a := na, reserve_b := nb \<rparr>) = Some d"
    "ds = [Unchanged config, NewData pool (Add 0) d, Unchanged va, Unchanged vb, Unchanged lpd, Unchanged ua,
          Unchanged ub, Unchanged ulp, Unchanged tk, Unchanged clk]"
    "cs = [with_pda_seeds
            (chained_call_new (config_token_program c) [account_id lpd, account_id ulp] (TokenCall (Mint lp)))
            [compute_liquidity_token_pda_seed E (account_id pool)],
          chained_call_new (config_token_program c) [account_id ub, account_id vb] (TokenCall (Transfer b)),
          chained_call_new (config_token_program c) [account_id ua, account_id va] (TokenCall (Transfer a)),
          tick_call]"
    unfolding add_liquidity_def Let_def inversion amm_encoded_success by blast
  let ?p' = "p \<lparr> liquidity_pool_supply := ns, reserve_a := na, reserve_b := nb \<rparr>"
  have "reports_price E (config_oracle_program c) (account_id config) (account_id pool) ?p' tick_call"
    using update_tick_call_reports(1) [OF run(14) [unfolded run(7)], of ?p'] run(8,13) by simp
  then have "add_ran E amm min_lp max_a max_b [config, pool, va, vb, lpd, ua, ub, ulp, tk, clk] c p ?p' ds cs"
    using run by (simp add: add_ran_def same_identity_def checked_add_Some)
  then show ?thesis
    by blast
qed

lemma add_evolves:
  assumes "add_ran E amm min_lp max_a max_b accounts c p p' ds cs" "1000 \<le> unat (liquidity_pool_supply p)"
  shows "pool_evolves p p'"
proof -
  from assms(1) obtain a b lp where run: "same_identity p p'" "deposit_amounts p min_lp max_a max_b = Inr (a, b, lp)"
    "unat (liquidity_pool_supply p') = unat (liquidity_pool_supply p) + unat lp"
    "unat (reserve_a p') = unat (reserve_a p) + unat a" "unat (reserve_b p') = unat (reserve_b p) + unat b"
    unfolding add_ran_def by (auto split: list.splits)
  show ?thesis
    using deposit_share_value [OF deposit_amounts_run(7,8) [OF run(2)]] run(1,3-5) assms(2)
    by (simp add: pool_evolves_def pool_value_def)
qed

section \<open>Withdrawals\<close>

lemma withdrawal_amounts_run:
  assumes "withdrawal_amounts p h remove min_a min_b = Inr (a, b)"
  shows "min_a \<le> a" "min_b \<le> b" "unat remove + 1000 \<le> unat (liquidity_pool_supply p)"
    and "unat a * unat (liquidity_pool_supply p) \<le> unat (reserve_a p) * unat remove"
    and "unat b * unat (liquidity_pool_supply p) \<le> unat (reserve_b p) * unat remove"
    and "\<exists>n. h = Fungible (liquidity_pool_id p) n \<and> remove \<le> n"
proof -
  from assms obtain n free where run:
    "(case h of Fungible _ lp_balance \<Rightarrow> Inr lp_balance
      | _ \<Rightarrow> Inl (Panic ''Remove liquidity: AMM Program expects a valid Fungible Token Holding Account for liquidity token''))
      = Inr n"
    "definition_id h = liquidity_pool_id p" "remove \<le> n"
    "checked_sub (liquidity_pool_supply p) MINIMUM_LIQUIDITY = Some free" "remove \<le> free"
    "mul_div_floor (reserve_a p) remove (liquidity_pool_supply p) = Inr a"
    "mul_div_floor (reserve_b p) remove (liquidity_pool_supply p) = Inr b" "min_a \<le> a" "min_b \<le> b"
    unfolding withdrawal_amounts_def inversion by blast
  show "min_a \<le> a" "min_b \<le> b"
    using run by simp_all
  show "unat remove + 1000 \<le> unat (liquidity_pool_supply p)"
    using run(4,5) by (simp add: checked_sub_Some word_le_nat_alt)
  show "unat a * unat (liquidity_pool_supply p) \<le> unat (reserve_a p) * unat remove"
    "unat b * unat (liquidity_pool_supply p) \<le> unat (reserve_b p) * unat remove"
    using run(6,7) by (simp_all add: mul_div_floor_Inr)
  show "\<exists>n. h = Fungible (liquidity_pool_id p) n \<and> remove \<le> n"
    using run(1-3) by (cases h) auto
qed

lemma withdrawal_amounts_exact:
  assumes "withdrawal_amounts p h remove min_a min_b = Inr (a, b)"
  shows "unat a = unat (reserve_a p) * unat remove div unat (liquidity_pool_supply p)"
    and "unat b = unat (reserve_b p) * unat remove div unat (liquidity_pool_supply p)"
proof -
  have "mul_div_floor (reserve_a p) remove (liquidity_pool_supply p) = Inr a"
    "mul_div_floor (reserve_b p) remove (liquidity_pool_supply p) = Inr b"
    using assms unfolding withdrawal_amounts_def inversion by blast+
  then show "unat a = unat (reserve_a p) * unat remove div unat (liquidity_pool_supply p)"
    "unat b = unat (reserve_b p) * unat remove div unat (liquidity_pool_supply p)"
    by (simp_all add: mul_div_floor_Inr)
qed

definition remove_ran ::
  "('d, 'x) amm_env_scheme \<Rightarrow> account_id \<Rightarrow> u128 \<Rightarrow> u128 \<Rightarrow> u128 \<Rightarrow> 'd account_with_metadata list \<Rightarrow>
    amm_config \<Rightarrow> pool_definition \<Rightarrow> pool_definition \<Rightarrow> 'd state_diff list \<Rightarrow> amm_call list \<Rightarrow> bool" where
  "remove_ran E amm remove min_a min_b accounts c p p' ds cs \<longleftrightarrow>
    (case accounts of [config, pool, va, vb, lpd, ua, ub, ulp, tk, clk] \<Rightarrow>
      \<exists>d h a b tick_call.
        decode (pool_codec E) (data (account pool)) = Some p \<and> encode (pool_codec E) p' = Some d \<and>
        decode (config_codec E) (data (account config)) = Some c \<and> program_owner (account config) = amm \<and>
        account_id va = vault_a_id p \<and> account_id vb = vault_b_id p \<and> account_id lpd = liquidity_pool_id p \<and>
        decode (holding_codec E) (data (account ulp)) = Some h \<and>
        same_identity p p' \<and> withdrawal_amounts p h remove min_a min_b = Inr (a, b) \<and>
        unat (liquidity_pool_supply p) = unat (liquidity_pool_supply p') + unat remove \<and>
        unat (reserve_a p) = unat (reserve_a p') + unat a \<and> unat (reserve_b p) = unat (reserve_b p') + unat b \<and>
        ds = [Unchanged config, NewData pool (Add 0) d, Unchanged va, Unchanged vb, Unchanged lpd, Unchanged ua,
          Unchanged ub, Unchanged ulp, Unchanged tk, Unchanged clk] \<and>
        cs = [with_pda_seeds
            (chained_call_new (config_token_program c) [account_id lpd, account_id ulp] (TokenCall (Burn remove)))
            [compute_liquidity_token_pda_seed E (account_id pool)],
          with_pda_seeds
            (chained_call_new (config_token_program c) [account_id vb, account_id ub] (TokenCall (Transfer b)))
            [compute_vault_pda_seed E (account_id pool) (definition_token_b_id p)],
          with_pda_seeds
            (chained_call_new (config_token_program c) [account_id va, account_id ua] (TokenCall (Transfer a)))
            [compute_vault_pda_seed E (account_id pool) (definition_token_a_id p)],
          tick_call] \<and>
        reports_price E (config_oracle_program c) (account_id config) (account_id pool) p' tick_call
     | _ \<Rightarrow> False)"

lemma remove_liquidity_run:
  assumes "remove_liquidity E config pool va vb lpd ua ub ulp tk clk remove min_a min_b amm = Inr (ds, cs)"
  shows "\<exists>c p p'. remove_ran E amm remove min_a min_b [config, pool, va, vb, lpd, ua, ub, ulp, tk, clk] c p p' ds cs"
proof -
  from assms obtain c p h a b ns na nb price tick_call d where run:
    "program_owner (account config) = amm" "decode (config_codec E) (data (account config)) = Some c"
    "decode (pool_codec E) (data (account pool)) = Some p"
    "account_id va = vault_a_id p" "liquidity_pool_id p = account_id lpd" "account_id vb = vault_b_id p"
    "account_id clk = clock_01_program_account_id E"
    "account_id tk = compute_current_tick_account_pda E (config_oracle_program c) (account_id pool)"
    "decode (holding_codec E) (data (account ulp)) = Some h"
    "withdrawal_amounts p h remove min_a min_b = Inr (a, b)"
    "checked_sub (liquidity_pool_supply p) remove = Some ns"
    "checked_sub (reserve_a p) a = Some na" "checked_sub (reserve_b p) b = Some nb"
    "spot_price_q64_64 na nb = Inr price"
    "update_tick_call E (config_oracle_program c) (account_id tk) (account_id pool) (account_id clk)
       (account_id config) p price = Inr tick_call"
    "encode (pool_codec E) (p \<lparr> liquidity_pool_supply := ns, reserve_a := na, reserve_b := nb \<rparr>) = Some d"
    "ds = [Unchanged config, NewData pool (Add 0) d, Unchanged va, Unchanged vb, Unchanged lpd, Unchanged ua,
          Unchanged ub, Unchanged ulp, Unchanged tk, Unchanged clk]"
    "cs = [with_pda_seeds
            (chained_call_new (config_token_program c) [account_id lpd, account_id ulp] (TokenCall (Burn remove)))
            [compute_liquidity_token_pda_seed E (account_id pool)],
          with_pda_seeds
            (chained_call_new (config_token_program c) [account_id vb, account_id ub] (TokenCall (Transfer b)))
            [compute_vault_pda_seed E (account_id pool) (definition_token_b_id p)],
          with_pda_seeds
            (chained_call_new (config_token_program c) [account_id va, account_id ua] (TokenCall (Transfer a)))
            [compute_vault_pda_seed E (account_id pool) (definition_token_a_id p)],
          tick_call]"
    unfolding remove_liquidity_def Let_def inversion amm_encoded_success by blast
  let ?p' = "p \<lparr> liquidity_pool_supply := ns, reserve_a := na, reserve_b := nb \<rparr>"
  have "reports_price E (config_oracle_program c) (account_id config) (account_id pool) ?p' tick_call"
    using update_tick_call_reports(1) [OF run(15) [unfolded run(7)], of ?p'] run(8,14) by simp
  then have "remove_ran E amm remove min_a min_b [config, pool, va, vb, lpd, ua, ub, ulp, tk, clk] c p ?p' ds cs"
    using run by (simp add: remove_ran_def same_identity_def checked_sub_Some)
  then show ?thesis
    by blast
qed

lemma remove_evolves:
  assumes "remove_ran E amm remove min_a min_b accounts c p p' ds cs"
  shows "pool_evolves p p'"
proof -
  from assms obtain h a b where run: "same_identity p p'" "withdrawal_amounts p h remove min_a min_b = Inr (a, b)"
    "unat (liquidity_pool_supply p) = unat (liquidity_pool_supply p') + unat remove"
    "unat (reserve_a p) = unat (reserve_a p') + unat a" "unat (reserve_b p) = unat (reserve_b p') + unat b"
    unfolding remove_ran_def by (auto split: list.splits)
  note w = withdrawal_amounts_run [OF run(2)]
  show ?thesis
    using withdrawal_share_value [OF w(4,5)] run(1,3-5) w(3)
    by (simp add: pool_evolves_def pool_value_def)
qed

section \<open>Synchronisation\<close>

definition sync_ran ::
  "('d, 'x) amm_env_scheme \<Rightarrow> account_id \<Rightarrow> 'd account_with_metadata list \<Rightarrow>
    amm_config \<Rightarrow> pool_definition \<Rightarrow> pool_definition \<Rightarrow> 'd state_diff list \<Rightarrow> amm_call list \<Rightarrow> bool" where
  "sync_ran E amm accounts c p p' ds cs \<longleftrightarrow>
    (case accounts of [config, pool, va, vb, tk, clk] \<Rightarrow>
      \<exists>d da db tick_call.
        decode (pool_codec E) (data (account pool)) = Some p \<and> encode (pool_codec E) p' = Some d \<and>
        decode (config_codec E) (data (account config)) = Some c \<and> program_owner (account config) = amm \<and>
        account_id va = vault_a_id p \<and> account_id vb = vault_b_id p \<and>
        decode (holding_codec E) (data (account va)) = Some (Fungible da (reserve_a p')) \<and>
        decode (holding_codec E) (data (account vb)) = Some (Fungible db (reserve_b p')) \<and>
        same_identity p p' \<and> liquidity_pool_supply p' = liquidity_pool_supply p \<and>
        1000 \<le> unat (liquidity_pool_supply p) \<and> reserve_a p \<le> reserve_a p' \<and> reserve_b p \<le> reserve_b p' \<and>
        ds = [Unchanged config, NewData pool (Add 0) d, Unchanged va, Unchanged vb, Unchanged tk, Unchanged clk] \<and>
        cs = [tick_call] \<and>
        reports_price E (config_oracle_program c) (account_id config) (account_id pool) p' tick_call
     | _ \<Rightarrow> False)"

lemma sync_reserves_run:
  assumes "sync_reserves E config pool va vb tk clk amm = Inr (ds, cs)"
  shows "\<exists>c p p'. sync_ran E amm [config, pool, va, vb, tk, clk] c p p' ds cs"
proof -
  from assms obtain c p na nb price tick_call d where run:
    "program_owner (account config) = amm" "decode (config_codec E) (data (account config)) = Some c"
    "decode (pool_codec E) (data (account pool)) = Some p"
    "account_id va = vault_a_id p" "account_id vb = vault_b_id p"
    "MINIMUM_LIQUIDITY \<le> liquidity_pool_supply p"
    "account_id clk = clock_01_program_account_id E"
    "account_id tk = compute_current_tick_account_pda E (config_oracle_program c) (account_id pool)"
    "read_vault_fungible_balances E ''Sync reserves'' va vb = Inr (na, nb)"
    "reserve_a p \<le> na" "reserve_b p \<le> nb" "spot_price_q64_64 na nb = Inr price"
    "update_tick_call E (config_oracle_program c) (account_id tk) (account_id pool) (account_id clk)
       (account_id config) p price = Inr tick_call"
    "encode (pool_codec E) (p \<lparr> reserve_a := na, reserve_b := nb \<rparr>) = Some d"
    "ds = [Unchanged config, NewData pool (Add 0) d, Unchanged va, Unchanged vb, Unchanged tk, Unchanged clk]"
    "cs = [tick_call]"
    unfolding sync_reserves_def Let_def inversion amm_encoded_success by blast
  let ?p' = "p \<lparr> reserve_a := na, reserve_b := nb \<rparr>"
  have "reports_price E (config_oracle_program c) (account_id config) (account_id pool) ?p' tick_call"
    using update_tick_call_reports(1) [OF run(13) [unfolded run(7)], of ?p'] run(8,12) by simp
  moreover obtain da db where "decode (holding_codec E) (data (account va)) = Some (Fungible da na)"
    "decode (holding_codec E) (data (account vb)) = Some (Fungible db nb)"
    using run(9) by (auto simp: read_vaults_Inr)
  ultimately have "sync_ran E amm [config, pool, va, vb, tk, clk] c p ?p' ds cs"
    using run by (simp add: sync_ran_def same_identity_def word_le_nat_alt)
  then show ?thesis
    by blast
qed

lemma sync_evolves:
  assumes "sync_ran E amm accounts c p p' ds cs"
  shows "pool_evolves p p'"
proof -
  from assms have run: "same_identity p p'" "liquidity_pool_supply p' = liquidity_pool_supply p"
    "1000 \<le> unat (liquidity_pool_supply p)" "reserve_a p \<le> reserve_a p'" "reserve_b p \<le> reserve_b p'"
    unfolding sync_ran_def by (auto split: list.splits)
  have "unat (reserve_a p) * unat (reserve_b p) \<le> unat (reserve_a p') * unat (reserve_b p')"
    using run(4,5) by (intro mult_le_mono) (simp_all add: word_le_nat_alt)
  then show ?thesis
    using run(1-3) by (simp add: pool_evolves_def pool_value_def share_value_same_supply)
qed

section \<open>Creation\<close>

definition creation_ran ::
  "('d, 'x) amm_env_scheme \<Rightarrow> account_id \<Rightarrow> u128 \<Rightarrow> u128 \<Rightarrow> 'd account_with_metadata list \<Rightarrow>
    amm_config \<Rightarrow> pool_definition \<Rightarrow> 'd state_diff list \<Rightarrow> amm_call list \<Rightarrow> bool" where
  "creation_ran E amm amount_a amount_b accounts c p ds cs \<longleftrightarrow>
    (case accounts of [config, pool, va, vb, lpd, lock, ua, ub, ulp, tk, clk] \<Rightarrow>
      \<exists>d ha hb user_lp seed price.
        account pool = account_default E \<and> encode (pool_codec E) p = Some d \<and>
        decode (config_codec E) (data (account config)) = Some c \<and> program_owner (account config) = amm \<and>
        decode (holding_codec E) (data (account ua)) = Some ha \<and> definition_id ha = definition_token_a_id p \<and>
        decode (holding_codec E) (data (account ub)) = Some hb \<and> definition_id hb = definition_token_b_id p \<and>
        definition_token_a_id p \<noteq> definition_token_b_id p \<and>
        compute_pool_pda_seed E (account_id config) (definition_token_a_id p) (definition_token_b_id p) = Inr seed \<and>
        account_id pool = for_public_pda E amm seed \<and>
        vault_a_id p = account_id va \<and>
        account_id va = compute_vault_pda E amm (account_id pool) (definition_token_a_id p) \<and>
        vault_b_id p = account_id vb \<and>
        account_id vb = compute_vault_pda E amm (account_id pool) (definition_token_b_id p) \<and>
        liquidity_pool_id p = account_id lpd \<and>
        account_id lpd = compute_liquidity_token_pda E amm (account_id pool) \<and>
        account_id lock = compute_lp_lock_holding_pda E amm (account_id pool) \<and>
        reserve_a p = amount_a \<and> reserve_b p = amount_b \<and>
        isqrt_product (uint_root E) amount_a amount_b = Inr (liquidity_pool_supply p) \<and>
        unat (liquidity_pool_supply p) = unat user_lp + 1000 \<and> user_lp \<noteq> 0 \<and>
        spot_price_q64_64 amount_a amount_b = Inr price \<and>
        ds = [Unchanged config, NewData pool (Add 0) d, Unchanged va, Unchanged vb, Unchanged lpd,
          Unchanged lock, Unchanged ua, Unchanged ub, Unchanged ulp, Unchanged tk, Unchanged clk] \<and>
        cs = [with_pda_seeds
            (chained_call_new (config_token_program c) [account_id lpd, account_id lock]
              (TokenCall (NewFungibleDefinition (ascii ''LP Token'') MINIMUM_LIQUIDITY (Some (account_id lpd)))))
            [compute_liquidity_token_pda_seed E (account_id pool), compute_lp_lock_holding_pda_seed E (account_id pool)],
          with_pda_seeds
            (chained_call_new (config_token_program c) [account_id lpd, account_id ulp] (TokenCall (Mint user_lp)))
            [compute_liquidity_token_pda_seed E (account_id pool)],
          with_pda_seeds
            (chained_call_new (config_token_program c) [account_id ub, account_id vb] (TokenCall (Transfer amount_b)))
            [compute_vault_pda_seed E (account_id pool) (definition_token_b_id p)],
          with_pda_seeds
            (chained_call_new (config_token_program c) [account_id ua, account_id va] (TokenCall (Transfer amount_a)))
            [compute_vault_pda_seed E (account_id pool) (definition_token_a_id p)],
          with_pda_seeds
            (chained_call_new (config_oracle_program c) [account_id tk, account_id pool, account_id clk]
              (OracleCall (CreateCurrentTickAccount price)))
            [seed]]
     | _ \<Rightarrow> False)"

lemma new_definition_run:
  assumes "new_definition E config pool va vb lpd lock ua ub ulp tk clk amount_a amount_b amm = Inr (ds, cs)"
  shows "\<exists>c p. creation_ran E amm amount_a amount_b [config, pool, va, vb, lpd, lock, ua, ub, ulp, tk, clk] c p ds cs"
proof -
  from assms obtain ha hb c pool_pda lp user_lp d price seed where run:
    "decode (holding_codec E) (data (account ua)) = Some ha" "decode (holding_codec E) (data (account ub)) = Some hb"
    "program_owner (account config) = amm" "decode (config_codec E) (data (account config)) = Some c"
    "definition_id ha \<noteq> definition_id hb"
    "compute_pool_pda E amm (account_id config) (definition_id ha) (definition_id hb) = Inr pool_pda"
    "account_id pool = pool_pda"
    "account_id va = compute_vault_pda E amm (account_id pool) (definition_id ha)"
    "account_id vb = compute_vault_pda E amm (account_id pool) (definition_id hb)"
    "account_id lpd = compute_liquidity_token_pda E amm (account_id pool)"
    "account_id lock = compute_lp_lock_holding_pda E amm (account_id pool)"
    "account pool = account_default E"
    "isqrt_product (uint_root E) amount_a amount_b = Inr lp" "MINIMUM_LIQUIDITY < lp"
    "checked_sub lp MINIMUM_LIQUIDITY = Some user_lp"
    "encode (pool_codec E)
      \<lparr> definition_token_a_id = definition_id ha, definition_token_b_id = definition_id hb, vault_a_id = account_id va,
        vault_b_id = account_id vb, liquidity_pool_id = account_id lpd,
        liquidity_pool_supply = lp, reserve_a = amount_a, reserve_b = amount_b \<rparr> = Some d"
    "spot_price_q64_64 amount_a amount_b = Inr price"
    "compute_pool_pda_seed E (account_id config) (definition_id ha) (definition_id hb) = Inr seed"
    "ds = [Unchanged config, NewData pool (Add 0) d, Unchanged va, Unchanged vb, Unchanged lpd,
          Unchanged lock, Unchanged ua, Unchanged ub, Unchanged ulp, Unchanged tk, Unchanged clk]"
    "cs = [with_pda_seeds
            (chained_call_new (config_token_program c) [account_id lpd, account_id lock]
              (TokenCall (NewFungibleDefinition (ascii ''LP Token'') MINIMUM_LIQUIDITY (Some (account_id lpd)))))
            [compute_liquidity_token_pda_seed E (account_id pool), compute_lp_lock_holding_pda_seed E (account_id pool)],
          with_pda_seeds
            (chained_call_new (config_token_program c) [account_id lpd, account_id ulp] (TokenCall (Mint user_lp)))
            [compute_liquidity_token_pda_seed E (account_id pool)],
          with_pda_seeds
            (chained_call_new (config_token_program c) [account_id ub, account_id vb] (TokenCall (Transfer amount_b)))
            [compute_vault_pda_seed E (account_id pool) (definition_id hb)],
          with_pda_seeds
            (chained_call_new (config_token_program c) [account_id ua, account_id va] (TokenCall (Transfer amount_a)))
            [compute_vault_pda_seed E (account_id pool) (definition_id ha)],
          with_pda_seeds
            (chained_call_new (config_oracle_program c) [account_id tk, account_id pool, account_id clk]
              (OracleCall (CreateCurrentTickAccount price)))
            [seed]]"
    unfolding new_definition_def Let_def inversion amm_encoded_success by blast
  have pda: "account_id pool = for_public_pda E amm seed"
    using run(6,7,18) by (simp add: compute_pool_pda_def)
  have "unat user_lp \<noteq> 0" "unat lp = unat user_lp + 1000"
    using run(14,15) by (simp_all add: checked_sub_Some word_less_nat_alt)
  then have "creation_ran E amm amount_a amount_b [config, pool, va, vb, lpd, lock, ua, ub, ulp, tk, clk] c
      \<lparr> definition_token_a_id = definition_id ha, definition_token_b_id = definition_id hb, vault_a_id = account_id va,
        vault_b_id = account_id vb, liquidity_pool_id = account_id lpd,
        liquidity_pool_supply = lp, reserve_a = amount_a, reserve_b = amount_b \<rparr> ds cs"
    unfolding creation_ran_def list.case using run pda
    by (intro exI [of _ d] exI [of _ ha] exI [of _ hb] exI [of _ user_lp] exI [of _ seed] exI [of _ price])
      (simp add: unat_eq_zero)
  then show ?thesis
    by blast
qed

lemma creation_backed:
  assumes "creation_ran E amm amount_a amount_b accounts c p ds cs" "floor_root (uint_root E)"
  shows "backed (pool_value p)"
proof -
  from assms(1) obtain user_lp :: u128 where run: "reserve_a p = amount_a" "reserve_b p = amount_b"
    "isqrt_product (uint_root E) amount_a amount_b = Inr (liquidity_pool_supply p)"
    "unat (liquidity_pool_supply p) = unat user_lp + 1000"
    unfolding creation_ran_def by (auto split: list.splits)
  obtain r where "checked_mul (widen256 amount_a) (widen256 amount_b) = Some r"
    "unat r = unat amount_a * unat amount_b" "unat (liquidity_pool_supply p) = unat (uint_root E r)"
    using run(3) checked_mul_widen [of amount_a amount_b]
    by (auto simp: isqrt_product_def success narrow_Some)
  then have "unat (liquidity_pool_supply p) ^ 2 \<le> unat amount_a * unat amount_b"
    using assms(2) by (metis floor_root_def)
  then show ?thesis
    using run by (simp add: backed_def pool_value_def)
qed

end
