(* ===== verification/Amm_Ledger.thy ===== *)
theory Amm_Ledger
  imports Amm_Liquidity_Runs Token_Ledger
begin

text \<open>
  The accounts the AMM owns, over the life of the chain: every instruction that succeeds, under the
  runtime's write rule, and everything else that happens, keeps the configurations and the pools.
\<close>

section \<open>The dispatch\<close>

lemma amm_main_admin_runs:
  "amm_main E amm (Initialize n t orc adm f pf) accounts = Inr (ds, cs, w) \<Longrightarrow>
    \<exists>owner config. accounts = [owner, config] \<and> cs = [] \<and> w = None \<and>
      initialize E owner config n t orc adm f pf amm = Inr ds"
  "amm_main E amm (UpdateConfig adm) accounts = Inr (ds, cs, w) \<Longrightarrow>
    \<exists>config admin. accounts = [config, admin] \<and> cs = [] \<and> w = None \<and>
      update_config E config admin adm amm = Inr ds"
  "amm_main E amm (WithdrawProtocolFees n') accounts = Inr (ds, cs, w) \<Longrightarrow>
    \<exists>config fh dest admin. accounts = [config, fh, dest, admin] \<and> w = None \<and>
      withdraw_protocol_fees E config fh dest admin n' amm = Inr (ds, cs)"
  by (auto simp: amm_main_def success split: list.splits)

lemma amm_main_oracle_runs:
  "amm_main E amm (PoolPriceObservations window) accounts = Inr (ds, cs, w) \<Longrightarrow>
    \<exists>config pool tk obs clk. accounts = [config, pool, tk, obs, clk] \<and> w = None \<and>
      pool_create_price_observations E config pool tk obs clk window amm = Inr (ds, cs)"
  "amm_main E amm (PoolOraclePriceAccount window) accounts = Inr (ds, cs, w) \<Longrightarrow>
    \<exists>config pool pa clk. accounts = [config, pool, pa, clk] \<and> w = None \<and>
      pool_create_oracle_price_account E config pool pa clk window amm = Inr (ds, cs)"
  by (auto simp: amm_main_def success split: list.splits)

lemma amm_main_swap_runs:
  "amm_main E amm (SwapExactInput x lo dl) accounts = Inr (ds, cs, w) \<Longrightarrow>
    \<exists>config pool va vb uin uout tk clk fh. accounts = [config, pool, va, vb, uin, uout, tk, clk, fh] \<and>
      w = Some dl \<and> swap_exact_input E config pool va vb uin uout tk clk fh x lo amm = Inr (ds, cs)"
  "amm_main E amm (SwapExactOutput x hi dl) accounts = Inr (ds, cs, w) \<Longrightarrow>
    \<exists>config pool va vb uin uout tk clk fh. accounts = [config, pool, va, vb, uin, uout, tk, clk, fh] \<and>
      w = Some dl \<and> swap_exact_output E config pool va vb uin uout tk clk fh x hi amm = Inr (ds, cs)"
  "amm_main E amm SyncReserves accounts = Inr (ds, cs, w) \<Longrightarrow>
    \<exists>config pool va vb tk clk. accounts = [config, pool, va, vb, tk, clk] \<and> w = None \<and>
      sync_reserves E config pool va vb tk clk amm = Inr (ds, cs)"
  by (auto simp: amm_main_def success split: list.splits)

lemma amm_main_liquidity_runs:
  "amm_main E amm (AddLiquidity lp xa xb dl) accounts = Inr (ds, cs, w) \<Longrightarrow>
    \<exists>config pool va vb lpd ua ub ulp tk clk. accounts = [config, pool, va, vb, lpd, ua, ub, ulp, tk, clk] \<and>
      w = Some dl \<and> add_liquidity E config pool va vb lpd ua ub ulp tk clk lp xa xb amm = Inr (ds, cs)"
  "amm_main E amm (RemoveLiquidity lp xa xb dl) accounts = Inr (ds, cs, w) \<Longrightarrow>
    \<exists>config pool va vb lpd ua ub ulp tk clk. accounts = [config, pool, va, vb, lpd, ua, ub, ulp, tk, clk] \<and>
      w = Some dl \<and> remove_liquidity E config pool va vb lpd ua ub ulp tk clk lp xa xb amm = Inr (ds, cs)"
  "amm_main E amm (NewDefinition xa xb dl) accounts = Inr (ds, cs, w) \<Longrightarrow>
    \<exists>config pool va vb lpd lock ua ub ulp tk clk. xa \<noteq> 0 \<and> xb \<noteq> 0 \<and>
      accounts = [config, pool, va, vb, lpd, lock, ua, ub, ulp, tk, clk] \<and>
      w = Some dl \<and> new_definition E config pool va vb lpd lock ua ub ulp tk clk xa xb amm = Inr (ds, cs)"
  by (auto simp: amm_main_def success split: list.splits)

section \<open>What an instruction writes\<close>

text \<open>
  A written account becomes a configuration with valid fees, new or with another authority than
  before, or a pool, new and backed or evolved from what it was.
\<close>

definition config_write :: "('d, 'x) amm_env_scheme \<Rightarrow> account_id set \<Rightarrow> 'd state_diff \<Rightarrow> bool" where
  "config_write E A d \<longleftrightarrow> (\<exists>c'. encode (config_codec E) c' = Some (post_data d) \<and>
    (account (pre_state d) = account_default E \<and> fees_valid c' \<or>
     (\<exists>c. decode (config_codec E) (data (account (pre_state d))) = Some c \<and> config_authority c \<in> A \<and>
        c' = c \<lparr> config_authority := config_authority c' \<rparr>)))"

definition pool_write :: "('d, 'x) amm_env_scheme \<Rightarrow> account_id \<Rightarrow> 'd account_with_metadata list \<Rightarrow> 'd state_diff \<Rightarrow> bool" where
  "pool_write E amm accounts d \<longleftrightarrow> (\<exists>p'. encode (pool_codec E) p' = Some (post_data d) \<and>
    (account (pre_state d) = account_default E \<and> backed (pool_value p') \<or>
     (\<exists>p c config. decode (pool_codec E) (data (account (pre_state d))) = Some p \<and> config \<in> set accounts \<and>
        decode (config_codec E) (data (account config)) = Some c \<and> program_owner (account config) = amm \<and>
        (backed (pool_value p) \<and> fees_valid c \<longrightarrow> pool_evolves p p'))))"

lemma swap_ran_checked:
  assumes "swap_ran E amm ctx R [config, pool, va, vb, uin, uout, tk, clk, fh] c p p' ds cs"
  shows "decode (pool_codec E) (data (account pool)) = Some p"
    and "decode (config_codec E) (data (account config)) = Some c" "program_owner (account config) = amm"
  using assms unfolding swap_ran_def by (auto elim: swap_checks_run)

fun keeps_balance :: "'d state_diff \<Rightarrow> bool" where
  "keeps_balance (Unchanged a) \<longleftrightarrow> True"
| "keeps_balance (NewData a b d) \<longleftrightarrow> b = Add 0"

definition writes_ok ::
  "('d, 'x) amm_env_scheme \<Rightarrow> account_id \<Rightarrow> 'd account_with_metadata list \<Rightarrow> 'd state_diff list \<Rightarrow> bool" where
  "writes_ok E amm accounts ds \<longleftrightarrow> map pre_state ds = accounts \<and> list_all keeps_balance ds \<and>
    list_all (\<lambda>d. \<not> writes_data d \<or> config_write E (authorized_ids accounts) d \<or> pool_write E amm accounts d) ds"

lemma swap_ran_writes_ok:
  assumes "swap_ran E amm ctx R [config, pool, va, vb, uin, uout, tk, clk, fh] c p p' ds cs"
  shows "writes_ok E amm [config, pool, va, vb, uin, uout, tk, clk, fh] ds"
proof -
  from assms obtain d where ds: "ds = [Unchanged config, NewData pool (Add 0) d, Unchanged va, Unchanged vb,
      Unchanged uin, Unchanged uout, Unchanged tk, Unchanged clk, Unchanged fh]"
    and enc: "encode (pool_codec E) p' = Some d"
    and evolves: "backed (pool_value p) \<and> fees_valid c \<longrightarrow> pool_evolves p p'"
    unfolding swap_ran_def by auto
  have "pool_write E amm [config, pool, va, vb, uin, uout, tk, clk, fh] (NewData pool (Add 0) d)"
    unfolding pool_write_def using enc evolves swap_ran_checked [OF assms] by auto
  then show ?thesis
    by (simp add: writes_ok_def ds)
qed

lemma pool_evolves_write:
  assumes "decode (pool_codec E) (data (account pool)) = Some p" "encode (pool_codec E) p' = Some d"
    and "config \<in> set accounts" "decode (config_codec E) (data (account config)) = Some c"
    and "program_owner (account config) = amm" "backed (pool_value p) \<Longrightarrow> pool_evolves p p'"
  shows "pool_write E amm accounts (NewData pool (Add 0) d)"
  unfolding pool_write_def using assms by auto

lemma add_ran_writes_ok:
  assumes "add_ran E amm lp xa xb [config, pool, va, vb, lpd, ua, ub, ulp, tk, clk] c p p' ds cs"
  shows "writes_ok E amm [config, pool, va, vb, lpd, ua, ub, ulp, tk, clk] ds"
proof -
  from assms obtain d where run: "decode (pool_codec E) (data (account pool)) = Some p"
    "encode (pool_codec E) p' = Some d" "decode (config_codec E) (data (account config)) = Some c"
    "program_owner (account config) = amm"
    "ds = [Unchanged config, NewData pool (Add 0) d, Unchanged va, Unchanged vb, Unchanged lpd, Unchanged ua,
          Unchanged ub, Unchanged ulp, Unchanged tk, Unchanged clk]"
    unfolding add_ran_def by auto
  have "pool_evolves p p'" if "backed (pool_value p)"
    using add_evolves [OF assms] that by (simp add: backed_def pool_value_def)
  from pool_evolves_write [OF run(1,2) _ run(3,4) this, of "[config, pool, va, vb, lpd, ua, ub, ulp, tk, clk]"]
  show ?thesis
    by (simp add: writes_ok_def run(5))
qed

lemma remove_ran_writes_ok:
  assumes "remove_ran E amm lp xa xb [config, pool, va, vb, lpd, ua, ub, ulp, tk, clk] c p p' ds cs"
  shows "writes_ok E amm [config, pool, va, vb, lpd, ua, ub, ulp, tk, clk] ds"
proof -
  from assms obtain d where run: "decode (pool_codec E) (data (account pool)) = Some p"
    "encode (pool_codec E) p' = Some d" "decode (config_codec E) (data (account config)) = Some c"
    "program_owner (account config) = amm"
    "ds = [Unchanged config, NewData pool (Add 0) d, Unchanged va, Unchanged vb, Unchanged lpd, Unchanged ua,
          Unchanged ub, Unchanged ulp, Unchanged tk, Unchanged clk]"
    unfolding remove_ran_def by auto
  from pool_evolves_write [OF run(1,2) _ run(3,4) remove_evolves [OF assms],
      of "[config, pool, va, vb, lpd, ua, ub, ulp, tk, clk]"]
  show ?thesis
    by (simp add: writes_ok_def run(5))
qed

lemma sync_ran_writes_ok:
  assumes "sync_ran E amm [config, pool, va, vb, tk, clk] c p p' ds cs"
  shows "writes_ok E amm [config, pool, va, vb, tk, clk] ds"
proof -
  from assms obtain d where run: "decode (pool_codec E) (data (account pool)) = Some p"
    "encode (pool_codec E) p' = Some d" "decode (config_codec E) (data (account config)) = Some c"
    "program_owner (account config) = amm"
    "ds = [Unchanged config, NewData pool (Add 0) d, Unchanged va, Unchanged vb, Unchanged tk, Unchanged clk]"
    unfolding sync_ran_def by auto
  from pool_evolves_write [OF run(1,2) _ run(3,4) sync_evolves [OF assms], of "[config, pool, va, vb, tk, clk]"]
  show ?thesis
    by (simp add: writes_ok_def run(5))
qed

lemma creation_ran_writes_ok:
  assumes "creation_ran E amm xa xb [config, pool, va, vb, lpd, lock, ua, ub, ulp, tk, clk] c p ds cs"
    and "floor_root (uint_root E)"
  shows "writes_ok E amm [config, pool, va, vb, lpd, lock, ua, ub, ulp, tk, clk] ds"
proof -
  from assms(1) obtain d where run: "account pool = account_default E" "encode (pool_codec E) p = Some d"
    "ds = [Unchanged config, NewData pool (Add 0) d, Unchanged va, Unchanged vb, Unchanged lpd,
          Unchanged lock, Unchanged ua, Unchanged ub, Unchanged ulp, Unchanged tk, Unchanged clk]"
    unfolding creation_ran_def by auto
  have "pool_write E amm accounts (NewData pool (Add 0) d)" for accounts
    unfolding pool_write_def using run(1,2) creation_backed [OF assms] by auto
  then show ?thesis
    by (simp add: writes_ok_def run(3))
qed

lemma config_write_new:
  assumes "encode (config_codec E) c' = Some d" "account a = account_default E" "fees_valid c'"
  shows "config_write E A (NewData a (Add 0) d)"
  unfolding config_write_def using assms by auto

lemma config_write_update:
  assumes "encode (config_codec E) (c \<lparr> config_authority := adm \<rparr>) = Some d"
    and "decode (config_codec E) (data (account a)) = Some c" "config_authority c \<in> A"
  shows "config_write E A (NewData a (Add 0) d)"
  unfolding config_write_def
  using assms by (intro exI [of _ "c \<lparr> config_authority := adm \<rparr>"]) simp

lemma initialize_writes_ok:
  assumes "initialize E owner config n t orc adm f pf amm = Inr ds"
  shows "writes_ok E amm [owner, config] ds"
proof -
  from assms obtain d where run: "account config = account_default E" "f < FEE_BPS_DENOMINATOR" "pf \<le> FEE_BPS_DENOMINATOR"
    "encode (config_codec E) \<lparr> config_token_program = t, config_oracle_program = orc, config_authority = adm,
        swap_fee_bps = f, protocol_fee_bps = pf \<rparr> = Some d" "ds = [Unchanged owner, NewData config (Add 0) d]"
    unfolding initialize_def inversion amm_encoded_success assert_valid_swap_fee_bps_def
      assert_valid_protocol_fee_bps_def by blast
  have "config_write E A (NewData config (Add 0) d)" for A
    using config_write_new [OF run(4,1)] run(2,3) by (simp add: fees_valid_def)
  then show ?thesis
    by (simp add: writes_ok_def run(5))
qed

lemma update_config_writes_ok:
  assumes "update_config E config admin adm amm = Inr ds"
  shows "writes_ok E amm [config, admin] ds"
proof -
  from assms obtain c d where run: "decode (config_codec E) (data (account config)) = Some c"
    "account_id admin = config_authority c" "is_authorized admin"
    "encode (config_codec E) (c \<lparr> config_authority := adm \<rparr>) = Some d" "ds = [NewData config (Add 0) d, Unchanged admin]"
    unfolding update_config_def inversion amm_encoded_success by blast
  have "config_authority c \<in> authorized_ids [config, admin]"
    using run(2,3) by (simp flip: run(2))
  then show ?thesis
    using config_write_update [OF run(4,1)] by (simp add: writes_ok_def run(5))
qed

lemma read_only_writes_ok:
  "withdraw_protocol_fees E config fh dest admin n' amm = Inr (ds, cs) \<Longrightarrow> writes_ok E amm [config, fh, dest, admin] ds"
  "pool_create_price_observations E config pool tk obs clk window amm = Inr (ds, cs) \<Longrightarrow>
    writes_ok E amm [config, pool, tk, obs, clk] ds"
  "pool_create_oracle_price_account E config pool pa clk window amm = Inr (ds, cs) \<Longrightarrow>
    writes_ok E amm [config, pool, pa, clk] ds"
  by (auto simp: withdraw_protocol_fees_def pool_create_price_observations_def
      pool_create_oracle_price_account_def inversion writes_ok_def)

lemma amm_main_writes_ok:
  assumes "amm_main E amm i accounts = Inr (ds, cs, w)" "floor_root (uint_root E)"
  shows "writes_ok E amm accounts ds"
  using assms
  by (cases i)
    (auto dest!: amm_main_swap_runs amm_main_liquidity_runs amm_main_admin_runs amm_main_oracle_runs
      swap_exact_input_run swap_exact_output_run sync_reserves_run add_liquidity_run remove_liquidity_run
      new_definition_run
      intro: swap_ran_writes_ok add_ran_writes_ok remove_ran_writes_ok sync_ran_writes_ok
      creation_ran_writes_ok initialize_writes_ok update_config_writes_ok read_only_writes_ok)

section \<open>Steps\<close>

definition stored_config :: "('d, 'x) amm_env_scheme \<Rightarrow> account_id \<Rightarrow> 'd account \<Rightarrow> amm_config option" where
  "stored_config E amm a = (if program_owner a = amm then decode (config_codec E) (data a) else None)"

definition stored_pool :: "('d, 'x) amm_env_scheme \<Rightarrow> account_id \<Rightarrow> 'd account \<Rightarrow> pool_definition option" where
  "stored_pool E amm a = (if program_owner a = amm then decode (pool_codec E) (data a) else None)"

inductive amm_step ::
  "('d, 'x) amm_env_scheme \<Rightarrow> account_id \<Rightarrow> 'd ledger \<Rightarrow> 'd ledger \<Rightarrow> bool" for E amm where
  run: "\<lbrakk> reads_state s accounts;
          amm_main E amm instruction accounts = Inr (ds, calls, window);
          list_all (permitted_write E amm) ds \<rbrakk>
        \<Longrightarrow> amm_step E amm s (apply_diffs E amm s ds)"
| other: "\<lbrakk> \<And>i. program_owner (s i) = amm \<Longrightarrow> program_owner (s' i) = amm \<and> data (s' i) = data (s i);
            \<And>i. program_owner (s' i) = amm \<Longrightarrow> program_owner (s i) = amm;
            \<And>i. default_owned E (s' i) \<Longrightarrow> data (s' i) = data (account_default E) \<rbrakk>
        \<Longrightarrow> amm_step E amm s s'"

inductive amm_reachable ::
  "('d, 'x) amm_env_scheme \<Rightarrow> account_id \<Rightarrow> 'd ledger \<Rightarrow> 'd ledger \<Rightarrow> bool" for E amm s0 where
  start: "amm_reachable E amm s0 s0"
| step: "amm_reachable E amm s0 s \<Longrightarrow> amm_step E amm s s' \<Longrightarrow> amm_reachable E amm s0 s'"

definition amm_sane :: "('d, 'x) amm_env_scheme \<Rightarrow> account_id \<Rightarrow> 'd account \<Rightarrow> bool" where
  "amm_sane E amm a \<longleftrightarrow>
    (default_owned E a \<longrightarrow> data a = data (account_default E)) \<and>
    (\<forall>c. stored_config E amm a = Some c \<longrightarrow> fees_valid c) \<and>
    (\<forall>p. stored_pool E amm a = Some p \<longrightarrow> backed (pool_value p))"

text \<open>How one account may change: its configuration and its pool, once there, stay.\<close>

definition amm_evolves :: "('d, 'x) amm_env_scheme \<Rightarrow> account_id \<Rightarrow> 'd account \<Rightarrow> 'd account \<Rightarrow> bool" where
  "amm_evolves E amm a a' \<longleftrightarrow> amm_sane E amm a' \<and>
    (\<forall>c. stored_config E amm a = Some c \<longrightarrow> (\<exists>adm. stored_config E amm a' = Some (c \<lparr> config_authority := adm \<rparr>))) \<and>
    (\<forall>p. stored_pool E amm a = Some p \<longrightarrow> (\<exists>p'. stored_pool E amm a' = Some p' \<and> pool_evolves p p'))"

lemma amm_evolves_sane: "amm_evolves E amm a a' \<Longrightarrow> amm_sane E amm a'"
  by (simp add: amm_evolves_def)

lemma amm_evolves_same:
  assumes "amm_sane E amm a" "program_owner a' = program_owner a" "data a' = data a"
  shows "amm_evolves E amm a a'"
proof -
  have same: "stored_config E amm a' = stored_config E amm a" "stored_pool E amm a' = stored_pool E amm a"
    "default_owned E a' = default_owned E a"
    using assms(2,3) by (simp_all add: stored_config_def stored_pool_def default_owned_def)
  have "\<exists>adm. c = c \<lparr> config_authority := adm \<rparr>" for c
    by (rule exI [of _ "config_authority c"]) simp
  then show ?thesis
    using assms(1,3) same pool_evolves_refl by (auto simp: amm_evolves_def amm_sane_def)
qed

lemma amm_evolves_trans:
  assumes "amm_evolves E amm a b" "amm_evolves E amm b c"
  shows "amm_evolves E amm a c"
proof -
  have "stored_config E amm a = Some x \<Longrightarrow> \<exists>adm. stored_config E amm c = Some (x \<lparr> config_authority := adm \<rparr>)" for x
    using assms unfolding amm_evolves_def by (metis amm_config.update_convs(3) amm_config.surjective)
  moreover have "stored_pool E amm a = Some p \<Longrightarrow>
      \<exists>p'. stored_pool E amm c = Some p' \<and> pool_evolves p p'" for p
    using assms unfolding amm_evolves_def by (metis pool_evolves_trans)
  ultimately show ?thesis
    using assms(2) by (simp add: amm_evolves_def)
qed

locale amm_runtime =
  fixes E :: "('d, 'x) amm_env_scheme" and amm :: account_id
  assumes config_laws: "codec_laws (config_codec E)"
    and pool_laws: "codec_laws (pool_codec E)"
    and root: "floor_root (uint_root E)"
    and apart: "decode (config_codec E) d = Some c \<Longrightarrow> decode (pool_codec E) d = None"
    and blank: "decode (config_codec E) (data (account_default E)) = None"
      "decode (pool_codec E) (data (account_default E)) = None"
    and default_unowned: "default_owned E (account_default E)"
    and amm_owned: "amm \<noteq> default_program_owner E"
begin

lemma config_decode: "encode (config_codec E) c = Some d \<Longrightarrow> decode (config_codec E) d = Some c"
  using config_laws by (rule codec_laws.round_trip)

lemma pool_decode: "encode (pool_codec E) p = Some d \<Longrightarrow> decode (pool_codec E) d = Some p"
  using pool_laws by (rule codec_laws.round_trip)

lemma unowned_stores_nothing:
  "default_owned E a \<Longrightarrow> stored_config E amm a = None" "default_owned E a \<Longrightarrow> stored_pool E amm a = None"
  using amm_owned by (auto simp: stored_config_def stored_pool_def default_owned_def)

text \<open>A write to an account the AMM owns, or that nobody owns, evolves it.\<close>

lemma config_write_evolves:
  assumes "config_write E A d" "amm_sane E amm (account (pre_state d))" "writes_data d" "permitted_write E amm d"
  shows "amm_evolves E amm (account (pre_state d)) (post_account E amm d)"
proof -
  let ?a = "account (pre_state d)"
  from assms(1) obtain c' where enc: "encode (config_codec E) c' = Some (post_data d)"
    and old: "?a = account_default E \<and> fees_valid c' \<or>
      (\<exists>c. decode (config_codec E) (data ?a) = Some c \<and> config_authority c \<in> A \<and>
        c' = c \<lparr> config_authority := config_authority c' \<rparr>)"
    unfolding config_write_def by blast
  have dec: "decode (config_codec E) (post_data d) = Some c'" "decode (pool_codec E) (post_data d) = None"
    using config_decode [OF enc] apart by simp_all
  have owner: "program_owner (post_account E amm d) = amm"
    using assms(3,4) by (auto simp: post_owner_def permitted_write_def)
  then have new: "stored_config E amm (post_account E amm d) = Some c'" "stored_pool E amm (post_account E amm d) = None"
    "\<not> default_owned E (post_account E amm d)"
    using dec amm_owned by (simp_all add: stored_config_def stored_pool_def default_owned_def)
  from old show ?thesis
  proof
    assume "?a = account_default E \<and> fees_valid c'"
    then show ?thesis
      using new unowned_stores_nothing default_unowned by (simp add: amm_evolves_def amm_sane_def)
  next
    assume "\<exists>c. decode (config_codec E) (data ?a) = Some c \<and> config_authority c \<in> A \<and>
        c' = c \<lparr> config_authority := config_authority c' \<rparr>"
    then obtain c where c: "decode (config_codec E) (data ?a) = Some c" "c' = c \<lparr> config_authority := config_authority c' \<rparr>"
      by blast
    have "\<not> default_owned E ?a"
      using assms(2) c(1) blank by (auto simp: amm_sane_def)
    then have "program_owner ?a = amm"
      using assms(3,4) by (auto simp: permitted_write_def)
    then have stored: "stored_config E amm ?a = Some c" "stored_pool E amm ?a = None"
      using c(1) apart by (simp_all add: stored_config_def stored_pool_def)
    have "fees_valid c"
      using assms(2) stored by (simp add: amm_sane_def)
    then have "fees_valid c'"
      by (subst c(2)) (simp add: fees_valid_def)
    then show ?thesis
      using new stored c(2) by (auto simp: amm_evolves_def amm_sane_def)
  qed
qed

lemma pool_write_evolves:
  assumes "pool_write E amm accounts d" "\<forall>a\<in>set accounts. amm_sane E amm (account a)"
    and "pre_state d \<in> set accounts" "writes_data d" "permitted_write E amm d"
  shows "amm_evolves E amm (account (pre_state d)) (post_account E amm d)"
proof -
  let ?a = "account (pre_state d)"
  have sane: "amm_sane E amm ?a"
    using assms(2,3) by blast
  from assms(1) obtain p' where enc: "encode (pool_codec E) p' = Some (post_data d)"
    and old: "?a = account_default E \<and> backed (pool_value p') \<or>
      (\<exists>p c config. decode (pool_codec E) (data ?a) = Some p \<and> config \<in> set accounts \<and>
        decode (config_codec E) (data (account config)) = Some c \<and> program_owner (account config) = amm \<and>
        (backed (pool_value p) \<and> fees_valid c \<longrightarrow> pool_evolves p p'))"
    unfolding pool_write_def by blast
  have dec: "decode (pool_codec E) (post_data d) = Some p'" "decode (config_codec E) (post_data d) = None"
    using pool_decode [OF enc] apart by (fastforce, metis not_Some_eq option.distinct(1))
  have owner: "program_owner (post_account E amm d) = amm"
    using assms(4,5) by (auto simp: post_owner_def permitted_write_def)
  then have new: "stored_pool E amm (post_account E amm d) = Some p'" "stored_config E amm (post_account E amm d) = None"
    "\<not> default_owned E (post_account E amm d)"
    using dec amm_owned by (simp_all add: stored_config_def stored_pool_def default_owned_def)
  from old show ?thesis
  proof
    assume "?a = account_default E \<and> backed (pool_value p')"
    then show ?thesis
      using new unowned_stores_nothing default_unowned by (simp add: amm_evolves_def amm_sane_def)
  next
    assume "\<exists>p c config. decode (pool_codec E) (data ?a) = Some p \<and> config \<in> set accounts \<and>
        decode (config_codec E) (data (account config)) = Some c \<and> program_owner (account config) = amm \<and>
        (backed (pool_value p) \<and> fees_valid c \<longrightarrow> pool_evolves p p')"
    then obtain p c config where p: "decode (pool_codec E) (data ?a) = Some p" "config \<in> set accounts"
      "decode (config_codec E) (data (account config)) = Some c" "program_owner (account config) = amm"
      "backed (pool_value p) \<and> fees_valid c \<longrightarrow> pool_evolves p p'"
      by blast
    then have config: "stored_config E amm (account config) = Some c"
      by (simp add: stored_config_def)
    have "\<not> default_owned E ?a"
      using sane p(1) blank by (auto simp: amm_sane_def)
    then have "program_owner ?a = amm"
      using assms(4,5) by (auto simp: permitted_write_def)
    then have stored: "stored_pool E amm ?a = Some p" "stored_config E amm ?a = None"
      using p(1) apart by (auto simp: stored_config_def stored_pool_def) (metis option.distinct(1) option.exhaust)
    have "pool_evolves p p'" "backed (pool_value p)"
      using p config sane stored assms(2) by (auto simp: amm_sane_def)
    then show ?thesis
      using new stored pool_evolves_backed by (auto simp: amm_evolves_def amm_sane_def)
  qed
qed

lemma reads_amm_sane:
  assumes "\<forall>i. amm_sane E amm (s i)" "reads_state s accounts" "a \<in> set accounts"
  shows "amm_sane E amm (account a)"
proof -
  have "account a = s (account_id a)"
    using assms(2,3) by (simp add: reads_state_def list_all_iff)
  then show ?thesis
    using assms(1) by simp
qed

lemma run_evolves:
  assumes "\<forall>i. amm_sane E amm (s i)" "reads_state s accounts"
    and "amm_main E amm instruction accounts = Inr (ds, calls, window)" "list_all (permitted_write E amm) ds"
  shows "amm_evolves E amm (s i) (apply_diffs E amm s ds i)"
proof -
  have ok: "writes_ok E amm accounts ds"
    using amm_main_writes_ok [OF assms(3) root] .
  then have pre: "map pre_state ds = accounts"
    by (simp add: writes_ok_def)
  have "map (account_id \<circ> pre_state) ds = map account_id accounts"
    by (simp flip: pre)
  then have "distinct (map (account_id \<circ> pre_state) ds)"
    using assms(2) by (simp add: reads_state_def)
  then show ?thesis
  proof (cases rule: apply_diffs_cases [where E = E and p = amm and s = s and i = i])
    case same
    show ?thesis
      unfolding same by (rule amm_evolves_same) (simp_all add: assms(1))
  next
    case (written d)
    have mem: "pre_state d \<in> set accounts"
      using written(1) pre by auto
    then have at: "account (pre_state d) = s i"
      using assms(2) written(2) by (simp add: reads_state_def list_all_iff)
    have sane: "\<forall>a\<in>set accounts. amm_sane E amm (account a)"
      using reads_amm_sane [OF assms(1,2)] by blast
    have "amm_evolves E amm (account (pre_state d)) (post_account E amm d)"
    proof (cases "writes_data d")
      case True
      then have "config_write E (authorized_ids accounts) d \<or> pool_write E amm accounts d"
        using ok written(1) by (auto simp: writes_ok_def list_all_iff)
      then show ?thesis
        using config_write_evolves pool_write_evolves sane mem True assms(4) written(1)
        by (auto simp: list_all_iff)
    next
      case False
      then have "program_owner (post_account E amm d) = program_owner (account (pre_state d))"
        "data (post_account E amm d) = data (account (pre_state d))"
        by (simp_all add: post_owner_def writes_data_def)
      then show ?thesis
        using amm_evolves_same sane mem by blast
    qed
    then show ?thesis
      using at written(3) by simp
  qed
qed

text \<open>A changed configuration was signed for by the authority it had.\<close>

lemma run_config_signed:
  assumes "\<forall>i. amm_sane E amm (s i)" "reads_state s accounts"
    and "amm_main E amm instruction accounts = Inr (ds, calls, window)" "list_all (permitted_write E amm) ds"
    and "stored_config E amm (s i) = Some c" "stored_config E amm (apply_diffs E amm s ds i) \<noteq> Some c"
  shows "config_authority c \<in> authorized_ids accounts \<and>
    (\<exists>adm. stored_config E amm (apply_diffs E amm s ds i) = Some (c \<lparr> config_authority := adm \<rparr>))"
proof -
  have ok: "writes_ok E amm accounts ds"
    using amm_main_writes_ok [OF assms(3) root] .
  then have pre: "map pre_state ds = accounts"
    by (simp add: writes_ok_def)
  have "map (account_id \<circ> pre_state) ds = map account_id accounts"
    by (simp flip: pre)
  then have dist: "distinct (map (account_id \<circ> pre_state) ds)"
    using assms(2) by (simp add: reads_state_def)
  have "config_authority c \<in> authorized_ids accounts"
    using dist
  proof (cases rule: apply_diffs_cases [where E = E and p = amm and s = s and i = i])
    case (written d)
    then have at: "account (pre_state d) = s i"
      using assms(2) pre by (auto simp: reads_state_def list_all_iff)
    have dec: "decode (config_codec E) (data (account (pre_state d))) = Some c" "program_owner (account (pre_state d)) = amm"
      using assms(5) at by (auto simp: stored_config_def split: if_splits)
    have "writes_data d"
    proof (rule ccontr)
      assume "\<not> writes_data d"
      then show False
        using assms(5,6) written(3) at by (auto simp: stored_config_def post_owner_def writes_data_def split: if_splits)
    qed
    then have "config_write E (authorized_ids accounts) d \<or> pool_write E amm accounts d"
      using ok written(1) by (auto simp: writes_ok_def list_all_iff)
    then show ?thesis
      using dec blank apart [OF dec(1)] by (auto simp: config_write_def pool_write_def)
  qed (use assms(5,6) in simp)
  then show ?thesis
    using run_evolves [OF assms(1-4), of i] assms(5) by (auto simp: amm_evolves_def)
qed

lemma other_evolves:
  assumes "\<forall>i. amm_sane E amm (s i)"
    and "\<And>i. program_owner (s i) = amm \<Longrightarrow> program_owner (s' i) = amm \<and> data (s' i) = data (s i)"
    and "\<And>i. program_owner (s' i) = amm \<Longrightarrow> program_owner (s i) = amm"
    and "\<And>i. default_owned E (s' i) \<Longrightarrow> data (s' i) = data (account_default E)"
  shows "amm_evolves E amm (s i) (s' i)"
proof (cases "program_owner (s i) = amm")
  case True
  then show ?thesis
    using assms(2) [OF True] by (intro amm_evolves_same) (simp_all add: assms(1))
next
  case False
  then have "program_owner (s' i) \<noteq> amm"
    using assms(3) by blast
  then show ?thesis
    using False assms(4) [of i] by (simp add: amm_evolves_def amm_sane_def stored_config_def stored_pool_def)
qed

lemma step_evolves:
  assumes "amm_step E amm s s'" "\<forall>i. amm_sane E amm (s i)"
  shows "amm_evolves E amm (s i) (s' i)"
  using assms(1)
proof cases
  case (run accounts instruction ds calls window)
  then show ?thesis
    using run_evolves [OF assms(2)] by blast
next
  case other
  then show ?thesis
    using other_evolves [OF assms(2)] by blast
qed

lemma reachable_evolves:
  assumes "amm_reachable E amm s0 s" "\<forall>i. amm_sane E amm (s0 i)"
  shows "amm_evolves E amm (s0 i) (s i)"
  using assms(1)
proof (induction arbitrary: i)
  case start
  then show ?case
    using amm_evolves_same assms(2) by blast
next
  case (step s s')
  then have "\<forall>i. amm_sane E amm (s i)"
    using amm_evolves_sane by blast
  then show ?case
    using amm_evolves_trans [OF step.IH] step_evolves [OF step.hyps(2)] by blast
qed

end

end
