(* ===== verification/Twap.thy ===== *)
theory Twap
  imports Twap_Core
begin

text \<open>
  The handlers of the TWAP oracle, one definition per function of \<^theory_text>\<open>programs/twap_oracle/src\<close>, and
  the guest dispatch.
\<close>

section \<open>Storing\<close>

definition observations_data :: "('d, 'x) twap_env_scheme \<Rightarrow> price_observations \<Rightarrow> 'd outcome" where
  "observations_data E x =
    expect ''PriceObservations encoded data should fit into Data'' (encode (observations_codec E) x) Inr"

definition oracle_price_data :: "('d, 'x) twap_env_scheme \<Rightarrow> oracle_price_account \<Rightarrow> 'd outcome" where
  "oracle_price_data E x =
    expect ''Oracle price account encoded data should fit into Data'' (encode (oracle_price_codec E) x) Inr"

definition current_tick_data :: "('d, 'x) twap_env_scheme \<Rightarrow> current_tick_account \<Rightarrow> 'd outcome" where
  "current_tick_data E x =
    expect ''CurrentTickAccount encoded data should fit into Data'' (encode (current_tick_codec E) x) Inr"

lemma twap_encoded_success [success]:
  "observations_data E o' = Inr d \<longleftrightarrow> encode (observations_codec E) o' = Some d"
  "oracle_price_data E p = Inr d \<longleftrightarrow> encode (oracle_price_codec E) p = Some d"
  "current_tick_data E t = Inr d \<longleftrightarrow> encode (current_tick_codec E) t = Some d"
  by (simp_all add: observations_data_def oracle_price_data_def current_tick_data_def success)

section \<open>create_price_observations.rs\<close>

definition initial_observations :: "account_id \<Rightarrow> u64 \<Rightarrow> i32 \<Rightarrow> price_observations" where
  "initial_observations source_id now t =
    \<lparr> price_source_id = source_id, write_index = 1, total_entries = 1, last_recorded_tick = t,
      entries = (replicate OBSERVATIONS_CAPACITY \<lparr> entry_timestamp = 0, tick_cumulative = 0 \<rparr>)
        [0 := \<lparr> entry_timestamp = now, tick_cumulative = 0 \<rparr>] \<rparr>"

definition create_price_observations ::
  "('d, 'x) twap_env_scheme \<Rightarrow> 'd account_with_metadata \<Rightarrow> 'd account_with_metadata \<Rightarrow>
    'd account_with_metadata \<Rightarrow> i32 \<Rightarrow> u64 \<Rightarrow> account_id \<Rightarrow> 'd state_diff list outcome" where
  "create_price_observations E observations_account price_source clock t window oracle_program =
    ensure (account_id observations_account =
            compute_price_observations_pda E oracle_program (account_id price_source) window)
      ''CreatePriceObservations: price observations account ID does not match expected PDA'' (
    ensure (account observations_account = account_default E)
      ''CreatePriceObservations: price observations account must be uninitialized'' (
    ensure (is_authorized price_source)
      ''CreatePriceObservations: price source account must be authorized (caller must control it via a PDA)'' (
    ensure (account_id clock = clock_01_program_account_id E)
      ''CreatePriceObservations: clock account must be the canonical 1-block LEZ clock account'' (
    ensure (OBSERVATIONS_CAPACITY \<le> unat window)
      ''CreatePriceObservations: window_duration must be >= OBSERVATIONS_CAPACITY'' (
    attempt (observations_data E
      (initial_observations (account_id price_source) (clock_timestamp E (data (account clock))) t)) (\<lambda>d.
    Inr [NewData observations_account (Add 0) d, Unchanged price_source, Unchanged clock]))))))"

section \<open>create_oracle_price_account.rs\<close>

definition create_oracle_price_account ::
  "('d, 'x) twap_env_scheme \<Rightarrow> 'd account_with_metadata \<Rightarrow> 'd account_with_metadata \<Rightarrow>
    'd account_with_metadata \<Rightarrow> account_id \<Rightarrow> account_id \<Rightarrow> u128 \<Rightarrow> u64 \<Rightarrow> account_id \<Rightarrow>
    'd state_diff list outcome" where
  "create_oracle_price_account E price_account price_source clock base quote price window oracle_program =
    ensure (account_id price_account =
            compute_oracle_price_account_pda E oracle_program (account_id price_source) window)
      ''CreateOraclePriceAccount: oracle price account ID does not match expected PDA'' (
    ensure (account price_account = account_default E)
      ''CreateOraclePriceAccount: oracle price account must be uninitialized'' (
    ensure (is_authorized price_source)
      ''CreateOraclePriceAccount: price source account must be authorized (caller must control it via a PDA)'' (
    ensure (account_id clock = clock_01_program_account_id E)
      ''CreateOraclePriceAccount: clock account must be the canonical 1-block LEZ clock account'' (
    ensure (OBSERVATIONS_CAPACITY \<le> unat window)
      ''CreateOraclePriceAccount: window_duration must be >= OBSERVATIONS_CAPACITY'' (
    ensure (price \<noteq> 0) ''CreateOraclePriceAccount: initial price must be non-zero'' (
    ensure (clock_timestamp E (data (account clock)) \<noteq> 0)
      ''CreateOraclePriceAccount: clock timestamp must be non-zero'' (
    attempt (oracle_price_data E
      \<lparr> oracle_base_asset = base, oracle_quote_asset = quote, oracle_price = price,
        oracle_timestamp = clock_timestamp E (data (account clock)),
        oracle_source_id = account_id price_source, confidence_interval = 0 \<rparr>) (\<lambda>d.
    Inr [NewData price_account (Add 0) d, Unchanged price_source, Unchanged clock]))))))))"

section \<open>create_current_tick_account.rs and update_current_tick.rs\<close>

definition create_current_tick_account ::
  "('d, 'x) twap_env_scheme \<Rightarrow> 'd account_with_metadata \<Rightarrow> 'd account_with_metadata \<Rightarrow>
    'd account_with_metadata \<Rightarrow> u128 \<Rightarrow> account_id \<Rightarrow> 'd state_diff list outcome" where
  "create_current_tick_account E tick_account price_source clock price oracle_program =
    ensure (account_id tick_account = compute_current_tick_account_pda E oracle_program (account_id price_source))
      ''CreateCurrentTickAccount: current tick account ID does not match expected PDA'' (
    ensure (account tick_account = account_default E)
      ''CreateCurrentTickAccount: current tick account must be uninitialized'' (
    ensure (is_authorized price_source)
      ''CreateCurrentTickAccount: price source account must be authorized'' (
    ensure (account_id clock = clock_01_program_account_id E)
      ''CreateCurrentTickAccount: clock account must be the canonical 1-block LEZ clock account'' (
    attempt (price_to_tick E price) (\<lambda>t.
    attempt (current_tick_data E
      \<lparr> tick = t, last_updated = clock_timestamp E (data (account clock)) \<rparr>) (\<lambda>d.
    Inr [NewData tick_account (Add 0) d, Unchanged price_source, Unchanged clock]))))))"

definition update_current_tick ::
  "('d, 'x) twap_env_scheme \<Rightarrow> 'd account_with_metadata \<Rightarrow> 'd account_with_metadata \<Rightarrow>
    'd account_with_metadata \<Rightarrow> u128 \<Rightarrow> account_id \<Rightarrow> 'd state_diff list outcome" where
  "update_current_tick E tick_account price_source clock price oracle_program =
    ensure (account_id tick_account = compute_current_tick_account_pda E oracle_program (account_id price_source))
      ''UpdateCurrentTick: current tick account ID does not match expected PDA'' (
    ensure (is_authorized price_source) ''UpdateCurrentTick: price source account must be authorized'' (
    ensure (account_id clock = clock_01_program_account_id E)
      ''UpdateCurrentTick: clock account must be the canonical 1-block LEZ clock account'' (
    expect ''UpdateCurrentTick: current tick account must be initialized''
      (decode (current_tick_codec E) (data (account tick_account))) (\<lambda>current.
    attempt (price_to_tick E price) (\<lambda>t.
    attempt (current_tick_data E
      (current \<lparr> tick := t, last_updated := clock_timestamp E (data (account clock)) \<rparr>)) (\<lambda>d.
    Inr [NewData tick_account (Add 0) d, Unchanged price_source, Unchanged clock]))))))"

section \<open>record_tick.rs\<close>

definition min_sampling_interval :: "u64 \<Rightarrow> u64" where
  "min_sampling_interval window = max (window div of_nat OBSERVATIONS_CAPACITY) 1"

definition newest_index :: "price_observations \<Rightarrow> nat" where
  "newest_index obs = (if write_index obs = 0 then OBSERVATIONS_CAPACITY - 1 else unat (write_index obs) - 1)"

text \<open>\<^theory_text>\<open>entries.get(i).expect(..)\<close>.\<close>

definition get_entry :: "string \<Rightarrow> price_observations \<Rightarrow> nat \<Rightarrow> observation_entry outcome" where
  "get_entry msg obs i = expect msg (if i < length (entries obs) then Some (entries obs ! i) else None) Inr"

definition clamped_tick :: "i32 \<Rightarrow> i32 \<Rightarrow> i32" where
  "clamped_tick last_tick current =
    signed_saturating_add last_tick
      (clamp_i32 (signed_saturating_sub current last_tick)
        (word_of_int (- MAX_TICK_DELTA)) (word_of_int MAX_TICK_DELTA))"

text \<open>The ring buffer after writing an observation of the clamped tick at \<^theory_text>\<open>now\<close>.\<close>

definition push_observation ::
  "price_observations \<Rightarrow> i32 \<Rightarrow> u64 \<Rightarrow> observation_entry \<Rightarrow> u64 \<Rightarrow> price_observations outcome" where
  "push_observation obs new_tick now last_entry elapsed_ms =
    expect ''elapsed_ms fits in i64'' (to_signed (int (unat elapsed_ms)) :: i64 option) (\<lambda>elapsed_i64.
    expect ''tick_cumulative fits in i64''
      (case signed_checked_mul (scast new_tick :: i64) elapsed_i64 of
         None \<Rightarrow> None
       | Some product \<Rightarrow> signed_checked_add (tick_cumulative last_entry) product) (\<lambda>new_cumulative.
    ensure (unat (write_index obs) < length (entries obs)) ''write_index is within bounds'' (
    expect ''total_entries does not overflow'' (checked_add (total_entries obs) 1) (\<lambda>total.
    Inr (obs \<lparr> entries := (entries obs) [unat (write_index obs) :=
                \<lparr> entry_timestamp = now, tick_cumulative = new_cumulative \<rparr>],
              write_index := of_nat ((unat (write_index obs) + 1) mod OBSERVATIONS_CAPACITY),
              total_entries := total,
              last_recorded_tick := new_tick \<rparr>)))))"

definition record_tick ::
  "('d, 'x) twap_env_scheme \<Rightarrow> 'd account_with_metadata \<Rightarrow> 'd account_with_metadata \<Rightarrow>
    'd account_with_metadata \<Rightarrow> account_id \<Rightarrow> u64 \<Rightarrow> account_id \<Rightarrow> 'd state_diff list outcome" where
  "record_tick E observations_account tick_account clock source_id window oracle_program =
    ensure (account_id tick_account = compute_current_tick_account_pda E oracle_program source_id)
      ''RecordTick: current tick account ID does not match expected PDA'' (
    ensure (account_id observations_account = compute_price_observations_pda E oracle_program source_id window)
      ''RecordTick: price observations account ID does not match expected PDA'' (
    ensure (program_owner (account tick_account) = oracle_program)
      ''RecordTick: current tick account must be owned by the oracle program'' (
    ensure (account_id clock = clock_01_program_account_id E)
      ''RecordTick: clock account must be the canonical 1-block LEZ clock account'' (
    expect ''RecordTick: current tick account must be initialized''
      (decode (current_tick_codec E) (data (account tick_account))) (\<lambda>current.
    expect ''RecordTick: price observations account must be initialized''
      (decode (observations_codec E) (data (account observations_account))) (\<lambda>obs.
    attempt (get_entry ''last_index is within bounds'' obs (newest_index obs)) (\<lambda>last_entry.
    (let now = clock_timestamp E (data (account clock));
         elapsed_ms = saturating_sub now (entry_timestamp last_entry) in
     if elapsed_ms < min_sampling_interval window then
       Inr [Unchanged observations_account, Unchanged tick_account, Unchanged clock]
     else
       attempt (push_observation obs (clamped_tick (last_recorded_tick obs) (tick current)) now last_entry elapsed_ms)
         (\<lambda>obs'.
       attempt (observations_data E obs') (\<lambda>d.
       Inr [NewData observations_account (Add 0) d, Unchanged tick_account, Unchanged clock]))))))))))"

section \<open>publish_price.rs\<close>

definition oldest_index :: "price_observations \<Rightarrow> nat" where
  "oldest_index obs =
    (if of_nat OBSERVATIONS_CAPACITY \<le> total_entries obs then unat (write_index obs) else 0)"

text \<open>\<^theory_text>\<open>i64::checked_div_euclid\<close>.\<close>

definition signed_checked_div_euclid :: "i64 \<Rightarrow> i64 \<Rightarrow> i64 option" where
  "signed_checked_div_euclid a b =
    (if sint b = 0 then None
     else to_signed (if 0 < sint b then sint a div sint b else - (sint a div - sint b)))"

text \<open>
  The time-weighted tick over \<^theory_text>\<open>[t1, now]\<close>: the accumulator is carried from the newest observation
  to \<^theory_text>\<open>boundary\<close>, the moment the live tick was reported, by the recorded tick and from there to
  \<^theory_text>\<open>now\<close> by the clamped live tick.
\<close>

definition twap_tick ::
  "price_observations \<Rightarrow> observation_entry \<Rightarrow> observation_entry \<Rightarrow> current_tick_account \<Rightarrow> u64 \<Rightarrow> i32 outcome" where
  "twap_tick obs t1 t2 current now =
    ensure (entry_timestamp t2 \<le> now) ''assertion failed: min <= max'' (
    (let boundary = (if last_updated current < entry_timestamp t2 then entry_timestamp t2
                     else if now < last_updated current then now else last_updated current);
         pre_ms = saturating_sub boundary (entry_timestamp t2);
         post_ms = saturating_sub now boundary in
     expect ''pre_ms fits in i64'' (to_signed (int (unat pre_ms)) :: i64 option) (\<lambda>pre_i64.
     expect ''post_ms fits in i64'' (to_signed (int (unat post_ms)) :: i64 option) (\<lambda>post_i64.
     expect ''pre-boundary tail cumulative fits in i64''
       (signed_checked_mul (scast (last_recorded_tick obs) :: i64) pre_i64) (\<lambda>pre_cumulative.
     expect ''post-boundary tail cumulative fits in i64''
       (signed_checked_mul (scast (clamped_tick (last_recorded_tick obs) (tick current)) :: i64) post_i64)
       (\<lambda>post_cumulative.
     expect ''extrapolated tick_cumulative fits in i64''
       (case signed_checked_add (tick_cumulative t2) pre_cumulative of
          None \<Rightarrow> None | Some acc \<Rightarrow> signed_checked_add acc post_cumulative) (\<lambda>cum_now.
     expect ''now >= t1.timestamp'' (checked_sub now (entry_timestamp t1)) (\<lambda>elapsed_ms.
     expect ''elapsed_ms fits in i64'' (to_signed (int (unat elapsed_ms)) :: i64 option) (\<lambda>elapsed_i64.
     expect ''tick_cumulative difference fits in i64''
       (signed_checked_sub cum_now (tick_cumulative t1)) (\<lambda>cumulative_diff.
     expect ''elapsed_ms is non-zero'' (signed_checked_div_euclid cumulative_diff elapsed_i64) (\<lambda>twap_i64.
     expect ''TWAP tick fits in i32'' (to_signed (sint twap_i64)) Inr)))))))))))"

definition publish_price ::
  "('d, 'x) twap_env_scheme \<Rightarrow> 'd account_with_metadata \<Rightarrow> 'd account_with_metadata \<Rightarrow>
    'd account_with_metadata \<Rightarrow> 'd account_with_metadata \<Rightarrow> account_id \<Rightarrow> u64 \<Rightarrow> account_id \<Rightarrow>
    'd state_diff list outcome" where
  "publish_price E observations_account price_account tick_account clock source_id window oracle_program =
    ensure (account_id observations_account = compute_price_observations_pda E oracle_program source_id window)
      ''PublishPrice: price observations account ID does not match expected PDA'' (
    ensure (account_id price_account = compute_oracle_price_account_pda E oracle_program source_id window)
      ''PublishPrice: oracle price account ID does not match expected PDA'' (
    ensure (account_id tick_account = compute_current_tick_account_pda E oracle_program source_id)
      ''PublishPrice: current tick account ID does not match expected PDA'' (
    ensure (program_owner (account observations_account) = oracle_program)
      ''PublishPrice: price observations account must be owned by the oracle program'' (
    ensure (program_owner (account tick_account) = oracle_program)
      ''PublishPrice: current tick account must be owned by the oracle program'' (
    ensure (account_id clock = clock_01_program_account_id E)
      ''PublishPrice: clock account must be the canonical 1-block LEZ clock account'' (
    expect ''PublishPrice: price observations account must be initialized''
      (decode (observations_codec E) (data (account observations_account))) (\<lambda>obs.
    expect ''PublishPrice: oracle price account must be initialized''
      (decode (oracle_price_codec E) (data (account price_account))) (\<lambda>price.
    expect ''PublishPrice: current tick account must be initialized''
      (decode (current_tick_codec E) (data (account tick_account))) (\<lambda>current.
    (let now = clock_timestamp E (data (account clock)) in
     if total_entries obs < 2 then
       Inr [Unchanged observations_account, Unchanged price_account, Unchanged tick_account, Unchanged clock]
     else
       attempt (get_entry ''t1_index is within bounds'' obs (oldest_index obs)) (\<lambda>t1.
       attempt (get_entry ''t2_index is within bounds'' obs (newest_index obs)) (\<lambda>t2.
       ensure (saturating_sub now (entry_timestamp t2) \<le>
               saturating_mul (min_sampling_interval window) MAX_TAIL_INTERVALS)
         ''PublishPrice: observations are stale; call RecordTick before publishing'' (
       attempt (twap_tick obs t1 t2 current now) (\<lambda>t.
       attempt (tick_to_oracle_price E t) (\<lambda>p.
       attempt (oracle_price_data E (price \<lparr> oracle_price := p, oracle_timestamp := now \<rparr>)) (\<lambda>d.
       Inr [Unchanged observations_account, NewData price_account (Add 0) d, Unchanged tick_account,
            Unchanged clock]))))))))))))))))"

section \<open>The guest\<close>

definition twap_main ::
  "('d, 'x) twap_env_scheme \<Rightarrow> account_id \<Rightarrow> twap_instruction \<Rightarrow> 'd account_with_metadata list \<Rightarrow>
    'd state_diff list outcome" where
  "twap_main E self_account_id instruction accounts =
    (case (instruction, accounts) of
       (CreatePriceObservations t window, [obs, price_source, clock]) \<Rightarrow>
         ensure (spel_validate E [([Init], obs), ([Signer], price_source), ([], clock)])
           ''account validation failed'' (
         create_price_observations E obs price_source clock t window self_account_id)
     | (CreateOraclePriceAccount base quote price window, [price_account, price_source, clock]) \<Rightarrow>
         ensure (spel_validate E [([Init], price_account), ([Signer], price_source), ([], clock)])
           ''account validation failed'' (
         create_oracle_price_account E price_account price_source clock base quote price window self_account_id)
     | (CreateCurrentTickAccount price, [tick_account, price_source, clock]) \<Rightarrow>
         ensure (spel_validate E [([Init], tick_account), ([Signer], price_source), ([], clock)])
           ''account validation failed'' (
         create_current_tick_account E tick_account price_source clock price self_account_id)
     | (UpdateCurrentTick price, [tick_account, price_source, clock]) \<Rightarrow>
         ensure (spel_validate E [([Mut], tick_account), ([Signer], price_source), ([], clock)])
           ''account validation failed'' (
         update_current_tick E tick_account price_source clock price self_account_id)
     | (PublishPrice source_id window, [obs, price_account, tick_account, clock]) \<Rightarrow>
         ensure (spel_validate E [([], obs), ([Mut], price_account), ([], tick_account), ([], clock)])
           ''account validation failed'' (
         publish_price E obs price_account tick_account clock source_id window self_account_id)
     | (RecordTick source_id window, [obs, tick_account, clock]) \<Rightarrow>
         ensure (spel_validate E [([Mut], obs), ([], tick_account), ([], clock)])
           ''account validation failed'' (
         record_tick E obs tick_account clock source_id window self_account_id)
     | _ \<Rightarrow> Inl (Panic ''wrong number of accounts''))"

end
