(* ===== verification/Twap_Props.thy ===== *)
theory Twap_Props
  imports Twap
begin

text \<open>
  The ring buffer of the oracle refined to the list of the observations it holds, oldest first, the
  invariant of a feed under any sequence of recordings, and the properties of the oracle.
\<close>

section \<open>The ring buffer as a list\<close>

definition history :: "price_observations \<Rightarrow> observation_entry list" where
  "history obs =
    (if unat (total_entries obs) < OBSERVATIONS_CAPACITY then take (unat (total_entries obs)) (entries obs)
     else drop (unat (write_index obs)) (entries obs) @ take (unat (write_index obs)) (entries obs))"

definition ring_ok :: "price_observations \<Rightarrow> bool" where
  "ring_ok obs \<longleftrightarrow>
    length (entries obs) = OBSERVATIONS_CAPACITY \<and> unat (write_index obs) < OBSERVATIONS_CAPACITY \<and>
    1 \<le> unat (total_entries obs) \<and>
    (unat (total_entries obs) < OBSERVATIONS_CAPACITY \<longrightarrow> unat (write_index obs) = unat (total_entries obs))"

lemma capacity_pos [simp]: "0 < OBSERVATIONS_CAPACITY"
  by (simp add: OBSERVATIONS_CAPACITY_def)

lemma length_history:
  "ring_ok obs \<Longrightarrow> length (history obs) = min (unat (total_entries obs)) OBSERVATIONS_CAPACITY"
  by (auto simp: history_def ring_ok_def)

lemma history_nonempty: "ring_ok obs \<Longrightarrow> history obs \<noteq> []"
  using length_history [of obs] by (auto simp: ring_ok_def)

lemma get_newest:
  assumes "ring_ok obs"
  shows "get_entry msg obs (newest_index obs) = Inr (last (history obs))"
proof -
  let ?w = "unat (write_index obs)" and ?n = "unat (total_entries obs)"
  have len: "length (entries obs) = OBSERVATIONS_CAPACITY" "?w < OBSERVATIONS_CAPACITY" "1 \<le> ?n"
    "?n < OBSERVATIONS_CAPACITY \<longrightarrow> ?w = ?n"
    using assms by (auto simp: ring_ok_def)
  then have ne: "entries obs \<noteq> []"
    by auto
  have "entries obs ! newest_index obs = last (history obs)"
  proof (cases "?n < OBSERVATIONS_CAPACITY")
    case True
    then have "write_index obs \<noteq> 0"
      using len by (metis not_one_le_zero unat_0)
    then show ?thesis
      using True len ne by (simp add: history_def newest_index_def last_conv_nth)
  next
    case full: False
    show ?thesis
    proof (cases "write_index obs = 0")
      case True
      then show ?thesis
        using full len ne by (simp add: history_def newest_index_def last_conv_nth)
    next
      case False
      then have "0 < ?w"
        by (simp add: unat_gt_0)
      then have tn: "take ?w (entries obs) \<noteq> []"
        using len ne by auto
      have "last (history obs) = last (take ?w (entries obs))"
        using full last_appendR [OF tn] by (simp add: history_def)
      also have "\<dots> = entries obs ! (?w - 1)"
        using len \<open>0 < ?w\<close> by (simp add: last_conv_nth [OF tn])
      finally show ?thesis
        using False by (simp add: newest_index_def)
    qed
  qed
  moreover have "newest_index obs < length (entries obs)"
    using len by (auto simp: newest_index_def)
  ultimately show ?thesis
    by (simp add: get_entry_def)
qed

lemma get_oldest:
  assumes "ring_ok obs"
  shows "get_entry msg obs (oldest_index obs) = Inr (hd (history obs))"
proof -
  let ?w = "unat (write_index obs)" and ?n = "unat (total_entries obs)"
  have len: "length (entries obs) = OBSERVATIONS_CAPACITY" "?w < OBSERVATIONS_CAPACITY" "1 \<le> ?n"
    using assms by (auto simp: ring_ok_def)
  then have ne: "entries obs \<noteq> []"
    by auto
  have full: "of_nat OBSERVATIONS_CAPACITY \<le> total_entries obs \<longleftrightarrow> \<not> ?n < OBSERVATIONS_CAPACITY"
    by (simp add: word_le_nat_alt OBSERVATIONS_CAPACITY_def not_less)
  have "entries obs ! oldest_index obs = hd (history obs)"
    using len ne by (auto simp: oldest_index_def full history_def hd_conv_nth nth_append hd_drop_conv_nth)
  moreover have "oldest_index obs < length (entries obs)"
    using len by (simp add: oldest_index_def)
  ultimately show ?thesis
    by (simp add: get_entry_def)
qed

lemma initial_ring:
  "ring_ok (initial_observations i now t)"
  "history (initial_observations i now t) = [\<lparr> entry_timestamp = now, tick_cumulative = 0 \<rparr>]"
  by (simp_all add: ring_ok_def history_def initial_observations_def OBSERVATIONS_CAPACITY_def
      take_Cons' numeral_eq_Suc)

section \<open>Recording\<close>

lemma clamped_tick_exact:
  "sint (clamped_tick l c) = sint l + max (- 9116) (min 9116 (sint c - sint l))"
proof -
  have r: "- 2147483648 \<le> sint l" "sint l < 2147483648" "- 2147483648 \<le> sint c" "sint c < 2147483648"
    using sint_range [of l] sint_range [of c] by simp_all
  have const: "sint (word_of_int (- MAX_TICK_DELTA) :: i32) = - 9116" "sint (word_of_int MAX_TICK_DELTA :: i32) = 9116"
    by (subst sint_word_of_int_exact; simp add: MAX_TICK_DELTA_def)+
  have delta: "sint (signed_saturating_sub c l) = max (- 2147483648) (min 2147483647 (sint c - sint l))"
    by (simp add: signed_ops)
  have clamp: "sint (clamp_i32 (signed_saturating_sub c l) (word_of_int (- MAX_TICK_DELTA)) (word_of_int MAX_TICK_DELTA)) =
      max (- 9116) (min 9116 (sint c - sint l))"
    unfolding clamp_i32_def const delta using const r by (auto simp: delta)
  show ?thesis
    unfolding clamped_tick_def signed_saturating_add_def sint_clamp_signed clamp using r by simp
qed

text \<open>What one stored observation adds, on integers.\<close>

definition entry_follows :: "i32 \<Rightarrow> observation_entry \<Rightarrow> observation_entry \<Rightarrow> bool" where
  "entry_follows t e e' \<longleftrightarrow>
    entry_timestamp e < entry_timestamp e' \<and>
    sint (tick_cumulative e') = sint (tick_cumulative e) +
      sint t * (int (unat (entry_timestamp e')) - int (unat (entry_timestamp e)))"

lemma sint_scast_i64 [simp]: "sint (scast (t :: i32) :: i64) = sint t"
  by (simp add: sint_up_scast is_up)

lemma push_observation_Inr:
  assumes "ring_ok obs" "push_observation obs t now e elapsed = Inr obs'"
    and "e = last (history obs)" "elapsed = saturating_sub now (entry_timestamp e)" "0 < elapsed"
  shows "ring_ok obs'" "last_recorded_tick obs' = t"
    and "\<exists>e'. entry_follows t e e' \<and> entry_timestamp e' = now \<and>
      history obs' =
        (if length (history obs) < OBSERVATIONS_CAPACITY then history obs else tl (history obs)) @ [e']"
proof -
  let ?w = "unat (write_index obs)" and ?n = "unat (total_entries obs)"
  have ring: "length (entries obs) = OBSERVATIONS_CAPACITY" "?w < OBSERVATIONS_CAPACITY" "1 \<le> ?n"
    "?n < OBSERVATIONS_CAPACITY \<Longrightarrow> ?w = ?n"
    using assms(1) by (auto simp: ring_ok_def)
  obtain el product cum total where push:
    "sint (el :: i64) = int (unat elapsed)" "sint (product :: i64) = sint t * sint el"
    "sint cum = sint (tick_cumulative e) + sint product" "unat total = ?n + 1"
    "obs' = obs \<lparr> entries := (entries obs) [?w := \<lparr> entry_timestamp = now, tick_cumulative = cum \<rparr>],
        write_index := of_nat ((?w + 1) mod OBSERVATIONS_CAPACITY), total_entries := total,
        last_recorded_tick := t \<rparr>"
    using assms(2)
    by (auto simp: push_observation_def success signed_ops checked split: option.splits)
  define e' where "e' = \<lparr> entry_timestamp = now, tick_cumulative = cum \<rparr>"
  have lt: "unat (entry_timestamp e) < unat now" and el: "unat elapsed = unat now - unat (entry_timestamp e)"
    using assms(4,5) by (auto simp: unat_saturating_sub word_less_nat_alt)
  have w': "unat (of_nat ((?w + 1) mod OBSERVATIONS_CAPACITY) :: u32) = (?w + 1) mod OBSERVATIONS_CAPACITY"
  proof -
    have "(?w + 1) mod OBSERVATIONS_CAPACITY < OBSERVATIONS_CAPACITY"
      by (rule mod_less_divisor) simp
    then have "(?w + 1) mod OBSERVATIONS_CAPACITY < 2 ^ LENGTH(32)"
      by (simp add: OBSERVATIONS_CAPACITY_def)
    then show ?thesis
      by (simp only: unat_of_nat mod_less)
  qed
  show "last_recorded_tick obs' = t"
    by (simp add: push(5))
  show "ring_ok obs'"
    using ring push(4) w' by (auto simp: ring_ok_def push(5))
  have follows: "entry_follows t e e'"
    using lt push(1-3) el by (simp add: entry_follows_def e'_def word_less_nat_alt of_nat_diff)
  have h: "history obs' =
      (if length (history obs) < OBSERVATIONS_CAPACITY then history obs else tl (history obs)) @ [e']"
  proof (cases "?n < OBSERVATIONS_CAPACITY")
    case True
    then have wn: "?w = ?n"
      using ring by simp
    have "history obs = take ?n (entries obs)"
      using True by (simp add: history_def)
    moreover have "history obs' = take (?n + 1) ((entries obs) [?n := e'])"
    proof (cases "?n + 1 < OBSERVATIONS_CAPACITY")
      case True
      then show ?thesis
        using push(4) by (simp add: history_def push(5) e'_def wn)
    next
      case False
      with True have "?n + 1 = OBSERVATIONS_CAPACITY"
        by simp
      then show ?thesis
        using push(4) w' ring(1) by (simp add: history_def push(5) e'_def wn)
    qed
    ultimately show ?thesis
      using True ring(1) by (simp add: take_Suc_conv_app_nth)
  next
    case False
    have old: "history obs = drop ?w (entries obs) @ take ?w (entries obs)"
      using False by (simp add: history_def)
    have new: "history obs' = drop (Suc ?w) (entries obs) @ take (Suc ?w) ((entries obs) [?w := e'])"
    proof (cases "Suc ?w = OBSERVATIONS_CAPACITY")
      case True
      then show ?thesis
        using False push(4) w' ring(1) by (simp add: history_def push(5) e'_def)
    next
      case ne: False
      with ring(2) have "(?w + 1) mod OBSERVATIONS_CAPACITY = Suc ?w"
        by simp
      then show ?thesis
        using False push(4) w' ring(1) by (simp add: history_def push(5) e'_def)
    qed
    have "tl (history obs) = drop (Suc ?w) (entries obs) @ take ?w (entries obs)"
      using ring(1,2) by (simp add: old tl_append2 drop_Suc tl_drop)
    moreover have "take (Suc ?w) ((entries obs) [?w := e']) = take ?w (entries obs) @ [e']"
      using ring(1,2) by (simp add: take_Suc_conv_app_nth)
    ultimately show ?thesis
      using new False length_history [OF assms(1)] by simp
  qed
  then show "\<exists>e'. entry_follows t e e' \<and> entry_timestamp e' = now \<and>
      history obs' =
        (if length (history obs) < OBSERVATIONS_CAPACITY then history obs else tl (history obs)) @ [e']"
    using follows by (intro exI [of _ e']) (simp add: e'_def)
qed

section \<open>Feeds\<close>

text \<open>
  The observations account of a source and window, created and then recorded to any number of times,
  when every tick reported to the oracle lies in \<^theory_text>\<open>[lo, hi]\<close>.
\<close>

inductive feed ::
  "('d, 'x) twap_env_scheme \<Rightarrow> account_id \<Rightarrow> account_id \<Rightarrow> u64 \<Rightarrow> int \<Rightarrow> int \<Rightarrow> price_observations \<Rightarrow> bool"
  for E P source_id window lo hi where
  created: "\<lbrakk> create_price_observations E oa price_source clock t window P = Inr ds;
              account_id price_source = source_id; lo \<le> sint t; sint t \<le> hi;
              decode (observations_codec E) (post_data (ds ! 0)) = Some obs \<rbrakk>
            \<Longrightarrow> feed E P source_id window lo hi obs"
| recorded: "\<lbrakk> feed E P source_id window lo hi obs;
               record_tick E oa ta clock source_id window P = Inr ds;
               decode (observations_codec E) (data (account oa)) = Some obs;
               decode (current_tick_codec E) (data (account ta)) = Some current;
               lo \<le> sint (tick current); sint (tick current) \<le> hi;
               decode (observations_codec E) (post_data (ds ! 0)) = Some obs' \<rbrakk>
            \<Longrightarrow> feed E P source_id window lo hi obs'"

text \<open>Two stored observations, the second later: far enough apart, the accumulator moved within bounds.\<close>

definition between_ticks :: "u64 \<Rightarrow> int \<Rightarrow> int \<Rightarrow> observation_entry \<Rightarrow> observation_entry \<Rightarrow> bool" where
  "between_ticks window lo hi e e' \<longleftrightarrow>
    (let dt = int (unat (entry_timestamp e')) - int (unat (entry_timestamp e));
         dc = sint (tick_cumulative e') - sint (tick_cumulative e) in
     int (unat (min_sampling_interval window)) \<le> dt \<and> lo * dt \<le> dc \<and> dc \<le> hi * dt)"

definition feed_ok :: "u64 \<Rightarrow> int \<Rightarrow> int \<Rightarrow> price_observations \<Rightarrow> bool" where
  "feed_ok window lo hi obs \<longleftrightarrow>
    ring_ok obs \<and> lo \<le> sint (last_recorded_tick obs) \<and> sint (last_recorded_tick obs) \<le> hi \<and>
    sorted_wrt (between_ticks window lo hi) (history obs)"

lemma between_ticks_trans:
  assumes "between_ticks window lo hi e e'" "between_ticks window lo hi e' e''"
  shows "between_ticks window lo hi e e''"
proof -
  have "0 \<le> int (unat (min_sampling_interval window))"
    by simp
  then show ?thesis
    using assms unfolding between_ticks_def Let_def right_diff_distrib by linarith
qed

lemma min_interval_pos: "0 < unat (min_sampling_interval window)"
proof -
  have "1 \<le> min_sampling_interval window"
    by (simp add: min_sampling_interval_def)
  then show ?thesis
    by (simp add: word_le_nat_alt)
qed

lemma clamped_tick_between:
  assumes "lo \<le> sint l" "sint l \<le> hi" "lo \<le> sint c" "sint c \<le> hi"
  shows "lo \<le> sint (clamped_tick l c)" "sint (clamped_tick l c) \<le> hi"
  using assms by (simp_all add: clamped_tick_exact)

lemma sorted_wrt_snoc:
  assumes "sorted_wrt R xs" "xs \<noteq> []" "R (last xs) y" "\<And>a b c. R a b \<Longrightarrow> R b c \<Longrightarrow> R a c"
  shows "sorted_wrt R (xs @ [y])"
proof -
  have "R x y" if "x \<in> set xs" for x
  proof -
    obtain ys where ys: "xs = ys @ [last xs]"
      using assms(2) by (metis append_butlast_last_id)
    then have "x = last xs \<or> x \<in> set ys"
      using that by (metis Un_iff empty_iff empty_set insertE list.simps(15) set_append)
    then show ?thesis
      using assms(1,3,4) ys by (metis list.set_intros(1) sorted_wrt_append)
  qed
  then show ?thesis
    using assms(1) by (simp add: sorted_wrt_append)
qed

lemma record_tick_Inr:
  assumes "record_tick E oa ta clock source_id window P = Inr ds"
    and "decode (observations_codec E) (data (account oa)) = Some obs" "ring_ok obs"
    and "decode (current_tick_codec E) (data (account ta)) = Some current"
  shows "(let now = clock_timestamp E (data (account clock)); e = last (history obs);
              elapsed = saturating_sub now (entry_timestamp e) in
     if elapsed < min_sampling_interval window then ds = [Unchanged oa, Unchanged ta, Unchanged clock]
     else \<exists>obs' d. push_observation obs (clamped_tick (last_recorded_tick obs) (tick current)) now e elapsed = Inr obs' \<and>
       encode (observations_codec E) obs' = Some d \<and>
       ds = [NewData oa (Add 0) d, Unchanged ta, Unchanged clock])"
  using assms by (auto simp: record_tick_def success get_newest Let_def split: if_splits)

lemma feed_ok_push:
  assumes "feed_ok window lo hi obs" "lo \<le> sint c" "sint c \<le> hi"
    and "push_observation obs (clamped_tick (last_recorded_tick obs) c) now (last (history obs)) elapsed = Inr obs'"
    and "elapsed = saturating_sub now (entry_timestamp (last (history obs)))"
    and "min_sampling_interval window \<le> elapsed"
  shows "feed_ok window lo hi obs'"
proof -
  let ?t = "clamped_tick (last_recorded_tick obs) c" and ?e = "last (history obs)"
  have ok: "ring_ok obs" "lo \<le> sint (last_recorded_tick obs)" "sint (last_recorded_tick obs) \<le> hi"
    "sorted_wrt (between_ticks window lo hi) (history obs)"
    using assms(1) by (simp_all add: feed_ok_def)
  note t = clamped_tick_between [OF ok(2,3) assms(2,3)]
  have pos: "0 < elapsed"
    using assms(6) min_interval_pos [of window] by (simp add: word_le_nat_alt word_less_nat_alt)
  note push = push_observation_Inr [OF ok(1) assms(4) refl assms(5) pos]
  then obtain e' where e': "entry_follows ?t ?e e'" "entry_timestamp e' = now"
    "history obs' = (if length (history obs) < OBSERVATIONS_CAPACITY then history obs else tl (history obs)) @ [e']"
    by blast
  define dt where "dt = int (unat now) - int (unat (entry_timestamp ?e))"
  have gap: "unat (min_sampling_interval window) \<le> unat now - unat (entry_timestamp ?e)"
    using assms(6) unfolding assms(5) word_le_nat_alt unat_saturating_sub .
  have later: "unat (entry_timestamp ?e) < unat now"
    using e'(1,2) by (simp add: entry_follows_def word_less_nat_alt)
  have "int (unat (min_sampling_interval window)) \<le> dt"
    using gap later unfolding dt_def by linarith
  moreover have "0 \<le> dt"
    using later unfolding dt_def by linarith
  ultimately have b: "between_ticks window lo hi ?e e'"
    using t e'(1,2) unfolding between_ticks_def entry_follows_def Let_def
    by (simp only: dt_def [symmetric] add_diff_cancel_left') (simp add: mult_right_mono)
  have full: "sorted_wrt (between_ticks window lo hi) (history obs @ [e'])"
    by (rule sorted_wrt_snoc [OF ok(4) history_nonempty [OF ok(1)] b between_ticks_trans])
  moreover obtain x xs where "history obs = x # xs"
    using history_nonempty [OF ok(1)] by (cases "history obs") auto
  ultimately have "sorted_wrt (between_ticks window lo hi) (history obs')"
    unfolding e'(3) by simp
  then show ?thesis
    using push(1,2) t by (simp add: feed_ok_def)
qed

locale oracle_runtime =
  fixes E :: "('d, 'x) twap_env_scheme"
  assumes observations_laws: "codec_laws (observations_codec E)"
begin

lemma feed_invariant: "feed E P source_id window lo hi obs \<Longrightarrow> feed_ok window lo hi obs"
proof (induction rule: feed.induct)
  case (created oa price_source clock t ds obs)
  then have "obs = initial_observations (account_id price_source) (clock_timestamp E (data (account clock))) t"
    using codec_laws.round_trip [OF observations_laws]
    by (auto simp: create_price_observations_def success)
  then show ?case
    using created initial_ring by (simp add: feed_ok_def) (simp add: initial_observations_def)
next
  case (recorded obs oa ta clock ds current obs')
  have ring: "ring_ok obs"
    using recorded.IH by (simp add: feed_ok_def)
  show ?case
  proof (cases "saturating_sub (clock_timestamp E (data (account clock))) (entry_timestamp (last (history obs)))
      < min_sampling_interval window")
    case True
    then have "obs' = obs"
      using record_tick_Inr [OF recorded.hyps(2,3) ring recorded.hyps(4)] recorded.hyps
      by (simp add: Let_def)
    then show ?thesis
      using recorded.IH by simp
  next
    case False
    then obtain obs'' d where p: "push_observation obs (clamped_tick (last_recorded_tick obs) (tick current))
        (clock_timestamp E (data (account clock))) (last (history obs))
        (saturating_sub (clock_timestamp E (data (account clock))) (entry_timestamp (last (history obs)))) = Inr obs''"
      "encode (observations_codec E) obs'' = Some d" "ds ! 0 = NewData oa (Add 0) d"
      using record_tick_Inr [OF recorded.hyps(2,3) ring recorded.hyps(4)] by (auto simp: Let_def)
    then have "obs' = obs''"
      using codec_laws.round_trip [OF observations_laws p(2)] recorded.hyps by simp
    then show ?thesis
      using feed_ok_push [OF recorded.IH recorded.hyps(5,6) p(1) refl] False by simp
  qed
qed

end

section \<open>The published average\<close>

lemma case_option_Some [success]:
  "(case m of None \<Rightarrow> None | Some a \<Rightarrow> f a) = Some x \<longleftrightarrow> (\<exists>a. m = Some a \<and> f a = Some x)"
  by (simp split: option.split)

lemma twap_tick_Inr:
  assumes "twap_tick obs t1 t2 current now = Inr t"
  obtains b :: nat where "unat (entry_timestamp t2) \<le> b" "b \<le> unat now"
    "unat (entry_timestamp t1) < unat now"
    "sint t = (sint (tick_cumulative t2) +
        sint (last_recorded_tick obs) * (int b - int (unat (entry_timestamp t2))) +
        sint (clamped_tick (last_recorded_tick obs) (tick current)) * (int (unat now) - int b) -
        sint (tick_cumulative t1)) div (int (unat now) - int (unat (entry_timestamp t1)))"
proof -
  define boundary where "boundary = (if last_updated current < entry_timestamp t2 then entry_timestamp t2
                     else if now < last_updated current then now else last_updated current)"
  obtain pre post prec postc cum acc el eli diff tw where raw:
    "entry_timestamp t2 \<le> now"
    "to_signed (int (unat (saturating_sub boundary (entry_timestamp t2)))) = Some (pre :: i64)"
    "to_signed (int (unat (saturating_sub now boundary))) = Some (post :: i64)"
    "signed_checked_mul (scast (last_recorded_tick obs) :: i64) pre = Some prec"
    "signed_checked_mul (scast (clamped_tick (last_recorded_tick obs) (tick current)) :: i64) post = Some postc"
    "signed_checked_add (tick_cumulative t2) prec = Some acc" "signed_checked_add acc postc = Some cum"
    "checked_sub now (entry_timestamp t1) = Some el" "to_signed (int (unat el)) = Some (eli :: i64)"
    "signed_checked_sub cum (tick_cumulative t1) = Some diff"
    "signed_checked_div_euclid diff eli = Some tw" "to_signed (sint tw) = Some t"
    using assms
    by (auto simp only: twap_tick_def Let_def success boundary_def [symmetric] sum.inject)
  have h:
    "entry_timestamp t2 \<le> now"
    "sint pre = int (unat (saturating_sub boundary (entry_timestamp t2)))"
    "sint post = int (unat (saturating_sub now boundary))"
    "sint prec = sint (last_recorded_tick obs) * sint pre"
    "sint postc = sint (clamped_tick (last_recorded_tick obs) (tick current)) * sint post"
    "sint acc = sint (tick_cumulative t2) + sint prec" "sint cum = sint acc + sint postc"
    "unat now = unat (entry_timestamp t1) + unat el" "sint eli = int (unat el)"
    "sint diff = sint cum - sint (tick_cumulative t1)"
    "signed_checked_div_euclid diff eli = Some tw" "sint t = sint tw"
    using raw by (simp_all only: signed_ops checked_sub_Some sint_scast_i64)
  have b: "unat (entry_timestamp t2) \<le> unat boundary" "unat boundary \<le> unat now"
    using h(1) by (auto simp: boundary_def word_le_nat_alt word_less_nat_alt)
  have pos: "0 < int (unat el)" and tw: "sint tw = sint diff div int (unat el)"
  proof -
    have nz: "int (unat el) \<noteq> 0"
      using h(11) unfolding signed_checked_div_euclid_def h(9) by (auto simp only: split: if_splits)
    then show pos: "0 < int (unat el)"
      by linarith
    show "sint tw = sint diff div int (unat el)"
      using h(11) nz pos unfolding signed_checked_div_euclid_def h(9)
      by (simp only: if_False if_True to_signed_Some)
  qed
  have "int (unat el) = int (unat now) - int (unat (entry_timestamp t1))"
    using h(8) by linarith
  moreover have "sint pre = int (unat boundary) - int (unat (entry_timestamp t2))"
    using h(2) b unfolding unat_saturating_sub by linarith
  moreover have "sint post = int (unat now) - int (unat boundary)"
    using h(3) b unfolding unat_saturating_sub by linarith
  ultimately show ?thesis
    using that [OF b] pos h(8) tw h(4-7,10,12) by auto
qed

text \<open>A weighted sum of ticks in \<^theory_text>\<open>[lo, hi]\<close> averages in \<^theory_text>\<open>[lo, hi]\<close>.\<close>

lemma average_within:
  fixes a :: int
  assumes "0 < T" "lo * T \<le> a" "a \<le> hi * T"
  shows "lo \<le> a div T \<and> a div T \<le> hi"
  using zdiv_mono1 [OF assms(2,1)] zdiv_mono1 [OF assms(3,1)] assms(1) by simp_all

end
