(* ===== verification/Twap_Borsh.thy ===== *)
theory Twap_Borsh
  imports Token_Borsh Twap_Props
begin

text \<open>
  The Borsh codecs of the oracle's accounts, and a concrete environment on which the interface
  \<^theory_text>\<open>oracle_runtime\<close> is interpreted.
\<close>

section \<open>Vectors\<close>

definition ser_vec :: "('a \<Rightarrow> bytes) \<Rightarrow> 'a list \<Rightarrow> bytes" where
  "ser_vec f xs = to_le_bytes (of_nat (length xs) :: u32) @ concat (map f xs)"

primrec de_many :: "'a parser \<Rightarrow> nat \<Rightarrow> 'a list parser" where
  "de_many p 0 = de_return []"
| "de_many p (Suc n) = de_bind p (\<lambda>x. de_bind (de_many p n) (\<lambda>xs. de_return (x # xs)))"

definition de_vec :: "'a parser \<Rightarrow> 'a list parser" where
  "de_vec p = de_bind (de_word :: u32 parser) (\<lambda>n. de_many p (unat n))"

context borsh_type
begin

lemma de_many_parse:
  "\<forall>x\<in>set xs. length (ser x) < 2 ^ 32 \<Longrightarrow>
    de_many de (length xs) (concat (map ser xs) @ r) = Some (xs, r)"
  by (induction xs) (simp_all add: parse)

lemma length_concat_ge: "\<forall>x. 0 < length (ser x) \<Longrightarrow> length xs \<le> length (concat (map ser xs))"
proof (induction xs)
  case (Cons x xs)
  then have "0 < length (ser x)" "length xs \<le> length (concat (map ser xs))"
    by simp_all
  then show ?case
    unfolding list.map concat.simps length_append list.size by linarith
qed simp

lemma length_elem_le: "x \<in> set xs \<Longrightarrow> length (ser x) \<le> length (concat (map ser xs))"
  by (induction xs) auto

lemma parse_vec:
  assumes "\<forall>x. 0 < length (ser x)" "length (ser_vec ser xs) < 2 ^ 32"
  shows "de_vec de (ser_vec ser xs @ r) = Some (xs, r)"
proof -
  have len: "length (concat (map ser xs)) < 2 ^ 32"
    using assms(2) by (simp add: ser_vec_def)
  then have "length xs < 2 ^ 32"
    using length_concat_ge [OF assms(1), of xs] by linarith
  then have "unat (of_nat (length xs) :: u32) = length xs"
    by (simp add: unat_of_nat)
  moreover have "\<forall>x\<in>set xs. length (ser x) < 2 ^ 32"
    using length_elem_le [of _ xs] len by (meson le_less_trans)
  ultimately show ?thesis
    by (simp add: ser_vec_def de_vec_def de_many_parse borsh)
qed

end

section \<open>The account types\<close>

definition ser_entry :: "observation_entry \<Rightarrow> bytes" where
  "ser_entry e = to_le_bytes (entry_timestamp e) @ to_le_bytes (tick_cumulative e)"

definition de_entry :: "observation_entry parser" where
  "de_entry = de_bind de_word (\<lambda>t. de_bind de_word (\<lambda>c.
    de_return \<lparr> entry_timestamp = t, tick_cumulative = c \<rparr>))"

definition ser_observations :: "price_observations \<Rightarrow> bytes" where
  "ser_observations x =
    to_bytes (price_source_id x) @ to_le_bytes (write_index x) @ to_le_bytes (total_entries x) @
    to_le_bytes (last_recorded_tick x) @ ser_vec ser_entry (entries x)"

definition de_observations :: "price_observations parser" where
  "de_observations =
    de_bind de_id (\<lambda>i. de_bind de_word (\<lambda>w. de_bind de_word (\<lambda>n. de_bind de_word (\<lambda>t.
    de_bind (de_vec de_entry) (\<lambda>es.
    de_return \<lparr> price_source_id = i, write_index = w, total_entries = n, last_recorded_tick = t,
      entries = es \<rparr>)))))"

definition ser_oracle_price :: "oracle_price_account \<Rightarrow> bytes" where
  "ser_oracle_price x =
    to_bytes (oracle_base_asset x) @ to_bytes (oracle_quote_asset x) @ to_le_bytes (oracle_price x) @
    to_le_bytes (oracle_timestamp x) @ to_bytes (oracle_source_id x) @ to_le_bytes (confidence_interval x)"

definition de_oracle_price :: "oracle_price_account parser" where
  "de_oracle_price =
    de_bind de_id (\<lambda>b. de_bind de_id (\<lambda>q. de_bind de_word (\<lambda>p. de_bind de_word (\<lambda>t. de_bind de_id (\<lambda>i.
    de_bind de_word (\<lambda>c.
    de_return \<lparr> oracle_base_asset = b, oracle_quote_asset = q, oracle_price = p, oracle_timestamp = t,
      oracle_source_id = i, confidence_interval = c \<rparr>))))))"

definition ser_current_tick :: "current_tick_account \<Rightarrow> bytes" where
  "ser_current_tick x = to_le_bytes (tick x) @ to_le_bytes (last_updated x)"

definition de_current_tick :: "current_tick_account parser" where
  "de_current_tick = de_bind de_word (\<lambda>t. de_bind de_word (\<lambda>u. de_return \<lparr> tick = t, last_updated = u \<rparr>))"

interpretation borsh_entry: borsh_type ser_entry de_entry
  by unfold_locales (simp add: ser_entry_def de_entry_def borsh)

interpretation borsh_observations: borsh_type ser_observations de_observations
  by unfold_locales
    (simp add: ser_observations_def de_observations_def borsh borsh_entry.parse_vec ser_entry_def)

interpretation borsh_oracle_price: borsh_type ser_oracle_price de_oracle_price
  by unfold_locales (simp add: ser_oracle_price_def de_oracle_price_def borsh)

interpretation borsh_current_tick: borsh_type ser_current_tick de_current_tick
  by unfold_locales (simp add: ser_current_tick_def de_current_tick_def borsh)

section \<open>A concrete environment\<close>

text \<open>The tick mathematics of the demonstration is linear, a stand-in with the right types.\<close>

definition borsh_twap_env :: "bytes twap_env" where
  "borsh_twap_env = token_env.extend borsh_env
    \<lparr> observations_codec = borsh_codec ser_observations de_observations,
      oracle_price_codec = borsh_codec ser_oracle_price de_oracle_price,
      current_tick_codec = borsh_codec ser_current_tick de_current_tick,
      MIN_SQRT_RATIO = 1, MIN_TICK = word_of_int (- 887272), MAX_TICK = word_of_int 887272,
      get_tick_at_sqrt_ratio = (\<lambda>r. Some (word_of_int (int (unat r div 2 ^ 96) - 1))),
      get_sqrt_ratio_at_tick = (\<lambda>t. Some (word_of_int (sint t + 887273))),
      full_math_mul_div = (\<lambda>a b c. Some (a * b)) \<rparr>"

lemma twap_env_simps [simp]:
  "default_program_owner borsh_twap_env = 0"
  "account_default borsh_twap_env = empty_account"
  "definition_codec borsh_twap_env = borsh_codec ser_definition de_definition"
  "holding_codec borsh_twap_env = borsh_codec ser_holding de_holding"
  "sha256 borsh_twap_env = sha256 borsh_env"
  "for_public_pda borsh_twap_env = for_public_pda borsh_env"
  "clock_01_program_account_id borsh_twap_env = 1"
  "clock_timestamp borsh_twap_env = from_le_bytes"
  "spel_validate borsh_twap_env = spel_validate borsh_env"
  "observations_codec borsh_twap_env = borsh_codec ser_observations de_observations"
  "oracle_price_codec borsh_twap_env = borsh_codec ser_oracle_price de_oracle_price"
  "current_tick_codec borsh_twap_env = borsh_codec ser_current_tick de_current_tick"
  by (simp_all add: borsh_twap_env_def token_env.extend_def borsh_env_def)

interpretation borsh_oracle: oracle_runtime borsh_twap_env
proof (rule oracle_runtime.intro)
  show "codec_laws (observations_codec borsh_twap_env)"
    using borsh_observations.codec by simp
qed

end
