(* ===== verification/Amm_Borsh.thy ===== *)
theory Amm_Borsh
  imports Amm_Ledger Twap_Borsh
begin

text \<open>
  The Borsh codecs of the AMM's accounts, and a concrete environment on which the interface
  \<^theory_text>\<open>amm_runtime\<close> is interpreted.
\<close>

section \<open>The account types\<close>

definition ser_config :: "amm_config \<Rightarrow> bytes" where
  "ser_config c =
    to_bytes (config_token_program c) @ to_bytes (config_oracle_program c) @ to_bytes (config_authority c) @
    to_le_bytes (swap_fee_bps c) @ to_le_bytes (protocol_fee_bps c)"

definition de_config :: "amm_config parser" where
  "de_config = de_bind de_id (\<lambda>t. de_bind de_id (\<lambda>orc. de_bind de_id (\<lambda>adm. de_bind de_word (\<lambda>f.
    de_bind de_word (\<lambda>pf. de_return
      \<lparr> config_token_program = t, config_oracle_program = orc, config_authority = adm, swap_fee_bps = f,
        protocol_fee_bps = pf \<rparr>)))))"

definition ser_pool :: "pool_definition \<Rightarrow> bytes" where
  "ser_pool p =
    to_bytes (definition_token_a_id p) @ to_bytes (definition_token_b_id p) @ to_bytes (vault_a_id p) @
    to_bytes (vault_b_id p) @ to_bytes (liquidity_pool_id p) @ to_le_bytes (liquidity_pool_supply p) @
    to_le_bytes (reserve_a p) @ to_le_bytes (reserve_b p)"

definition de_pool :: "pool_definition parser" where
  "de_pool = de_bind de_id (\<lambda>ta. de_bind de_id (\<lambda>tb. de_bind de_id (\<lambda>va. de_bind de_id (\<lambda>vb. de_bind de_id (\<lambda>lp.
    de_bind de_word (\<lambda>s. de_bind de_word (\<lambda>ra. de_bind de_word (\<lambda>rb. de_return
      \<lparr> definition_token_a_id = ta, definition_token_b_id = tb, vault_a_id = va, vault_b_id = vb,
        liquidity_pool_id = lp, liquidity_pool_supply = s, reserve_a = ra, reserve_b = rb \<rparr>))))))))"

interpretation borsh_config: borsh_type ser_config de_config
  by unfold_locales (simp add: ser_config_def de_config_def borsh)

interpretation borsh_pool: borsh_type ser_pool de_pool
  by unfold_locales (simp add: ser_pool_def de_pool_def borsh)

text \<open>The two account types are told apart by their length.\<close>

lemma de_config_consumes: "de_config bs = Some (c, r) \<Longrightarrow> length bs = 128 + length r"
  unfolding de_config_def
  by (auto elim!: de_bind_SomeE dest!: de_id_consumes de_word_consumes)

lemma de_pool_consumes: "de_pool bs = Some (p, r) \<Longrightarrow> length bs = 208 + length r"
  unfolding de_pool_def
  by (auto elim!: de_bind_SomeE dest!: de_id_consumes de_word_consumes)

section \<open>A concrete environment\<close>

text \<open>
  The hash of the demonstration mixes the length, the leading word, and the second word or else the
  last byte: a stand-in of the right type.
\<close>

definition demo_hash :: "bytes \<Rightarrow> u256" where
  "demo_hash bs = of_nat (1000000 * length bs) + leading_word bs +
    (if 64 \<le> length bs then 3 * leading_word (drop 32 bs) else of_nat (unat (last bs)))"

lemma demo_hash_words:
  "demo_hash (to_bytes a @ to_bytes b @ r) = of_nat (1000000 * (64 + length r)) + a + 3 * b"
  "demo_hash (to_bytes a @ to_bytes b) = 64000000 + a + 3 * b"
  "length r < 32 \<Longrightarrow> r \<noteq> [] \<Longrightarrow>
    demo_hash (to_bytes a @ r) = of_nat (1000000 * (32 + length r)) + a + of_nat (unat (last r))"
  using leading_word_id [of b "[]"] by (simp_all add: demo_hash_def)

definition borsh_amm_env :: "bytes amm_env" where
  "borsh_amm_env = twap_env.extend (borsh_twap_env \<lparr> sha256 := demo_hash \<rparr>)
    \<lparr> config_codec = borsh_codec ser_config de_config, pool_codec = borsh_codec ser_pool de_pool,
      uint_root = word_sqrt \<rparr>"

lemma amm_env_simps [simp]:
  "default_program_owner borsh_amm_env = 0"
  "account_default borsh_amm_env = empty_account"
  "definition_codec borsh_amm_env = borsh_codec ser_definition de_definition"
  "holding_codec borsh_amm_env = borsh_codec ser_holding de_holding"
  "sha256 borsh_amm_env = demo_hash"
  "for_public_pda borsh_amm_env p seed = p + 7 * seed"
  "clock_01_program_account_id borsh_amm_env = 1"
  "clock_timestamp borsh_amm_env = from_le_bytes"
  "spel_validate borsh_amm_env xs = list_all (\<lambda>(fs, a). list_all (flag_holds empty_account a) fs) xs"
  "current_tick_codec borsh_amm_env = borsh_codec ser_current_tick de_current_tick"
  "config_codec borsh_amm_env = borsh_codec ser_config de_config"
  "pool_codec borsh_amm_env = borsh_codec ser_pool de_pool"
  "uint_root borsh_amm_env = word_sqrt"
  by (simp_all add: borsh_amm_env_def twap_env.extend_def borsh_twap_env_def token_env.extend_def borsh_env_def)

interpretation borsh_amm: amm_runtime borsh_amm_env 4
proof (rule amm_runtime.intro)
  show "codec_laws (config_codec borsh_amm_env)" "codec_laws (pool_codec borsh_amm_env)"
    using borsh_config.codec borsh_pool.codec by simp_all
  show "decode (pool_codec borsh_amm_env) d = None" if "decode (config_codec borsh_amm_env) d = Some c" for d c
  proof -
    have "length d = 128"
      using that by (auto simp: borsh_codec_simps dest: de_config_consumes split: option.splits list.splits)
    then show ?thesis
      by (auto simp: borsh_codec_simps dest: de_pool_consumes split: option.splits list.splits)
  qed
  show "decode (config_codec borsh_amm_env) (data (account_default borsh_amm_env)) = None"
    "decode (pool_codec borsh_amm_env) (data (account_default borsh_amm_env)) = None"
    by (simp_all add: borsh_codec_simps de_config_def de_pool_def de_bind_def de_id_def)
qed (simp_all add: word_sqrt_floor_root default_owned_def)

interpretation borsh_amm_tokens: token_runtime borsh_amm_env 2
proof (rule token_runtime.intro)
  show "codec_laws (definition_codec borsh_amm_env)" "codec_laws (holding_codec borsh_amm_env)"
    using borsh_definition.codec borsh_holding.codec by simp_all
qed (simp_all add: default_owned_def)

end
