(* ===== verification/Amm_Solvency.thy ===== *)
theory Amm_Solvency
  imports Amm_Ledger
begin

text \<open>
  The AMM and the Token program together.  The transfers an instruction emits bring each vault
  exactly what the instruction adds to its reserve; executed by the Token program on the ledger, they
  leave every vault with at least its reserve.
\<close>

section \<open>The books of one instruction\<close>

definition books_balance :: "pool_definition \<Rightarrow> pool_definition \<Rightarrow> amm_call list \<Rightarrow> bool" where
  "books_balance p p' cs \<longleftrightarrow>
    int (unat (reserve_a p')) - int (unat (reserve_a p)) = flow (vault_a_id p) cs \<and>
    int (unat (reserve_b p')) - int (unat (reserve_b p)) = flow (vault_b_id p) cs"

lemma swap_ran_books:
  assumes "swap_ran E amm ctx R [config, pool, va, vb, uin, uout, tk, clk, fh] c p p' ds cs"
    and "distinct (map account_id [config, pool, va, vb, uin, uout, tk, clk, fh])"
  shows "books_balance p p' cs"
proof -
  from assms(1) obtain t in_a ha hb net out x f td tw tick_call where run:
    "swap_checks E ctx config pool va vb uin uout tk clk fh amm = Inr (p, c, t, ha, hb)"
    "traded p p' in_a net out"
    "cs = swap_transfers E (program_owner (account uin)) (account_id uin)
          (account_id (if in_a then va else vb)) (account_id (if in_a then vb else va)) (account_id uout)
          (account_id fh) (account_id pool) (account_id config) td tw x out f @ [tick_call]"
    "unat x = unat net + unat f"
    "reports_price E (config_oracle_program c) (account_id config) (account_id pool) p' tick_call"
    unfolding swap_ran_def list.case by blast
  have vaults: "vault_a_id p = account_id va" "vault_b_id p = account_id vb"
    using run(1) by (auto elim: swap_checks_run)
  let ?calls = "\<lambda>vd vw. swap_transfers E (program_owner (account uin)) (account_id uin) vd vw (account_id uout)
    (account_id fh) (account_id pool) (account_id config) td tw x out f"
  have flows: "flow vd (?calls vd vw) = int (unat x) - int (unat f)" "flow vw (?calls vd vw) = - int (unat out)"
    if "{vd, vw} = {account_id va, account_id vb}" for vd vw
    using assms(2) that by (auto simp: flow_swap_transfers doubleton_eq_iff)
  have "transfer_flow v tick_call = 0" for v
    using run(5) by (rule reports_price_flow)
  then show ?thesis
    using flows [of "account_id va" "account_id vb"] flows [of "account_id vb" "account_id va"] run(2-4)
    by (cases in_a) (auto simp: books_balance_def vaults traded_def insert_commute dest!: uint_sum)
qed

lemma add_ran_books:
  assumes "add_ran E amm lp xa xb [config, pool, va, vb, lpd, ua, ub, ulp, tk, clk] c p p' ds cs"
    and "distinct (map account_id [config, pool, va, vb, lpd, ua, ub, ulp, tk, clk])"
  shows "books_balance p p' cs"
  using assms unfolding add_ran_def by (auto simp: books_balance_def reports_price_flow dest!: uint_sum)

lemma remove_ran_books:
  assumes "remove_ran E amm lp xa xb [config, pool, va, vb, lpd, ua, ub, ulp, tk, clk] c p p' ds cs"
    and "distinct (map account_id [config, pool, va, vb, lpd, ua, ub, ulp, tk, clk])"
  shows "books_balance p p' cs"
  using assms unfolding remove_ran_def by (auto simp: books_balance_def reports_price_flow dest!: uint_sum)

section \<open>Executing the calls\<close>

text \<open>
  A token call is a run of the Token program on the accounts its identifiers name; a call to another
  program changes no account that program does not own, unless nobody owns it.
\<close>

inductive call_step ::
  "('d, 'x) token_env_scheme \<Rightarrow> account_id \<Rightarrow> 'd ledger \<Rightarrow> amm_call \<Rightarrow> 'd ledger \<Rightarrow> bool" for E T where
  token: "\<lbrakk> callee c = T; instruction_data c = TokenCall instruction; reads_state s accounts;
            map account_id accounts = pre_state_ids c; token_main E T instruction accounts = Inr ds \<rbrakk>
          \<Longrightarrow> call_step E T s c (apply_diffs E T s ds)"
| elsewhere: "\<lbrakk> callee c \<noteq> T;
            \<And>i. program_owner (s i) \<noteq> callee c \<Longrightarrow> \<not> default_owned E (s i) \<Longrightarrow>
              program_owner (s' i) = program_owner (s i) \<and> data (s' i) = data (s i) \<rbrakk>
          \<Longrightarrow> call_step E T s c s'"

inductive calls_run ::
  "('d, 'x) token_env_scheme \<Rightarrow> account_id \<Rightarrow> 'd ledger \<Rightarrow> amm_call list \<Rightarrow> 'd ledger \<Rightarrow> bool" for E T where
  stop: "calls_run E T s [] s"
| more: "call_step E T s c s' \<Longrightarrow> calls_run E T s' cs s'' \<Longrightarrow> calls_run E T s (c # cs) s''"

text \<open>The units of a fungible holding kept by the Token program.\<close>

definition holds ::
  "('d, 'x) token_env_scheme \<Rightarrow> account_id \<Rightarrow> 'd ledger \<Rightarrow> account_id \<Rightarrow> u128 \<Rightarrow> bool" where
  "holds E T s v n \<longleftrightarrow> program_owner (s v) = T \<and>
    (\<exists>d. decode (holding_codec E) (data (s v)) = Some (Fungible d n))"

text \<open>A call that either is a transfer or does not name the account.\<close>

definition moves_only_by_transfer :: "account_id \<Rightarrow> account_id \<Rightarrow> amm_call \<Rightarrow> bool" where
  "moves_only_by_transfer T v c \<longleftrightarrow>
    (case instruction_data c of
       OracleCall i \<Rightarrow> callee c \<noteq> T
     | TokenCall i \<Rightarrow> callee c = T \<and> (v \<notin> set (pre_state_ids c) \<or> (\<exists>n a b. i = Transfer n \<and> pre_state_ids c = [a, b])))"

lemma transfer_writes:
  assumes "transfer E a b n = Inr ds"
  obtains ha hb ha' hb' da db where
    "decode (holding_codec E) (data (account a)) = Some ha"
    "if account b = account_default E then zeroized_clone_from ha = hb
     else decode (holding_codec E) (data (account b)) = Some hb"
    "move_balance ha hb n = Inr (ha', hb')"
    "encode (holding_codec E) ha' = Some da" "encode (holding_codec E) hb' = Some db"
    "ds = [NewData a (Add 0) da, NewData b (Add 0) db]"
  using assms unfolding transfer_def inversion if_expect_success encoded_success by blast

context token_runtime
begin

lemma transfer_call_holds:
  assumes "reads_state s [a, b]" "token_main E T (Transfer n) [a, b] = Inr ds" "holds E T s v x"
  shows "\<exists>y. holds E T (apply_diffs E T s ds) v y \<and>
    int (unat y) = int (unat x) + (if account_id b = v then int (unat n) else 0) -
      (if account_id a = v then int (unat n) else 0)"
proof -
  from assms(2) have run: "transfer E a b n = Inr ds"
    by (auto simp: token_main_def success)
  from run obtain ha hb ha' hb' da db where w:
    "decode (holding_codec E) (data (account a)) = Some ha"
    "if account b = account_default E then zeroized_clone_from ha = hb
     else decode (holding_codec E) (data (account b)) = Some hb"
    "move_balance ha hb n = Inr (ha', hb')"
    "encode (holding_codec E) ha' = Some da" "encode (holding_codec E) hb' = Some db"
    "ds = [NewData a (Add 0) da, NewData b (Add 0) db]"
    by (rule transfer_writes)
  have dec: "decode (holding_codec E) da = Some ha'" "decode (holding_codec E) db = Some hb'"
    using w(4,5) codec_laws.round_trip [OF holding_laws] by blast+
  have ids: "account_id a \<noteq> account_id b" "account a = s (account_id a)" "account b = s (account_id b)"
    using assms(1) by (simp_all add: reads_state_def)
  obtain d where v: "program_owner (s v) = T" "decode (holding_codec E) (data (s v)) = Some (Fungible d x)"
    using assms(3) by (auto simp: holds_def)
  consider "v = account_id a" | "v = account_id b" | "v \<noteq> account_id a" "v \<noteq> account_id b"
    by blast
  then show ?thesis
  proof cases
    case 1
    then have "ha = Fungible d x"
      using w(1) v(2) ids(2) by simp
    then obtain y e z where m: "ha' = Fungible d y" "unat x = unat n + unat y"
      using w(3) by (cases hb) (auto simp: success checked_sub_Some)
    then have "holds E T (apply_diffs E T s ds) v y"
      using 1 ids v(1) dec(1) by (simp add: holds_def w(6) post_owner_def default_owned_def token_is_a_program)
    then show ?thesis
      using m(2) 1 ids(1) by (intro exI [of _ y]) (simp add: uint_sum)
  next
    case 2
    have "account b \<noteq> account_default E"
      using v(2) 2 ids(3) empty_holding by auto
    then have "hb = Fungible d x"
      using w(2) v(2) 2 ids(3) by simp
    then obtain y where m: "hb' = Fungible d y" "unat y = unat x + unat n"
      using w(3) by (cases ha) (auto simp: success checked_add_Some)
    then have "holds E T (apply_diffs E T s ds) v y"
      using 2 ids v(1) dec(2) by (simp add: holds_def w(6) post_owner_def default_owned_def token_is_a_program)
    then show ?thesis
      using m(2) 2 ids(1) by (intro exI [of _ y]) (simp add: uint_sum)
  next
    case 3
    then show ?thesis
      using assms(3) by (intro exI [of _ x]) (simp add: holds_def w(6))
  qed
qed

lemma call_step_holds:
  assumes "call_step E T s c s'" "moves_only_by_transfer T v c" "holds E T s v x"
  shows "\<exists>y. holds E T s' v y \<and> int (unat y) = int (unat x) + transfer_flow v c"
  using assms(1)
proof cases
  case (token instruction accounts ds)
  show ?thesis
  proof (cases "v \<in> set (pre_state_ids c)")
    case True
    then obtain n a b where i: "instruction = Transfer n" "pre_state_ids c = [a, b]"
      using assms(2) token(3) by (auto simp: moves_only_by_transfer_def)
    then obtain A B where acc: "accounts = [A, B]" "account_id A = a" "account_id B = b"
      using token(5) by (auto simp: map_eq_Cons_conv)
    show ?thesis
      using transfer_call_holds [of s A B n ds v x] token(1,3,4,6) assms(3) i acc
      by (auto simp: transfer_flow.simps)
  next
    case False
    have "(account_id \<circ> pre_state) ` set ds = set (pre_state_ids c)"
      using token_main_mirrors [OF token(6)] token(5) by (metis image_comp image_set)
    then have "s' v = s v"
      using False token(1) by (simp add: apply_diffs_other)
    moreover have "transfer_flow v c = 0"
      using False by (auto simp: transfer_flow.simps split: callee_instruction.splits token_instruction.splits list.splits)
    ultimately show ?thesis
      using assms(3) by (intro exI [of _ x]) (simp add: holds_def)
  qed
next
  case elsewhere
  have "\<not> default_owned E (s v)" "program_owner (s v) \<noteq> callee c"
    using assms(3) elsewhere(1) token_is_a_program by (auto simp: holds_def default_owned_def)
  then have "holds E T s' v x"
    using elsewhere(2) [of v] assms(3) by (simp add: holds_def)
  moreover have "transfer_flow v c = 0"
    using assms(2) elsewhere(1)
    by (auto simp: transfer_flow.simps moves_only_by_transfer_def split: callee_instruction.splits)
  ultimately show ?thesis
    by auto
qed

lemma calls_run_holds:
  assumes "calls_run E T s cs s'" "list_all (moves_only_by_transfer T v) cs" "holds E T s v x"
  shows "\<exists>y. holds E T s' v y \<and> int (unat y) = int (unat x) + flow v cs"
  using assms
proof (induction arbitrary: x)
  case (more s c s' cs s'')
  then obtain y where y: "holds E T s' v y" "int (unat y) = int (unat x) + transfer_flow v c"
    using call_step_holds by (metis list.pred_inject(2))
  then obtain z where z: "holds E T s'' v z" "int (unat z) = int (unat y) + flow v cs"
    using more by (metis list.pred_inject(2))
  then have "int (unat z) = int (unat x) + flow v (c # cs)"
    unfolding flow_simps using y(2) by linarith
  then show ?case
    using z(1) by blast
qed auto

text \<open>An account neither program owns is left alone by the calls to both.\<close>

lemma calls_run_keeps:
  assumes "calls_run E T s cs s'" "\<forall>c\<in>set cs. callee c \<in> {T, oracle}"
    and "program_owner (s i) \<notin> {T, oracle}" "\<not> default_owned E (s i)"
    and "\<forall>c\<in>set cs. callee c = T \<longrightarrow> i \<notin> set (pre_state_ids c)"
  shows "program_owner (s' i) = program_owner (s i) \<and> data (s' i) = data (s i)"
  using assms
proof induction
  case (more s c s' cs s'')
  have "program_owner (s' i) = program_owner (s i) \<and> data (s' i) = data (s i)"
    using more.hyps(1)
  proof cases
    case (token instruction accounts ds)
    have "(account_id \<circ> pre_state) ` set ds = set (pre_state_ids c)"
      using token_main_mirrors [OF token(6)] token(5) by (metis image_comp image_set)
    then show ?thesis
      using more.prems(4) token(1,2) by (simp add: apply_diffs_other)
  next
    case elsewhere
    then show ?thesis
      using elsewhere(2) [of i] more.prems by auto
  qed
  then show ?case
    using more by (simp add: default_owned_def)
qed simp

end

section \<open>Solvency\<close>

text \<open>Each vault of a stored pool is a fungible holding of at least the recorded reserve.\<close>

definition solvent ::
  "('d, 'x) amm_env_scheme \<Rightarrow> account_id \<Rightarrow> account_id \<Rightarrow> 'd ledger \<Rightarrow> account_id \<Rightarrow> bool" where
  "solvent E T amm s pool_id \<longleftrightarrow>
    (\<exists>p x y. stored_pool E amm (s pool_id) = Some p \<and> holds E T s (vault_a_id p) x \<and> reserve_a p \<le> x \<and>
       holds E T s (vault_b_id p) y \<and> reserve_b p \<le> y)"

text \<open>What an instruction on a pool does to the ledger and asks of it.\<close>

definition calls_ok :: "account_id \<Rightarrow> account_id \<Rightarrow> account_id \<Rightarrow> pool_definition \<Rightarrow> amm_call list \<Rightarrow> bool" where
  "calls_ok T oracle pool_id p cs \<longleftrightarrow>
    list_all (\<lambda>c. moves_only_by_transfer T (vault_a_id p) c \<and> moves_only_by_transfer T (vault_b_id p) c \<and>
      callee c \<in> {T, oracle} \<and> (callee c = T \<longrightarrow> pool_id \<notin> set (pre_state_ids c))) cs"

definition settles ::
  "('d, 'x) amm_env_scheme \<Rightarrow> account_id \<Rightarrow> account_id \<Rightarrow> 'd account_with_metadata list \<Rightarrow> account_id \<Rightarrow>
    amm_config \<Rightarrow> pool_definition \<Rightarrow> pool_definition \<Rightarrow> 'd state_diff list \<Rightarrow> amm_call list \<Rightarrow> bool" where
  "settles E T amm accounts pool_id c p p' ds cs \<longleftrightarrow>
    (\<exists>config pool d. config = accounts ! 0 \<and> pool = accounts ! 1 \<and> pool \<in> set accounts \<and> account_id pool = pool_id \<and>
       decode (config_codec E) (data (account config)) = Some c \<and>
       decode (pool_codec E) (data (account pool)) = Some p \<and> encode (pool_codec E) p' = Some d \<and>
       map pre_state ds = accounts \<and> NewData pool (Add 0) d \<in> set ds \<and>
       (\<forall>d'\<in>set ds. pre_state d' = pool \<or> d' = Unchanged (pre_state d')) \<and> same_identity p p' \<and>
       (books_balance p p' cs \<or>
        cs \<noteq> [] \<and> flow (vault_a_id p) cs = 0 \<and> flow (vault_b_id p) cs = 0 \<and>
        (\<exists>va\<in>set accounts. account_id va = vault_a_id p \<and>
          (\<exists>da. decode (holding_codec E) (data (account va)) = Some (Fungible da (reserve_a p')))) \<and>
        (\<exists>vb\<in>set accounts. account_id vb = vault_b_id p \<and>
          (\<exists>db. decode (holding_codec E) (data (account vb)) = Some (Fungible db (reserve_b p'))))) \<and>
       (config_token_program c = T \<and> config_oracle_program c \<noteq> T \<longrightarrow>
         calls_ok T (config_oracle_program c) pool_id p cs))"

lemma swap_ran_settles:
  assumes "swap_ran E amm ctx R [config, pool, va, vb, uin, uout, tk, clk, fh] c p p' ds cs"
    and "distinct (map account_id [config, pool, va, vb, uin, uout, tk, clk, fh])"
  shows "settles E T amm [config, pool, va, vb, uin, uout, tk, clk, fh] (account_id pool) c p p' ds cs"
proof -
  from assms(1) obtain t in_a ha hb d net out x f td tw tick_call where run:
    "swap_checks E ctx config pool va vb uin uout tk clk fh amm = Inr (p, c, t, ha, hb)"
    "traded p p' in_a net out" "encode (pool_codec E) p' = Some d"
    "ds = [Unchanged config, NewData pool (Add 0) d, Unchanged va, Unchanged vb, Unchanged uin,
          Unchanged uout, Unchanged tk, Unchanged clk, Unchanged fh]"
    "cs = swap_transfers E (program_owner (account uin)) (account_id uin)
          (account_id (if in_a then va else vb)) (account_id (if in_a then vb else va)) (account_id uout)
          (account_id fh) (account_id pool) (account_id config) td tw x out f @ [tick_call]"
    "reports_price E (config_oracle_program c) (account_id config) (account_id pool) p' tick_call"
    unfolding swap_ran_def list.case by blast
  have chk: "vault_a_id p = account_id va" "vault_b_id p = account_id vb"
    "program_owner (account uin) = config_token_program c"
    using run(1) by (auto elim: swap_checks_run)
  have "calls_ok T (config_oracle_program c) (account_id pool) p cs"
    if "config_token_program c = T" "config_oracle_program c \<noteq> T"
    using that assms(2) run(6) unfolding run(5) chk
    by (cases in_a) (auto simp: calls_ok_def swap_transfers_def moves_only_by_transfer_def chk reports_price_def)
  then show ?thesis
    using swap_ran_books [OF assms] swap_ran_checked [OF assms(1)] run(2-4)
    by (auto simp: settles_def traded_def)
qed

lemma add_ran_settles:
  assumes "add_ran E amm lp xa xb [config, pool, va, vb, lpd, ua, ub, ulp, tk, clk] c p p' ds cs"
    and "distinct (map account_id [config, pool, va, vb, lpd, ua, ub, ulp, tk, clk])"
  shows "settles E T amm [config, pool, va, vb, lpd, ua, ub, ulp, tk, clk] (account_id pool) c p p' ds cs"
proof -
  have "calls_ok T (config_oracle_program c) (account_id pool) p cs"
    if "config_token_program c = T" "config_oracle_program c \<noteq> T"
    using that assms by (auto simp: add_ran_def calls_ok_def moves_only_by_transfer_def reports_price_def)
  then show ?thesis
    using add_ran_books [OF assms] assms(1) by (auto simp: settles_def add_ran_def)
qed

lemma remove_ran_settles:
  assumes "remove_ran E amm lp xa xb [config, pool, va, vb, lpd, ua, ub, ulp, tk, clk] c p p' ds cs"
    and "distinct (map account_id [config, pool, va, vb, lpd, ua, ub, ulp, tk, clk])"
  shows "settles E T amm [config, pool, va, vb, lpd, ua, ub, ulp, tk, clk] (account_id pool) c p p' ds cs"
proof -
  have "calls_ok T (config_oracle_program c) (account_id pool) p cs"
    if "config_token_program c = T" "config_oracle_program c \<noteq> T"
    using that assms by (auto simp: remove_ran_def calls_ok_def moves_only_by_transfer_def reports_price_def)
  then show ?thesis
    using remove_ran_books [OF assms] assms(1) by (auto simp: settles_def remove_ran_def)
qed

lemma sync_ran_settles:
  assumes "sync_ran E amm [config, pool, va, vb, tk, clk] c p p' ds cs"
    and "distinct (map account_id [config, pool, va, vb, tk, clk])"
  shows "settles E T amm [config, pool, va, vb, tk, clk] (account_id pool) c p p' ds cs"
  using assms
  by (auto simp: settles_def sync_ran_def calls_ok_def moves_only_by_transfer_def reports_price_flow)
    (auto simp: reports_price_def)

locale amm_with_tokens = amm_runtime E amm + token_runtime E T
  for E :: "('d, 'x) amm_env_scheme" and amm T :: account_id +
  assumes programs_apart: "amm \<noteq> T"
begin

text \<open>The diffs of a settled instruction change the pool alone.\<close>

lemma settles_diffs:
  assumes "settles E T amm accounts pool_id c p p' ds cs" "reads_state s accounts" "program_owner (s pool_id) = amm"
  shows "stored_pool E amm (apply_diffs E amm s ds pool_id) = Some p'"
    and "program_owner (apply_diffs E amm s ds pool_id) = amm"
    and "i \<noteq> pool_id \<Longrightarrow> apply_diffs E amm s ds i = s i"
proof -
  from assms(1) obtain pool d where run: "pool \<in> set accounts" "account_id pool = pool_id"
    "encode (pool_codec E) p' = Some d" "map pre_state ds = accounts" "NewData pool (Add 0) d \<in> set ds"
    "\<forall>d'\<in>set ds. pre_state d' = pool \<or> d' = Unchanged (pre_state d')"
    unfolding settles_def by blast
  have ids: "map (account_id \<circ> pre_state) ds = map account_id accounts"
    by (simp flip: run(4))
  then have dist: "distinct (map (account_id \<circ> pre_state) ds)"
    using assms(2) by (simp add: reads_state_def)
  have at: "account a = s (account_id a)" if "a \<in> set accounts" for a
    using assms(2) that by (simp add: reads_state_def list_all_iff)
  have pool: "apply_diffs E amm s ds pool_id = post_account E amm (NewData pool (Add 0) d)"
    using apply_diffs_at [OF dist run(5), of E amm s] run(2) by simp
  have "program_owner (account pool) = amm" "\<not> default_owned E (account pool)"
    using at [OF run(1)] run(2) assms(3) amm_owned by (simp_all add: default_owned_def)
  then show "program_owner (apply_diffs E amm s ds pool_id) = amm"
    "stored_pool E amm (apply_diffs E amm s ds pool_id) = Some p'"
    unfolding pool using pool_decode [OF run(3)] by (simp_all add: post_owner_def stored_pool_def)
  show "apply_diffs E amm s ds i = s i" if "i \<noteq> pool_id"
    using dist
  proof (cases rule: apply_diffs_cases [where E = E and p = amm and s = s and i = i])
    case (written d')
    then have pre: "pre_state d' \<in> set accounts"
      using run(4) by auto
    have "pre_state d' \<noteq> pool"
      using written(2) run(2) that by auto
    then have "d' = Unchanged (pre_state d')"
      using written(1) run(6) by blast
    then have "post_account E amm d' = account (pre_state d')"
      by (metis post_account.simps(1))
    then show ?thesis
      using written at [OF pre] by simp
  qed
qed

lemma settles_solvent:
  assumes "settles E T amm accounts pool_id c p p' ds cs" "reads_state s accounts" "solvent E T amm s pool_id"
    and "config_token_program c = T" "config_oracle_program c \<notin> {T, amm}"
    and "calls_run E T (apply_diffs E amm s ds) cs s'"
  shows "solvent E T amm s' pool_id"
proof -
  let ?s = "apply_diffs E amm s ds"
  from assms(1) obtain pool where pool: "pool \<in> set accounts" "account_id pool = pool_id"
    "decode (pool_codec E) (data (account pool)) = Some p" "same_identity p p'"
    unfolding settles_def by blast
  have at: "account a = s (account_id a)" if "a \<in> set accounts" for a
    using assms(2) that by (simp add: reads_state_def list_all_iff)
  from assms(3) obtain x y where before: "program_owner (s pool_id) = amm"
    "holds E T s (vault_a_id p) x" "reserve_a p \<le> x" "holds E T s (vault_b_id p) y" "reserve_b p \<le> y"
    using pool(3) at [OF pool(1)] pool(2) by (auto simp: solvent_def stored_pool_def split: if_splits)
  note diffs = settles_diffs [OF assms(1,2) before(1)]
  have ok: "calls_ok T (config_oracle_program c) pool_id p cs"
    using assms(1,4,5) unfolding settles_def by blast
  have vault: "\<exists>y. holds E T s' v y \<and> int (unat y) = int (unat x) + flow v cs"
    if "holds E T s v x" "v \<in> {vault_a_id p, vault_b_id p}" for v x
  proof (rule calls_run_holds [OF assms(6)])
    have "v \<noteq> pool_id"
      using that(1) before(1) programs_apart by (auto simp: holds_def)
    then show "holds E T ?s v x"
      using that(1) diffs(3) by (simp add: holds_def)
    show "list_all (moves_only_by_transfer T v) cs"
      using ok that(2) by (auto simp: calls_ok_def list_all_iff)
  qed
  obtain x' where x': "holds E T s' (vault_a_id p) x'" "int (unat x') = int (unat x) + flow (vault_a_id p) cs"
    using vault [OF before(2)] by blast
  obtain y' where y': "holds E T s' (vault_b_id p) y'" "int (unat y') = int (unat y) + flow (vault_b_id p) cs"
    using vault [OF before(4)] by blast
  have "reserve_a p' \<le> x' \<and> reserve_b p' \<le> y'"
  proof (cases "books_balance p p' cs")
    case True
    then have "unat (reserve_a p') \<le> unat x'" "unat (reserve_b p') \<le> unat y'"
      using before(3,5) x'(2) y'(2) unfolding books_balance_def word_le_nat_alt by linarith+
    then show ?thesis
      by (simp add: word_le_nat_alt)
  next
    case False
    then obtain va vb da db where sync: "flow (vault_a_id p) cs = 0" "flow (vault_b_id p) cs = 0"
      "va \<in> set accounts" "account_id va = vault_a_id p"
      "decode (holding_codec E) (data (account va)) = Some (Fungible da (reserve_a p'))"
      "vb \<in> set accounts" "account_id vb = vault_b_id p"
      "decode (holding_codec E) (data (account vb)) = Some (Fungible db (reserve_b p'))"
      using assms(1) unfolding settles_def by blast
    have "x = reserve_a p'" "y = reserve_b p'"
      using before(2,4) at [OF sync(3)] at [OF sync(6)] sync by (auto simp: holds_def)
    then have "unat x' = unat (reserve_a p')" "unat y' = unat (reserve_b p')"
      using x'(2) y'(2) sync(1,2) by (simp_all flip: of_nat_eq_iff [where 'a = int])
    then show ?thesis
      by (simp add: word_le_nat_alt)
  qed
  moreover have "program_owner (s' pool_id) = program_owner (?s pool_id) \<and> data (s' pool_id) = data (?s pool_id)"
    using ok assms(5) diffs(2) programs_apart amm_owned
    by (intro calls_run_keeps [OF assms(6), of "config_oracle_program c"])
      (auto simp: calls_ok_def list_all_iff default_owned_def)
  then have "stored_pool E amm (s' pool_id) = Some p'"
    using diffs(1,2) by (simp add: stored_pool_def)
  moreover have "vault_a_id p' = vault_a_id p" "vault_b_id p' = vault_b_id p"
    using pool(4) by (simp_all add: same_identity_def)
  ultimately show ?thesis
    using x'(1) y'(1) by (auto simp: solvent_def)
qed

end

text \<open>The instructions that move the reserves of a pool, the account after the configuration.\<close>

definition moves_reserves :: "amm_instruction \<Rightarrow> bool" where
  "moves_reserves i \<longleftrightarrow> (case i of SwapExactInput _ _ _ \<Rightarrow> True | SwapExactOutput _ _ _ \<Rightarrow> True
     | AddLiquidity _ _ _ _ \<Rightarrow> True | RemoveLiquidity _ _ _ _ \<Rightarrow> True | SyncReserves \<Rightarrow> True | _ \<Rightarrow> False)"

lemma reserve_move_cases:
  assumes "amm_main E amm i accounts = Inr (ds, cs, w)" "moves_reserves i"
  obtains
    (swap) config pool va vb uin uout tk clk fh ctx R c p p' where
      "accounts = [config, pool, va, vb, uin, uout, tk, clk, fh]" "swap_ran E amm ctx R accounts c p p' ds cs"
      "i \<noteq> SyncReserves"
  | (add) config pool va vb lpd ua ub ulp tk clk lp xa xb c p p' where
      "accounts = [config, pool, va, vb, lpd, ua, ub, ulp, tk, clk]" "add_ran E amm lp xa xb accounts c p p' ds cs"
      "i \<noteq> SyncReserves"
  | (remove) config pool va vb lpd ua ub ulp tk clk lp xa xb c p p' where
      "accounts = [config, pool, va, vb, lpd, ua, ub, ulp, tk, clk]" "remove_ran E amm lp xa xb accounts c p p' ds cs"
      "i \<noteq> SyncReserves"
  | (sync) config pool va vb tk clk c p p' where
      "accounts = [config, pool, va, vb, tk, clk]" "sync_ran E amm accounts c p p' ds cs" "i = SyncReserves"
proof (cases i)
  case (SwapExactInput x lo dl)
  then show ?thesis
    using assms(1) swap by (blast dest: amm_main_swap_runs swap_exact_input_run)
next
  case (SwapExactOutput x hi dl)
  then show ?thesis
    using assms(1) swap by (blast dest: amm_main_swap_runs swap_exact_output_run)
next
  case (AddLiquidity lp xa xb dl)
  then show ?thesis
    using assms(1) add by (blast dest: amm_main_liquidity_runs add_liquidity_run)
next
  case (RemoveLiquidity lp xa xb dl)
  then show ?thesis
    using assms(1) remove by (blast dest: amm_main_liquidity_runs remove_liquidity_run)
next
  case SyncReserves
  then show ?thesis
    using assms(1) sync by (blast dest: amm_main_swap_runs sync_reserves_run)
qed (use assms(2) in \<open>simp_all add: moves_reserves_def\<close>)

lemma amm_main_settles:
  assumes "amm_main E amm i accounts = Inr (ds, cs, w)" "moves_reserves i" "distinct (map account_id accounts)"
  obtains c p p' where "settles E T amm accounts (account_id (accounts ! 1)) c p p' ds cs"
    "i = SyncReserves \<or> books_balance p p' cs"
  using assms(1,2)
proof (cases rule: reserve_move_cases)
  case swap
  then show ?thesis
    using that assms(3) swap_ran_settles [where T = T] swap_ran_books by fastforce
next
  case add
  then show ?thesis
    using that assms(3) add_ran_settles [where T = T] add_ran_books by fastforce
next
  case remove
  then show ?thesis
    using that assms(3) remove_ran_settles [where T = T] remove_ran_books by fastforce
next
  case sync
  then show ?thesis
    using that assms(3) sync_ran_settles [where T = T] by fastforce
qed

text \<open>Each of them ends with the report of the new spot price; its other calls go to the Token program.\<close>

lemma amm_main_reports:
  assumes "amm_main E amm i accounts = Inr (ds, cs, w)" "moves_reserves i"
  obtains c p p' d where
    "decode (config_codec E) (data (account (accounts ! 0))) = Some c" "program_owner (account (accounts ! 0)) = amm"
    "decode (pool_codec E) (data (account (accounts ! 1))) = Some p" "same_identity p p'"
    "encode (pool_codec E) p' = Some d" "NewData (accounts ! 1) (Add 0) d \<in> set ds"
    "reports_price E (config_oracle_program c) (account_id (accounts ! 0)) (account_id (accounts ! 1)) p' (last cs)"
    "\<forall>call\<in>set (butlast cs). callee call = config_token_program c"
  using assms
proof (cases rule: reserve_move_cases)
  case (swap config pool va vb uin uout tk clk fh ctx R c p p')
  have read: "decode (pool_codec E) (data (account pool)) = Some p"
    "decode (config_codec E) (data (account config)) = Some c" "program_owner (account config) = amm"
    using swap_ran_checked [OF swap(2) [unfolded swap(1)]] .
  from swap(2) obtain t in_a ha hb d td tw tick_call and net out x f :: u128 where run:
    "swap_checks E ctx config pool va vb uin uout tk clk fh amm = Inr (p, c, t, ha, hb)"
    "traded p p' in_a net out" "encode (pool_codec E) p' = Some d"
    "ds = [Unchanged config, NewData pool (Add 0) d, Unchanged va, Unchanged vb, Unchanged uin,
          Unchanged uout, Unchanged tk, Unchanged clk, Unchanged fh]"
    "cs = swap_transfers E (program_owner (account uin)) (account_id uin)
          (account_id (if in_a then va else vb)) (account_id (if in_a then vb else va)) (account_id uout)
          (account_id fh) (account_id pool) (account_id config) td tw x out f @ [tick_call]"
    "reports_price E (config_oracle_program c) (account_id config) (account_id pool) p' tick_call"
    unfolding swap(1) swap_ran_def list.case by blast
  have "program_owner (account uin) = config_token_program c"
    using run(1) by (auto elim: swap_checks_run)
  then have "\<forall>call\<in>set (butlast cs). callee call = config_token_program c"
    by (auto simp: run(5) swap_transfers_def)
  then show ?thesis
    using that [of c p p' d] read run(2-6) swap(1) by (simp add: traded_def)
next
  case (add config pool va vb lpd ua ub ulp tk clk lp xa xb c p p')
  then show ?thesis
    using that [of c p p'] by (auto simp: add_ran_def)
next
  case (remove config pool va vb lpd ua ub ulp tk clk lp xa xb c p p')
  then show ?thesis
    using that [of c p p'] by (auto simp: remove_ran_def)
next
  case (sync config pool va vb tk clk c p p')
  then show ?thesis
    using that [of c p p'] by (auto simp: sync_ran_def)
qed

end
