(* ===== verification/Demo_Ledger.thy ===== *)
theory Demo_Ledger
  imports Token_Ledger Twap_Borsh
begin

text \<open>
  Accounts and ledgers of the demonstration worlds, on Borsh data: what the concrete runs of the
  programs share.
\<close>

lemma holding_encode [simp]: "encode (borsh_codec ser_holding de_holding) h = Some (ser_holding h)"
  by (cases h) (simp_all add: data_max_length_def)

lemma holding_decode [simp]: "decode (borsh_codec ser_holding de_holding) (ser_holding h) = Some h"
  using codec_laws.round_trip [OF borsh_holding.codec holding_encode] .

declare borsh_codec_simps [simp del] ser_holding.simps [simp del] ser_definition.simps [simp del]

definition demo_account :: "account_id \<Rightarrow> account_id \<Rightarrow> bool \<Rightarrow> bytes \<Rightarrow> bytes account_with_metadata" where
  "demo_account owner i sig d =
    \<lparr> account = \<lparr> program_owner = owner, balance = 0, data = d, nonce = 0 \<rparr>, is_authorized = sig, account_id = i \<rparr>"

definition fresh_account :: "account_id \<Rightarrow> bool \<Rightarrow> bytes account_with_metadata" where
  "fresh_account i sig = \<lparr> account = empty_account, is_authorized = sig, account_id = i \<rparr>"

lemma ledger_account_simps [simp]:
  "account_id (demo_account ow i b d) = i" "program_owner (account (demo_account ow i b d)) = ow"
  "data (account (demo_account ow i b d)) = d" "is_authorized (demo_account ow i b d) = b"
  "account_id (fresh_account i b) = i" "account (fresh_account i b) = empty_account"
  "is_authorized (fresh_account i b) = b"
  by (simp_all add: demo_account_def fresh_account_def)

lemma demo_account_not_empty [simp]: "ow \<noteq> 0 \<Longrightarrow> account (demo_account ow i b d) \<noteq> empty_account"
  by (auto simp: demo_account_def empty_account_def)

definition ledger_of :: "bytes account_with_metadata list \<Rightarrow> bytes ledger" where
  "ledger_of accounts i = (case find (\<lambda>a. account_id a = i) accounts of Some a \<Rightarrow> account a | None \<Rightarrow> empty_account)"

lemma find_account: "distinct (map account_id accounts) \<Longrightarrow> a \<in> set accounts \<Longrightarrow>
    find (\<lambda>b. account_id b = account_id a) accounts = Some a"
  by (induction accounts) auto

lemma ledger_of_reads: "distinct (map account_id accounts) \<Longrightarrow> reads_state (ledger_of accounts) accounts"
  by (simp add: reads_state_def ledger_of_def list_all_iff find_account)

lemma ledger_of_all:
  assumes "P empty_account" "list_all (\<lambda>a. P (account a)) accounts"
  shows "P (ledger_of accounts i)"
  using assms by (auto simp: ledger_of_def list_all_iff find_Some_iff split: option.splits)

end
