(* ===== verification/Amm_Demo.thy ===== *)
theory Amm_Demo
  imports Amm_Borsh Amm_Solvency Demo_Ledger
begin

text \<open>
  A small world on the Borsh environment on which the properties of the AMM are evaluated: the AMM is
  program 4, the Token program 2, the oracle 5; the configuration 100 charges 30 basis points and gives
  a tenth of the fee to the protocol; the pool of tokens 20 and 30 holds a million of each.
\<close>

section \<open>Codecs\<close>

declare borsh_codec_simps [simp del] ser_holding.simps [simp del] ser_definition.simps [simp del]

lemma pool_encode [simp]: "encode (borsh_codec ser_pool de_pool) p = Some (ser_pool p)"
  by (simp add: ser_pool_def borsh_codec_simps data_max_length_def)

lemma config_encode [simp]: "encode (borsh_codec ser_config de_config) c = Some (ser_config c)"
  by (simp add: ser_config_def borsh_codec_simps data_max_length_def)

lemma amm_decode [simp]:
  "decode (borsh_codec ser_pool de_pool) (ser_pool p) = Some p"
  "decode (borsh_codec ser_config de_config) (ser_config c) = Some c"
  using codec_laws.round_trip [OF borsh_pool.codec pool_encode]
    codec_laws.round_trip [OF borsh_config.codec config_encode] by simp_all

section \<open>Accounts\<close>

definition demo_config :: amm_config where
  "demo_config = \<lparr> config_token_program = 2, config_oracle_program = 5, config_authority = 900,
     swap_fee_bps = 30, protocol_fee_bps = 1000 \<rparr>"

definition demo_pool :: pool_definition where
  "demo_pool = \<lparr> definition_token_a_id = 20, definition_token_b_id = 30, vault_a_id = 5152009762,
     vault_b_id = 5152009972, liquidity_pool_id = 5033009888, liquidity_pool_supply = 1000000,
     reserve_a = 1000000, reserve_b = 1000000 \<rparr>"

lemma demo_records [simp]:
  "config_token_program demo_config = 2" "config_oracle_program demo_config = 5"
  "config_authority demo_config = 900" "swap_fee_bps demo_config = 30" "protocol_fee_bps demo_config = 1000"
  "definition_token_a_id demo_pool = 20" "definition_token_b_id demo_pool = 30"
  "vault_a_id demo_pool = 5152009762" "vault_b_id demo_pool = 5152009972"
  "liquidity_pool_id demo_pool = 5033009888" "liquidity_pool_supply demo_pool = 1000000"
  "reserve_a demo_pool = 1000000" "reserve_b demo_pool = 1000000"
  by (simp_all add: demo_config_def demo_pool_def)

text \<open>The addresses under the demonstration hash.\<close>

lemma demo_addresses [simp]:
  "compute_pool_pda_seed borsh_amm_env 100 20 30 = Inr 96000190"
  "compute_vault_pda_seed borsh_amm_env 672001334 20 = 736001394"
  "compute_vault_pda_seed borsh_amm_env 672001334 30 = 736001424"
  "compute_liquidity_token_pda_seed borsh_amm_env 672001334 = 719001412"
  "compute_lp_lock_holding_pda_seed borsh_amm_env 672001334 = 719001405"
  "compute_protocol_fee_pda_seed borsh_amm_env 100 20 = 84000160"
  "compute_protocol_fee_pda_seed borsh_amm_env 100 30 = 84000190"
  "compute_current_tick_account_pda_seed borsh_amm_env 672001334 = 724001418"
  by (simp_all add: compute_pool_pda_seed_def pool_seed_bytes_def compute_vault_pda_seed_def vault_seed_bytes_def
      compute_liquidity_token_pda_seed_def liquidity_token_seed_bytes_def compute_lp_lock_holding_pda_seed_def
      lp_lock_holding_seed_bytes_def compute_protocol_fee_pda_seed_def protocol_fee_seed_bytes_def
      compute_current_tick_account_pda_seed_def current_tick_account_seed_bytes_def demo_hash_words ascii_def
      LIQUIDITY_TOKEN_PDA_SEED_def LP_LOCK_HOLDING_PDA_SEED_def PROTOCOL_FEE_HOLDING_PDA_SEED_def
      CURRENT_TICK_ACCOUNT_PDA_SEED_def)

definition config_acc :: "bytes account_with_metadata" where
  "config_acc = demo_account 4 100 False (ser_config demo_config)"

definition pool_acc :: "bytes account_with_metadata" where
  "pool_acc = demo_account 4 672001334 False (ser_pool demo_pool)"

definition vault_acc :: "account_id \<Rightarrow> account_id \<Rightarrow> u128 \<Rightarrow> bytes account_with_metadata" where
  "vault_acc i token n = demo_account 2 i False (ser_holding (Fungible token n))"

definition user_acc :: "account_id \<Rightarrow> account_id \<Rightarrow> u128 \<Rightarrow> bytes account_with_metadata" where
  "user_acc i token n = demo_account 2 i True (ser_holding (Fungible token n))"

definition clock_acc :: "bytes account_with_metadata" where
  "clock_acc = demo_account 99 1 False []"

definition tick_acc :: "bytes account_with_metadata" where
  "tick_acc = demo_account 5 5068009931 False []"

definition swap_accounts :: "bytes account_with_metadata list" where
  "swap_accounts = [config_acc, pool_acc, vault_acc 5152009762 20 1000000, vault_acc 5152009972 30 1000000,
     user_acc 200 20 50000, user_acc 201 30 50000, tick_acc, clock_acc, vault_acc 588001124 20 0]"

definition liquidity_accounts :: "bytes account_with_metadata list" where
  "liquidity_accounts = [config_acc, pool_acc, vault_acc 5152009762 20 1000000, vault_acc 5152009972 30 1000000,
     demo_account 2 5033009888 False (ser_definition (DefFungible [] 1000000 None (Some 5033009888))),
     user_acc 200 20 50000, user_acc 201 30 50000, user_acc 202 5033009888 500000, tick_acc, clock_acc]"

lemmas demo_accounts = swap_accounts_def liquidity_accounts_def config_acc_def pool_acc_def vault_acc_def
  user_acc_def clock_acc_def tick_acc_def

lemma demo_pdas [simp]:
  "compute_pool_pda borsh_amm_env 4 100 20 30 = Inr 672001334"
  "compute_vault_pda borsh_amm_env 4 672001334 20 = 5152009762"
  "compute_vault_pda borsh_amm_env 4 672001334 30 = 5152009972"
  "compute_liquidity_token_pda borsh_amm_env 4 672001334 = 5033009888"
  "compute_lp_lock_holding_pda borsh_amm_env 4 672001334 = 5033009839"
  "compute_protocol_fee_pda borsh_amm_env 4 100 20 = 588001124"
  "compute_protocol_fee_pda borsh_amm_env 4 100 30 = 588001334"
  "compute_current_tick_account_pda borsh_amm_env 5 672001334 = 5068009931"
  by (simp_all add: compute_pool_pda_def compute_vault_pda_def compute_liquidity_token_pda_def
      compute_lp_lock_holding_pda_def compute_protocol_fee_pda_def compute_current_tick_account_pda_def)

section \<open>Runs\<close>

definition demo_traded :: pool_definition where
  "demo_traded = demo_pool \<lparr> reserve_a := 1009997, reserve_b := 990129 \<rparr>"

definition demo_shrunk :: pool_definition where
  "demo_shrunk = demo_pool \<lparr> liquidity_pool_supply := 500000, reserve_a := 500000, reserve_b := 500000 \<rparr>"

definition demo_grown :: pool_definition where
  "demo_grown = demo_pool \<lparr> liquidity_pool_supply := 1010000, reserve_a := 1010000, reserve_b := 1010000 \<rparr>"

lemma demo_amounts:
  "swap_exact_in_amounts 10000 1000000 1000000 30 = Inr (9970, 9871)"
  "swap_exact_out_amounts 9871 1000000 1000000 30 = Inr (Some (9970, 10000))"
  "protocol_fee_amount 30 1000 = Inr 3"
  by (simp_all add: swap_exact_in_amounts_def swap_exact_out_amounts_def protocol_fee_amount_def saturating_sub_def
      checked_add_def checked_sub_def FEE_BPS_DENOMINATOR_def mul_div_floor_cases mul_div_ceil_cases cdiv_def)

lemma demo_prices:
  "spot_price_q64_64 1009997 990129 = Inr (of_nat (990129 * 2 ^ 64 div 1009997))"
  "spot_price_q64_64 500000 500000 = Inr (2 ^ 64)"
  "spot_price_q64_64 1010000 1010000 = Inr (2 ^ 64)"
  "spot_price_q64_64 1000000 1000000 = Inr (2 ^ 64)"
  by (simp_all add: spot_price_cases)

text \<open>Each instruction on the demonstration world succeeds and writes the expected pool.\<close>

definition demo_writes :: "bytes account_with_metadata list \<Rightarrow> pool_definition \<Rightarrow> bytes state_diff list" where
  "demo_writes accounts p = Unchanged (accounts ! 0) # NewData (accounts ! 1) (Add 0) (ser_pool p) #
     map Unchanged (drop 2 accounts)"

lemmas demo_run = amm_main_def until_def swap_exact_input_def swap_exact_output_def swap_checks_def
  validate_swap_setup_def assert_pool_in_config_namespace_def swap_direction_def swap_logic_def
  exact_output_swap_logic_def finalize_swap_def update_tick_call_def pool_data_def
  read_vault_fungible_balances_def read_fungible_holding_def demo_amounts demo_prices
  checked_add_def checked_sub_def MINIMUM_LIQUIDITY_def demo_writes_def demo_accounts

lemma demo_swap_in:
  "\<exists>cs. amm_main borsh_amm_env 4 (SwapExactInput 10000 9800 77) swap_accounts =
    Inr (demo_writes swap_accounts demo_traded, cs, Some 77)"
  by (simp add: demo_run demo_traded_def)

lemma demo_swap_out:
  "\<exists>cs. amm_main borsh_amm_env 4 (SwapExactOutput 9871 10000 77) swap_accounts =
    Inr (demo_writes swap_accounts demo_traded, cs, Some 77)"
  by (simp add: demo_run demo_traded_def)

lemma demo_deposit: "deposit_amounts demo_pool 10000 10000 20000 = Inr (10000, 10000, 10000)"
  by (simp add: deposit_amounts_def mul_div_floor_cases)

lemma demo_withdrawal:
  "withdrawal_amounts demo_pool (Fungible 5033009888 500000) 500000 1 1 = Inr (500000, 500000)"
  by (simp add: withdrawal_amounts_def mul_div_floor_cases checked_sub_def MINIMUM_LIQUIDITY_def)

lemma demo_add:
  "\<exists>cs. amm_main borsh_amm_env 4 (AddLiquidity 10000 10000 20000 77) liquidity_accounts =
    Inr (demo_writes liquidity_accounts demo_grown, cs, Some 77)"
  by (simp add: demo_run add_liquidity_def demo_deposit demo_grown_def)

lemma demo_remove:
  "\<exists>cs. amm_main borsh_amm_env 4 (RemoveLiquidity 500000 1 1 77) liquidity_accounts =
    Inr (demo_writes liquidity_accounts demo_shrunk, cs, Some 77)"
  by (simp add: demo_run remove_liquidity_def demo_withdrawal demo_shrunk_def)

section \<open>A ledger\<close>

lemma demo_other_codec [simp]:
  "decode (borsh_codec ser_pool de_pool) (ser_config c) = None"
  "decode (borsh_codec ser_config de_config) (ser_pool p) = None"
  using borsh_amm.apart [of "ser_config c" c] borsh_amm.apart [of "ser_pool p"]
  by (auto intro: ccontr)

lemma demo_sane_simps [simp]:
  "ow \<notin> {0, 4} \<Longrightarrow> amm_sane borsh_amm_env 4 (account (demo_account ow i b d))"
  "amm_sane borsh_amm_env 4 empty_account" "amm_sane borsh_amm_env 4 (account (demo_account 0 i b []))"
  "fees_valid c \<Longrightarrow> amm_sane borsh_amm_env 4 (account (demo_account 4 i b (ser_config c)))"
  "backed (pool_value p) \<Longrightarrow> amm_sane borsh_amm_env 4 (account (demo_account 4 i b (ser_pool p)))"
  by (simp_all add: amm_sane_def stored_config_def stored_pool_def default_owned_def)

lemma demo_valid [simp]: "fees_valid demo_config" "backed (pool_value demo_pool)"
  by (simp_all add: fees_valid_def FEE_BPS_DENOMINATOR_def backed_def pool_value_def)

definition demo_ledger :: "bytes ledger" where
  "demo_ledger = ledger_of swap_accounts"

lemma demo_distinct [simp]: "distinct (map account_id swap_accounts)" "distinct (map account_id liquidity_accounts)"
  by (simp_all add: demo_accounts)

lemma demo_reads: "reads_state demo_ledger swap_accounts"
  unfolding demo_ledger_def by (rule ledger_of_reads) simp

lemma demo_sane: "\<forall>i. amm_sane borsh_amm_env 4 (demo_ledger i)"
proof
  fix i
  show "amm_sane borsh_amm_env 4 (demo_ledger i)"
    unfolding demo_ledger_def by (rule ledger_of_all) (simp_all add: demo_accounts)
qed

lemma demo_ledger_at [simp]:
  "demo_ledger 100 = account config_acc" "demo_ledger 672001334 = account pool_acc"
  by (simp_all add: demo_ledger_def ledger_of_def demo_accounts)

lemma demo_stored [simp]:
  "stored_config borsh_amm_env 4 (account config_acc) = Some demo_config"
  "stored_pool borsh_amm_env 4 (account pool_acc) = Some demo_pool"
  by (simp_all add: stored_config_def stored_pool_def config_acc_def pool_acc_def)

lemma demo_swap_permitted:
  "list_all (permitted_write borsh_amm_env 4) (demo_writes swap_accounts p)"
  by (simp add: demo_writes_def demo_accounts permitted_write_def)

lemma demo_traded_reachable:
  "amm_reachable borsh_amm_env 4 demo_ledger (apply_diffs borsh_amm_env 4 demo_ledger (demo_writes swap_accounts demo_traded))"
  using demo_swap_in amm_step.run [OF demo_reads _ demo_swap_permitted, of "SwapExactInput 10000 9800 77" demo_traded]
  by (blast intro: amm_reachable.intros)

lemma demo_traded_stored [simp]:
  "stored_pool borsh_amm_env 4 (apply_diffs borsh_amm_env 4 demo_ledger (demo_writes swap_accounts demo_traded) 672001334)
    = Some demo_traded"
  by (simp add: demo_writes_def demo_accounts post_owner_def stored_pool_def default_owned_def)

interpretation borsh_amm_with_tokens: amm_with_tokens borsh_amm_env 4 2
  by (intro amm_with_tokens.intro amm_with_tokens_axioms.intro borsh_amm.amm_runtime_axioms
      borsh_amm_tokens.token_runtime_axioms) simp

section \<open>The calls of a swap\<close>

definition demo_calls :: "amm_call list" where
  "demo_calls =
    [chained_call_new 2 [200, 5152009762] (TokenCall (Transfer 10000)),
     with_pda_seeds (chained_call_new 2 [5152009972, 201] (TokenCall (Transfer 9871))) [736001424],
     with_pda_seeds (chained_call_new 2 [5152009762, 588001124] (TokenCall (Transfer 3))) [736001394, 84000160],
     with_pda_seeds (chained_call_new 5 [5068009931, 672001334, 1]
       (OracleCall (UpdateCurrentTick (of_nat (990129 * 2 ^ 64 div 1009997))))) [96000190]]"

lemma demo_swap_calls:
  "amm_main borsh_amm_env 4 (SwapExactInput 10000 9800 77) swap_accounts =
    Inr (demo_writes swap_accounts demo_traded, demo_calls, Some 77)"
  by (simp add: demo_run demo_traded_def swap_transfers_def demo_calls_def)

definition held :: "account_id \<Rightarrow> u128 \<Rightarrow> bytes account" where
  "held d n = \<lparr> program_owner = 2, balance = 0, data = ser_holding (Fungible d n), nonce = 0 \<rparr>"

lemma held_account [simp]: "account (demo_account 2 i b (ser_holding (Fungible d n))) = held d n"
  by (simp add: demo_account_def held_def)

lemma held_not_empty [simp]: "held d n \<noteq> empty_account"
  by (simp add: held_def empty_account_def)

lemma held_simps [simp]: "program_owner (held d n) = 2" "data (held d n) = ser_holding (Fungible d n)"
  by (simp_all add: held_def)

lemma held_holds [simp]: "s v = held d n \<Longrightarrow> holds borsh_amm_env 2 s v n"
  by (simp add: holds_def)

lemma demo_transfer_step:
  assumes "callee c = 2" "instruction_data c = TokenCall (Transfer n)" "pre_state_ids c = [a, b]"
    and "s a = held d x" "s b = held d y" "a \<noteq> b" "n \<le> x" "unat y + unat n < 2 ^ 128"
  shows "call_step borsh_amm_env 2 s c (s(a := held d (x - n), b := held d (y + n)))"
proof -
  let ?a = "demo_account 2 a True (ser_holding (Fungible d x))"
  let ?b = "demo_account 2 b False (ser_holding (Fungible d y))"
  let ?ds = "[NewData ?a (Add 0) (ser_holding (Fungible d (x - n))), NewData ?b (Add 0) (ser_holding (Fungible d (y + n)))]"
  have "token_main borsh_amm_env 2 (Transfer n) [?a, ?b] = Inr ?ds"
    using assms(7,8) held_not_empty
    by (simp add: token_main_def transfer_def holding_data_def checked_sub_def checked_add_def)
  moreover have "reads_state s [?a, ?b]"
    using assms(4-6) by (simp add: reads_state_def)
  ultimately have "call_step borsh_amm_env 2 s c (apply_diffs borsh_amm_env 2 s ?ds)"
    using assms(1-3) by (intro call_step.token [where accounts = "[?a, ?b]"]) simp_all
  moreover have "apply_diffs borsh_amm_env 2 s ?ds = s(a := held d (x - n), b := held d (y + n))"
    by (simp add: demo_account_def held_def post_owner_def default_owned_def)
  ultimately show ?thesis
    by simp
qed

definition demo_settled :: "bytes ledger" where
  "demo_settled = (apply_diffs borsh_amm_env 4 demo_ledger (demo_writes swap_accounts demo_traded))
     (200 := held 20 40000, 5152009762 := held 20 1009997, 5152009972 := held 30 990129, 201 := held 30 59871,
      588001124 := held 20 3)"

lemma demo_calls_run:
  "calls_run borsh_amm_env 2 (apply_diffs borsh_amm_env 4 demo_ledger (demo_writes swap_accounts demo_traded))
    demo_calls demo_settled"
proof -
  let ?s = "apply_diffs borsh_amm_env 4 demo_ledger (demo_writes swap_accounts demo_traded)"
  have at: "?s 200 = held 20 50000" "?s 5152009762 = held 20 1000000" "?s 5152009972 = held 30 1000000"
    "?s 201 = held 30 50000" "?s 588001124 = held 20 0"
    by (simp_all add: demo_writes_def demo_accounts demo_ledger_def ledger_of_def)
  let ?s1 = "?s(200 := held 20 40000, 5152009762 := held 20 1010000)"
  let ?s2 = "?s1(5152009972 := held 30 990129, 201 := held 30 59871)"
  let ?s3 = "?s2(5152009762 := held 20 1009997, 588001124 := held 20 3)"
  have s1: "call_step borsh_amm_env 2 ?s (demo_calls ! 0) ?s1"
    using demo_transfer_step [of "demo_calls ! 0" 10000 200 5152009762 ?s 20 50000 1000000] at
    by (simp add: demo_calls_def)
  have s2: "call_step borsh_amm_env 2 ?s1 (demo_calls ! 1) ?s2"
    using demo_transfer_step [of "demo_calls ! 1" 9871 5152009972 201 ?s1 30 1000000 50000] at
    by (simp add: demo_calls_def)
  have s3: "call_step borsh_amm_env 2 ?s2 (demo_calls ! 2) ?s3"
    using demo_transfer_step [of "demo_calls ! 2" 3 5152009762 588001124 ?s2 20 1010000 0] at
    by (simp add: demo_calls_def)
  have s4: "call_step borsh_amm_env 2 ?s3 (demo_calls ! 3) ?s3"
    by (rule call_step.elsewhere) (simp_all add: demo_calls_def)
  have "?s3 = demo_settled"
    by (auto simp: demo_settled_def fun_eq_iff)
  moreover have "demo_calls = [demo_calls ! 0, demo_calls ! 1, demo_calls ! 2, demo_calls ! 3]"
    by (simp add: demo_calls_def)
  moreover note calls_run.more [OF s1 calls_run.more [OF s2 calls_run.more [OF s3 calls_run.more [OF s4 calls_run.stop]]]]
  ultimately show ?thesis
    by simp
qed

lemma demo_solvent: "solvent borsh_amm_env 2 4 demo_ledger 672001334"
proof -
  have "demo_ledger 5152009762 = held 20 1000000" "demo_ledger 5152009972 = held 30 1000000"
    by (simp_all add: demo_accounts demo_ledger_def ledger_of_def)
  then show ?thesis
    by (auto simp: solvent_def intro!: exI [of _ demo_pool] exI [of _ 1000000])
qed

end
