(* ===== verification/Amm_Props.thy ===== *)
theory Amm_Props
  imports Amm_Demo
begin

text \<open>
  The properties of the AMM: what holds of its pools and configurations over the life of the chain,
  what a user of a swap, a deposit or a withdrawal gets, and what its calls do to the vaults.
\<close>

section \<open>Pools and configurations over time\<close>

text \<open>
  C5. A pool never loses value.  Between any two states of the chain, whatever instructions of the AMM
  run on whatever accounts and whatever other programs do, a stored pool stays stored under the same
  tokens, vaults and LP token; the product of its reserves per squared LP unit does not fall; at least
  1000 LP units remain and the squared supply stays within the product of the reserves.
\<close>

theorem pool_never_loses_value:
  assumes "amm_runtime E amm" "\<forall>i. amm_sane E amm (s0 i)" "amm_reachable E amm s0 s"
    and "stored_pool E amm (s0 i) = Some p"
  shows "\<exists>p'. stored_pool E amm (s i) = Some p' \<and> same_identity p p' \<and>
    unat (reserve_a p) * unat (reserve_b p) * (unat (liquidity_pool_supply p'))\<^sup>2 \<le>
      unat (reserve_a p') * unat (reserve_b p') * (unat (liquidity_pool_supply p))\<^sup>2 \<and>
    1000 \<le> unat (liquidity_pool_supply p') \<and>
    (unat (liquidity_pool_supply p'))\<^sup>2 \<le> unat (reserve_a p') * unat (reserve_b p')"
proof -
  have "amm_evolves E amm (s0 i) (s i)"
    using amm_runtime.reachable_evolves [OF assms(1,3,2)] .
  then obtain p' where "stored_pool E amm (s i) = Some p'" "pool_evolves p p'" "backed (pool_value p')"
    using assms(4) by (auto simp: amm_evolves_def amm_sane_def)
  then show ?thesis
    by (auto simp: pool_evolves_def share_value_le_def backed_def pool_value_def)
qed

theorem pool_never_loses_value_witness:
  "\<exists>s. amm_reachable borsh_amm_env 4 demo_ledger s \<and> stored_pool borsh_amm_env 4 (s 672001334) = Some demo_traded \<and>
    unat (reserve_a demo_pool) * unat (reserve_b demo_pool) * (unat (liquidity_pool_supply demo_traded))\<^sup>2 \<le>
      unat (reserve_a demo_traded) * unat (reserve_b demo_traded) * (unat (liquidity_pool_supply demo_pool))\<^sup>2"
proof -
  have "stored_pool borsh_amm_env 4 (demo_ledger 672001334) = Some demo_pool"
    by simp
  from pool_never_loses_value [OF borsh_amm.amm_runtime_axioms demo_sane demo_traded_reachable this]
  show ?thesis
    using demo_traded_reachable demo_traded_stored by fastforce
qed

text \<open>
  A configuration is fixed but for its authority.  Between any two states of the chain the token
  program, the oracle and both fees of a stored configuration stay what they were, and the fees stay
  in their ranges.
\<close>

theorem config_fixed_but_authority:
  assumes "amm_runtime E amm" "\<forall>i. amm_sane E amm (s0 i)" "amm_reachable E amm s0 s"
    and "stored_config E amm (s0 i) = Some c"
  shows "\<exists>adm. stored_config E amm (s i) = Some (c \<lparr> config_authority := adm \<rparr>) \<and>
    unat (swap_fee_bps c) < 10000 \<and> unat (protocol_fee_bps c) \<le> 10000"
proof -
  have "amm_evolves E amm (s0 i) (s i)"
    using amm_runtime.reachable_evolves [OF assms(1,3,2)] .
  then obtain adm where "stored_config E amm (s i) = Some (c \<lparr> config_authority := adm \<rparr>)"
    using assms(4) by (auto simp: amm_evolves_def)
  moreover have "fees_valid c"
    using assms(2,4) by (simp add: amm_sane_def)
  ultimately show ?thesis
    by (auto simp: fees_valid_def FEE_BPS_DENOMINATOR_def word_less_nat_alt word_le_nat_alt)
qed

theorem config_fixed_but_authority_witness:
  "\<exists>s adm. s \<noteq> demo_ledger \<and> stored_config borsh_amm_env 4 (s 100) = Some (demo_config \<lparr> config_authority := adm \<rparr>)"
proof -
  let ?s = "apply_diffs borsh_amm_env 4 demo_ledger (demo_writes swap_accounts demo_traded)"
  have "stored_config borsh_amm_env 4 (demo_ledger 100) = Some demo_config"
    by simp
  from config_fixed_but_authority [OF borsh_amm.amm_runtime_axioms demo_sane demo_traded_reachable this]
  obtain adm where "stored_config borsh_amm_env 4 (?s 100) = Some (demo_config \<lparr> config_authority := adm \<rparr>)"
    by blast
  moreover have "demo_traded \<noteq> demo_pool"
    by (simp add: demo_traded_def demo_pool_def)
  then have "?s \<noteq> demo_ledger"
    using demo_traded_stored demo_ledger_at(2) demo_stored(2) by (metis option.inject)
  ultimately show ?thesis
    by blast
qed

text \<open>
  Only the authority hands over a configuration.  If an instruction of the AMM leaves another
  configuration where one was stored, the authority recorded before was among the signers, and nothing
  but the authority is different.
\<close>

theorem authority_signs_handover:
  assumes "amm_runtime E amm" "\<forall>i. amm_sane E amm (s i)" "reads_state s accounts"
    and "amm_main E amm instruction accounts = Inr (ds, cs, w)" "list_all (permitted_write E amm) ds"
    and "stored_config E amm (s i) = Some c" "stored_config E amm (apply_diffs E amm s ds i) \<noteq> Some c"
  shows "config_authority c \<in> authorized_ids accounts \<and>
    (\<exists>adm. stored_config E amm (apply_diffs E amm s ds i) = Some (c \<lparr> config_authority := adm \<rparr>))"
  using amm_runtime.run_config_signed [OF assms] .

theorem authority_signs_handover_witness:
  "900 \<in> authorized_ids [config_acc, demo_account 0 900 True []]"
proof -
  let ?accounts = "[config_acc, demo_account 0 900 True []]" and ?c = "demo_config \<lparr> config_authority := 901 \<rparr>"
  let ?s = "ledger_of ?accounts" and ?ds = "[NewData config_acc (Add 0) (ser_config ?c), Unchanged (demo_account 0 900 True [])]"
  have run: "amm_main borsh_amm_env 4 (UpdateConfig 901) ?accounts = Inr (?ds, [], None)"
    by (simp add: amm_main_def until_def no_calls_def update_config_def config_data_def config_acc_def)
  have reads: "reads_state ?s ?accounts"
    by (rule ledger_of_reads) (simp add: config_acc_def)
  have sane: "\<forall>i. amm_sane borsh_amm_env 4 (?s i)"
    by (rule allI, rule ledger_of_all) (simp_all add: config_acc_def)
  have "list_all (permitted_write borsh_amm_env 4) ?ds"
    by (simp add: permitted_write_def config_acc_def)
  moreover have "?s 100 = account config_acc"
    by (simp add: ledger_of_def config_acc_def)
  then have "stored_config borsh_amm_env 4 (?s 100) = Some demo_config"
    by simp
  moreover have "?c \<noteq> demo_config"
    by (simp add: demo_config_def)
  then have "stored_config borsh_amm_env 4 (apply_diffs borsh_amm_env 4 ?s ?ds 100) \<noteq> Some demo_config"
    by (simp add: stored_config_def post_owner_def default_owned_def config_acc_def)
  ultimately show ?thesis
    using authority_signs_handover [OF borsh_amm.amm_runtime_axioms sane reads run] by fastforce
qed

text \<open>
  Protocol fees leave only to the authority.  A successful withdrawal was signed by the configured
  authority, took the fees of one token of this configuration to a holding of the same token, changed
  no account itself and asked for exactly one transfer, of the requested amount, under the seed of the
  fee holding.
\<close>

theorem protocol_fees_leave_by_authority:
  assumes "amm_main E amm (WithdrawProtocolFees n) accounts = Inr (ds, cs, w)"
  shows "\<exists>config fh dest admin c source target. accounts = [config, fh, dest, admin] \<and>
    stored_config E amm (account config) = Some c \<and>
    account_id admin = config_authority c \<and> account_id admin \<in> authorized_ids accounts \<and>
    decode (holding_codec E) (data (account fh)) = Some source \<and>
    decode (holding_codec E) (data (account dest)) = Some target \<and> definition_id target = definition_id source \<and>
    account_id fh = compute_protocol_fee_pda E amm (account_id config) (definition_id source) \<and>
    ds = map Unchanged accounts \<and>
    cs = [with_pda_seeds (chained_call_new (config_token_program c) [account_id fh, account_id dest] (TokenCall (Transfer n)))
      [compute_protocol_fee_pda_seed E (account_id config) (definition_id source)]]"
proof -
  obtain config fh dest admin where run: "accounts = [config, fh, dest, admin]"
    "withdraw_protocol_fees E config fh dest admin n amm = Inr (ds, cs)"
    using amm_main_admin_runs(3) [OF assms] by blast
  from run(2) show ?thesis
    unfolding withdraw_protocol_fees_def inversion
    by (elim exE conjE, intro exI [of _ config] exI [of _ fh] exI [of _ dest] exI [of _ admin])
      (auto simp: run(1) stored_config_def)
qed

theorem protocol_fees_leave_by_authority_witness:
  "\<exists>ds cs. amm_main borsh_amm_env 4 (WithdrawProtocolFees 7)
      [config_acc, vault_acc 588001124 20 10, vault_acc 203 20 0, demo_account 0 900 True []] = Inr (ds, cs, None) \<and>
    length cs = 1"
proof -
  obtain ds cs where run: "amm_main borsh_amm_env 4 (WithdrawProtocolFees 7)
      [config_acc, vault_acc 588001124 20 10, vault_acc 203 20 0, demo_account 0 900 True []] = Inr (ds, cs, None)"
    by (simp add: amm_main_def until_def withdraw_protocol_fees_def config_acc_def vault_acc_def)
  show ?thesis
    using protocol_fees_leave_by_authority [OF run] run by auto
qed

section \<open>What a user gets\<close>

text \<open>
  The transfers of a trade, on the accounts of a swap: \<^theory_text>\<open>x\<close> leaves the input holding, \<^theory_text>\<open>out\<close> reaches
  the output holding from one vault, and of \<^theory_text>\<open>x\<close> the other vault keeps all but the protocol's cut \<^theory_text>\<open>f\<close>.
\<close>

definition trade_flows :: "'d account_with_metadata list \<Rightarrow> amm_call list \<Rightarrow> u128 \<Rightarrow> u128 \<Rightarrow> u128 \<Rightarrow> bool" where
  "trade_flows accounts cs x out f \<longleftrightarrow>
    (let flow_at = (\<lambda>k. flow (account_id (accounts ! k)) cs) in
     flow_at 4 = - int (unat x) \<and> flow_at 5 = int (unat out) \<and> flow_at 8 = int (unat f) \<and>
     (flow_at 2 = int (unat x) - int (unat f) \<and> flow_at 3 = - int (unat out) \<or>
      flow_at 3 = int (unat x) - int (unat f) \<and> flow_at 2 = - int (unat out)))"

lemma swap_ran_flows:
  assumes "swap_ran E amm ctx R accounts c p p' ds cs" "distinct (map account_id accounts)"
  obtains x out f where "trade_flows accounts cs x out f" "R x out" "out \<noteq> 0" "unat f \<le> unat x"
proof -
  obtain config pool va vb uin uout tk clk fh where acc: "accounts = [config, pool, va, vb, uin, uout, tk, clk, fh]"
    using assms(1) by (auto simp: swap_ran_def split: list.splits)
  from assms(1) obtain in_a td tw tick_call and net out x f :: u128 where run:
    "cs = swap_transfers E (program_owner (account uin)) (account_id uin)
          (account_id (if in_a then va else vb)) (account_id (if in_a then vb else va)) (account_id uout)
          (account_id fh) (account_id pool) (account_id config) td tw x out f @ [tick_call]"
    "unat x = unat net + unat f" "out \<noteq> 0" "R x out"
    "reports_price E (config_oracle_program c) (account_id config) (account_id pool) p' tick_call"
    unfolding acc swap_ran_def list.case by blast
  have tick: "flow v (ts @ [tick_call]) = flow v ts" for v ts
    using reports_price_flow [OF run(5)] by simp
  let ?vd = "account_id (if in_a then va else vb)" and ?vw = "account_id (if in_a then vb else va)"
  have ids: "distinct [account_id va, account_id vb, account_id uin, account_id uout, account_id fh]"
    using assms(2) unfolding acc by simp
  then have "distinct [?vd, ?vw, account_id uin, account_id uout, account_id fh]"
    by (cases in_a) auto
  note users = flow_swap_users [OF this, where E = E]
  have "?vd \<noteq> ?vw" "account_id uin \<notin> {?vd, ?vw}" "account_id uout \<notin> {?vd, ?vw}" "account_id fh \<notin> {?vd, ?vw}"
    using ids by (cases in_a; auto)+
  note vaults = flow_swap_transfers [OF this, where E = E]
  have "trade_flows accounts cs x out f"
    unfolding trade_flows_def Let_def acc run(1) tick
    using users vaults by (cases in_a) simp_all
  then show thesis
    using that run(2-4) by simp
qed

text \<open>
  C11. An exact-input swap honours its bound.  A successful swap takes exactly the stated input from the
  user, gives the user a positive output of at least the stated minimum, and is valid only before the
  deadline; the vaults gain and lose accordingly.
\<close>

theorem exact_input_swap_honoured:
  assumes "amm_main E amm (SwapExactInput x lo dl) accounts = Inr (ds, cs, w)" "distinct (map account_id accounts)"
  shows "w = Some dl \<and> (\<exists>out f. trade_flows accounts cs x out f \<and> 0 < out \<and> lo \<le> out \<and> f \<le> x)"
proof -
  obtain c p p' where "w = Some dl"
    and "swap_ran E amm ''Swap exact input'' (\<lambda>y out. y = x \<and> lo \<le> out) accounts c p p' ds cs"
    using assms(1) by (blast dest: amm_main_swap_runs swap_exact_input_run)
  with assms(2) show ?thesis
    by (elim swap_ran_flows) (auto simp: word_le_nat_alt word_neq_0_conv)
qed

theorem exact_input_swap_honoured_witness:
  "\<exists>ds cs out f. amm_main borsh_amm_env 4 (SwapExactInput 10000 9800 77) swap_accounts = Inr (ds, cs, Some 77) \<and>
    trade_flows swap_accounts cs 10000 out f \<and> 9800 \<le> out"
  using demo_swap_in exact_input_swap_honoured [OF _ demo_distinct(1), of borsh_amm_env 4 10000 9800 77] by blast

text \<open>
  C12. An exact-output swap honours its bound.  A successful swap gives the user exactly the stated
  output and takes at most the stated maximum, and is valid only before the deadline.
\<close>

theorem exact_output_swap_honoured:
  assumes "amm_main E amm (SwapExactOutput y hi dl) accounts = Inr (ds, cs, w)" "distinct (map account_id accounts)"
  shows "w = Some dl \<and> (\<exists>x f. trade_flows accounts cs x y f \<and> x \<le> hi \<and> f \<le> x)"
proof -
  obtain c p p' where "w = Some dl"
    and "swap_ran E amm ''Swap exact output'' (\<lambda>x out. x \<le> hi \<and> out = y) accounts c p p' ds cs"
    using assms(1) by (blast dest: amm_main_swap_runs swap_exact_output_run)
  with assms(2) show ?thesis
    by (elim swap_ran_flows) (auto simp: word_le_nat_alt)
qed

theorem exact_output_swap_honoured_witness:
  "\<exists>ds cs x f. amm_main borsh_amm_env 4 (SwapExactOutput 9871 10000 77) swap_accounts = Inr (ds, cs, Some 77) \<and>
    trade_flows swap_accounts cs x 9871 f \<and> x \<le> 10000"
  using demo_swap_out exact_output_swap_honoured [OF _ demo_distinct(1), of borsh_amm_env 4 9871 10000 77] by blast

end
