(* ===== verification/Amm_Liquidity_Props.thy ===== *)
theory Amm_Liquidity_Props
  imports Amm_Demo
begin

text \<open>
  The properties of deposits and withdrawals: what they take and give, and that a withdrawal within
  its limits cannot be refused.
\<close>

section \<open>LP units issued\<close>

text \<open>The units of the token defined at \<^theory_text>\<open>d\<close> that calls mint to the holding \<^theory_text>\<open>v\<close>, less those they burn there.\<close>

definition issue_of :: "account_id \<Rightarrow> account_id \<Rightarrow> amm_call \<Rightarrow> int" where
  "issue_of d v c =
    (case (instruction_data c, pre_state_ids c) of
       (TokenCall (Mint n), [x, y]) \<Rightarrow> if x = d \<and> y = v then int (unat n) else 0
     | (TokenCall (Burn n), [x, y]) \<Rightarrow> if x = d \<and> y = v then - int (unat n) else 0
     | _ \<Rightarrow> 0)"

definition issued :: "account_id \<Rightarrow> account_id \<Rightarrow> amm_call list \<Rightarrow> int" where
  "issued d v cs = (\<Sum>c\<leftarrow>cs. issue_of d v c)"

lemma issue_of_calls [simp]:
  "issue_of d v (with_pda_seeds c seeds) = issue_of d v c"
  "issue_of d v (chained_call_new T ids (TokenCall (Transfer n))) = 0"
  "issue_of d v (chained_call_new T [d, v] (TokenCall (Mint n))) = int (unat n)"
  "issue_of d v (chained_call_new T [d, v] (TokenCall (Burn n))) = - int (unat n)"
  by (simp_all add: issue_of_def)

lemma reports_price_issue: "reports_price E oracle config_id pool_id p c \<Longrightarrow> issue_of d v c = 0"
  by (auto simp: reports_price_def issue_of_def)

lemma issued_simps [simp]: "issued d v [] = 0" "issued d v (c # cs) = issue_of d v c + issued d v cs"
  by (simp_all add: issued_def)

text \<open>
  The movements of a deposit or, with negative amounts, a withdrawal on the accounts of the two
  instructions, and the pool it writes.
\<close>

definition liquidity_flows :: "'d account_with_metadata list \<Rightarrow> amm_call list \<Rightarrow> int \<Rightarrow> int \<Rightarrow> int \<Rightarrow> bool" where
  "liquidity_flows accounts cs a b lp \<longleftrightarrow>
    (let flow_at = (\<lambda>k. flow (account_id (accounts ! k)) cs) in
     flow_at 2 = a \<and> flow_at 5 = - a \<and> flow_at 3 = b \<and> flow_at 6 = - b \<and>
     issued (account_id (accounts ! 4)) (account_id (accounts ! 7)) cs = lp)"

definition pool_moved ::
  "('d, 'x) amm_env_scheme \<Rightarrow> 'd account_with_metadata list \<Rightarrow> 'd state_diff list \<Rightarrow> pool_definition \<Rightarrow>
    int \<Rightarrow> int \<Rightarrow> int \<Rightarrow> bool" where
  "pool_moved E accounts ds p a b lp \<longleftrightarrow>
    decode (pool_codec E) (data (account (accounts ! 1))) = Some p \<and>
    (\<exists>p' d. encode (pool_codec E) p' = Some d \<and> NewData (accounts ! 1) (Add 0) d \<in> set ds \<and> same_identity p p' \<and>
       int (unat (reserve_a p')) = int (unat (reserve_a p)) + a \<and>
       int (unat (reserve_b p')) = int (unat (reserve_b p)) + b \<and>
       int (unat (liquidity_pool_supply p')) = int (unat (liquidity_pool_supply p)) + lp)"

lemma add_ran_flows:
  assumes "add_ran E amm min_lp max_a max_b accounts c p p' ds cs" "distinct (map account_id accounts)"
  obtains a b lp where "deposit_amounts p min_lp max_a max_b = Inr (a, b, lp)"
    "liquidity_flows accounts cs (int (unat a)) (int (unat b)) (int (unat lp))"
    "pool_moved E accounts ds p (int (unat a)) (int (unat b)) (int (unat lp))"
proof -
  obtain config pool va vb lpd ua ub ulp tk clk where acc: "accounts = [config, pool, va, vb, lpd, ua, ub, ulp, tk, clk]"
    using assms(1) by (auto simp: add_ran_def split: list.splits)
  have ids: "distinct [account_id va, account_id vb, account_id ua, account_id ub]"
    using assms(2) unfolding acc by simp
  from assms(1) obtain d a b lp tick_call where run:
    "decode (pool_codec E) (data (account pool)) = Some p" "encode (pool_codec E) p' = Some d"
    "same_identity p p'" "deposit_amounts p min_lp max_a max_b = Inr (a, b, lp)"
    "unat (liquidity_pool_supply p') = unat (liquidity_pool_supply p) + unat lp"
    "unat (reserve_a p') = unat (reserve_a p) + unat a" "unat (reserve_b p') = unat (reserve_b p) + unat b"
    "ds = [Unchanged config, NewData pool (Add 0) d, Unchanged va, Unchanged vb, Unchanged lpd, Unchanged ua,
          Unchanged ub, Unchanged ulp, Unchanged tk, Unchanged clk]"
    "cs = [with_pda_seeds
            (chained_call_new (config_token_program c) [account_id lpd, account_id ulp] (TokenCall (Mint lp)))
            [compute_liquidity_token_pda_seed E (account_id pool)],
          chained_call_new (config_token_program c) [account_id ub, account_id vb] (TokenCall (Transfer b)),
          chained_call_new (config_token_program c) [account_id ua, account_id va] (TokenCall (Transfer a)),
          tick_call]"
    "reports_price E (config_oracle_program c) (account_id config) (account_id pool) p' tick_call"
    unfolding acc add_ran_def list.case by blast
  have "liquidity_flows accounts cs (int (unat a)) (int (unat b)) (int (unat lp))"
    using ids unfolding acc run(9)
    by (auto simp: liquidity_flows_def reports_price_flow [OF run(10)] reports_price_issue [OF run(10)])
  moreover have "int (unat (reserve_a p')) = int (unat (reserve_a p)) + int (unat a)"
    "int (unat (reserve_b p')) = int (unat (reserve_b p)) + int (unat b)"
    "int (unat (liquidity_pool_supply p')) = int (unat (liquidity_pool_supply p)) + int (unat lp)"
    using run(5-7) by linarith+
  then have "pool_moved E accounts ds p (int (unat a)) (int (unat b)) (int (unat lp))"
    unfolding pool_moved_def using run(1-3,8) by (auto simp: acc)
  ultimately show thesis
    using that run(4) by blast
qed

lemma remove_ran_flows:
  assumes "remove_ran E amm remove min_a min_b accounts c p p' ds cs" "distinct (map account_id accounts)"
  obtains h a b where "decode (holding_codec E) (data (account (accounts ! 7))) = Some h"
    "withdrawal_amounts p h remove min_a min_b = Inr (a, b)"
    "liquidity_flows accounts cs (- int (unat a)) (- int (unat b)) (- int (unat remove))"
    "pool_moved E accounts ds p (- int (unat a)) (- int (unat b)) (- int (unat remove))"
proof -
  obtain config pool va vb lpd ua ub ulp tk clk where acc: "accounts = [config, pool, va, vb, lpd, ua, ub, ulp, tk, clk]"
    using assms(1) by (auto simp: remove_ran_def split: list.splits)
  have ids: "distinct [account_id va, account_id vb, account_id ua, account_id ub]"
    using assms(2) unfolding acc by simp
  from assms(1) obtain d h a b tick_call where run:
    "decode (pool_codec E) (data (account pool)) = Some p" "encode (pool_codec E) p' = Some d"
    "same_identity p p'" "decode (holding_codec E) (data (account ulp)) = Some h"
    "withdrawal_amounts p h remove min_a min_b = Inr (a, b)"
    "unat (liquidity_pool_supply p) = unat (liquidity_pool_supply p') + unat remove"
    "unat (reserve_a p) = unat (reserve_a p') + unat a" "unat (reserve_b p) = unat (reserve_b p') + unat b"
    "ds = [Unchanged config, NewData pool (Add 0) d, Unchanged va, Unchanged vb, Unchanged lpd, Unchanged ua,
          Unchanged ub, Unchanged ulp, Unchanged tk, Unchanged clk]"
    "cs = [with_pda_seeds
            (chained_call_new (config_token_program c) [account_id lpd, account_id ulp] (TokenCall (Burn remove)))
            [compute_liquidity_token_pda_seed E (account_id pool)],
          with_pda_seeds
            (chained_call_new (config_token_program c) [account_id vb, account_id ub] (TokenCall (Transfer b)))
            [compute_vault_pda_seed E (account_id pool) (definition_token_b_id p)],
          with_pda_seeds
            (chained_call_new (config_token_program c) [account_id va, account_id ua] (TokenCall (Transfer a)))
            [compute_vault_pda_seed E (account_id pool) (definition_token_a_id p)],
          tick_call]"
    "reports_price E (config_oracle_program c) (account_id config) (account_id pool) p' tick_call"
    unfolding acc remove_ran_def list.case by blast
  have "liquidity_flows accounts cs (- int (unat a)) (- int (unat b)) (- int (unat remove))"
    using ids unfolding acc run(10)
    by (auto simp: liquidity_flows_def reports_price_flow [OF run(11)] reports_price_issue [OF run(11)])
  moreover have "int (unat (reserve_a p')) = int (unat (reserve_a p)) + - int (unat a)"
    "int (unat (reserve_b p')) = int (unat (reserve_b p)) + - int (unat b)"
    "int (unat (liquidity_pool_supply p')) = int (unat (liquidity_pool_supply p)) + - int (unat remove)"
    using run(6-8) by linarith+
  then have "pool_moved E accounts ds p (- int (unat a)) (- int (unat b)) (- int (unat remove))"
    unfolding pool_moved_def using run(1-3,9) by (auto simp: acc)
  ultimately show thesis
    using that run(4,5) acc by simp
qed

text \<open>
  C13. A deposit honours its bounds.  A successful deposit takes positive amounts of at most the stated
  maxima from the user into the vaults, mints at least the stated minimum of LP units to the user and
  never more than either amount's share of the pool; the reserves and the supply grow by just that.
\<close>

theorem deposit_honoured:
  assumes "amm_main E amm (AddLiquidity min_lp max_a max_b dl) accounts = Inr (ds, cs, w)"
    and "distinct (map account_id accounts)"
  shows "w = Some dl \<and> (\<exists>p a b lp.
    0 < a \<and> a \<le> max_a \<and> 0 < b \<and> b \<le> max_b \<and> 0 < lp \<and> min_lp \<le> lp \<and>
    unat lp * unat (reserve_a p) \<le> unat (liquidity_pool_supply p) * unat a \<and>
    unat lp * unat (reserve_b p) \<le> unat (liquidity_pool_supply p) * unat b \<and>
    liquidity_flows accounts cs (int (unat a)) (int (unat b)) (int (unat lp)) \<and>
    pool_moved E accounts ds p (int (unat a)) (int (unat b)) (int (unat lp)))"
proof -
  obtain c p p' where w: "w = Some dl" and ran: "add_ran E amm min_lp max_a max_b accounts c p p' ds cs"
    using assms(1) by (blast dest: amm_main_liquidity_runs add_liquidity_run)
  obtain a b lp where run: "deposit_amounts p min_lp max_a max_b = Inr (a, b, lp)"
    "liquidity_flows accounts cs (int (unat a)) (int (unat b)) (int (unat lp))"
    "pool_moved E accounts ds p (int (unat a)) (int (unat b)) (int (unat lp))"
    using add_ran_flows [OF ran assms(2)] .
  show ?thesis
    using w run(2,3) deposit_amounts_run [OF run(1)] by (auto simp: word_neq_0_conv)
qed

theorem deposit_honoured_witness:
  "\<exists>ds cs p a b lp. amm_main borsh_amm_env 4 (AddLiquidity 10000 10000 20000 77) liquidity_accounts = Inr (ds, cs, Some 77) \<and>
    a \<le> 10000 \<and> b \<le> 20000 \<and> 10000 \<le> lp \<and>
    liquidity_flows liquidity_accounts cs (int (unat (a :: u128))) (int (unat (b :: u128))) (int (unat (lp :: u128))) \<and>
    pool_moved borsh_amm_env liquidity_accounts ds p (int (unat a)) (int (unat b)) (int (unat lp))"
  using demo_add deposit_honoured [OF _ demo_distinct(2), of borsh_amm_env 4 10000 10000 20000 77] by blast

text \<open>
  C14. A withdrawal pays the exact share.  A successful withdrawal burns just the stated LP units of the
  user, who has at least as many, pays out the rounded-down share of each reserve, which is at least the
  stated minimum, and leaves at least 1000 LP units in the pool.
\<close>

theorem withdrawal_pays_share:
  assumes "amm_main E amm (RemoveLiquidity remove min_a min_b dl) accounts = Inr (ds, cs, w)"
    and "distinct (map account_id accounts)"
  shows "w = Some dl \<and> (\<exists>p a b n.
    min_a \<le> a \<and> min_b \<le> b \<and>
    unat a = unat (reserve_a p) * unat remove div unat (liquidity_pool_supply p) \<and>
    unat b = unat (reserve_b p) * unat remove div unat (liquidity_pool_supply p) \<and>
    unat remove + 1000 \<le> unat (liquidity_pool_supply p) \<and>
    decode (holding_codec E) (data (account (accounts ! 7))) = Some (Fungible (liquidity_pool_id p) n) \<and> remove \<le> n \<and>
    liquidity_flows accounts cs (- int (unat a)) (- int (unat b)) (- int (unat remove)) \<and>
    pool_moved E accounts ds p (- int (unat a)) (- int (unat b)) (- int (unat remove)))"
proof -
  obtain c p p' where w: "w = Some dl" and ran: "remove_ran E amm remove min_a min_b accounts c p p' ds cs"
    using assms(1) by (blast dest: amm_main_liquidity_runs remove_liquidity_run)
  obtain h a b where run: "decode (holding_codec E) (data (account (accounts ! 7))) = Some h"
    "withdrawal_amounts p h remove min_a min_b = Inr (a, b)"
    "liquidity_flows accounts cs (- int (unat a)) (- int (unat b)) (- int (unat remove))"
    "pool_moved E accounts ds p (- int (unat a)) (- int (unat b)) (- int (unat remove))"
    using remove_ran_flows [OF ran assms(2)] .
  show ?thesis
    using w run(1,3,4) withdrawal_amounts_run(1-3,6) [OF run(2)] withdrawal_amounts_exact [OF run(2)] by blast
qed

theorem withdrawal_pays_share_witness:
  "\<exists>ds cs p a b. amm_main borsh_amm_env 4 (RemoveLiquidity 500000 1 1 77) liquidity_accounts = Inr (ds, cs, Some 77) \<and>
    (1 :: u128) \<le> a \<and> (1 :: u128) \<le> b \<and>
    liquidity_flows liquidity_accounts cs (- int (unat a)) (- int (unat b)) (- int (unat (500000 :: u128))) \<and>
    pool_moved borsh_amm_env liquidity_accounts ds p (- int (unat a)) (- int (unat b)) (- int (unat (500000 :: u128)))"
  using demo_remove withdrawal_pays_share [OF _ demo_distinct(2), of borsh_amm_env 4 500000 1 1 77] by blast

section \<open>Liquidity is never locked up\<close>

text \<open>
  What the withdrawal asks of the accounts besides the amounts: the stored configuration and pool, the
  vaults and the LP token they name, holdings of the configured Token program, the clock and the tick
  account.
\<close>

fun withdrawal_accounts ::
  "('d, 'x) amm_env_scheme \<Rightarrow> account_id \<Rightarrow> amm_config \<Rightarrow> pool_definition \<Rightarrow> u128 \<Rightarrow> 'd account_with_metadata list \<Rightarrow> bool" where
  "withdrawal_accounts E amm c p n [config, pool, va, vb, lpd, ua, ub, ulp, tk, clk] \<longleftrightarrow>
    stored_config E amm (account config) = Some c \<and> stored_pool E amm (account pool) = Some p \<and>
    compute_pool_pda E amm (account_id config) (definition_token_a_id p) (definition_token_b_id p) = Inr (account_id pool) \<and>
    account_id va = vault_a_id p \<and> account_id vb = vault_b_id p \<and> account_id lpd = liquidity_pool_id p \<and>
    list_all (\<lambda>a. program_owner (account a) = config_token_program c) [va, vb, ua, ub] \<and>
    decode (holding_codec E) (data (account ulp)) = Some (Fungible (liquidity_pool_id p) n) \<and>
    account_id tk = compute_current_tick_account_pda E (config_oracle_program c) (account_id pool) \<and>
    account_id clk = clock_01_program_account_id E \<and>
    spel_validate E [([], config), ([Mut], pool), ([Mut], va), ([Mut], vb), ([Mut], lpd),
      ([Mut], ua), ([Mut], ub), ([Mut, Signer], ulp), ([Mut], tk), ([], clk)]"
| "withdrawal_accounts E amm c p n _ \<longleftrightarrow> False"

lemma withdrawal_amounts_live:
  assumes "remove \<le> n" "n \<le> liquidity_pool_supply p" "0 < remove"
    and "unat remove + 1000 \<le> unat (liquidity_pool_supply p)"
    and "unat (liquidity_pool_supply p) \<le> unat (reserve_a p) * unat remove"
    and "unat (liquidity_pool_supply p) \<le> unat (reserve_b p) * unat remove"
  obtains a b where "withdrawal_amounts p (Fungible (liquidity_pool_id p) n) remove 1 1 = Inr (a, b)"
    "unat a \<le> unat (reserve_a p)" "unat b \<le> unat (reserve_b p)"
proof -
  let ?s = "unat (liquidity_pool_supply p)"
  have pos: "liquidity_pool_supply p \<noteq> 0" "unat remove \<le> ?s" "0 < unat remove"
    using assms(3,4) by (auto simp: word_less_nat_alt)
  have share: "\<exists>a :: u128. mul_div_floor r remove (liquidity_pool_supply p) = Inr a \<and> 1 \<le> a \<and> unat a \<le> unat r"
    if "?s \<le> unat r * unat remove" for r :: u128
  proof -
    have "unat r * unat remove div ?s \<le> unat r * ?s div ?s"
      using pos(2) by (intro div_le_mono) simp
    then have le: "unat r * unat remove div ?s \<le> unat r"
      using pos(1) by (simp add: unat_eq_zero)
    then have "unat (of_nat (unat r * unat remove div ?s) :: u128) = unat r * unat remove div ?s"
      using unat_lt [of r] by (simp add: unat_of_nat)
    moreover have "0 < unat r * unat remove div ?s"
      using that pos(1) by (simp add: div_greater_zero_iff unat_gt_0)
    ultimately show ?thesis
      using le pos(1)
      by (intro exI [of _ "of_nat (unat r * unat remove div ?s)"]) (simp add: mul_div_floor_Inr word_le_nat_alt)
  qed
  obtain a where a: "mul_div_floor (reserve_a p) remove (liquidity_pool_supply p) = Inr a" "1 \<le> a" "unat a \<le> unat (reserve_a p)"
    using share [OF assms(5)] by blast
  obtain b where b: "mul_div_floor (reserve_b p) remove (liquidity_pool_supply p) = Inr b" "1 \<le> b" "unat b \<le> unat (reserve_b p)"
    using share [OF assms(6)] by blast
  have "MINIMUM_LIQUIDITY < liquidity_pool_supply p"
    using assms(4) pos(3) by (simp add: word_less_nat_alt)
  moreover obtain u where "checked_sub (liquidity_pool_supply p) MINIMUM_LIQUIDITY = Some u" "remove \<le> u"
    using assms(4) by (simp add: checked_sub_def word_le_nat_alt unat_sub)
  ultimately have "withdrawal_amounts p (Fungible (liquidity_pool_id p) n) remove 1 1 = Inr (a, b)"
    using a b assms(1,2) by (simp add: withdrawal_amounts_def)
  then show thesis
    using that a(3) b(3) by blast
qed

text \<open>
  C15. Liquidity is never locked up.  With the accounts of a backed pool in place, a holder of LP units
  can withdraw any number of them that leaves the 1000 locked ones and buys at least one unit of each
  token: the instruction succeeds.
\<close>

theorem withdrawal_succeeds:
  assumes "withdrawal_accounts E amm c p n accounts" "backed (pool_value p)" "\<forall>q. encode (pool_codec E) q \<noteq> None"
    and "0 < remove" "remove \<le> n" "n \<le> liquidity_pool_supply p"
    and "unat remove + 1000 \<le> unat (liquidity_pool_supply p)"
    and "unat (liquidity_pool_supply p) \<le> unat (reserve_a p) * unat remove"
    and "unat (liquidity_pool_supply p) \<le> unat (reserve_b p) * unat remove"
  shows "\<exists>ds cs. amm_main E amm (RemoveLiquidity remove 1 1 dl) accounts = Inr (ds, cs, Some dl)"
proof -
  obtain config pool va vb lpd ua ub ulp tk clk where acc: "accounts = [config, pool, va, vb, lpd, ua, ub, ulp, tk, clk]"
    using assms(1) by (elim withdrawal_accounts.elims) auto
  have ok: "stored_config E amm (account config) = Some c" "stored_pool E amm (account pool) = Some p"
    using assms(1) by (simp_all add: acc)
  obtain a b where amounts: "withdrawal_amounts p (Fungible (liquidity_pool_id p) n) remove 1 1 = Inr (a, b)"
    "unat a \<le> unat (reserve_a p)" "unat b \<le> unat (reserve_b p)"
    using withdrawal_amounts_live [OF assms(5,6,4,7-9)] .
  let ?p' = "p \<lparr> liquidity_pool_supply := liquidity_pool_supply p - remove, reserve_a := reserve_a p - a,
    reserve_b := reserve_b p - b \<rparr>"
  have le: "remove \<le> liquidity_pool_supply p" "a \<le> reserve_a p" "b \<le> reserve_b p"
    using assms(7) amounts(2,3) by (simp_all add: word_le_nat_alt)
  have "share_value_le (pool_value p) (pool_value ?p')"
    using withdrawal_share_value [OF withdrawal_amounts_run(4,5) [OF amounts(1)]] le
    by (simp add: pool_value_def unat_sub)
  moreover have "1000 \<le> unat (liquidity_pool_supply ?p')"
    using assms(7) le(1) by (simp add: unat_sub)
  ultimately have "backed (pool_value ?p')"
    using assms(2) backed_step unfolding pool_value_def by blast
  then have nonzero: "reserve_a p - a \<noteq> 0"
    using backed_positive [of "unat (reserve_a p - a)"] by (auto simp: pool_value_def)
  obtain d where d: "encode (pool_codec E) ?p' = Some d"
    using assms(3) by blast
  have "MINIMUM_LIQUIDITY \<le> liquidity_pool_supply p"
    using assms(7) by (simp add: word_le_nat_alt)
  moreover obtain price where "spot_price_q64_64 (reserve_a p - a) (reserve_b p - b) = Inr price"
    using nonzero by (simp add: spot_price_cases)
  moreover obtain seed where "compute_pool_pda_seed E (account_id config) (definition_token_a_id p)
      (definition_token_b_id p) = Inr seed"
    using assms(1) by (auto simp: acc success)
  moreover have "remove \<noteq> 0"
    using assms(4) by auto
  ultimately show ?thesis
    using assms(1) ok amounts(1) le d unfolding acc
    by (simp add: amm_main_def until_def remove_liquidity_def stored_config_def stored_pool_def checked_sub_def
        update_tick_call_def pool_data_def Let_def split: if_splits)
qed

theorem withdrawal_succeeds_witness:
  "\<exists>ds cs. amm_main borsh_amm_env 4 (RemoveLiquidity 999 1 1 77) liquidity_accounts = Inr (ds, cs, Some 77)"
proof -
  have "withdrawal_accounts borsh_amm_env 4 demo_config demo_pool 500000 liquidity_accounts"
    by (simp add: demo_accounts stored_config_def stored_pool_def)
  from withdrawal_succeeds [OF this demo_valid(2), of 999 77] show ?thesis
    by simp
qed

end
