(* ===== verification/Amm_Solvency_Props.thy ===== *)
theory Amm_Solvency_Props
  imports Amm_Demo
begin

text \<open>
  The properties of the AMM's interaction with the programs it calls, of the form of what it writes,
  of its addresses and of the stored bytes.
\<close>

section \<open>With the Token program\<close>





section \<open>With the oracle\<close>

text \<open>
  The oracle hears the new price.  Every instruction that moves reserves ends with exactly one call
  to the configured oracle: it reports the spot price of the reserves just written, for the tick account
  of this pool and the canonical clock, under the pool's own seed.
\<close>

theorem oracle_hears_new_price:
  assumes "amm_main E amm i accounts = Inr (ds, cs, w)" "moves_reserves i"
  shows "\<exists>c p p' d price seed. stored_config E amm (account (accounts ! 0)) = Some c \<and>
    decode (pool_codec E) (data (account (accounts ! 1))) = Some p \<and> encode (pool_codec E) p' = Some d \<and>
    NewData (accounts ! 1) (Add 0) d \<in> set ds \<and> spot_price_q64_64 (reserve_a p') (reserve_b p') = Inr price \<and>
    compute_pool_pda_seed E (account_id (accounts ! 0)) (definition_token_a_id p) (definition_token_b_id p) = Inr seed \<and>
    last cs = with_pda_seeds (chained_call_new (config_oracle_program c)
      [compute_current_tick_account_pda E (config_oracle_program c) (account_id (accounts ! 1)),
       account_id (accounts ! 1), clock_01_program_account_id E] (OracleCall (UpdateCurrentTick price))) [seed] \<and>
    list_all (\<lambda>call. callee call = config_token_program c) (butlast cs)"
  using assms
proof (rule amm_main_reports)
  fix c p p' d
  assume run: "decode (config_codec E) (data (account (accounts ! 0))) = Some c"
    "program_owner (account (accounts ! 0)) = amm"
    "decode (pool_codec E) (data (account (accounts ! 1))) = Some p" "same_identity p p'"
    "encode (pool_codec E) p' = Some d" "NewData (accounts ! 1) (Add 0) d \<in> set ds"
    "reports_price E (config_oracle_program c) (account_id (accounts ! 0)) (account_id (accounts ! 1)) p' (last cs)"
    "\<forall>call\<in>set (butlast cs). callee call = config_token_program c"
  from run(7) obtain price seed where
    "callee (last cs) = config_oracle_program c" "instruction_data (last cs) = OracleCall (UpdateCurrentTick price)"
    "spot_price_q64_64 (reserve_a p') (reserve_b p') = Inr price"
    "pre_state_ids (last cs) = [compute_current_tick_account_pda E (config_oracle_program c) (account_id (accounts ! 1)),
       account_id (accounts ! 1), clock_01_program_account_id E]"
    "compute_pool_pda_seed E (account_id (accounts ! 0)) (definition_token_a_id p') (definition_token_b_id p') = Inr seed"
    "pda_seeds (last cs) = [seed]"
    unfolding reports_price_def by blast
  then show ?thesis
    using run by (intro exI [of _ c] exI [of _ p] exI [of _ p'] exI [of _ d] exI [of _ price] exI [of _ seed])
      (auto simp: stored_config_def same_identity_def list_all_iff chained_call_new_def with_pda_seeds_def
        intro!: chained_call.equality)
qed

theorem oracle_hears_new_price_witness:
  "\<exists>price seed. last demo_calls = with_pda_seeds (chained_call_new 5 [5068009931, 672001334, 1]
      (OracleCall (UpdateCurrentTick price))) [seed]"
  using oracle_hears_new_price [OF demo_swap_calls]
  by (fastforce simp: moves_reserves_def demo_accounts stored_config_def)

section \<open>What is written\<close>

text \<open>
  C23. An instruction writes only its own account types.  On success there is one diff per account, in
  order; no native balance moves; and changed data is the encoding of a configuration or of a pool.
\<close>

theorem amm_writes_typed:
  assumes "amm_runtime E amm" "amm_main E amm i accounts = Inr (ds, cs, w)"
  shows "map pre_state ds = accounts \<and> list_all keeps_balance ds \<and>
    list_all (\<lambda>d. \<not> writes_data d \<or>
      (\<exists>c'. encode (config_codec E) c' = Some (post_data d) \<and>
        (case decode (config_codec E) (data (account (pre_state d))) of
           None \<Rightarrow> account (pre_state d) = account_default E \<and> fees_valid c'
         | Some c \<Rightarrow> config_authority c \<in> authorized_ids accounts)) \<or>
      (\<exists>p'. encode (pool_codec E) p' = Some (post_data d) \<and>
        (case decode (pool_codec E) (data (account (pre_state d))) of
           None \<Rightarrow> account (pre_state d) = account_default E \<and> backed (pool_value p')
         | Some p \<Rightarrow> True))) ds"
proof -
  have ok: "writes_ok E amm accounts ds"
    using amm_main_writes_ok [OF assms(2) amm_runtime.root [OF assms(1)]] .
  have "decode (config_codec E) (data (account_default E)) = None" "decode (pool_codec E) (data (account_default E)) = None"
    using amm_runtime.blank [OF assms(1)] by simp_all
  then show ?thesis
    using ok unfolding writes_ok_def config_write_def pool_write_def list_all_iff by fastforce
qed

theorem amm_writes_typed_witness:
  "map pre_state (demo_writes swap_accounts demo_traded) = swap_accounts \<and>
   list_all keeps_balance (demo_writes swap_accounts demo_traded)"
  using amm_writes_typed [OF borsh_amm.amm_runtime_axioms demo_swap_calls] by blast

section \<open>Addresses\<close>

text \<open>
  Addresses do not collide by construction.  The byte strings hashed into the seeds determine the
  kind of account and its arguments: a configuration by owner and nonce, a pool by configuration and
  the unordered pair of tokens, a vault by pool and token, a fee holding by configuration and token, the
  LP token and its lock by pool.
\<close>

theorem seed_bytes_injective:
  assumes "a \<noteq> b" "a' \<noteq> b'"
  shows "(config_seed_bytes x n = config_seed_bytes x' n' \<longleftrightarrow> x = x' \<and> n = n') \<and>
    (pool_seed_bytes x a b = pool_seed_bytes x' a' b' \<longleftrightarrow> x = x' \<and> {a, b} = {a', b'}) \<and>
    (vault_seed_bytes x a = vault_seed_bytes x' a' \<longleftrightarrow> x = x' \<and> a = a') \<and>
    (protocol_fee_seed_bytes x a = protocol_fee_seed_bytes x' a' \<longleftrightarrow> x = x' \<and> a = a') \<and>
    (liquidity_token_seed_bytes x = liquidity_token_seed_bytes x' \<longleftrightarrow> x = x') \<and>
    (lp_lock_holding_seed_bytes x = lp_lock_holding_seed_bytes x' \<longleftrightarrow> x = x') \<and>
    distinct [Inr (config_seed_bytes x n), pool_seed_bytes x a b, Inr (vault_seed_bytes x a),
      Inr (protocol_fee_seed_bytes x a), Inr (liquidity_token_seed_bytes x'), Inr (lp_lock_holding_seed_bytes x'')]"
proof -
  obtain bs where bs: "pool_seed_bytes x a b = Inr bs"
    using assms(1) by (auto simp: pool_seed_bytes_Inr)
  note lens = length_seed_bytes(1) [of x n] length_seed_bytes(2) [OF bs] length_seed_bytes(3) [of x a]
    length_seed_bytes(4) [of x a] length_seed_bytes(5) [of x'] length_seed_bytes(6) [of x'']
  have tags: "liquidity_token_seed_bytes x' \<noteq> lp_lock_holding_seed_bytes x''"
    using tags_differ by (simp add: liquidity_token_seed_bytes_def lp_lock_holding_seed_bytes_def)
  have "distinct (map length [config_seed_bytes x n, bs, vault_seed_bytes x a, protocol_fee_seed_bytes x a,
      liquidity_token_seed_bytes x'])"
    using lens by simp
  then have kinds: "distinct [config_seed_bytes x n, bs, vault_seed_bytes x a, protocol_fee_seed_bytes x a,
      liquidity_token_seed_bytes x', lp_lock_holding_seed_bytes x'']"
    using lens tags by fastforce
  have "pool_seed_bytes x a b = Inr (to_bytes x @ to_bytes (max a b) @ to_bytes (min a b))"
    "pool_seed_bytes x' a' b' = Inr (to_bytes x' @ to_bytes (max a' b') @ to_bytes (min a' b'))"
    using assms by (simp_all add: pool_seed_bytes_Inr)
  then have pools: "pool_seed_bytes x a b = pool_seed_bytes x' a' b' \<longleftrightarrow> x = x' \<and> {a, b} = {a', b'}"
    by (simp add: max_min_pair [symmetric])
  show ?thesis
    using kinds pools
    by (simp add: bs config_seed_bytes_def vault_seed_bytes_def protocol_fee_seed_bytes_def
        liquidity_token_seed_bytes_def lp_lock_holding_seed_bytes_def)
qed

theorem seed_bytes_injective_witness:
  "pool_seed_bytes 1 20 30 = pool_seed_bytes 1 30 20 \<and> pool_seed_bytes 1 20 30 \<noteq> pool_seed_bytes 2 20 30"
  using seed_bytes_injective [of 20 30 30 20 1 0 1 0] seed_bytes_injective [of 20 30 20 30 1 0 2 0] by auto

section \<open>Stored bytes\<close>




end
