(* ===== verification/Twap_Claims.thy ===== *)
theory Twap_Claims
  imports Twap_Borsh
begin

text \<open>
  The properties of the TWAP oracle, and a demonstration feed: program 40, price source 50, a window
  of 2048 ms, created at 1000 ms with tick 5 and recorded once, at 2000 ms, with tick 9.
\<close>

section \<open>A demonstration feed\<close>

definition observations_account :: "bytes account \<Rightarrow> bytes account_with_metadata" where
  "observations_account a = \<lparr> account = a, is_authorized = False,
     account_id = compute_price_observations_pda borsh_twap_env 40 50 2048 \<rparr>"

definition tick_account :: "bytes account_with_metadata" where
  "tick_account = \<lparr> account = \<lparr> program_owner = 40, balance = 0,
       data = ser_current_tick \<lparr> tick = 9, last_updated = 1500 \<rparr>, nonce = 0 \<rparr>,
     is_authorized = False, account_id = compute_current_tick_account_pda borsh_twap_env 40 50 \<rparr>"

definition price_source :: "bytes account_with_metadata" where
  "price_source = \<lparr> account = empty_account, is_authorized = True, account_id = 50 \<rparr>"

definition clock_at :: "u64 \<Rightarrow> bytes account_with_metadata" where
  "clock_at t = \<lparr> account = \<lparr> program_owner = 99, balance = 0, data = to_le_bytes t, nonce = 0 \<rparr>,
     is_authorized = False, account_id = 1 \<rparr>"

definition oracle_owned :: "bytes \<Rightarrow> bytes account" where
  "oracle_owned d = \<lparr> program_owner = 40, balance = 0, data = d, nonce = 0 \<rparr>"

lemma demo_account_simps [simp]:
  "account (observations_account a) = a"
  "account_id (observations_account a) = compute_price_observations_pda borsh_twap_env 40 50 2048"
  "program_owner (account tick_account) = 40"
  "data (account tick_account) = ser_current_tick \<lparr> tick = 9, last_updated = 1500 \<rparr>"
  "account_id tick_account = compute_current_tick_account_pda borsh_twap_env 40 50"
  "is_authorized price_source" "account_id price_source = 50"
  "account_id (clock_at t) = 1" "from_le_bytes (data (account (clock_at t))) = t"
  "program_owner (oracle_owned d) = 40" "data (oracle_owned d) = d"
  by (simp_all add: observations_account_def tick_account_def price_source_def clock_at_def
      oracle_owned_def from_to_le_bytes)

lemma length_ser_observations: "length (ser_observations x) = 52 + 16 * length (entries x)"
proof -
  have "length (concat (map ser_entry es)) = 16 * length es" for es
    by (induction es) (simp_all add: ser_entry_def)
  then show ?thesis
    by (simp add: ser_observations_def ser_vec_def)
qed

lemma observations_encode [simp]:
  assumes "length (entries x) = OBSERVATIONS_CAPACITY"
  shows "encode (borsh_codec ser_observations de_observations) x = Some (ser_observations x)"
  using assms by (simp add: borsh_codec_simps length_ser_observations OBSERVATIONS_CAPACITY_def data_max_length_def)

lemma observations_decode [simp]:
  assumes "length (entries x) = OBSERVATIONS_CAPACITY"
  shows "decode (borsh_codec ser_observations de_observations) (ser_observations x) = Some x"
  by (rule codec_laws.round_trip [OF borsh_observations.codec]) (rule observations_encode [OF assms])

lemma current_tick_decode [simp]:
  "decode (borsh_codec ser_current_tick de_current_tick) (ser_current_tick x) = Some x"
  by (rule codec_laws.round_trip [OF borsh_current_tick.codec])
    (simp add: borsh_codec_simps ser_current_tick_def data_max_length_def)

declare borsh_codec_simps [simp del]

definition feed0 :: price_observations where
  "feed0 = initial_observations 50 1000 5"

lemma feed0_simps [simp]:
  "length (entries feed0) = OBSERVATIONS_CAPACITY" "ring_ok feed0" "last_recorded_tick feed0 = 5"
  "history feed0 = [\<lparr> entry_timestamp = 1000, tick_cumulative = 0 \<rparr>]" "total_entries feed0 = 1"
  using initial_ring [of 50 1000 5] by (simp_all add: feed0_def ring_ok_def) (simp_all add: initial_observations_def)

lemma feed0_created: "feed borsh_twap_env 40 50 2048 5 9 feed0"
proof (rule feed.created)
  show "create_price_observations borsh_twap_env (observations_account empty_account) price_source
      (clock_at 1000) 5 2048 40 =
    Inr [NewData (observations_account empty_account) (Add 0) (ser_observations feed0),
         Unchanged price_source, Unchanged (clock_at 1000)]"
    by (simp add: create_price_observations_def observations_data_def OBSERVATIONS_CAPACITY_def
        flip: feed0_def)
qed simp_all

lemma min_interval_2048: "min_sampling_interval 2048 = 1"
  by (simp add: min_sampling_interval_def OBSERVATIONS_CAPACITY_def)

lemma clamped_5_9: "clamped_tick 5 9 = 9"
proof -
  have "sint (clamped_tick 5 9) = 9"
    by (simp add: clamped_tick_exact)
  moreover have "sint (9 :: i32) = 9"
    by simp
  ultimately show ?thesis
    by (simp add: signed_word_eqI)
qed

definition feed1 :: price_observations where
  "feed1 = feed0 \<lparr> entries := (entries feed0) [1 := \<lparr> entry_timestamp = 2000, tick_cumulative = 9000 \<rparr>],
     write_index := of_nat ((1 + 1) mod OBSERVATIONS_CAPACITY), total_entries := 2, last_recorded_tick := 9 \<rparr>"

lemma feed0_more [simp]: "write_index feed0 = 1"
  by (simp add: feed0_def initial_observations_def)

lemma scast_9: "sint (scast (9 :: i32) :: i64) = 9"
  by (simp del: sint_scast_i64 add: sint_scast_i64)

lemma feed0_push:
  "push_observation feed0 9 2000 \<lparr> entry_timestamp = 1000, tick_cumulative = 0 \<rparr> 1000 = Inr feed1"
proof -
  have "(1::nat) < OBSERVATIONS_CAPACITY"
    by (simp add: OBSERVATIONS_CAPACITY_def)
  then show ?thesis
    by (simp add: push_observation_def to_signed_def signed_checked_mul_def signed_checked_add_def
        checked_add_def feed1_def)
qed

lemma feed1_simps [simp]:
  "length (entries feed1) = OBSERVATIONS_CAPACITY" "total_entries feed1 = 2" "ring_ok feed1"
  "last_recorded_tick feed1 = 9"
  using push_observation_Inr(1) [OF feed0_simps(2) feed0_push]
  by (simp_all add: saturating_sub_def) (simp_all add: feed1_def)

lemma take_two: "2 \<le> length xs \<Longrightarrow> take 2 xs = [xs ! 0, xs ! 1]"
  by (cases xs; cases "tl xs") auto

lemma feed1_history:
  "history feed1 = [\<lparr> entry_timestamp = 1000, tick_cumulative = 0 \<rparr>, \<lparr> entry_timestamp = 2000, tick_cumulative = 9000 \<rparr>]"
proof -
  have "history feed1 = take 2 (entries feed1)"
    by (simp add: history_def) (simp add: OBSERVATIONS_CAPACITY_def)
  also have "\<dots> = [entries feed1 ! 0, entries feed1 ! 1]"
    by (rule take_two) (simp, simp add: OBSERVATIONS_CAPACITY_def)
  finally show ?thesis
    by (simp add: feed1_def feed0_def initial_observations_def OBSERVATIONS_CAPACITY_def)
qed

lemma feed0_record:
  "record_tick borsh_twap_env (observations_account (oracle_owned (ser_observations feed0))) tick_account
     (clock_at 2000) 50 2048 40 =
   Inr [NewData (observations_account (oracle_owned (ser_observations feed0))) (Add 0) (ser_observations feed1),
        Unchanged tick_account, Unchanged (clock_at 2000)]"
  by (simp add: record_tick_def get_newest Let_def saturating_sub_def min_interval_2048 clamped_5_9
      feed0_push observations_data_def)

lemma feed1_feed: "feed borsh_twap_env 40 50 2048 5 9 feed1"
  by (rule feed.recorded [OF feed0_created feed0_record, where current = "\<lparr> tick = 9, last_updated = 1500 \<rparr>"])
    simp_all

lemma clamped_9_9: "clamped_tick 9 9 = 9"
proof -
  have "sint (clamped_tick 9 9) = sint (9 :: i32)"
    by (simp add: clamped_tick_exact)
  then show ?thesis
    by (rule signed_word_eqI)
qed

lemma feed1_twap:
  "twap_tick feed1 \<lparr> entry_timestamp = 1000, tick_cumulative = 0 \<rparr> \<lparr> entry_timestamp = 2000, tick_cumulative = 9000 \<rparr>
     \<lparr> tick = 9, last_updated = 1500 \<rparr> 2003 = Inr 9"
  by (simp add: twap_tick_def saturating_sub_def to_signed_def signed_checked_mul_def
      signed_checked_add_def signed_checked_sub_def checked_sub_def signed_checked_div_euclid_def clamped_9_9)

definition price_account :: "bytes account_with_metadata" where
  "price_account = \<lparr> account = oracle_owned (ser_oracle_price
       \<lparr> oracle_base_asset = 6, oracle_quote_asset = 7, oracle_price = 1, oracle_timestamp = 1000,
         oracle_source_id = 50, confidence_interval = 0 \<rparr>),
     is_authorized = False, account_id = compute_oracle_price_account_pda borsh_twap_env 40 50 2048 \<rparr>"

lemma oracle_price_encode [simp]:
  "encode (borsh_codec ser_oracle_price de_oracle_price) x = Some (ser_oracle_price x)"
  by (simp add: borsh_codec_simps ser_oracle_price_def data_max_length_def)

lemma oracle_price_decode [simp]:
  "decode (borsh_codec ser_oracle_price de_oracle_price) (ser_oracle_price x) = Some x"
  by (rule codec_laws.round_trip [OF borsh_oracle_price.codec]) simp

lemma demo_oracle_price: "\<exists>p. tick_to_oracle_price borsh_twap_env t = Inr p"
  by (simp add: tick_to_oracle_price_def) (simp add: borsh_twap_env_def token_env.extend_def)

lemma feed1_published:
  "\<exists>ds. publish_price borsh_twap_env (observations_account (oracle_owned (ser_observations feed1)))
     price_account tick_account (clock_at 2003) 50 2048 40 = Inr ds"
proof -
  obtain p where "tick_to_oracle_price borsh_twap_env 9 = Inr p"
    using demo_oracle_price by blast
  then show ?thesis
    by (simp add: publish_price_def price_account_def get_newest get_oldest feed1_history Let_def
        saturating_sub_def saturating_mul_def min_interval_2048 MAX_TAIL_INTERVALS_def feed1_twap
        oracle_price_data_def)
qed

section \<open>Properties\<close>

text \<open>
  The integer square root.  The bitwise loop terminates on every 256-bit input without panicking
  in any of its checked operations, and returns the floor of the square root.
\<close>

theorem integer_sqrt_exact:
  "\<exists>r. integer_sqrt n = Inr r \<and> unat r ^ 2 \<le> unat n \<and> unat n < (unat r + 1) ^ 2"
  by (rule integer_sqrt_floor)

text \<open>
  C17. Recording refines appending.  On a well-formed ring, a successful recording either changes
  nothing, when the newest observation is younger than the sampling interval, or stores a well-formed
  ring whose history is the old one with one observation appended (the oldest dropped when full): it is
  stamped with the clock, its accumulator is the last one plus tick times elapsed time exactly, and the
  tick moved from the previously recorded one towards the reported one by at most 9116.
\<close>

theorem record_tick_appends:
  assumes "record_tick E oa ta clock source_id window P = Inr ds"
    and "decode (observations_codec E) (data (account oa)) = Some obs" "ring_ok obs"
    and "decode (current_tick_codec E) (data (account ta)) = Some current"
  shows "(let now = clock_timestamp E (data (account clock)); e = last (history obs) in
     if saturating_sub now (entry_timestamp e) < min_sampling_interval window
     then ds = [Unchanged oa, Unchanged ta, Unchanged clock]
     else \<exists>obs' e' t d. ring_ok obs' \<and> encode (observations_codec E) obs' = Some d \<and>
       ds = [NewData oa (Add 0) d, Unchanged ta, Unchanged clock] \<and>
       history obs' = (if length (history obs) < OBSERVATIONS_CAPACITY then history obs else tl (history obs)) @ [e'] \<and>
       entry_timestamp e' = now \<and> entry_follows t e e' \<and> last_recorded_tick obs' = t \<and>
       sint t = sint (last_recorded_tick obs) +
         max (- 9116) (min 9116 (sint (tick current) - sint (last_recorded_tick obs))))"
proof -
  define now where "now = clock_timestamp E (data (account clock))"
  define elapsed where "elapsed = saturating_sub now (entry_timestamp (last (history obs)))"
  note rec = record_tick_Inr [OF assms, folded now_def, unfolded Let_def, folded elapsed_def]
  show ?thesis
  proof (cases "elapsed < min_sampling_interval window")
    case True
    then show ?thesis
      using rec by (simp add: Let_def flip: now_def elapsed_def)
  next
    case False
    then obtain obs' d where p:
      "push_observation obs (clamped_tick (last_recorded_tick obs) (tick current)) now (last (history obs)) elapsed = Inr obs'"
      "encode (observations_codec E) obs' = Some d" "ds = [NewData oa (Add 0) d, Unchanged ta, Unchanged clock]"
      using rec by auto
    have "0 < elapsed"
      using False min_interval_pos [of window] by (simp add: word_less_nat_alt)
    from push_observation_Inr [OF assms(3) p(1) refl elapsed_def this] False p(2,3)
    show ?thesis
      by (auto simp: Let_def clamped_tick_exact simp flip: now_def elapsed_def)
  qed
qed

theorem record_tick_appends_witness:
  "\<exists>obs' d. encode (observations_codec borsh_twap_env) obs' = Some d \<and> length (history obs') = 2 \<and>
    record_tick borsh_twap_env (observations_account (oracle_owned (ser_observations feed0))) tick_account
     (clock_at 2000) 50 2048 40 =
   Inr [NewData (observations_account (oracle_owned (ser_observations feed0))) (Add 0) d,
        Unchanged tick_account, Unchanged (clock_at 2000)]"
proof -
  have "\<not> (saturating_sub 2000 1000 < (1 :: u64))" "1 < OBSERVATIONS_CAPACITY"
    by (simp_all add: saturating_sub_def OBSERVATIONS_CAPACITY_def)
  with record_tick_appends [OF feed0_record, of feed0 "\<lparr> tick = 9, last_updated = 1500 \<rparr>"]
  show ?thesis
    using feed0_record by (auto simp: Let_def min_interval_2048)
qed

lemma sorted_wrt_hd_last: "sorted_wrt R xs \<Longrightarrow> 2 \<le> length xs \<Longrightarrow> R (hd xs) (last xs)"
  by (cases xs) (auto simp: last_in_set)

text \<open>
  C16. The published price lies within the reported ticks.  Take a feed created and recorded to by any
  sequence of calls in which every reported tick lies in \<^theory_text>\<open>[lo, hi]\<close>, and publish with a live tick in
  \<^theory_text>\<open>[lo, hi]\<close>.  If publishing writes a price, it is the oracle price of a tick in \<^theory_text>\<open>[lo, hi]\<close>, stamped
  with the clock, and the newest observation is at most four sampling intervals old; otherwise fewer
  than two observations exist and nothing is written.
\<close>

theorem published_within_reported_ticks:
  assumes "oracle_runtime E" "feed E P source_id window lo hi obs"
    and "publish_price E oa pa ta clock source_id window P = Inr ds"
    and "decode (observations_codec E) (data (account oa)) = Some obs"
    and "decode (current_tick_codec E) (data (account ta)) = Some current"
    and "lo \<le> sint (tick current)" "sint (tick current) \<le> hi"
  shows "(total_entries obs < 2 \<and> ds = [Unchanged oa, Unchanged pa, Unchanged ta, Unchanged clock]) \<or>
    (\<exists>t p old d. lo \<le> sint t \<and> sint t \<le> hi \<and> tick_to_oracle_price E t = Inr p \<and>
       decode (oracle_price_codec E) (data (account pa)) = Some old \<and>
       encode (oracle_price_codec E)
         (old \<lparr> oracle_price := p, oracle_timestamp := clock_timestamp E (data (account clock)) \<rparr>) = Some d \<and>
       ds = [Unchanged oa, NewData pa (Add 0) d, Unchanged ta, Unchanged clock] \<and>
       unat (clock_timestamp E (data (account clock))) - unat (entry_timestamp (last (history obs))) \<le>
         4 * unat (min_sampling_interval window))"
proof (cases "total_entries obs < 2")
  case True
  then show ?thesis
    using assms(3-5) by (auto simp: publish_price_def success Let_def)
next
  case False
  define now where "now = clock_timestamp E (data (account clock))"
  let ?t1 = "hd (history obs)" and ?t2 = "last (history obs)"
  have ok: "ring_ok obs" "lo \<le> sint (last_recorded_tick obs)" "sint (last_recorded_tick obs) \<le> hi"
    "sorted_wrt (between_ticks window lo hi) (history obs)"
    using oracle_runtime.feed_invariant [OF assms(1,2)] by (simp_all add: feed_ok_def)
  from assms(3) obtain t p old d where run:
    "saturating_sub now (entry_timestamp ?t2) \<le> saturating_mul (min_sampling_interval window) MAX_TAIL_INTERVALS"
    "twap_tick obs ?t1 ?t2 current now = Inr t" "tick_to_oracle_price E t = Inr p"
    "decode (oracle_price_codec E) (data (account pa)) = Some old"
    "encode (oracle_price_codec E) (old \<lparr> oracle_price := p, oracle_timestamp := now \<rparr>) = Some d"
    "ds = [Unchanged oa, NewData pa (Add 0) d, Unchanged ta, Unchanged clock]"
    using False assms(4,5) ok(1)
    by (auto simp: publish_price_def success Let_def get_newest get_oldest now_def)
  have "2 \<le> length (history obs)"
    using False ok(1) by (simp add: length_history OBSERVATIONS_CAPACITY_def word_less_nat_alt)
  then have first_last: "between_ticks window lo hi ?t1 ?t2"
    by (rule sorted_wrt_hd_last [OF ok(4)])
  obtain b where b: "unat (entry_timestamp ?t2) \<le> b" "b \<le> unat now" "unat (entry_timestamp ?t1) < unat now"
    "sint t = (sint (tick_cumulative ?t2) +
        sint (last_recorded_tick obs) * (int b - int (unat (entry_timestamp ?t2))) +
        sint (clamped_tick (last_recorded_tick obs) (tick current)) * (int (unat now) - int b) -
        sint (tick_cumulative ?t1)) div (int (unat now) - int (unat (entry_timestamp ?t1)))"
    using twap_tick_Inr [OF run(2)] .
  define pre post mid where "pre = int b - int (unat (entry_timestamp ?t2))"
    and "post = int (unat now) - int b"
    and "mid = int (unat (entry_timestamp ?t2)) - int (unat (entry_timestamp ?t1))"
  have span: "int (unat now) - int (unat (entry_timestamp ?t1)) = mid + pre + post"
    by (simp add: pre_def post_def mid_def)
  have parts: "0 \<le> pre" "0 \<le> post"
    using b(1,2) unfolding pre_def post_def by linarith+
  have stored: "lo * mid \<le> sint (tick_cumulative ?t2) - sint (tick_cumulative ?t1)"
    "sint (tick_cumulative ?t2) - sint (tick_cumulative ?t1) \<le> hi * mid"
    using first_last by (simp_all add: between_ticks_def Let_def mid_def)
  note live = clamped_tick_between [OF ok(2,3) assms(6,7)]
  have tail: "lo * pre \<le> sint (last_recorded_tick obs) * pre" "sint (last_recorded_tick obs) * pre \<le> hi * pre"
    "lo * post \<le> sint (clamped_tick (last_recorded_tick obs) (tick current)) * post"
    "sint (clamped_tick (last_recorded_tick obs) (tick current)) * post \<le> hi * post"
    using ok(2,3) live parts by (simp_all add: mult_right_mono)
  have "0 < mid + pre + post"
    using b(3) span by linarith
  then have "lo \<le> sint t \<and> sint t \<le> hi"
    unfolding b(4) span pre_def [symmetric] post_def [symmetric]
    by (rule average_within) (use stored tail in \<open>simp_all add: distrib_left\<close>)
  moreover have "unat now - unat (entry_timestamp ?t2) \<le> 4 * unat (min_sampling_interval window)"
    using run(1) by (simp add: word_le_nat_alt unat_saturating_sub unat_saturating_mul MAX_TAIL_INTERVALS_def)
  ultimately show ?thesis
    using run by (auto simp: now_def)
qed

theorem published_within_reported_ticks_witness:
  "\<exists>ds t. publish_price borsh_twap_env (observations_account (oracle_owned (ser_observations feed1)))
     price_account tick_account (clock_at 2003) 50 2048 40 = Inr ds \<and> 5 \<le> sint (t :: i32) \<and> sint t \<le> 9"
proof -
  obtain ds where run: "publish_price borsh_twap_env (observations_account (oracle_owned (ser_observations feed1)))
     price_account tick_account (clock_at 2003) 50 2048 40 = Inr ds"
    using feed1_published by blast
  have dec: "decode (observations_codec borsh_twap_env)
      (data (account (observations_account (oracle_owned (ser_observations feed1))))) = Some feed1"
    "decode (current_tick_codec borsh_twap_env) (data (account tick_account)) = Some \<lparr> tick = 9, last_updated = 1500 \<rparr>"
    by simp_all
  show ?thesis
    using published_within_reported_ticks [OF borsh_oracle.oracle_runtime_axioms feed1_feed run dec] run
    by auto
qed

end
