(* ===== verification/Stable_Math.thy ===== *)
theory Stable_Math
  imports Amm_Math
begin

text \<open>
  The fixed-point arithmetic of the stablecoin program (\<^theory_text>\<open>programs/stablecoin/core/src/math.rs\<close>):
  rates, ratios and prices are 128-bit words scaled by \<^theory_text>\<open>10^27\<close>.  Compounding is exponentiation by
  squaring, once in 128 bits (panicking on overflow) and once in 512 bits (saturating).  Both are
  compared with \<^theory_text>\<open>compounded\<close>, the same algorithm on unbounded naturals.
\<close>

unbundle bit_operations_syntax

section \<open>Constants\<close>

definition FIXED_POINT_ONE :: u128 where
  "FIXED_POINT_ONE = 1000000000000000000000000000"

definition MAXIMUM_COMPOUNDING_WINDOW_MILLISECONDS :: u64 where
  "MAXIMUM_COMPOUNDING_WINDOW_MILLISECONDS = 604800000"

text \<open>The number the scale denotes.\<close>

abbreviation (input) scale :: nat where
  "scale \<equiv> 1000000000000000000000000000"

lemma unat_FIXED_POINT_ONE [simp]: "unat FIXED_POINT_ONE = scale"
  by (simp add: FIXED_POINT_ONE_def)

lemma FIXED_POINT_ONE_nonzero [simp]: "FIXED_POINT_ONE \<noteq> 0"
  by (simp add: FIXED_POINT_ONE_def)

section \<open>Multiply and divide\<close>

definition mul_div :: "u128 \<Rightarrow> u128 \<Rightarrow> u128 \<Rightarrow> u128 outcome" where
  "mul_div a b c =
    ensure (c \<noteq> 0) ''mul_div: division by zero'' (
    expect ''mul_div: intermediate product overflows U256'' (checked_mul (widen256 a) (widen256 b)) (\<lambda>product.
    expect ''mul_div: division by zero'' (checked_div product (widen256 c)) (\<lambda>quotient.
    expect ''mul_div: result exceeds u128'' (narrow quotient) Inr)))"

text \<open>\<^theory_text>\<open>mul_div_ceil\<close> of the stablecoin crate.\<close>

definition checked_rem :: "u256 \<Rightarrow> u256 \<Rightarrow> u256 option" where
  "checked_rem a b = (if b = 0 then None else Some (a mod b))"

definition fixed_mul_div_ceil :: "u128 \<Rightarrow> u128 \<Rightarrow> u128 \<Rightarrow> u128 outcome" where
  "fixed_mul_div_ceil a b c =
    ensure (c \<noteq> 0) ''mul_div_ceil: division by zero'' (
    expect ''mul_div_ceil: intermediate product overflows U256'' (checked_mul (widen256 a) (widen256 b))
      (\<lambda>product.
    expect ''mul_div_ceil: division by zero'' (checked_div product (widen256 c)) (\<lambda>quotient.
    expect ''mul_div_ceil: division by zero'' (checked_rem product (widen256 c)) (\<lambda>remainder.
    attempt (if remainder = 0 then Inr quotient
             else expect ''mul_div_ceil: ceil increment overflows U256'' (checked_add quotient 1) Inr) (\<lambda>ceiled.
    expect ''mul_div_ceil: result exceeds u128'' (narrow ceiled) Inr)))))"

text \<open>
  \<^theory_text>\<open>PRICE_FRACTIONAL_BITS\<close> of the oracle crate is 64.  The operators \<^theory_text>\<open>*\<close> of the wide integers are
  the word product: the factors have 128 bits, so no product below overflows.
\<close>

definition oracle_price_to_fixed_point :: "u128 \<Rightarrow> u128" where
  "oracle_price_to_fixed_point price =
    (case narrow (drop_bit 64 (widen256 price * widen256 FIXED_POINT_ONE)) of Some p \<Rightarrow> p | None \<Rightarrow> - 1)"

section \<open>Compounding in 128 bits\<close>

function compound_loop :: "u128 \<Rightarrow> u128 \<Rightarrow> u64 \<Rightarrow> u128 outcome" where
  "compound_loop result base exponent =
    (if exponent = 0 then Inr result else
     attempt (if exponent AND 1 = 1 then mul_div result base FIXED_POINT_ONE else Inr result) (\<lambda>result'.
     attempt (if drop_bit 1 exponent \<noteq> 0 then mul_div base base FIXED_POINT_ONE else Inr base) (\<lambda>base'.
     compound_loop result' base' (drop_bit 1 exponent))))"
  by pat_completeness auto

termination
proof (relation "measure (\<lambda>(r, b, e). unat e)")
  show "((r', b', drop_bit 1 e), (r, b, e)) \<in> measure (\<lambda>(r, b, e). unat e)"
    if "e \<noteq> 0" for r b r' b' :: u128 and e :: u64
    using that by (simp add: unat_drop_bit unat_gt_0)
qed simp

declare compound_loop.simps [simp del]

definition compound_rate :: "u128 \<Rightarrow> u64 \<Rightarrow> u128 outcome" where
  "compound_rate per_millisecond_rate milliseconds_elapsed =
    (if milliseconds_elapsed = 0 then Inr FIXED_POINT_ONE
     else if per_millisecond_rate = FIXED_POINT_ONE then Inr FIXED_POINT_ONE
     else compound_loop FIXED_POINT_ONE per_millisecond_rate milliseconds_elapsed)"

text \<open>The window both projections compound over.\<close>

definition clamped_elapsed :: "u64 \<Rightarrow> u64 \<Rightarrow> u64" where
  "clamped_elapsed since now = min (saturating_sub now since) MAXIMUM_COMPOUNDING_WINDOW_MILLISECONDS"

definition compute_current_accumulated_rate :: "u128 \<Rightarrow> u128 \<Rightarrow> u64 \<Rightarrow> u64 \<Rightarrow> u128 outcome" where
  "compute_current_accumulated_rate accumulated_rate_at_last_accrual stability_fee since now =
    attempt (compound_rate stability_fee (clamped_elapsed since now)) (\<lambda>factor.
    mul_div accumulated_rate_at_last_accrual factor FIXED_POINT_ONE)"

definition compute_current_redemption_price :: "u128 \<Rightarrow> u128 \<Rightarrow> u64 \<Rightarrow> u64 \<Rightarrow> u128 outcome" where
  "compute_current_redemption_price redemption_price_at_last_update redemption_rate since now =
    attempt (compound_rate redemption_rate (clamped_elapsed since now)) (\<lambda>factor.
    mul_div redemption_price_at_last_update factor FIXED_POINT_ONE)"

section \<open>Compounding in 512 bits\<close>

definition widen512 :: "u128 \<Rightarrow> u512" where
  "widen512 a = ucast a"

definition wide_product :: "u512 \<Rightarrow> u512 \<Rightarrow> u512 \<times> bool" where
  "wide_product lhs rhs = (case checked_mul lhs rhs of Some product \<Rightarrow> (product, False) | None \<Rightarrow> (- 1, True))"

function compound_loop_wide :: "u512 \<Rightarrow> u512 \<Rightarrow> u64 \<Rightarrow> bool \<Rightarrow> u512 \<times> bool" where
  "compound_loop_wide result base exponent saturated =
    (if exponent = 0 then (result, saturated) else
     (let (result', over) =
            (if exponent AND 1 = 1 then
               (case wide_product result base of (p, f) \<Rightarrow> (p div widen512 FIXED_POINT_ONE, f))
             else (result, False));
          (base', over') =
            (if drop_bit 1 exponent \<noteq> 0 then
               (case wide_product base base of (p, f) \<Rightarrow> (p div widen512 FIXED_POINT_ONE, f))
             else (base, False))
      in compound_loop_wide result' base' (drop_bit 1 exponent) (saturated \<or> over \<or> over')))"
  by pat_completeness auto

termination
proof (relation "measure (\<lambda>(r, b, e, s). unat e)")
  show "((r', b', drop_bit 1 e, s'), (r, b, e, s)) \<in> measure (\<lambda>(r, b, e, s). unat e)"
    if "e \<noteq> 0" for r b r' b' :: u512 and e :: u64 and s s' :: bool
    using that by (simp add: unat_drop_bit unat_gt_0)
qed simp

declare compound_loop_wide.simps [simp del]

definition compound_rate_wide_result :: "u128 \<Rightarrow> u64 \<Rightarrow> u512 \<times> bool" where
  "compound_rate_wide_result per_millisecond_rate milliseconds_elapsed =
    (if milliseconds_elapsed = 0 \<or> per_millisecond_rate = FIXED_POINT_ONE then (widen512 FIXED_POINT_ONE, False)
     else compound_loop_wide (widen512 FIXED_POINT_ONE) (widen512 per_millisecond_rate)
            milliseconds_elapsed False)"

definition compound_rate_wide :: "u128 \<Rightarrow> u64 \<Rightarrow> u512" where
  "compound_rate_wide per_millisecond_rate milliseconds_elapsed =
    fst (compound_rate_wide_result per_millisecond_rate milliseconds_elapsed)"

definition try_project_rate_wide :: "u128 \<Rightarrow> u128 \<Rightarrow> u64 \<Rightarrow> u64 \<Rightarrow> u512 option" where
  "try_project_rate_wide anchor rate since now =
    (case compound_rate_wide_result rate (clamped_elapsed since now) of
       (factor, saturated) \<Rightarrow>
         (if saturated then None
          else map_option (\<lambda>product. product div widen512 FIXED_POINT_ONE)
                 (checked_mul (widen512 anchor) factor)))"

definition project_forward_wide :: "u128 \<Rightarrow> u128 \<Rightarrow> u64 \<Rightarrow> u64 \<Rightarrow> u512" where
  "project_forward_wide anchor per_millisecond_rate since now =
    saturating_mul (widen512 anchor) (compound_rate_wide per_millisecond_rate (clamped_elapsed since now))
      div widen512 FIXED_POINT_ONE"

definition compute_current_accumulated_rate_wide :: "u128 \<Rightarrow> u128 \<Rightarrow> u64 \<Rightarrow> u64 \<Rightarrow> u512" where
  "compute_current_accumulated_rate_wide accumulated_rate_at_last_accrual stability_fee since now =
    project_forward_wide accumulated_rate_at_last_accrual stability_fee since now"

definition compute_current_redemption_price_wide :: "u128 \<Rightarrow> u128 \<Rightarrow> u64 \<Rightarrow> u64 \<Rightarrow> u512" where
  "compute_current_redemption_price_wide redemption_price_at_last_update redemption_rate since now =
    project_forward_wide redemption_price_at_last_update redemption_rate since now"

section \<open>Meaning on naturals\<close>

text \<open>The floored power on unbounded naturals, and the projection it gives.\<close>

fun compounded :: "nat \<Rightarrow> nat \<Rightarrow> nat \<Rightarrow> nat" where
  "compounded r b e =
    (if e = 0 then r
     else compounded (if odd e then r * b div scale else r) (b * b div scale) (e div 2))"

declare compounded.simps [simp del]

definition growth :: "u128 \<Rightarrow> nat \<Rightarrow> nat" where
  "growth rate e = compounded scale (unat rate) e"

definition projected :: "u128 \<Rightarrow> u128 \<Rightarrow> u64 \<Rightarrow> u64 \<Rightarrow> nat" where
  "projected anchor rate since now = unat anchor * growth rate (unat (clamped_elapsed since now)) div scale"

lemma compounded_0 [simp]: "compounded r b 0 = r"
  by (simp add: compounded.simps)

lemma mul_div_cases:
  "mul_div a b c =
    (if c = 0 then Inl (Panic ''mul_div: division by zero'')
     else if 2 ^ 128 \<le> unat a * unat b div unat c then Inl (Panic ''mul_div: result exceeds u128'')
     else Inr (of_nat (unat a * unat b div unat c)))"
proof -
  obtain p where p: "checked_mul (widen256 a) (widen256 b) = Some p" "unat p = unat a * unat b"
    using checked_mul_widen by blast
  have r: "unat (p div widen256 c) = unat a * unat b div unat c"
    by (simp add: unat_div p)
  have "(ucast (p div widen256 c) :: u128) = of_nat (unat a * unat b div unat c)"
    unfolding r [symmetric] by simp
  with p r show ?thesis
    by (simp add: mul_div_def checked_div_def narrow_def)
qed

lemma mul_div_Inr [success]:
  "mul_div a b c = Inr r \<longleftrightarrow> c \<noteq> 0 \<and> unat r = unat a * unat b div unat c"
proof -
  obtain p where p: "checked_mul (widen256 a) (widen256 b) = Some p" "unat p = unat a * unat b"
    using checked_mul_widen by blast
  show ?thesis
    by (auto simp: mul_div_def p success checked_div_def narrow_Some unat_div)
qed

lemma ceil_increment_fits:
  fixes a b :: "'a::len word"
  assumes "a mod b \<noteq> 0"
  shows "checked_add (a div b) 1 = Some (a div b + 1)"
proof -
  have m: "unat a mod unat b \<noteq> 0"
    using assms by (metis unat_mod_distrib unat_eq_zero)
  then have "unat a div unat b < unat a"
    by (cases "unat b \<le> 1"; cases "unat a = 0") (auto simp: le_Suc_eq div_less_dividend)
  then have "unat (a div b) + 1 < 2 ^ LENGTH('a)"
    using unat_lt [of a] unfolding unat_div by linarith
  then show ?thesis
    by (simp add: checked_add_def)
qed

lemma fixed_mul_div_ceil_eq:
  "fixed_mul_div_ceil a b c =
    ensure (c \<noteq> 0) ''mul_div_ceil: division by zero'' (
    expect ''mul_div_ceil: intermediate product overflows U256'' (checked_mul (widen256 a) (widen256 b)) (\<lambda>product.
    expect ''mul_div_ceil: result exceeds u128'' (narrow (div_ceil product (widen256 c))) Inr))"
proof (cases "c = 0")
  case False
  obtain p where p: "checked_mul (widen256 a) (widen256 b) = Some p"
    using checked_mul_widen by blast
  show ?thesis
    using False
    by (cases "p mod widen256 c = 0")
      (simp_all add: fixed_mul_div_ceil_def p checked_div_def checked_rem_def div_ceil_def ceil_increment_fits)
qed (simp add: fixed_mul_div_ceil_def)

lemma fixed_mul_div_ceil_Inr [success]:
  "fixed_mul_div_ceil a b c = Inr r \<longleftrightarrow> c \<noteq> 0 \<and> unat r = cdiv (unat a * unat b) (unat c)"
proof -
  obtain p where p: "checked_mul (widen256 a) (widen256 b) = Some p" "unat p = unat a * unat b"
    using checked_mul_widen by blast
  show ?thesis
    by (auto simp: fixed_mul_div_ceil_eq p success narrow_Some unat_div_ceil)
qed

lemma unat_oracle_price_to_fixed_point:
  "unat (oracle_price_to_fixed_point x) = min (unat x * scale div 2 ^ 64) (2 ^ 128 - 1)"
proof -
  let ?p = "widen256 x * widen256 FIXED_POINT_ONE"
  have p: "unat (drop_bit 64 ?p) = unat x * scale div 2 ^ 64"
    using product_fits [of x FIXED_POINT_ONE] by (simp add: unat_drop_bit unat_mult_exact)
  show ?thesis
  proof (cases "narrow (drop_bit 64 ?p) :: u128 option")
    case None
    then have "2 ^ 128 \<le> unat x * scale div 2 ^ 64"
      using narrow_None [of "drop_bit 64 ?p", where ?'b = 128] p by simp
    then show ?thesis
      using None by (auto simp: oracle_price_to_fixed_point_def unat_max min_def)
  next
    case (Some q)
    then have "unat q = unat x * scale div 2 ^ 64"
      by (simp only: narrow_Some p)
    then show ?thesis
      using Some unat_lt [of q] by (auto simp: oracle_price_to_fixed_point_def)
  qed
qed

lemma and_one_odd: "(e :: u64) AND 1 = 1 \<longleftrightarrow> odd (unat e)"
proof -
  have "unat (e AND 1) = unat e mod 2"
    by (simp add: and_one_eq unat_mod_distrib)
  moreover have "e AND 1 = 1 \<longleftrightarrow> unat (e AND 1) = 1"
    by (metis unat_1 word_unat_eq_iff)
  ultimately show ?thesis
    by presburger
qed

end
