(* ===== verification/Stable_Bounds.thy ===== *)
theory Stable_Bounds
  imports Stable_Compound
begin

text \<open>
  What a projection is worth: the wide one is exact or far beyond every 128-bit value, the narrow
  one returns whenever the compounded growth fits, and the protocol's rate bands keep the growth
  over one window within a few percent of one.
\<close>

section \<open>The wide projection\<close>

lemma saturating_product_div:
  "unat (saturating_mul (widen512 a) f div widen512 FIXED_POINT_ONE) =
    min (unat a * unat f) (2 ^ 512 - 1) div scale"
  by (simp add: unat_saturating_mul)

lemma project_forward_wide_le: "unat (project_forward_wide a rate since now) \<le> projected a rate since now"
proof -
  obtain f s where f: "compound_rate_wide_result rate (clamped_elapsed since now) = (f, s)"
    by (metis surj_pair)
  have "min (unat a * unat f) (2 ^ 512 - 1) div scale \<le> unat a * unat f div scale"
    by (intro div_le_mono) simp
  also have "\<dots> \<le> projected a rate since now"
    unfolding projected_def by (intro div_le_mono mult_le_mono2 compound_rate_wide_cases(1) [OF f])
  finally show ?thesis
    by (simp only: project_forward_wide_def compound_rate_wide_def f fst_conv saturating_product_div)
qed

lemma project_forward_wide_cases:
  "unat (project_forward_wide a rate since now) = projected a rate since now \<or>
    wide_ceiling div scale \<le> unat (project_forward_wide a rate since now)"
proof -
  obtain f s where f: "compound_rate_wide_result rate (clamped_elapsed since now) = (f, s)"
    by (metis surj_pair)
  have w: "unat (project_forward_wide a rate since now) = min (unat a * unat f) (2 ^ 512 - 1) div scale"
    by (simp only: project_forward_wide_def compound_rate_wide_def f fst_conv saturating_product_div)
  have big: "wide_ceiling div scale \<le> min n (2 ^ 512 - 1) div scale" if "wide_ceiling \<le> n" for n
  proof (intro div_le_mono)
    have "wide_ceiling \<le> 2 ^ 512 - 1"
      unfolding wide_ceiling_def by (rule div_le_dividend)
    then show "wide_ceiling \<le> min n (2 ^ 512 - 1)"
      using that by simp
  qed
  consider "unat a = 0" | "wide_ceiling \<le> unat a * unat f" | "\<not> s" "unat a * unat f < 2 ^ 512"
  proof -
    have "wide_ceiling \<le> unat a * unat f" if "s" "unat a \<noteq> 0"
    proof -
      have "1 * wide_ceiling \<le> unat a * unat f"
        using that compound_rate_wide_cases(3) [OF f] by (intro mult_le_mono) simp_all
      then show ?thesis
        by simp
    qed
    moreover have "wide_ceiling \<le> unat a * unat f" if "2 ^ 512 \<le> unat a * unat f"
    proof -
      have "wide_ceiling \<le> 2 ^ 512"
        unfolding wide_ceiling_def by (rule order_trans [OF div_le_dividend]) simp
      then show ?thesis
        using that by (rule order_trans)
    qed
    ultimately show thesis
      using that by (cases "unat a = 0"; cases s; cases "unat a * unat f < 2 ^ 512") auto
  qed
  then show ?thesis
  proof cases
    case 1
    then have "unat (project_forward_wide a rate since now) = projected a rate since now"
      unfolding w projected_def by simp
    then show ?thesis ..
  next
    case 2
    then show ?thesis
      unfolding w using big by blast
  next
    case 3
    then have "min (unat a * unat f) (2 ^ 512 - 1) = unat a * unat f"
      by linarith
    then have "unat (project_forward_wide a rate since now) = projected a rate since now"
      unfolding w projected_def using compound_rate_wide_cases(2) [OF f] 3(1) by simp
    then show ?thesis ..
  qed
qed

lemma ceiling_beyond_u128: "2 ^ 128 \<le> wide_ceiling div scale"
proof -
  have "2 ^ 128 * scale \<le> wide_ceiling"
    by (rule le_wide_ceiling) simp
  then show ?thesis
    by (subst less_eq_div_iff_mult_less_eq) simp_all
qed

text \<open>A projection that fits 128 bits is exact in both widths.\<close>

lemma project_forward_wide_exact:
  assumes "projected a rate since now < 2 ^ 128"
  shows "unat (project_forward_wide a rate since now) = projected a rate since now"
  using project_forward_wide_cases [of a rate since now] project_forward_wide_le [of a rate since now]
    ceiling_beyond_u128 assms by linarith

lemma project_forward_wide_0:
  "project_forward_wide a rate since now = 0 \<longleftrightarrow> projected a rate since now = 0"
proof -
  have "0 < wide_ceiling div scale"
    using ceiling_beyond_u128 by (rule less_le_trans [rotated]) simp
  then show ?thesis
    using project_forward_wide_cases [of a rate since now] project_forward_wide_le [of a rate since now]
    by (metis le_zero_eq less_le_not_le unat_0 unat_eq_zero)
qed

lemma narrow_projection:
  assumes "attempt (compound_rate rate (clamped_elapsed since now)) (\<lambda>f. mul_div a f FIXED_POINT_ONE) = Inr p"
  shows "unat p = projected a rate since now"
  using assms by (auto simp: success projected_def dest!: compound_rate_exact)

lemma compute_current_accumulated_rate_Inr:
  "compute_current_accumulated_rate a rate since now = Inr p \<Longrightarrow> unat p = projected a rate since now"
  unfolding compute_current_accumulated_rate_def by (rule narrow_projection)

lemma try_project_rate_wide_Some:
  assumes "try_project_rate_wide a rate since now = Some w"
  shows "unat w = projected a rate since now"
proof -
  obtain f s where f: "compound_rate_wide_result rate (clamped_elapsed since now) = (f, s)"
    by (metis surj_pair)
  then obtain p where "\<not> s" "checked_mul (widen512 a) f = Some p" "w = p div widen512 FIXED_POINT_ONE"
    using assms by (auto simp: try_project_rate_wide_def split: if_splits)
  then show ?thesis
    using compound_rate_wide_cases(2) [OF f] by (simp add: projected_def checked)
qed

section \<open>The growth of a rate above one\<close>

text \<open>The power the floored computation stays below.\<close>

definition excess :: "nat \<Rightarrow> real" where
  "excess b = max 1 (real b / real scale)"

lemma excess_ge_1: "1 \<le> excess b"
  by (simp add: excess_def)

lemma floored_product: "real (r * b div scale) \<le> real r * excess b"
proof -
  have "real (r * b div scale) \<le> real (r * b) / real scale"
    by (rule of_nat_div_le_of_nat)
  also have "\<dots> = real r * (real b / real scale)"
    by simp
  also have "\<dots> \<le> real r * excess b"
    unfolding excess_def by (intro mult_left_mono) simp_all
  finally show ?thesis .
qed

lemma excess_square: "excess (b * b div scale) \<le> excess b ^ 2"
proof -
  have "real (b * b div scale) / real scale \<le> real b * excess b / real scale"
    by (intro divide_right_mono floored_product) simp
  also have "\<dots> = real b / real scale * excess b"
    by simp
  also have "\<dots> \<le> excess b * excess b"
    using excess_ge_1 [of b] by (intro mult_right_mono) (simp_all add: excess_def)
  finally have "real (b * b div scale) / real scale \<le> excess b ^ 2"
    by (simp add: power2_eq_square)
  moreover have "1 \<le> excess b ^ 2"
    using excess_ge_1 by (rule one_le_power)
  ultimately show ?thesis
    unfolding excess_def [of "b * b div scale"] by simp
qed

lemma real_unsigned_one [simp]: "(unsigned FIXED_POINT_ONE :: real) = real scale"
  by (subst of_nat_unat [symmetric]) (simp only: unat_FIXED_POINT_ONE)

lemma fits_u128: "real n \<le> M \<Longrightarrow> M < 2 ^ 128 \<Longrightarrow> n < 2 ^ 128"
  by (metis le_less_trans of_nat_less_iff of_nat_numeral of_nat_power)

lemma mul_div_one_bounded:
  assumes "real (unat a) * excess (unat b) \<le> M" "M < 2 ^ 128"
  shows "\<exists>x. mul_div a b FIXED_POINT_ONE = Inr x \<and> unat x = unat a * unat b div scale"
proof -
  have "unat a * unat b div scale < 2 ^ 128"
    using order_trans [OF floored_product assms(1)] assms(2) by (rule fits_u128)
  then show ?thesis
    by (simp add: mul_div_cases unat_of_nat)
qed

lemma compound_loop_bounded:
  assumes "real (unat r) * excess (unat b) ^ unat e \<le> M" "real scale * excess (unat b) ^ unat e \<le> M"
    and "M < 2 ^ 128"
  shows "\<exists>x. compound_loop r b e = Inr x \<and> real (unat x) \<le> M"
  using assms(1,2)
proof (induction "unat e" arbitrary: r b e rule: less_induct)
  case less
  let ?h = "unat e div 2" and ?\<beta> = "excess (unat b)"
  show ?case
  proof (cases "e = 0")
    case False
    have pow: "?\<beta> ^ k \<le> ?\<beta> ^ unat e" if "k \<le> unat e" for k
      using that excess_ge_1 by (rule power_increasing)
    obtain r' where r': "(if odd (unat e) then mul_div r b FIXED_POINT_ONE else Inr r) = Inr r'"
      "real (unat r') * ?\<beta> ^ (2 * ?h) \<le> M"
    proof (cases "odd (unat e)")
      case True
      have "real (unat r) * ?\<beta> ^ 1 \<le> real (unat r) * ?\<beta> ^ unat e"
        using True by (intro mult_left_mono pow of_nat_0_le_iff) (auto simp: Suc_le_eq dest: odd_pos)
      then obtain x where x: "mul_div r b FIXED_POINT_ONE = Inr x" "unat x = unat r * unat b div scale"
        using mul_div_one_bounded [of r b M] less.prems(1) assms(3) by auto
      have "real (unat x) * ?\<beta> ^ (2 * ?h) \<le> real (unat r) * ?\<beta> * ?\<beta> ^ (2 * ?h)"
        unfolding x(2) using excess_ge_1 [of "unat b"] by (intro mult_right_mono floored_product) simp
      also have "\<dots> = real (unat r) * ?\<beta> ^ Suc (2 * ?h)"
        by (simp only: power_Suc mult.assoc)
      also have "Suc (2 * ?h) = unat e"
        using True by simp
      finally show thesis
        using that [of x] x(1) True less.prems(1) by simp
    next
      case False
      then show thesis
        using that [of r] less.prems(1) by simp
    qed
    obtain b' where b': "(if ?h \<noteq> 0 then mul_div b b FIXED_POINT_ONE else Inr b) = Inr b'"
      "excess (unat b') ^ ?h \<le> ?\<beta> ^ (2 * ?h)"
    proof (cases "?h = 0")
      case True
      then show thesis
        using that [of b] by simp
    next
      case False
      have "real (unat b) * ?\<beta> \<le> real scale * ?\<beta> * ?\<beta>"
        using excess_ge_1 [of "unat b"] by (intro mult_right_mono) (simp_all add: excess_def field_simps)
      also have "\<dots> = real scale * ?\<beta> ^ 2"
        by (simp add: power2_eq_square)
      also have "\<dots> \<le> real scale * ?\<beta> ^ unat e"
        using False by (intro mult_left_mono pow) simp_all
      finally obtain x where x: "mul_div b b FIXED_POINT_ONE = Inr x" "unat x = unat b * unat b div scale"
        using mul_div_one_bounded [of b b M] less.prems(2) assms(3) by auto
      have "excess (unat x) ^ ?h \<le> (?\<beta> ^ 2) ^ ?h"
        unfolding x(2) using excess_ge_1 [of "unat b * unat b div scale"]
        by (intro power_mono excess_square) simp
      then show thesis
        using that [of x] x(1) False by (simp add: power_mult)
    qed
    have "real (unat r') * excess (unat b') ^ ?h \<le> real (unat r') * ?\<beta> ^ (2 * ?h)"
      using b'(2) by (intro mult_left_mono of_nat_0_le_iff)
    moreover have "real scale * excess (unat b') ^ ?h \<le> real scale * ?\<beta> ^ unat e"
      using order_trans [OF b'(2) pow [of "2 * ?h"]] by (intro mult_left_mono) simp_all
    ultimately have "\<exists>x. compound_loop r' b' (drop_bit 1 e) = Inr x \<and> real (unat x) \<le> M"
      using r'(2) less.prems(2) False by (intro less.hyps) (simp_all add: unat_gt_0)
    then show ?thesis
      unfolding compound_loop_step [OF False] r'(1) b'(1) by simp
  qed (use less.prems in simp)
qed

lemma compound_rate_bounded:
  assumes "real scale * excess (unat rate) ^ unat e \<le> M" "M < 2 ^ 128"
  shows "\<exists>x. compound_rate rate e = Inr x \<and> unat x = growth rate (unat e) \<and> real (unat x) \<le> M"
proof -
  have "real scale * 1 \<le> real scale * excess (unat rate) ^ unat e"
    by (intro mult_left_mono one_le_power excess_ge_1) simp
  then have "real scale \<le> M"
    using assms(1) by simp
  then have "real (unat FIXED_POINT_ONE) \<le> M"
    unfolding unat_FIXED_POINT_ONE .
  then have "\<exists>x. compound_rate rate e = Inr x \<and> real (unat x) \<le> M"
    using compound_loop_bounded [of FIXED_POINT_ONE rate e M] assms
    unfolding compound_rate_def unat_FIXED_POINT_ONE by auto
  then show ?thesis
    using compound_rate_exact by blast
qed

text \<open>Growth over a window, from the Bernoulli inequality.\<close>

lemma power_one_plus_le:
  fixes x :: real
  assumes "0 \<le> x" "real n * x < 1"
  shows "(1 + x) ^ n \<le> 1 / (1 - real n * x)"
proof (cases "n = 0")
  case False
  then have "1 * x \<le> real n * x"
    using assms(1) by (intro mult_right_mono) simp_all
  then have x: "x < 1"
    using assms(2) by simp
  have "(1 + x) ^ n * (1 - x) ^ n = (1 - x ^ 2) ^ n"
    by (simp add: power_mult_distrib [symmetric] power2_eq_square algebra_simps)
  also have "\<dots> \<le> 1"
    using x assms(1) by (intro power_le_one) (simp_all add: abs_square_le_1)
  finally have "(1 + x) ^ n * (1 - x) ^ n \<le> 1" .
  moreover have "1 - real n * x \<le> (1 - x) ^ n"
    using Bernoulli_inequality [of "- x" n] x by simp
  then have "(1 + x) ^ n * (1 - real n * x) \<le> (1 + x) ^ n * (1 - x) ^ n"
    using assms(1) by (intro mult_left_mono) simp_all
  ultimately show ?thesis
    using assms(2) by (simp add: pos_le_divide_eq)
qed simp

lemma banded_growth:
  assumes "unat rate \<le> scale + d" "e * d < scale"
  shows "real scale * excess (unat rate) ^ e \<le> real scale * (real scale / (real scale - real (e * d)))"
proof -
  let ?x = "real d / real scale"
  have "real (unat rate) \<le> real scale + real d"
    using assms(1) by (metis of_nat_add of_nat_mono)
  then have "real (unat rate) / real scale \<le> (real scale + real d) / real scale"
    by (intro divide_right_mono) simp_all
  also have "\<dots> = 1 + ?x"
    by (simp add: field_simps)
  finally have "excess (unat rate) \<le> 1 + ?x"
    by (simp add: excess_def)
  then have "excess (unat rate) ^ e \<le> (1 + ?x) ^ e"
    using excess_ge_1 [of "unat rate"] by (intro power_mono) simp_all
  also have "\<dots> \<le> 1 / (1 - real e * ?x)"
  proof (rule power_one_plus_le)
    have "real (e * d) < real scale"
      using assms(2) by (simp only: of_nat_less_iff)
    then show "real e * ?x < 1"
      by (simp add: field_simps)
  qed simp
  also have "\<dots> = real scale / (real scale - real (e * d))"
    by (simp add: field_simps)
  finally show ?thesis
    by (intro mult_left_mono) simp_all
qed

section \<open>The growth of a rate below one\<close>

text \<open>The deficits of the factors add up; flooring costs nothing more.\<close>

lemma deficit_product:
  assumes "scale \<le> r + D" "scale \<le> b + d"
  shows "scale \<le> r * b div scale + (D + d)"
proof (cases "scale \<le> D + d")
  case False
  have shift: "(n - (D + d)) * n \<le> (n - D) * (n - d)" if "D + d < n" for n
  proof -
    define p where "p = n - (D + d)"
    have n: "n = p + (D + d)" "n - D = p + d" "n - d = p + D"
      using that by (simp_all add: p_def)
    have "p * (p + (D + d)) \<le> (p + d) * (p + D)"
      by (simp add: algebra_simps)
    then have "p * n \<le> (n - D) * (n - d)"
      unfolding n(2,3) by (simp only: n(1) [symmetric])
    then show ?thesis
      by (simp only: p_def)
  qed
  have "(scale - (D + d)) * scale \<le> (scale - D) * (scale - d)"
    using False by (intro shift) simp
  also have "\<dots> \<le> r * b"
    using assms by (intro mult_le_mono) simp_all
  finally have "scale - (D + d) \<le> r * b div scale"
    by (subst less_eq_div_iff_mult_less_eq) simp_all
  then show ?thesis
    by simp
qed simp

lemma compounded_deficit:
  "scale \<le> r + D \<Longrightarrow> scale \<le> b + d \<Longrightarrow> scale \<le> compounded r b e + (D + e * d)"
proof (induction e arbitrary: r D b d rule: less_induct)
  case (less e)
  show ?case
  proof (cases "e = 0")
    case False
    have sq: "scale \<le> b * b div scale + (d + d)"
      using less.prems(2) less.prems(2) by (rule deficit_product)
    show ?thesis
    proof (cases "odd e")
      case True
      have "scale \<le> compounded (r * b div scale) (b * b div scale) (e div 2) + (D + d + e div 2 * (d + d))"
        using less.IH [OF _ deficit_product [OF less.prems] sq] False by simp
      moreover have "D + d + e div 2 * (d + d) = D + e * d"
        using True by (auto elim!: oddE simp: algebra_simps)
      ultimately show ?thesis
        using True False by (simp add: compounded_step)
    next
      case even: False
      have "scale \<le> compounded r (b * b div scale) (e div 2) + (D + e div 2 * (d + d))"
        using less.IH [OF _ less.prems(1) sq] False by simp
      moreover have "e div 2 * (d + d) = e * d"
        using even by (auto elim!: evenE simp: algebra_simps)
      ultimately show ?thesis
        using even False by (simp add: compounded_step)
    qed
  qed (use less.prems in simp)
qed

lemma growth_deficit: "scale \<le> unat rate + d \<Longrightarrow> scale \<le> growth rate e + e * d"
  using compounded_deficit [of scale 0 "unat rate" d e] by (simp add: growth_def)

lemma growth_ge_one: "scale \<le> unat rate \<Longrightarrow> scale \<le> growth rate e"
  using growth_deficit [of rate 0 e] by simp

section \<open>Growth over one window\<close>

lemma unat_clamped_elapsed: "unat (clamped_elapsed since now) = min (unat now - unat since) 604800000"
  by (simp add: clamped_elapsed_def MAXIMUM_COMPOUNDING_WINDOW_MILLISECONDS_def min_def word_le_nat_alt
      unat_saturating_sub)

lemma clamped_elapsed_le: "unat (clamped_elapsed since now) \<le> 604800000"
  by (simp add: unat_clamped_elapsed)

lemma banded_compound_rate:
  assumes "unat rate \<le> scale + d" "unat e * d \<le> k" "k < scale"
    and "real scale * (real scale / (real scale - real k)) \<le> M" "M < 2 ^ 128"
  shows "\<exists>x. compound_rate rate e = Inr x \<and> unat x = growth rate (unat e) \<and> real (unat x) \<le> M"
proof (rule compound_rate_bounded)
  have "unat rate \<le> scale + d" "unat e * d < scale"
    using assms(1-3) by simp_all
  then have "real scale * excess (unat rate) ^ unat e \<le>
      real scale * (real scale / (real scale - real (unat e * d)))"
    by (rule banded_growth)
  also have "\<dots> \<le> real scale * (real scale / (real scale - real k))"
  proof (intro mult_left_mono divide_left_mono)
    have k: "real (unat e * d) \<le> real k" "real k < real scale"
      using assms(2,3) by (simp_all only: of_nat_le_iff of_nat_less_iff)
    then show "real scale - real k \<le> real scale - real (unat e * d)"
      by linarith
    show "0 < (real scale - real (unat e * d)) * (real scale - real k)"
      using k by (intro mult_pos_pos) linarith+
  qed simp_all
  also note assms(4)
  finally show "real scale * excess (unat rate) ^ unat e \<le> M" .
qed (fact assms(5))

text \<open>A stability fee in its band grows by less than 1.4% in a window.\<close>

lemma fee_growth:
  assumes "unat rate \<le> scale + 21965000000000000"
  shows "\<exists>x. compound_rate rate (clamped_elapsed since now) = Inr x \<and>
    unat x = growth rate (unat (clamped_elapsed since now)) \<and> 1000 * unat x \<le> 1014 * scale"
proof -
  have "unat (clamped_elapsed since now) * 21965000000000000 \<le> 604800000 * 21965000000000000"
    by (intro mult_le_mono1 clamped_elapsed_le)
  then have "unat (clamped_elapsed since now) * 21965000000000000 \<le> 13284432000000000000000000"
    by simp
  then have "\<exists>x. compound_rate rate (clamped_elapsed since now) = Inr x \<and>
      unat x = growth rate (unat (clamped_elapsed since now)) \<and> real (unat x) \<le> real scale * 1.014"
    by (intro banded_compound_rate [OF assms, where k = 13284432000000000000000000]) simp_all
  then obtain x where x: "compound_rate rate (clamped_elapsed since now) = Inr x"
      "unat x = growth rate (unat (clamped_elapsed since now))" "real (unat x) \<le> real scale * 1.014"
    by blast
  have "real (1000 * unat x) \<le> real (1014 * scale)"
    using x(3) by simp
  then have "1000 * unat x \<le> 1014 * scale"
    by (simp only: of_nat_le_iff)
  then show ?thesis
    using x by blast
qed

text \<open>A redemption rate at most \<^theory_text>\<open>10^-11\<close> from one moves by less than 0.7% in a window.\<close>

lemma redemption_growth:
  assumes "unat rate \<le> scale + 10000000000000000" "scale \<le> unat rate + 10000000000000000"
  shows "\<exists>x. compound_rate rate (clamped_elapsed since now) = Inr x \<and>
    unat x = growth rate (unat (clamped_elapsed since now)) \<and>
    1000 * unat x \<le> 1007 * scale \<and> 993 * scale \<le> 1000 * unat x"
proof -
  have e: "unat (clamped_elapsed since now) * 10000000000000000 \<le> 604800000 * 10000000000000000"
    by (intro mult_le_mono1 clamped_elapsed_le)
  then have e': "unat (clamped_elapsed since now) * 10000000000000000 \<le> 6048000000000000000000000"
    by simp
  then have "\<exists>x. compound_rate rate (clamped_elapsed since now) = Inr x \<and>
      unat x = growth rate (unat (clamped_elapsed since now)) \<and> real (unat x) \<le> real scale * 1.007"
    by (intro banded_compound_rate [OF assms(1), where k = 6048000000000000000000000]) simp_all
  then obtain x where x: "compound_rate rate (clamped_elapsed since now) = Inr x"
      "unat x = growth rate (unat (clamped_elapsed since now))" "real (unat x) \<le> real scale * 1.007"
    by blast
  have "real (1000 * unat x) \<le> real (1007 * scale)"
    using x(3) by simp
  then have "1000 * unat x \<le> 1007 * scale"
    by (simp only: of_nat_le_iff)
  moreover have "993 * scale \<le> 1000 * unat x"
    using growth_deficit [OF assms(2), of "unat (clamped_elapsed since now)"] e' x(2) by simp
  ultimately show ?thesis
    using x by blast
qed

lemma projected_le:
  assumes "1000 * growth rate (unat (clamped_elapsed since now)) \<le> u * scale"
  shows "1000 * projected a rate since now \<le> u * unat a"
proof -
  let ?g = "growth rate (unat (clamped_elapsed since now))"
  have "scale * (1000 * projected a rate since now) = 1000 * (unat a * ?g div scale * scale)"
    by (simp add: projected_def)
  also have "\<dots> \<le> 1000 * (unat a * ?g)"
    by (intro mult_le_mono2 div_times_less_eq_dividend)
  also have "\<dots> = unat a * (1000 * ?g)"
    by simp
  also have "\<dots> \<le> unat a * (u * scale)"
    using assms by (rule mult_le_mono2)
  also have "\<dots> = scale * (u * unat a)"
    by simp
  finally show ?thesis
    by (subst (asm) mult_le_cancel1) simp
qed

lemma projected_ge:
  assumes "l * scale \<le> 1000 * growth rate (unat (clamped_elapsed since now))"
  shows "l * unat a div 1000 \<le> projected a rate since now"
proof -
  let ?g = "growth rate (unat (clamped_elapsed since now))"
  have "l * unat a div 1000 * scale * 1000 = l * unat a div 1000 * 1000 * scale"
    by simp
  also have "\<dots> \<le> l * unat a * scale"
    by (intro mult_le_mono1 div_times_less_eq_dividend)
  also have "\<dots> = unat a * (l * scale)"
    by simp
  also have "\<dots> \<le> unat a * (1000 * ?g)"
    using assms by (rule mult_le_mono2)
  finally have "l * unat a div 1000 * scale \<le> unat a * ?g"
    by simp
  then show ?thesis
    unfolding projected_def by (subst less_eq_div_iff_mult_less_eq) simp_all
qed

end
