(* ===== verification/Stable_Controller.thy ===== *)
theory Stable_Controller
  imports Stable_Bounds
begin

text \<open>
  The proportional-integral controller of the redemption rate
  (\<^theory_text>\<open>programs/stablecoin/core/src/controller.rs\<close>).  Its signed 256-bit intermediates are words read
  by \<^theory_text>\<open>sint\<close>; one tick is characterised on the integers they denote, overflow included.
\<close>

section \<open>Constants\<close>

definition RATE_DELTA_CLAMP :: i128 where
  "RATE_DELTA_CLAMP = FIXED_POINT_ONE div 100000000000"

definition INTEGRAL_CLAMP :: i128 where
  "INTEGRAL_CLAMP = RATE_DELTA_CLAMP"

definition MINIMUM_REDEMPTION_PRICE :: u128 where
  "MINIMUM_REDEMPTION_PRICE = 1000000000"

definition MAXIMUM_REDEMPTION_PRICE :: u128 where
  "MAXIMUM_REDEMPTION_PRICE = (- 1) div 2"

section \<open>The tick\<close>

definition bound_redemption_price :: "u512 \<Rightarrow> u128 outcome" where
  "bound_redemption_price projected_redemption_price =
    expect ''capped redemption price fits u128''
      (narrow (min projected_redemption_price (widen512 MAXIMUM_REDEMPTION_PRICE))) (\<lambda>capped.
    Inr (max capped MINIMUM_REDEMPTION_PRICE))"

record controller_output =
  out_redemption_rate_per_millisecond :: u128
  out_controller_integral_term :: i128

text \<open>\<^theory_text>\<open>I256\<close> division truncates toward zero.\<close>

definition trunc_div :: "int \<Rightarrow> int \<Rightarrow> int" where
  "trunc_div a b = sgn a * sgn b * (\<bar>a\<bar> div \<bar>b\<bar>)"

definition signed_checked_div :: "'a::len word \<Rightarrow> 'a word \<Rightarrow> 'a word option" where
  "signed_checked_div a b = (if sint b = 0 then None else to_signed (trunc_div (sint a) (sint b)))"

definition widen_signed :: "u128 \<Rightarrow> i256 outcome" where
  "widen_signed v = expect ''u128 fits I256'' (to_signed (uint v)) Inr"

definition clamp_to_magnitude :: "i256 \<Rightarrow> i128 \<Rightarrow> i128 outcome" where
  "clamp_to_magnitude v magnitude =
    expect ''clamp magnitude fits I256'' (to_signed (sint magnitude)) (\<lambda>upper :: i256.
    (if sint upper < sint v then Inr magnitude
     else if sint v < sint (- upper) then Inr (- magnitude)
     else expect ''clamped value fits i128'' (to_signed (sint v)) Inr))"

definition signed_max :: "'a::len word \<Rightarrow> 'a word \<Rightarrow> 'a word" where
  "signed_max a b = (if sint a < sint b then b else a)"

definition run_controller_tick ::
  "u128 \<Rightarrow> u128 \<Rightarrow> i128 \<Rightarrow> i128 \<Rightarrow> i128 \<Rightarrow> u64 \<Rightarrow> controller_output outcome" where
  "run_controller_tick current_redemption_price market_price controller_integral_term
      controller_proportional_gain controller_integral_gain milliseconds_elapsed =
    expect ''FIXED_POINT_ONE fits I256'' (to_signed (uint FIXED_POINT_ONE)) (\<lambda>fixed_point_one :: i256.
    attempt (widen_signed current_redemption_price) (\<lambda>redemption.
    attempt (widen_signed market_price) (\<lambda>market.
    expect ''controller: error subtraction overflows I256'' (signed_checked_sub redemption market) (\<lambda>error.
    expect ''proportional gain fits I256'' (to_signed (sint controller_proportional_gain)) (\<lambda>kp.
    expect ''controller: proportional term overflows I256'' (signed_checked_mul kp error) (\<lambda>kp_error.
    expect ''division by zero or overflow'' (signed_checked_div kp_error fixed_point_one) (\<lambda>proportional_term.
    expect ''integral gain fits I256'' (to_signed (sint controller_integral_gain)) (\<lambda>ki.
    expect ''controller: integral delta overflows I256'' (signed_checked_mul ki error) (\<lambda>ki_error.
    expect ''elapsed window fits I256'' (to_signed (uint milliseconds_elapsed)) (\<lambda>elapsed.
    expect ''controller: integral delta overflows I256'' (signed_checked_mul ki_error elapsed) (\<lambda>scaled.
    expect ''division by zero or overflow'' (signed_checked_div scaled fixed_point_one) (\<lambda>integral_delta.
    expect ''integral term fits I256'' (to_signed (sint controller_integral_term)) (\<lambda>integral_term.
    expect ''controller: integral term overflows I256'' (signed_checked_add integral_term integral_delta)
      (\<lambda>raised.
    attempt (clamp_to_magnitude raised INTEGRAL_CLAMP) (\<lambda>new_integral_term.
    expect ''integral term fits I256'' (to_signed (sint new_integral_term)) (\<lambda>new_integral.
    expect ''controller: rate adjustment overflows I256'' (signed_checked_add proportional_term new_integral)
      (\<lambda>adjustment.
    attempt (clamp_to_magnitude adjustment RATE_DELTA_CLAMP) (\<lambda>rate_adjustment.
    (let unbounded_rate = signed_max (signed_saturating_add FIXED_POINT_ONE rate_adjustment) 1;
         redemption_rate_per_millisecond =
           (if current_redemption_price \<le> MINIMUM_REDEMPTION_PRICE then max unbounded_rate FIXED_POINT_ONE
            else if MAXIMUM_REDEMPTION_PRICE \<le> current_redemption_price
            then min unbounded_rate FIXED_POINT_ONE
            else unbounded_rate)
     in Inr \<lparr> out_redemption_rate_per_millisecond = redemption_rate_per_millisecond,
              out_controller_integral_term = new_integral_term \<rparr>)))))))))))))))))))"

section \<open>The tick on integers\<close>

text \<open>
  The controller as mathematics: \<^theory_text>\<open>tick_integral\<close> and \<^theory_text>\<open>tick_adjustment\<close> are the new integral term and
  the rate adjustment, \<^theory_text>\<open>tick_rate\<close> the new rate.
\<close>

abbreviation (input) rate_clamp :: int where
  "rate_clamp \<equiv> 10000000000000000"

definition clamp :: "int \<Rightarrow> int \<Rightarrow> int" where
  "clamp m v = max (- m) (min m v)"

definition tick_integral :: "int \<Rightarrow> int \<Rightarrow> int \<Rightarrow> int \<Rightarrow> int" where
  "tick_integral err integral ki elapsed =
    clamp rate_clamp (integral + trunc_div (ki * err * elapsed) (int scale))"

definition tick_adjustment :: "int \<Rightarrow> int \<Rightarrow> int \<Rightarrow> int" where
  "tick_adjustment err kp integral' = clamp rate_clamp (trunc_div (kp * err) (int scale) + integral')"

definition tick_rate :: "int \<Rightarrow> int \<Rightarrow> int" where
  "tick_rate price adjustment =
    (let rate = int scale + adjustment in
     if price \<le> 1000000000 then max rate (int scale)
     else if 2 ^ 127 - 1 \<le> price then min rate (int scale) else rate)"

lemma sint_RATE_DELTA_CLAMP [simp]: "sint RATE_DELTA_CLAMP = rate_clamp" "sint (- RATE_DELTA_CLAMP) = - rate_clamp"
  "INTEGRAL_CLAMP = RATE_DELTA_CLAMP"
  by (simp_all add: RATE_DELTA_CLAMP_def INTEGRAL_CLAMP_def FIXED_POINT_ONE_def)

lemma unat_price_bounds [simp]:
  "unat MINIMUM_REDEMPTION_PRICE = 1000000000" "unat MAXIMUM_REDEMPTION_PRICE = 2 ^ 127 - 1"
  by (simp_all add: MINIMUM_REDEMPTION_PRICE_def MAXIMUM_REDEMPTION_PRICE_def unat_div unat_max)

text \<open>The I256 range.\<close>

definition fits_i256 :: "int \<Rightarrow> bool" where
  "fits_i256 k = (- (2 ^ 255) \<le> k \<and> k < 2 ^ 255)"

lemma to_signed_i256: "fits_i256 k \<Longrightarrow> \<exists>w :: i256. to_signed k = Some w \<and> sint w = k"
  using to_signed_total [of k, where ?'a = 256] by (simp add: fits_i256_def)

lemma to_signed_i256_None: "\<not> fits_i256 k \<Longrightarrow> (to_signed k :: i256 option) = None"
  by (auto simp: fits_i256_def to_signed_def)

lemma fits_i256_abs: "\<bar>k\<bar> < 2 ^ 255 \<Longrightarrow> fits_i256 k"
  by (auto simp: fits_i256_def)

lemma uint_u128: "0 \<le> uint (w :: u128)" "uint (w :: u128) < 2 ^ 128"
  using uint_lt2p [of w] by simp_all

lemma sint_i128: "- (2 ^ 127) \<le> sint (w :: i128)" "sint (w :: i128) < 2 ^ 127"
  using sint_range [of w] by simp_all

lemma widen_signed_total: "\<exists>w. widen_signed v = Inr w \<and> sint w = uint v"
proof -
  have "fits_i256 (uint v)"
    using uint_u128 [of v] by (intro fits_i256_abs) simp
  then show ?thesis
    using to_signed_i256 by (fastforce simp: widen_signed_def)
qed

lemma widen_i128: "\<exists>w :: i256. to_signed (sint (x :: i128)) = Some w \<and> sint w = sint x"
  using sint_i128 [of x] by (intro to_signed_i256 fits_i256_abs) (simp add: abs_less_iff)

lemma abs_trunc_div: "b \<noteq> 0 \<Longrightarrow> \<bar>trunc_div a b\<bar> = \<bar>a\<bar> div \<bar>b\<bar>"
  by (cases "a = 0") (simp_all add: trunc_div_def abs_mult abs_sgn_eq pos_imp_zdiv_nonneg_iff)

lemma abs_trunc_div_scale: "int scale * \<bar>trunc_div a (int scale)\<bar> \<le> \<bar>a\<bar>"
  using abs_trunc_div [of "int scale" a] by (simp add: mult.commute)

lemma signed_checked_div_one:
  fixes a one :: i256
  assumes "sint one = int scale"
  shows "\<exists>q. signed_checked_div a one = Some q \<and> sint q = trunc_div (sint a) (int scale)"
proof -
  have "\<bar>sint a\<bar> \<le> 2 ^ 255"
    using sint_range [of a] by (auto simp: abs_le_iff)
  then have "int scale * \<bar>trunc_div (sint a) (int scale)\<bar> \<le> 2 ^ 255"
    using abs_trunc_div_scale order_trans by blast
  then have "fits_i256 (trunc_div (sint a) (int scale))"
    by (intro fits_i256_abs) simp
  then show ?thesis
    using to_signed_i256 assms by (simp add: signed_checked_div_def)
qed

lemma sint_neg_i256:
  assumes "- (2 ^ 255) < sint (w :: i256)"
  shows "sint (- w) = - sint w"
proof -
  have "- w = word_of_int (- sint w)"
    by simp
  moreover have "sint (word_of_int (- sint w) :: i256) = - sint w"
    using assms sint_range [of w] by (intro sint_word_of_int_exact) simp_all
  ultimately show ?thesis
    by simp
qed

lemma clamp_to_rate_clamp:
  "\<exists>r. clamp_to_magnitude v RATE_DELTA_CLAMP = Inr r \<and> sint r = clamp rate_clamp (sint v)"
proof -
  obtain u :: i256 where u: "to_signed (sint RATE_DELTA_CLAMP) = Some u" "sint u = rate_clamp"
    using widen_i128 [of RATE_DELTA_CLAMP] by auto
  have neg: "sint (- u) = - rate_clamp"
    using sint_neg_i256 [of u] u(2) by simp
  show ?thesis
  proof (cases "rate_clamp < sint v \<or> sint v < - rate_clamp")
    case True
    then show ?thesis
      using u neg by (auto simp: clamp_to_magnitude_def clamp_def)
  next
    case False
    then obtain r :: i128 where "to_signed (sint v) = Some r" "sint r = sint v"
      using to_signed_total [of "sint v", where ?'a = 128] by auto
    then show ?thesis
      using False u neg by (auto simp: clamp_to_magnitude_def clamp_def)
  qed
qed

lemma clamp_range: "0 \<le> m \<Longrightarrow> - m \<le> clamp m v \<and> clamp m v \<le> m"
  by (auto simp: clamp_def)

text \<open>The last step: the saturating sum and the price bounds.\<close>

lemma uint_signed:
  assumes "0 \<le> sint (w :: i128)"
  shows "uint w = sint w"
proof -
  have "uint (word_of_int k :: i128) = k" if "0 \<le> k" "k < 2 ^ 128" for k
    using that by (simp add: uint_word_of_int take_bit_int_eq_self)
  from this [OF assms] show ?thesis
    using sint_i128 [of w] by simp
qed

lemma sint_FIXED_POINT_ONE [simp]: "sint FIXED_POINT_ONE = int scale" "uint FIXED_POINT_ONE = int scale"
  by (simp_all add: FIXED_POINT_ONE_def)

lemma bounded_rate:
  assumes "sint a = adj" "\<bar>adj\<bar> \<le> rate_clamp"
  shows "uint (if p \<le> MINIMUM_REDEMPTION_PRICE
      then max (signed_max (signed_saturating_add FIXED_POINT_ONE a) 1) FIXED_POINT_ONE
      else if MAXIMUM_REDEMPTION_PRICE \<le> p
      then min (signed_max (signed_saturating_add FIXED_POINT_ONE a) 1) FIXED_POINT_ONE
      else signed_max (signed_saturating_add FIXED_POINT_ONE a) 1) = tick_rate (uint p) adj"
proof -
  let ?r = "signed_max (signed_saturating_add FIXED_POINT_ONE a) 1"
  have "sint (signed_saturating_add FIXED_POINT_ONE a) = int scale + adj"
    using assms by (simp add: signed_saturating_add_def sint_clamp_signed)
  then have r: "sint ?r = int scale + adj"
    using assms(2) by (simp add: signed_max_def)
  then have u: "uint ?r = int scale + adj"
    using assms(2) uint_signed [of ?r] by simp
  have lo: "p \<le> MINIMUM_REDEMPTION_PRICE \<longleftrightarrow> uint p \<le> 1000000000"
    by (simp add: MINIMUM_REDEMPTION_PRICE_def word_le_def)
  have hi: "MAXIMUM_REDEMPTION_PRICE \<le> p \<longleftrightarrow> 2 ^ 127 - 1 \<le> uint p"
    by (simp add: MAXIMUM_REDEMPTION_PRICE_def word_le_def)
  have "uint (max ?r FIXED_POINT_ONE) = max (int scale + adj) (int scale)"
    "uint (min ?r FIXED_POINT_ONE) = min (int scale + adj) (int scale)"
    using u by (auto simp: max_def min_def word_le_def)
  then show ?thesis
    unfolding lo hi tick_rate_def Let_def using u by presburger
qed

section \<open>Every outcome of a tick\<close>

lemma error_bound: "\<bar>uint (p :: u128) - uint (m :: u128)\<bar> < 2 ^ 128"
  using uint_u128 [of p] uint_u128 [of m] unfolding abs_less_iff by (intro conjI; linarith)

text \<open>A gain times an error always fits, as does a sum with a term in rate units.\<close>

lemma gain_product_fits: "fits_i256 (sint (k :: i128) * (uint (p :: u128) - uint (m :: u128)))"
proof (rule fits_i256_abs)
  have "\<bar>sint k\<bar> \<le> 2 ^ 127" "\<bar>uint p - uint m\<bar> < 2 ^ 128"
    using sint_i128 [of k] error_bound [of p m] by (simp_all add: abs_le_iff)
  then have "\<bar>sint k\<bar> * \<bar>uint p - uint m\<bar> \<le> 2 ^ 127 * (2 ^ 128 - 1)"
    by (intro mult_mono) simp_all
  also have "\<dots> < 2 ^ 255"
    by simp
  finally show "\<bar>sint k * (uint p - uint m)\<bar> < 2 ^ 255"
    by (simp add: abs_mult)
qed

lemma quotient_sum_fits:
  assumes "fits_i256 a" "\<bar>b\<bar> \<le> 2 ^ 127"
  shows "fits_i256 (b + trunc_div a (int scale))" "fits_i256 (trunc_div a (int scale) + b)"
proof -
  have "\<bar>a\<bar> \<le> 2 ^ 255"
    using assms(1) by (auto simp: fits_i256_def abs_le_iff)
  then have "int scale * \<bar>trunc_div a (int scale)\<bar> \<le> 2 ^ 255"
    using abs_trunc_div_scale order_trans by blast
  then show "fits_i256 (b + trunc_div a (int scale))" "fits_i256 (trunc_div a (int scale) + b)"
    using assms(2) by (auto simp: fits_i256_def abs_le_iff)
qed

lemma run_controller_tick_cases:
  fixes p m :: u128 and I kp ki :: i128 and dt :: u64
  defines "err \<equiv> uint p - uint m"
  defines "I' \<equiv> tick_integral err (sint I) (sint ki) (uint dt)"
  shows "fits_i256 (sint ki * err * uint dt) \<Longrightarrow>
      \<exists>out. run_controller_tick p m I kp ki dt = Inr out \<and>
        sint (out_controller_integral_term out) = I' \<and>
        uint (out_redemption_rate_per_millisecond out) = tick_rate (uint p) (tick_adjustment err (sint kp) I')"
    and "\<not> fits_i256 (sint ki * err * uint dt) \<Longrightarrow>
      run_controller_tick p m I kp ki dt = Inl (Panic ''controller: integral delta overflows I256'')"
proof -
  obtain one :: i256 where one: "to_signed (uint FIXED_POINT_ONE) = Some one" "sint one = int scale"
    using to_signed_i256 [of "int scale"] by (auto simp: fits_i256_def)
  obtain rp mp where rp: "widen_signed p = Inr rp" "sint rp = uint p" and mp: "widen_signed m = Inr mp" "sint mp = uint m"
    using widen_signed_total by metis
  have "fits_i256 (sint rp - sint mp)"
    unfolding rp(2) mp(2) using error_bound [of p m] by (intro fits_i256_abs) simp
  then obtain er where er: "signed_checked_sub rp mp = Some er" "sint er = err"
    using to_signed_i256 rp(2) mp(2) unfolding signed_checked_sub_def err_def by metis
  obtain kpw kiw Iw :: i256 where kpw: "to_signed (sint kp) = Some kpw" "sint kpw = sint kp"
    and kiw: "to_signed (sint ki) = Some kiw" "sint kiw = sint ki"
    and Iw: "to_signed (sint I) = Some Iw" "sint Iw = sint I"
    using widen_i128 by metis
  obtain kpe where kpe: "signed_checked_mul kpw er = Some kpe" "sint kpe = sint kp * err"
    using to_signed_i256 gain_product_fits [of kp p m] unfolding signed_checked_mul_def err_def
      kpw(2) er(2) [unfolded err_def] by metis
  obtain kie where kie: "signed_checked_mul kiw er = Some kie" "sint kie = sint ki * err"
    using to_signed_i256 gain_product_fits [of ki p m] unfolding signed_checked_mul_def err_def
      kiw(2) er(2) [unfolded err_def] by metis
  obtain pt where pt: "signed_checked_div kpe one = Some pt" "sint pt = trunc_div (sint kp * err) (int scale)"
    using signed_checked_div_one [OF one(2), of kpe] kpe(2) by auto
  have "uint dt < 2 ^ 64"
    using uint_lt2p [of dt] by simp
  then have "fits_i256 (uint dt)"
    by (intro fits_i256_abs) simp
  then obtain dtw :: i256 where dtw: "to_signed (uint dt) = Some dtw" "sint dtw = uint dt"
    using to_signed_i256 by blast
  note steps = one(1) rp(1) mp(1) er(1) kpw(1) kiw(1) kpe(1) kie(1) pt(1) dtw(1) Iw(1)
  show "run_controller_tick p m I kp ki dt = Inl (Panic ''controller: integral delta overflows I256'')"
    if "\<not> fits_i256 (sint ki * err * uint dt)"
    using to_signed_i256_None [OF that] unfolding run_controller_tick_def steps expect_simps attempt_simps
    by (simp add: signed_checked_mul_def kie(2) dtw(2))
  show "\<exists>out. run_controller_tick p m I kp ki dt = Inr out \<and>
        sint (out_controller_integral_term out) = I' \<and>
        uint (out_redemption_rate_per_millisecond out) = tick_rate (uint p) (tick_adjustment err (sint kp) I')"
    if fits: "fits_i256 (sint ki * err * uint dt)"
  proof -
    obtain sc where sc: "signed_checked_mul kie dtw = Some sc" "sint sc = sint ki * err * uint dt"
      using to_signed_i256 [OF fits] by (auto simp: signed_checked_mul_def kie(2) dtw(2))
    obtain de where de: "signed_checked_div sc one = Some de"
        "sint de = trunc_div (sint ki * err * uint dt) (int scale)"
      using signed_checked_div_one [OF one(2), of sc] sc(2) by auto
    have "\<bar>sint I\<bar> \<le> 2 ^ 127"
      using sint_i128 [of I] by (simp add: abs_le_iff)
    then obtain ra where ra: "signed_checked_add Iw de = Some ra"
        "sint ra = sint I + trunc_div (sint ki * err * uint dt) (int scale)"
      using to_signed_i256 [OF quotient_sum_fits(1) [OF fits]] by (auto simp: signed_checked_add_def Iw(2) de(2))
    obtain In where In: "clamp_to_magnitude ra INTEGRAL_CLAMP = Inr In" "sint In = I'"
      using clamp_to_rate_clamp [of ra] ra(2) by (auto simp: I'_def tick_integral_def)
    obtain Inw :: i256 where Inw: "to_signed (sint In) = Some Inw" "sint Inw = sint In"
      using widen_i128 by metis
    have "\<bar>sint In\<bar> \<le> 2 ^ 127"
      using sint_i128 [of In] by (simp add: abs_le_iff)
    then obtain ad where ad: "signed_checked_add pt Inw = Some ad"
        "sint ad = trunc_div (sint kp * err) (int scale) + I'"
      using to_signed_i256 [OF quotient_sum_fits(2) [OF gain_product_fits [of kp p m], folded err_def]]
      by (auto simp: signed_checked_add_def Inw(2) pt(2) In(2))
    obtain ra' where ra': "clamp_to_magnitude ad RATE_DELTA_CLAMP = Inr ra'"
        "sint ra' = tick_adjustment err (sint kp) I'"
      using clamp_to_rate_clamp [of ad] ad(2) by (auto simp: tick_adjustment_def)
    have "\<bar>tick_adjustment err (sint kp) I'\<bar> \<le> rate_clamp"
      by (simp add: tick_adjustment_def clamp_def abs_le_iff)
    note rate = bounded_rate [OF ra'(2) this, of p]
    show ?thesis
      unfolding run_controller_tick_def steps sc(1) de(1) ra(1) In(1) Inw(1) ad(1) ra'(1)
        expect_simps attempt_simps Let_def
      using rate In(2) by simp
  qed
qed

lemma tick_rate_range: "\<bar>a\<bar> \<le> rate_clamp \<Longrightarrow> int scale - rate_clamp \<le> tick_rate p a \<and> tick_rate p a \<le> int scale + rate_clamp"
  by (auto simp: tick_rate_def Let_def)

lemma abs_clamp: "0 \<le> m \<Longrightarrow> \<bar>clamp m v\<bar> \<le> m"
  by (auto simp: clamp_def)

text \<open>Within the gain band the tick cannot overflow for windows of up to \<^theory_text>\<open>1.7 * 10^11\<close> milliseconds.\<close>

lemma banded_tick_fits:
  assumes "0 \<le> ki" "ki \<le> int scale" "\<bar>err\<bar> < 2 ^ 128" "0 \<le> dt" "dt \<le> 170000000000"
  shows "fits_i256 (ki * err * dt)"
proof (rule fits_i256_abs)
  have "ki * \<bar>err\<bar> * dt \<le> int scale * 2 ^ 128 * 170000000000"
    using assms by (intro mult_mono) simp_all
  also have "\<dots> < 2 ^ 255"
    by simp
  finally show "\<bar>ki * err * dt\<bar> < 2 ^ 255"
    using assms(1,4) by (simp add: abs_mult)
qed

lemma bound_redemption_price_total:
  "\<exists>p. bound_redemption_price w = Inr p \<and> unat p = max (min (unat w) (2 ^ 127 - 1)) 1000000000"
proof -
  let ?c = "min w (widen512 MAXIMUM_REDEMPTION_PRICE)"
  have c: "unat ?c = min (unat w) (2 ^ 127 - 1)"
    by (auto simp: min_def word_le_nat_alt)
  then have "\<exists>q :: u128. narrow ?c = Some q \<and> unat q = unat ?c"
    by (auto simp: narrow_def unat_ucast_exact)
  then obtain q :: u128 where q: "narrow ?c = Some q" "unat q = unat ?c"
    by blast
  have "unat (max q MINIMUM_REDEMPTION_PRICE) = max (unat q) 1000000000"
    by (auto simp: max_def word_le_nat_alt)
  then show ?thesis
    using q c by (simp add: bound_redemption_price_def)
qed

text \<open>The sign of the error carries to the integral, the adjustment and the rate.\<close>

lemma trunc_div_sign:
  "0 \<le> a \<Longrightarrow> 0 < b \<Longrightarrow> 0 \<le> trunc_div a b" "a \<le> 0 \<Longrightarrow> 0 < b \<Longrightarrow> trunc_div a b \<le> 0"
  by (auto simp: trunc_div_def sgn_if pos_imp_zdiv_nonneg_iff)

lemma clamp_sign: "0 \<le> m \<Longrightarrow> 0 \<le> v \<Longrightarrow> 0 \<le> clamp m v" "0 \<le> m \<Longrightarrow> v \<le> 0 \<Longrightarrow> clamp m v \<le> 0"
  by (auto simp: clamp_def)

lemma tick_sign:
  assumes "0 \<le> kp" "0 \<le> ki" "0 \<le> dt"
  shows "0 \<le> err \<Longrightarrow> 0 \<le> I \<Longrightarrow> 0 \<le> tick_integral err I ki dt \<and>
      int scale \<le> tick_rate p (tick_adjustment err kp (tick_integral err I ki dt))"
    and "err \<le> 0 \<Longrightarrow> I \<le> 0 \<Longrightarrow> tick_integral err I ki dt \<le> 0 \<and>
      tick_rate p (tick_adjustment err kp (tick_integral err I ki dt)) \<le> int scale"
proof -
  assume "0 \<le> err" "0 \<le> I"
  then have "0 \<le> tick_integral err I ki dt"
    using assms unfolding tick_integral_def by (intro clamp_sign add_nonneg_nonneg trunc_div_sign) simp_all
  moreover from this have "0 \<le> tick_adjustment err kp (tick_integral err I ki dt)"
    using assms \<open>0 \<le> err\<close> unfolding tick_adjustment_def by (intro clamp_sign add_nonneg_nonneg trunc_div_sign) simp_all
  ultimately show "0 \<le> tick_integral err I ki dt \<and>
      int scale \<le> tick_rate p (tick_adjustment err kp (tick_integral err I ki dt))"
    by (auto simp: tick_rate_def Let_def)
next
  assume "err \<le> 0" "I \<le> 0"
  then have "tick_integral err I ki dt \<le> 0"
    using assms unfolding tick_integral_def
    by (intro clamp_sign add_nonpos_nonpos trunc_div_sign) (simp_all add: mult_nonneg_nonpos mult_nonpos_nonneg)
  moreover from this have "tick_adjustment err kp (tick_integral err I ki dt) \<le> 0"
    using assms \<open>err \<le> 0\<close> unfolding tick_adjustment_def
    by (intro clamp_sign add_nonpos_nonpos trunc_div_sign) (simp_all add: mult_nonneg_nonpos)
  ultimately show "tick_integral err I ki dt \<le> 0 \<and>
      tick_rate p (tick_adjustment err kp (tick_integral err I ki dt)) \<le> int scale"
    by (auto simp: tick_rate_def Let_def)
qed

end
