(* ===== verification/Stable_Core.thy ===== *)
theory Stable_Core
  imports Stable_Controller Faucet Twap_Core
begin

text \<open>
  The data of the stablecoin program (\<^theory_text>\<open>programs/stablecoin/core/src\<close>): its instructions, the
  four account types, the derivation of every address it uses, and the collateralization comparison.
\<close>

section \<open>Instructions and accounts\<close>

record initialize_params =
  params_freeze_authority_account_id :: account_id
  initial_stability_fee_per_millisecond :: u128
  initial_controller_proportional_gain :: i128
  initial_controller_integral_gain :: i128
  initial_minimum_collateralization_ratio :: u128
  params_minimum_milliseconds_between_rate_updates :: u64
  params_maximum_oracle_price_age_milliseconds :: u64
  initial_redemption_price :: u128
  stablecoin_name :: rust_string

datatype stable_instruction =
    InitializeProgram initialize_params
  | AccrueStabilityFee
  | UpdateRedemptionRate
  | RefreshGlobals
  | OpenPosition (open_nonce: u64) (initial_collateral_amount: u128)
  | DepositCollateral (deposit_amount: u128)
  | GenerateDebt (generate_amount: u128)
  | ClosePosition
  | SetMinimumCollateralizationRatio (new_ratio: u128)
  | SetControllerGains (new_proportional_gain: i128) (new_integral_gain: i128)
  | SetMarketPriceOracle
  | SetTimingParameters (new_minimum_milliseconds: u64) (new_maximum_age_milliseconds: u64)
  | SetAdmin account_id
  | SetFreezeAuthority account_id
  | SetStabilityFeePerMillisecond (new_fee_rate: u128)
  | Freeze
  | Unfreeze
  | WithdrawCollateral (withdraw_amount: u128)
  | RepayDebt (repay_amount: u128)
  | ResetRedemptionRateController

record position =
  owner_account_id :: account_id
  position_nonce :: u64
  vault_account_id :: account_id
  collateral_amount :: u128
  normalized_debt_amount :: u128
  opened_at :: u64

record protocol_parameters =
  admin_account_id :: account_id
  freeze_authority_account_id :: account_id
  stablecoin_definition_id :: account_id
  collateral_definition_id :: account_id
  market_price_oracle_id :: account_id
  stability_fee_per_millisecond :: u128
  controller_proportional_gain :: i128
  controller_integral_gain :: i128
  minimum_collateralization_ratio :: u128
  minimum_milliseconds_between_rate_updates :: u64
  maximum_oracle_price_age_milliseconds :: u64
  is_frozen :: bool

record redemption_price_state =
  redemption_price_at_last_update :: u128
  redemption_rate_per_millisecond :: u128
  controller_integral_term :: i128
  last_updated_at :: u64

record stability_fee_accumulator =
  accumulated_rate_at_last_accrual :: u128
  last_accrued_at :: u64
  total_normalized_debt :: u128

definition MAXIMUM_STABILITY_FEE_PER_MILLISECOND :: u128 where
  "MAXIMUM_STABILITY_FEE_PER_MILLISECOND = FIXED_POINT_ONE + 21965000000000000"

definition MAXIMUM_CONTROLLER_PROPORTIONAL_GAIN :: i128 where
  "MAXIMUM_CONTROLLER_PROPORTIONAL_GAIN = FIXED_POINT_ONE * 1000"

definition MAXIMUM_CONTROLLER_INTEGRAL_GAIN :: i128 where
  "MAXIMUM_CONTROLLER_INTEGRAL_GAIN = FIXED_POINT_ONE"

record 'd stable_env = "'d twap_env" +
  position_codec :: "(position, 'd) codec"
  parameters_codec :: "(protocol_parameters, 'd) codec"
  redemption_codec :: "(redemption_price_state, 'd) codec"
  accumulator_codec :: "(stability_fee_accumulator, 'd) codec"

text \<open>\<^theory_text>\<open>Data::from\<close> of the four account types.\<close>

definition position_data :: "('d, 'x) stable_env_scheme \<Rightarrow> position \<Rightarrow> 'd outcome" where
  "position_data E x = expect ''Position encoded data should fit into Data'' (encode (position_codec E) x) Inr"

definition parameters_data :: "('d, 'x) stable_env_scheme \<Rightarrow> protocol_parameters \<Rightarrow> 'd outcome" where
  "parameters_data E x =
    expect ''ProtocolParameters encoded data should fit into Data'' (encode (parameters_codec E) x) Inr"

definition redemption_data :: "('d, 'x) stable_env_scheme \<Rightarrow> redemption_price_state \<Rightarrow> 'd outcome" where
  "redemption_data E x =
    expect ''RedemptionPriceState encoded data should fit into Data'' (encode (redemption_codec E) x) Inr"

definition accumulator_data :: "('d, 'x) stable_env_scheme \<Rightarrow> stability_fee_accumulator \<Rightarrow> 'd outcome" where
  "accumulator_data E x =
    expect ''StabilityFeeAccumulator encoded data should fit into Data'' (encode (accumulator_codec E) x) Inr"

lemma stable_encoded_success [success]:
  "position_data E p = Inr d \<longleftrightarrow> encode (position_codec E) p = Some d"
  "parameters_data E q = Inr d \<longleftrightarrow> encode (parameters_codec E) q = Some d"
  "redemption_data E r = Inr d \<longleftrightarrow> encode (redemption_codec E) r = Some d"
  "accumulator_data E a = Inr d \<longleftrightarrow> encode (accumulator_codec E) a = Some d"
  by (simp_all add: position_data_def parameters_data_def redemption_data_def accumulator_data_def success)

section \<open>Addresses\<close>

definition POSITION_PDA_DOMAIN :: bytes where
  "POSITION_PDA_DOMAIN = ascii ''POSITION''"

definition POSITION_VAULT_PDA_DOMAIN :: bytes where
  "POSITION_VAULT_PDA_DOMAIN = ascii ''POSITION_VAULT''"

definition STABLECOIN_DEFINITION_PDA_DOMAIN :: bytes where
  "STABLECOIN_DEFINITION_PDA_DOMAIN = ascii ''STABLECOIN__DEFINITION__________''"

definition STABLECOIN_MASTER_HOLDING_PDA_DOMAIN :: bytes where
  "STABLECOIN_MASTER_HOLDING_PDA_DOMAIN = ascii ''STABLECOIN__MASTER_HOLDING______''"

definition PROTOCOL_PARAMETERS_PDA_DOMAIN :: bytes where
  "PROTOCOL_PARAMETERS_PDA_DOMAIN = ascii ''STABLECOIN__PROTOCOL_PARAMS_____''"

definition REDEMPTION_PRICE_STATE_PDA_DOMAIN :: bytes where
  "REDEMPTION_PRICE_STATE_PDA_DOMAIN = ascii ''REDEMPTION_PRICE_STATE''"

definition STABILITY_FEE_ACCUMULATOR_PDA_DOMAIN :: bytes where
  "STABILITY_FEE_ACCUMULATOR_PDA_DOMAIN = ascii ''STABILITY_FEE_ACCUMULATOR''"

definition position_seed_bytes :: "account_id \<Rightarrow> u64 \<Rightarrow> bytes" where
  "position_seed_bytes owner_id nonce_value = to_bytes owner_id @ to_le_bytes nonce_value @ POSITION_PDA_DOMAIN"

definition compute_position_pda_seed :: "('d, 'x) lee_env_scheme \<Rightarrow> account_id \<Rightarrow> u64 \<Rightarrow> pda_seed" where
  "compute_position_pda_seed E owner_id nonce_value = sha256 E (position_seed_bytes owner_id nonce_value)"

definition compute_position_pda ::
  "('d, 'x) lee_env_scheme \<Rightarrow> account_id \<Rightarrow> account_id \<Rightarrow> u64 \<Rightarrow> account_id" where
  "compute_position_pda E program owner_id nonce_value =
    for_public_pda E program (compute_position_pda_seed E owner_id nonce_value)"

definition position_vault_seed_bytes :: "account_id \<Rightarrow> bytes" where
  "position_vault_seed_bytes position_id = to_bytes position_id @ POSITION_VAULT_PDA_DOMAIN"

definition compute_position_vault_pda_seed :: "('d, 'x) lee_env_scheme \<Rightarrow> account_id \<Rightarrow> pda_seed" where
  "compute_position_vault_pda_seed E position_id = sha256 E (position_vault_seed_bytes position_id)"

definition compute_position_vault_pda ::
  "('d, 'x) lee_env_scheme \<Rightarrow> account_id \<Rightarrow> account_id \<Rightarrow> account_id" where
  "compute_position_vault_pda E program position_id =
    for_public_pda E program (compute_position_vault_pda_seed E position_id)"

definition compute_stablecoin_definition_pda_seed :: "('d, 'x) lee_env_scheme \<Rightarrow> pda_seed" where
  "compute_stablecoin_definition_pda_seed E = sha256 E STABLECOIN_DEFINITION_PDA_DOMAIN"

definition compute_stablecoin_definition_pda :: "('d, 'x) lee_env_scheme \<Rightarrow> account_id \<Rightarrow> account_id" where
  "compute_stablecoin_definition_pda E program =
    for_public_pda E program (compute_stablecoin_definition_pda_seed E)"

definition compute_stablecoin_master_holding_pda_seed :: "('d, 'x) lee_env_scheme \<Rightarrow> pda_seed" where
  "compute_stablecoin_master_holding_pda_seed E = sha256 E STABLECOIN_MASTER_HOLDING_PDA_DOMAIN"

definition compute_stablecoin_master_holding_pda :: "('d, 'x) lee_env_scheme \<Rightarrow> account_id \<Rightarrow> account_id" where
  "compute_stablecoin_master_holding_pda E program =
    for_public_pda E program (compute_stablecoin_master_holding_pda_seed E)"

definition compute_protocol_parameters_pda_seed :: "('d, 'x) lee_env_scheme \<Rightarrow> pda_seed" where
  "compute_protocol_parameters_pda_seed E = sha256 E PROTOCOL_PARAMETERS_PDA_DOMAIN"

definition compute_protocol_parameters_pda :: "('d, 'x) lee_env_scheme \<Rightarrow> account_id \<Rightarrow> account_id" where
  "compute_protocol_parameters_pda E program = for_public_pda E program (compute_protocol_parameters_pda_seed E)"

definition compute_redemption_price_state_pda_seed :: "('d, 'x) lee_env_scheme \<Rightarrow> pda_seed" where
  "compute_redemption_price_state_pda_seed E = sha256 E REDEMPTION_PRICE_STATE_PDA_DOMAIN"

definition compute_redemption_price_state_pda :: "('d, 'x) lee_env_scheme \<Rightarrow> account_id \<Rightarrow> account_id" where
  "compute_redemption_price_state_pda E program =
    for_public_pda E program (compute_redemption_price_state_pda_seed E)"

definition compute_stability_fee_accumulator_pda_seed :: "('d, 'x) lee_env_scheme \<Rightarrow> pda_seed" where
  "compute_stability_fee_accumulator_pda_seed E = sha256 E STABILITY_FEE_ACCUMULATOR_PDA_DOMAIN"

definition compute_stability_fee_accumulator_pda :: "('d, 'x) lee_env_scheme \<Rightarrow> account_id \<Rightarrow> account_id" where
  "compute_stability_fee_accumulator_pda E program =
    for_public_pda E program (compute_stability_fee_accumulator_pda_seed E)"

definition verify_position_and_get_seed ::
  "('d, 'x) lee_env_scheme \<Rightarrow> 'd account_with_metadata \<Rightarrow> 'd account_with_metadata \<Rightarrow> u64 \<Rightarrow> account_id \<Rightarrow>
    pda_seed outcome" where
  "verify_position_and_get_seed E position_account owner nonce_value program =
    (let seed = compute_position_pda_seed E (account_id owner) nonce_value in
     ensure (account_id position_account = for_public_pda E program seed)
       ''Position account ID does not match expected derivation'' (Inr seed))"

definition verify_position_vault_and_get_seed ::
  "('d, 'x) lee_env_scheme \<Rightarrow> 'd account_with_metadata \<Rightarrow> account_id \<Rightarrow> account_id \<Rightarrow> pda_seed outcome" where
  "verify_position_vault_and_get_seed E vault position_id program =
    (let seed = compute_position_vault_pda_seed E position_id in
     ensure (account_id vault = for_public_pda E program seed)
       ''Position vault account ID does not match expected derivation'' (Inr seed))"

lemma verify_position_success [success]:
  "verify_position_and_get_seed E a w n p = Inr seed \<longleftrightarrow>
    seed = compute_position_pda_seed E (account_id w) n \<and>
    account_id a = compute_position_pda E p (account_id w) n"
  "verify_position_vault_and_get_seed E v i p = Inr seed \<longleftrightarrow>
    seed = compute_position_vault_pda_seed E i \<and> account_id v = compute_position_vault_pda E p i"
  by (auto simp: verify_position_and_get_seed_def verify_position_vault_and_get_seed_def Let_def success
      compute_position_pda_def compute_position_vault_pda_def)

section \<open>The collateralization comparison\<close>

record collateralization =
  collateral_value :: u512
  required_collateral_value :: u512
  requirement_saturated :: bool

text \<open>The loop over the three operands: a product that overflows stops it at the maximum.\<close>

fun required_value :: "u512 \<Rightarrow> u512 list \<Rightarrow> u512 \<times> bool" where
  "required_value required [] = (required, False)"
| "required_value required (operand # operands) =
    (case checked_mul required operand of
       Some product \<Rightarrow> required_value product operands
     | None \<Rightarrow> (- 1, True))"

definition collateralization_values :: "u128 \<Rightarrow> u128 \<Rightarrow> u512 \<Rightarrow> u512 \<Rightarrow> u128 \<Rightarrow> collateralization" where
  "collateralization_values collateral debt current_accumulator current_redemption_price ratio =
    (let one = widen512 FIXED_POINT_ONE in
     case required_value (widen512 debt) [current_accumulator, current_redemption_price, widen512 ratio] of
       (required, saturated) \<Rightarrow>
         \<lparr> collateral_value = widen512 collateral * one * one * one,
           required_collateral_value = required, requirement_saturated = saturated \<rparr>)"

definition is_collateralized :: "collateralization \<Rightarrow> bool" where
  "is_collateralized c = (required_collateral_value c \<le> collateral_value c)"

end
