(* ===== verification/Stable_Checks.thy ===== *)
theory Stable_Checks
  imports Stable_Core
begin

text \<open>
  The helpers the stablecoin instructions share: the collateralization assertion, the parameter
  bands, the validation of the global accounts and the surplus mint (\<^theory_text>\<open>checks.rs\<close>), the clock and the
  fee accrual (\<^theory_text>\<open>accrue_stability_fee.rs\<close>), the oracle reading and the advance of the redemption
  price (\<^theory_text>\<open>update_redemption_rate.rs\<close>).
\<close>

section \<open>checks.rs\<close>

definition assert_position_is_collateralized :: "position \<Rightarrow> u512 \<Rightarrow> u512 \<Rightarrow> u128 \<Rightarrow> unit outcome" where
  "assert_position_is_collateralized pos current_accumulator current_redemption_price ratio =
    (if normalized_debt_amount pos = 0 then Inr ()
     else ensure (is_collateralized (collateralization_values (collateral_amount pos) (normalized_debt_amount pos)
                    current_accumulator current_redemption_price ratio))
            ''Position is undercollateralized'' (Inr ()))"

definition MIN_COLLATERALIZATION_RATIO :: u128 where
  "MIN_COLLATERALIZATION_RATIO = FIXED_POINT_ONE * 110 div 100"

definition MAX_COLLATERALIZATION_RATIO :: u128 where
  "MAX_COLLATERALIZATION_RATIO = FIXED_POINT_ONE * 10"

definition MAX_TIMING_MILLISECONDS :: u64 where
  "MAX_TIMING_MILLISECONDS = 86400000"

definition assert_admin_authorized :: "'d account_with_metadata \<Rightarrow> protocol_parameters \<Rightarrow> unit outcome" where
  "assert_admin_authorized admin parameters =
    ensure (is_authorized admin) ''Admin authorization is missing'' (
    ensure (account_id admin = admin_account_id parameters) ''Signer is not the protocol's admin'' (Inr ()))"

definition assert_stability_fee_in_band :: "u128 \<Rightarrow> string \<Rightarrow> unit outcome" where
  "assert_stability_fee_in_band rate label =
    ensure (FIXED_POINT_ONE \<le> rate) (label @ '' below FIXED_POINT_ONE'') (
    ensure (rate \<le> MAXIMUM_STABILITY_FEE_PER_MILLISECOND) (label @ '' above sane upper bound'') (Inr ()))"

definition assert_collateralization_ratio_in_band :: "u128 \<Rightarrow> string \<Rightarrow> unit outcome" where
  "assert_collateralization_ratio_in_band ratio label =
    ensure (MIN_COLLATERALIZATION_RATIO \<le> ratio) (label @ '' below 1.1x'') (
    ensure (ratio \<le> MAX_COLLATERALIZATION_RATIO) (label @ '' above 10x'') (Inr ()))"

definition assert_controller_gains_in_band :: "i128 \<Rightarrow> i128 \<Rightarrow> unit outcome" where
  "assert_controller_gains_in_band proportional_gain integral_gain =
    ensure (0 \<le> sint proportional_gain \<and> sint proportional_gain \<le> sint MAXIMUM_CONTROLLER_PROPORTIONAL_GAIN)
      ''controller_proportional_gain out of band'' (
    ensure (0 \<le> sint integral_gain \<and> sint integral_gain \<le> sint MAXIMUM_CONTROLLER_INTEGRAL_GAIN)
      ''controller_integral_gain out of band'' (Inr ()))"

definition assert_timing_milliseconds_in_band :: "u64 \<Rightarrow> string \<Rightarrow> unit outcome" where
  "assert_timing_milliseconds_in_band milliseconds label =
    ensure (1 \<le> milliseconds) (label @ '' below minimum 1ms'') (
    ensure (milliseconds \<le> MAX_TIMING_MILLISECONDS) (label @ '' above maximum 86_400_000ms'') (Inr ()))"

text \<open>The chained \<^theory_text>\<open>Token::Mint\<close> of accrued fees, or none when there is nothing to mint.\<close>

definition surplus_mint_call ::
  "('d, 'x) lee_env_scheme \<Rightarrow> 'd account_with_metadata \<Rightarrow> 'd account_with_metadata \<Rightarrow> protocol_parameters \<Rightarrow>
    account_id \<Rightarrow> u128 \<Rightarrow> token_instruction chained_call list outcome" where
  "surplus_mint_call E stablecoin_defn master_holding parameters program accrued =
    ensure (account_id stablecoin_defn = stablecoin_definition_id parameters)
      ''Stablecoin definition does not match the one bound at initialize_program'' (
    ensure (account stablecoin_defn \<noteq> account_default E)
      ''Stablecoin definition account must be initialized'' (
    ensure (account_id master_holding = compute_stablecoin_master_holding_pda E program)
      ''Stablecoin master holding account ID does not match expected PDA derivation'' (
    ensure (account master_holding \<noteq> account_default E)
      ''Stablecoin master holding must be initialized'' (
    ensure (program_owner (account master_holding) = program_owner (account stablecoin_defn))
      ''Stablecoin master holding must be owned by the same Token Program as the definition'' (
    Inr (if 0 < accrued then
           [with_pda_seeds
              (chained_call_new (program_owner (account stablecoin_defn))
                [account_id stablecoin_defn, account_id master_holding] (Mint accrued))
              [compute_stablecoin_definition_pda_seed E]]
         else []))))))"

definition decode_global ::
  "('d, 'x) lee_env_scheme \<Rightarrow> 'd account_with_metadata \<Rightarrow> account_id \<Rightarrow> account_id \<Rightarrow> string \<Rightarrow> 'd outcome" where
  "decode_global E a expected_id program label =
    ensure (account a \<noteq> account_default E) (label @ '' account must be initialized'') (
    ensure (program_owner (account a) = program)
      (label @ '' account must be owned by the stablecoin program'') (
    ensure (account_id a = expected_id)
      (label @ '' account ID does not match expected PDA derivation'') (
    Inr (data (account a)))))"

text \<open>The three ways the handlers call it: \<^theory_text>\<open>T::try_from(&decode_global(..)).expect(..)\<close>.\<close>

definition decode_parameters ::
  "('d, 'x) stable_env_scheme \<Rightarrow> 'd account_with_metadata \<Rightarrow> account_id \<Rightarrow> protocol_parameters outcome" where
  "decode_parameters E a program =
    attempt (decode_global E a (compute_protocol_parameters_pda E program) program ''ProtocolParameters'') (\<lambda>d.
    expect ''ProtocolParameters must decode'' (decode (parameters_codec E) d) Inr)"

definition decode_accumulator ::
  "('d, 'x) stable_env_scheme \<Rightarrow> 'd account_with_metadata \<Rightarrow> account_id \<Rightarrow> stability_fee_accumulator outcome" where
  "decode_accumulator E a program =
    attempt (decode_global E a (compute_stability_fee_accumulator_pda E program) program
      ''StabilityFeeAccumulator'') (\<lambda>d.
    expect ''StabilityFeeAccumulator must decode'' (decode (accumulator_codec E) d) Inr)"

definition decode_redemption ::
  "('d, 'x) stable_env_scheme \<Rightarrow> 'd account_with_metadata \<Rightarrow> account_id \<Rightarrow> redemption_price_state outcome" where
  "decode_redemption E a program =
    attempt (decode_global E a (compute_redemption_price_state_pda E program) program
      ''RedemptionPriceState'') (\<lambda>d.
    expect ''RedemptionPriceState must decode'' (decode (redemption_codec E) d) Inr)"

section \<open>accrue_stability_fee.rs\<close>

definition decode_fee_accrual_inputs ::
  "('d, 'x) stable_env_scheme \<Rightarrow> 'd account_with_metadata \<Rightarrow> 'd account_with_metadata \<Rightarrow> account_id \<Rightarrow>
    (protocol_parameters \<times> stability_fee_accumulator) outcome" where
  "decode_fee_accrual_inputs E params_account accumulator_account program =
    ensure (account params_account \<noteq> account_default E) ''ProtocolParameters account must be initialized'' (
    ensure (program_owner (account params_account) = program)
      ''ProtocolParameters not owned by this stablecoin program'' (
    ensure (account accumulator_account \<noteq> account_default E)
      ''StabilityFeeAccumulator account must be initialized'' (
    ensure (program_owner (account accumulator_account) = program)
      ''StabilityFeeAccumulator not owned by this stablecoin program'' (
    ensure (account_id accumulator_account = compute_stability_fee_accumulator_pda E program)
      ''StabilityFeeAccumulator account ID does not match expected PDA derivation'' (
    expect ''ProtocolParameters must decode'' (decode (parameters_codec E) (data (account params_account)))
      (\<lambda>params.
    expect ''StabilityFeeAccumulator must decode''
      (decode (accumulator_codec E) (data (account accumulator_account))) (\<lambda>accumulator.
    Inr (params, accumulator))))))))"

record fee_accrual =
  accrual_accumulator :: stability_fee_accumulator
  accrued_fees :: u128

definition accrue_fees :: "protocol_parameters \<Rightarrow> stability_fee_accumulator \<Rightarrow> u64 \<Rightarrow> fee_accrual outcome" where
  "accrue_fees params accumulator now =
    attempt (compute_current_accumulated_rate (accumulated_rate_at_last_accrual accumulator)
      (stability_fee_per_millisecond params) (last_accrued_at accumulator) now) (\<lambda>current.
    expect ''Stability fee accumulator must not decrease''
      (checked_sub current (accumulated_rate_at_last_accrual accumulator)) (\<lambda>rate_delta.
    attempt (mul_div (total_normalized_debt accumulator) rate_delta FIXED_POINT_ONE) (\<lambda>fees.
    Inr \<lparr> accrual_accumulator =
            \<lparr> accumulated_rate_at_last_accrual = current, last_accrued_at = now,
              total_normalized_debt = total_normalized_debt accumulator \<rparr>,
          accrued_fees = fees \<rparr>)))"

definition stable_read_clock :: "('d, 'x) lee_env_scheme \<Rightarrow> 'd account_with_metadata \<Rightarrow> u64 outcome" where
  "stable_read_clock E clock =
    ensure (account_id clock = clock_01_program_account_id E)
      ''Clock account must be the system CLOCK_01 account'' (
    ensure (account clock \<noteq> account_default E) ''Clock account must be initialized'' (
    Inr (clock_timestamp E (data (account clock)))))"

section \<open>update_redemption_rate.rs\<close>

definition decode_redemption_inputs ::
  "('d, 'x) stable_env_scheme \<Rightarrow> 'd account_with_metadata \<Rightarrow> 'd account_with_metadata \<Rightarrow> account_id \<Rightarrow>
    (protocol_parameters \<times> redemption_price_state) outcome" where
  "decode_redemption_inputs E params_account redemption_account program =
    ensure (account params_account \<noteq> account_default E) ''ProtocolParameters account must be initialized'' (
    ensure (program_owner (account params_account) = program)
      ''ProtocolParameters not owned by this stablecoin program'' (
    ensure (account redemption_account \<noteq> account_default E)
      ''RedemptionPriceState account must be initialized'' (
    ensure (program_owner (account redemption_account) = program)
      ''RedemptionPriceState not owned by this stablecoin program'' (
    ensure (account_id redemption_account = compute_redemption_price_state_pda E program)
      ''RedemptionPriceState account ID does not match expected PDA derivation'' (
    expect ''ProtocolParameters must decode'' (decode (parameters_codec E) (data (account params_account)))
      (\<lambda>params.
    expect ''RedemptionPriceState must decode''
      (decode (redemption_codec E) (data (account redemption_account))) (\<lambda>redemption.
    Inr (params, redemption))))))))"

text \<open>Outer errors are panics, the inner \<^theory_text>\<open>None\<close> is an oracle without a usable observation.\<close>

definition read_oracle ::
  "('d, 'x) stable_env_scheme \<Rightarrow> 'd account_with_metadata \<Rightarrow> protocol_parameters \<Rightarrow>
    oracle_price_account option outcome" where
  "read_oracle E market_price_oracle params =
    ensure (account_id market_price_oracle = market_price_oracle_id params)
      ''Market price oracle account_id does not match ProtocolParameters.market_price_oracle_id'' (
    Inr (if account market_price_oracle = account_default E then None
         else case decode (oracle_price_codec E) (data (account market_price_oracle)) of
           None \<Rightarrow> None
         | Some oracle \<Rightarrow>
             (if oracle_base_asset oracle = stablecoin_definition_id params \<and>
                 oracle_quote_asset oracle = collateral_definition_id params
              then Some oracle else None)))"

definition advance_redemption_price ::
  "('d, 'x) stable_env_scheme \<Rightarrow> protocol_parameters \<Rightarrow> redemption_price_state \<Rightarrow> u128 \<Rightarrow> u64 \<Rightarrow> 'd outcome" where
  "advance_redemption_price E params redemption price now =
    (let milliseconds_elapsed = saturating_sub now (last_updated_at redemption) in
     attempt (bound_redemption_price (compute_current_redemption_price_wide
       (redemption_price_at_last_update redemption) (redemption_rate_per_millisecond redemption)
       (last_updated_at redemption) now)) (\<lambda>current_price.
     attempt (run_controller_tick current_price (oracle_price_to_fixed_point price)
       (controller_integral_term redemption) (controller_proportional_gain params)
       (controller_integral_gain params) milliseconds_elapsed) (\<lambda>out.
     redemption_data E
       \<lparr> redemption_price_at_last_update = current_price,
         redemption_rate_per_millisecond = out_redemption_rate_per_millisecond out,
         controller_integral_term = out_controller_integral_term out, last_updated_at = now \<rparr>)))"

end
