(* ===== verification/Stable_Globals.thy ===== *)
theory Stable_Globals
  imports Stable_Checks
begin

text \<open>
  The instructions on the global accounts of the stablecoin program: bootstrap
  (\<^theory_text>\<open>initialize_program.rs\<close>), the three permissionless pokes, the administration (\<^theory_text>\<open>admin.rs\<close>,
  \<^theory_text>\<open>freeze.rs\<close>) and the reset of the controller.
\<close>

section \<open>initialize_program.rs\<close>

text \<open>The sanity checks on an oracle that already exists.\<close>

definition check_initial_oracle ::
  "('d, 'x) stable_env_scheme \<Rightarrow> 'd account_with_metadata \<Rightarrow> account_id \<Rightarrow> account_id \<Rightarrow> unit outcome" where
  "check_initial_oracle E oracle_account stablecoin_id collateral_id =
    (if account oracle_account \<noteq> account_default E then
       expect ''Market price oracle must decode as OraclePriceAccount''
         (decode (oracle_price_codec E) (data (account oracle_account))) (\<lambda>oracle.
       ensure (oracle_base_asset oracle = stablecoin_id)
         ''Oracle base_asset must equal the stablecoin definition's account_id'' (
       ensure (oracle_quote_asset oracle = collateral_id)
         ''Oracle quote_asset must equal the collateral definition's account_id'' (Inr ())))
     else Inr ())"

text \<open>Step 7: the bands of the numerical parameters.\<close>

definition check_initial_parameters :: "initialize_params \<Rightarrow> unit outcome" where
  "check_initial_parameters params =
    attempt (assert_stability_fee_in_band (initial_stability_fee_per_millisecond params)
      ''initial_stability_fee_per_millisecond'') (\<lambda>_.
    attempt (assert_collateralization_ratio_in_band (initial_minimum_collateralization_ratio params)
      ''initial_minimum_collateralization_ratio'') (\<lambda>_.
    attempt (assert_controller_gains_in_band (initial_controller_proportional_gain params)
      (initial_controller_integral_gain params)) (\<lambda>_.
    attempt (assert_timing_milliseconds_in_band (params_minimum_milliseconds_between_rate_updates params)
      ''minimum_milliseconds_between_rate_updates'') (\<lambda>_.
    attempt (assert_timing_milliseconds_in_band (params_maximum_oracle_price_age_milliseconds params)
      ''maximum_oracle_price_age_milliseconds'') (\<lambda>_.
    ensure (MINIMUM_REDEMPTION_PRICE \<le> initial_redemption_price params \<and>
            initial_redemption_price params \<le> MAXIMUM_REDEMPTION_PRICE)
      (''initial_redemption_price must be within the '' @ [CHR 0xC2, CHR 0xA7] @ ''8 redemption-price bounds'') (
    ensure (stablecoin_name params \<noteq> []) ''stablecoin_name must be non-empty'' (Inr ())))))))"

definition initialize_program ::
  "('d, 'x) stable_env_scheme \<Rightarrow> 'd account_with_metadata \<Rightarrow> 'd account_with_metadata \<Rightarrow>
    'd account_with_metadata \<Rightarrow> 'd account_with_metadata \<Rightarrow> 'd account_with_metadata \<Rightarrow>
    'd account_with_metadata \<Rightarrow> 'd account_with_metadata \<Rightarrow> 'd account_with_metadata \<Rightarrow>
    'd account_with_metadata \<Rightarrow> account_id \<Rightarrow> initialize_params \<Rightarrow> 'd token_output" where
  "initialize_program E admin params_account accumulator_account redemption_account stablecoin_defn
      master_holding collateral_defn oracle_account clock program params =
    ensure (is_authorized admin) ''Admin authorization is missing'' (
    ensure (account params_account = account_default E) ''ProtocolParameters account must be uninitialized'' (
    ensure (account accumulator_account = account_default E)
      ''StabilityFeeAccumulator account must be uninitialized'' (
    ensure (account redemption_account = account_default E)
      ''RedemptionPriceState account must be uninitialized'' (
    ensure (account stablecoin_defn = account_default E)
      ''StablecoinDefinition account must be uninitialized'' (
    ensure (account master_holding = account_default E)
      ''StablecoinMasterHolding account must be uninitialized'' (
    ensure (account_id params_account = compute_protocol_parameters_pda E program)
      ''ProtocolParameters account ID does not match expected PDA derivation'' (
    ensure (account_id accumulator_account = compute_stability_fee_accumulator_pda E program)
      ''StabilityFeeAccumulator account ID does not match expected PDA derivation'' (
    ensure (account_id redemption_account = compute_redemption_price_state_pda E program)
      ''RedemptionPriceState account ID does not match expected PDA derivation'' (
    ensure (account_id stablecoin_defn = compute_stablecoin_definition_pda E program)
      ''StablecoinDefinition account ID does not match expected PDA derivation'' (
    ensure (account_id master_holding = compute_stablecoin_master_holding_pda E program)
      ''StablecoinMasterHolding account ID does not match expected PDA derivation'' (
    attempt (stable_read_clock E clock) (\<lambda>now.
    ensure (account collateral_defn \<noteq> account_default E)
      ''Collateral definition account must be initialized'' (
    expect ''Collateral definition must be a valid TokenDefinition''
      (decode (definition_codec E) (data (account collateral_defn))) (\<lambda>defn.
    ensure (case defn of DefFungible n s m a \<Rightarrow> True | DefNonFungible n p m \<Rightarrow> False)
      ''Collateral definition must be Fungible'' (
    attempt (check_initial_oracle E oracle_account (account_id stablecoin_defn) (account_id collateral_defn)) (\<lambda>_.
    attempt (check_initial_parameters params) (\<lambda>_.
    attempt (parameters_data E
      \<lparr> admin_account_id = account_id admin,
        freeze_authority_account_id = params_freeze_authority_account_id params,
        stablecoin_definition_id = account_id stablecoin_defn,
        collateral_definition_id = account_id collateral_defn,
        market_price_oracle_id = account_id oracle_account,
        stability_fee_per_millisecond = initial_stability_fee_per_millisecond params,
        controller_proportional_gain = initial_controller_proportional_gain params,
        controller_integral_gain = initial_controller_integral_gain params,
        minimum_collateralization_ratio = initial_minimum_collateralization_ratio params,
        minimum_milliseconds_between_rate_updates = params_minimum_milliseconds_between_rate_updates params,
        maximum_oracle_price_age_milliseconds = params_maximum_oracle_price_age_milliseconds params,
        is_frozen = False \<rparr>) (\<lambda>parameters_value.
    attempt (accumulator_data E
      \<lparr> accumulated_rate_at_last_accrual = FIXED_POINT_ONE, last_accrued_at = now,
        total_normalized_debt = 0 \<rparr>) (\<lambda>accumulator_value.
    attempt (redemption_data E
      \<lparr> redemption_price_at_last_update = initial_redemption_price params,
        redemption_rate_per_millisecond = FIXED_POINT_ONE, controller_integral_term = 0,
        last_updated_at = now \<rparr>) (\<lambda>redemption_value.
    Inr ([Unchanged admin, NewData params_account (Add 0) parameters_value,
          NewData accumulator_account (Add 0) accumulator_value,
          NewData redemption_account (Add 0) redemption_value, Unchanged stablecoin_defn,
          Unchanged master_holding, Unchanged collateral_defn, Unchanged oracle_account, Unchanged clock],
         [with_pda_seeds
            (chained_call_new (program_owner (account collateral_defn))
              [account_id stablecoin_defn, account_id master_holding]
              (NewFungibleDefinition (stablecoin_name params) 0 (Some (account_id stablecoin_defn))))
            [compute_stablecoin_definition_pda_seed E, compute_stablecoin_master_holding_pda_seed E]])))))))))))))))))))))"

section \<open>The permissionless pokes\<close>

definition accrue_stability_fee ::
  "('d, 'x) stable_env_scheme \<Rightarrow> 'd account_with_metadata \<Rightarrow> 'd account_with_metadata \<Rightarrow>
    'd account_with_metadata \<Rightarrow> 'd account_with_metadata \<Rightarrow> 'd account_with_metadata \<Rightarrow>
    'd account_with_metadata \<Rightarrow> account_id \<Rightarrow> 'd token_output" where
  "accrue_stability_fee E caller params_account accumulator_account stablecoin_defn master_holding clock program =
    ensure (is_authorized caller) ''Caller authorization is missing'' (
    attempt (decode_fee_accrual_inputs E params_account accumulator_account program) (\<lambda>(params, accumulator).
    attempt (stable_read_clock E clock) (\<lambda>now.
    attempt (accrue_fees params accumulator now) (\<lambda>accrual.
    attempt (surplus_mint_call E stablecoin_defn master_holding params program (accrued_fees accrual))
      (\<lambda>surplus_mint.
    attempt (accumulator_data E (accrual_accumulator accrual)) (\<lambda>d.
    Inr ([Unchanged caller, Unchanged params_account, NewData accumulator_account (Add 0) d,
          Unchanged stablecoin_defn, Unchanged master_holding, Unchanged clock],
         surplus_mint)))))))"

definition update_redemption_rate ::
  "('d, 'x) stable_env_scheme \<Rightarrow> 'd account_with_metadata \<Rightarrow> 'd account_with_metadata \<Rightarrow>
    'd account_with_metadata \<Rightarrow> 'd account_with_metadata \<Rightarrow> 'd account_with_metadata \<Rightarrow> account_id \<Rightarrow>
    'd token_output" where
  "update_redemption_rate E caller params_account redemption_account oracle_account clock program =
    ensure (is_authorized caller) ''Caller authorization is missing'' (
    attempt (decode_redemption_inputs E params_account redemption_account program) (\<lambda>(params, redemption).
    ensure (account oracle_account \<noteq> account_default E)
      ''Market price oracle account must be initialized'' (
    attempt (read_oracle E oracle_account params) (\<lambda>maybe_oracle.
    expect ''Market price oracle must be an OraclePriceAccount quoting the stablecoin in collateral''
      maybe_oracle (\<lambda>oracle.
    attempt (stable_read_clock E clock) (\<lambda>now.
    ensure (saturating_sub now (oracle_timestamp oracle) \<le> maximum_oracle_price_age_milliseconds params)
      ''Market price oracle observation is stale'' (
    ensure (0 < oracle_price oracle) ''Market price oracle reports zero price'' (
    ensure (minimum_milliseconds_between_rate_updates params \<le> saturating_sub now (last_updated_at redemption))
      ''update_redemption_rate called too soon since last update'' (
    attempt (advance_redemption_price E params redemption (oracle_price oracle) now) (\<lambda>d.
    Inr ([Unchanged caller, Unchanged params_account, NewData redemption_account (Add 0) d,
          Unchanged oracle_account, Unchanged clock], [])))))))))))"

definition refresh_globals ::
  "('d, 'x) stable_env_scheme \<Rightarrow> 'd account_with_metadata \<Rightarrow> 'd account_with_metadata \<Rightarrow>
    'd account_with_metadata \<Rightarrow> 'd account_with_metadata \<Rightarrow> 'd account_with_metadata \<Rightarrow>
    'd account_with_metadata \<Rightarrow> 'd account_with_metadata \<Rightarrow> 'd account_with_metadata \<Rightarrow> account_id \<Rightarrow>
    'd token_output" where
  "refresh_globals E caller params_account accumulator_account stablecoin_defn master_holding
      redemption_account oracle_account clock program =
    ensure (is_authorized caller) ''Caller authorization is missing'' (
    attempt (decode_fee_accrual_inputs E params_account accumulator_account program) (\<lambda>(params, accumulator).
    attempt (decode_redemption_inputs E params_account redemption_account program) (\<lambda>(_, redemption).
    attempt (read_oracle E oracle_account params) (\<lambda>maybe_oracle.
    attempt (stable_read_clock E clock) (\<lambda>now.
    attempt (accrue_fees params accumulator now) (\<lambda>accrual.
    attempt (surplus_mint_call E stablecoin_defn master_holding params program (accrued_fees accrual))
      (\<lambda>surplus_mint.
    (let interval_due = minimum_milliseconds_between_rate_updates params
                          \<le> saturating_sub now (last_updated_at redemption);
         usable_price = (case maybe_oracle of
             None \<Rightarrow> None
           | Some oracle \<Rightarrow>
               (if saturating_sub now (oracle_timestamp oracle) \<le> maximum_oracle_price_age_milliseconds params \<and>
                   0 < oracle_price oracle
                then Some (oracle_price oracle) else None))
     in attempt (case usable_price of
            Some price \<Rightarrow>
              (if interval_due then
                 attempt (advance_redemption_price E params redemption price now) (\<lambda>d.
                 Inr (NewData redemption_account (Add 0) d))
               else Inr (Unchanged redemption_account))
          | None \<Rightarrow> Inr (Unchanged redemption_account)) (\<lambda>redemption_diff.
        attempt (accumulator_data E (accrual_accumulator accrual)) (\<lambda>d.
        Inr ([Unchanged caller, Unchanged params_account, NewData accumulator_account (Add 0) d,
              Unchanged stablecoin_defn, Unchanged master_holding, redemption_diff,
              Unchanged oracle_account, Unchanged clock],
             surplus_mint)))))))))))"

section \<open>admin.rs\<close>

definition set_stability_fee_per_millisecond ::
  "('d, 'x) stable_env_scheme \<Rightarrow> 'd account_with_metadata \<Rightarrow> 'd account_with_metadata \<Rightarrow>
    'd account_with_metadata \<Rightarrow> 'd account_with_metadata \<Rightarrow> 'd account_with_metadata \<Rightarrow>
    'd account_with_metadata \<Rightarrow> account_id \<Rightarrow> u128 \<Rightarrow> 'd token_output" where
  "set_stability_fee_per_millisecond E admin params_account accumulator_account stablecoin_defn
      master_holding clock program new_rate =
    attempt (decode_parameters E params_account program) (\<lambda>parameters.
    attempt (assert_admin_authorized admin parameters) (\<lambda>_.
    attempt (assert_stability_fee_in_band new_rate ''new_stability_fee_per_millisecond'') (\<lambda>_.
    attempt (decode_accumulator E accumulator_account program) (\<lambda>accumulator.
    attempt (stable_read_clock E clock) (\<lambda>now.
    attempt (accrue_fees parameters accumulator now) (\<lambda>accrual.
    attempt (surplus_mint_call E stablecoin_defn master_holding parameters program (accrued_fees accrual))
      (\<lambda>surplus_mint.
    attempt (parameters_data E (parameters \<lparr> stability_fee_per_millisecond := new_rate \<rparr>)) (\<lambda>p.
    attempt (accumulator_data E (accrual_accumulator accrual)) (\<lambda>d.
    Inr ([Unchanged admin, NewData params_account (Add 0) p, NewData accumulator_account (Add 0) d,
          Unchanged stablecoin_defn, Unchanged master_holding, Unchanged clock],
         surplus_mint))))))))))"

text \<open>The closure \<^theory_text>\<open>mutate\<close> may panic, so it returns an outcome.\<close>

definition update_parameters ::
  "('d, 'x) stable_env_scheme \<Rightarrow> 'd account_with_metadata \<Rightarrow> 'd account_with_metadata \<Rightarrow> account_id \<Rightarrow>
    (protocol_parameters \<Rightarrow> protocol_parameters outcome) \<Rightarrow> 'd token_output" where
  "update_parameters E admin params_account program mutate =
    attempt (decode_parameters E params_account program) (\<lambda>parameters.
    attempt (assert_admin_authorized admin parameters) (\<lambda>_.
    attempt (mutate parameters) (\<lambda>parameters'.
    attempt (parameters_data E parameters') (\<lambda>d.
    Inr ([Unchanged admin, NewData params_account (Add 0) d], [])))))"

definition set_minimum_collateralization_ratio ::
  "('d, 'x) stable_env_scheme \<Rightarrow> 'd account_with_metadata \<Rightarrow> 'd account_with_metadata \<Rightarrow> account_id \<Rightarrow>
    u128 \<Rightarrow> 'd token_output" where
  "set_minimum_collateralization_ratio E admin params_account program ratio =
    update_parameters E admin params_account program (\<lambda>parameters.
      attempt (assert_collateralization_ratio_in_band ratio ''new_minimum_collateralization_ratio'') (\<lambda>_.
      Inr (parameters \<lparr> minimum_collateralization_ratio := ratio \<rparr>)))"

definition set_controller_gains ::
  "('d, 'x) stable_env_scheme \<Rightarrow> 'd account_with_metadata \<Rightarrow> 'd account_with_metadata \<Rightarrow> account_id \<Rightarrow>
    i128 \<Rightarrow> i128 \<Rightarrow> 'd token_output" where
  "set_controller_gains E admin params_account program kp ki =
    update_parameters E admin params_account program (\<lambda>parameters.
      attempt (assert_controller_gains_in_band kp ki) (\<lambda>_.
      Inr (parameters \<lparr> controller_proportional_gain := kp, controller_integral_gain := ki \<rparr>)))"

definition set_timing_parameters ::
  "('d, 'x) stable_env_scheme \<Rightarrow> 'd account_with_metadata \<Rightarrow> 'd account_with_metadata \<Rightarrow> account_id \<Rightarrow>
    u64 \<Rightarrow> u64 \<Rightarrow> 'd token_output" where
  "set_timing_parameters E admin params_account program min_interval max_age =
    update_parameters E admin params_account program (\<lambda>parameters.
      attempt (assert_timing_milliseconds_in_band min_interval ''new_minimum_milliseconds_between_rate_updates'')
        (\<lambda>_.
      attempt (assert_timing_milliseconds_in_band max_age ''new_maximum_oracle_price_age_milliseconds'') (\<lambda>_.
      Inr (parameters \<lparr> minimum_milliseconds_between_rate_updates := min_interval,
                       maximum_oracle_price_age_milliseconds := max_age \<rparr>))))"

definition set_admin ::
  "('d, 'x) stable_env_scheme \<Rightarrow> 'd account_with_metadata \<Rightarrow> 'd account_with_metadata \<Rightarrow> account_id \<Rightarrow>
    account_id \<Rightarrow> 'd token_output" where
  "set_admin E admin params_account program new_admin =
    update_parameters E admin params_account program (\<lambda>parameters.
      Inr (parameters \<lparr> admin_account_id := new_admin \<rparr>))"

definition set_freeze_authority ::
  "('d, 'x) stable_env_scheme \<Rightarrow> 'd account_with_metadata \<Rightarrow> 'd account_with_metadata \<Rightarrow> account_id \<Rightarrow>
    account_id \<Rightarrow> 'd token_output" where
  "set_freeze_authority E admin params_account program new_freeze_authority =
    update_parameters E admin params_account program (\<lambda>parameters.
      Inr (parameters \<lparr> freeze_authority_account_id := new_freeze_authority \<rparr>))"

definition set_market_price_oracle ::
  "('d, 'x) stable_env_scheme \<Rightarrow> 'd account_with_metadata \<Rightarrow> 'd account_with_metadata \<Rightarrow>
    'd account_with_metadata \<Rightarrow> account_id \<Rightarrow> 'd token_output" where
  "set_market_price_oracle E admin params_account new_oracle program =
    attempt (update_parameters E admin params_account program (\<lambda>parameters.
      attempt (if account new_oracle \<noteq> account_default E then
                 expect ''New market price oracle must decode as OraclePriceAccount''
                   (decode (oracle_price_codec E) (data (account new_oracle))) (\<lambda>oracle.
                 ensure (oracle_base_asset oracle = stablecoin_definition_id parameters)
                   ''New oracle base_asset must equal the stablecoin definition's account_id'' (
                 ensure (oracle_quote_asset oracle = collateral_definition_id parameters)
                   ''New oracle quote_asset must equal the collateral definition's account_id'' (Inr ())))
               else Inr ()) (\<lambda>_.
      Inr (parameters \<lparr> market_price_oracle_id := account_id new_oracle \<rparr>)))) (\<lambda>(state_diffs, chained_calls).
    Inr (state_diffs @ [Unchanged new_oracle], chained_calls))"

section \<open>freeze.rs and reset_redemption_rate_controller.rs\<close>

definition set_frozen ::
  "('d, 'x) stable_env_scheme \<Rightarrow> 'd account_with_metadata \<Rightarrow> 'd account_with_metadata \<Rightarrow> account_id \<Rightarrow>
    bool \<Rightarrow> 'd token_output" where
  "set_frozen E freeze_authority params_account program frozen =
    ensure (is_authorized freeze_authority) ''Freeze authority authorization is missing'' (
    attempt (decode_parameters E params_account program) (\<lambda>parameters.
    ensure (account_id freeze_authority = freeze_authority_account_id parameters)
      ''Signer is not the protocol's freeze authority'' (
    attempt (parameters_data E (parameters \<lparr> is_frozen := frozen \<rparr>)) (\<lambda>d.
    Inr ([Unchanged freeze_authority, NewData params_account (Add 0) d], [])))))"

definition freeze ::
  "('d, 'x) stable_env_scheme \<Rightarrow> 'd account_with_metadata \<Rightarrow> 'd account_with_metadata \<Rightarrow> account_id \<Rightarrow>
    'd token_output" where
  "freeze E freeze_authority params_account program = set_frozen E freeze_authority params_account program True"

definition unfreeze ::
  "('d, 'x) stable_env_scheme \<Rightarrow> 'd account_with_metadata \<Rightarrow> 'd account_with_metadata \<Rightarrow> account_id \<Rightarrow>
    'd token_output" where
  "unfreeze E freeze_authority params_account program = set_frozen E freeze_authority params_account program False"

definition reset_redemption_rate_controller ::
  "('d, 'x) stable_env_scheme \<Rightarrow> 'd account_with_metadata \<Rightarrow> 'd account_with_metadata \<Rightarrow>
    'd account_with_metadata \<Rightarrow> 'd account_with_metadata \<Rightarrow> account_id \<Rightarrow> 'd token_output" where
  "reset_redemption_rate_controller E auth params_account redemption_account clock program =
    ensure (is_authorized auth) ''Authority authorization is missing'' (
    attempt (decode_parameters E params_account program) (\<lambda>parameters.
    ensure (account_id auth = admin_account_id parameters \<or>
            account_id auth = freeze_authority_account_id parameters)
      ''Signer is neither the protocol's admin nor its freeze authority'' (
    attempt (decode_redemption E redemption_account program) (\<lambda>redemption.
    attempt (stable_read_clock E clock) (\<lambda>now.
    attempt (bound_redemption_price (compute_current_redemption_price_wide
      (redemption_price_at_last_update redemption) (redemption_rate_per_millisecond redemption)
      (last_updated_at redemption) now)) (\<lambda>current_price.
    attempt (redemption_data E
      \<lparr> redemption_price_at_last_update = current_price, redemption_rate_per_millisecond = FIXED_POINT_ONE,
        controller_integral_term = 0, last_updated_at = now \<rparr>) (\<lambda>d.
    Inr ([Unchanged auth, Unchanged params_account, NewData redemption_account (Add 0) d, Unchanged clock],
         []))))))))"

end
