(* ===== verification/Stable_Positions.thy ===== *)
theory Stable_Positions
  imports Stable_Globals
begin

text \<open>
  The life of a position (\<^theory_text>\<open>open_position.rs\<close>, \<^theory_text>\<open>deposit_collateral.rs\<close>, \<^theory_text>\<open>generate_debt.rs\<close>,
  \<^theory_text>\<open>repay_debt.rs\<close>, \<^theory_text>\<open>withdraw_collateral.rs\<close>, \<^theory_text>\<open>close_position.rs\<close>) and the guest dispatch.
\<close>

section \<open>Shared checks\<close>

text \<open>
  The checks that bind an existing position to its owner, word for word the same in the five
  handlers that make them.
\<close>

definition read_owned_position ::
  "('d, 'x) stable_env_scheme \<Rightarrow> 'd account_with_metadata \<Rightarrow> 'd account_with_metadata \<Rightarrow> account_id \<Rightarrow>
    position outcome" where
  "read_owned_position E owner position_account program =
    ensure (account position_account \<noteq> account_default E) ''Position account must be initialized'' (
    ensure (program_owner (account position_account) = program)
      ''Position is not owned by this stablecoin program'' (
    expect ''Position account must hold valid Position state''
      (decode (position_codec E) (data (account position_account))) (\<lambda>pos.
    attempt (verify_position_and_get_seed E position_account owner (position_nonce pos) program) (\<lambda>_.
    ensure (owner_account_id pos = account_id owner)
      ''Position owner_account_id does not match the owner account'' (Inr pos)))))"

text \<open>The inline copy of the global checks in \<^theory_text>\<open>open_position\<close> and \<^theory_text>\<open>deposit_collateral\<close> has the
  messages of \<^theory_text>\<open>decode_global\<close>, so both use \<^theory_text>\<open>decode_parameters\<close> here.\<close>

section \<open>open_position.rs\<close>

definition open_position ::
  "('d, 'x) stable_env_scheme \<Rightarrow> 'd account_with_metadata \<Rightarrow> 'd account_with_metadata \<Rightarrow>
    'd account_with_metadata \<Rightarrow> 'd account_with_metadata \<Rightarrow> 'd account_with_metadata \<Rightarrow>
    'd account_with_metadata \<Rightarrow> 'd account_with_metadata \<Rightarrow> account_id \<Rightarrow> u64 \<Rightarrow> u128 \<Rightarrow> 'd token_output" where
  "open_position E owner position_account vault user_holding collateral_defn params_account clock program
      nonce_value initial_amount =
    ensure (is_authorized owner) ''Owner authorization is missing'' (
    ensure (is_authorized user_holding) ''User collateral holding authorization is missing'' (
    ensure (account position_account = account_default E) ''Position account must be uninitialized'' (
    ensure (account vault = account_default E) ''Position vault account must be uninitialized'' (
    attempt (decode_parameters E params_account program) (\<lambda>parameters.
    ensure (\<not> is_frozen parameters) ''Protocol is frozen'' (
    ensure (account_id collateral_defn = collateral_definition_id parameters)
      ''Collateral definition does not match the one bound at initialize_program'' (
    attempt (stable_read_clock E clock) (\<lambda>now.
    expect ''User collateral holding must be a valid TokenHolding''
      (decode (holding_codec E) (data (account user_holding))) (\<lambda>holding.
    ensure (definition_id holding = account_id collateral_defn)
      ''User collateral holding does not match the collateral definition'' (
    (let token_program = program_owner (account user_holding) in
     ensure (program_owner (account collateral_defn) = token_program)
       ''Collateral definition is not owned by the user collateral holding's Token Program'' (
     attempt (verify_position_and_get_seed E position_account owner nonce_value program) (\<lambda>_.
     attempt (verify_position_vault_and_get_seed E vault (account_id position_account) program) (\<lambda>vault_seed.
     attempt (position_data E
       \<lparr> owner_account_id = account_id owner, position_nonce = nonce_value,
         vault_account_id = account_id vault, collateral_amount = initial_amount,
         normalized_debt_amount = 0, opened_at = now \<rparr>) (\<lambda>d.
     Inr ([Unchanged owner, NewData position_account (Add 0) d, Unchanged vault, Unchanged user_holding,
           Unchanged collateral_defn, Unchanged params_account, Unchanged clock],
          [with_pda_seeds
             (chained_call_new token_program [account_id collateral_defn, account_id vault] InitializeAccount)
             [vault_seed],
           chained_call_new token_program [account_id user_holding, account_id vault]
             (Transfer initial_amount)]))))))))))))))))"

section \<open>deposit_collateral.rs\<close>

definition fungible_vault_balance :: "token_holding \<Rightarrow> u128 outcome" where
  "fungible_vault_balance h =
    (case h of Fungible d b \<Rightarrow> Inr b
     | NftMaster d p \<Rightarrow> Inl (Panic ''Vault must hold a fungible collateral balance'')
     | NftPrintedCopy d ow \<Rightarrow> Inl (Panic ''Vault must hold a fungible collateral balance''))"

definition deposit_collateral ::
  "('d, 'x) stable_env_scheme \<Rightarrow> 'd account_with_metadata \<Rightarrow> 'd account_with_metadata \<Rightarrow>
    'd account_with_metadata \<Rightarrow> 'd account_with_metadata \<Rightarrow> 'd account_with_metadata \<Rightarrow> account_id \<Rightarrow>
    u128 \<Rightarrow> 'd token_output" where
  "deposit_collateral E owner position_account vault user_holding params_account program amount =
    ensure (is_authorized owner) ''Owner authorization is missing'' (
    ensure (is_authorized user_holding) ''User collateral holding authorization is missing'' (
    attempt (read_owned_position E owner position_account program) (\<lambda>pos.
    ensure (vault_account_id pos = account_id vault)
      ''Position vault_account_id does not match the vault account'' (
    attempt (decode_parameters E params_account program) (\<lambda>parameters.
    ensure (account vault \<noteq> account_default E) ''Vault account must be initialized'' (
    expect ''Vault account must hold a valid TokenHolding''
      (decode (holding_codec E) (data (account vault))) (\<lambda>vault_holding.
    ensure (definition_id vault_holding = collateral_definition_id parameters)
      ''Vault holding does not match the protocol's collateral definition'' (
    attempt (fungible_vault_balance vault_holding) (\<lambda>vault_balance.
    (let token_program = program_owner (account vault) in
     ensure (program_owner (account user_holding) = token_program)
       ''User collateral holding must be owned by the same Token Program as the vault'' (
     expect ''User holding must be a valid TokenHolding''
       (decode (holding_codec E) (data (account user_holding))) (\<lambda>holding.
     ensure (definition_id holding = collateral_definition_id parameters)
       ''User collateral holding does not match the protocol's collateral definition'' (
     expect ''Position collateral_amount overflow'' (checked_add vault_balance amount) (\<lambda>new_collateral.
     attempt (position_data E (pos \<lparr> collateral_amount := new_collateral \<rparr>)) (\<lambda>d.
     Inr ([Unchanged owner, NewData position_account (Add 0) d, Unchanged vault, Unchanged user_holding,
           Unchanged params_account],
          [chained_call_new token_program [account_id user_holding, account_id vault] (Transfer amount)]))))))))))))))))"

section \<open>generate_debt.rs\<close>

text \<open>The pricing of new debt: rounded up, added to the position and to the total.\<close>

definition added_debt ::
  "position \<Rightarrow> stability_fee_accumulator \<Rightarrow> u128 \<Rightarrow> (position \<times> stability_fee_accumulator) outcome" where
  "added_debt pos accumulator amount =
    attempt (fixed_mul_div_ceil amount FIXED_POINT_ONE (accumulated_rate_at_last_accrual accumulator))
      (\<lambda>debt_delta.
    expect ''Position normalized_debt_amount overflow''
      (checked_add (normalized_debt_amount pos) debt_delta) (\<lambda>new_debt.
    expect ''Total normalized debt overflow''
      (checked_add (total_normalized_debt accumulator) debt_delta) (\<lambda>new_total.
    Inr (pos \<lparr> normalized_debt_amount := new_debt \<rparr>,
         accumulator \<lparr> total_normalized_debt := new_total \<rparr>))))"

definition generate_debt ::
  "('d, 'x) stable_env_scheme \<Rightarrow> 'd account_with_metadata \<Rightarrow> 'd account_with_metadata \<Rightarrow>
    'd account_with_metadata \<Rightarrow> 'd account_with_metadata \<Rightarrow> 'd account_with_metadata \<Rightarrow>
    'd account_with_metadata \<Rightarrow> 'd account_with_metadata \<Rightarrow> 'd account_with_metadata \<Rightarrow>
    'd account_with_metadata \<Rightarrow> account_id \<Rightarrow> u128 \<Rightarrow> 'd token_output" where
  "generate_debt E owner position_account stablecoin_defn user_holding master_holding accumulator_account
      redemption_account params_account clock program amount =
    ensure (is_authorized owner) ''Owner authorization is missing'' (
    attempt (read_owned_position E owner position_account program) (\<lambda>pos.
    attempt (decode_parameters E params_account program) (\<lambda>parameters.
    ensure (\<not> is_frozen parameters) ''Protocol is frozen'' (
    attempt (decode_accumulator E accumulator_account program) (\<lambda>accumulator.
    attempt (decode_redemption E redemption_account program) (\<lambda>redemption.
    attempt (stable_read_clock E clock) (\<lambda>now.
    ensure (account_id stablecoin_defn = stablecoin_definition_id parameters)
      ''Stablecoin definition does not match the one bound at initialize_program'' (
    ensure (account stablecoin_defn \<noteq> account_default E)
      ''Stablecoin definition account must be initialized'' (
    ensure (account user_holding \<noteq> account_default E) ''User stablecoin holding must be initialized'' (
    (let token_program = program_owner (account stablecoin_defn) in
     ensure (program_owner (account user_holding) = token_program)
       ''User stablecoin holding must be owned by the same Token Program as the definition'' (
     expect ''User stablecoin holding must hold a valid TokenHolding''
       (decode (holding_codec E) (data (account user_holding))) (\<lambda>holding.
     ensure (definition_id holding = account_id stablecoin_defn)
       ''User stablecoin holding does not match the stablecoin definition'' (
     attempt (accrue_fees parameters accumulator now) (\<lambda>accrual.
     attempt (surplus_mint_call E stablecoin_defn master_holding parameters program (accrued_fees accrual))
       (\<lambda>surplus_mint.
     attempt (added_debt pos (accrual_accumulator accrual) amount) (\<lambda>(updated_position, updated_accumulator).
     (let current_redemption_price = compute_current_redemption_price_wide
            (redemption_price_at_last_update redemption) (redemption_rate_per_millisecond redemption)
            (last_updated_at redemption) now in
      ensure (current_redemption_price \<noteq> 0) ''Redemption price projected to zero'' (
      attempt (assert_position_is_collateralized updated_position
        (widen512 (accumulated_rate_at_last_accrual (accrual_accumulator accrual)))
        current_redemption_price (minimum_collateralization_ratio parameters)) (\<lambda>_.
      attempt (position_data E updated_position) (\<lambda>d.
      attempt (accumulator_data E updated_accumulator) (\<lambda>a.
      Inr ([Unchanged owner, NewData position_account (Add 0) d, Unchanged stablecoin_defn,
            Unchanged user_holding, Unchanged master_holding, NewData accumulator_account (Add 0) a,
            Unchanged redemption_account, Unchanged params_account, Unchanged clock],
           surplus_mint @
           [with_pda_seeds
              (chained_call_new token_program [account_id stablecoin_defn, account_id user_holding] (Mint amount))
              [compute_stablecoin_definition_pda_seed E]])))))))))))))))))))))))"

section \<open>repay_debt.rs\<close>

text \<open>The pricing of a repayment: rounded down.\<close>

definition removed_debt ::
  "position \<Rightarrow> stability_fee_accumulator \<Rightarrow> u128 \<Rightarrow> (position \<times> stability_fee_accumulator) outcome" where
  "removed_debt pos accumulator amount =
    attempt (mul_div amount FIXED_POINT_ONE (accumulated_rate_at_last_accrual accumulator)) (\<lambda>debt_delta.
    expect ''Repay amount exceeds outstanding normalized debt''
      (checked_sub (normalized_debt_amount pos) debt_delta) (\<lambda>new_debt.
    expect ''Total normalized debt underflow''
      (checked_sub (total_normalized_debt accumulator) debt_delta) (\<lambda>new_total.
    Inr (pos \<lparr> normalized_debt_amount := new_debt \<rparr>,
         accumulator \<lparr> total_normalized_debt := new_total \<rparr>))))"

definition repay_debt ::
  "('d, 'x) stable_env_scheme \<Rightarrow> 'd account_with_metadata \<Rightarrow> 'd account_with_metadata \<Rightarrow>
    'd account_with_metadata \<Rightarrow> 'd account_with_metadata \<Rightarrow> 'd account_with_metadata \<Rightarrow>
    'd account_with_metadata \<Rightarrow> 'd account_with_metadata \<Rightarrow> 'd account_with_metadata \<Rightarrow> account_id \<Rightarrow>
    u128 \<Rightarrow> 'd token_output" where
  "repay_debt E owner position_account stablecoin_defn user_holding master_holding accumulator_account
      params_account clock program amount =
    ensure (is_authorized owner) ''Owner authorization is missing'' (
    attempt (read_owned_position E owner position_account program) (\<lambda>pos.
    ensure (is_authorized user_holding) ''User stablecoin holding authorization is missing'' (
    attempt (decode_parameters E params_account program) (\<lambda>parameters.
    ensure (account_id stablecoin_defn = stablecoin_definition_id parameters)
      ''Stablecoin definition does not match the one bound at initialize_program'' (
    ensure (account user_holding \<noteq> account_default E) ''User stablecoin holding must be initialized'' (
    ensure (account stablecoin_defn \<noteq> account_default E)
      ''Stablecoin definition account must be initialized'' (
    ensure (program_owner (account user_holding) = program_owner (account stablecoin_defn))
      ''Stablecoin holding and definition must be owned by the same Token Program'' (
    expect ''User stablecoin holding must hold a valid TokenHolding''
      (decode (holding_codec E) (data (account user_holding))) (\<lambda>holding.
    ensure (definition_id holding = account_id stablecoin_defn)
      ''Stablecoin holding does not match the provided stablecoin definition'' (
    attempt (decode_accumulator E accumulator_account program) (\<lambda>accumulator.
    attempt (stable_read_clock E clock) (\<lambda>now.
    attempt (accrue_fees parameters accumulator now) (\<lambda>accrual.
    attempt (surplus_mint_call E stablecoin_defn master_holding parameters program (accrued_fees accrual))
      (\<lambda>surplus_mint.
    attempt (removed_debt pos (accrual_accumulator accrual) amount) (\<lambda>(updated_position, updated_accumulator).
    attempt (position_data E updated_position) (\<lambda>d.
    attempt (accumulator_data E updated_accumulator) (\<lambda>a.
    Inr ([Unchanged owner, NewData position_account (Add 0) d, Unchanged stablecoin_defn,
          Unchanged user_holding, Unchanged master_holding, NewData accumulator_account (Add 0) a,
          Unchanged params_account, Unchanged clock],
         surplus_mint @
         [chained_call_new (program_owner (account user_holding))
            [account_id stablecoin_defn, account_id user_holding] (Burn amount)]))))))))))))))))))"

section \<open>withdraw_collateral.rs\<close>

definition withdraw_collateral ::
  "('d, 'x) stable_env_scheme \<Rightarrow> 'd account_with_metadata \<Rightarrow> 'd account_with_metadata \<Rightarrow>
    'd account_with_metadata \<Rightarrow> 'd account_with_metadata \<Rightarrow> 'd account_with_metadata \<Rightarrow>
    'd account_with_metadata \<Rightarrow> 'd account_with_metadata \<Rightarrow> 'd account_with_metadata \<Rightarrow> account_id \<Rightarrow>
    u128 \<Rightarrow> 'd token_output" where
  "withdraw_collateral E owner position_account vault user_holding accumulator_account redemption_account
      params_account clock program amount =
    attempt (decode_parameters E params_account program) (\<lambda>parameters.
    ensure (\<not> is_frozen parameters) ''Protocol is frozen'' (
    attempt (decode_accumulator E accumulator_account program) (\<lambda>accumulator.
    attempt (decode_redemption E redemption_account program) (\<lambda>redemption.
    attempt (stable_read_clock E clock) (\<lambda>now.
    ensure (is_authorized owner) ''Owner authorization is missing'' (
    attempt (read_owned_position E owner position_account program) (\<lambda>pos.
    attempt (verify_position_vault_and_get_seed E vault (account_id position_account) program) (\<lambda>vault_seed.
    ensure (vault_account_id pos = account_id vault)
      ''Position vault_account_id does not match the vault account'' (
    expect ''Vault account must hold a valid TokenHolding''
      (decode (holding_codec E) (data (account vault))) (\<lambda>vault_holding.
    ensure (definition_id vault_holding = collateral_definition_id parameters)
      ''Vault holding does not match the protocol's collateral definition'' (
    (let token_program = program_owner (account vault) in
     ensure (account user_holding \<noteq> account_default E) ''User collateral holding must be initialized'' (
     ensure (program_owner (account user_holding) = token_program)
       ''User collateral holding must be owned by the same Token Program as the vault'' (
     expect ''User collateral holding must hold a valid TokenHolding''
       (decode (holding_codec E) (data (account user_holding))) (\<lambda>holding.
     ensure (definition_id holding = collateral_definition_id parameters)
       ''User collateral holding definition does not match the position's collateral definition'' (
     expect ''Withdrawal amount exceeds position collateral''
       (checked_sub (collateral_amount pos) amount) (\<lambda>new_collateral.
     (let updated_position = pos \<lparr> collateral_amount := new_collateral \<rparr> in
      attempt (if amount \<noteq> 0 \<and> normalized_debt_amount updated_position \<noteq> 0 then
                 (let current_redemption_price = compute_current_redemption_price_wide
                        (redemption_price_at_last_update redemption) (redemption_rate_per_millisecond redemption)
                        (last_updated_at redemption) now in
                  ensure (current_redemption_price \<noteq> 0) ''Redemption price projected to zero'' (
                  assert_position_is_collateralized updated_position
                    (compute_current_accumulated_rate_wide (accumulated_rate_at_last_accrual accumulator)
                      (stability_fee_per_millisecond parameters) (last_accrued_at accumulator) now)
                    current_redemption_price (minimum_collateralization_ratio parameters)))
               else Inr ()) (\<lambda>_.
      attempt (position_data E updated_position) (\<lambda>d.
      Inr ([Unchanged owner, NewData position_account (Add 0) d, Unchanged vault, Unchanged user_holding,
            Unchanged accumulator_account, Unchanged redemption_account, Unchanged params_account,
            Unchanged clock],
           [with_pda_seeds
              (chained_call_new token_program [account_id vault, account_id user_holding] (Transfer amount))
              [vault_seed]])))))))))))))))))))))"

section \<open>close_position.rs\<close>

text \<open>\<^theory_text>\<open>Data::default()\<close> is the data of the default account.\<close>

definition close_position ::
  "('d, 'x) stable_env_scheme \<Rightarrow> 'd account_with_metadata \<Rightarrow> 'd account_with_metadata \<Rightarrow>
    'd account_with_metadata \<Rightarrow> 'd account_with_metadata \<Rightarrow> account_id \<Rightarrow> 'd token_output" where
  "close_position E owner position_account vault params_account program =
    ensure (is_authorized owner) ''Owner authorization is missing'' (
    attempt (read_owned_position E owner position_account program) (\<lambda>pos.
    attempt (decode_parameters E params_account program) (\<lambda>_.
    ensure (normalized_debt_amount pos = 0) ''Position still has outstanding debt'' (
    ensure (collateral_amount pos = 0) ''Position still holds collateral'' (
    ensure (vault_account_id pos = account_id vault)
      ''Position vault_account_id does not match the vault account'' (
    expect ''Vault account must hold a valid TokenHolding''
      (decode (holding_codec E) (data (account vault))) (\<lambda>vault_holding.
    attempt (fungible_vault_balance vault_holding) (\<lambda>vault_balance.
    ensure (vault_balance = 0) ''Vault still holds a balance'' (
    Inr ([Unchanged owner, NewData position_account (Add 0) (data (account_default E)), Unchanged vault,
          Unchanged params_account], []))))))))))"

end
