(* ===== verification/Stable_Main.thy ===== *)
theory Stable_Main
  imports Stable_Positions
begin

text \<open>
  The guest of the stablecoin program (\<^theory_text>\<open>methods/guest/src/bin/stablecoin.rs\<close>): the dispatch over its
  twenty instructions with the attribute checks of each account, and the inversion of the shared
  checks of the handlers.
\<close>

definition stable_main ::
  "('d, 'x) stable_env_scheme \<Rightarrow> account_id \<Rightarrow> stable_instruction \<Rightarrow> 'd account_with_metadata list \<Rightarrow>
    'd token_output" where
  "stable_main E self_account_id instruction accounts =
    (case (instruction, accounts) of
       (InitializeProgram params, [admin, pp, acc, red, defn, master, collateral, oracle, clock]) \<Rightarrow>
         ensure (spel_validate E [([Signer], admin), ([Init], pp), ([Init], acc), ([Init], red), ([Init], defn),
             ([Init], master), ([], collateral), ([], oracle), ([], clock)]) ''account validation failed'' (
         initialize_program E admin pp acc red defn master collateral oracle clock self_account_id params)
     | (AccrueStabilityFee, [caller, pp, acc, defn, master, clock]) \<Rightarrow>
         ensure (spel_validate E [([Signer], caller), ([], pp), ([Mut], acc), ([Mut], defn), ([Mut], master),
             ([], clock)]) ''account validation failed'' (
         accrue_stability_fee E caller pp acc defn master clock self_account_id)
     | (UpdateRedemptionRate, [caller, pp, red, oracle, clock]) \<Rightarrow>
         ensure (spel_validate E [([Signer], caller), ([], pp), ([Mut], red), ([], oracle), ([], clock)])
           ''account validation failed'' (
         update_redemption_rate E caller pp red oracle clock self_account_id)
     | (RefreshGlobals, [caller, pp, acc, defn, master, red, oracle, clock]) \<Rightarrow>
         ensure (spel_validate E [([Signer], caller), ([], pp), ([Mut], acc), ([Mut], defn), ([Mut], master),
             ([Mut], red), ([], oracle), ([], clock)]) ''account validation failed'' (
         refresh_globals E caller pp acc defn master red oracle clock self_account_id)
     | (OpenPosition nonce_value amount, [owner, pos, vault, user_holding, collateral, pp, clock]) \<Rightarrow>
         ensure (spel_validate E [([Signer], owner), ([Init], pos), ([Init], vault), ([Mut, Signer], user_holding),
             ([], collateral), ([], pp), ([], clock)]) ''account validation failed'' (
         open_position E owner pos vault user_holding collateral pp clock self_account_id nonce_value amount)
     | (DepositCollateral amount, [owner, pos, vault, user_holding, pp]) \<Rightarrow>
         ensure (spel_validate E [([Signer], owner), ([Mut], pos), ([Mut], vault), ([Mut, Signer], user_holding),
             ([], pp)]) ''account validation failed'' (
         deposit_collateral E owner pos vault user_holding pp self_account_id amount)
     | (GenerateDebt amount, [owner, pos, defn, user_holding, master, acc, red, pp, clock]) \<Rightarrow>
         ensure (spel_validate E [([Signer], owner), ([Mut], pos), ([Mut], defn), ([Mut], user_holding),
             ([Mut], master), ([Mut], acc), ([], red), ([], pp), ([], clock)]) ''account validation failed'' (
         generate_debt E owner pos defn user_holding master acc red pp clock self_account_id amount)
     | (ClosePosition, [owner, pos, vault, pp]) \<Rightarrow>
         ensure (spel_validate E [([Signer], owner), ([Mut], pos), ([], vault), ([], pp)])
           ''account validation failed'' (
         close_position E owner pos vault pp self_account_id)
     | (SetMinimumCollateralizationRatio ratio, [admin, pp]) \<Rightarrow>
         ensure (spel_validate E [([Signer], admin), ([Mut], pp)]) ''account validation failed'' (
         set_minimum_collateralization_ratio E admin pp self_account_id ratio)
     | (SetControllerGains kp ki, [admin, pp]) \<Rightarrow>
         ensure (spel_validate E [([Signer], admin), ([Mut], pp)]) ''account validation failed'' (
         set_controller_gains E admin pp self_account_id kp ki)
     | (SetMarketPriceOracle, [admin, pp, oracle]) \<Rightarrow>
         ensure (spel_validate E [([Signer], admin), ([Mut], pp), ([], oracle)]) ''account validation failed'' (
         set_market_price_oracle E admin pp oracle self_account_id)
     | (SetTimingParameters min_interval max_age, [admin, pp]) \<Rightarrow>
         ensure (spel_validate E [([Signer], admin), ([Mut], pp)]) ''account validation failed'' (
         set_timing_parameters E admin pp self_account_id min_interval max_age)
     | (SetAdmin new_admin, [admin, pp]) \<Rightarrow>
         ensure (spel_validate E [([Signer], admin), ([Mut], pp)]) ''account validation failed'' (
         set_admin E admin pp self_account_id new_admin)
     | (SetFreezeAuthority new_freeze_authority, [admin, pp]) \<Rightarrow>
         ensure (spel_validate E [([Signer], admin), ([Mut], pp)]) ''account validation failed'' (
         set_freeze_authority E admin pp self_account_id new_freeze_authority)
     | (SetStabilityFeePerMillisecond new_rate, [admin, pp, acc, defn, master, clock]) \<Rightarrow>
         ensure (spel_validate E [([Signer], admin), ([Mut], pp), ([Mut], acc), ([Mut], defn), ([Mut], master),
             ([], clock)]) ''account validation failed'' (
         set_stability_fee_per_millisecond E admin pp acc defn master clock self_account_id new_rate)
     | (Freeze, [freeze_authority, pp]) \<Rightarrow>
         ensure (spel_validate E [([Signer], freeze_authority), ([Mut], pp)]) ''account validation failed'' (
         freeze E freeze_authority pp self_account_id)
     | (Unfreeze, [freeze_authority, pp]) \<Rightarrow>
         ensure (spel_validate E [([Signer], freeze_authority), ([Mut], pp)]) ''account validation failed'' (
         unfreeze E freeze_authority pp self_account_id)
     | (WithdrawCollateral amount, [owner, pos, vault, user_holding, acc, red, pp, clock]) \<Rightarrow>
         ensure (spel_validate E [([Signer], owner), ([Mut], pos), ([Mut], vault), ([Mut], user_holding),
             ([], acc), ([], red), ([], pp), ([], clock)]) ''account validation failed'' (
         withdraw_collateral E owner pos vault user_holding acc red pp clock self_account_id amount)
     | (RepayDebt amount, [owner, pos, defn, user_holding, master, acc, pp, clock]) \<Rightarrow>
         ensure (spel_validate E [([Signer], owner), ([Mut], pos), ([Mut], defn), ([Mut, Signer], user_holding),
             ([Mut], master), ([Mut], acc), ([], pp), ([], clock)]) ''account validation failed'' (
         repay_debt E owner pos defn user_holding master acc pp clock self_account_id amount)
     | (ResetRedemptionRateController, [auth, pp, red, clock]) \<Rightarrow>
         ensure (spel_validate E [([Signer], auth), ([], pp), ([Mut], red), ([], clock)])
           ''account validation failed'' (
         reset_redemption_rate_controller E auth pp red clock self_account_id)
     | _ \<Rightarrow> Inl (Panic ''wrong number of accounts''))"

section \<open>Inversion of the shared checks\<close>

lemma stable_read_clock_success [success]:
  "stable_read_clock E clock = Inr now \<longleftrightarrow>
    account_id clock = clock_01_program_account_id E \<and> account clock \<noteq> account_default E \<and>
    now = clock_timestamp E (data (account clock))"
  by (auto simp: stable_read_clock_def success)

lemma decode_global_success [success]:
  "decode_global E a i p label = Inr d \<longleftrightarrow>
    account a \<noteq> account_default E \<and> program_owner (account a) = p \<and> account_id a = i \<and> d = data (account a)"
  by (auto simp: decode_global_def success)

text \<open>A global account: initialized, the program's, at its address, holding \<^theory_text>\<open>x\<close>.\<close>

definition holds_global ::
  "('d, 'x) lee_env_scheme \<Rightarrow> ('a, 'd) codec \<Rightarrow> account_id \<Rightarrow> account_id \<Rightarrow> 'd account_with_metadata \<Rightarrow> 'a \<Rightarrow> bool"
  where
  "holds_global E C i p a x \<longleftrightarrow> account a \<noteq> account_default E \<and> program_owner (account a) = p \<and>
    account_id a = i \<and> decode C (data (account a)) = Some x"

lemma decode_globals_success [success]:
  "decode_parameters E a p = Inr x \<longleftrightarrow>
    holds_global E (parameters_codec E) (compute_protocol_parameters_pda E p) p a x"
  "decode_accumulator E a p = Inr y \<longleftrightarrow>
    holds_global E (accumulator_codec E) (compute_stability_fee_accumulator_pda E p) p a y"
  "decode_redemption E a p = Inr z \<longleftrightarrow>
    holds_global E (redemption_codec E) (compute_redemption_price_state_pda E p) p a z"
  by (auto simp: decode_parameters_def decode_accumulator_def decode_redemption_def holds_global_def success)

lemma assert_admin_success [success]:
  "assert_admin_authorized a q = Inr u \<longleftrightarrow> is_authorized a \<and> account_id a = admin_account_id q"
  by (simp add: assert_admin_authorized_def success)

lemma read_owned_position_success [success]:
  "read_owned_position E owner a p = Inr pos \<longleftrightarrow>
    account a \<noteq> account_default E \<and> program_owner (account a) = p \<and>
    decode (position_codec E) (data (account a)) = Some pos \<and>
    account_id a = compute_position_pda E p (account_id owner) (position_nonce pos) \<and>
    owner_account_id pos = account_id owner"
  by (auto simp: read_owned_position_def success)

lemma decode_fee_accrual_success [success]:
  "decode_fee_accrual_inputs E a b p = Inr (x, y) \<longleftrightarrow>
    account a \<noteq> account_default E \<and> program_owner (account a) = p \<and>
    decode (parameters_codec E) (data (account a)) = Some x \<and>
    holds_global E (accumulator_codec E) (compute_stability_fee_accumulator_pda E p) p b y"
  by (auto simp: decode_fee_accrual_inputs_def holds_global_def success)

lemma decode_redemption_inputs_success [success]:
  "decode_redemption_inputs E a b p = Inr (x, z) \<longleftrightarrow>
    account a \<noteq> account_default E \<and> program_owner (account a) = p \<and>
    decode (parameters_codec E) (data (account a)) = Some x \<and>
    holds_global E (redemption_codec E) (compute_redemption_price_state_pda E p) p b z"
  by (auto simp: decode_redemption_inputs_def holds_global_def success)

lemma surplus_mint_success [success]:
  "surplus_mint_call E a b q p n = Inr cs \<longleftrightarrow>
    account_id a = stablecoin_definition_id q \<and> account a \<noteq> account_default E \<and>
    account_id b = compute_stablecoin_master_holding_pda E p \<and> account b \<noteq> account_default E \<and>
    program_owner (account b) = program_owner (account a) \<and>
    cs = (if 0 < n then [with_pda_seeds (chained_call_new (program_owner (account a))
            [account_id a, account_id b] (Mint n)) [compute_stablecoin_definition_pda_seed E]] else [])"
  by (auto simp: surplus_mint_call_def success)

lemma fungible_vault_success [success]:
  "fungible_vault_balance h = Inr b \<longleftrightarrow> (\<exists>d. h = Fungible d b)"
  by (cases h) (simp_all add: fungible_vault_balance_def)

end
