(* ===== verification/Stable_Runs.thy ===== *)
theory Stable_Runs
  imports Stable_Main Token_Ledger
begin

text \<open>
  What a successful run of a stablecoin instruction has checked and written: the bands it keeps, the
  fee accrual, the pricing of debt, and for every instruction the accounts it reads and the diffs it
  reports.
\<close>

section \<open>Bands\<close>

text \<open>The parameter bands, on the numbers the words denote.\<close>

definition params_ok :: "protocol_parameters \<Rightarrow> bool" where
  "params_ok q \<longleftrightarrow>
    scale \<le> unat (stability_fee_per_millisecond q) \<and>
    unat (stability_fee_per_millisecond q) \<le> scale + 21965000000000000 \<and>
    11 * scale \<le> 10 * unat (minimum_collateralization_ratio q) \<and>
    unat (minimum_collateralization_ratio q) \<le> 10 * scale \<and>
    0 \<le> sint (controller_proportional_gain q) \<and> sint (controller_proportional_gain q) \<le> 1000 * int scale \<and>
    0 \<le> sint (controller_integral_gain q) \<and> sint (controller_integral_gain q) \<le> int scale \<and>
    1 \<le> unat (minimum_milliseconds_between_rate_updates q) \<and>
    unat (minimum_milliseconds_between_rate_updates q) \<le> 86400000 \<and>
    1 \<le> unat (maximum_oracle_price_age_milliseconds q) \<and>
    unat (maximum_oracle_price_age_milliseconds q) \<le> 86400000"

definition redemption_ok :: "redemption_price_state \<Rightarrow> bool" where
  "redemption_ok r \<longleftrightarrow>
    1000000000 \<le> unat (redemption_price_at_last_update r) \<and>
    unat (redemption_price_at_last_update r) \<le> 2 ^ 127 - 1 \<and>
    scale \<le> unat (redemption_rate_per_millisecond r) + 10000000000000000 \<and>
    unat (redemption_rate_per_millisecond r) \<le> scale + 10000000000000000 \<and>
    \<bar>sint (controller_integral_term r)\<bar> \<le> rate_clamp"

definition accumulator_ok :: "stability_fee_accumulator \<Rightarrow> bool" where
  "accumulator_ok a \<longleftrightarrow> scale \<le> unat (accumulated_rate_at_last_accrual a)"

lemma unat_bands [simp]:
  "unat MAXIMUM_STABILITY_FEE_PER_MILLISECOND = scale + 21965000000000000"
  "unat MIN_COLLATERALIZATION_RATIO = 1100000000000000000000000000"
  "unat MAX_COLLATERALIZATION_RATIO = 10 * scale"
  "unat MAX_TIMING_MILLISECONDS = 86400000"
  "sint MAXIMUM_CONTROLLER_PROPORTIONAL_GAIN = 1000 * int scale"
  "sint MAXIMUM_CONTROLLER_INTEGRAL_GAIN = int scale"
  by (simp_all add: MAXIMUM_STABILITY_FEE_PER_MILLISECOND_def MIN_COLLATERALIZATION_RATIO_def
      MAX_COLLATERALIZATION_RATIO_def MAX_TIMING_MILLISECONDS_def
      MAXIMUM_CONTROLLER_PROPORTIONAL_GAIN_def MAXIMUM_CONTROLLER_INTEGRAL_GAIN_def FIXED_POINT_ONE_def)

lemma band_success [success]:
  "assert_stability_fee_in_band f l = Inr u \<longleftrightarrow> scale \<le> unat f \<and> unat f \<le> scale + 21965000000000000"
  "assert_collateralization_ratio_in_band r l = Inr u \<longleftrightarrow> 11 * scale \<le> 10 * unat r \<and> unat r \<le> 10 * scale"
  "assert_controller_gains_in_band kp ki = Inr u \<longleftrightarrow>
    0 \<le> sint kp \<and> sint kp \<le> 1000 * int scale \<and> 0 \<le> sint ki \<and> sint ki \<le> int scale"
  "assert_timing_milliseconds_in_band t l = Inr u \<longleftrightarrow> 1 \<le> unat t \<and> unat t \<le> 86400000"
  by (auto simp: assert_stability_fee_in_band_def assert_collateralization_ratio_in_band_def
      assert_controller_gains_in_band_def assert_timing_milliseconds_in_band_def success word_le_nat_alt)

lemma check_initial_parameters_success [success]:
  "check_initial_parameters x = Inr u \<longleftrightarrow>
    (\<forall>i j k l m n. params_ok
      \<lparr> admin_account_id = i, freeze_authority_account_id = j, stablecoin_definition_id = k,
        collateral_definition_id = l, market_price_oracle_id = m,
        stability_fee_per_millisecond = initial_stability_fee_per_millisecond x,
        controller_proportional_gain = initial_controller_proportional_gain x,
        controller_integral_gain = initial_controller_integral_gain x,
        minimum_collateralization_ratio = initial_minimum_collateralization_ratio x,
        minimum_milliseconds_between_rate_updates = params_minimum_milliseconds_between_rate_updates x,
        maximum_oracle_price_age_milliseconds = params_maximum_oracle_price_age_milliseconds x,
        is_frozen = n \<rparr>) \<and>
    1000000000 \<le> unat (initial_redemption_price x) \<and> unat (initial_redemption_price x) \<le> 2 ^ 127 - 1 \<and>
    stablecoin_name x \<noteq> []"
  by (auto simp: check_initial_parameters_def success params_ok_def word_le_nat_alt)

section \<open>Accrual, advance and debt\<close>

lemma accrue_fees_run:
  assumes "accrue_fees q a now = Inr x"
  shows "unat (accumulated_rate_at_last_accrual (accrual_accumulator x)) =
      projected (accumulated_rate_at_last_accrual a) (stability_fee_per_millisecond q) (last_accrued_at a) now"
    and "accumulated_rate_at_last_accrual a \<le> accumulated_rate_at_last_accrual (accrual_accumulator x)"
    and "last_accrued_at (accrual_accumulator x) = now"
    and "total_normalized_debt (accrual_accumulator x) = total_normalized_debt a"
    and "unat (accrued_fees x) = unat (total_normalized_debt a) *
      (unat (accumulated_rate_at_last_accrual (accrual_accumulator x)) - unat (accumulated_rate_at_last_accrual a))
      div scale"
proof -
  from assms obtain c d f where run: "compute_current_accumulated_rate (accumulated_rate_at_last_accrual a)
      (stability_fee_per_millisecond q) (last_accrued_at a) now = Inr c"
    "checked_sub c (accumulated_rate_at_last_accrual a) = Some d"
    "mul_div (total_normalized_debt a) d FIXED_POINT_ONE = Inr f"
    "x = \<lparr> accrual_accumulator = \<lparr> accumulated_rate_at_last_accrual = c, last_accrued_at = now,
              total_normalized_debt = total_normalized_debt a \<rparr>, accrued_fees = f \<rparr>"
    unfolding accrue_fees_def inversion by blast
  show "unat (accumulated_rate_at_last_accrual (accrual_accumulator x)) =
      projected (accumulated_rate_at_last_accrual a) (stability_fee_per_millisecond q) (last_accrued_at a) now"
    using compute_current_accumulated_rate_Inr [OF run(1)] by (simp add: run(4))
  have d: "unat c = unat (accumulated_rate_at_last_accrual a) + unat d"
    using run(2) by (simp add: checked_sub_Some)
  show "accumulated_rate_at_last_accrual a \<le> accumulated_rate_at_last_accrual (accrual_accumulator x)"
    "last_accrued_at (accrual_accumulator x) = now"
    "total_normalized_debt (accrual_accumulator x) = total_normalized_debt a"
    "unat (accrued_fees x) = unat (total_normalized_debt a) *
      (unat (accumulated_rate_at_last_accrual (accrual_accumulator x)) - unat (accumulated_rate_at_last_accrual a))
      div scale"
    using d run(3) by (simp_all add: run(4) word_le_nat_alt mul_div_Inr)
qed

lemma advanced_ok:
  assumes "bound_redemption_price w = Inr p" "run_controller_tick p m I kp ki dt = Inr out"
  shows "redemption_ok \<lparr> redemption_price_at_last_update = p,
         redemption_rate_per_millisecond = out_redemption_rate_per_millisecond out,
         controller_integral_term = out_controller_integral_term out, last_updated_at = now \<rparr>"
proof -
  have p: "1000000000 \<le> unat p" "unat p \<le> 2 ^ 127 - 1"
    using bound_redemption_price_total [of w] assms(1) by auto
  let ?e = "uint p - uint m"
  let ?I = "tick_integral ?e (sint I) (sint ki) (uint dt)"
  have "fits_i256 (sint ki * ?e * uint dt)"
    using run_controller_tick_cases(2) [of ki p m dt I kp] assms(2) by auto
  then have out: "sint (out_controller_integral_term out) = ?I"
    "uint (out_redemption_rate_per_millisecond out) = tick_rate (uint p) (tick_adjustment ?e (sint kp) ?I)"
    using run_controller_tick_cases(1) [of ki p m dt I kp] assms(2) by auto
  have "\<bar>tick_adjustment ?e (sint kp) ?I\<bar> \<le> rate_clamp" "\<bar>?I\<bar> \<le> rate_clamp"
    by (simp_all add: tick_adjustment_def tick_integral_def abs_clamp)
  then have rate: "int scale - rate_clamp \<le> uint (out_redemption_rate_per_millisecond out)"
    "uint (out_redemption_rate_per_millisecond out) \<le> int scale + rate_clamp"
    "\<bar>sint (out_controller_integral_term out)\<bar> \<le> rate_clamp"
    unfolding out using tick_rate_range by blast+
  moreover have "int (unat (out_redemption_rate_per_millisecond out)) = uint (out_redemption_rate_per_millisecond out)"
    by simp
  ultimately have "scale \<le> unat (out_redemption_rate_per_millisecond out) + 10000000000000000"
    "unat (out_redemption_rate_per_millisecond out) \<le> scale + 10000000000000000"
    by linarith+
  then show ?thesis
    using p rate(3) unfolding redemption_ok_def by simp
qed

lemma advance_run:
  assumes "advance_redemption_price E q r price now = Inr d"
  obtains r' where "encode (redemption_codec E) r' = Some d" "redemption_ok r'" "last_updated_at r' = now"
proof -
  from assms obtain p out where run: "bound_redemption_price (compute_current_redemption_price_wide
       (redemption_price_at_last_update r) (redemption_rate_per_millisecond r) (last_updated_at r) now) = Inr p"
    "run_controller_tick p (oracle_price_to_fixed_point price) (controller_integral_term r)
       (controller_proportional_gain q) (controller_integral_gain q) (saturating_sub now (last_updated_at r)) = Inr out"
    "encode (redemption_codec E) \<lparr> redemption_price_at_last_update = p,
         redemption_rate_per_millisecond = out_redemption_rate_per_millisecond out,
         controller_integral_term = out_controller_integral_term out, last_updated_at = now \<rparr> = Some d"
    unfolding advance_redemption_price_def Let_def inversion stable_encoded_success by blast
  show thesis
    by (rule that [OF run(3) advanced_ok [OF run(1,2)]]) simp
qed

lemma debt_run:
  "added_debt pos acc n = Inr (pos', acc') \<Longrightarrow> \<exists>d. unat d = cdiv (unat n * scale) (unat (accumulated_rate_at_last_accrual acc)) \<and>
    accumulated_rate_at_last_accrual acc \<noteq> 0 \<and>
    unat (normalized_debt_amount pos') = unat (normalized_debt_amount pos) + unat (d :: u128) \<and>
    unat (total_normalized_debt acc') = unat (total_normalized_debt acc) + unat d \<and>
    pos' = pos \<lparr> normalized_debt_amount := normalized_debt_amount pos' \<rparr> \<and>
    acc' = acc \<lparr> total_normalized_debt := total_normalized_debt acc' \<rparr>"
  "removed_debt pos acc n = Inr (pos', acc') \<Longrightarrow> \<exists>d. unat d = unat n * scale div unat (accumulated_rate_at_last_accrual acc) \<and>
    accumulated_rate_at_last_accrual acc \<noteq> 0 \<and>
    unat (normalized_debt_amount pos) = unat (normalized_debt_amount pos') + unat (d :: u128) \<and>
    unat (total_normalized_debt acc) = unat (total_normalized_debt acc') + unat d \<and>
    pos' = pos \<lparr> normalized_debt_amount := normalized_debt_amount pos' \<rparr> \<and>
    acc' = acc \<lparr> total_normalized_debt := total_normalized_debt acc' \<rparr>"
  by (auto simp: added_debt_def removed_debt_def success checked)

section \<open>Runs\<close>

lemmas stable_inversion = inversion stable_encoded_success decode_globals_success stable_read_clock_success
  assert_admin_success decode_fee_accrual_success decode_redemption_inputs_success
  read_owned_position_success verify_position_success fungible_vault_success

text \<open>
  Each run names what the handler read (\<^theory_text>\<open>q\<close> the parameters, \<^theory_text>\<open>acc\<close> and \<^theory_text>\<open>r\<close> the globals, \<^theory_text>\<open>pos\<close> the
  position), what it computed, and what it returns.
\<close>

lemma generate_debt_run:
  assumes "generate_debt E owner pa sd uh mh aa ra ppa clk p n = Inr (ds, cs)"
  obtains pos pos' q acc acc' r now x d a h surplus u where
    "read_owned_position E owner pa p = Inr pos" "is_authorized owner"
    "decode_parameters E ppa p = Inr q" "\<not> is_frozen q"
    "decode_accumulator E aa p = Inr acc" "decode_redemption E ra p = Inr r"
    "stable_read_clock E clk = Inr now"
    "decode (holding_codec E) (data (account uh)) = Some h" "definition_id h = account_id sd"
    "program_owner (account uh) = program_owner (account sd)"
    "accrue_fees q acc now = Inr x" "surplus_mint_call E sd mh q p (accrued_fees x) = Inr surplus"
    "added_debt pos (accrual_accumulator x) n = Inr (pos', acc')"
    "compute_current_redemption_price_wide (redemption_price_at_last_update r)
       (redemption_rate_per_millisecond r) (last_updated_at r) now \<noteq> 0"
    "assert_position_is_collateralized pos'
       (widen512 (accumulated_rate_at_last_accrual (accrual_accumulator x)))
       (compute_current_redemption_price_wide (redemption_price_at_last_update r)
         (redemption_rate_per_millisecond r) (last_updated_at r) now)
       (minimum_collateralization_ratio q) = Inr u"
    "encode (position_codec E) pos' = Some d" "encode (accumulator_codec E) acc' = Some a"
    "ds = [Unchanged owner, NewData pa (Add 0) d, Unchanged sd, Unchanged uh, Unchanged mh, NewData aa (Add 0) a,
           Unchanged ra, Unchanged ppa, Unchanged clk]"
    "cs = surplus @ [with_pda_seeds
       (chained_call_new (program_owner (account sd)) [account_id sd, account_id uh] (Mint n))
       [compute_stablecoin_definition_pda_seed E]]"
  using assms that unfolding generate_debt_def Let_def inversion stable_encoded_success by blast

lemma repay_debt_run:
  assumes "repay_debt E owner pa sd uh mh aa ppa clk p n = Inr (ds, cs)"
  obtains pos pos' q acc acc' now x d a h surplus where
    "read_owned_position E owner pa p = Inr pos" "is_authorized owner" "is_authorized uh"
    "decode_parameters E ppa p = Inr q" "account_id sd = stablecoin_definition_id q"
    "decode_accumulator E aa p = Inr acc" "stable_read_clock E clk = Inr now"
    "decode (holding_codec E) (data (account uh)) = Some h" "definition_id h = account_id sd"
    "program_owner (account uh) = program_owner (account sd)"
    "accrue_fees q acc now = Inr x" "surplus_mint_call E sd mh q p (accrued_fees x) = Inr surplus"
    "removed_debt pos (accrual_accumulator x) n = Inr (pos', acc')"
    "encode (position_codec E) pos' = Some d" "encode (accumulator_codec E) acc' = Some a"
    "ds = [Unchanged owner, NewData pa (Add 0) d, Unchanged sd, Unchanged uh, Unchanged mh, NewData aa (Add 0) a,
           Unchanged ppa, Unchanged clk]"
    "cs = surplus @ [chained_call_new (program_owner (account uh)) [account_id sd, account_id uh] (Burn n)]"
  using assms that unfolding repay_debt_def Let_def inversion stable_encoded_success by blast

lemma withdraw_collateral_run:
  assumes "withdraw_collateral E owner pa vault uh aa ra ppa clk p n = Inr (ds, cs)"
  obtains pos pos' q acc r now d h hv u where
    "decode_parameters E ppa p = Inr q" "\<not> is_frozen q"
    "decode_accumulator E aa p = Inr acc" "decode_redemption E ra p = Inr r"
    "stable_read_clock E clk = Inr now" "is_authorized owner"
    "read_owned_position E owner pa p = Inr pos" "vault_account_id pos = account_id vault"
    "account_id vault = compute_position_vault_pda E p (account_id pa)"
    "decode (holding_codec E) (data (account vault)) = Some hv" "definition_id hv = collateral_definition_id q"
    "program_owner (account uh) = program_owner (account vault)" "account uh \<noteq> account_default E"
    "decode (holding_codec E) (data (account uh)) = Some h" "definition_id h = collateral_definition_id q"
    "checked_sub (collateral_amount pos) n = Some (collateral_amount pos')"
    "pos' = pos \<lparr> collateral_amount := collateral_amount pos' \<rparr>"
    "n \<noteq> 0 \<Longrightarrow> normalized_debt_amount pos \<noteq> 0 \<Longrightarrow>
      compute_current_redemption_price_wide (redemption_price_at_last_update r)
        (redemption_rate_per_millisecond r) (last_updated_at r) now \<noteq> 0 \<and>
      assert_position_is_collateralized pos'
        (compute_current_accumulated_rate_wide (accumulated_rate_at_last_accrual acc)
          (stability_fee_per_millisecond q) (last_accrued_at acc) now)
        (compute_current_redemption_price_wide (redemption_price_at_last_update r)
          (redemption_rate_per_millisecond r) (last_updated_at r) now)
        (minimum_collateralization_ratio q) = Inr ()"
    "encode (position_codec E) pos' = Some d"
    "ds = [Unchanged owner, NewData pa (Add 0) d, Unchanged vault, Unchanged uh, Unchanged aa, Unchanged ra,
           Unchanged ppa, Unchanged clk]"
    "cs = [with_pda_seeds
       (chained_call_new (program_owner (account vault)) [account_id vault, account_id uh] (Transfer n))
       [compute_position_vault_pda_seed E (account_id pa)]]"
proof -
  from assms obtain pos q acc r now d h hv c seed where run:
    "decode_parameters E ppa p = Inr q" "\<not> is_frozen q"
    "decode_accumulator E aa p = Inr acc" "decode_redemption E ra p = Inr r"
    "stable_read_clock E clk = Inr now" "is_authorized owner"
    "read_owned_position E owner pa p = Inr pos" "vault_account_id pos = account_id vault"
    "verify_position_vault_and_get_seed E vault (account_id pa) p = Inr seed"
    "decode (holding_codec E) (data (account vault)) = Some hv" "definition_id hv = collateral_definition_id q"
    "program_owner (account uh) = program_owner (account vault)" "account uh \<noteq> account_default E"
    "decode (holding_codec E) (data (account uh)) = Some h" "definition_id h = collateral_definition_id q"
    "checked_sub (collateral_amount pos) n = Some c"
    "n \<noteq> 0 \<Longrightarrow> normalized_debt_amount pos \<noteq> 0 \<Longrightarrow>
      compute_current_redemption_price_wide (redemption_price_at_last_update r)
        (redemption_rate_per_millisecond r) (last_updated_at r) now \<noteq> 0 \<and>
      assert_position_is_collateralized (pos \<lparr> collateral_amount := c \<rparr>)
        (compute_current_accumulated_rate_wide (accumulated_rate_at_last_accrual acc)
          (stability_fee_per_millisecond q) (last_accrued_at acc) now)
        (compute_current_redemption_price_wide (redemption_price_at_last_update r)
          (redemption_rate_per_millisecond r) (last_updated_at r) now)
        (minimum_collateralization_ratio q) = Inr ()"
    "encode (position_codec E) (pos \<lparr> collateral_amount := c \<rparr>) = Some d"
    "ds = [Unchanged owner, NewData pa (Add 0) d, Unchanged vault, Unchanged uh, Unchanged aa, Unchanged ra,
           Unchanged ppa, Unchanged clk]"
    "cs = [with_pda_seeds
       (chained_call_new (program_owner (account vault)) [account_id vault, account_id uh] (Transfer n)) [seed]]"
    unfolding withdraw_collateral_def Let_def inversion stable_encoded_success
    by (auto simp: ensure_success split: if_splits)
  show thesis
    by (rule that [of q acc r now pos hv h "pos \<lparr> collateral_amount := c \<rparr>" d])
      (use run in \<open>simp_all add: verify_position_success\<close>)
qed

lemma open_position_run:
  assumes "open_position E owner pa vault uh cd ppa clk p k n = Inr (ds, cs)"
  obtains q now d h where
    "is_authorized owner" "is_authorized uh" "account pa = account_default E" "account vault = account_default E"
    "decode_parameters E ppa p = Inr q" "\<not> is_frozen q" "account_id cd = collateral_definition_id q"
    "stable_read_clock E clk = Inr now"
    "decode (holding_codec E) (data (account uh)) = Some h" "definition_id h = account_id cd"
    "program_owner (account cd) = program_owner (account uh)"
    "account_id pa = compute_position_pda E p (account_id owner) k"
    "account_id vault = compute_position_vault_pda E p (account_id pa)"
    "encode (position_codec E) \<lparr> owner_account_id = account_id owner, position_nonce = k,
       vault_account_id = account_id vault, collateral_amount = n, normalized_debt_amount = 0,
       opened_at = now \<rparr> = Some d"
    "ds = [Unchanged owner, NewData pa (Add 0) d, Unchanged vault, Unchanged uh, Unchanged cd, Unchanged ppa,
           Unchanged clk]"
    "cs = [with_pda_seeds
             (chained_call_new (program_owner (account uh)) [account_id cd, account_id vault] InitializeAccount)
             [compute_position_vault_pda_seed E (account_id pa)],
           chained_call_new (program_owner (account uh)) [account_id uh, account_id vault] (Transfer n)]"
  using assms that unfolding open_position_def Let_def inversion stable_encoded_success verify_position_success
  by blast

lemma deposit_collateral_run:
  assumes "deposit_collateral E owner pa vault uh ppa p n = Inr (ds, cs)"
  obtains pos q d h b c where
    "is_authorized owner" "is_authorized uh" "read_owned_position E owner pa p = Inr pos"
    "vault_account_id pos = account_id vault" "decode_parameters E ppa p = Inr q"
    "account vault \<noteq> account_default E"
    "decode (holding_codec E) (data (account vault)) = Some (Fungible (collateral_definition_id q) b)"
    "program_owner (account uh) = program_owner (account vault)"
    "decode (holding_codec E) (data (account uh)) = Some h" "definition_id h = collateral_definition_id q"
    "checked_add b n = Some c"
    "encode (position_codec E) (pos \<lparr> collateral_amount := c \<rparr>) = Some d"
    "ds = [Unchanged owner, NewData pa (Add 0) d, Unchanged vault, Unchanged uh, Unchanged ppa]"
    "cs = [chained_call_new (program_owner (account vault)) [account_id uh, account_id vault] (Transfer n)]"
proof -
  from assms obtain pos q d h hv b c where run:
    "is_authorized owner" "is_authorized uh" "read_owned_position E owner pa p = Inr pos"
    "vault_account_id pos = account_id vault" "decode_parameters E ppa p = Inr q"
    "account vault \<noteq> account_default E" "decode (holding_codec E) (data (account vault)) = Some hv"
    "definition_id hv = collateral_definition_id q" "fungible_vault_balance hv = Inr b"
    "program_owner (account uh) = program_owner (account vault)"
    "decode (holding_codec E) (data (account uh)) = Some h" "definition_id h = collateral_definition_id q"
    "checked_add b n = Some c" "encode (position_codec E) (pos \<lparr> collateral_amount := c \<rparr>) = Some d"
    "ds = [Unchanged owner, NewData pa (Add 0) d, Unchanged vault, Unchanged uh, Unchanged ppa]"
    "cs = [chained_call_new (program_owner (account vault)) [account_id uh, account_id vault] (Transfer n)]"
    unfolding deposit_collateral_def Let_def inversion stable_encoded_success by blast
  have "hv = Fungible (collateral_definition_id q) b"
    using run(8,9) by (cases hv) (simp_all add: fungible_vault_success)
  then show thesis
    using run by (intro that [of pos q b h c d]) simp_all
qed

lemma close_position_run:
  assumes "close_position E owner pa vault ppa p = Inr (ds, cs)"
  obtains pos q hv where
    "is_authorized owner" "read_owned_position E owner pa p = Inr pos" "decode_parameters E ppa p = Inr q"
    "normalized_debt_amount pos = 0" "collateral_amount pos = 0" "vault_account_id pos = account_id vault"
    "decode (holding_codec E) (data (account vault)) = Some hv" "fungible_vault_balance hv = Inr 0"
    "ds = [Unchanged owner, NewData pa (Add 0) (data (account_default E)), Unchanged vault, Unchanged ppa]"
    "cs = []"
  using assms that unfolding close_position_def inversion by blast

lemma accrue_stability_fee_run:
  assumes "accrue_stability_fee E caller ppa aa sd mh clk p = Inr (ds, cs)"
  obtains q acc now x a where
    "is_authorized caller" "decode_fee_accrual_inputs E ppa aa p = Inr (q, acc)"
    "stable_read_clock E clk = Inr now" "accrue_fees q acc now = Inr x"
    "surplus_mint_call E sd mh q p (accrued_fees x) = Inr cs"
    "encode (accumulator_codec E) (accrual_accumulator x) = Some a"
    "ds = [Unchanged caller, Unchanged ppa, NewData aa (Add 0) a, Unchanged sd, Unchanged mh, Unchanged clk]"
  using assms that unfolding accrue_stability_fee_def inversion stable_encoded_success by blast

lemma update_redemption_rate_run:
  assumes "update_redemption_rate E caller ppa ra oa clk p = Inr (ds, cs)"
  obtains q r orc now d where
    "is_authorized caller" "decode_redemption_inputs E ppa ra p = Inr (q, r)"
    "read_oracle E oa q = Inr (Some orc)" "stable_read_clock E clk = Inr now"
    "saturating_sub now (oracle_timestamp orc) \<le> maximum_oracle_price_age_milliseconds q"
    "0 < oracle_price orc"
    "minimum_milliseconds_between_rate_updates q \<le> saturating_sub now (last_updated_at r)"
    "advance_redemption_price E q r (oracle_price orc) now = Inr d"
    "ds = [Unchanged caller, Unchanged ppa, NewData ra (Add 0) d, Unchanged oa, Unchanged clk]" "cs = []"
  using assms that unfolding update_redemption_rate_def inversion by blast

lemma refresh_globals_run:
  assumes "refresh_globals E caller ppa aa sd mh ra oa clk p = Inr (ds, cs)"
  obtains q acc q' r orc now x a dr where
    "is_authorized caller" "decode_fee_accrual_inputs E ppa aa p = Inr (q, acc)"
    "decode_redemption_inputs E ppa ra p = Inr (q', r)" "read_oracle E oa q = Inr orc"
    "stable_read_clock E clk = Inr now" "accrue_fees q acc now = Inr x"
    "surplus_mint_call E sd mh q p (accrued_fees x) = Inr cs"
    "encode (accumulator_codec E) (accrual_accumulator x) = Some a"
    "dr = Unchanged ra \<or> (\<exists>o' d. orc = Some o' \<and> dr = NewData ra (Add 0) d \<and>
       advance_redemption_price E q r (oracle_price o') now = Inr d)"
    "ds = [Unchanged caller, Unchanged ppa, NewData aa (Add 0) a, Unchanged sd, Unchanged mh, dr,
           Unchanged oa, Unchanged clk]"
proof -
  from assms obtain q acc q' r orc now x a dr where run:
    "is_authorized caller" "decode_fee_accrual_inputs E ppa aa p = Inr (q, acc)"
    "decode_redemption_inputs E ppa ra p = Inr (q', r)" "read_oracle E oa q = Inr orc"
    "stable_read_clock E clk = Inr now" "accrue_fees q acc now = Inr x"
    "surplus_mint_call E sd mh q p (accrued_fees x) = Inr cs"
    "encode (accumulator_codec E) (accrual_accumulator x) = Some a"
    "(case (case orc of None \<Rightarrow> None
           | Some orc \<Rightarrow>
               (if saturating_sub now (oracle_timestamp orc) \<le> maximum_oracle_price_age_milliseconds q \<and>
                   0 < oracle_price orc then Some (oracle_price orc) else None)) of
        Some price \<Rightarrow>
          (if minimum_milliseconds_between_rate_updates q \<le> saturating_sub now (last_updated_at r) then
             attempt (advance_redemption_price E q r price now) (\<lambda>d. Inr (NewData ra (Add 0) d))
           else Inr (Unchanged ra))
      | None \<Rightarrow> Inr (Unchanged ra)) = Inr dr"
    "ds = [Unchanged caller, Unchanged ppa, NewData aa (Add 0) a, Unchanged sd, Unchanged mh, dr,
           Unchanged oa, Unchanged clk]"
    unfolding refresh_globals_def Let_def inversion stable_encoded_success by blast
  have "dr = Unchanged ra \<or> (\<exists>o' d. orc = Some o' \<and> dr = NewData ra (Add 0) d \<and>
       advance_redemption_price E q r (oracle_price o') now = Inr d)"
    using run(9) by (auto simp: attempt_success split: option.splits if_splits)
  then show thesis
    using run(1-8,10) that by blast
qed

lemma set_stability_fee_run:
  assumes "set_stability_fee_per_millisecond E admin ppa aa sd mh clk p f = Inr (ds, cs)"
  obtains q acc now x a d where
    "decode_parameters E ppa p = Inr q" "is_authorized admin" "account_id admin = admin_account_id q"
    "scale \<le> unat f" "unat f \<le> scale + 21965000000000000"
    "decode_accumulator E aa p = Inr acc" "stable_read_clock E clk = Inr now" "accrue_fees q acc now = Inr x"
    "surplus_mint_call E sd mh q p (accrued_fees x) = Inr cs"
    "encode (parameters_codec E) (q \<lparr> stability_fee_per_millisecond := f \<rparr>) = Some d"
    "encode (accumulator_codec E) (accrual_accumulator x) = Some a"
    "ds = [Unchanged admin, NewData ppa (Add 0) d, NewData aa (Add 0) a, Unchanged sd, Unchanged mh, Unchanged clk]"
  using assms that
  unfolding set_stability_fee_per_millisecond_def inversion stable_encoded_success assert_admin_success band_success
  by blast

lemma update_parameters_run:
  assumes "update_parameters E admin ppa p f = Inr (ds, cs)"
  obtains q q' d where
    "decode_parameters E ppa p = Inr q" "is_authorized admin" "account_id admin = admin_account_id q"
    "f q = Inr q'" "encode (parameters_codec E) q' = Some d" "ds = [Unchanged admin, NewData ppa (Add 0) d]" "cs = []"
  using assms that unfolding update_parameters_def inversion stable_encoded_success assert_admin_success by blast

lemma set_frozen_run:
  assumes "set_frozen E fa ppa p z = Inr (ds, cs)"
  obtains q d where
    "decode_parameters E ppa p = Inr q" "is_authorized fa" "account_id fa = freeze_authority_account_id q"
    "encode (parameters_codec E) (q \<lparr> is_frozen := z \<rparr>) = Some d" "ds = [Unchanged fa, NewData ppa (Add 0) d]"
    "cs = []"
  using assms that unfolding set_frozen_def inversion stable_encoded_success by blast

lemma reset_redemption_rate_controller_run:
  assumes "reset_redemption_rate_controller E au ppa ra clk p = Inr (ds, cs)"
  obtains q r now c d where
    "is_authorized au" "decode_parameters E ppa p = Inr q"
    "account_id au = admin_account_id q \<or> account_id au = freeze_authority_account_id q"
    "decode_redemption E ra p = Inr r" "stable_read_clock E clk = Inr now"
    "bound_redemption_price (compute_current_redemption_price_wide (redemption_price_at_last_update r)
       (redemption_rate_per_millisecond r) (last_updated_at r) now) = Inr c"
    "encode (redemption_codec E) \<lparr> redemption_price_at_last_update = c,
       redemption_rate_per_millisecond = FIXED_POINT_ONE, controller_integral_term = 0,
       last_updated_at = now \<rparr> = Some d"
    "ds = [Unchanged au, Unchanged ppa, NewData ra (Add 0) d, Unchanged clk]" "cs = []"
  using assms that unfolding reset_redemption_rate_controller_def inversion stable_encoded_success by blast

lemma initialize_program_run:
  assumes "initialize_program E admin ppa aa ra sd mh cd oa clk p x = Inr (ds, cs)"
  obtains q acc r now d a dr where
    "is_authorized admin" "account ppa = account_default E" "account aa = account_default E"
    "account ra = account_default E"
    "account_id ppa = compute_protocol_parameters_pda E p"
    "account_id aa = compute_stability_fee_accumulator_pda E p"
    "account_id ra = compute_redemption_price_state_pda E p"
    "stable_read_clock E clk = Inr now" "params_ok q" "admin_account_id q = account_id admin"
    "acc = \<lparr> accumulated_rate_at_last_accrual = FIXED_POINT_ONE, last_accrued_at = now, total_normalized_debt = 0 \<rparr>"
    "redemption_ok r" "redemption_rate_per_millisecond r = FIXED_POINT_ONE"
    "encode (parameters_codec E) q = Some d" "encode (accumulator_codec E) acc = Some a"
    "encode (redemption_codec E) r = Some dr"
    "ds = [Unchanged admin, NewData ppa (Add 0) d, NewData aa (Add 0) a, NewData ra (Add 0) dr, Unchanged sd,
           Unchanged mh, Unchanged cd, Unchanged oa, Unchanged clk]"
proof -
  from assms obtain q r now d a dr u where run:
    "is_authorized admin" "account ppa = account_default E" "account aa = account_default E"
    "account ra = account_default E"
    "account_id ppa = compute_protocol_parameters_pda E p"
    "account_id aa = compute_stability_fee_accumulator_pda E p"
    "account_id ra = compute_redemption_price_state_pda E p"
    "stable_read_clock E clk = Inr now" "check_initial_parameters x = Inr u"
    "q = \<lparr> admin_account_id = account_id admin,
        freeze_authority_account_id = params_freeze_authority_account_id x,
        stablecoin_definition_id = account_id sd, collateral_definition_id = account_id cd,
        market_price_oracle_id = account_id oa,
        stability_fee_per_millisecond = initial_stability_fee_per_millisecond x,
        controller_proportional_gain = initial_controller_proportional_gain x,
        controller_integral_gain = initial_controller_integral_gain x,
        minimum_collateralization_ratio = initial_minimum_collateralization_ratio x,
        minimum_milliseconds_between_rate_updates = params_minimum_milliseconds_between_rate_updates x,
        maximum_oracle_price_age_milliseconds = params_maximum_oracle_price_age_milliseconds x,
        is_frozen = False \<rparr>"
    "r = \<lparr> redemption_price_at_last_update = initial_redemption_price x,
        redemption_rate_per_millisecond = FIXED_POINT_ONE, controller_integral_term = 0, last_updated_at = now \<rparr>"
    "encode (parameters_codec E) q = Some d"
    "encode (accumulator_codec E) \<lparr> accumulated_rate_at_last_accrual = FIXED_POINT_ONE, last_accrued_at = now,
       total_normalized_debt = 0 \<rparr> = Some a"
    "encode (redemption_codec E) r = Some dr"
    "ds = [Unchanged admin, NewData ppa (Add 0) d, NewData aa (Add 0) a, NewData ra (Add 0) dr, Unchanged sd,
           Unchanged mh, Unchanged cd, Unchanged oa, Unchanged clk]"
    unfolding initialize_program_def inversion stable_encoded_success by blast
  have "params_ok q" "redemption_ok r"
    using run(9) by (simp_all add: run(10,11) check_initial_parameters_success redemption_ok_def)
  then show thesis
    using run(1-8,12-15) by (intro that [of now q _ r d a dr]) (simp_all add: run(10,11))
qed

end
