(* ===== verification/Stable_Ledger.thy ===== *)
theory Stable_Ledger
  imports Stable_Runs
begin

text \<open>
  The accounts of a stablecoin deployment over the life of the chain: what one instruction may write,
  that the debt it adds to positions is the debt it adds to the total, and that every step keeps the
  bands of the globals, the identity of the positions and the sum of the debts.
\<close>

section \<open>What an instruction writes\<close>

definition stored_as :: "('a, 'd) codec \<Rightarrow> account_id \<Rightarrow> 'd account \<Rightarrow> 'a option" where
  "stored_as C p a = (if program_owner a = p then decode C (data a) else None)"

text \<open>
  A parameter change: the token definitions stay, and either the stored admin authorized it and the
  freeze flag stays, or the stored freeze authority did and nothing but the flag is different.
\<close>

definition params_change :: "account_id set \<Rightarrow> protocol_parameters \<Rightarrow> protocol_parameters \<Rightarrow> bool" where
  "params_change A q q' \<longleftrightarrow>
    stablecoin_definition_id q' = stablecoin_definition_id q \<and>
    collateral_definition_id q' = collateral_definition_id q \<and>
    (admin_account_id q \<in> A \<and> is_frozen q' = is_frozen q \<or>
     freeze_authority_account_id q \<in> A \<and> q' = q \<lparr> is_frozen := is_frozen q' \<rparr>)"

definition same_position :: "position \<Rightarrow> position \<Rightarrow> bool" where
  "same_position x x' \<longleftrightarrow> owner_account_id x' = owner_account_id x \<and> position_nonce x' = position_nonce x \<and>
    vault_account_id x' = vault_account_id x \<and> opened_at x' = opened_at x"

text \<open>A position in its place: at the address of its owner and nonce, with the vault of that address.\<close>

definition position_ok :: "('d, 'x) lee_env_scheme \<Rightarrow> account_id \<Rightarrow> account_id \<Rightarrow> position \<Rightarrow> bool" where
  "position_ok E p i x \<longleftrightarrow> i = compute_position_pda E p (owner_account_id x) (position_nonce x) \<and>
    vault_account_id x = compute_position_vault_pda E p i"

definition params_write ::
  "('d, 'x) stable_env_scheme \<Rightarrow> account_id \<Rightarrow> account_id set \<Rightarrow> 'd account_with_metadata \<Rightarrow> 'd \<Rightarrow> bool" where
  "params_write E p A a d \<longleftrightarrow> account_id a = compute_protocol_parameters_pda E p \<and>
    (\<exists>q'. encode (parameters_codec E) q' = Some d \<and>
      (account a = account_default E \<and> params_ok q' \<or>
       (\<exists>q. stored_as (parameters_codec E) p (account a) = Some q \<and> params_change A q q' \<and>
          (params_ok q \<longrightarrow> params_ok q'))))"

definition accumulator_write ::
  "('d, 'x) stable_env_scheme \<Rightarrow> account_id \<Rightarrow> 'd account_with_metadata \<Rightarrow> 'd \<Rightarrow> bool" where
  "accumulator_write E p a d \<longleftrightarrow> account_id a = compute_stability_fee_accumulator_pda E p \<and>
    (\<exists>y'. encode (accumulator_codec E) y' = Some d \<and>
      (account a = account_default E \<and> accumulator_ok y' \<or>
       (\<exists>y. stored_as (accumulator_codec E) p (account a) = Some y \<and>
          accumulated_rate_at_last_accrual y \<le> accumulated_rate_at_last_accrual y')))"

definition redemption_write ::
  "('d, 'x) stable_env_scheme \<Rightarrow> account_id \<Rightarrow> 'd account_with_metadata \<Rightarrow> 'd \<Rightarrow> bool" where
  "redemption_write E p a d \<longleftrightarrow> account_id a = compute_redemption_price_state_pda E p \<and>
    (\<exists>r'. encode (redemption_codec E) r' = Some d \<and> redemption_ok r' \<and>
      (account a = account_default E \<or> (\<exists>r. stored_as (redemption_codec E) p (account a) = Some r)))"

definition position_write ::
  "('d, 'x) stable_env_scheme \<Rightarrow> account_id \<Rightarrow> account_id set \<Rightarrow> 'd account_with_metadata \<Rightarrow> 'd \<Rightarrow> bool" where
  "position_write E p A a d \<longleftrightarrow>
    (\<exists>x'. encode (position_codec E) x' = Some d \<and> owner_account_id x' \<in> A \<and>
      (account a = account_default E \<and> position_ok E p (account_id a) x' \<and> normalized_debt_amount x' = 0 \<or>
       (\<exists>x. stored_as (position_codec E) p (account a) = Some x \<and> same_position x x'))) \<or>
    (\<exists>x. stored_as (position_codec E) p (account a) = Some x \<and> owner_account_id x \<in> A \<and>
      normalized_debt_amount x = 0 \<and> collateral_amount x = 0 \<and> d = data (account_default E))"

fun stable_write :: "('d, 'x) stable_env_scheme \<Rightarrow> account_id \<Rightarrow> account_id set \<Rightarrow> 'd state_diff \<Rightarrow> bool" where
  "stable_write E p A (Unchanged a) \<longleftrightarrow> True"
| "stable_write E p A (NewData a b d) \<longleftrightarrow> b = Add 0 \<and>
    (params_write E p A a d \<or> accumulator_write E p a d \<or> redemption_write E p a d \<or> position_write E p A a d)"

section \<open>Debt on the books\<close>

text \<open>The normalized debt of a stored position, and the total the accumulator records.\<close>

definition debt_of :: "('d, 'x) stable_env_scheme \<Rightarrow> account_id \<Rightarrow> 'd account \<Rightarrow> nat" where
  "debt_of E p a = (case stored_as (position_codec E) p a of
     Some x \<Rightarrow> unat (normalized_debt_amount x) | None \<Rightarrow> 0)"

definition total_of :: "('d, 'x) stable_env_scheme \<Rightarrow> account_id \<Rightarrow> account_id \<Rightarrow> 'd account \<Rightarrow> nat" where
  "total_of E p i a = (if i = compute_stability_fee_accumulator_pda E p then
     (case stored_as (accumulator_codec E) p a of Some y \<Rightarrow> unat (total_normalized_debt y) | None \<Rightarrow> 0) else 0)"

definition debt_gain :: "('d, 'x) stable_env_scheme \<Rightarrow> account_id \<Rightarrow> 'd state_diff \<Rightarrow> int" where
  "debt_gain E p d = int (debt_of E p (post_account E p d)) - int (debt_of E p (account (pre_state d)))"

definition total_gain :: "('d, 'x) stable_env_scheme \<Rightarrow> account_id \<Rightarrow> 'd state_diff \<Rightarrow> int" where
  "total_gain E p d =
    int (total_of E p (account_id (pre_state d)) (post_account E p d)) -
    int (total_of E p (account_id (pre_state d)) (account (pre_state d)))"

lemma gain_Unchanged [simp]: "debt_gain E p (Unchanged a) = 0" "total_gain E p (Unchanged a) = 0"
  by (simp_all add: debt_gain_def total_gain_def)

text \<open>What every instruction does.\<close>

definition stable_effect ::
  "('d, 'x) stable_env_scheme \<Rightarrow> account_id \<Rightarrow> 'd account_with_metadata list \<Rightarrow> 'd state_diff list \<Rightarrow> bool" where
  "stable_effect E p accounts ds \<longleftrightarrow> map pre_state ds = accounts \<and>
    list_all (stable_write E p (authorized_ids accounts)) ds \<and>
    (\<Sum>d\<leftarrow>ds. debt_gain E p d) = (\<Sum>d\<leftarrow>ds. total_gain E p d)"

locale stable_runtime =
  fixes E :: "('d, 'x) stable_env_scheme" and p :: account_id
  assumes position_laws: "codec_laws (position_codec E)"
    and parameters_laws: "codec_laws (parameters_codec E)"
    and redemption_laws: "codec_laws (redemption_codec E)"
    and accumulator_laws: "codec_laws (accumulator_codec E)"
    and position_apart: "decode (position_codec E) d = Some x \<Longrightarrow>
      decode (parameters_codec E) d = None \<and> decode (redemption_codec E) d = None \<and>
      decode (accumulator_codec E) d = None"
    and parameters_apart: "decode (parameters_codec E) d = Some q \<Longrightarrow>
      decode (redemption_codec E) d = None \<and> decode (accumulator_codec E) d = None"
    and redemption_apart: "decode (redemption_codec E) d = Some r \<Longrightarrow> decode (accumulator_codec E) d = None"
    and blank: "decode (position_codec E) (data (account_default E)) = None"
      "decode (parameters_codec E) (data (account_default E)) = None"
      "decode (redemption_codec E) (data (account_default E)) = None"
      "decode (accumulator_codec E) (data (account_default E)) = None"
    and default_unowned: "default_owned E (account_default E)"
    and program_owned: "p \<noteq> default_program_owner E"
begin

lemma decodes:
  "encode (position_codec E) x = Some d \<Longrightarrow> decode (position_codec E) d = Some x"
  "encode (parameters_codec E) q = Some d \<Longrightarrow> decode (parameters_codec E) d = Some q"
  "encode (redemption_codec E) r = Some d \<Longrightarrow> decode (redemption_codec E) d = Some r"
  "encode (accumulator_codec E) y = Some d \<Longrightarrow> decode (accumulator_codec E) d = Some y"
  using position_laws parameters_laws redemption_laws accumulator_laws
  by (auto dest: codec_laws.round_trip)

text \<open>Data read as one of the four account types reads as none of the others.\<close>

lemma apart:
  "decode (position_codec E) d = Some x \<Longrightarrow> decode (parameters_codec E) d = None"
  "decode (position_codec E) d = Some x \<Longrightarrow> decode (redemption_codec E) d = None"
  "decode (position_codec E) d = Some x \<Longrightarrow> decode (accumulator_codec E) d = None"
  "decode (parameters_codec E) d = Some q \<Longrightarrow> decode (position_codec E) d = None"
  "decode (parameters_codec E) d = Some q \<Longrightarrow> decode (redemption_codec E) d = None"
  "decode (parameters_codec E) d = Some q \<Longrightarrow> decode (accumulator_codec E) d = None"
  "decode (redemption_codec E) d = Some r \<Longrightarrow> decode (position_codec E) d = None"
  "decode (redemption_codec E) d = Some r \<Longrightarrow> decode (parameters_codec E) d = None"
  "decode (redemption_codec E) d = Some r \<Longrightarrow> decode (accumulator_codec E) d = None"
  "decode (accumulator_codec E) d = Some y \<Longrightarrow> decode (position_codec E) d = None"
  "decode (accumulator_codec E) d = Some y \<Longrightarrow> decode (parameters_codec E) d = None"
  "decode (accumulator_codec E) d = Some y \<Longrightarrow> decode (redemption_codec E) d = None"
  using position_apart parameters_apart redemption_apart by (metis not_Some_eq option.distinct(1))+

lemma default_stores_nothing:
  "program_owner a = p \<Longrightarrow> a \<noteq> account_default E"
  "stored_as C p (account_default E) = None"
  using default_unowned program_owned by (auto simp: default_owned_def stored_as_def)

text \<open>A write to a fresh account, or to one of the program's, ends owned by the program.\<close>

lemma written_owner:
  assumes "account a = account_default E \<and> d \<noteq> data (account_default E) \<or> program_owner (account a) = p"
  shows "program_owner (post_account E p (NewData a b d)) = p"
  using assms default_unowned program_owned by (auto simp: post_owner_def default_owned_def)

lemma stored_post:
  assumes "account a = account_default E \<and> d \<noteq> data (account_default E) \<or> program_owner (account a) = p"
  shows "stored_as C p (post_account E p (NewData a b d)) = decode C d"
  using written_owner [OF assms, of b] by (simp only: stored_as_def simp_thms if_True post_account_data post_data.simps)

lemma encoded_not_blank:
  "encode (position_codec E) x = Some d \<Longrightarrow> d \<noteq> data (account_default E)"
  "encode (parameters_codec E) q = Some d \<Longrightarrow> d \<noteq> data (account_default E)"
  "encode (redemption_codec E) r = Some d \<Longrightarrow> d \<noteq> data (account_default E)"
  "encode (accumulator_codec E) y = Some d \<Longrightarrow> d \<noteq> data (account_default E)"
  using decodes blank by (metis option.distinct(1))+

subsection \<open>Gains of a write\<close>

lemma gains_of_write:
  assumes "account a = account_default E \<and> d \<noteq> data (account_default E) \<or> program_owner (account a) = p"
  shows "debt_gain E p (NewData a b d) =
      (case decode (position_codec E) d of Some x \<Rightarrow> int (unat (normalized_debt_amount x)) | None \<Rightarrow> 0) -
      (case stored_as (position_codec E) p (account a) of Some x \<Rightarrow> int (unat (normalized_debt_amount x)) | None \<Rightarrow> 0)"
    and "total_gain E p (NewData a b d) = (if account_id a = compute_stability_fee_accumulator_pda E p then
      (case decode (accumulator_codec E) d of Some y \<Rightarrow> int (unat (total_normalized_debt y)) | None \<Rightarrow> 0) -
      (case stored_as (accumulator_codec E) p (account a) of Some y \<Rightarrow> int (unat (total_normalized_debt y)) | None \<Rightarrow> 0)
      else 0)"
  unfolding debt_gain_def total_gain_def debt_of_def total_of_def stored_post [OF assms] pre_state.simps
  by (auto split: option.splits)

lemma stored_as_Some: "program_owner a = p \<Longrightarrow> decode C (data a) = Some x \<Longrightarrow> stored_as C p a = Some x"
  by (simp add: stored_as_def)

lemma stored_as_apart:
  "stored_as (parameters_codec E) p a = Some q \<Longrightarrow> stored_as (position_codec E) p a = None"
  "stored_as (parameters_codec E) p a = Some q \<Longrightarrow> stored_as (accumulator_codec E) p a = None"
  "stored_as (redemption_codec E) p a = Some r \<Longrightarrow> stored_as (position_codec E) p a = None"
  "stored_as (redemption_codec E) p a = Some r \<Longrightarrow> stored_as (accumulator_codec E) p a = None"
  "stored_as (accumulator_codec E) p a = Some y \<Longrightarrow> stored_as (position_codec E) p a = None"
  "stored_as (position_codec E) p a = Some x \<Longrightarrow> stored_as (accumulator_codec E) p a = None"
  unfolding stored_as_def by (metis apart option.distinct(1))+

lemma params_gain:
  assumes "encode (parameters_codec E) q' = Some d"
    and "account a = account_default E \<or> stored_as (parameters_codec E) p (account a) = Some q"
  shows "debt_gain E p (NewData a b d) = 0" "total_gain E p (NewData a b d) = 0"
proof -
  have pre: "account a = account_default E \<and> d \<noteq> data (account_default E) \<or> program_owner (account a) = p"
    using assms encoded_not_blank(2) by (auto simp: stored_as_def split: if_splits)
  note dec = decodes(2) [OF assms(1)]
  show "debt_gain E p (NewData a b d) = 0" "total_gain E p (NewData a b d) = 0"
    using assms(2) apart(4,6) [OF dec] stored_as_apart(1,2)
    by (auto simp: gains_of_write [OF pre] default_stores_nothing(2))
qed

lemma redemption_gain:
  assumes "encode (redemption_codec E) r' = Some d"
    and "account a = account_default E \<or> stored_as (redemption_codec E) p (account a) = Some r"
  shows "debt_gain E p (NewData a b d) = 0" "total_gain E p (NewData a b d) = 0"
proof -
  have pre: "account a = account_default E \<and> d \<noteq> data (account_default E) \<or> program_owner (account a) = p"
    using assms encoded_not_blank(3) by (auto simp: stored_as_def split: if_splits)
  note dec = decodes(3) [OF assms(1)]
  show "debt_gain E p (NewData a b d) = 0" "total_gain E p (NewData a b d) = 0"
    using assms(2) apart(7,9) [OF dec] stored_as_apart(3,4)
    by (auto simp: gains_of_write [OF pre] default_stores_nothing(2))
qed

lemma accumulator_gain:
  assumes "encode (accumulator_codec E) y' = Some d" "account_id a = compute_stability_fee_accumulator_pda E p"
    and "account a = account_default E \<and> total_normalized_debt y = 0 \<or>
      stored_as (accumulator_codec E) p (account a) = Some y"
  shows "debt_gain E p (NewData a b d) = 0"
    and "total_gain E p (NewData a b d) = int (unat (total_normalized_debt y')) - int (unat (total_normalized_debt y))"
proof -
  have pre: "account a = account_default E \<and> d \<noteq> data (account_default E) \<or> program_owner (account a) = p"
    using assms encoded_not_blank(4) by (auto simp: stored_as_def split: if_splits)
  note dec = decodes(4) [OF assms(1)]
  show "debt_gain E p (NewData a b d) = 0"
    "total_gain E p (NewData a b d) = int (unat (total_normalized_debt y')) - int (unat (total_normalized_debt y))"
    using assms(2,3) dec apart(10) [OF dec] stored_as_apart(5)
    by (auto simp: gains_of_write [OF pre] default_stores_nothing(2))
qed

lemma position_gain:
  assumes "encode (position_codec E) x' = Some d"
    and "account a = account_default E \<and> normalized_debt_amount x = 0 \<or>
      stored_as (position_codec E) p (account a) = Some x"
  shows "debt_gain E p (NewData a b d) = int (unat (normalized_debt_amount x')) - int (unat (normalized_debt_amount x))"
    and "total_gain E p (NewData a b d) = 0"
proof -
  have pre: "account a = account_default E \<and> d \<noteq> data (account_default E) \<or> program_owner (account a) = p"
    using assms encoded_not_blank(1) by (auto simp: stored_as_def split: if_splits)
  note dec = decodes(1) [OF assms(1)]
  show "debt_gain E p (NewData a b d) = int (unat (normalized_debt_amount x')) - int (unat (normalized_debt_amount x))"
    "total_gain E p (NewData a b d) = 0"
    using assms(2) dec apart(3) [OF dec] stored_as_apart(6)
    by (auto simp: gains_of_write [OF pre] default_stores_nothing(2))
qed

lemma closing_gain:
  assumes "stored_as (position_codec E) p (account a) = Some x" "normalized_debt_amount x = 0"
  shows "debt_gain E p (NewData a b (data (account_default E))) = 0"
    and "total_gain E p (NewData a b (data (account_default E))) = 0"
proof -
  have pre: "account a = account_default E \<and> data (account_default E) \<noteq> data (account_default E) \<or>
      program_owner (account a) = p"
    using assms(1) by (auto simp: stored_as_def split: if_splits)
  show "debt_gain E p (NewData a b (data (account_default E))) = 0"
    "total_gain E p (NewData a b (data (account_default E))) = 0"
    using assms blank stored_as_apart(6) [OF assms(1)] by (auto simp: gains_of_write [OF pre])
qed

subsection \<open>The effect of each instruction\<close>

lemma global_stored:
  "holds_global E C i p a x \<Longrightarrow> stored_as C p (account a) = Some x \<and> account_id a = i"
  by (simp add: holds_global_def stored_as_def)

lemma fee_accrual_stored:
  assumes "decode_fee_accrual_inputs E a b p = Inr (q, y)"
  shows "stored_as (accumulator_codec E) p (account b) = Some y \<and>
    account_id b = compute_stability_fee_accumulator_pda E p"
proof -
  have "holds_global E (accumulator_codec E) (compute_stability_fee_accumulator_pda E p) p b y"
    using assms by (simp add: decode_fee_accrual_success)
  then show ?thesis
    by (rule global_stored)
qed

lemma owned_stored:
  "read_owned_position E owner a p = Inr x \<Longrightarrow>
    stored_as (position_codec E) p (account a) = Some x \<and> owner_account_id x = account_id owner"
  by (simp add: read_owned_position_success stored_as_def)

lemma accrual_write:
  assumes "accrue_fees q acc now = Inr x" "stored_as (accumulator_codec E) p (account aa) = Some acc"
    and "account_id aa = compute_stability_fee_accumulator_pda E p"
    and "encode (accumulator_codec E) y = Some d"
    and "accumulated_rate_at_last_accrual y = accumulated_rate_at_last_accrual (accrual_accumulator x)"
  shows "stable_write E p A (NewData aa (Add 0) d)" "debt_gain E p (NewData aa (Add 0) d) = 0"
    "total_gain E p (NewData aa (Add 0) d) =
      int (unat (total_normalized_debt y)) - int (unat (total_normalized_debt acc))"
proof -
  have "accumulated_rate_at_last_accrual acc \<le> accumulated_rate_at_last_accrual y"
    using accrue_fees_run(2) [OF assms(1)] by (simp add: assms(5))
  then show "stable_write E p A (NewData aa (Add 0) d)"
    using assms(2-4) by (auto simp: accumulator_write_def)
  show "debt_gain E p (NewData aa (Add 0) d) = 0" "total_gain E p (NewData aa (Add 0) d) =
      int (unat (total_normalized_debt y)) - int (unat (total_normalized_debt acc))"
    using accumulator_gain [OF assms(4,3), of acc] assms(2) by simp_all
qed

lemma plain_accrual_write:
  assumes "accrue_fees q acc now = Inr x" "stored_as (accumulator_codec E) p (account aa) = Some acc"
    and "account_id aa = compute_stability_fee_accumulator_pda E p"
    and "encode (accumulator_codec E) (accrual_accumulator x) = Some d"
  shows "stable_write E p A (NewData aa (Add 0) d)" "debt_gain E p (NewData aa (Add 0) d) = 0"
    "total_gain E p (NewData aa (Add 0) d) = 0"
  using accrual_write [OF assms refl] accrue_fees_run(4) [OF assms(1)] by simp_all

lemma update_position_write:
  assumes "read_owned_position E owner a p = Inr x" "is_authorized owner" "encode (position_codec E) x' = Some d"
    and "same_position x x'"
  shows "owner \<in> set accounts \<Longrightarrow> stable_write E p (authorized_ids accounts) (NewData a (Add 0) d)"
    "debt_gain E p (NewData a (Add 0) d) =
      int (unat (normalized_debt_amount x')) - int (unat (normalized_debt_amount x))"
    "total_gain E p (NewData a (Add 0) d) = 0"
proof -
  show "stable_write E p (authorized_ids accounts) (NewData a (Add 0) d)" if "owner \<in> set accounts"
  proof -
    have "owner_account_id x' \<in> authorized_ids accounts"
      using that assms owned_stored [OF assms(1)] by (auto simp: same_position_def authorized_ids_def)
    then show ?thesis
      using owned_stored [OF assms(1)] assms(3,4) by (auto simp: position_write_def)
  qed
  show "debt_gain E p (NewData a (Add 0) d) =
      int (unat (normalized_debt_amount x')) - int (unat (normalized_debt_amount x))"
    "total_gain E p (NewData a (Add 0) d) = 0"
    using position_gain [OF assms(3), of a x] owned_stored [OF assms(1)] by simp_all
qed

lemma same_position_updates [simp]:
  "same_position x (x \<lparr> collateral_amount := c \<rparr>)" "same_position x (x \<lparr> normalized_debt_amount := n \<rparr>)"
  by (simp_all add: same_position_def)

lemma redemption_advance_write:
  assumes "advance_redemption_price E q r price now = Inr d"
    and "holds_global E (redemption_codec E) (compute_redemption_price_state_pda E p) p a r"
  shows "stable_write E p A (NewData a (Add 0) d)" "debt_gain E p (NewData a (Add 0) d) = 0"
    "total_gain E p (NewData a (Add 0) d) = 0"
proof -
  obtain r' where r': "encode (redemption_codec E) r' = Some d" "redemption_ok r'"
    using assms(1) by (rule advance_run)
  then show "stable_write E p A (NewData a (Add 0) d)"
    using global_stored [OF assms(2)] by (auto simp: redemption_write_def)
  show "debt_gain E p (NewData a (Add 0) d) = 0" "total_gain E p (NewData a (Add 0) d) = 0"
    using redemption_gain [OF r'(1)] global_stored [OF assms(2)] by blast+
qed

lemma generate_debt_effect:
  assumes "generate_debt E owner pa sd uh mh aa ra ppa clk p n = Inr (ds, cs)"
  shows "stable_effect E p [owner, pa, sd, uh, mh, aa, ra, ppa, clk] ds"
  using assms
proof (rule generate_debt_run)
  fix pos pos' q acc acc' r now x d a h surplus u
  assume run: "read_owned_position E owner pa p = Inr pos" "is_authorized owner"
    "decode_accumulator E aa p = Inr acc" "accrue_fees q acc now = Inr x"
    "added_debt pos (accrual_accumulator x) n = Inr (pos', acc')"
    "encode (position_codec E) pos' = Some d" "encode (accumulator_codec E) acc' = Some a"
    and ds: "ds = [Unchanged owner, NewData pa (Add 0) d, Unchanged sd, Unchanged uh, Unchanged mh,
      NewData aa (Add 0) a, Unchanged ra, Unchanged ppa, Unchanged clk]"
  obtain k where k: "unat (normalized_debt_amount pos') = unat (normalized_debt_amount pos) + unat (k :: u128)"
    "unat (total_normalized_debt acc') = unat (total_normalized_debt (accrual_accumulator x)) + unat k"
    "pos' = pos \<lparr> normalized_debt_amount := normalized_debt_amount pos' \<rparr>"
    "acc' = accrual_accumulator x \<lparr> total_normalized_debt := total_normalized_debt acc' \<rparr>"
    using debt_run(1) [OF run(5)] by blast
  have "accumulated_rate_at_last_accrual acc' = accumulated_rate_at_last_accrual (accrual_accumulator x)"
    by (subst k(4)) simp
  note aw = accrual_write [OF run(4) _ _ run(7) this]
  have "same_position pos pos'"
    by (subst k(3)) simp
  note pw = update_position_write [OF run(1,2,6) this]
  show ?thesis
    using aw pw global_stored [OF run(3) [unfolded decode_globals_success]] accrue_fees_run(4) [OF run(4)] k(1,2) [THEN uint_sum]
    by (simp add: stable_effect_def ds del: stable_write.simps(2) authorized_ids_simps)
qed

lemma repay_debt_effect:
  assumes "repay_debt E owner pa sd uh mh aa ppa clk p n = Inr (ds, cs)"
  shows "stable_effect E p [owner, pa, sd, uh, mh, aa, ppa, clk] ds"
  using assms
proof (rule repay_debt_run)
  fix pos pos' q acc acc' now x d a h surplus
  assume run: "read_owned_position E owner pa p = Inr pos" "is_authorized owner"
    "decode_accumulator E aa p = Inr acc" "accrue_fees q acc now = Inr x"
    "removed_debt pos (accrual_accumulator x) n = Inr (pos', acc')"
    "encode (position_codec E) pos' = Some d" "encode (accumulator_codec E) acc' = Some a"
    and ds: "ds = [Unchanged owner, NewData pa (Add 0) d, Unchanged sd, Unchanged uh, Unchanged mh,
      NewData aa (Add 0) a, Unchanged ppa, Unchanged clk]"
  obtain k where k: "unat (normalized_debt_amount pos) = unat (normalized_debt_amount pos') + unat (k :: u128)"
    "unat (total_normalized_debt (accrual_accumulator x)) = unat (total_normalized_debt acc') + unat k"
    "pos' = pos \<lparr> normalized_debt_amount := normalized_debt_amount pos' \<rparr>"
    "acc' = accrual_accumulator x \<lparr> total_normalized_debt := total_normalized_debt acc' \<rparr>"
    using debt_run(2) [OF run(5)] by blast
  have "accumulated_rate_at_last_accrual acc' = accumulated_rate_at_last_accrual (accrual_accumulator x)"
    by (subst k(4)) simp
  note aw = accrual_write [OF run(4) _ _ run(7) this]
  have "same_position pos pos'"
    by (subst k(3)) simp
  note pw = update_position_write [OF run(1,2,6) this]
  show ?thesis
    using aw pw global_stored [OF run(3) [unfolded decode_globals_success]] accrue_fees_run(4) [OF run(4)] k(1,2) [THEN uint_sum]
    by (simp add: stable_effect_def ds del: stable_write.simps(2) authorized_ids_simps)
qed

lemma withdraw_collateral_effect:
  assumes "withdraw_collateral E owner pa vault uh aa ra ppa clk p n = Inr (ds, cs)"
  shows "stable_effect E p [owner, pa, vault, uh, aa, ra, ppa, clk] ds"
  using assms
proof (rule withdraw_collateral_run)
  fix pos pos' q acc r now d h hv
  assume run: "read_owned_position E owner pa p = Inr pos" "is_authorized owner"
    "encode (position_codec E) pos' = Some d" "pos' = pos \<lparr> collateral_amount := collateral_amount pos' \<rparr>"
    and ds: "ds = [Unchanged owner, NewData pa (Add 0) d, Unchanged vault, Unchanged uh, Unchanged aa, Unchanged ra,
           Unchanged ppa, Unchanged clk]"
  have pos': "same_position pos pos'" "normalized_debt_amount pos' = normalized_debt_amount pos"
    by (subst run(4), simp)+
  show ?thesis
    using update_position_write [OF run(1,2,3) pos'(1)] pos'(2)
    by (simp add: stable_effect_def ds del: stable_write.simps(2) authorized_ids_simps)
qed

lemma deposit_collateral_effect:
  assumes "deposit_collateral E owner pa vault uh ppa p n = Inr (ds, cs)"
  shows "stable_effect E p [owner, pa, vault, uh, ppa] ds"
  using assms
proof (rule deposit_collateral_run)
  fix pos q d h b c
  assume run: "read_owned_position E owner pa p = Inr pos" "is_authorized owner"
    "encode (position_codec E) (pos \<lparr> collateral_amount := c \<rparr>) = Some d"
    and ds: "ds = [Unchanged owner, NewData pa (Add 0) d, Unchanged vault, Unchanged uh, Unchanged ppa]"
  show ?thesis
    using update_position_write [OF run] by (simp add: stable_effect_def ds del: stable_write.simps(2) authorized_ids_simps)
qed

lemma open_position_effect:
  assumes "open_position E owner pa vault uh cd ppa clk p k n = Inr (ds, cs)"
  shows "stable_effect E p [owner, pa, vault, uh, cd, ppa, clk] ds"
  using assms
proof (rule open_position_run)
  fix q now d h
  let ?x = "\<lparr> owner_account_id = account_id owner, position_nonce = k,
       vault_account_id = account_id vault, collateral_amount = n, normalized_debt_amount = 0, opened_at = now \<rparr>"
  assume run: "is_authorized owner" "account pa = account_default E"
    "account_id pa = compute_position_pda E p (account_id owner) k"
    "account_id vault = compute_position_vault_pda E p (account_id pa)"
    "encode (position_codec E) ?x = Some d"
    and ds: "ds = [Unchanged owner, NewData pa (Add 0) d, Unchanged vault, Unchanged uh, Unchanged cd, Unchanged ppa,
           Unchanged clk]"
  have "position_ok E p (account_id pa) ?x"
    using run(3,4) by (simp add: position_ok_def)
  then have "stable_write E p (authorized_ids [owner, pa, vault, uh, cd, ppa, clk]) (NewData pa (Add 0) d)"
    using run(1,2,5) by (fastforce simp: position_write_def)
  then show ?thesis
    using position_gain [OF run(5), of pa ?x] run(2)
    by (simp add: stable_effect_def ds del: stable_write.simps(2) authorized_ids_simps)
qed

lemma close_position_effect:
  assumes "close_position E owner pa vault ppa p = Inr (ds, cs)"
  shows "stable_effect E p [owner, pa, vault, ppa] ds"
  using assms
proof (rule close_position_run)
  fix pos q hv
  assume run: "is_authorized owner" "read_owned_position E owner pa p = Inr pos"
    "normalized_debt_amount pos = 0" "collateral_amount pos = 0"
    and ds: "ds = [Unchanged owner, NewData pa (Add 0) (data (account_default E)), Unchanged vault, Unchanged ppa]"
  note st = owned_stored [OF run(2)]
  have "stable_write E p (authorized_ids [owner, pa, vault, ppa]) (NewData pa (Add 0) (data (account_default E)))"
    using run(1,3,4) st by (auto simp: position_write_def)
  then show ?thesis
    using closing_gain [OF _ run(3), of pa "Add 0"] st
    by (simp add: stable_effect_def ds del: stable_write.simps(2) authorized_ids_simps)
qed

lemma accrue_stability_fee_effect:
  assumes "accrue_stability_fee E caller ppa aa sd mh clk p = Inr (ds, cs)"
  shows "stable_effect E p [caller, ppa, aa, sd, mh, clk] ds"
  using assms
proof (rule accrue_stability_fee_run)
  fix q acc now x a
  assume run: "decode_fee_accrual_inputs E ppa aa p = Inr (q, acc)" "accrue_fees q acc now = Inr x"
    "encode (accumulator_codec E) (accrual_accumulator x) = Some a"
    and ds: "ds = [Unchanged caller, Unchanged ppa, NewData aa (Add 0) a, Unchanged sd, Unchanged mh, Unchanged clk]"
  from plain_accrual_write [OF run(2) _ _ run(3)] fee_accrual_stored [OF run(1)] show ?thesis
    by (simp add: stable_effect_def ds del: stable_write.simps(2) authorized_ids_simps)
qed

lemma update_redemption_rate_effect:
  assumes "update_redemption_rate E caller ppa ra oa clk p = Inr (ds, cs)"
  shows "stable_effect E p [caller, ppa, ra, oa, clk] ds"
  using assms
proof (rule update_redemption_rate_run)
  fix q r orc now d
  assume run: "decode_redemption_inputs E ppa ra p = Inr (q, r)"
    "advance_redemption_price E q r (oracle_price orc) now = Inr d"
    and ds: "ds = [Unchanged caller, Unchanged ppa, NewData ra (Add 0) d, Unchanged oa, Unchanged clk]"
  have "holds_global E (redemption_codec E) (compute_redemption_price_state_pda E p) p ra r"
    using run(1) by (simp add: decode_redemption_inputs_success)
  from redemption_advance_write [OF run(2) this] show ?thesis
    by (simp add: stable_effect_def ds del: stable_write.simps(2) authorized_ids_simps)
qed

lemma refresh_globals_effect:
  assumes "refresh_globals E caller ppa aa sd mh ra oa clk p = Inr (ds, cs)"
  shows "stable_effect E p [caller, ppa, aa, sd, mh, ra, oa, clk] ds"
  using assms
proof (rule refresh_globals_run)
  fix q acc q' r orc now x a dr
  assume run: "decode_fee_accrual_inputs E ppa aa p = Inr (q, acc)"
    "decode_redemption_inputs E ppa ra p = Inr (q', r)" "accrue_fees q acc now = Inr x"
    "encode (accumulator_codec E) (accrual_accumulator x) = Some a"
    "dr = Unchanged ra \<or> (\<exists>o' d. orc = Some o' \<and> dr = NewData ra (Add 0) d \<and>
       advance_redemption_price E q r (oracle_price o') now = Inr d)"
    and ds: "ds = [Unchanged caller, Unchanged ppa, NewData aa (Add 0) a, Unchanged sd, Unchanged mh, dr,
           Unchanged oa, Unchanged clk]"
  have red: "holds_global E (redemption_codec E) (compute_redemption_price_state_pda E p) p ra r"
    using run(2) by (simp add: decode_redemption_inputs_success)
  have "stable_write E p A dr \<and> debt_gain E p dr = 0 \<and> total_gain E p dr = 0 \<and> pre_state dr = ra" for A
    using run(5) redemption_advance_write [OF _ red] by (auto simp del: stable_write.simps(2) authorized_ids_simps)
  with plain_accrual_write [OF run(3) _ _ run(4)] fee_accrual_stored [OF run(1)] show ?thesis
    by (simp add: stable_effect_def ds del: stable_write.simps(2) authorized_ids_simps)
qed

lemma params_update_write:
  assumes "decode_parameters E a p = Inr q" "encode (parameters_codec E) q' = Some d"
    and "params_change A q q'" "params_ok q \<Longrightarrow> params_ok q'"
  shows "stable_write E p A (NewData a (Add 0) d)" "debt_gain E p (NewData a (Add 0) d) = 0"
    "total_gain E p (NewData a (Add 0) d) = 0"
proof -
  have st: "stored_as (parameters_codec E) p (account a) = Some q" "account_id a = compute_protocol_parameters_pda E p"
    using global_stored [OF assms(1) [unfolded decode_globals_success]] by blast+
  then show "stable_write E p A (NewData a (Add 0) d)"
    using assms(2-4) by (auto simp: params_write_def)
  show "debt_gain E p (NewData a (Add 0) d) = 0" "total_gain E p (NewData a (Add 0) d) = 0"
    using params_gain [OF assms(2)] st(1) by blast+
qed

lemma update_parameters_effect:
  assumes "update_parameters E admin ppa p f = Inr (ds, cs)"
    and "\<And>q q'. f q = Inr q' \<Longrightarrow> params_ok q \<Longrightarrow> params_ok q'"
    and "\<And>q q'. f q = Inr q' \<Longrightarrow> is_frozen q' = is_frozen q \<and>
      stablecoin_definition_id q' = stablecoin_definition_id q \<and>
      collateral_definition_id q' = collateral_definition_id q"
    and "set [admin, ppa] \<subseteq> set accounts"
  shows "map pre_state ds = [admin, ppa] \<and> list_all (stable_write E p (authorized_ids accounts)) ds \<and>
    (\<Sum>d\<leftarrow>ds. debt_gain E p d) = (\<Sum>d\<leftarrow>ds. total_gain E p d)"
  using assms(1)
proof (rule update_parameters_run)
  fix q q' d
  assume run: "decode_parameters E ppa p = Inr q" "is_authorized admin" "account_id admin = admin_account_id q"
    "f q = Inr q'" "encode (parameters_codec E) q' = Some d"
    and ds: "ds = [Unchanged admin, NewData ppa (Add 0) d]"
  have "admin_account_id q \<in> authorized_ids accounts"
    using run(2) assms(4) by (auto simp: authorized_ids_def simp flip: run(3))
  then have "params_change (authorized_ids accounts) q q'"
    using assms(3) [OF run(4)] by (simp add: params_change_def)
  from params_update_write [OF run(1,5) this assms(2) [OF run(4)]] show ?thesis
    by (simp add: ds del: stable_write.simps(2) authorized_ids_simps)
qed

lemma setters_effect:
  "set_minimum_collateralization_ratio E admin ppa p r = Inr (ds, cs) \<Longrightarrow> stable_effect E p [admin, ppa] ds"
  "set_controller_gains E admin ppa p kp ki = Inr (ds, cs) \<Longrightarrow> stable_effect E p [admin, ppa] ds"
  "set_timing_parameters E admin ppa p t1 t2 = Inr (ds, cs) \<Longrightarrow> stable_effect E p [admin, ppa] ds"
  "set_admin E admin ppa p i = Inr (ds, cs) \<Longrightarrow> stable_effect E p [admin, ppa] ds"
  "set_freeze_authority E admin ppa p i = Inr (ds, cs) \<Longrightarrow> stable_effect E p [admin, ppa] ds"
  unfolding set_minimum_collateralization_ratio_def set_controller_gains_def set_timing_parameters_def
    set_admin_def set_freeze_authority_def stable_effect_def
  by (erule update_parameters_effect; auto simp: success params_ok_def)+

text \<open>The setter of the oracle: its closure, and the two steps it composes.\<close>

lemma set_market_price_oracle_effect:
  assumes "set_market_price_oracle E admin ppa no p = Inr (ds, cs)"
  shows "stable_effect E p [admin, ppa, no] ds"
proof -
  from assms obtain f ds' cs' where up: "update_parameters E admin ppa p f = Inr (ds', cs')"
    and f: "\<forall>q q'. f q = Inr q' \<longrightarrow> q' = q \<lparr> market_price_oracle_id := account_id no \<rparr>"
    and ds: "ds = ds' @ [Unchanged no]"
    unfolding set_market_price_oracle_def attempt_success
    by (clarsimp) (drule meta_spec, drule meta_spec, drule meta_spec, drule meta_mp, assumption,
      drule meta_mp, auto simp: attempt_success)
  have "map pre_state ds' = [admin, ppa] \<and> list_all (stable_write E p (authorized_ids [admin, ppa, no])) ds' \<and>
    (\<Sum>d\<leftarrow>ds'. debt_gain E p d) = (\<Sum>d\<leftarrow>ds'. total_gain E p d)"
  proof (rule update_parameters_effect [OF up])
    fix q q'
    assume "f q = Inr q'"
    then have q': "q' = q \<lparr> market_price_oracle_id := account_id no \<rparr>"
      using f by blast
    show "params_ok q'" if "params_ok q"
      using that by (simp add: q' params_ok_def)
    show "is_frozen q' = is_frozen q \<and> stablecoin_definition_id q' = stablecoin_definition_id q \<and>
        collateral_definition_id q' = collateral_definition_id q"
      by (simp add: q')
  qed simp
  then show ?thesis
    by (simp add: stable_effect_def ds del: authorized_ids_simps)
qed

lemma set_stability_fee_effect:
  assumes "set_stability_fee_per_millisecond E admin ppa aa sd mh clk p f = Inr (ds, cs)"
  shows "stable_effect E p [admin, ppa, aa, sd, mh, clk] ds"
  using assms
proof (rule set_stability_fee_run)
  fix q acc now x a d
  assume run: "decode_parameters E ppa p = Inr q" "is_authorized admin" "account_id admin = admin_account_id q"
    "scale \<le> unat f" "unat f \<le> scale + 21965000000000000"
    "decode_accumulator E aa p = Inr acc" "accrue_fees q acc now = Inr x"
    "encode (parameters_codec E) (q \<lparr> stability_fee_per_millisecond := f \<rparr>) = Some d"
    "encode (accumulator_codec E) (accrual_accumulator x) = Some a"
    and ds: "ds = [Unchanged admin, NewData ppa (Add 0) d, NewData aa (Add 0) a, Unchanged sd, Unchanged mh, Unchanged clk]"
  have "admin_account_id q \<in> authorized_ids [admin, ppa, aa, sd, mh, clk]"
    using run(2) by (simp flip: run(3))
  then have "params_change (authorized_ids [admin, ppa, aa, sd, mh, clk]) q (q \<lparr> stability_fee_per_millisecond := f \<rparr>)"
    by (simp add: params_change_def del: authorized_ids_simps)
  note pw = params_update_write [OF run(1,8) this]
  have "params_ok q \<Longrightarrow> params_ok (q \<lparr> stability_fee_per_millisecond := f \<rparr>)"
    using run(4,5) by (simp add: params_ok_def)
  with pw plain_accrual_write [OF run(7) _ _ run(9)] global_stored [OF run(6) [unfolded decode_globals_success]]
  show ?thesis
    by (simp add: stable_effect_def ds del: stable_write.simps(2) authorized_ids_simps)
qed

lemma set_frozen_effect:
  assumes "set_frozen E fa ppa p z = Inr (ds, cs)"
  shows "stable_effect E p [fa, ppa] ds"
  using assms
proof (rule set_frozen_run)
  fix q d
  assume run: "decode_parameters E ppa p = Inr q" "is_authorized fa" "account_id fa = freeze_authority_account_id q"
    "encode (parameters_codec E) (q \<lparr> is_frozen := z \<rparr>) = Some d"
    and ds: "ds = [Unchanged fa, NewData ppa (Add 0) d]"
  have "freeze_authority_account_id q \<in> authorized_ids [fa, ppa]"
    using run(2) by (simp flip: run(3))
  then have "params_change (authorized_ids [fa, ppa]) q (q \<lparr> is_frozen := z \<rparr>)"
    by (simp add: params_change_def del: authorized_ids_simps)
  note pw = params_update_write [OF run(1,4) this]
  have "params_ok q \<Longrightarrow> params_ok (q \<lparr> is_frozen := z \<rparr>)"
    by (simp add: params_ok_def)
  with pw show ?thesis
    by (simp add: stable_effect_def ds del: stable_write.simps(2) authorized_ids_simps)
qed

lemma reset_effect:
  assumes "reset_redemption_rate_controller E au ppa ra clk p = Inr (ds, cs)"
  shows "stable_effect E p [au, ppa, ra, clk] ds"
  using assms
proof (rule reset_redemption_rate_controller_run)
  fix q r now c d
  let ?r = "\<lparr> redemption_price_at_last_update = c, redemption_rate_per_millisecond = FIXED_POINT_ONE,
    controller_integral_term = 0, last_updated_at = now \<rparr>"
  assume run: "decode_redemption E ra p = Inr r"
    "bound_redemption_price (compute_current_redemption_price_wide (redemption_price_at_last_update r)
       (redemption_rate_per_millisecond r) (last_updated_at r) now) = Inr c"
    "encode (redemption_codec E) ?r = Some d"
    and ds: "ds = [Unchanged au, Unchanged ppa, NewData ra (Add 0) d, Unchanged clk]"
  have "unat c = max (min (unat (compute_current_redemption_price_wide (redemption_price_at_last_update r)
       (redemption_rate_per_millisecond r) (last_updated_at r) now)) (2 ^ 127 - 1)) 1000000000"
    using bound_redemption_price_total [of "compute_current_redemption_price_wide (redemption_price_at_last_update r)
       (redemption_rate_per_millisecond r) (last_updated_at r) now"] run(2) by auto
  then have "redemption_ok ?r"
    by (simp add: redemption_ok_def)
  then have "stable_write E p A (NewData ra (Add 0) d)" for A
    using global_stored [OF run(1) [unfolded decode_globals_success]] run(3) by (auto simp: redemption_write_def)
  moreover have "debt_gain E p (NewData ra (Add 0) d) = 0" "total_gain E p (NewData ra (Add 0) d) = 0"
    using redemption_gain [OF run(3)] global_stored [OF run(1) [unfolded decode_globals_success]] by blast+
  ultimately show ?thesis
    by (simp add: stable_effect_def ds del: stable_write.simps(2) authorized_ids_simps)
qed

lemma initialize_program_effect:
  assumes "initialize_program E admin ppa aa ra sd mh cd oa clk p x = Inr (ds, cs)"
  shows "stable_effect E p [admin, ppa, aa, ra, sd, mh, cd, oa, clk] ds"
  using assms
proof (rule initialize_program_run)
  fix q acc r now d a dr
  assume run: "account ppa = account_default E" "account aa = account_default E" "account ra = account_default E"
    "account_id ppa = compute_protocol_parameters_pda E p"
    "account_id aa = compute_stability_fee_accumulator_pda E p"
    "account_id ra = compute_redemption_price_state_pda E p" "params_ok q"
    "acc = \<lparr> accumulated_rate_at_last_accrual = FIXED_POINT_ONE, last_accrued_at = now, total_normalized_debt = 0 \<rparr>"
    "redemption_ok r" "encode (parameters_codec E) q = Some d" "encode (accumulator_codec E) acc = Some a"
    "encode (redemption_codec E) r = Some dr"
    and ds: "ds = [Unchanged admin, NewData ppa (Add 0) d, NewData aa (Add 0) a, NewData ra (Add 0) dr, Unchanged sd,
             Unchanged mh, Unchanged cd, Unchanged oa, Unchanged clk]"
  have "accumulator_ok acc"
    by (simp add: run(8) accumulator_ok_def)
  then have "stable_write E p A (NewData ppa (Add 0) d)" "stable_write E p A (NewData aa (Add 0) a)"
    "stable_write E p A (NewData ra (Add 0) dr)" for A
    using run by (auto simp: params_write_def accumulator_write_def redemption_write_def)
  then show ?thesis
    using params_gain [OF run(10)] redemption_gain [OF run(12)] accumulator_gain [OF run(11,5), of acc] run(1-3,8)
    by (simp add: stable_effect_def ds del: stable_write.simps(2) authorized_ids_simps)
qed

lemmas effects = initialize_program_effect accrue_stability_fee_effect update_redemption_rate_effect
  refresh_globals_effect open_position_effect deposit_collateral_effect generate_debt_effect
  close_position_effect setters_effect set_market_price_oracle_effect set_stability_fee_effect
  set_frozen_effect withdraw_collateral_effect repay_debt_effect reset_effect

text \<open>Every instruction of the program.\<close>

lemma stable_main_effect:
  assumes "stable_main E p i accounts = Inr (ds, cs)"
  shows "stable_effect E p accounts ds"
  using assms
  by (cases i; auto simp: stable_main_def ensure_success freeze_def unfreeze_def
      dest: effects split: list.splits)

end

end
