(* ===== verification/Stable_Steps.thy ===== *)
theory Stable_Steps
  imports Stable_Ledger
begin

text \<open>
  The stablecoin program over the life of the chain: a step is one of its instructions, its diffs
  applied to the accounts, or anything another program may do.  Every step keeps each account in
  order (\<^theory_text>\<open>stable_sane\<close>), changes the parameters only as their authorities allow, never lowers the
  accumulated rate, and keeps the recorded total debt equal to the sum over the positions.
\<close>

section \<open>Steps\<close>

inductive stable_step ::
  "('d, 'x) stable_env_scheme \<Rightarrow> account_id \<Rightarrow> 'd ledger \<Rightarrow> 'd ledger \<Rightarrow> bool" for E p where
  run: "\<lbrakk> reads_state s accounts;
          stable_main E p instruction accounts = Inr (ds, calls);
          list_all (permitted_write E p) ds \<rbrakk>
        \<Longrightarrow> stable_step E p s (apply_diffs E p s ds)"
| other: "\<lbrakk> \<And>i. program_owner (s i) = p \<Longrightarrow> program_owner (s' i) = p \<and> data (s' i) = data (s i);
            \<And>i. program_owner (s' i) = p \<Longrightarrow> program_owner (s i) = p;
            \<And>i. default_owned E (s' i) \<Longrightarrow> data (s' i) = data (account_default E) \<rbrakk>
        \<Longrightarrow> stable_step E p s s'"

inductive stable_reachable ::
  "('d, 'x) stable_env_scheme \<Rightarrow> account_id \<Rightarrow> 'd ledger \<Rightarrow> 'd ledger \<Rightarrow> bool" for E p s0 where
  start: "stable_reachable E p s0 s0"
| step: "stable_reachable E p s0 s \<Longrightarrow> stable_step E p s s' \<Longrightarrow> stable_reachable E p s0 s'"

section \<open>An account in order\<close>

abbreviation stored_params where "stored_params E p a \<equiv> stored_as (parameters_codec E) p a"
abbreviation stored_accumulator where "stored_accumulator E p a \<equiv> stored_as (accumulator_codec E) p a"
abbreviation stored_redemption where "stored_redemption E p a \<equiv> stored_as (redemption_codec E) p a"
abbreviation stored_position where "stored_position E p a \<equiv> stored_as (position_codec E) p a"

definition stable_sane :: "('d, 'x) stable_env_scheme \<Rightarrow> account_id \<Rightarrow> account_id \<Rightarrow> 'd account \<Rightarrow> bool" where
  "stable_sane E p i a \<longleftrightarrow>
    (default_owned E a \<longrightarrow> data a = data (account_default E)) \<and>
    (\<forall>q. stored_params E p a = Some q \<longrightarrow> i = compute_protocol_parameters_pda E p \<and> params_ok q) \<and>
    (\<forall>y. stored_accumulator E p a = Some y \<longrightarrow>
       i = compute_stability_fee_accumulator_pda E p \<and> accumulator_ok y) \<and>
    (\<forall>r. stored_redemption E p a = Some r \<longrightarrow> i = compute_redemption_price_state_pda E p \<and> redemption_ok r) \<and>
    (\<forall>x. stored_position E p a = Some x \<longrightarrow> position_ok E p i x)"

text \<open>How one account may change: its globals stay, the definitions never move, the rate never falls.\<close>

definition stable_evolves ::
  "('d, 'x) stable_env_scheme \<Rightarrow> account_id \<Rightarrow> account_id \<Rightarrow> 'd account \<Rightarrow> 'd account \<Rightarrow> bool" where
  "stable_evolves E p i a a' \<longleftrightarrow> stable_sane E p i a' \<and>
    (\<forall>q. stored_params E p a = Some q \<longrightarrow> (\<exists>q'. stored_params E p a' = Some q' \<and>
       stablecoin_definition_id q' = stablecoin_definition_id q \<and>
       collateral_definition_id q' = collateral_definition_id q)) \<and>
    (\<forall>y. stored_accumulator E p a = Some y \<longrightarrow> (\<exists>y'. stored_accumulator E p a' = Some y' \<and>
       accumulated_rate_at_last_accrual y \<le> accumulated_rate_at_last_accrual y')) \<and>
    (\<forall>r. stored_redemption E p a = Some r \<longrightarrow> (\<exists>r'. stored_redemption E p a' = Some r'))"

text \<open>The total the accumulator records, and that it is the sum over the positions.\<close>

definition recorded_debt :: "('d, 'x) stable_env_scheme \<Rightarrow> account_id \<Rightarrow> 'd ledger \<Rightarrow> nat" where
  "recorded_debt E p s = (case stored_accumulator E p (s (compute_stability_fee_accumulator_pda E p)) of
     Some y \<Rightarrow> unat (total_normalized_debt y) | None \<Rightarrow> 0)"

definition debts_recorded :: "('d, 'x) stable_env_scheme \<Rightarrow> account_id \<Rightarrow> 'd ledger \<Rightarrow> bool" where
  "debts_recorded E p s \<longleftrightarrow> (\<Sum>i\<in>UNIV. debt_of E p (s i)) = recorded_debt E p s"

lemma stable_evolves_sane: "stable_evolves E p i a a' \<Longrightarrow> stable_sane E p i a'"
  by (simp add: stable_evolves_def)

lemma stable_evolves_same:
  assumes "stable_sane E p i a" "program_owner a' = program_owner a" "data a' = data a"
  shows "stable_evolves E p i a a'"
proof -
  have "stored_params E p a' = stored_params E p a" "stored_accumulator E p a' = stored_accumulator E p a"
    "stored_redemption E p a' = stored_redemption E p a" "stored_position E p a' = stored_position E p a"
    "default_owned E a' = default_owned E a"
    using assms(2,3) by (simp_all add: stored_as_def default_owned_def)
  then show ?thesis
    using assms(1,3) by (simp add: stable_evolves_def stable_sane_def)
qed

lemma stable_evolves_trans:
  assumes "stable_evolves E p i a b" "stable_evolves E p i b c"
  shows "stable_evolves E p i a c"
proof -
  have "\<exists>y'. stored_accumulator E p c = Some y' \<and>
      accumulated_rate_at_last_accrual y \<le> accumulated_rate_at_last_accrual y'"
    if "stored_accumulator E p a = Some y" for y
    using that assms unfolding stable_evolves_def by (meson order_trans)
  moreover have "\<exists>q'. stored_params E p c = Some q' \<and>
      stablecoin_definition_id q' = stablecoin_definition_id q \<and>
      collateral_definition_id q' = collateral_definition_id q" if "stored_params E p a = Some q" for q
    using that assms unfolding stable_evolves_def by metis
  moreover have "\<exists>r'. stored_redemption E p c = Some r'" if "stored_redemption E p a = Some r" for r
    using that assms unfolding stable_evolves_def by blast
  ultimately show ?thesis
    using assms(2) by (simp add: stable_evolves_def)
qed

context stable_runtime
begin

text \<open>What is stored after a write of one of the four account types.\<close>

lemma stored_after:
  assumes "program_owner a = p"
  shows "decode (parameters_codec E) (data a) = Some q \<Longrightarrow> stored_params E p a = Some q \<and>
      stored_accumulator E p a = None \<and> stored_redemption E p a = None \<and> stored_position E p a = None"
    and "decode (accumulator_codec E) (data a) = Some y \<Longrightarrow> stored_accumulator E p a = Some y \<and>
      stored_params E p a = None \<and> stored_redemption E p a = None \<and> stored_position E p a = None"
    and "decode (redemption_codec E) (data a) = Some r \<Longrightarrow> stored_redemption E p a = Some r \<and>
      stored_params E p a = None \<and> stored_accumulator E p a = None \<and> stored_position E p a = None"
    and "decode (position_codec E) (data a) = Some x \<Longrightarrow> stored_position E p a = Some x \<and>
      stored_params E p a = None \<and> stored_accumulator E p a = None \<and> stored_redemption E p a = None"
  using assms by (auto simp: stored_as_def dest: apart)

lemma stored_owner: "stored_as C p a = Some x \<Longrightarrow> program_owner a = p \<and> decode C (data a) = Some x"
  by (simp add: stored_as_def split: if_splits)

lemma owned_not_default: "program_owner a = p \<Longrightarrow> \<not> default_owned E a"
  using program_owned by (simp add: default_owned_def)

lemma params_write_evolves:
  assumes "params_write E p A a d" "stable_sane E p (account_id a) (account a)"
    and "program_owner a' = p" "data a' = d"
  shows "stable_evolves E p (account_id a) (account a) a'"
proof -
  from assms(1) obtain q' where q': "account_id a = compute_protocol_parameters_pda E p"
    "encode (parameters_codec E) q' = Some d"
    "account a = account_default E \<and> params_ok q' \<or>
       (\<exists>q. stored_params E p (account a) = Some q \<and> params_change A q q' \<and> (params_ok q \<longrightarrow> params_ok q'))"
    unfolding params_write_def by blast
  note new = stored_after(1) [OF assms(3), unfolded assms(4), OF decodes(2) [OF q'(2)]]
  from q'(3) show ?thesis
  proof
    assume "account a = account_default E \<and> params_ok q'"
    then show ?thesis
      using new q'(1) owned_not_default [OF assms(3)]
      by (simp add: stable_evolves_def stable_sane_def default_stores_nothing(2))
  next
    assume "\<exists>q. stored_params E p (account a) = Some q \<and> params_change A q q' \<and> (params_ok q \<longrightarrow> params_ok q')"
    then obtain q where q: "stored_params E p (account a) = Some q" "params_change A q q'" "params_ok q \<longrightarrow> params_ok q'"
      by blast
    note old = stored_after(1) [OF conjunct1 [OF stored_owner [OF q(1)]] conjunct2 [OF stored_owner [OF q(1)]]]
    have "params_ok q'"
      using q assms(2) by (simp add: stable_sane_def)
    then show ?thesis
      using new old q(2) q'(1) owned_not_default [OF assms(3)]
      by (simp add: stable_evolves_def stable_sane_def params_change_def)
  qed
qed

lemma accumulator_write_evolves:
  assumes "accumulator_write E p a d" "stable_sane E p (account_id a) (account a)"
    and "program_owner a' = p" "data a' = d"
  shows "stable_evolves E p (account_id a) (account a) a'"
proof -
  from assms(1) obtain y' where y': "account_id a = compute_stability_fee_accumulator_pda E p"
    "encode (accumulator_codec E) y' = Some d"
    "account a = account_default E \<and> accumulator_ok y' \<or>
       (\<exists>y. stored_accumulator E p (account a) = Some y \<and>
          accumulated_rate_at_last_accrual y \<le> accumulated_rate_at_last_accrual y')"
    unfolding accumulator_write_def by blast
  note new = stored_after(2) [OF assms(3), unfolded assms(4), OF decodes(4) [OF y'(2)]]
  from y'(3) show ?thesis
  proof
    assume "account a = account_default E \<and> accumulator_ok y'"
    then show ?thesis
      using new y'(1) owned_not_default [OF assms(3)]
      by (simp add: stable_evolves_def stable_sane_def default_stores_nothing(2))
  next
    assume "\<exists>y. stored_accumulator E p (account a) = Some y \<and>
          accumulated_rate_at_last_accrual y \<le> accumulated_rate_at_last_accrual y'"
    then obtain y where y: "stored_accumulator E p (account a) = Some y"
      "accumulated_rate_at_last_accrual y \<le> accumulated_rate_at_last_accrual y'"
      by blast
    note old = stored_after(2) [OF conjunct1 [OF stored_owner [OF y(1)]] conjunct2 [OF stored_owner [OF y(1)]]]
    have "accumulator_ok y"
      using y(1) assms(2) by (simp add: stable_sane_def)
    then have "accumulator_ok y'"
      using y(2) by (simp add: accumulator_ok_def word_le_nat_alt)
    then show ?thesis
      using new old y(2) y'(1) owned_not_default [OF assms(3)]
      by (simp add: stable_evolves_def stable_sane_def)
  qed
qed

lemma redemption_write_evolves:
  assumes "redemption_write E p a d" "program_owner a' = p" "data a' = d"
  shows "stable_evolves E p (account_id a) (account a) a'"
proof -
  from assms(1) obtain r' where r': "account_id a = compute_redemption_price_state_pda E p"
    "encode (redemption_codec E) r' = Some d" "redemption_ok r'"
    "account a = account_default E \<or> (\<exists>r. stored_redemption E p (account a) = Some r)"
    unfolding redemption_write_def by blast
  note new = stored_after(3) [OF assms(2), unfolded assms(3), OF decodes(3) [OF r'(2)]]
  have "stored_params E p (account a) = None" "stored_accumulator E p (account a) = None"
    using r'(4) default_stores_nothing(2) stored_after(3) stored_owner by metis+
  then show ?thesis
    using new r'(1,3) owned_not_default [OF assms(2)] by (simp add: stable_evolves_def stable_sane_def)
qed

lemma position_ok_same: "position_ok E p i x \<Longrightarrow> same_position x x' \<Longrightarrow> position_ok E p i x'"
  by (simp add: position_ok_def same_position_def)

lemma position_write_evolves:
  assumes "position_write E p A a d" "stable_sane E p (account_id a) (account a)"
    and "program_owner a' = p" "data a' = d"
  shows "stable_evolves E p (account_id a) (account a) a'"
proof -
  have old: "stored_params E p (account a) = None" "stored_accumulator E p (account a) = None"
    "stored_redemption E p (account a) = None"
    using assms(1) default_stores_nothing(2) stored_after(4) stored_owner unfolding position_write_def by metis+
  from assms(1) consider
      (kept) x' where "encode (position_codec E) x' = Some d" "position_ok E p (account_id a) x'"
    | (closed) "d = data (account_default E)"
  proof -
    have "position_ok E p (account_id a) x" if "stored_position E p (account a) = Some x" for x
      using that assms(2) by (simp add: stable_sane_def)
    then show ?thesis
      using that assms(1) position_ok_same unfolding position_write_def by blast
  qed
  then show ?thesis
  proof cases
    case kept
    note new = stored_after(4) [OF assms(3), unfolded assms(4), OF decodes(1) [OF kept(1)]]
    show ?thesis
      using new old kept(2) owned_not_default [OF assms(3)] by (simp add: stable_evolves_def stable_sane_def)
  next
    case closed
    then have "stored_params E p a' = None" "stored_accumulator E p a' = None" "stored_redemption E p a' = None"
      "stored_position E p a' = None"
      using blank assms(4) by (simp_all add: stored_as_def)
    then show ?thesis
      using old owned_not_default [OF assms(3)] by (simp add: stable_evolves_def stable_sane_def)
  qed
qed

section \<open>Runs\<close>

text \<open>The diffs of a run touch distinct accounts and start from what the ledger holds.\<close>

lemma run_diffs:
  assumes "reads_state s accounts" "map pre_state ds = accounts"
  shows "distinct (map (account_id \<circ> pre_state) ds)"
    and "d \<in> set ds \<Longrightarrow> account (pre_state d) = s (account_id (pre_state d))"
proof -
  have "map (account_id \<circ> pre_state) ds = map account_id accounts"
    by (simp flip: assms(2))
  then show "distinct (map (account_id \<circ> pre_state) ds)"
    using assms(1) by (simp add: reads_state_def)
  show "account (pre_state d) = s (account_id (pre_state d))" if "d \<in> set ds"
    using assms that by (auto simp: reads_state_def list_all_iff)
qed

lemma write_evolves:
  assumes "stable_write E p A d" "stable_sane E p (account_id (pre_state d)) (account (pre_state d))"
    and "permitted_write E p d"
  shows "stable_evolves E p (account_id (pre_state d)) (account (pre_state d)) (post_account E p d)"
proof (cases "writes_data d")
  case False
  then have "program_owner (post_account E p d) = program_owner (account (pre_state d))"
    "data (post_account E p d) = data (account (pre_state d))"
    by (simp_all add: post_owner_def writes_data_def)
  then show ?thesis
    using stable_evolves_same assms(2) by blast
next
  case True
  then obtain a b x where d: "d = NewData a b x"
    by (cases d) (auto simp: writes_data_def)
  have owner: "program_owner (post_account E p d) = p"
    using True assms(3) by (auto simp: post_owner_def permitted_write_def)
  have "data (post_account E p d) = x"
    by (simp add: d)
  then show ?thesis
    using assms(1,2) owner params_write_evolves accumulator_write_evolves redemption_write_evolves
      position_write_evolves
    unfolding d pre_state.simps stable_write.simps by metis
qed

lemma run_evolves:
  assumes "\<forall>i. stable_sane E p i (s i)" "reads_state s accounts"
    and "stable_main E p instruction accounts = Inr (ds, calls)" "list_all (permitted_write E p) ds"
  shows "stable_evolves E p i (s i) (apply_diffs E p s ds i)"
proof -
  note eff = stable_main_effect [OF assms(3), unfolded stable_effect_def]
  note rd = run_diffs [OF assms(2) conjunct1 [OF eff]]
  show ?thesis
  proof (cases rule: apply_diffs_cases [OF rd(1), where E = E and p = p and s = s and i = i])
    case 1
    show ?thesis
      unfolding 1 by (rule stable_evolves_same) (simp_all add: assms(1))
  next
    case (2 d)
    have "stable_write E p (authorized_ids accounts) d" "permitted_write E p d"
      using eff assms(4) 2(1) by (auto simp: list_all_iff)
    moreover have "account (pre_state d) = s i"
      using rd(2) [OF 2(1)] 2(2) by simp
    ultimately show ?thesis
      using write_evolves [of "authorized_ids accounts" d] assms(1) 2(2,3) by simp
  qed
qed

lemma other_evolves:
  assumes "program_owner a = p \<Longrightarrow> program_owner a' = p \<and> data a' = data a"
    and "program_owner a' = p \<Longrightarrow> program_owner a = p"
    and "default_owned E a' \<Longrightarrow> data a' = data (account_default E)" "stable_sane E p i a"
  shows "stable_evolves E p i a a'"
proof (cases "program_owner a = p")
  case True
  then show ?thesis
    using stable_evolves_same [OF assms(4)] assms(1) by simp
next
  case False
  then have "stored_params E p a = None" "stored_accumulator E p a = None" "stored_redemption E p a = None"
    "stored_params E p a' = None" "stored_accumulator E p a' = None" "stored_redemption E p a' = None"
    "stored_position E p a' = None"
    using assms(2) by (auto simp: stored_as_def)
  then show ?thesis
    using assms(3) by (simp add: stable_evolves_def stable_sane_def)
qed

lemma step_evolves:
  assumes "stable_step E p s s'" "\<forall>i. stable_sane E p i (s i)"
  shows "stable_evolves E p i (s i) (s' i)"
  using assms
proof cases
  case (run accounts instruction ds calls)
  then show ?thesis
    using run_evolves assms(2) by blast
next
  case other
  then show ?thesis
    using other_evolves assms(2) by blast
qed

lemma reachable_evolves:
  assumes "stable_reachable E p s0 s" "\<forall>i. stable_sane E p i (s0 i)"
  shows "stable_evolves E p i (s0 i) (s i)"
  using assms
proof (induction arbitrary: i rule: stable_reachable.induct)
  case start
  then show ?case
    by (intro stable_evolves_same) simp_all
next
  case (step s s')
  then have "\<forall>i. stable_sane E p i (s i)"
    using stable_evolves_sane by blast
  then show ?case
    using step stable_evolves_trans step_evolves by blast
qed

section \<open>The debt on the books\<close>

lemma int_sum_list: "int (\<Sum>d\<leftarrow>ds. f d) = (\<Sum>d\<leftarrow>ds. int (f d))"
  by (induction ds) simp_all

lemma sum_total_of: "(\<Sum>i\<in>UNIV. total_of E p i (s i)) = recorded_debt E p s"
  by (simp add: total_of_def recorded_debt_def)

lemma run_debts:
  assumes "reads_state s accounts" "stable_main E p instruction accounts = Inr (ds, calls)"
    and "debts_recorded E p s"
  shows "debts_recorded E p (apply_diffs E p s ds)"
proof -
  note eff = stable_main_effect [OF assms(2), unfolded stable_effect_def]
  note rd = run_diffs [OF assms(1) conjunct1 [OF eff]]
  let ?dp = "\<Sum>d\<leftarrow>ds. debt_of E p (account (pre_state d))" and ?dq = "\<Sum>d\<leftarrow>ds. debt_of E p (post_account E p d)"
  let ?tp = "\<Sum>d\<leftarrow>ds. total_of E p (account_id (pre_state d)) (account (pre_state d))"
  let ?tq = "\<Sum>d\<leftarrow>ds. total_of E p (account_id (pre_state d)) (post_account E p d)"
  have "(\<Sum>d\<leftarrow>ds. debt_gain E p d) = int ?dq - int ?dp" "(\<Sum>d\<leftarrow>ds. total_gain E p d) = int ?tq - int ?tp"
    by (simp_all add: debt_gain_def total_gain_def int_sum_list sum_list_subtractf)
  then have "?dq + ?tp = ?dp + ?tq"
    using eff by linarith
  moreover have "(\<Sum>i\<in>UNIV. debt_of E p (apply_diffs E p s ds i)) + ?dp = (\<Sum>i\<in>UNIV. debt_of E p (s i)) + ?dq"
    using sum_apply_diffs [OF rd, of "\<lambda>i. debt_of E p" E p] by simp
  moreover have "recorded_debt E p (apply_diffs E p s ds) + ?tp = recorded_debt E p s + ?tq"
    using sum_apply_diffs [OF rd, of "total_of E p" E p] by (simp add: sum_total_of)
  ultimately show ?thesis
    using assms(3) by (simp add: debts_recorded_def)
qed

lemma step_debts:
  assumes "stable_step E p s s'" "debts_recorded E p s"
  shows "debts_recorded E p s'"
  using assms(1)
proof cases
  case (run accounts instruction ds calls)
  then show ?thesis
    using run_debts assms(2) by blast
next
  case other
  have "stored_position E p (s' i) = stored_position E p (s i)"
    "stored_accumulator E p (s' i) = stored_accumulator E p (s i)" for i
    using other(1,2) [of i] by (auto simp: stored_as_def)
  then have "debt_of E p (s' i) = debt_of E p (s i)" "recorded_debt E p s' = recorded_debt E p s" for i
    by (simp_all add: debt_of_def recorded_debt_def)
  then show ?thesis
    using assms(2) by (simp add: debts_recorded_def)
qed

lemma reachable_debts: "stable_reachable E p s0 s \<Longrightarrow> debts_recorded E p s0 \<Longrightarrow> debts_recorded E p s"
  by (induction rule: stable_reachable.induct) (auto intro: step_debts)

section \<open>Who may change what\<close>

text \<open>The write of an account whose stored content changed.\<close>

lemma run_writes:
  assumes "reads_state s accounts" "stable_main E p instruction accounts = Inr (ds, calls)"
    and "list_all (permitted_write E p) ds" "stored_as C p (apply_diffs E p s ds i) \<noteq> stored_as C p (s i)"
  obtains a b x where "account_id a = i" "account a = s i" "stable_write E p (authorized_ids accounts) (NewData a b x)"
    "program_owner (apply_diffs E p s ds i) = p" "data (apply_diffs E p s ds i) = x"
proof -
  note eff = stable_main_effect [OF assms(2), unfolded stable_effect_def]
  note rd = run_diffs [OF assms(1) conjunct1 [OF eff]]
  show thesis
  proof (cases rule: apply_diffs_cases [OF rd(1), where E = E and p = p and s = s and i = i])
    case 1
    then show thesis
      using assms(4) by simp
  next
    case (2 d)
    have at: "account (pre_state d) = s i"
      using rd(2) [OF 2(1)] 2(2) by simp
    have w: "writes_data d"
    proof (rule ccontr)
      assume "\<not> writes_data d"
      then have "program_owner (post_account E p d) = program_owner (s i)" "data (post_account E p d) = data (s i)"
        using at by (simp_all add: post_owner_def writes_data_def)
      then show False
        using assms(4) 2(3) by (simp add: stored_as_def split: if_splits)
    qed
    then obtain a b x where d: "d = NewData a b x"
      by (cases d) (auto simp: writes_data_def)
    have "program_owner (post_account E p d) = p"
      using w assms(3) 2(1) by (auto simp: post_owner_def permitted_write_def list_all_iff)
    moreover have "stable_write E p (authorized_ids accounts) d"
      using eff 2(1) by (auto simp: list_all_iff)
    ultimately show thesis
      using that [of a b x] 2 at by (simp add: d)
  qed
qed

lemma run_params_signed:
  assumes "reads_state s accounts" "stable_main E p instruction accounts = Inr (ds, calls)"
    and "list_all (permitted_write E p) ds" "stored_params E p (s i) = Some q"
    and "stored_params E p (apply_diffs E p s ds i) \<noteq> Some q"
  shows "\<exists>q'. stored_params E p (apply_diffs E p s ds i) = Some q' \<and> params_change (authorized_ids accounts) q q'"
proof -
  have "stored_params E p (apply_diffs E p s ds i) \<noteq> stored_params E p (s i)"
    using assms(4,5) by simp
  then obtain a b x where w: "account_id a = i" "account a = s i" "stable_write E p (authorized_ids accounts) (NewData a b x)"
    "program_owner (apply_diffs E p s ds i) = p" "data (apply_diffs E p s ds i) = x"
    using run_writes [OF assms(1-3)] by metis
  have none: "s i \<noteq> account_default E" "stored_accumulator E p (s i) = None"
    "stored_redemption E p (s i) = None" "stored_position E p (s i) = None"
    using assms(4) default_stores_nothing stored_after(1) stored_owner by metis+
  then have "params_write E p (authorized_ids accounts) a x"
    using w(2,3) by (auto simp: accumulator_write_def redemption_write_def position_write_def)
  then obtain q' where "encode (parameters_codec E) q' = Some x" "params_change (authorized_ids accounts) q q'"
    using assms(4) none(1) w(2) by (auto simp: params_write_def)
  then show ?thesis
    using stored_after(1) [OF w(4)] decodes(2) w(5) by auto
qed

lemma run_position_signed:
  assumes "reads_state s accounts" "stable_main E p instruction accounts = Inr (ds, calls)"
    and "list_all (permitted_write E p) ds" "stored_position E p (s i) = Some x"
    and "stored_position E p (apply_diffs E p s ds i) \<noteq> Some x"
  shows "owner_account_id x \<in> authorized_ids accounts \<and>
    (case stored_position E p (apply_diffs E p s ds i) of
       Some x' \<Rightarrow> same_position x x'
     | None \<Rightarrow> normalized_debt_amount x = 0 \<and> collateral_amount x = 0)"
proof -
  have "stored_position E p (apply_diffs E p s ds i) \<noteq> stored_position E p (s i)"
    using assms(4,5) by simp
  then obtain a b d where w: "account_id a = i" "account a = s i" "stable_write E p (authorized_ids accounts) (NewData a b d)"
    "program_owner (apply_diffs E p s ds i) = p" "data (apply_diffs E p s ds i) = d"
    using run_writes [OF assms(1-3)] by metis
  have none: "s i \<noteq> account_default E" "stored_accumulator E p (s i) = None"
    "stored_redemption E p (s i) = None" "stored_params E p (s i) = None"
    using assms(4) default_stores_nothing stored_after(4) stored_owner by metis+
  then have "position_write E p (authorized_ids accounts) a d"
    using w(2,3) by (auto simp: accumulator_write_def redemption_write_def params_write_def)
  then consider x' where "encode (position_codec E) x' = Some d" "same_position x x'"
      "owner_account_id x' \<in> authorized_ids accounts"
    | "d = data (account_default E)" "owner_account_id x \<in> authorized_ids accounts"
      "normalized_debt_amount x = 0" "collateral_amount x = 0"
    using assms(4) none(1) w(2) by (auto simp: position_write_def)
  then show ?thesis
  proof cases
    case 1
    then show ?thesis
      using stored_after(4) [OF w(4)] decodes(1) w(5) by (auto simp: same_position_def)
  next
    case 2
    then have "stored_position E p (apply_diffs E p s ds i) = None"
      using blank w(5) by (simp add: stored_as_def)
    then show ?thesis
      using 2 by simp
  qed
qed

end

end
