(* ===== verification/Stable_Borsh.thy ===== *)
theory Stable_Borsh
  imports Stable_Steps Twap_Borsh
begin

text \<open>
  The Borsh codecs of the four account types of the stablecoin program, and a concrete environment on
  which the interface \<^theory_text>\<open>stable_runtime\<close> is interpreted.
\<close>

section \<open>The account types\<close>

definition ser_position :: "position \<Rightarrow> bytes" where
  "ser_position x =
    to_bytes (owner_account_id x) @ to_le_bytes (position_nonce x) @ to_bytes (vault_account_id x) @
    to_le_bytes (collateral_amount x) @ to_le_bytes (normalized_debt_amount x) @ to_le_bytes (opened_at x)"

definition de_position :: "position parser" where
  "de_position = de_bind de_id (\<lambda>w. de_bind de_word (\<lambda>n. de_bind de_id (\<lambda>v. de_bind de_word (\<lambda>c.
    de_bind de_word (\<lambda>d. de_bind de_word (\<lambda>t. de_return
      \<lparr> owner_account_id = w, position_nonce = n, vault_account_id = v, collateral_amount = c,
        normalized_debt_amount = d, opened_at = t \<rparr>))))))"

definition ser_parameters :: "protocol_parameters \<Rightarrow> bytes" where
  "ser_parameters q =
    to_bytes (admin_account_id q) @ to_bytes (freeze_authority_account_id q) @
    to_bytes (stablecoin_definition_id q) @ to_bytes (collateral_definition_id q) @
    to_bytes (market_price_oracle_id q) @ to_le_bytes (stability_fee_per_millisecond q) @
    to_le_bytes (controller_proportional_gain q) @ to_le_bytes (controller_integral_gain q) @
    to_le_bytes (minimum_collateralization_ratio q) @
    to_le_bytes (minimum_milliseconds_between_rate_updates q) @
    to_le_bytes (maximum_oracle_price_age_milliseconds q) @ ser_bool (is_frozen q)"

definition de_parameters :: "protocol_parameters parser" where
  "de_parameters = de_bind de_id (\<lambda>adm. de_bind de_id (\<lambda>fa. de_bind de_id (\<lambda>sd. de_bind de_id (\<lambda>cd.
    de_bind de_id (\<lambda>mo. de_bind de_word (\<lambda>fee. de_bind de_word (\<lambda>kp. de_bind de_word (\<lambda>ki.
    de_bind de_word (\<lambda>mr. de_bind de_word (\<lambda>t1. de_bind de_word (\<lambda>t2. de_bind de_bool (\<lambda>z. de_return
      \<lparr> admin_account_id = adm, freeze_authority_account_id = fa, stablecoin_definition_id = sd,
        collateral_definition_id = cd, market_price_oracle_id = mo, stability_fee_per_millisecond = fee,
        controller_proportional_gain = kp, controller_integral_gain = ki, minimum_collateralization_ratio = mr,
        minimum_milliseconds_between_rate_updates = t1, maximum_oracle_price_age_milliseconds = t2,
        is_frozen = z \<rparr>))))))))))))"

definition ser_redemption :: "redemption_price_state \<Rightarrow> bytes" where
  "ser_redemption r =
    to_le_bytes (redemption_price_at_last_update r) @ to_le_bytes (redemption_rate_per_millisecond r) @
    to_le_bytes (controller_integral_term r) @ to_le_bytes (last_updated_at r)"

definition de_redemption :: "redemption_price_state parser" where
  "de_redemption = de_bind de_word (\<lambda>p. de_bind de_word (\<lambda>rate. de_bind de_word (\<lambda>i. de_bind de_word (\<lambda>t.
    de_return \<lparr> redemption_price_at_last_update = p, redemption_rate_per_millisecond = rate,
      controller_integral_term = i, last_updated_at = t \<rparr>))))"

definition ser_accumulator :: "stability_fee_accumulator \<Rightarrow> bytes" where
  "ser_accumulator y =
    to_le_bytes (accumulated_rate_at_last_accrual y) @ to_le_bytes (last_accrued_at y) @
    to_le_bytes (total_normalized_debt y)"

definition de_accumulator :: "stability_fee_accumulator parser" where
  "de_accumulator = de_bind de_word (\<lambda>rate. de_bind de_word (\<lambda>t. de_bind de_word (\<lambda>n. de_return
    \<lparr> accumulated_rate_at_last_accrual = rate, last_accrued_at = t, total_normalized_debt = n \<rparr>)))"

interpretation borsh_position: borsh_type ser_position de_position
  by unfold_locales (simp add: ser_position_def de_position_def borsh)

interpretation borsh_parameters: borsh_type ser_parameters de_parameters
  by unfold_locales (simp add: ser_parameters_def de_parameters_def borsh del: ser_bool.simps)

interpretation borsh_redemption: borsh_type ser_redemption de_redemption
  by unfold_locales (simp add: ser_redemption_def de_redemption_def borsh)

interpretation borsh_accumulator: borsh_type ser_accumulator de_accumulator
  by unfold_locales (simp add: ser_accumulator_def de_accumulator_def borsh)

declare borsh_codec_simps [simp del] ser_holding.simps [simp del] ser_definition.simps [simp del]

text \<open>The four account types are told apart by their length.\<close>

lemma stable_consumes:
  "de_position bs = Some (x, r) \<Longrightarrow> length bs = 112 + length r"
  "de_parameters bs = Some (q, r) \<Longrightarrow> length bs = 241 + length r"
  "de_redemption bs = Some (s, r) \<Longrightarrow> length bs = 56 + length r"
  "de_accumulator bs = Some (y, r) \<Longrightarrow> length bs = 40 + length r"
  unfolding de_position_def de_parameters_def de_redemption_def de_accumulator_def
  by (auto elim!: de_bind_SomeE dest!: de_id_consumes de_word_consumes de_bool_consumes)

lemma decode_length:
  "decode (borsh_codec ser de) d = Some x \<Longrightarrow> (\<And>bs r. de bs = Some (x, r) \<Longrightarrow> length bs = n + length r) \<Longrightarrow>
    length d = n"
  by (auto simp: borsh_codec_simps split: option.splits list.splits)

lemma stable_decode_length:
  "decode (borsh_codec ser_position de_position) d = Some x \<Longrightarrow> length d = 112"
  "decode (borsh_codec ser_parameters de_parameters) d = Some q \<Longrightarrow> length d = 241"
  "decode (borsh_codec ser_redemption de_redemption) d = Some r \<Longrightarrow> length d = 56"
  "decode (borsh_codec ser_accumulator de_accumulator) d = Some y \<Longrightarrow> length d = 40"
  by (erule decode_length, erule stable_consumes)+

section \<open>A concrete environment\<close>

text \<open>The hash of the demonstration: a stand-in of the right type.\<close>

definition stable_hash :: "bytes \<Rightarrow> u256" where
  "stable_hash bs =
    (if length bs \<le> 32 then of_nat (1000 * length bs) + of_nat (unat (bs ! 12))
     else of_nat (1000000 * length bs) + leading_word bs)"

definition borsh_stable_env :: "bytes stable_env" where
  "borsh_stable_env = twap_env.extend (borsh_twap_env \<lparr> sha256 := stable_hash \<rparr>)
    \<lparr> position_codec = borsh_codec ser_position de_position,
      parameters_codec = borsh_codec ser_parameters de_parameters,
      redemption_codec = borsh_codec ser_redemption de_redemption,
      accumulator_codec = borsh_codec ser_accumulator de_accumulator \<rparr>"

lemma stable_env_simps [simp]:
  "default_program_owner borsh_stable_env = 0"
  "account_default borsh_stable_env = empty_account"
  "definition_codec borsh_stable_env = borsh_codec ser_definition de_definition"
  "holding_codec borsh_stable_env = borsh_codec ser_holding de_holding"
  "sha256 borsh_stable_env = stable_hash"
  "for_public_pda borsh_stable_env p seed = p + 7 * seed"
  "clock_01_program_account_id borsh_stable_env = 1"
  "clock_timestamp borsh_stable_env = from_le_bytes"
  "spel_validate borsh_stable_env xs = list_all (\<lambda>(fs, a). list_all (flag_holds empty_account a) fs) xs"
  "oracle_price_codec borsh_stable_env = borsh_codec ser_oracle_price de_oracle_price"
  "position_codec borsh_stable_env = borsh_codec ser_position de_position"
  "parameters_codec borsh_stable_env = borsh_codec ser_parameters de_parameters"
  "redemption_codec borsh_stable_env = borsh_codec ser_redemption de_redemption"
  "accumulator_codec borsh_stable_env = borsh_codec ser_accumulator de_accumulator"
  by (simp_all add: borsh_stable_env_def twap_env.extend_def borsh_twap_env_def token_env.extend_def borsh_env_def)

lemma not_length: "(\<And>x. decode C d = Some x \<Longrightarrow> length d = n) \<Longrightarrow> length d \<noteq> n \<Longrightarrow> decode C d = None"
  by (cases "decode C d") auto

interpretation borsh_stable: stable_runtime borsh_stable_env 6
proof (rule stable_runtime.intro)
  show "codec_laws (position_codec borsh_stable_env)" "codec_laws (parameters_codec borsh_stable_env)"
    "codec_laws (redemption_codec borsh_stable_env)" "codec_laws (accumulator_codec borsh_stable_env)"
    using borsh_position.codec borsh_parameters.codec borsh_redemption.codec borsh_accumulator.codec by simp_all
  note none = not_length [OF stable_decode_length(1)] not_length [OF stable_decode_length(2)]
    not_length [OF stable_decode_length(3)] not_length [OF stable_decode_length(4)]
  show "decode (parameters_codec borsh_stable_env) d = None \<and> decode (redemption_codec borsh_stable_env) d = None \<and>
      decode (accumulator_codec borsh_stable_env) d = None"
    if "decode (position_codec borsh_stable_env) d = Some x" for d x
    using that stable_decode_length(1) [of d x] by (simp add: none)
  show "decode (redemption_codec borsh_stable_env) d = None \<and> decode (accumulator_codec borsh_stable_env) d = None"
    if "decode (parameters_codec borsh_stable_env) d = Some q" for d q
    using that stable_decode_length(2) [of d q] by (simp add: none)
  show "decode (accumulator_codec borsh_stable_env) d = None"
    if "decode (redemption_codec borsh_stable_env) d = Some r" for d r
    using that stable_decode_length(3) [of d r] by (simp add: none)
  show "decode (position_codec borsh_stable_env) (data (account_default borsh_stable_env)) = None"
    "decode (parameters_codec borsh_stable_env) (data (account_default borsh_stable_env)) = None"
    "decode (redemption_codec borsh_stable_env) (data (account_default borsh_stable_env)) = None"
    "decode (accumulator_codec borsh_stable_env) (data (account_default borsh_stable_env)) = None"
    by (simp_all add: none)
qed (simp_all add: default_owned_def)

end
