(* ===== verification/Stable_Safety.thy ===== *)
theory Stable_Safety
  imports Stable_Steps
begin

text \<open>
  Safety of positions: the saturating 512-bit collateralization check is the exact comparison of
  natural numbers, priced on the unbounded projections; rounding never favours the borrower; accrual
  and the price advance cannot panic within the bands.
\<close>

section \<open>The collateralization check\<close>

text \<open>Covered: debt times accumulator, price and ratio is within the collateral, all at fixed point.\<close>

definition covers :: "u128 \<Rightarrow> u128 \<Rightarrow> nat \<Rightarrow> nat \<Rightarrow> u128 \<Rightarrow> bool" where
  "covers collateral debt accumulator price ratio \<longleftrightarrow>
    unat debt * accumulator * price * unat ratio \<le> unat collateral * scale ^ 3"

lemma unat_required_value:
  assumes "0 \<notin> set ops"
  shows "unat (fst (required_value x ops)) = min (unat x * prod_list (map unat ops)) (2 ^ 512 - 1)"
  using assms
proof (induction ops arbitrary: x)
  case Nil
  then show ?case
    using unat_lt [of x] by simp
next
  case (Cons y ops)
  show ?case
  proof (cases "checked_mul x y")
    case (Some z)
    then have "unat z = unat x * unat y"
      by (simp add: checked)
    then show ?thesis
      using Some Cons by (simp add: mult.assoc)
  next
    case None
    then have big: "2 ^ 512 \<le> unat x * unat y"
      by (simp add: checked not_less)
    have "1 \<le> prod_list (map unat ops)"
      using Cons.prems by (induction ops) (auto simp: Suc_le_eq unat_gt_0)
    then have "unat x * unat y * 1 \<le> unat x * unat y * prod_list (map unat ops)"
      by (intro mult_le_mono2)
    also have "\<dots> = unat x * prod_list (map unat (y # ops))"
      by simp
    finally have "2 ^ 512 \<le> unat x * prod_list (map unat (y # ops))"
      using big by (simp only: nat_mult_1_right)
    then have "min (unat x * prod_list (map unat (y # ops))) (2 ^ 512 - 1) = 2 ^ 512 - 1"
      by (intro min_absorb2) linarith
    moreover have "unat (fst (required_value x (y # ops))) = 2 ^ 512 - 1"
      using None by (simp add: unat_max)
    ultimately show ?thesis
      by (simp only:)
  qed
qed

text \<open>The collateral side never wraps, and lies below what a saturated projection requires.\<close>

lemma collateral_below_saturation:
  "unat (c :: u128) * scale ^ 3 < 2 ^ 512 - 1" "unat (c :: u128) * scale ^ 3 < wide_ceiling div scale * scale"
proof -
  have c: "unat c * scale ^ 3 < 2 ^ 128 * scale ^ 3"
    using unat_lt [of c] by (intro mult_strict_right_mono) simp_all
  show "unat c * scale ^ 3 < 2 ^ 512 - 1"
    by (rule less_le_trans [OF c]) simp
  have "2 ^ 128 * scale ^ 2 * scale \<le> wide_ceiling"
    by (rule le_wide_ceiling) simp
  then have "2 ^ 128 * scale ^ 2 \<le> wide_ceiling div scale"
    by (subst less_eq_div_iff_mult_less_eq) simp_all
  then have "2 ^ 128 * scale ^ 2 * scale \<le> wide_ceiling div scale * scale"
    by (rule mult_le_mono1)
  moreover have "2 ^ 128 * scale ^ 2 * scale = 2 ^ 128 * scale ^ 3"
    by (simp add: power3_eq_cube power2_eq_square)
  ultimately show "unat c * scale ^ 3 < wide_ceiling div scale * scale"
    using c by linarith
qed

lemma unat_collateral_value:
  "unat (collateral_value (collateralization_values c d a p r)) = unat c * scale ^ 3"
proof -
  have fits: "unat c * scale ^ 3 < 2 ^ 512"
    using collateral_below_saturation(1) [of c] by linarith
  have one: "unat (widen512 FIXED_POINT_ONE) = scale" "unat (widen512 c) = unat c"
    by (simp_all add: unat_widen512)
  have cube: "unat c * scale ^ 3 = unat c * scale * scale * scale"
    by (simp add: power3_eq_cube)
  have "unat c * scale * scale < 2 ^ 512" "unat c * scale < 2 ^ 512"
    using fits unfolding cube by linarith+
  then have "unat (widen512 c * widen512 FIXED_POINT_ONE * widen512 FIXED_POINT_ONE * widen512 FIXED_POINT_ONE) =
      unat c * scale * scale * scale"
    using fits cube by (simp add: unat_mult_exact)
  then show ?thesis
    by (simp add: collateralization_values_def Let_def cube split: prod.splits)
qed

lemma widen512_eq_0 [simp]: "widen512 a = 0 \<longleftrightarrow> a = 0"
  by (metis unat_eq_zero unat_widen512)

lemma min_le_below: "y < m \<Longrightarrow> min x m \<le> y \<longleftrightarrow> x \<le> (y :: nat)"
  by auto

lemma is_collateralized_iff:
  assumes "a \<noteq> 0" "p \<noteq> 0" "r \<noteq> 0"
  shows "is_collateralized (collateralization_values c d a p r) \<longleftrightarrow> covers c d (unat a) (unat p) r"
proof -
  have "required_collateral_value (collateralization_values c d a p r) =
      fst (required_value (widen512 d) [a, p, widen512 r])"
    by (simp add: collateralization_values_def Let_def split: prod.splits)
  moreover have nz: "0 \<notin> set [a, p, widen512 r]"
    using assms by simp
  ultimately have "unat (required_collateral_value (collateralization_values c d a p r)) =
      min (unat d * unat a * unat p * unat r) (2 ^ 512 - 1)"
    using unat_required_value [OF nz, of "widen512 d"]
    by (simp only: unat_widen512 list.map prod_list.Cons prod_list.Nil mult.assoc mult_1_right)
  then show ?thesis
    unfolding is_collateralized_def covers_def word_le_nat_alt unat_collateral_value
    by (simp only: min_le_below [OF collateral_below_saturation(1)])
qed

lemma four_factors:
  fixes a d k p r s :: nat
  assumes "1 \<le> d" "a \<noteq> 0 \<and> p \<noteq> 0" "k \<le> a \<or> k \<le> p" "s \<le> r"
  shows "k * s \<le> d * a * p * r"
proof -
  have "k \<le> a * p"
    using assms(2,3) by (metis le_trans mult.commute mult_le_mono2 mult_1_right Suc_leI One_nat_def neq0_conv)
  then have "1 * k * s \<le> d * (a * p) * r"
    using assms(1,4) by (intro mult_le_mono)
  then show ?thesis
    by (simp add: mult.assoc)
qed

text \<open>A saturated operand fails the check on both sides, an exact one agrees.\<close>

lemma covers_saturated:
  assumes "scale \<le> unat r" "d \<noteq> 0" "a \<noteq> 0" "p \<noteq> 0" "wide_ceiling div scale \<le> a \<or> wide_ceiling div scale \<le> p"
  shows "\<not> covers c d a p r"
proof -
  have d: "1 \<le> unat d"
    using assms(2) by (simp add: Suc_le_eq unat_gt_0)
  have "wide_ceiling div scale * scale \<le> unat d * a * p * unat r"
    using d assms(3-5) by (intro four_factors [OF _ _ _ assms(1)]) auto
  with collateral_below_saturation(2) [of c] have "unat c * scale ^ 3 < unat d * a * p * unat r"
    by (rule less_le_trans)
  then show ?thesis
    unfolding covers_def by (simp only: not_le)
qed

lemma covers_projected:
  assumes "scale \<le> unat r"
  shows "covers c d (unat (project_forward_wide x f s now)) (unat (project_forward_wide y g t now)) r \<longleftrightarrow>
    covers c d (projected x f s now) (projected y g t now) r"
proof -
  let ?a = "project_forward_wide x f s now" and ?p = "project_forward_wide y g t now"
  let ?a' = "projected x f s now" and ?p' = "projected y g t now"
  note zero = project_forward_wide_0 [of x f s now] project_forward_wide_0 [of y g t now]
  consider "d = 0 \<or> ?a = 0 \<or> ?p = 0" | "unat ?a = ?a'" "unat ?p = ?p'"
    | "d \<noteq> 0" "unat ?a \<noteq> 0" "unat ?p \<noteq> 0" "wide_ceiling div scale \<le> unat ?a \<or> wide_ceiling div scale \<le> unat ?p"
    using project_forward_wide_cases [of x f s now] project_forward_wide_cases [of y g t now]
    by (metis unat_eq_zero)
  then show ?thesis
  proof cases
    case 1
    then show ?thesis
      using zero by (auto simp: covers_def)
  next
    case 3
    then have "?a' \<noteq> 0" "?p' \<noteq> 0" "wide_ceiling div scale \<le> ?a' \<or> wide_ceiling div scale \<le> ?p'"
      using project_forward_wide_le [of x f s now] project_forward_wide_le [of y g t now] by linarith+
    then show ?thesis
      using covers_saturated [OF assms] 3 by blast
  qed simp
qed

text \<open>A position covered at an instant, by the globals as stored.\<close>

definition position_covered ::
  "protocol_parameters \<Rightarrow> stability_fee_accumulator \<Rightarrow> redemption_price_state \<Rightarrow> u64 \<Rightarrow> position \<Rightarrow> bool" where
  "position_covered q y r now x \<longleftrightarrow>
    covers (collateral_amount x) (normalized_debt_amount x)
      (projected (accumulated_rate_at_last_accrual y) (stability_fee_per_millisecond q) (last_accrued_at y) now)
      (projected (redemption_price_at_last_update r) (redemption_rate_per_millisecond r) (last_updated_at r) now)
      (minimum_collateralization_ratio q)"

lemma covers_no_debt [simp]: "covers c 0 a p r"
  by (simp add: covers_def)

lemma collateral_check:
  assumes "scale \<le> unat ratio" "project_forward_wide x f s now \<noteq> 0" "project_forward_wide y g t now \<noteq> 0"
  shows "assert_position_is_collateralized pos (project_forward_wide x f s now) (project_forward_wide y g t now) ratio =
      Inr u \<longleftrightarrow>
    covers (collateral_amount pos) (normalized_debt_amount pos) (projected x f s now) (projected y g t now) ratio"
proof (cases "normalized_debt_amount pos = 0")
  case False
  have "ratio \<noteq> 0"
    using assms(1) by auto
  then show ?thesis
    using False is_collateralized_iff [OF assms(2,3)] covers_projected [OF assms(1)]
    by (simp add: assert_position_is_collateralized_def success)
qed (simp add: assert_position_is_collateralized_def)

lemma narrow_rate_wide:
  assumes "unat c = projected x f s now"
  shows "widen512 c = project_forward_wide x f s now"
proof -
  have "projected x f s now < 2 ^ 128"
    using unat_lt [of c] assms by simp
  then have "unat (project_forward_wide x f s now) = unat (widen512 c)"
    using project_forward_wide_exact assms by simp
  then show ?thesis
    by (simp add: word_unat_eq_iff)
qed

lemma params_ok_ratio: "params_ok q \<Longrightarrow> scale \<le> unat (minimum_collateralization_ratio q)"
  by (simp add: params_ok_def)

lemma accumulator_positive:
  assumes "params_ok q" "accumulator_ok y"
  shows "scale \<le> projected (accumulated_rate_at_last_accrual y) (stability_fee_per_millisecond q) s now"
proof -
  have "scale * scale \<le> unat (accumulated_rate_at_last_accrual y) *
      growth (stability_fee_per_millisecond q) (unat (clamped_elapsed s now))"
    using assms by (intro mult_le_mono growth_ge_one) (simp_all add: params_ok_def accumulator_ok_def)
  then show ?thesis
    unfolding projected_def by (subst less_eq_div_iff_mult_less_eq) simp_all
qed

lemma wide_accumulator_nonzero:
  assumes "params_ok q" "accumulator_ok y"
  shows "project_forward_wide (accumulated_rate_at_last_accrual y) (stability_fee_per_millisecond q) s now \<noteq> 0"
  using accumulator_positive [OF assms, of s now] project_forward_wide_0 by fastforce

section \<open>Debt is priced for the protocol\<close>

text \<open>A change of debt by \<^theory_text>\<open>d\<close> normalized units at a rate.\<close>

lemma added_debt_priced:
  assumes "added_debt x y n = Inr (x', y')"
  obtains d where "unat (normalized_debt_amount x') = unat (normalized_debt_amount x) + d"
    "unat (total_normalized_debt y') = unat (total_normalized_debt y) + d"
    "d = cdiv (unat n * scale) (unat (accumulated_rate_at_last_accrual y))"
    "accumulated_rate_at_last_accrual y \<noteq> 0"
    "x' = x \<lparr> normalized_debt_amount := normalized_debt_amount x' \<rparr>"
    "y' = y \<lparr> total_normalized_debt := total_normalized_debt y' \<rparr>"
  using debt_run(1) [OF assms] by auto

lemma removed_debt_priced:
  assumes "removed_debt x y n = Inr (x', y')"
  obtains d where "unat (normalized_debt_amount x) = unat (normalized_debt_amount x') + d"
    "unat (total_normalized_debt y) = unat (total_normalized_debt y') + d"
    "d = unat n * scale div unat (accumulated_rate_at_last_accrual y)"
    "accumulated_rate_at_last_accrual y \<noteq> 0"
    "x' = x \<lparr> normalized_debt_amount := normalized_debt_amount x' \<rparr>"
    "y' = y \<lparr> total_normalized_debt := total_normalized_debt y' \<rparr>"
  using debt_run(2) [OF assms] by auto

section \<open>Accrual and the price advance do not panic within the bands\<close>

lemma accrue_fees_total:
  assumes "params_ok q" "1014 * unat (accumulated_rate_at_last_accrual y) < 1000 * 2 ^ 128"
    and "14 * unat (total_normalized_debt y) * unat (accumulated_rate_at_last_accrual y) < 1000 * (2 ^ 128 * scale)"
  shows "\<exists>x. accrue_fees q y now = Inr x \<and>
    1000 * unat (accumulated_rate_at_last_accrual (accrual_accumulator x)) \<le>
      1014 * unat (accumulated_rate_at_last_accrual y)"
proof -
  let ?r = "accumulated_rate_at_last_accrual y" and ?t = "total_normalized_debt y"
  let ?p = "projected ?r (stability_fee_per_millisecond q) (last_accrued_at y) now"
  have fee: "scale \<le> unat (stability_fee_per_millisecond q)"
    "unat (stability_fee_per_millisecond q) \<le> scale + 21965000000000000"
    using assms(1) by (simp_all add: params_ok_def)
  obtain f where f: "compound_rate (stability_fee_per_millisecond q) (clamped_elapsed (last_accrued_at y) now) = Inr f"
    "unat f = growth (stability_fee_per_millisecond q) (unat (clamped_elapsed (last_accrued_at y) now))"
    "1000 * unat f \<le> 1014 * scale"
    using fee_growth [OF fee(2)] by blast
  have up: "1000 * ?p \<le> 1014 * unat ?r"
    using f(2,3) by (intro projected_le) simp
  have down: "unat ?r \<le> ?p"
  proof -
    have "unat ?r * scale \<le> unat ?r * unat f"
      unfolding f(2) by (intro mult_le_mono2 growth_ge_one fee(1))
    then show ?thesis
      unfolding projected_def f(2) [symmetric] by (subst less_eq_div_iff_mult_less_eq) simp_all
  qed
  have "?p < 2 ^ 128"
    using up assms(2) by linarith
  then obtain c where c: "mul_div ?r f FIXED_POINT_ONE = Inr c" "unat c = ?p"
    by (simp add: mul_div_cases projected_def f(2) unat_of_nat)
  then obtain \<delta> where \<delta>: "checked_sub c ?r = Some \<delta>" "unat \<delta> = ?p - unat ?r"
    using down by (cases "checked_sub c ?r") (simp_all add: checked)
  have "1000 * unat \<delta> \<le> 14 * unat ?r"
    using up \<delta>(2) by simp
  then have "1000 * (unat ?t * unat \<delta>) \<le> 14 * unat ?t * unat ?r"
    by (metis (no_types) mult.assoc mult.left_commute mult_le_mono2)
  then have "unat ?t * unat \<delta> < 2 ^ 128 * scale"
    using assms(3) by linarith
  then have "unat ?t * unat \<delta> div scale < 2 ^ 128"
    by (subst div_less_iff_less_mult) simp_all
  then obtain g where "mul_div ?t \<delta> FIXED_POINT_ONE = Inr g"
    by (simp add: mul_div_cases)
  then show ?thesis
    using up by (simp add: accrue_fees_def compute_current_accumulated_rate_def f(1) c \<delta>(1))
qed

lemma advance_total:
  assumes "params_ok q" "unat (saturating_sub now (last_updated_at r)) \<le> 170000000000"
  shows "\<exists>r'. advance_redemption_price E q r price now = redemption_data E r' \<and> redemption_ok r' \<and>
    last_updated_at r' = now"
proof -
  let ?w = "compute_current_redemption_price_wide (redemption_price_at_last_update r)
      (redemption_rate_per_millisecond r) (last_updated_at r) now"
  let ?m = "oracle_price_to_fixed_point price" and ?dt = "saturating_sub now (last_updated_at r)"
  obtain p where p: "bound_redemption_price ?w = Inr p"
    using bound_redemption_price_total by blast
  have "int (unat ?dt) \<le> 170000000000"
    using assms(2) by linarith
  then have "fits_i256 (sint (controller_integral_gain q) * (uint p - uint ?m) * uint ?dt)"
    using assms(1) error_bound [of p ?m] by (intro banded_tick_fits) (simp_all add: params_ok_def)
  then obtain out where out: "run_controller_tick p ?m (controller_integral_term r) (controller_proportional_gain q)
      (controller_integral_gain q) ?dt = Inr out"
    using run_controller_tick_cases(1) [of "controller_integral_gain q" p ?m ?dt "controller_integral_term r"
        "controller_proportional_gain q"] by blast
  let ?r' = "\<lparr> redemption_price_at_last_update = p,
         redemption_rate_per_millisecond = out_redemption_rate_per_millisecond out,
         controller_integral_term = out_controller_integral_term out, last_updated_at = now \<rparr>"
  have eq: "advance_redemption_price F q r price now = redemption_data F ?r'" for F :: "('c, 'y) stable_env_scheme"
    by (simp add: advance_redemption_price_def Let_def p out)
  have "redemption_ok ?r'"
    using advanced_ok [OF p out] .
  then show ?thesis
    using eq [of E] by auto
qed

section \<open>Risky instructions\<close>

text \<open>A run of the two instructions that may leave a position with less cover.\<close>

inductive risky_run ::
  "('d, 'x) stable_env_scheme \<Rightarrow> account_id \<Rightarrow> 'd account_with_metadata list \<Rightarrow> 'd state_diff list \<Rightarrow> bool"
  for E p accounts ds where
  risky: "\<lbrakk> {owner, pa, ppa, aa, ra, clk} \<subseteq> set accounts;
    decode_parameters E ppa p = Inr q; decode_accumulator E aa p = Inr y; decode_redemption E ra p = Inr r;
    stable_read_clock E clk = Inr now; read_owned_position E owner pa p = Inr x; \<not> is_frozen q;
    accounts ! 1 = pa; ds ! 1 = NewData pa (Add 0) d; encode (position_codec E) x' = Some d;
    params_ok q \<Longrightarrow> accumulator_ok y \<Longrightarrow> position_covered q y r now x' \<rbrakk>
    \<Longrightarrow> risky_run E p accounts ds"

text \<open>On the accounts of a ledger the globals are the stored ones.\<close>

lemma reads_global:
  assumes "holds_global E C i p a x" "a \<in> set accounts" "reads_state s accounts"
  shows "stored_as C p (s i) = Some x"
  using assms by (auto simp: holds_global_def stored_as_def reads_state_def list_all_iff)

lemma risky_run_reads:
  assumes "risky_run E p accounts ds" "reads_state s accounts"
    and "stored_params E p (s (compute_protocol_parameters_pda E p)) = Some q"
    and "stored_accumulator E p (s (compute_stability_fee_accumulator_pda E p)) = Some y"
    and "stored_redemption E p (s (compute_redemption_price_state_pda E p)) = Some r"
    and "now = clock_timestamp E (data (s (clock_01_program_account_id E)))"
  obtains x' d where "ds ! 1 = NewData (accounts ! 1) (Add 0) d" "encode (position_codec E) x' = Some d"
    "params_ok q \<and> accumulator_ok y \<longrightarrow> position_covered q y r now x'"
proof -
  from assms(1) show thesis
  proof cases
    case (risky owner pa ppa aa ra clk q1 y1 r1 now1 x d x')
    have mem: "ppa \<in> set accounts" "aa \<in> set accounts" "ra \<in> set accounts" "clk \<in> set accounts"
      using risky(1) by simp_all
    have same: "q1 = q" "y1 = y" "r1 = r"
      using reads_global [OF risky(2) [unfolded decode_globals_success] mem(1) assms(2)] assms(3)
        reads_global [OF risky(3) [unfolded decode_globals_success] mem(2) assms(2)] assms(4)
        reads_global [OF risky(4) [unfolded decode_globals_success] mem(3) assms(2)] assms(5) by simp_all
    have "now1 = now"
      using mem(4) risky(5) assms(2,6) by (auto simp: stable_read_clock_success reads_state_def list_all_iff)
    then show thesis
      using that [of d x'] risky(8-11) same by simp
  qed
qed

lemma generate_debt_risky:
  assumes "generate_debt E owner pa sd uh mh aa ra ppa clk p n = Inr (ds, cs)"
  shows "risky_run E p [owner, pa, sd, uh, mh, aa, ra, ppa, clk] ds"
  using assms
proof (rule generate_debt_run)
  fix pos pos' q acc acc' r now x d a h surplus u
  assume run: "read_owned_position E owner pa p = Inr pos"
    "decode_parameters E ppa p = Inr q" "\<not> is_frozen q"
    "decode_accumulator E aa p = Inr acc" "decode_redemption E ra p = Inr r" "stable_read_clock E clk = Inr now"
    "accrue_fees q acc now = Inr x"
    "compute_current_redemption_price_wide (redemption_price_at_last_update r)
       (redemption_rate_per_millisecond r) (last_updated_at r) now \<noteq> 0"
    "assert_position_is_collateralized pos'
       (widen512 (accumulated_rate_at_last_accrual (accrual_accumulator x)))
       (compute_current_redemption_price_wide (redemption_price_at_last_update r)
         (redemption_rate_per_millisecond r) (last_updated_at r) now)
       (minimum_collateralization_ratio q) = Inr u"
    "encode (position_codec E) pos' = Some d"
    "ds = [Unchanged owner, NewData pa (Add 0) d, Unchanged sd, Unchanged uh, Unchanged mh, NewData aa (Add 0) a,
           Unchanged ra, Unchanged ppa, Unchanged clk]"
  have "position_covered q acc r now pos'" if "params_ok q" "accumulator_ok acc"
    using run(9) collateral_check [OF params_ok_ratio [OF that(1)] wide_accumulator_nonzero [OF that]
        run(8) [unfolded compute_current_redemption_price_wide_def]]
    unfolding narrow_rate_wide [OF accrue_fees_run(1) [OF run(7)]] compute_current_redemption_price_wide_def
    by (simp add: position_covered_def)
  then show ?thesis
    using run by (intro risky [of owner pa ppa aa ra clk]) simp_all
qed

lemma withdraw_collateral_risky:
  assumes "withdraw_collateral E owner pa vault uh aa ra ppa clk p n = Inr (ds, cs)" "n \<noteq> 0"
  shows "risky_run E p [owner, pa, vault, uh, aa, ra, ppa, clk] ds"
  using assms(1)
proof (rule withdraw_collateral_run)
  fix pos pos' q acc r now d h hv
  assume run: "decode_parameters E ppa p = Inr q" "\<not> is_frozen q"
    "decode_accumulator E aa p = Inr acc" "decode_redemption E ra p = Inr r"
    "stable_read_clock E clk = Inr now" "read_owned_position E owner pa p = Inr pos"
    "pos' = pos \<lparr> collateral_amount := collateral_amount pos' \<rparr>"
    "encode (position_codec E) pos' = Some d"
    "ds = [Unchanged owner, NewData pa (Add 0) d, Unchanged vault, Unchanged uh, Unchanged aa, Unchanged ra,
           Unchanged ppa, Unchanged clk]"
  assume check: "n \<noteq> 0 \<Longrightarrow> normalized_debt_amount pos \<noteq> 0 \<Longrightarrow>
      compute_current_redemption_price_wide (redemption_price_at_last_update r)
        (redemption_rate_per_millisecond r) (last_updated_at r) now \<noteq> 0 \<and>
      assert_position_is_collateralized pos'
        (compute_current_accumulated_rate_wide (accumulated_rate_at_last_accrual acc)
          (stability_fee_per_millisecond q) (last_accrued_at acc) now)
        (compute_current_redemption_price_wide (redemption_price_at_last_update r)
          (redemption_rate_per_millisecond r) (last_updated_at r) now)
        (minimum_collateralization_ratio q) = Inr ()"
  have debt: "normalized_debt_amount pos' = normalized_debt_amount pos"
    by (subst run(7)) simp
  have "position_covered q acc r now pos'" if "params_ok q" "accumulator_ok acc"
  proof (cases "normalized_debt_amount pos = 0")
    case True
    then show ?thesis
      by (simp add: position_covered_def debt)
  next
    case False
    note c = check [OF assms(2) False, unfolded compute_current_redemption_price_wide_def
        compute_current_accumulated_rate_wide_def]
    show ?thesis
      using c collateral_check [OF params_ok_ratio [OF that(1)] wide_accumulator_nonzero [OF that] conjunct1 [OF c]]
      by (simp add: position_covered_def)
  qed
  then show ?thesis
    using run by (intro risky [of owner pa ppa aa ra clk]) simp_all
qed

lemma stable_main_risky:
  assumes "stable_main E p i accounts = Inr (ds, cs)"
    and "(\<exists>n. i = GenerateDebt n) \<or> (\<exists>n. n \<noteq> 0 \<and> i = WithdrawCollateral n)"
  shows "risky_run E p accounts ds"
  using assms
  by (cases i; auto simp: stable_main_def ensure_success dest: generate_debt_risky withdraw_collateral_risky
      split: list.splits)

text \<open>The instructions a frozen protocol refuses.\<close>

lemma frozen_refuses:
  assumes "stable_main E p i accounts = Inr (ds, cs)"
    and "(\<exists>n c. i = OpenPosition n c) \<or> (\<exists>n. i = GenerateDebt n) \<or> (\<exists>n. i = WithdrawCollateral n)"
  shows "\<exists>a\<in>set accounts. \<exists>q. holds_global E (parameters_codec E) (compute_protocol_parameters_pda E p) p a q \<and>
    \<not> is_frozen q"
  using assms
  by (cases i; auto simp: stable_main_def ensure_success decode_globals_success split: list.splits
      elim!: open_position_run generate_debt_run withdraw_collateral_run)

end
