(* ===== verification/Stable_Demo.thy ===== *)
theory Stable_Demo
  imports Stable_Borsh Stable_Safety Demo_Ledger
begin

text \<open>
  A small world on the Borsh environment on which the properties of the stablecoin are evaluated: the
  program is 6, the Token program 2; the accumulated rate is two, the redemption price one, the
  collateral ratio 150 percent, and owner 300 borrows against 3000 units of collateral.
\<close>

section \<open>Codecs\<close>

lemma stable_lengths:
  "length (ser_position x) = 112" "length (ser_parameters q) = 241" "length (ser_redemption r) = 56"
  "length (ser_accumulator y) = 40"
  by (simp_all add: ser_position_def ser_parameters_def ser_redemption_def ser_accumulator_def)

lemma stable_encode [simp]:
  "encode (borsh_codec ser_position de_position) x = Some (ser_position x)"
  "encode (borsh_codec ser_parameters de_parameters) q = Some (ser_parameters q)"
  "encode (borsh_codec ser_redemption de_redemption) r = Some (ser_redemption r)"
  "encode (borsh_codec ser_accumulator de_accumulator) y = Some (ser_accumulator y)"
  by (simp_all add: borsh_codec_simps stable_lengths data_max_length_def)

lemma stable_decode [simp]:
  "decode (borsh_codec ser_position de_position) (ser_position x) = Some x"
  "decode (borsh_codec ser_parameters de_parameters) (ser_parameters q) = Some q"
  "decode (borsh_codec ser_redemption de_redemption) (ser_redemption r) = Some r"
  "decode (borsh_codec ser_accumulator de_accumulator) (ser_accumulator y) = Some y"
  using codec_laws.round_trip [OF borsh_position.codec stable_encode(1)]
    codec_laws.round_trip [OF borsh_parameters.codec stable_encode(2)]
    codec_laws.round_trip [OF borsh_redemption.codec stable_encode(3)]
    codec_laws.round_trip [OF borsh_accumulator.codec stable_encode(4)] by simp_all

lemma stable_decode_other [simp]:
  "decode (borsh_codec ser_position de_position) (ser_parameters q) = None"
  "decode (borsh_codec ser_position de_position) (ser_redemption r) = None"
  "decode (borsh_codec ser_position de_position) (ser_accumulator y) = None"
  "decode (borsh_codec ser_parameters de_parameters) (ser_position x) = None"
  "decode (borsh_codec ser_parameters de_parameters) (ser_redemption r) = None"
  "decode (borsh_codec ser_parameters de_parameters) (ser_accumulator y) = None"
  "decode (borsh_codec ser_redemption de_redemption) (ser_position x) = None"
  "decode (borsh_codec ser_redemption de_redemption) (ser_parameters q) = None"
  "decode (borsh_codec ser_redemption de_redemption) (ser_accumulator y) = None"
  "decode (borsh_codec ser_accumulator de_accumulator) (ser_position x) = None"
  "decode (borsh_codec ser_accumulator de_accumulator) (ser_parameters q) = None"
  "decode (borsh_codec ser_accumulator de_accumulator) (ser_redemption r) = None"
  by (simp_all add: stable_lengths not_length [OF stable_decode_length(1)] not_length [OF stable_decode_length(2)]
      not_length [OF stable_decode_length(3)] not_length [OF stable_decode_length(4)])

section \<open>Accounts\<close>

definition demo_parameters :: protocol_parameters where
  "demo_parameters = \<lparr> admin_account_id = 900, freeze_authority_account_id = 901,
     stablecoin_definition_id = 224482, collateral_definition_id = 40, market_price_oracle_id = 50,
     stability_fee_per_millisecond = FIXED_POINT_ONE, controller_proportional_gain = FIXED_POINT_ONE,
     controller_integral_gain = FIXED_POINT_ONE, minimum_collateralization_ratio = 1500000000000000000000000000,
     minimum_milliseconds_between_rate_updates = 1000, maximum_oracle_price_age_milliseconds = 60000,
     is_frozen = False \<rparr>"

definition demo_accumulator :: stability_fee_accumulator where
  "demo_accumulator = \<lparr> accumulated_rate_at_last_accrual = 2000000000000000000000000000,
     last_accrued_at = 5000, total_normalized_debt = 100 \<rparr>"

definition demo_redemption :: redemption_price_state where
  "demo_redemption = \<lparr> redemption_price_at_last_update = FIXED_POINT_ONE,
     redemption_rate_per_millisecond = FIXED_POINT_ONE, controller_integral_term = 0, last_updated_at = 5000 \<rparr>"

definition demo_position :: position where
  "demo_position = \<lparr> owner_account_id = 300, position_nonce = 5, vault_account_id = 2674014748,
     collateral_amount = 3000, normalized_debt_amount = 100, opened_at = 4000 \<rparr>"

definition stable_acc :: "account_id \<Rightarrow> bytes \<Rightarrow> bytes account_with_metadata" where
  "stable_acc i d = demo_account 6 i False d"

definition params_acc where "params_acc = stable_acc 224566 (ser_parameters demo_parameters)"
definition accumulator_acc where "accumulator_acc = stable_acc 175489 (ser_accumulator demo_accumulator)"
definition redemption_acc where "redemption_acc = stable_acc 154580 (ser_redemption demo_redemption)"
definition position_acc where "position_acc = stable_acc 336002106 (ser_position demo_position)"

definition generate_accounts :: "bytes account_with_metadata list" where
  "generate_accounts =
    [demo_account 0 300 True [], position_acc,
     demo_account 2 224482 False (ser_definition (DefFungible [1] 500 None (Some 224482))),
     demo_account 2 301 False (ser_holding (Fungible 224482 0)),
     demo_account 2 224545 False (ser_holding (Fungible 224482 0)),
     accumulator_acc, redemption_acc, params_acc, demo_account 99 1 False (to_le_bytes (6000 :: u64))]"

lemmas stable_accounts = generate_accounts_def position_acc_def accumulator_acc_def redemption_acc_def
  params_acc_def stable_acc_def

lemmas stable_domains = POSITION_PDA_DOMAIN_def POSITION_VAULT_PDA_DOMAIN_def STABLECOIN_DEFINITION_PDA_DOMAIN_def
  STABLECOIN_MASTER_HOLDING_PDA_DOMAIN_def PROTOCOL_PARAMETERS_PDA_DOMAIN_def REDEMPTION_PRICE_STATE_PDA_DOMAIN_def
  STABILITY_FEE_ACCUMULATOR_PDA_DOMAIN_def

text \<open>The addresses under the demonstration hash.\<close>

lemma stable_pdas [simp]:
  "compute_protocol_parameters_pda borsh_stable_env 6 = 224566"
  "compute_redemption_price_state_pda borsh_stable_env 6 = 154580"
  "compute_stability_fee_accumulator_pda borsh_stable_env 6 = 175489"
  "compute_stablecoin_definition_pda borsh_stable_env 6 = 224482"
  "compute_stablecoin_master_holding_pda borsh_stable_env 6 = 224545"
  "compute_position_pda borsh_stable_env 6 300 5 = 336002106"
  "compute_position_vault_pda borsh_stable_env 6 336002106 = 2674014748"
  by (simp_all add: compute_protocol_parameters_pda_def compute_protocol_parameters_pda_seed_def
      compute_redemption_price_state_pda_def compute_redemption_price_state_pda_seed_def
      compute_stability_fee_accumulator_pda_def compute_stability_fee_accumulator_pda_seed_def
      compute_stablecoin_definition_pda_def compute_stablecoin_definition_pda_seed_def
      compute_stablecoin_master_holding_pda_def compute_stablecoin_master_holding_pda_seed_def
      compute_position_pda_def compute_position_pda_seed_def compute_position_vault_pda_def
      compute_position_vault_pda_seed_def position_seed_bytes_def position_vault_seed_bytes_def
      stable_hash_def stable_domains ascii_def)

section \<open>A loan\<close>

lemma stable_demo_records [simp]:
  "admin_account_id demo_parameters = 900" "freeze_authority_account_id demo_parameters = 901"
  "stablecoin_definition_id demo_parameters = 224482" "collateral_definition_id demo_parameters = 40"
  "stability_fee_per_millisecond demo_parameters = FIXED_POINT_ONE"
  "minimum_collateralization_ratio demo_parameters = 1500000000000000000000000000"
  "\<not> is_frozen demo_parameters"
  "accumulated_rate_at_last_accrual demo_accumulator = 2000000000000000000000000000"
  "last_accrued_at demo_accumulator = 5000" "total_normalized_debt demo_accumulator = 100"
  "redemption_price_at_last_update demo_redemption = FIXED_POINT_ONE"
  "redemption_rate_per_millisecond demo_redemption = FIXED_POINT_ONE" "last_updated_at demo_redemption = 5000"
  "owner_account_id demo_position = 300" "position_nonce demo_position = 5"
  "vault_account_id demo_position = 2674014748" "collateral_amount demo_position = 3000"
  "normalized_debt_amount demo_position = 100" "opened_at demo_position = 4000"
  by (simp_all add: demo_parameters_def demo_accumulator_def demo_redemption_def demo_position_def)

lemma growth_one [simp]: "growth FIXED_POINT_ONE e = scale"
  by (simp add: growth_def compounded_one)

definition loaned_accumulator :: stability_fee_accumulator where
  "loaned_accumulator = \<lparr> accumulated_rate_at_last_accrual = 2000000000000000000000000000,
     last_accrued_at = 6000, total_normalized_debt = 601 \<rparr>"

definition loaned_position :: position where
  "loaned_position = demo_position \<lparr> normalized_debt_amount := 601 \<rparr>"

lemma demo_accrual:
  "accrue_fees demo_parameters demo_accumulator 6000 =
    Inr \<lparr> accrual_accumulator = \<lparr> accumulated_rate_at_last_accrual = 2000000000000000000000000000,
      last_accrued_at = 6000, total_normalized_debt = 100 \<rparr>, accrued_fees = 0 \<rparr>"
  by (simp add: accrue_fees_def compute_current_accumulated_rate_def compound_rate_def mul_div_cases checked_sub_def
      FIXED_POINT_ONE_def)

lemma demo_debt:
  "added_debt demo_position \<lparr> accumulated_rate_at_last_accrual = 2000000000000000000000000000,
      last_accrued_at = 6000, total_normalized_debt = 100 \<rparr> 1001 = Inr (loaned_position, loaned_accumulator)"
proof -
  have "fixed_mul_div_ceil 1001 FIXED_POINT_ONE 2000000000000000000000000000 = Inr 501"
    by (simp add: fixed_mul_div_ceil_Inr cdiv_def)
  then show ?thesis
    by (simp add: added_debt_def checked_add_def loaned_position_def loaned_accumulator_def)
qed

lemma wide_one: "project_forward_wide x FIXED_POINT_ONE s now = widen512 x"
  using unat_lt [of x] by (intro narrow_rate_wide [symmetric]) (simp add: projected_def)

lemma demo_covered:
  "assert_position_is_collateralized loaned_position (widen512 2000000000000000000000000000)
     (widen512 FIXED_POINT_ONE) 1500000000000000000000000000 = Inr ()"
proof -
  have "project_forward_wide x FIXED_POINT_ONE 0 0 = widen512 x" for x
    by (rule wide_one)
  then show ?thesis
    using collateral_check [of 1500000000000000000000000000 2000000000000000000000000000 FIXED_POINT_ONE 0 0
        FIXED_POINT_ONE FIXED_POINT_ONE 0 loaned_position "()"]
    by (simp add: loaned_position_def covers_def projected_def)
qed

definition loan_writes :: "bytes state_diff list" where
  "loan_writes =
    [Unchanged (generate_accounts ! 0), NewData position_acc (Add 0) (ser_position loaned_position),
     Unchanged (generate_accounts ! 2), Unchanged (generate_accounts ! 3), Unchanged (generate_accounts ! 4),
     NewData accumulator_acc (Add 0) (ser_accumulator loaned_accumulator), Unchanged redemption_acc,
     Unchanged params_acc, Unchanged (generate_accounts ! 8)]"

lemma demo_clock [simp]: "from_le_bytes (to_le_bytes (6000 :: u64)) = (6000 :: u64)"
  by (simp add: from_to_le_bytes)

lemmas stable_run = stable_main_def generate_debt_def read_owned_position_def verify_position_success
  verify_position_and_get_seed_def decode_parameters_def decode_accumulator_def decode_redemption_def decode_global_def
  stable_read_clock_def surplus_mint_call_def compute_current_redemption_price_wide_def

lemma demo_loan:
  "stable_main borsh_stable_env 6 (GenerateDebt 1001) generate_accounts = Inr (loan_writes,
    [with_pda_seeds (chained_call_new 2 [224482, 301] (Mint 1001))
       [compute_stablecoin_definition_pda_seed borsh_stable_env]])"
proof -
  have pos: "read_owned_position borsh_stable_env (demo_account 0 300 True []) position_acc 6 = Inr demo_position"
    by (simp add: read_owned_position_success stable_accounts)
  have globals: "decode_parameters borsh_stable_env params_acc 6 = Inr demo_parameters"
    "decode_accumulator borsh_stable_env accumulator_acc 6 = Inr demo_accumulator"
    "decode_redemption borsh_stable_env redemption_acc 6 = Inr demo_redemption"
    by (simp_all add: decode_globals_success holds_global_def stable_accounts)
  have flags: "account params_acc \<noteq> empty_account" "account accumulator_acc \<noteq> empty_account"
    "account redemption_acc \<noteq> empty_account" "account position_acc \<noteq> empty_account"
    by (simp_all add: stable_accounts)
  show ?thesis
    by (simp add: stable_main_def generate_accounts_def generate_debt_def pos globals stable_read_clock_def
        surplus_mint_call_def demo_accrual demo_debt compute_current_redemption_price_wide_def wide_one demo_covered
        loan_writes_def position_data_def accumulator_data_def)
qed

section \<open>A ledger\<close>

definition loan_ledger :: "bytes ledger" where
  "loan_ledger = ledger_of generate_accounts"

lemma loan_distinct [simp]: "distinct (map account_id generate_accounts)"
  by (simp add: stable_accounts)

lemma loan_reads: "reads_state loan_ledger generate_accounts"
  unfolding loan_ledger_def by (rule ledger_of_reads) simp

lemma loan_ledger_at: "loan_ledger i =
    (if i = 300 then account (demo_account 0 300 True [])
     else if i = 336002106 then account position_acc
     else if i = 224482 then account (generate_accounts ! 2)
     else if i = 301 then account (generate_accounts ! 3)
     else if i = 224545 then account (generate_accounts ! 4)
     else if i = 175489 then account accumulator_acc
     else if i = 154580 then account redemption_acc
     else if i = 224566 then account params_acc
     else if i = 1 then account (generate_accounts ! 8) else empty_account)"
  by (simp add: loan_ledger_def ledger_of_def stable_accounts eq_commute [of _ i])

lemma stable_demo_stored [simp]:
  "ow \<noteq> 6 \<Longrightarrow> stored_as C 6 (account (demo_account ow i b d)) = None"
  "stored_as C 6 (account (demo_account 6 i b d)) = decode C d"
  "stored_as C 6 empty_account = None"
  by (simp_all add: stored_as_def empty_account_def)

lemma demo_bands [simp]:
  "params_ok demo_parameters" "accumulator_ok demo_accumulator" "redemption_ok demo_redemption"
  "position_ok borsh_stable_env 6 336002106 demo_position"
  by (simp_all add: params_ok_def accumulator_ok_def redemption_ok_def position_ok_def demo_parameters_def
      demo_redemption_def FIXED_POINT_ONE_def)

lemma stable_sane_simps:
  "ow \<notin> {0, 6} \<Longrightarrow> stable_sane borsh_stable_env 6 i (account (demo_account ow j b d))"
  "stable_sane borsh_stable_env 6 i empty_account" "stable_sane borsh_stable_env 6 i (account (demo_account 0 j b []))"
  "params_ok q \<Longrightarrow> stable_sane borsh_stable_env 6 224566 (account (demo_account 6 j b (ser_parameters q)))"
  "accumulator_ok y \<Longrightarrow> stable_sane borsh_stable_env 6 175489 (account (demo_account 6 j b (ser_accumulator y)))"
  "redemption_ok r \<Longrightarrow> stable_sane borsh_stable_env 6 154580 (account (demo_account 6 j b (ser_redemption r)))"
  "position_ok borsh_stable_env 6 i x \<Longrightarrow> stable_sane borsh_stable_env 6 i (account (demo_account 6 j b (ser_position x)))"
  by (simp_all add: stable_sane_def default_owned_def)

lemma loan_sane: "\<forall>i. stable_sane borsh_stable_env 6 i (loan_ledger i)"
  by (simp add: loan_ledger_at stable_accounts stable_sane_simps)

lemma loan_debts: "debts_recorded borsh_stable_env 6 loan_ledger"
proof -
  have "debt_of borsh_stable_env 6 (loan_ledger i) = (if i = 336002106 then 100 else 0)" for i
    by (simp add: loan_ledger_at debt_of_def stable_accounts)
  moreover have "recorded_debt borsh_stable_env 6 loan_ledger = 100"
    by (simp add: loan_ledger_at recorded_debt_def stable_accounts)
  ultimately show ?thesis
    by (simp add: debts_recorded_def)
qed

lemma loan_permitted: "list_all (permitted_write borsh_stable_env 6) loan_writes"
  by (simp add: loan_writes_def stable_accounts permitted_write_def)

definition loaned_ledger :: "bytes ledger" where
  "loaned_ledger = apply_diffs borsh_stable_env 6 loan_ledger loan_writes"

lemma loaned_reachable: "stable_reachable borsh_stable_env 6 loan_ledger loaned_ledger"
  unfolding loaned_ledger_def
  using stable_step.run [OF loan_reads demo_loan loan_permitted] by (blast intro: stable_reachable.intros)

lemma loaned_ledger_stored:
  "stored_position borsh_stable_env 6 (loaned_ledger 336002106) = Some loaned_position"
  "stored_accumulator borsh_stable_env 6 (loaned_ledger 175489) = Some loaned_accumulator"
  "stored_params borsh_stable_env 6 (loaned_ledger 224566) = Some demo_parameters"
  by (simp_all add: loaned_ledger_def loan_writes_def stable_accounts post_owner_def default_owned_def stored_as_def)

section \<open>A freeze\<close>

definition freeze_accounts :: "bytes account_with_metadata list" where
  "freeze_accounts = [demo_account 0 901 True [], params_acc]"

definition freeze_writes :: "bytes state_diff list" where
  "freeze_writes = [Unchanged (demo_account 0 901 True []),
     NewData params_acc (Add 0) (ser_parameters (demo_parameters \<lparr> is_frozen := True \<rparr>))]"

definition frozen_ledger :: "bytes ledger" where
  "frozen_ledger = apply_diffs borsh_stable_env 6 loan_ledger freeze_writes"

lemma demo_freeze: "stable_main borsh_stable_env 6 Freeze freeze_accounts = Inr (freeze_writes, [])"
proof -
  have "decode_parameters borsh_stable_env params_acc 6 = Inr demo_parameters"
    by (simp add: decode_globals_success holds_global_def stable_accounts)
  then show ?thesis
    by (simp add: stable_main_def freeze_def set_frozen_def parameters_data_def freeze_accounts_def freeze_writes_def)
qed

lemma freeze_reads: "reads_state loan_ledger freeze_accounts"
  by (simp add: reads_state_def freeze_accounts_def loan_ledger_at stable_accounts)
    (simp add: demo_account_def empty_account_def)

lemma freeze_permitted: "list_all (permitted_write borsh_stable_env 6) freeze_writes"
  by (simp add: freeze_writes_def stable_accounts permitted_write_def)

lemma frozen_ledger_stored:
  "stored_params borsh_stable_env 6 (frozen_ledger 224566) = Some (demo_parameters \<lparr> is_frozen := True \<rparr>)"
  by (simp add: frozen_ledger_def freeze_writes_def stable_accounts post_owner_def default_owned_def stored_as_def)

end
