(* ===== verification/Stable_Props.thy ===== *)
theory Stable_Props
  imports Stable_Demo
begin

text \<open>
  The properties of the stablecoin program: its books and its globals over the life of the chain, the
  safety of its positions, who may change what, and its arithmetic.
\<close>

section \<open>The books\<close>

text \<open>
  C4. The total is the sum of the positions.  Whatever instructions of the program run on whatever
  accounts, in whatever order, and whatever other programs do, the total normalized debt recorded in
  the accumulator stays the sum of the normalized debts of all stored positions.
\<close>

theorem total_debt_is_sum_of_positions:
  assumes "stable_runtime E p" "debts_recorded E p s0" "stable_reachable E p s0 s"
  shows "(\<Sum>i\<in>UNIV. case stored_position E p (s i) of Some x \<Rightarrow> unat (normalized_debt_amount x) | None \<Rightarrow> 0) =
    (case stored_accumulator E p (s (compute_stability_fee_accumulator_pda E p)) of
       Some y \<Rightarrow> unat (total_normalized_debt y) | None \<Rightarrow> 0)"
  using stable_runtime.reachable_debts [OF assms(1,3,2)]
  by (simp add: debts_recorded_def debt_of_def recorded_debt_def)

theorem total_debt_is_sum_of_positions_witness:
  "(\<Sum>i\<in>UNIV. case stored_position borsh_stable_env 6 (loaned_ledger i) of
      Some x \<Rightarrow> unat (normalized_debt_amount x) | None \<Rightarrow> 0) = 601"
  using total_debt_is_sum_of_positions [OF borsh_stable.stable_runtime_axioms loan_debts loaned_reachable]
  by (simp add: loaned_ledger_stored [simplified] loaned_accumulator_def)

text \<open>
  C18. The globals stay within their bands.  Over the life of the chain stored parameters keep the two
  token definitions and stay in range, the accumulated rate never falls and is at least one, and the
  redemption price state keeps its price, its rate and its integral term within their bounds.
\<close>

theorem globals_stay_in_bounds:
  assumes "stable_runtime E p" "\<forall>i. stable_sane E p i (s0 i)" "stable_reachable E p s0 s"
    and "stored_params E p (s0 i) = Some q" "stored_accumulator E p (s0 j) = Some y"
    and "stored_redemption E p (s0 k) = Some r"
  shows "\<exists>q' y' r'. stored_params E p (s i) = Some q' \<and> stored_accumulator E p (s j) = Some y' \<and>
    stored_redemption E p (s k) = Some r' \<and> params_ok q' \<and> redemption_ok r' \<and>
    stablecoin_definition_id q' = stablecoin_definition_id q \<and>
    collateral_definition_id q' = collateral_definition_id q \<and>
    scale \<le> unat (accumulated_rate_at_last_accrual y) \<and>
    accumulated_rate_at_last_accrual y \<le> accumulated_rate_at_last_accrual y'"
proof -
  note ev = stable_runtime.reachable_evolves [OF assms(1,3,2), unfolded stable_evolves_def stable_sane_def]
  have "scale \<le> unat (accumulated_rate_at_last_accrual y)"
    using assms(2,5) by (simp add: stable_sane_def accumulator_ok_def)
  then show ?thesis
    using ev [of i] ev [of j] ev [of k] assms(4-6) by metis
qed

theorem globals_stay_in_bounds_witness:
  "\<exists>q' y'. stored_params borsh_stable_env 6 (loaned_ledger 224566) = Some q' \<and> params_ok q' \<and>
    stored_accumulator borsh_stable_env 6 (loaned_ledger 175489) = Some y' \<and>
    2 * scale \<le> unat (accumulated_rate_at_last_accrual y')"
proof -
  have "stored_params borsh_stable_env 6 (loan_ledger 224566) = Some demo_parameters"
    "stored_accumulator borsh_stable_env 6 (loan_ledger 175489) = Some demo_accumulator"
    "stored_redemption borsh_stable_env 6 (loan_ledger 154580) = Some demo_redemption"
    by (simp_all add: loan_ledger_at stable_accounts)
  from globals_stay_in_bounds [OF borsh_stable.stable_runtime_axioms loan_sane loaned_reachable this]
  show ?thesis
    by (auto simp: word_le_nat_alt)
qed

section \<open>Who may change what\<close>

text \<open>
  C8. Changes are signed.  If an instruction leaves other parameters where some were stored, the admin
  recorded before was among the signers and the freeze flag is as before, or the freeze authority
  recorded before was among them and nothing but the flag is different; the token definitions never
  change.  If it changes a stored position, its owner was among the signers, and the position keeps its
  owner, nonce, vault and opening time, or it is closed, and then it had neither debt nor collateral.
\<close>

theorem changes_are_signed:
  assumes "stable_runtime E p" "reads_state s accounts"
    and "stable_main E p instruction accounts = Inr (ds, cs)" "list_all (permitted_write E p) ds"
    and "s' = apply_diffs E p s ds"
    and "stored_params E p (s i) = Some q" "stored_position E p (s j) = Some x"
  shows "(stored_params E p (s' i) = Some q \<or>
      (\<exists>q'. stored_params E p (s' i) = Some q' \<and>
         stablecoin_definition_id q' = stablecoin_definition_id q \<and>
         collateral_definition_id q' = collateral_definition_id q \<and>
         (admin_account_id q \<in> authorized_ids accounts \<and> is_frozen q' = is_frozen q \<or>
          freeze_authority_account_id q \<in> authorized_ids accounts \<and> q' = q \<lparr> is_frozen := is_frozen q' \<rparr>))) \<and>
    (stored_position E p (s' j) = Some x \<or> owner_account_id x \<in> authorized_ids accounts \<and>
      (case stored_position E p (s' j) of
         Some x' \<Rightarrow> owner_account_id x' = owner_account_id x \<and> position_nonce x' = position_nonce x \<and>
           vault_account_id x' = vault_account_id x \<and> opened_at x' = opened_at x
       | None \<Rightarrow> normalized_debt_amount x = 0 \<and> collateral_amount x = 0))" (is "?params \<and> ?position")
proof
  show ?params
    using stable_runtime.run_params_signed [OF assms(1-4,6)] unfolding assms(5) params_change_def by blast
  show ?position
    using stable_runtime.run_position_signed [OF assms(1-4,7)] unfolding assms(5) same_position_def by blast
qed

theorem changes_are_signed_witness:
  "300 \<in> authorized_ids generate_accounts \<and> 901 \<in> authorized_ids freeze_accounts \<and>
    stored_position borsh_stable_env 6 (loaned_ledger 336002106) \<noteq> Some demo_position \<and>
    stored_params borsh_stable_env 6 (frozen_ledger 224566) \<noteq> Some demo_parameters"
proof -
  have old: "stored_params borsh_stable_env 6 (loan_ledger 224566) = Some demo_parameters"
    "stored_position borsh_stable_env 6 (loan_ledger 336002106) = Some demo_position"
    by (simp_all add: loan_ledger_at stable_accounts)
  have "loaned_position \<noteq> demo_position" "demo_parameters \<lparr> is_frozen := True \<rparr> \<noteq> demo_parameters"
    by (simp_all add: loaned_position_def demo_position_def demo_parameters_def)
  then have new: "stored_position borsh_stable_env 6 (loaned_ledger 336002106) \<noteq> Some demo_position"
    "stored_params borsh_stable_env 6 (frozen_ledger 224566) \<noteq> Some demo_parameters"
    using loaned_ledger_stored(1) frozen_ledger_stored by simp_all
  have "300 \<in> authorized_ids generate_accounts"
    using changes_are_signed [OF borsh_stable.stable_runtime_axioms loan_reads demo_loan loan_permitted
        loaned_ledger_def old] new(1) by auto
  moreover have "901 \<in> authorized_ids freeze_accounts"
    using changes_are_signed [OF borsh_stable.stable_runtime_axioms freeze_reads demo_freeze freeze_permitted
        frozen_ledger_def old] new(2) by (auto simp: freeze_accounts_def)
  ultimately show ?thesis
    using new by blast
qed

section \<open>Positions\<close>

text \<open>
  C2. Borrowing and withdrawing leave a position covered.  A position written by a successful
  \<^theory_text>\<open>GenerateDebt\<close> or by a \<^theory_text>\<open>WithdrawCollateral\<close> of a nonzero amount satisfies, over the natural
  numbers, debt times projected accumulated rate times projected redemption price times minimum ratio
  at most collateral times the cube of the fixed-point one, with the globals stored by the program and
  the time of the system clock; the position was the signer's and the protocol was not frozen.
\<close>

theorem risky_instructions_leave_cover:
  assumes "stable_main E p i accounts = Inr (ds, cs)"
    and "(\<exists>n. i = GenerateDebt n) \<or> (\<exists>n. n \<noteq> 0 \<and> i = WithdrawCollateral n)"
    and "reads_state s accounts" "\<forall>i. stable_sane E p i (s i)"
    and "stored_params E p (s (compute_protocol_parameters_pda E p)) = Some q"
    and "stored_accumulator E p (s (compute_stability_fee_accumulator_pda E p)) = Some y"
    and "stored_redemption E p (s (compute_redemption_price_state_pda E p)) = Some r"
    and "now = clock_timestamp E (data (s (clock_01_program_account_id E)))"
  shows "\<exists>x' d. ds ! 1 = NewData (accounts ! 1) (Add 0) d \<and> encode (position_codec E) x' = Some d \<and>
    unat (normalized_debt_amount x') *
      projected (accumulated_rate_at_last_accrual y) (stability_fee_per_millisecond q) (last_accrued_at y) now *
      projected (redemption_price_at_last_update r) (redemption_rate_per_millisecond r) (last_updated_at r) now *
      unat (minimum_collateralization_ratio q) \<le> unat (collateral_amount x') * scale ^ 3"
proof -
  obtain x' d where w: "ds ! 1 = NewData (accounts ! 1) (Add 0) d" "encode (position_codec E) x' = Some d"
    "params_ok q \<and> accumulator_ok y \<longrightarrow> position_covered q y r now x'"
    using stable_main_risky [OF assms(1,2)] assms(3,5-8) by (rule risky_run_reads)
  moreover have "params_ok q" "accumulator_ok y"
    using assms(4-6) by (simp_all add: stable_sane_def)
  ultimately show ?thesis
    unfolding position_covered_def covers_def by blast
qed

theorem risky_instructions_leave_cover_witness:
  "601 * (2 * scale) * scale * 1500000000000000000000000000 \<le> 3000 * scale ^ 3 \<and>
    loan_writes ! 1 = NewData position_acc (Add 0) (ser_position loaned_position)"
proof -
  have stored: "stored_params borsh_stable_env 6 (loan_ledger 224566) = Some demo_parameters"
    "stored_accumulator borsh_stable_env 6 (loan_ledger 175489) = Some demo_accumulator"
    "stored_redemption borsh_stable_env 6 (loan_ledger 154580) = Some demo_redemption"
    by (simp_all add: loan_ledger_at stable_accounts)
  obtain x' d where w: "loan_writes ! 1 = NewData (generate_accounts ! 1) (Add 0) d"
    "encode (position_codec borsh_stable_env) x' = Some d"
    "unat (normalized_debt_amount x') * (2 * scale * scale div scale) * (scale * scale div scale) *
      1500000000000000000000000000 \<le> unat (collateral_amount x') * scale ^ 3"
    using risky_instructions_leave_cover [OF demo_loan _ loan_reads loan_sane, of demo_parameters demo_accumulator
        demo_redemption "clock_timestamp borsh_stable_env (data (loan_ledger (clock_01_program_account_id borsh_stable_env)))"]
      stored by (auto simp: projected_def)
  have "d = ser_position loaned_position"
    using w(1) by (simp add: loan_writes_def)
  then have "x' = loaned_position"
    using borsh_stable.decodes(1) [OF w(2)] by simp
  then show ?thesis
    using w(3) by (simp add: loaned_position_def loan_writes_def)
qed

text \<open>
  A frozen protocol takes no new risk.  Opening a position, generating debt and withdrawing
  collateral succeed only when the parameters the program stores at their address are not frozen.
\<close>

theorem frozen_protocol_takes_no_risk:
  assumes "stable_main E p i accounts = Inr (ds, cs)"
    and "(\<exists>n c. i = OpenPosition n c) \<or> (\<exists>n. i = GenerateDebt n) \<or> (\<exists>n. i = WithdrawCollateral n)"
    and "reads_state s accounts" "stored_params E p (s (compute_protocol_parameters_pda E p)) = Some q"
  shows "\<not> is_frozen q"
proof -
  obtain a q' where a: "a \<in> set accounts" "\<not> is_frozen q'"
    "holds_global E (parameters_codec E) (compute_protocol_parameters_pda E p) p a q'"
    using frozen_refuses [OF assms(1,2)] by blast
  then have "account a = s (compute_protocol_parameters_pda E p)"
    using assms(3) by (auto simp: reads_state_def list_all_iff holds_global_def)
  then show ?thesis
    using a(2,3) assms(4) by (auto simp: holds_global_def stored_as_def)
qed

theorem frozen_protocol_takes_no_risk_witness: "\<not> is_frozen demo_parameters"
proof (rule frozen_protocol_takes_no_risk [OF demo_loan _ loan_reads])
  show "stored_params borsh_stable_env 6 (loan_ledger (compute_protocol_parameters_pda borsh_stable_env 6)) =
      Some demo_parameters"
    by (simp add: loan_ledger_at stable_accounts)
qed simp

text \<open>
  C28. The collateralization check is the exact one.  The comparison of saturating 512-bit products, on
  projections that saturate as well, accepts exactly when the inequality holds of the unbounded natural
  numbers, for every ratio of at least one and every anchor whose projection is nonzero.
\<close>

theorem collateral_check_is_exact:
  assumes "scale \<le> unat ratio" "projected a f s now \<noteq> 0" "projected b g t now \<noteq> 0"
  shows "assert_position_is_collateralized x (compute_current_accumulated_rate_wide a f s now)
      (compute_current_redemption_price_wide b g t now) ratio = Inr () \<longleftrightarrow>
    unat (normalized_debt_amount x) * projected a f s now * projected b g t now * unat ratio
      \<le> unat (collateral_amount x) * scale ^ 3"
proof -
  have "project_forward_wide a f s now \<noteq> 0" "project_forward_wide b g t now \<noteq> 0"
    using assms(2,3) by (simp_all add: project_forward_wide_0)
  from collateral_check [OF assms(1) this] show ?thesis
    unfolding compute_current_accumulated_rate_wide_def compute_current_redemption_price_wide_def covers_def .
qed

theorem collateral_check_is_exact_witness:
  "assert_position_is_collateralized loaned_position
      (compute_current_accumulated_rate_wide 2000000000000000000000000000 FIXED_POINT_ONE 5000 6000)
      (compute_current_redemption_price_wide FIXED_POINT_ONE FIXED_POINT_ONE 5000 6000)
      1500000000000000000000000000 = Inr () \<and>
   assert_position_is_collateralized loaned_position
      (compute_current_accumulated_rate_wide 3400000000000000000000000000 FIXED_POINT_ONE 5000 6000)
      (compute_current_redemption_price_wide FIXED_POINT_ONE FIXED_POINT_ONE 5000 6000)
      1500000000000000000000000000 \<noteq> Inr ()"
  using collateral_check_is_exact [of 1500000000000000000000000000 2000000000000000000000000000 FIXED_POINT_ONE 5000 6000
      FIXED_POINT_ONE FIXED_POINT_ONE 5000 loaned_position]
    collateral_check_is_exact [of 1500000000000000000000000000 3400000000000000000000000000 FIXED_POINT_ONE 5000 6000
      FIXED_POINT_ONE FIXED_POINT_ONE 5000 loaned_position]
  by (simp add: projected_def loaned_position_def)

text \<open>
  C29. Debt is rounded for the protocol.  Borrowing an amount adds normalized debt worth at least the
  amount; repaying the same amount at the same rate removes debt worth at most the amount, so borrowing
  and repaying at once leaves the debt unchanged or one unit higher, in the position and in the total
  alike, and changes nothing else.
\<close>

theorem debt_rounds_for_protocol:
  assumes "added_debt x y n = Inr (x1, y1)" "removed_debt x1 y1 n = Inr (x2, y2)"
  shows "\<exists>added removed. unat (normalized_debt_amount x1) = unat (normalized_debt_amount x) + added \<and>
    unat (normalized_debt_amount x1) = unat (normalized_debt_amount x2) + removed \<and>
    unat (total_normalized_debt y1) = unat (total_normalized_debt y) + added \<and>
    unat (total_normalized_debt y1) = unat (total_normalized_debt y2) + removed \<and>
    unat n * scale \<le> added * unat (accumulated_rate_at_last_accrual y) \<and>
    removed * unat (accumulated_rate_at_last_accrual y) \<le> unat n * scale \<and>
    removed \<le> added \<and> added \<le> removed + 1 \<and>
    x2 = x \<lparr> normalized_debt_amount := normalized_debt_amount x2 \<rparr> \<and>
    y2 = y \<lparr> total_normalized_debt := total_normalized_debt y2 \<rparr>"
proof -
  let ?r = "unat (accumulated_rate_at_last_accrual y)"
  obtain added where a: "unat (normalized_debt_amount x1) = unat (normalized_debt_amount x) + added"
    "unat (total_normalized_debt y1) = unat (total_normalized_debt y) + added"
    "added = cdiv (unat n * scale) ?r" "accumulated_rate_at_last_accrual y \<noteq> 0"
    "x1 = x \<lparr> normalized_debt_amount := normalized_debt_amount x1 \<rparr>"
    "y1 = y \<lparr> total_normalized_debt := total_normalized_debt y1 \<rparr>"
    using assms(1) by (rule added_debt_priced)
  obtain removed where b: "unat (normalized_debt_amount x1) = unat (normalized_debt_amount x2) + removed"
    "unat (total_normalized_debt y1) = unat (total_normalized_debt y2) + removed"
    "removed = unat n * scale div unat (accumulated_rate_at_last_accrual y1)"
    "x2 = x1 \<lparr> normalized_debt_amount := normalized_debt_amount x2 \<rparr>"
    "y2 = y1 \<lparr> total_normalized_debt := total_normalized_debt y2 \<rparr>"
    using assms(2) by (rule removed_debt_priced)
  have rate: "accumulated_rate_at_last_accrual y1 = accumulated_rate_at_last_accrual y"
    by (subst a(6)) simp
  have pos: "0 < ?r"
    using a(4) by (simp add: unat_gt_0)
  have "unat n * scale \<le> added * ?r"
    using cdiv_le_iff [OF pos, of "unat n * scale" added] a(3) by (simp add: mult.commute)
  moreover have "removed * ?r \<le> unat n * scale"
    unfolding b(3) rate by simp
  moreover have "removed \<le> added" "added \<le> removed + 1"
    using cdiv_mod [OF pos, of "unat n * scale"] a(3) b(3) rate by (simp_all split: if_splits)
  moreover have "x2 = x \<lparr> normalized_debt_amount := normalized_debt_amount x2 \<rparr>"
    by (subst b(4), subst a(5)) simp
  moreover have "y2 = y \<lparr> total_normalized_debt := total_normalized_debt y2 \<rparr>"
    by (subst b(5), subst a(6)) simp
  ultimately show ?thesis
    using a(1,2) b(1,2) by blast
qed

theorem debt_rounds_for_protocol_witness:
  "\<exists>x2 y2. removed_debt loaned_position loaned_accumulator 1001 = Inr (x2, y2) \<and>
    unat (normalized_debt_amount x2) = 101"
proof -
  have "mul_div 1001 FIXED_POINT_ONE 2000000000000000000000000000 = Inr 500"
    by (simp add: mul_div_Inr)
  then obtain x2 y2 where r: "removed_debt loaned_position loaned_accumulator 1001 = Inr (x2, y2)"
    by (simp add: removed_debt_def loaned_position_def loaned_accumulator_def checked_sub_def)
  from debt_rounds_for_protocol [OF demo_debt r]
  have "unat (normalized_debt_amount x2) \<in> {100, 101}" "1001 * scale \<le> (601 - 100) * (2 * scale)"
    by (auto simp: loaned_position_def)
  moreover have "normalized_debt_amount x2 = 101"
    using r \<open>mul_div 1001 FIXED_POINT_ONE 2000000000000000000000000000 = Inr 500\<close>
    by (auto simp: removed_debt_def loaned_position_def loaned_accumulator_def checked_sub_def)
  ultimately show ?thesis
    using r by auto
qed

section \<open>Accrual and the controller\<close>

text \<open>
  C19. The permissionless pokes cannot be blocked within the bands.  With parameters in their bands, an
  accumulated rate of at most \<^theory_text>\<open>1000/1014\<close> of the 128-bit range and a total debt whose fees fit, the
  stability fee accrues at every clock, however long the gap, and raises the rate by at most 1.4
  percent; and at most \<^theory_text>\<open>1.7 * 10^11\<close> milliseconds (five years) after the last update, any market
  price and any stored state give a new redemption price state within its bounds.
\<close>

theorem pokes_succeed_within_bands:
  assumes "params_ok q" "1014 * unat (accumulated_rate_at_last_accrual y) < 1000 * 2 ^ 128"
    and "14 * unat (total_normalized_debt y) * unat (accumulated_rate_at_last_accrual y) < 1000 * (2 ^ 128 * scale)"
    and "unat (saturating_sub now (last_updated_at r)) \<le> 170000000000"
  shows "(\<exists>x. accrue_fees q y now = Inr x \<and>
      accumulated_rate_at_last_accrual y \<le> accumulated_rate_at_last_accrual (accrual_accumulator x) \<and>
      1000 * unat (accumulated_rate_at_last_accrual (accrual_accumulator x)) \<le>
        1014 * unat (accumulated_rate_at_last_accrual y) \<and>
      unat (accrued_fees x) = unat (total_normalized_debt y) *
        (unat (accumulated_rate_at_last_accrual (accrual_accumulator x)) - unat (accumulated_rate_at_last_accrual y))
        div scale) \<and>
    (\<exists>r'. advance_redemption_price E q r price now = redemption_data E r' \<and> last_updated_at r' = now \<and>
      1000000000 \<le> unat (redemption_price_at_last_update r') \<and>
      unat (redemption_price_at_last_update r') < 2 ^ 127 \<and>
      \<bar>uint (redemption_rate_per_millisecond r') - int scale\<bar> \<le> rate_clamp \<and>
      \<bar>sint (controller_integral_term r')\<bar> \<le> rate_clamp)"
proof
  obtain x where x: "accrue_fees q y now = Inr x" "1000 * unat (accumulated_rate_at_last_accrual (accrual_accumulator x)) \<le>
      1014 * unat (accumulated_rate_at_last_accrual y)"
    using accrue_fees_total [OF assms(1-3)] by blast
  then show "\<exists>x. accrue_fees q y now = Inr x \<and>
      accumulated_rate_at_last_accrual y \<le> accumulated_rate_at_last_accrual (accrual_accumulator x) \<and>
      1000 * unat (accumulated_rate_at_last_accrual (accrual_accumulator x)) \<le>
        1014 * unat (accumulated_rate_at_last_accrual y) \<and>
      unat (accrued_fees x) = unat (total_normalized_debt y) *
        (unat (accumulated_rate_at_last_accrual (accrual_accumulator x)) - unat (accumulated_rate_at_last_accrual y))
        div scale"
    using accrue_fees_run(2,5) [OF x(1)] by blast
next
  obtain r' where r': "advance_redemption_price E q r price now = redemption_data E r'" "redemption_ok r'"
    "last_updated_at r' = now"
    using advance_total [OF assms(1,4)] by blast
  have "int (unat (redemption_rate_per_millisecond r')) = uint (redemption_rate_per_millisecond r')"
    by simp
  then show "\<exists>r'. advance_redemption_price E q r price now = redemption_data E r' \<and> last_updated_at r' = now \<and>
      1000000000 \<le> unat (redemption_price_at_last_update r') \<and>
      unat (redemption_price_at_last_update r') < 2 ^ 127 \<and>
      \<bar>uint (redemption_rate_per_millisecond r') - int scale\<bar> \<le> rate_clamp \<and>
      \<bar>sint (controller_integral_term r')\<bar> \<le> rate_clamp"
    using r' unfolding redemption_ok_def by (intro exI [of _ r'] conjI; linarith?)
qed

theorem pokes_succeed_within_bands_witness:
  "\<exists>x d. accrue_fees (demo_parameters \<lparr> stability_fee_per_millisecond := MAXIMUM_STABILITY_FEE_PER_MILLISECOND \<rparr>)
      demo_accumulator 170000005000 = Inr x \<and>
    advance_redemption_price borsh_stable_env
      (demo_parameters \<lparr> stability_fee_per_millisecond := MAXIMUM_STABILITY_FEE_PER_MILLISECOND \<rparr>)
      demo_redemption (- 1) 170000005000 = Inr d"
proof -
  have "params_ok (demo_parameters \<lparr> stability_fee_per_millisecond := MAXIMUM_STABILITY_FEE_PER_MILLISECOND \<rparr>)"
    using demo_bands(1) by (simp add: params_ok_def)
  from pokes_succeed_within_bands [OF this, of demo_accumulator 170000005000 demo_redemption borsh_stable_env "- 1"]
  show ?thesis
    by (auto simp: saturating_sub_def redemption_data_def)
qed

text \<open>
  C30. One tick of the controller, on every input.  It panics exactly when integral gain times error
  times elapsed time leaves the range of 256-bit integers; otherwise the new integral term and the new
  rate are those of the controller on unbounded integers, clamped to a hundred-billionth of one.
\<close>

theorem controller_tick_exact:
  "if fits_i256 (sint ki * (uint p - uint m) * uint dt)
   then \<exists>out. run_controller_tick p m I kp ki dt = Inr out \<and>
     sint (out_controller_integral_term out) = tick_integral (uint p - uint m) (sint I) (sint ki) (uint dt) \<and>
     uint (out_redemption_rate_per_millisecond out) = tick_rate (uint p) (tick_adjustment (uint p - uint m) (sint kp)
       (tick_integral (uint p - uint m) (sint I) (sint ki) (uint dt)))
   else run_controller_tick p m I kp ki dt = Inl (Panic ''controller: integral delta overflows I256'')"
  using run_controller_tick_cases [of ki p m dt I kp] by simp

text \<open>
  C31. A longer gap makes the update panic.  There are parameters and a state within their bands, a
  market price and a clock for which the update overflows, although the controller documents its
  elapsed time as clamped and the overflow as unreachable.
\<close>

theorem price_update_can_overflow:
  "\<exists>q r. params_ok q \<and> redemption_ok r \<and> last_updated_at r = 0 \<and>
    advance_redemption_price E q r (- 1) 200000000000 =
      Inl (Panic ''controller: integral delta overflows I256'')"
proof -
  let ?r = "demo_redemption \<lparr> last_updated_at := 0 \<rparr>" and ?m = "oracle_price_to_fixed_point (- 1)"
  have m: "unat ?m = 2 ^ 128 - 1"
    by (simp add: unat_oracle_price_to_fixed_point unat_max)
  have "uint ?m = int (unat ?m)"
    by simp
  then have m: "uint ?m = 2 ^ 128 - 1"
    unfolding m by simp
  obtain p where p: "bound_redemption_price (widen512 FIXED_POINT_ONE) = Inr p" "unat p = scale"
    using bound_redemption_price_total [of "widen512 FIXED_POINT_ONE"] by auto
  then have p': "p = FIXED_POINT_ONE"
    by (simp add: word_unat_eq_iff)
  have "\<not> fits_i256 (sint FIXED_POINT_ONE * (uint FIXED_POINT_ONE - uint ?m) * uint (200000000000 :: u64))"
    unfolding m by (simp add: fits_i256_def)
  then have tick: "run_controller_tick FIXED_POINT_ONE ?m 0 FIXED_POINT_ONE FIXED_POINT_ONE 200000000000 =
      Inl (Panic ''controller: integral delta overflows I256'')"
    by (rule run_controller_tick_cases(2))
  have "controller_integral_term demo_redemption = 0" "controller_proportional_gain demo_parameters = FIXED_POINT_ONE"
    "controller_integral_gain demo_parameters = FIXED_POINT_ONE"
    by (simp_all add: demo_redemption_def demo_parameters_def)
  then have "advance_redemption_price E demo_parameters ?r (- 1) 200000000000 =
      Inl (Panic ''controller: integral delta overflows I256'')"
    using tick p(1) p' by (simp add: advance_redemption_price_def compute_current_redemption_price_wide_def wide_one
        saturating_sub_def)
  moreover have "redemption_ok ?r"
    using demo_bands(3) by (simp add: redemption_ok_def)
  ultimately show ?thesis
    by (intro exI [of _ demo_parameters] exI [of _ ?r]) simp
qed

end
