(* ===== verification/Api.thy ===== *)
theory Api
  imports Borsh
begin

text \<open>
  What the client modules (\<^theory_text>\<open>modules/*/ffi\<close>) share: the results of their operations, the text of
  numbers and identifiers, the account reads they are given and the JSON they answer with.

  An operation takes a request and may end in three ways: it panics, it refuses with an error code,
  or it replies.  A Rust \<^theory_text>\<open>String\<close> is its list of characters; account data are the bytes themselves.
  The \<^theory_text>\<open>hex\<close> crate, the base-58 text of an \<^theory_text>\<open>AccountId\<close> and the size check of \<^theory_text>\<open>Data::try_from\<close> are
  not in the repository: they are fields of the environment \<^theory_text>\<open>api_env\<close>, with their documented laws in
  the locale \<^theory_text>\<open>api_text\<close>.
\<close>

section \<open>Results\<close>

text \<open>\<^theory_text>\<open>Result<T, String>\<close>, and the outcome of code that may also panic.\<close>

type_synonym 'a result = "string + 'a"
type_synonym 'a api = "'a result outcome"

abbreviation reply :: "'a \<Rightarrow> 'a api" where
  "reply v \<equiv> Inr (Inr v)"

abbreviation refusal :: "string \<Rightarrow> 'a api" where
  "refusal code \<equiv> Inr (Inl code)"

text \<open>\<^theory_text>\<open>if c { return Err(code) }\<close>, \<^theory_text>\<open>x?\<close> on a plain result, \<^theory_text>\<open>x.ok_or(code)?\<close> on an option,
  \<^theory_text>\<open>f(..)?\<close> on code that may panic, and \<^theory_text>\<open>let Ok(x) = f(..) else { return Err(code) }\<close>.\<close>

definition refuse :: "bool \<Rightarrow> string \<Rightarrow> 'a api \<Rightarrow> 'a api" where
  "refuse c code k = (if c then refusal code else k)"

definition question :: "'a result \<Rightarrow> ('a \<Rightarrow> 'b api) \<Rightarrow> 'b api" where
  "question r k = (case r of Inl e \<Rightarrow> refusal e | Inr x \<Rightarrow> k x)"

definition or_refuse :: "string \<Rightarrow> 'a option \<Rightarrow> ('a \<Rightarrow> 'b api) \<Rightarrow> 'b api" where
  "or_refuse code m k = (case m of None \<Rightarrow> refusal code | Some x \<Rightarrow> k x)"

definition question_api :: "'a api \<Rightarrow> ('a \<Rightarrow> 'b api) \<Rightarrow> 'b api" where
  "question_api m k = attempt m (\<lambda>r. question r k)"

definition else_refuse :: "string \<Rightarrow> 'a api \<Rightarrow> ('a \<Rightarrow> 'b api) \<Rightarrow> 'b api" where
  "else_refuse code m k = attempt m (\<lambda>r. case r of Inl _ \<Rightarrow> refusal code | Inr x \<Rightarrow> k x)"

definition result_ok :: "'a result \<Rightarrow> 'a option" where
  "result_ok r = (case r of Inl _ \<Rightarrow> None | Inr x \<Rightarrow> Some x)"

lemma api_cong [cong]:
  "c = c' \<Longrightarrow> refuse c code k = refuse c' code k"
  "r = r' \<Longrightarrow> question r f = question r' f"
  "m = m' \<Longrightarrow> or_refuse code m g = or_refuse code m' g"
  "q = q' \<Longrightarrow> question_api q h = question_api q' h"
  "q = q' \<Longrightarrow> else_refuse code q h = else_refuse code q' h"
  by simp_all

lemma api_simps [simp]:
  "refuse True code k = refusal code" "refuse False code k = k"
  "question (Inl e) f = refusal e" "question (Inr x) f = f x"
  "or_refuse code None g = refusal code" "or_refuse code (Some y) g = g y"
  "question_api (Inl p) h = Inl p" "question_api (refusal e) h = refusal e" "question_api (reply z) h = h z"
  "else_refuse code (Inl p) h = Inl p" "else_refuse code (refusal e) h = refusal code"
  "else_refuse code (reply z) h = h z"
  "result_ok (Inl e) = None" "result_ok (Inr x) = Some x"
  by (simp_all add: refuse_def question_def or_refuse_def question_api_def else_refuse_def result_ok_def)

lemma refuse_success [success]: "refuse c code k = reply v \<longleftrightarrow> \<not> c \<and> k = reply v"
  by (simp add: refuse_def)

lemma question_success [success]: "question r k = reply v \<longleftrightarrow> (\<exists>x. r = Inr x \<and> k x = reply v)"
  by (cases r) simp_all

lemma or_refuse_success [success]: "or_refuse code m k = reply v \<longleftrightarrow> (\<exists>x. m = Some x \<and> k x = reply v)"
  by (cases m) simp_all

lemma question_api_success [success]: "question_api m k = reply v \<longleftrightarrow> (\<exists>x. m = reply x \<and> k x = reply v)"
  by (cases m) (auto simp: question_api_def success)

lemma else_refuse_success [success]: "else_refuse code m k = reply v \<longleftrightarrow> (\<exists>x. m = reply x \<and> k x = reply v)"
  by (cases m) (auto simp: else_refuse_def split: sum.splits)

lemma result_ok_Some [success]: "result_ok r = Some x \<longleftrightarrow> r = Inr x"
  by (cases r) simp_all

lemmas api_inversion = refuse_success question_success or_refuse_success question_api_success
  else_refuse_success

text \<open>The boundary \<^theory_text>\<open>call\<close> catches a panic and wraps the answer into an envelope.\<close>

record 'a envelope =
  envelope_ok :: bool
  envelope_value :: "'a option"
  envelope_error :: "string option"

definition call :: "'a api \<Rightarrow> 'a envelope" where
  "call r = (case r of
      Inl _ \<Rightarrow> \<lparr> envelope_ok = False, envelope_value = None, envelope_error = Some ''internal panic'' \<rparr>
    | Inr (Inl e) \<Rightarrow> \<lparr> envelope_ok = False, envelope_value = None, envelope_error = Some e \<rparr>
    | Inr (Inr v) \<Rightarrow> \<lparr> envelope_ok = True, envelope_value = Some v, envelope_error = None \<rparr>)"

section \<open>JSON\<close>

text \<open>An object is the list of its fields in the order of the source.\<close>

datatype json = JNull | JBool bool | JNum int | JStr string | JArr "json list" | JObj "(string \<times> json) list"

fun json_field :: "string \<Rightarrow> json \<Rightarrow> json option" where
  "json_field k (JObj fs) = map_of fs k"
| "json_field k _ = None"

section \<open>Numbers as text\<close>

definition digit_char :: "nat \<Rightarrow> char" where
  "digit_char d = ''0123456789'' ! d"

definition digit_value :: "char \<Rightarrow> nat option" where
  "digit_value c = (let n = of_char c in if 48 \<le> n \<and> n \<le> 57 then Some (n - 48) else None)"

definition is_ascii_digit :: "char \<Rightarrow> bool" where
  "is_ascii_digit c = (digit_value c \<noteq> None)"

text \<open>\<^theory_text>\<open>to_string\<close> of an unsigned and of a signed integer.\<close>

fun decimal :: "nat \<Rightarrow> string" where
  "decimal n = (if n < 10 then [digit_char n] else decimal (n div 10) @ [digit_char (n mod 10)])"

declare decimal.simps [simp del]

definition signed_decimal :: "int \<Rightarrow> string" where
  "signed_decimal i = (if i < 0 then CHR ''-'' # decimal (nat (- i)) else decimal (nat i))"

text \<open>\<^theory_text>\<open>str::parse\<close> of an unsigned integer: an optional plus sign and digits, the first defect wins.\<close>

fun parse_digits :: "nat \<Rightarrow> nat \<Rightarrow> string \<Rightarrow> nat result" where
  "parse_digits bound acc [] = Inr acc"
| "parse_digits bound acc (c # cs) = (case digit_value c of
      None \<Rightarrow> Inl ''invalid digit found in string''
    | Some d \<Rightarrow> (if bound \<le> 10 * acc + d then Inl ''number too large to fit in target type''
                else parse_digits bound (10 * acc + d) cs))"

definition parse_uint :: "string \<Rightarrow> 'a::len word result" where
  "parse_uint s =
    (if s = [] then Inl ''cannot parse integer from empty string''
     else if s = ''+'' \<or> s = ''-'' then Inl ''invalid digit found in string''
     else (case parse_digits (2 ^ LENGTH('a)) 0 (if hd s = CHR ''+'' then tl s else s) of
             Inl e \<Rightarrow> Inl e | Inr n \<Rightarrow> Inr (of_nat n)))"

text \<open>\<^theory_text>\<open>parse_u128\<close> and \<^theory_text>\<open>parse_u64\<close>: the error names the field.\<close>

definition parse_labelled :: "string \<Rightarrow> string \<Rightarrow> 'a::len word result" where
  "parse_labelled s label = (case parse_uint s of Inl e \<Rightarrow> Inl (''invalid '' @ label @ '': '' @ e) | Inr w \<Rightarrow> Inr w)"

lemma digit_value_char: "d < 10 \<Longrightarrow> digit_value (digit_char d) = Some d"
  by (auto simp: digit_char_def digit_value_def less_Suc_eq numeral_eq_Suc)

lemma is_ascii_digit_Some: "digit_value c = Some d \<Longrightarrow> is_ascii_digit c"
  by (simp add: is_ascii_digit_def)

lemma decimal_nonempty [simp]: "decimal n \<noteq> []"
  by (subst decimal.simps) simp

lemma decimal_digits: "list_all is_ascii_digit (decimal n)"
proof (induction n rule: decimal.induct)
  case (1 n)
  then show ?case
    by (subst decimal.simps) (simp add: digit_value_char [THEN is_ascii_digit_Some])
qed

lemma parse_digits_append:
  "parse_digits bound acc (xs @ ys) =
    (case parse_digits bound acc xs of Inl e \<Rightarrow> Inl e | Inr n \<Rightarrow> parse_digits bound n ys)"
  by (induction xs arbitrary: acc) (auto split: option.splits)

lemma parse_digits_decimal: "n < bound \<Longrightarrow> parse_digits bound 0 (decimal n) = Inr n"
proof (induction n rule: decimal.induct)
  case (1 n)
  show ?case
  proof (cases "n < 10")
    case True
    then show ?thesis
      using 1(2) by (subst decimal.simps) (simp add: digit_value_char)
  next
    case False
    have "n div 10 < bound"
      using 1(2) by (rule le_less_trans [OF div_le_dividend])
    then show ?thesis
      using False 1 by (subst decimal.simps) (simp add: parse_digits_append digit_value_char)
  qed
qed

lemma decimal_head: "hd (decimal n) \<noteq> CHR ''+''" "decimal n \<noteq> ''-''"
proof -
  have "is_ascii_digit (hd (decimal n))"
    using decimal_digits [of n] by (cases "decimal n") simp_all
  then show "hd (decimal n) \<noteq> CHR ''+''" "decimal n \<noteq> ''-''"
    by (auto simp: is_ascii_digit_def digit_value_def)
qed

text \<open>A printed number is read back.\<close>

lemma parse_decimal [simp]: "parse_uint (decimal (unat w)) = Inr w"
proof -
  have "parse_digits (2 ^ LENGTH('a)) 0 (decimal (unat w)) = Inr (unat (w :: 'a::len word))"
    by (rule parse_digits_decimal) (rule unat_lt)
  then show ?thesis
    using decimal_head [of "unat w"] by (auto simp: parse_uint_def)
qed

lemma parse_labelled_decimal [simp]: "parse_labelled (decimal (unat w)) label = Inr w"
  by (simp add: parse_labelled_def)

lemma parse_labelled_Inr [success]: "parse_labelled s label = Inr w \<longleftrightarrow> parse_uint s = Inr w"
  by (auto simp: parse_labelled_def split: sum.splits)

lemma decimal_inject [simp]: "decimal (unat (a :: 'a::len word)) = decimal (unat b) \<longleftrightarrow> a = b"
proof
  assume "decimal (unat a) = decimal (unat b)"
  then have "parse_uint (decimal (unat a)) = (parse_uint (decimal (unat b)) :: 'a word result)"
    by simp
  then show "a = b"
    by simp
qed simp

section \<open>Identifiers and account reads\<close>

record api_env =
  hex_encode :: "bytes \<Rightarrow> string"
  hex_decode :: "string \<Rightarrow> bytes result"
  base58_encode :: "account_id \<Rightarrow> string"
  base58_decode :: "string \<Rightarrow> account_id result"
  data_from_bytes :: "bytes \<Rightarrow> bytes result"

definition is_lower_hex :: "char \<Rightarrow> bool" where
  "is_lower_hex c = (is_ascii_digit c \<or> (let n = of_char c :: nat in 97 \<le> n \<and> n \<le> 102))"

text \<open>\<^theory_text>\<open>AccountId::new\<close> of the 32 bytes.\<close>

definition id_of_bytes :: "bytes \<Rightarrow> account_id" where
  "id_of_bytes bs = from_le_bytes (rev bs)"

definition parse_hex_32 :: "'x api_env_scheme \<Rightarrow> string \<Rightarrow> string \<Rightarrow> bytes result" where
  "parse_hex_32 A s label =
    (if length s \<noteq> 64 \<or> \<not> list_all is_lower_hex s
     then Inl (label @ '' must be 64 lowercase hexadecimal characters'')
     else (case hex_decode A s of Inl e \<Rightarrow> Inl (''invalid '' @ label @ '': '' @ e) | Inr bs \<Rightarrow> Inr bs))"

definition account_id_from_hex :: "'x api_env_scheme \<Rightarrow> string \<Rightarrow> string \<Rightarrow> account_id result" where
  "account_id_from_hex A s label =
    (case parse_hex_32 A s label of Inl e \<Rightarrow> Inl e | Inr bs \<Rightarrow> Inr (id_of_bytes bs))"

definition parse_program_id :: "'x api_env_scheme \<Rightarrow> string \<Rightarrow> account_id result" where
  "parse_program_id A s =
    (case parse_hex_32 A s ''program id'' of Inl e \<Rightarrow> Inl e | Inr bs \<Rightarrow> Inr (id_of_bytes bs))"

definition parse_base58_id :: "'x api_env_scheme \<Rightarrow> string \<Rightarrow> string \<Rightarrow> account_id result" where
  "parse_base58_id A s label =
    (case base58_decode A s of Inl e \<Rightarrow> Inl (''invalid '' @ label @ '': '' @ e) | Inr i \<Rightarrow> Inr i)"

definition account_id_hex :: "'x api_env_scheme \<Rightarrow> account_id \<Rightarrow> string" where
  "account_id_hex A i = hex_encode A (to_bytes i)"

definition parse_le_u128 :: "'x api_env_scheme \<Rightarrow> string \<Rightarrow> string \<Rightarrow> u128 result" where
  "parse_le_u128 A s label =
    (if length s \<noteq> 32 \<or> \<not> list_all is_lower_hex s
     then Inl (label @ '' must be 32 lowercase hexadecimal characters'')
     else (case hex_decode A s of
             Inl e \<Rightarrow> Inl (''invalid '' @ label @ '': '' @ e) | Inr bs \<Rightarrow> Inr (from_le_bytes bs)))"

record wallet_account =
  wallet_owner :: string
  wallet_balance :: string
  wallet_nonce :: string
  wallet_data :: string

record account_read =
  read_id :: string
  read_status :: string
  read_account :: "wallet_account option"

definition decode_account :: "'x api_env_scheme \<Rightarrow> account_read \<Rightarrow> (account_id \<times> bytes account) result" where
  "decode_account A r =
    (if read_status r \<noteq> ''ok'' then Inl ''account read failed'' else
     case account_id_from_hex A (read_id r) ''account id'' of Inl e \<Rightarrow> Inl e | Inr i \<Rightarrow>
     case read_account r of None \<Rightarrow> Inl ''successful account read has no account'' | Some source \<Rightarrow>
     case parse_program_id A (wallet_owner source) of Inl e \<Rightarrow> Inl e | Inr owner \<Rightarrow>
     case parse_le_u128 A (wallet_balance source) ''account balance'' of Inl e \<Rightarrow> Inl e | Inr b \<Rightarrow>
     case parse_le_u128 A (wallet_nonce source) ''account nonce'' of Inl e \<Rightarrow> Inl e | Inr n \<Rightarrow>
     if odd (length (wallet_data source)) \<or> \<not> list_all is_lower_hex (wallet_data source)
     then Inl ''account data must be lowercase even-length hexadecimal'' else
     case hex_decode A (wallet_data source) of Inl e \<Rightarrow> Inl (''invalid account data: '' @ e) | Inr bs \<Rightarrow>
     case data_from_bytes A bs of Inl e \<Rightarrow> Inl (''account data is too large: '' @ e) | Inr d \<Rightarrow>
     Inr (i, \<lparr> program_owner = owner, balance = b, data = d, nonce = n \<rparr>))"

text \<open>The read a wallet makes of an account (\<^theory_text>\<open>account_read\<close> of the test support).\<close>

definition read_of :: "'x api_env_scheme \<Rightarrow> account_id \<Rightarrow> bytes account \<Rightarrow> account_read" where
  "read_of A i a = \<lparr> read_id = account_id_hex A i, read_status = ''ok'', read_account = Some
     \<lparr> wallet_owner = account_id_hex A (program_owner a), wallet_balance = hex_encode A (to_le_bytes (balance a)),
       wallet_nonce = hex_encode A (to_le_bytes (nonce a)), wallet_data = hex_encode A (data a) \<rparr> \<rparr>"

lemma id_of_bytes [simp]: "id_of_bytes (to_bytes i) = i"
  using from_to_le_bytes [of i] by (simp add: id_of_bytes_def to_bytes_def to_be_bytes_def)

locale api_text =
  fixes A :: "'x api_env_scheme"
  assumes hex_round: "hex_decode A (hex_encode A bs) = Inr bs"
    and hex_length: "length (hex_encode A bs) = 2 * length bs"
    and hex_lower: "list_all is_lower_hex (hex_encode A bs)"
    and base58_round: "base58_decode A (base58_encode A i) = Inr i"
    and data_as_is: "data_from_bytes A bs = Inr d \<Longrightarrow> d = bs"
begin

lemma parse_hex_32_encoded: "length bs = 32 \<Longrightarrow> parse_hex_32 A (hex_encode A bs) label = Inr bs"
  by (simp add: parse_hex_32_def hex_length hex_lower hex_round)

lemma id_round [simp]: "account_id_from_hex A (account_id_hex A i) label = Inr i"
  by (simp add: account_id_from_hex_def account_id_hex_def parse_hex_32_encoded)

lemma program_round [simp]: "parse_program_id A (account_id_hex A i) = Inr i"
  by (simp add: parse_program_id_def account_id_hex_def parse_hex_32_encoded)

lemma hex_inject: "hex_encode A bs = hex_encode A cs \<longleftrightarrow> bs = cs"
  by (metis hex_round sum.inject(2))

lemma id_hex_inject [simp]: "account_id_hex A i = account_id_hex A j \<longleftrightarrow> i = j"
  by (simp add: account_id_hex_def hex_inject)

lemma parse_le_encoded: "parse_le_u128 A (hex_encode A (to_le_bytes w)) label = Inr w"
  by (simp add: parse_le_u128_def hex_length hex_lower hex_round length_to_le_bytes from_to_le_bytes)

text \<open>An account read by a wallet is the account.\<close>

lemma read_round: "data_from_bytes A (data a) = Inr (data a) \<Longrightarrow> decode_account A (read_of A i a) = Inr (i, a)"
  by (simp add: decode_account_def read_of_def parse_le_encoded hex_length hex_lower hex_round)

end

section \<open>Plans\<close>

definition plan_response ::
  "'x api_env_scheme \<Rightarrow> string \<Rightarrow> account_id list \<Rightarrow> bool list \<Rightarrow> bytes \<Rightarrow> json" where
  "plan_response A program ids signing instruction = JObj
    [(''programId'', JStr program),
     (''accountIds'', JArr (map (\<lambda>i. JStr (account_id_hex A i)) ids)),
     (''signingRequirements'', JArr (map JBool signing)),
     (''instruction'', JArr (map (\<lambda>b. JNum (uint b)) instruction))]"

text \<open>
  A transaction presents a plan: its accounts carry the identifiers of the plan in its order, every
  account the plan asks to sign has signed, and its bytes are those of the plan.
\<close>

definition presents :: "'x api_env_scheme \<Rightarrow> json \<Rightarrow> 'd account_with_metadata list \<Rightarrow> bytes \<Rightarrow> bool" where
  "presents A plan accounts bs \<longleftrightarrow>
    (\<exists>program signing. plan = plan_response A program (map account_id accounts) signing bs \<and>
      list_all2 (\<lambda>needed a. needed \<longrightarrow> is_authorized a) signing accounts)"

text \<open>The validation the SPEL macro generates for instructions without fresh accounts.\<close>

definition validates_signers :: "('d, 'x) lee_env_scheme \<Rightarrow> bool" where
  "validates_signers E \<longleftrightarrow>
    (\<forall>xs. list_all (\<lambda>(fs, a). set fs \<subseteq> {Mut, Signer} \<and> (Signer \<in> set fs \<longrightarrow> is_authorized a)) xs \<longrightarrow>
      spel_validate E xs)"

lemma uint_list_inject: "map (\<lambda>b. JNum (uint b)) (xs :: bytes) = map (\<lambda>b. JNum (uint b)) ys \<longleftrightarrow> xs = ys"
  by (rule inj_map_eq_map) (simp add: inj_def word_uint_eq_iff)

lemma bool_list_inject: "map JBool xs = map JBool ys \<longleftrightarrow> xs = ys"
  by (rule inj_map_eq_map) (simp add: inj_def)

context api_text
begin

lemma id_list_inject:
  "map (\<lambda>i. JStr (account_id_hex A i)) is = map (\<lambda>i. JStr (account_id_hex A i)) js \<longleftrightarrow> is = js"
  by (rule inj_map_eq_map) (simp add: inj_def)

lemma plan_response_inject:
  "plan_response A p ids signing bs = plan_response A p' ids' signing' bs' \<longleftrightarrow>
    p = p' \<and> ids = ids' \<and> signing = signing' \<and> bs = bs'"
  by (auto simp: plan_response_def id_list_inject bool_list_inject uint_list_inject)

lemma presents_response:
  "presents A (plan_response A p ids signing bs) accounts bs' \<longleftrightarrow>
    map account_id accounts = ids \<and> bs' = bs \<and> list_all2 (\<lambda>needed a. needed \<longrightarrow> is_authorized a) signing accounts"
  by (auto simp: presents_def plan_response_inject)

end

section \<open>A concrete environment\<close>

definition hex_digit :: "nat \<Rightarrow> char" where
  "hex_digit d = ''0123456789abcdef'' ! d"

definition hex_value :: "char \<Rightarrow> nat option" where
  "hex_value c =
    (let n = of_char c in
     if 48 \<le> n \<and> n \<le> 57 then Some (n - 48)
     else if 97 \<le> n \<and> n \<le> 102 then Some (n - 87)
     else if 65 \<le> n \<and> n \<le> 70 then Some (n - 55) else None)"

fun hex_text :: "bytes \<Rightarrow> string" where
  "hex_text [] = ''''"
| "hex_text (b # bs) = hex_digit (unat b div 16) # hex_digit (unat b mod 16) # hex_text bs"

fun hex_bytes :: "string \<Rightarrow> bytes result" where
  "hex_bytes [] = Inr []"
| "hex_bytes [c] = Inl ''Odd number of digits''"
| "hex_bytes (c # d # cs) = (case (hex_value c, hex_value d) of
      (Some h, Some l) \<Rightarrow> (case hex_bytes cs of Inl e \<Rightarrow> Inl e | Inr bs \<Rightarrow> Inr (of_nat (16 * h + l) # bs))
    | _ \<Rightarrow> Inl ''Invalid character'')"

text \<open>Plain hexadecimal text stands for base 58, and data of every length fits.\<close>

definition plain_api :: api_env where
  "plain_api = \<lparr> hex_encode = hex_text, hex_decode = hex_bytes,
     base58_encode = (\<lambda>i. hex_text (to_bytes i)),
     base58_decode = (\<lambda>s. case hex_bytes s of Inl e \<Rightarrow> Inl e | Inr bs \<Rightarrow> Inr (id_of_bytes bs)),
     data_from_bytes = Inr \<rparr>"

lemma hex_value_digit: "d < 16 \<Longrightarrow> hex_value (hex_digit d) = Some d"
  by (auto simp: hex_digit_def hex_value_def less_Suc_eq numeral_eq_Suc)

lemma hex_digit_lower: "d < 16 \<Longrightarrow> is_lower_hex (hex_digit d)"
  by (auto simp: hex_digit_def is_lower_hex_def is_ascii_digit_def digit_value_def less_Suc_eq numeral_eq_Suc)

lemma nibbles: "unat (b :: u8) div 16 < 16" "unat b mod 16 < 16" "of_nat (16 * (unat b div 16) + unat b mod 16) = b"
  using unat_lt [of b] by (simp_all add: less_mult_imp_div_less)

lemma hex_bytes_text: "hex_bytes (hex_text bs) = Inr bs"
  by (induction bs) (simp_all add: hex_value_digit nibbles del: of_nat_add of_nat_mult)

lemma hex_text_shape: "length (hex_text bs) = 2 * length bs" "list_all is_lower_hex (hex_text bs)"
  by (induction bs) (simp_all add: hex_digit_lower nibbles)

interpretation plain: api_text plain_api
  by unfold_locales (simp_all add: plain_api_def hex_bytes_text hex_text_shape)

end
