(* ===== verification/Amm_Api.thy ===== *)
theory Amm_Api
  imports Api Amm_Admin
begin

text \<open>
  The AMM's client module (\<^theory_text>\<open>modules/amm/ffi/src/api\<close>): the reading of a configuration, the addresses
  of a pair, the wallet's holdings, and the plans of the administrator and of the oracle accounts.
  The accounts are read as bytes; \<^theory_text>\<open>borsh::to_vec\<close> of an instruction is a field of the environment
  \<^theory_text>\<open>amm_api_env\<close>, with its inverse and their law in the locale \<^theory_text>\<open>amm_api_text\<close>.
\<close>

record amm_api_env = api_env +
  instruction_to_vec :: "amm_instruction \<Rightarrow> bytes result"
  instruction_from_slice :: "bytes \<Rightarrow> amm_instruction option"

locale amm_api_text = api_text A for A :: "'x amm_api_env_scheme" +
  assumes instruction_round: "instruction_to_vec A i = Inr bs \<Longrightarrow> instruction_from_slice A bs = Some i"

section \<open>Plans\<close>

text \<open>
  A plan is the submission of one instruction: the accounts in the order of the guest, who signs, and
  the encoded instruction.
\<close>

definition to_vec :: "'x amm_api_env_scheme \<Rightarrow> amm_instruction \<Rightarrow> bytes result" where
  "to_vec A i = (case instruction_to_vec A i of
      Inl e \<Rightarrow> Inl (''instruction serialization failed: '' @ e) | Inr bs \<Rightarrow> Inr bs)"

definition status_error :: "string \<Rightarrow> json" where
  "status_error code = JObj [(''status'', JStr ''error''), (''code'', JStr code)]"

section \<open>config.rs\<close>

record config_id_request =
  cir_program :: string
  cir_owner :: string
  cir_nonce :: string

definition config_id :: "'x api_env_scheme \<Rightarrow> ('d, 'y) lee_env_scheme \<Rightarrow> config_id_request \<Rightarrow> json api" where
  "config_id A E r =
    question (parse_program_id A (cir_program r)) (\<lambda>amm_program.
    question (parse_base58_id A (cir_owner r) ''owner'') (\<lambda>owner.
    question (if cir_nonce r = '''' then Inr (replicate 32 0) else parse_hex_32 A (cir_nonce r) ''nonce'')
      (\<lambda>nonce_bytes.
    reply (JObj [(''status'', JStr ''ok''),
      (''configId'', JStr (account_id_hex A (compute_config_pda E amm_program owner (id_of_bytes nonce_bytes))))]))))"

definition load_config ::
  "'x api_env_scheme \<Rightarrow> (bytes, 'y) amm_env_scheme \<Rightarrow> account_id \<Rightarrow> account_read \<Rightarrow> (account_id \<times> amm_config) result" where
  "load_config A E amm_program r = (case decode_account A r of Inl e \<Rightarrow> Inl e | Inr (i, a) \<Rightarrow>
    if program_owner a \<noteq> amm_program \<or> a = account_default E then Inl ''AMM config is unavailable''
    else (case decode (config_codec E) (data a) of
            None \<Rightarrow> Inl ''AMM config is invalid'' | Some cfg \<Rightarrow> Inr (i, cfg)))"

text \<open>\<^theory_text>\<open>u32::try_from(x).unwrap_or(u32::MAX)\<close>.\<close>

definition clamp_u32 :: "u128 \<Rightarrow> u32" where
  "clamp_u32 x = (case narrow x of Some y \<Rightarrow> y | None \<Rightarrow> - 1)"

record config_account_request =
  car_program :: string
  car_config :: account_read

definition config_account ::
  "'x api_env_scheme \<Rightarrow> (bytes, 'y) amm_env_scheme \<Rightarrow> config_account_request \<Rightarrow> json api" where
  "config_account A E r =
    question (parse_program_id A (car_program r)) (\<lambda>amm_program.
    (case load_config A E amm_program (car_config r) of
       Inl _ \<Rightarrow> reply (JObj [(''status'', JStr ''error''), (''error'', JStr ''config_unavailable'')])
     | Inr (i, cfg) \<Rightarrow> reply (JObj
         [(''status'', JStr ''ok''), (''error'', JStr ''''),
          (''configId'', JStr (base58_encode A i)),
          (''ammProgramId'', JStr (base58_encode A amm_program)),
          (''authority'', JStr (base58_encode A (config_authority cfg))),
          (''tokenProgramId'', JStr (base58_encode A (config_token_program cfg))),
          (''twapOracleProgramId'', JStr (base58_encode A (config_oracle_program cfg))),
          (''swapFeeBps'', JNum (uint (clamp_u32 (swap_fee_bps cfg)))),
          (''protocolFeeBps'', JNum (uint (clamp_u32 (protocol_fee_bps cfg))))])))"

section \<open>pair.rs\<close>

record pair_accounts =
  pair_token_a :: account_id
  pair_token_b :: account_id
  pair_config :: account_id
  pair_pool :: account_id
  pair_vault_a :: account_id
  pair_vault_b :: account_id
  pair_lp_definition :: account_id
  pair_lp_lock_holding :: account_id
  pair_current_tick :: account_id
  pair_clock :: account_id
  pair_oracle_program :: account_id

definition is_canonical_pair :: "account_id \<Rightarrow> account_id \<Rightarrow> bool" where
  "is_canonical_pair token_a token_b = (token_b < token_a)"

definition derive_pair ::
  "'x api_env_scheme \<Rightarrow> (bytes, 'y) amm_env_scheme \<Rightarrow> account_id \<Rightarrow> account_id \<Rightarrow> account_id \<Rightarrow> account_read \<Rightarrow>
    pair_accounts api" where
  "derive_pair A E amm_program token_a token_b config_read =
    question (load_config A E amm_program config_read) (\<lambda>(config, cfg).
    attempt (compute_pool_pda E amm_program config token_a token_b) (\<lambda>pool.
    reply \<lparr> pair_token_a = token_a, pair_token_b = token_b, pair_config = config, pair_pool = pool,
      pair_vault_a = compute_vault_pda E amm_program pool token_a,
      pair_vault_b = compute_vault_pda E amm_program pool token_b,
      pair_lp_definition = compute_liquidity_token_pda E amm_program pool,
      pair_lp_lock_holding = compute_lp_lock_holding_pda E amm_program pool,
      pair_current_tick = compute_current_tick_account_pda E (config_oracle_program cfg) pool,
      pair_clock = clock_01_program_account_id E,
      pair_oracle_program = config_oracle_program cfg \<rparr>))"

definition pair_json :: "'x api_env_scheme \<Rightarrow> pair_accounts \<Rightarrow> json" where
  "pair_json A pair = JObj
    [(''status'', JStr ''ok''),
     (''tokenAId'', JStr (account_id_hex A (pair_token_a pair))),
     (''tokenBId'', JStr (account_id_hex A (pair_token_b pair))),
     (''configId'', JStr (account_id_hex A (pair_config pair))),
     (''poolId'', JStr (account_id_hex A (pair_pool pair))),
     (''vaultAId'', JStr (account_id_hex A (pair_vault_a pair))),
     (''vaultBId'', JStr (account_id_hex A (pair_vault_b pair))),
     (''lpDefinitionId'', JStr (account_id_hex A (pair_lp_definition pair))),
     (''lpLockHoldingId'', JStr (account_id_hex A (pair_lp_lock_holding pair))),
     (''currentTickId'', JStr (account_id_hex A (pair_current_tick pair))),
     (''clockId'', JStr (account_id_hex A (pair_clock pair)))]"

record pair_ids_request =
  pir_program :: string
  pir_config :: account_read
  pir_token_a :: string
  pir_token_b :: string

text \<open>The operations of the pair answer with an error status where the plans refuse.\<close>

definition status_when :: "bool \<Rightarrow> string \<Rightarrow> json api \<Rightarrow> json api" where
  "status_when c code k = (if c then reply (status_error code) else k)"

definition derived :: "pair_accounts api \<Rightarrow> (pair_accounts \<Rightarrow> json) \<Rightarrow> json api" where
  "derived m k = attempt m (\<lambda>r. case r of
      Inl _ \<Rightarrow> reply (status_error ''config_unavailable'') | Inr pair \<Rightarrow> reply (k pair))"

definition pair_ids :: "'x api_env_scheme \<Rightarrow> (bytes, 'y) amm_env_scheme \<Rightarrow> pair_ids_request \<Rightarrow> json api" where
  "pair_ids A E r =
    question (parse_program_id A (pir_program r)) (\<lambda>amm_program.
    (case (parse_base58_id A (pir_token_a r) ''token A id'', parse_base58_id A (pir_token_b r) ''token B id'') of
       (Inr token_a, Inr token_b) \<Rightarrow>
         status_when (token_a = token_b) ''same_token_pair'' (
         status_when (\<not> is_canonical_pair token_a token_b) ''non_canonical_pair'' (
         derived (derive_pair A E amm_program token_a token_b (pir_config r)) (pair_json A)))
     | _ \<Rightarrow> reply (status_error ''invalid_token_id'')))"

section \<open>holding.rs and token_holdings.rs\<close>

record selected_holding =
  selected_id :: account_id
  selected_definition :: account_id
  selected_balance :: u128

definition decode_fungible_holding ::
  "'x api_env_scheme \<Rightarrow> (bytes, 'y) token_env_scheme \<Rightarrow> account_read \<Rightarrow> account_id \<Rightarrow> selected_holding result" where
  "decode_fungible_holding A E r token_program = (case decode_account A r of Inl e \<Rightarrow> Inl e | Inr (i, a) \<Rightarrow>
    if program_owner a \<noteq> token_program then Inl ''holding owner mismatch''
    else (case decode (holding_codec E) (data a) of
            Some (Fungible d b) \<Rightarrow> Inr \<lparr> selected_id = i, selected_definition = d, selected_balance = b \<rparr>
          | _ \<Rightarrow> Inl ''invalid fungible holding''))"

definition wallet_holdings ::
  "'x api_env_scheme \<Rightarrow> (bytes, 'y) token_env_scheme \<Rightarrow> account_read list \<Rightarrow> account_id \<Rightarrow> selected_holding list" where
  "wallet_holdings A E reads token_program =
    List.map_filter (\<lambda>r. result_ok (decode_fungible_holding A E r token_program)) reads"

text \<open>\<^theory_text>\<open>max_by\<close> keeps the later of two equal elements: balance first, then the smaller identifier.\<close>

definition holding_le :: "selected_holding \<Rightarrow> selected_holding \<Rightarrow> bool" where
  "holding_le l r \<longleftrightarrow> selected_balance l < selected_balance r \<or>
    selected_balance l = selected_balance r \<and> selected_id r \<le> selected_id l"

fun max_holding :: "selected_holding list \<Rightarrow> selected_holding option" where
  "max_holding [] = None"
| "max_holding (h # hs) = Some (foldl (\<lambda>best h'. if holding_le best h' then h' else best) h hs)"

definition select_holding :: "selected_holding list \<Rightarrow> account_id \<Rightarrow> selected_holding option" where
  "select_holding holdings d =
    max_holding (filter (\<lambda>h. selected_definition h = d) holdings)"

record token_holdings_request =
  thr_program :: string
  thr_config :: account_read
  thr_wallet :: "account_read list"

definition holding_row :: "'x api_env_scheme \<Rightarrow> selected_holding \<Rightarrow> json" where
  "holding_row A h = JObj
    [(''accountId'', JStr (account_id_hex A (selected_id h))),
     (''accountType'', JStr ''TokenHolding''),
     (''definitionId'', JStr (base58_encode A (selected_definition h))),
     (''definitionIdHex'', JStr (account_id_hex A (selected_definition h))),
     (''balanceRaw'', JStr (decimal (unat (selected_balance h))))]"

definition token_holdings ::
  "'x api_env_scheme \<Rightarrow> (bytes, 'y) amm_env_scheme \<Rightarrow> token_holdings_request \<Rightarrow> json api" where
  "token_holdings A E r =
    question (parse_program_id A (thr_program r)) (\<lambda>amm_program.
    question (load_config A E amm_program (thr_config r)) (\<lambda>(_, cfg).
    reply (JObj [(''holdings'',
      JArr (map (holding_row A) (wallet_holdings A E (thr_wallet r) (config_token_program cfg))))])))"

section \<open>context.rs\<close>

text \<open>
  The token selector: one row for each requested token whose definition is readable and fungible, with
  the account the wallet would use, held tokens first.  A name's characters are its UTF-8 bytes.
\<close>

record token_row =
  row_definition :: account_id
  row_name :: rust_string
  row_supply :: u128
  row_selected :: "selected_holding option"

record resolve_tokens_request =
  rtr_program :: string
  rtr_config :: account_read
  rtr_tokens :: "string list"
  rtr_wallet :: "account_read list"
  rtr_definitions :: "account_read list"

definition fungible_definition ::
  "'x api_env_scheme \<Rightarrow> (bytes, 'y) token_env_scheme \<Rightarrow> account_read option \<Rightarrow> account_id \<Rightarrow> account_id \<Rightarrow>
    (rust_string \<times> u128) option" where
  "fungible_definition A E r token_id token_program =
    (case r of None \<Rightarrow> None | Some r' \<Rightarrow>
     case decode_account A r' of Inl _ \<Rightarrow> None | Inr (i, a) \<Rightarrow>
     if i \<noteq> token_id \<or> program_owner a \<noteq> token_program then None
     else (case decode (definition_codec E) (data a) of
             Some (DefFungible n s _ _) \<Rightarrow> Some (n, s) | _ \<Rightarrow> None))"

fun text_le :: "string \<Rightarrow> string \<Rightarrow> bool" where
  "text_le [] t = True"
| "text_le (c # s) [] = False"
| "text_le (c # s) (d # t) =
    ((of_char c :: nat) < of_char d \<or> (of_char c :: nat) = of_char d \<and> text_le s t)"

definition row_le :: "'x api_env_scheme \<Rightarrow> token_row \<Rightarrow> token_row \<Rightarrow> bool" where
  "row_le A l r =
    (let held = (\<lambda>row. row_selected row \<noteq> None) in
     if held l \<noteq> held r then held l
     else text_le (base58_encode A (row_definition l)) (base58_encode A (row_definition r)))"

text \<open>A stable sort by a comparison, as \<^theory_text>\<open>sort_by\<close> is.\<close>

fun insert_by :: "('a \<Rightarrow> 'a \<Rightarrow> bool) \<Rightarrow> 'a \<Rightarrow> 'a list \<Rightarrow> 'a list" where
  "insert_by le x [] = [x]"
| "insert_by le x (y # ys) = (if le x y then x # y # ys else y # insert_by le x ys)"

definition sort_by :: "('a \<Rightarrow> 'a \<Rightarrow> bool) \<Rightarrow> 'a list \<Rightarrow> 'a list" where
  "sort_by le xs = foldr (insert_by le) xs []"

definition row_json :: "'x api_env_scheme \<Rightarrow> token_row \<Rightarrow> json" where
  "row_json A row = JObj
    [(''definitionId'', JStr (base58_encode A (row_definition row))),
     (''name'', JStr (map (\<lambda>b. char_of (unat b)) (row_name row))),
     (''totalSupply'', JStr (decimal (unat (row_supply row)))),
     (''holdingId'', JStr (case row_selected row of None \<Rightarrow> [] | Some h \<Rightarrow> base58_encode A (selected_id h))),
     (''balance'', JStr (case row_selected row of None \<Rightarrow> ''0'' | Some h \<Rightarrow> decimal (unat (selected_balance h))))]"

definition token_rows ::
  "'x api_env_scheme \<Rightarrow> (bytes, 'y) token_env_scheme \<Rightarrow> resolve_tokens_request \<Rightarrow> account_id \<Rightarrow> token_row list" where
  "token_rows A E r token_program =
    (let holdings = wallet_holdings A E (rtr_wallet r) token_program;
         token_ids = remdups (sort (List.map_filter (\<lambda>t. result_ok (account_id_from_hex A t ''token id'')) (rtr_tokens r)))
     in List.map_filter (\<lambda>token_id.
       (let read = List.find (\<lambda>d. account_id_from_hex A (read_id d) ''token definition id'' = Inr token_id)
          (rtr_definitions r) in
        case fungible_definition A E read token_id token_program of
          None \<Rightarrow> None
        | Some (n, s) \<Rightarrow> Some \<lparr> row_definition = token_id, row_name = n, row_supply = s,
            row_selected = select_holding holdings token_id \<rparr>)) token_ids)"

definition resolve_tokens ::
  "'x api_env_scheme \<Rightarrow> (bytes, 'y) amm_env_scheme \<Rightarrow> resolve_tokens_request \<Rightarrow> json api" where
  "resolve_tokens A E r =
    question (parse_program_id A (rtr_program r)) (\<lambda>amm_program.
    (case load_config A E amm_program (rtr_config r) of
       Inl _ \<Rightarrow> reply (JObj
         [(''status'', JStr ''error''), (''code'', JStr ''config_unavailable''), (''tokens'', JArr [])])
     | Inr (_, cfg) \<Rightarrow> reply (JObj
         [(''status'', JStr ''ok''),
          (''tokens'', JArr (map (row_json A) (sort_by (row_le A) (token_rows A E r (config_token_program cfg)))))])))"

section \<open>fee.rs\<close>

text \<open>The tiers are constants below \<^theory_text>\<open>2^64\<close>, so their conversion cannot fail.\<close>

definition fee_tiers :: "json api" where
  "fee_tiers = reply (JObj [(''feeTiers'', JArr (map (\<lambda>bps. JNum (uint bps)) SUPPORTED_FEE_TIERS))])"

section \<open>admin.rs\<close>

record transfer_ownership_request =
  tor_program :: string
  tor_config :: account_read
  tor_new_authority :: string

definition transfer_ownership_plan ::
  "'x amm_api_env_scheme \<Rightarrow> (bytes, 'y) amm_env_scheme \<Rightarrow> transfer_ownership_request \<Rightarrow> json api" where
  "transfer_ownership_plan A E r =
    question (parse_program_id A (tor_program r)) (\<lambda>amm_program.
    question (account_id_from_hex A (tor_new_authority r) ''new authority id'') (\<lambda>new_authority.
    or_refuse ''config_unavailable'' (result_ok (load_config A E amm_program (tor_config r))) (\<lambda>(config, cfg).
    question (to_vec A (UpdateConfig new_authority)) (\<lambda>instruction.
    reply (plan_response A (tor_program r) [config, config_authority cfg] [False, True] instruction)))))"

record withdraw_protocol_fees_request =
  wpr_program :: string
  wpr_config :: account_read
  wpr_token_definition :: string
  wpr_destination :: string
  wpr_amount :: string

definition withdraw_protocol_fees_plan ::
  "'x amm_api_env_scheme \<Rightarrow> (bytes, 'y) amm_env_scheme \<Rightarrow> withdraw_protocol_fees_request \<Rightarrow> json api" where
  "withdraw_protocol_fees_plan A E r =
    question (parse_program_id A (wpr_program r)) (\<lambda>amm_program.
    question (account_id_from_hex A (wpr_token_definition r) ''token definition id'') (\<lambda>token_definition.
    question (account_id_from_hex A (wpr_destination r) ''destination id'') (\<lambda>destination.
    question (parse_labelled (wpr_amount r) ''amount'') (\<lambda>amount.
    or_refuse ''config_unavailable'' (result_ok (load_config A E amm_program (wpr_config r))) (\<lambda>(config, cfg).
    question (to_vec A (WithdrawProtocolFees amount)) (\<lambda>instruction.
    reply (plan_response A (wpr_program r)
      [config, compute_protocol_fee_pda E amm_program config token_definition, destination, config_authority cfg]
      [False, False, False, True] instruction)))))))"

section \<open>oracle.rs\<close>

record oracle_setup_request =
  osr_program :: string
  osr_config :: account_read
  osr_token_a :: string
  osr_token_b :: string
  osr_window :: u64

definition resolve_setup ::
  "'x api_env_scheme \<Rightarrow> (bytes, 'y) amm_env_scheme \<Rightarrow> oracle_setup_request \<Rightarrow> pair_accounts api" where
  "resolve_setup A E r =
    question (parse_program_id A (osr_program r)) (\<lambda>amm_program.
    question (account_id_from_hex A (osr_token_a r) ''token A id'') (\<lambda>token_a.
    question (account_id_from_hex A (osr_token_b r) ''token B id'') (\<lambda>token_b.
    refuse (token_a = token_b) ''same_token_pair'' (
    else_refuse ''config_unavailable'' (derive_pair A E amm_program token_a token_b (osr_config r)) reply))))"

definition create_price_observations_plan ::
  "'x amm_api_env_scheme \<Rightarrow> (bytes, 'y) amm_env_scheme \<Rightarrow> oracle_setup_request \<Rightarrow> json api" where
  "create_price_observations_plan A E r =
    question_api (resolve_setup A E r) (\<lambda>pair.
    refuse (unat (osr_window r) < OBSERVATIONS_CAPACITY) ''invalid_window'' (
    question (to_vec A (PoolPriceObservations (osr_window r))) (\<lambda>instruction.
    reply (plan_response A (osr_program r)
      [pair_config pair, pair_pool pair, pair_current_tick pair,
       compute_price_observations_pda E (pair_oracle_program pair) (pair_pool pair) (osr_window r), pair_clock pair]
      (replicate 5 False) instruction))))"

definition create_oracle_price_account_plan ::
  "'x amm_api_env_scheme \<Rightarrow> (bytes, 'y) amm_env_scheme \<Rightarrow> oracle_setup_request \<Rightarrow> json api" where
  "create_oracle_price_account_plan A E r =
    question_api (resolve_setup A E r) (\<lambda>pair.
    question (to_vec A (PoolOraclePriceAccount (osr_window r))) (\<lambda>instruction.
    reply (plan_response A (osr_program r)
      [pair_config pair, pair_pool pair,
       compute_oracle_price_account_pda E (pair_oracle_program pair) (pair_pool pair) (osr_window r), pair_clock pair]
      (replicate 4 False) instruction)))"

section \<open>Facts\<close>

lemma to_vec_Inr [success]: "to_vec A i = Inr bs \<longleftrightarrow> instruction_to_vec A i = Inr bs"
  by (auto simp: to_vec_def split: sum.splits)

lemma load_config_Inr [success]:
  "load_config A E amm r = Inr (i, cfg) \<longleftrightarrow>
    (\<exists>a. decode_account A r = Inr (i, a) \<and> program_owner a = amm \<and> a \<noteq> account_default E \<and>
      decode (config_codec E) (data a) = Some cfg)"
  by (auto simp: load_config_def split: sum.splits option.splits)

text \<open>The account chosen for a token: one of the wallet's holdings of it, with the largest balance.\<close>

lemma holding_le_total: "holding_le k m \<or> holding_le m k"
  unfolding holding_le_def word_less_nat_alt word_le_nat_alt word_unat_eq_iff by linarith

lemma holding_le_refl: "holding_le k k"
  by (simp add: holding_le_def)

lemma holding_le_trans: "holding_le k m \<Longrightarrow> holding_le m n \<Longrightarrow> holding_le k n"
  unfolding holding_le_def word_less_nat_alt word_le_nat_alt word_unat_eq_iff by linarith

lemma foldl_max_holding:
  "foldl (\<lambda>best h'. if holding_le best h' then h' else best) h hs \<in> insert h (set hs) \<and>
    (\<forall>k \<in> insert h (set hs). holding_le k (foldl (\<lambda>best h'. if holding_le best h' then h' else best) h hs))"
proof (induction hs arbitrary: h)
  case Nil
  then show ?case
    by (simp add: holding_le_refl)
next
  case (Cons x hs)
  let ?b = "if holding_le h x then x else h"
  let ?m = "foldl (\<lambda>best h'. if holding_le best h' then h' else best) ?b hs"
  have "holding_le h ?b" "holding_le x ?b" "?b \<in> {h, x}"
    using holding_le_total [of h x] holding_le_refl by (cases "holding_le h x"; simp)+
  moreover have "?m \<in> insert ?b (set hs)" "holding_le ?b ?m" "\<forall>k \<in> set hs. holding_le k ?m"
    using Cons.IH [of ?b] by blast+
  moreover from this calculation have "holding_le h ?m" "holding_le x ?m"
    using holding_le_trans by blast+
  ultimately have "?m \<in> insert h (set (x # hs)) \<and> (\<forall>k \<in> insert h (set (x # hs)). holding_le k ?m)"
    by auto
  then show ?case
    by simp
qed

lemma select_holding_best:
  assumes "select_holding hs d = Some h"
  shows "h \<in> set hs" "selected_definition h = d"
    "\<forall>k \<in> set hs. selected_definition k = d \<longrightarrow> holding_le k h"
proof -
  obtain x xs where f: "filter (\<lambda>h. selected_definition h = d) hs = x # xs"
    and h: "h = foldl (\<lambda>best h'. if holding_le best h' then h' else best) x xs"
    using assms by (cases "filter (\<lambda>h. selected_definition h = d) hs") (simp_all add: select_holding_def)
  have set: "set (x # xs) = {k \<in> set hs. selected_definition k = d}"
    using arg_cong [OF f, of set] by simp
  have "h \<in> set (x # xs)" "\<forall>k \<in> set (x # xs). holding_le k h"
    using foldl_max_holding [of x xs] by (simp_all add: h)
  then show "h \<in> set hs" "selected_definition h = d" "\<forall>k \<in> set hs. selected_definition k = d \<longrightarrow> holding_le k h"
    unfolding set by auto
qed

lemma select_holding_None: "select_holding hs d = None \<longleftrightarrow> (\<forall>k \<in> set hs. selected_definition k \<noteq> d)"
proof -
  have "max_holding xs = None \<longleftrightarrow> xs = []" for xs
    by (cases xs) simp_all
  then show ?thesis
    by (simp add: select_holding_def filter_empty_conv)
qed

text \<open>The rows offered: one for each requested token with a readable fungible definition.\<close>

lemma set_insert_by [simp]: "set (insert_by le x ys) = insert x (set ys)"
  by (induction ys) auto

lemma distinct_insert_by: "distinct (map f (insert_by le x ys)) \<longleftrightarrow> f x \<notin> f ` set ys \<and> distinct (map f ys)"
  by (induction ys) auto

lemma sort_by_set [simp]: "set (sort_by le xs) = set xs"
  by (induction xs) (simp_all add: sort_by_def)

lemma sort_by_distinct: "distinct (map f (sort_by le xs)) \<longleftrightarrow> distinct (map f xs)"
proof (induction xs)
  case (Cons x xs)
  have "sort_by le (x # xs) = insert_by le x (sort_by le xs)"
    by (simp add: sort_by_def)
  then show ?case
    using Cons by (simp add: distinct_insert_by)
qed (simp add: sort_by_def)

lemma token_rows_selected: "row \<in> set (token_rows A E r T) \<Longrightarrow>
    row_selected row = select_holding (wallet_holdings A E (rtr_wallet r) T) (row_definition row)"
  by (auto simp: token_rows_def map_filter_def Let_def split: option.splits)

lemma token_rows_distinct: "distinct (map row_definition (token_rows A E r T))"
proof -
  have keyed: "distinct (map row_definition (List.map_filter f xs))"
    if "distinct xs" "\<And>x row. f x = Some row \<Longrightarrow> row_definition row = x" for f and xs :: "account_id list"
    using that(1) by (induction xs) (auto simp: map_filter_def that(2))
  show ?thesis
    unfolding token_rows_def Let_def by (rule keyed) (auto split: option.splits)
qed

end
