(* ===== verification/Amm_Swap_Api.thy ===== *)
theory Amm_Swap_Api
  imports Amm_Api
begin

text \<open>
  The swap operations of the AMM's client module (\<^theory_text>\<open>modules/amm/ffi/src/api/swap.rs\<close>): the lookup of
  a pool, the preview of a swap in both directions and the plans that submit one.
\<close>

section \<open>Pools\<close>

definition swap_fee_bps_from_config ::
  "'x api_env_scheme \<Rightarrow> (bytes, 'y) amm_env_scheme \<Rightarrow> account_read \<Rightarrow> u128 result" where
  "swap_fee_bps_from_config A E r = (case decode_account A r of Inl e \<Rightarrow> Inl e | Inr (_, a) \<Rightarrow>
    (case decode (config_codec E) (data a) of None \<Rightarrow> Inl ''invalid_config'' | Some cfg \<Rightarrow> Inr (swap_fee_bps cfg)))"

definition canonical_pair :: "account_id \<Rightarrow> account_id \<Rightarrow> account_id \<times> account_id" where
  "canonical_pair token_in token_out =
    (if is_canonical_pair token_in token_out then (token_in, token_out) else (token_out, token_in))"

text \<open>\<^theory_text>\<open>hex::decode(&pool_data).ok().and_then(|bytes| borsh::from_slice(&bytes).ok())\<close>.\<close>

definition pool_from_hex :: "'x api_env_scheme \<Rightarrow> (bytes, 'y) amm_env_scheme \<Rightarrow> string \<Rightarrow> pool_definition option" where
  "pool_from_hex A E s = (case hex_decode A s of Inl _ \<Rightarrow> None | Inr bs \<Rightarrow> decode (pool_codec E) bs)"

definition live_pool_from_hex ::
  "'x api_env_scheme \<Rightarrow> (bytes, 'y) amm_env_scheme \<Rightarrow> string \<Rightarrow> pool_definition option" where
  "live_pool_from_hex A E s = (case pool_from_hex A E s of
     None \<Rightarrow> None | Some p \<Rightarrow> if liquidity_pool_supply p \<noteq> 0 then Some p else None)"

record swap_pair_request =
  spr_program :: string
  spr_token_in :: string
  spr_token_out :: string
  spr_config :: account_read

definition swap_pair_json :: "'x api_env_scheme \<Rightarrow> pair_accounts \<Rightarrow> json" where
  "swap_pair_json A pair = JObj
    [(''status'', JStr ''ok''),
     (''configId'', JStr (account_id_hex A (pair_config pair))),
     (''poolId'', JStr (account_id_hex A (pair_pool pair))),
     (''vaultAId'', JStr (account_id_hex A (pair_vault_a pair))),
     (''vaultBId'', JStr (account_id_hex A (pair_vault_b pair))),
     (''currentTickId'', JStr (account_id_hex A (pair_current_tick pair))),
     (''clockId'', JStr (account_id_hex A (pair_clock pair)))]"

definition swap_pair :: "'x api_env_scheme \<Rightarrow> (bytes, 'y) amm_env_scheme \<Rightarrow> swap_pair_request \<Rightarrow> json api" where
  "swap_pair A E r =
    question (parse_program_id A (spr_program r)) (\<lambda>amm_program.
    question (account_id_from_hex A (spr_token_in r) ''token in id'') (\<lambda>token_in.
    question (account_id_from_hex A (spr_token_out r) ''token out id'') (\<lambda>token_out.
    status_when (token_in = token_out) ''same_token_pair'' (
    (let (token_a, token_b) = canonical_pair token_in token_out in
     derived (derive_pair A E amm_program token_a token_b (spr_config r)) (swap_pair_json A))))))"

record resolve_pool_request =
  rpr_pool :: account_read
  rpr_config :: account_read

definition resolve_pool :: "'x api_env_scheme \<Rightarrow> (bytes, 'y) amm_env_scheme \<Rightarrow> resolve_pool_request \<Rightarrow> json api" where
  "resolve_pool A E r =
    (let pool_id = (case account_id_from_hex A (read_id (rpr_pool r)) ''pool id'' of
           Inl _ \<Rightarrow> '''' | Inr i \<Rightarrow> base58_encode A i);
         missing = reply (JObj
           [(''status'', JStr ''error''), (''error'', JStr ''no_pool''), (''poolId'', JStr pool_id)]) in
     if read_status (rpr_pool r) \<noteq> ''ok'' then missing else
     case decode_account A (rpr_pool r) of Inl _ \<Rightarrow> missing | Inr (_, a) \<Rightarrow>
     case decode (pool_codec E) (data a) of None \<Rightarrow> missing | Some p \<Rightarrow>
     if liquidity_pool_supply p = 0 then missing else
     question (swap_fee_bps_from_config A E (rpr_config r)) (\<lambda>fee.
     or_refuse ''invalid_fee_tier'' (narrow fee :: u32 option) (\<lambda>fee_bps.
     reply (JObj
       [(''status'', JStr ''ok''), (''error'', JStr ''''), (''poolId'', JStr pool_id),
        (''defAHex'', JStr (account_id_hex A (definition_token_a_id p))),
        (''defBHex'', JStr (account_id_hex A (definition_token_b_id p))),
        (''vaultAId'', JStr (base58_encode A (vault_a_id p))),
        (''vaultBId'', JStr (base58_encode A (vault_b_id p))),
        (''lpDefinitionId'', JStr (base58_encode A (liquidity_pool_id p))),
        (''reserveA'', JStr (decimal (unat (reserve_a p)))),
        (''reserveB'', JStr (decimal (unat (reserve_b p)))),
        (''liquiditySupply'', JStr (decimal (unat (liquidity_pool_supply p)))),
        (''feeBps'', JNum (uint fee_bps))]))))"

definition pool_id :: "'x api_env_scheme \<Rightarrow> ('d, 'y) lee_env_scheme \<Rightarrow> swap_pair_request \<Rightarrow> json api" where
  "pool_id A E r =
    question (parse_program_id A (spr_program r)) (\<lambda>amm_program.
    question (account_id_from_hex A (spr_token_in r) ''token in id'') (\<lambda>token_in.
    question (account_id_from_hex A (spr_token_out r) ''token out id'') (\<lambda>token_out.
    refuse (token_in = token_out) ''same_token_pair'' (
    question (decode_account A (spr_config r)) (\<lambda>(config, _).
    (let (token_a, token_b) = canonical_pair token_in token_out in
     attempt (compute_pool_pda E amm_program config token_a token_b) (\<lambda>pool.
     reply (JObj [(''poolId'', JStr (account_id_hex A pool))]))))))))"

section \<open>Previews\<close>

record swap_quote_request =
  sqr_token_in :: string
  sqr_token_out :: string
  sqr_amount :: string
  sqr_slippage :: u32
  sqr_config :: account_read
  sqr_pool_data :: string

text \<open>The reserves on the side of the token sold and of the token bought.\<close>

definition oriented_reserves :: "pool_definition \<Rightarrow> account_id \<Rightarrow> account_id \<Rightarrow> (u128 \<times> u128) option" where
  "oriented_reserves p token_in token_out =
    (if token_in = definition_token_a_id p \<and> token_out = definition_token_b_id p then Some (reserve_a p, reserve_b p)
     else if token_in = definition_token_b_id p \<and> token_out = definition_token_a_id p
     then Some (reserve_b p, reserve_a p)
     else None)"

definition swap_exact_in_quote ::
  "'x api_env_scheme \<Rightarrow> (bytes, 'y) amm_env_scheme \<Rightarrow> swap_quote_request \<Rightarrow> json api" where
  "swap_exact_in_quote A E r =
    question (account_id_from_hex A (sqr_token_in r) ''token in id'') (\<lambda>token_in.
    question (account_id_from_hex A (sqr_token_out r) ''token out id'') (\<lambda>token_out.
    refuse (token_in = token_out) ''same_token_pair'' (
    question (parse_labelled (sqr_amount r) ''amountIn'') (\<lambda>amount_in.
    refuse (FEE_BPS_DENOMINATOR \<le> ucast (sqr_slippage r)) ''invalid_slippage'' (
    question (swap_fee_bps_from_config A E (sqr_config r)) (\<lambda>fee_bps.
    or_refuse ''no_pool'' (live_pool_from_hex A E (sqr_pool_data r)) (\<lambda>p.
    or_refuse ''pair_mismatch'' (oriented_reserves p token_in token_out) (\<lambda>(reserve_in, reserve_out).
    refuse (reserve_in = 0 \<or> reserve_out = 0) ''no_pool'' (
    attempt (swap_exact_in_amounts amount_in reserve_in reserve_out fee_bps) (\<lambda>(effective_in, expected_out).
    refuse (effective_in = 0 \<or> expected_out = 0) ''amount_too_small'' (
    attempt (mul_div_floor expected_out (FEE_BPS_DENOMINATOR - ucast (sqr_slippage r)) FEE_BPS_DENOMINATOR)
      (\<lambda>min_received.
    attempt (price_impact_bps amount_in expected_out reserve_in reserve_out) (\<lambda>impact.
    reply (JObj
      [(''expectedOut'', JStr (decimal (unat expected_out))),
       (''minReceived'', JStr (decimal (unat min_received))),
       (''priceImpactBps'', JNum (uint impact))]))))))))))))))"

definition swap_exact_out_quote ::
  "'x api_env_scheme \<Rightarrow> (bytes, 'y) amm_env_scheme \<Rightarrow> swap_quote_request \<Rightarrow> json api" where
  "swap_exact_out_quote A E r =
    question (account_id_from_hex A (sqr_token_in r) ''token in id'') (\<lambda>token_in.
    question (account_id_from_hex A (sqr_token_out r) ''token out id'') (\<lambda>token_out.
    refuse (token_in = token_out) ''same_token_pair'' (
    question (parse_labelled (sqr_amount r) ''amountOut'') (\<lambda>amount_out.
    refuse (amount_out = 0) ''amount_too_small'' (
    refuse (FEE_BPS_DENOMINATOR \<le> ucast (sqr_slippage r)) ''invalid_slippage'' (
    question (swap_fee_bps_from_config A E (sqr_config r)) (\<lambda>fee_bps.
    or_refuse ''no_pool'' (live_pool_from_hex A E (sqr_pool_data r)) (\<lambda>p.
    or_refuse ''pair_mismatch'' (oriented_reserves p token_in token_out) (\<lambda>(reserve_in, reserve_out).
    refuse (reserve_in = 0 \<or> reserve_out = 0) ''no_pool'' (
    attempt (swap_exact_out_amounts amount_out reserve_in reserve_out fee_bps) (\<lambda>amounts.
    or_refuse ''output_exceeds_liquidity'' amounts (\<lambda>(_, required_in).
    attempt (mul_div_ceil required_in (FEE_BPS_DENOMINATOR + ucast (sqr_slippage r)) FEE_BPS_DENOMINATOR) (\<lambda>max_in.
    attempt (mul_div_floor reserve_in amount_out reserve_out) (\<lambda>spot_in.
    attempt (if spot_in = 0 then Inr 0
             else attempt (mul_div_floor (saturating_sub required_in spot_in) FEE_BPS_DENOMINATOR spot_in)
                    (\<lambda>bps. Inr (clamp_u32 bps))) (\<lambda>impact.
    reply (JObj
      [(''requiredIn'', JStr (decimal (unat required_in))),
       (''maxIn'', JStr (decimal (unat max_in))),
       (''priceImpactBps'', JNum (uint impact))]))))))))))))))))"

section \<open>Plans\<close>

record swap_plan_request =
  plr_program :: string
  plr_token_in :: string
  plr_token_out :: string
  plr_config :: account_read
  plr_input_holding :: string
  plr_output_holding :: string
  plr_amount :: string
  plr_limit :: string
  plr_deadline :: string
  plr_pool_data :: string

text \<open>
  Both plans are built the same way, word for word: they differ in the names of the two amounts and
  in the instruction.
\<close>

definition swap_plan ::
  "string \<Rightarrow> string \<Rightarrow> (u128 \<Rightarrow> u128 \<Rightarrow> u64 \<Rightarrow> amm_instruction) \<Rightarrow> 'x amm_api_env_scheme \<Rightarrow>
    (bytes, 'y) amm_env_scheme \<Rightarrow> swap_plan_request \<Rightarrow> json api" where
  "swap_plan amount_label limit_label build A E r =
    question (parse_program_id A (plr_program r)) (\<lambda>amm_program.
    question (account_id_from_hex A (plr_token_in r) ''token in id'') (\<lambda>token_in.
    question (account_id_from_hex A (plr_token_out r) ''token out id'') (\<lambda>token_out.
    refuse (token_in = token_out) ''same_token_pair'' (
    (let (token_a, token_b) = canonical_pair token_in token_out in
     else_refuse ''config_unavailable'' (derive_pair A E amm_program token_a token_b (plr_config r)) (\<lambda>pair.
     or_refuse ''no_pool'' (pool_from_hex A E (plr_pool_data r)) (\<lambda>p.
     question (account_id_from_hex A (plr_input_holding r) ''user input holding id'') (\<lambda>input_holding.
     question (account_id_from_hex A (plr_output_holding r) ''user output holding id'') (\<lambda>output_holding.
     question (parse_labelled (plr_amount r) amount_label) (\<lambda>amount.
     question (parse_labelled (plr_limit r) limit_label) (\<lambda>lim.
     question (parse_labelled (plr_deadline r) ''deadlineMs'') (\<lambda>dl.
     question (to_vec A (build amount lim dl)) (\<lambda>instruction.
     reply (plan_response A (plr_program r)
       [pair_config pair, pair_pool pair, vault_a_id p, vault_b_id p, input_holding, output_holding,
        pair_current_tick pair, pair_clock pair,
        compute_protocol_fee_pda E amm_program (pair_config pair) token_in]
       [False, False, False, False, True, False, False, False, False] instruction))))))))))))))"

definition swap_exact_in_plan ::
  "'x amm_api_env_scheme \<Rightarrow> (bytes, 'y) amm_env_scheme \<Rightarrow> swap_plan_request \<Rightarrow> json api" where
  "swap_exact_in_plan = swap_plan ''amountIn'' ''minOut'' SwapExactInput"

definition swap_exact_out_plan ::
  "'x amm_api_env_scheme \<Rightarrow> (bytes, 'y) amm_env_scheme \<Rightarrow> swap_plan_request \<Rightarrow> json api" where
  "swap_exact_out_plan = swap_plan ''amountOut'' ''maxIn'' SwapExactOutput"

end
