(* ===== verification/Amm_Liquidity_Api.thy ===== *)
theory Amm_Liquidity_Api
  imports Amm_Swap_Api
begin

text \<open>
  The liquidity operations of the AMM's client module (\<^theory_text>\<open>modules/amm/ffi/src/api/liquidity.rs\<close> and
  \<^theory_text>\<open>quote.rs\<close>): the previews of a pool's creation, of a deposit and of a withdrawal, and the plans
  that submit them.
\<close>

section \<open>quote.rs\<close>

definition Q64 :: u128 where
  "Q64 = 2 ^ 64"

text \<open>\<^theory_text>\<open>ruint\<close>'s \<^theory_text>\<open>div_ceil\<close> panics on a zero divisor.\<close>

definition div_ceil_u256 :: "u256 \<Rightarrow> u256 \<Rightarrow> u256 outcome" where
  "div_ceil_u256 numerator denominator =
    ensure (denominator \<noteq> 0) ''division by zero'' (Inr (div_ceil numerator denominator))"

text \<open>The middle of the search neither overflows nor leaves the interval.\<close>

lemma unat_mid:
  assumes "low < (high :: u128)"
  shows "unat (low + (high - low) div 2) = unat low + (unat high - unat low) div 2"
    and "unat (low + (high - low) div 2 + 1) = unat low + (unat high - unat low) div 2 + 1"
proof -
  have lt: "unat low < unat high"
    using assms by (simp add: word_less_nat_alt)
  have half: "unat ((high - low) div 2) = (unat high - unat low) div 2"
    using assms by (simp add: unat_div unat_sub order.strict_implies_order)
  have bound: "unat low + (unat high - unat low) div 2 + 1 < 2 ^ 128"
    using lt unat_lt [of high] by (simp; linarith)
  show mid: "unat (low + (high - low) div 2) = unat low + (unat high - unat low) div 2"
    using bound half by (subst unat_plus_exact) simp_all
  show "unat (low + (high - low) div 2 + 1) = unat low + (unat high - unat low) div 2 + 1"
    using bound mid by (subst unat_plus_exact) simp_all
qed

function binary_search_min :: "u128 \<Rightarrow> u128 \<Rightarrow> (u128 \<Rightarrow> bool outcome) \<Rightarrow> u128 outcome" where
  "binary_search_min low high predicate =
    (if low < high then
       (let mid = low + (high - low) div 2 in
        attempt (predicate mid) (\<lambda>hit.
          if hit then binary_search_min low mid predicate else binary_search_min (mid + 1) high predicate))
     else Inr low)"
  by pat_completeness auto

termination
proof (relation "measure (\<lambda>(low, high, _). unat high - unat low)")
  fix low high mid :: u128 and predicate :: "u128 \<Rightarrow> bool outcome" and hit :: bool
  assume lt: "low < high" and mid: "mid = low + (high - low) div 2"
  have "unat low < unat high"
    using lt by (simp add: word_less_nat_alt)
  then show "((low, mid, predicate), low, high, predicate) \<in> measure (\<lambda>(low, high, _). unat high - unat low)"
    "((mid + 1, high, predicate), low, high, predicate) \<in> measure (\<lambda>(low, high, _). unat high - unat low)"
    using unat_mid [OF lt] mid by auto
qed simp

declare binary_search_min.simps [simp del]

text \<open>The paired amount at a price, and whether the pair clears the locked minimum.\<close>

definition paired_amount :: "u128 \<Rightarrow> u128 \<Rightarrow> u128 \<Rightarrow> u256 outcome" where
  "paired_amount factor divisor amount = div_ceil_u256 (widen256 amount * widen256 factor) (widen256 divisor)"

definition clears_minimum :: "u256 \<Rightarrow> u128 \<Rightarrow> u128 \<Rightarrow> u128 \<Rightarrow> bool outcome" where
  "clears_minimum target factor divisor amount =
    attempt (paired_amount factor divisor amount) (\<lambda>paired. Inr (target \<le> widen256 amount * paired))"

text \<open>
  The searched side is token A at a price of at least one, and token B below; both branches of the
  source read the same with the roles of the price and of \<^theory_text>\<open>Q64\<close> exchanged.
\<close>

definition minimum_opening_pair :: "u128 \<Rightarrow> (u128 \<times> u128) api" where
  "minimum_opening_pair price =
    (let minimum_initial_lp = widen256 (MINIMUM_LIQUIDITY + 1) in
     or_refuse ''minimum liquidity product overflow'' (checked_mul minimum_initial_lp minimum_initial_lp)
       (\<lambda>target_product.
     if Q64 \<le> price then
       attempt (binary_search_min 1 (MINIMUM_LIQUIDITY + 1) (clears_minimum target_product price Q64)) (\<lambda>amount_a.
       attempt (paired_amount price Q64 amount_a) (\<lambda>amount_b.
       or_refuse ''opening amount overflow'' (narrow amount_b) (\<lambda>b. reply (amount_a, b))))
     else
       attempt (binary_search_min 1 (MINIMUM_LIQUIDITY + 1) (clears_minimum target_product Q64 price)) (\<lambda>amount_b.
       attempt (paired_amount Q64 price amount_b) (\<lambda>amount_a.
       or_refuse ''opening amount overflow'' (narrow amount_a) (\<lambda>a. reply (a, amount_b))))))"

section \<open>Creation\<close>

definition positive_amount :: "string option \<Rightarrow> u128 result" where
  "positive_amount v = (case v of
      None \<Rightarrow> Inl ''amount_required''
    | Some s \<Rightarrow>
        (if s = '''' then Inl ''amount_required''
         else if \<not> list_all is_ascii_digit s then Inl ''invalid_raw_amount''
         else (case parse_uint s of
                 Inl _ \<Rightarrow> Inl ''invalid_raw_amount''
               | Inr amount \<Rightarrow> if amount = 0 then Inl ''amount_must_be_positive'' else Inr amount)))"

definition canonical_triples ::
  "account_id \<Rightarrow> account_id \<Rightarrow> u128 \<Rightarrow> u128 \<Rightarrow> account_id \<Rightarrow> account_id \<Rightarrow>
    account_id \<times> account_id \<times> u128 \<times> u128 \<times> account_id \<times> account_id" where
  "canonical_triples token_a token_b amount_a amount_b holding_a holding_b =
    (if is_canonical_pair token_a token_b then (token_a, token_b, amount_a, amount_b, holding_a, holding_b)
     else (token_b, token_a, amount_b, amount_a, holding_b, holding_a))"

record create_quote_request =
  cqr_token_a :: string
  cqr_token_b :: string
  cqr_price :: "string option"
  cqr_amount_a :: "string option"
  cqr_amount_b :: "string option"

definition opening_amounts :: "create_quote_request \<Rightarrow> (u128 \<times> u128) option result" where
  "opening_amounts r =
    (if cqr_amount_a r \<noteq> None \<or> cqr_amount_b r \<noteq> None then
       (case positive_amount (cqr_amount_a r) of Inl e \<Rightarrow> Inl e | Inr a \<Rightarrow>
        case positive_amount (cqr_amount_b r) of Inl e \<Rightarrow> Inl e | Inr b \<Rightarrow> Inr (Some (a, b)))
     else Inr None)"

definition create_pool_quote ::
  "'x api_env_scheme \<Rightarrow> (bytes, 'y) amm_env_scheme \<Rightarrow> create_quote_request \<Rightarrow> json api" where
  "create_pool_quote A E r =
    question (account_id_from_hex A (cqr_token_a r) ''token A id'') (\<lambda>token_a.
    question (account_id_from_hex A (cqr_token_b r) ''token B id'') (\<lambda>token_b.
    refuse (token_a = token_b) ''same_token_pair'' (
    question (opening_amounts r) (\<lambda>amounts.
    question_api (case amounts of
        Some (amount_a, amount_b) \<Rightarrow> attempt (spot_price_q64_64 amount_a amount_b) reply
      | None \<Rightarrow> question (positive_amount (cqr_price r)) reply) (\<lambda>price.
    question_api (minimum_opening_pair price) (\<lambda>(minimum_a, minimum_b).
    (let (actual_a, actual_b) = (case amounts of Some ab \<Rightarrow> ab | None \<Rightarrow> (minimum_a, minimum_b)) in
     attempt (isqrt_product (uint_root E) actual_a actual_b) (\<lambda>initial_lp.
     or_refuse ''amount_too_low''
       (case checked_sub initial_lp MINIMUM_LIQUIDITY of
          None \<Rightarrow> None | Some user_lp \<Rightarrow> if 0 < user_lp then Some user_lp else None) (\<lambda>expected_lp.
     reply (JObj
       [(''actualAmountA'', JStr (decimal (unat actual_a))),
        (''actualAmountB'', JStr (decimal (unat actual_b))),
        (''minimumAmountA'', JStr (decimal (unat minimum_a))),
        (''minimumAmountB'', JStr (decimal (unat minimum_b))),
        (''expectedLp'', JStr (decimal (unat expected_lp))),
        (''lockedLp'', JStr (decimal (unat MINIMUM_LIQUIDITY))),
        (''price'', JStr (decimal (unat price)))]))))))))))"

record create_plan_request =
  cpr_program :: string
  cpr_config :: account_read
  cpr_token_a :: string
  cpr_token_b :: string
  cpr_amount_a :: "string option"
  cpr_amount_b :: "string option"
  cpr_deadline :: string
  cpr_holding_a :: string
  cpr_holding_b :: string
  cpr_holding_lp :: string

definition create_pool_plan ::
  "'x amm_api_env_scheme \<Rightarrow> (bytes, 'y) amm_env_scheme \<Rightarrow> create_plan_request \<Rightarrow> json api" where
  "create_pool_plan A E r =
    question (parse_program_id A (cpr_program r)) (\<lambda>amm_program.
    question (account_id_from_hex A (cpr_token_a r) ''token A id'') (\<lambda>token_a.
    question (account_id_from_hex A (cpr_token_b r) ''token B id'') (\<lambda>token_b.
    refuse (token_a = token_b) ''same_token_pair'' (
    question (account_id_from_hex A (cpr_holding_a r) ''user holding A id'') (\<lambda>holding_a.
    question (account_id_from_hex A (cpr_holding_b r) ''user holding B id'') (\<lambda>holding_b.
    question (account_id_from_hex A (cpr_holding_lp r) ''user LP holding id'') (\<lambda>user_lp.
    question (positive_amount (cpr_amount_a r)) (\<lambda>amount_a.
    question (positive_amount (cpr_amount_b r)) (\<lambda>amount_b.
    question (parse_labelled (cpr_deadline r) ''deadlineMs'') (\<lambda>dl.
    (let (canonical_a, canonical_b, canonical_amount_a, canonical_amount_b, user_a, user_b) =
           canonical_triples token_a token_b amount_a amount_b holding_a holding_b in
     else_refuse ''config_unavailable'' (derive_pair A E amm_program canonical_a canonical_b (cpr_config r)) (\<lambda>pair.
     question (to_vec A (NewDefinition canonical_amount_a canonical_amount_b dl)) (\<lambda>instruction.
     reply (plan_response A (cpr_program r)
       [pair_config pair, pair_pool pair, pair_vault_a pair, pair_vault_b pair, pair_lp_definition pair,
        pair_lp_lock_holding pair, user_a, user_b, user_lp, pair_current_tick pair, pair_clock pair]
       [False, False, False, False, False, False, True, True, True, False, False] instruction))))))))))))))"

section \<open>Deposits\<close>

record add_quote_request =
  aqr_token_a :: string
  aqr_token_b :: string
  aqr_max_a :: string
  aqr_max_b :: string
  aqr_slippage :: u32
  aqr_pool_data :: string

text \<open>Whether the caller's order of the tokens is the reverse of the pool's.\<close>

definition pool_orientation :: "pool_definition \<Rightarrow> account_id \<Rightarrow> account_id \<Rightarrow> bool option" where
  "pool_orientation p token_a token_b =
    (if token_a = definition_token_a_id p \<and> token_b = definition_token_b_id p then Some False
     else if token_a = definition_token_b_id p \<and> token_b = definition_token_a_id p then Some True
     else None)"

definition swap_if :: "bool \<Rightarrow> 'a \<times> 'a \<Rightarrow> 'a \<times> 'a" where
  "swap_if reversed ab = (if reversed then (snd ab, fst ab) else ab)"

definition add_liquidity_quote ::
  "'x api_env_scheme \<Rightarrow> (bytes, 'y) amm_env_scheme \<Rightarrow> add_quote_request \<Rightarrow> json api" where
  "add_liquidity_quote A E r =
    question (account_id_from_hex A (aqr_token_a r) ''token A id'') (\<lambda>token_a.
    question (account_id_from_hex A (aqr_token_b r) ''token B id'') (\<lambda>token_b.
    refuse (token_a = token_b) ''same_token_pair'' (
    question (positive_amount (Some (aqr_max_a r))) (\<lambda>max_a.
    question (positive_amount (Some (aqr_max_b r))) (\<lambda>max_b.
    refuse (FEE_BPS_DENOMINATOR \<le> ucast (aqr_slippage r)) ''invalid_slippage'' (
    or_refuse ''no_pool'' (live_pool_from_hex A E (aqr_pool_data r)) (\<lambda>p.
    or_refuse ''pair_mismatch'' (pool_orientation p token_a token_b) (\<lambda>reversed.
    refuse (reserve_a p = 0 \<or> reserve_b p = 0) ''no_pool'' (
    (let (max_pool_a, max_pool_b) = swap_if reversed (max_a, max_b) in
     attempt (mul_div_floor (reserve_a p) max_pool_b (reserve_b p)) (\<lambda>ideal_a.
     attempt (mul_div_floor (reserve_b p) max_pool_a (reserve_a p)) (\<lambda>ideal_b.
     (let actual_a = min ideal_a max_pool_a; actual_b = min ideal_b max_pool_b in
      attempt (mul_div_floor (liquidity_pool_supply p) actual_a (reserve_a p)) (\<lambda>lp_a.
      attempt (mul_div_floor (liquidity_pool_supply p) actual_b (reserve_b p)) (\<lambda>lp_b.
      (let delta_lp = min lp_a lp_b in
       refuse (actual_a = 0 \<or> actual_b = 0 \<or> delta_lp = 0) ''amount_too_low'' (
       attempt (mul_div_floor delta_lp (FEE_BPS_DENOMINATOR - ucast (aqr_slippage r)) FEE_BPS_DENOMINATOR)
         (\<lambda>minimum_lp.
       refuse (minimum_lp = 0) ''minimum_lp_zero'' (
       (let (display_a, display_b) = swap_if reversed (actual_a, actual_b);
            (reserve_display_a, reserve_display_b) = swap_if reversed (reserve_a p, reserve_b p) in
        attempt (spot_price_q64_64 reserve_display_a reserve_display_b) (\<lambda>price.
        reply (JObj
          [(''amountA'', JStr (decimal (unat display_a))),
           (''amountB'', JStr (decimal (unat display_b))),
           (''expectedLp'', JStr (decimal (unat delta_lp))),
           (''minimumLp'', JStr (decimal (unat minimum_lp))),
           (''price'', JStr (decimal (unat price))),
           (''lpDefinitionId'', JStr (base58_encode A (liquidity_pool_id p)))]))))))))))))))))))))))"

record add_plan_request =
  apr_program :: string
  apr_config :: account_read
  apr_token_a :: string
  apr_token_b :: string
  apr_max_a :: string
  apr_max_b :: string
  apr_min_lp :: string
  apr_deadline :: string
  apr_holding_a :: string
  apr_holding_b :: string
  apr_holding_lp :: string
  apr_pool_data :: string

definition add_liquidity_plan ::
  "'x amm_api_env_scheme \<Rightarrow> (bytes, 'y) amm_env_scheme \<Rightarrow> add_plan_request \<Rightarrow> json api" where
  "add_liquidity_plan A E r =
    question (parse_program_id A (apr_program r)) (\<lambda>amm_program.
    question (account_id_from_hex A (apr_token_a r) ''token A id'') (\<lambda>token_a.
    question (account_id_from_hex A (apr_token_b r) ''token B id'') (\<lambda>token_b.
    refuse (token_a = token_b) ''same_token_pair'' (
    question (account_id_from_hex A (apr_holding_a r) ''user holding A id'') (\<lambda>holding_a.
    question (account_id_from_hex A (apr_holding_b r) ''user holding B id'') (\<lambda>holding_b.
    question (account_id_from_hex A (apr_holding_lp r) ''user LP holding id'') (\<lambda>user_lp.
    question (positive_amount (Some (apr_max_a r))) (\<lambda>max_a.
    question (positive_amount (Some (apr_max_b r))) (\<lambda>max_b.
    question (positive_amount (Some (apr_min_lp r))) (\<lambda>min_lp.
    question (parse_labelled (apr_deadline r) ''deadlineMs'') (\<lambda>dl.
    else_refuse ''config_unavailable'' (derive_pair A E amm_program token_a token_b (apr_config r)) (\<lambda>pair.
    or_refuse ''no_pool'' (pool_from_hex A E (apr_pool_data r)) (\<lambda>p.
    or_refuse ''pair_mismatch'' (pool_orientation p token_a token_b) (\<lambda>reversed.
    (let (max_pool_a, max_pool_b) = swap_if reversed (max_a, max_b);
         (user_a, user_b) = swap_if reversed (holding_a, holding_b) in
     question (to_vec A (AddLiquidity min_lp max_pool_a max_pool_b dl)) (\<lambda>instruction.
     reply (plan_response A (apr_program r)
       [pair_config pair, pair_pool pair, vault_a_id p, vault_b_id p, liquidity_pool_id p, user_a, user_b,
        user_lp, pair_current_tick pair, pair_clock pair]
       [False, False, False, False, False, True, True, True, False, False] instruction)))))))))))))))))"

section \<open>Withdrawals\<close>

record remove_quote_request =
  rqr_token_a :: string
  rqr_token_b :: string
  rqr_lp_amount :: string
  rqr_slippage :: u32
  rqr_pool_data :: string

definition remove_liquidity_quote ::
  "'x api_env_scheme \<Rightarrow> (bytes, 'y) amm_env_scheme \<Rightarrow> remove_quote_request \<Rightarrow> json api" where
  "remove_liquidity_quote A E r =
    question (account_id_from_hex A (rqr_token_a r) ''token A id'') (\<lambda>token_a.
    question (account_id_from_hex A (rqr_token_b r) ''token B id'') (\<lambda>token_b.
    refuse (token_a = token_b) ''same_token_pair'' (
    question (positive_amount (Some (rqr_lp_amount r))) (\<lambda>lp_amount.
    refuse (FEE_BPS_DENOMINATOR \<le> ucast (rqr_slippage r)) ''invalid_slippage'' (
    or_refuse ''no_pool'' (live_pool_from_hex A E (rqr_pool_data r)) (\<lambda>p.
    refuse (reserve_a p = 0 \<or> reserve_b p = 0) ''no_pool'' (
    or_refuse ''no_pool''
      (case checked_sub (liquidity_pool_supply p) MINIMUM_LIQUIDITY of
         None \<Rightarrow> None | Some u \<Rightarrow> if 0 < u then Some u else None) (\<lambda>unlocked.
    refuse (unlocked < lp_amount) ''insufficient_pool_liquidity'' (
    or_refuse ''pair_mismatch'' (pool_orientation p token_a token_b) (\<lambda>reversed.
    attempt (mul_div_floor (reserve_a p) lp_amount (liquidity_pool_supply p)) (\<lambda>withdraw_a.
    attempt (mul_div_floor (reserve_b p) lp_amount (liquidity_pool_supply p)) (\<lambda>withdraw_b.
    refuse (withdraw_a = 0 \<or> withdraw_b = 0) ''amount_too_low'' (
    (let slippage_complement = FEE_BPS_DENOMINATOR - ucast (rqr_slippage r) in
     attempt (mul_div_floor withdraw_a slippage_complement FEE_BPS_DENOMINATOR) (\<lambda>minimum_a.
     attempt (mul_div_floor withdraw_b slippage_complement FEE_BPS_DENOMINATOR) (\<lambda>minimum_b.
     refuse (minimum_a = 0 \<or> minimum_b = 0) ''minimum_amount_zero'' (
     (let (display_a, display_b) = swap_if reversed (withdraw_a, withdraw_b);
          (minimum_display_a, minimum_display_b) = swap_if reversed (minimum_a, minimum_b);
          (reserve_display_a, reserve_display_b) = swap_if reversed (reserve_a p, reserve_b p) in
      attempt (spot_price_q64_64 reserve_display_a reserve_display_b) (\<lambda>price.
      reply (JObj
        [(''amountA'', JStr (decimal (unat display_a))),
         (''amountB'', JStr (decimal (unat display_b))),
         (''minimumAmountA'', JStr (decimal (unat minimum_display_a))),
         (''minimumAmountB'', JStr (decimal (unat minimum_display_b))),
         (''price'', JStr (decimal (unat price)))]))))))))))))))))))))"

record remove_plan_request =
  rmr_program :: string
  rmr_config :: account_read
  rmr_token_a :: string
  rmr_token_b :: string
  rmr_lp_amount :: string
  rmr_min_a :: string
  rmr_min_b :: string
  rmr_deadline :: string
  rmr_holding_a :: string
  rmr_holding_b :: string
  rmr_holding_lp :: string
  rmr_pool_data :: string

definition remove_liquidity_plan ::
  "'x amm_api_env_scheme \<Rightarrow> (bytes, 'y) amm_env_scheme \<Rightarrow> remove_plan_request \<Rightarrow> json api" where
  "remove_liquidity_plan A E r =
    question (parse_program_id A (rmr_program r)) (\<lambda>amm_program.
    question (account_id_from_hex A (rmr_token_a r) ''token A id'') (\<lambda>token_a.
    question (account_id_from_hex A (rmr_token_b r) ''token B id'') (\<lambda>token_b.
    refuse (token_a = token_b) ''same_token_pair'' (
    question (account_id_from_hex A (rmr_holding_a r) ''user holding A id'') (\<lambda>holding_a.
    question (account_id_from_hex A (rmr_holding_b r) ''user holding B id'') (\<lambda>holding_b.
    question (account_id_from_hex A (rmr_holding_lp r) ''user LP holding id'') (\<lambda>user_lp.
    question (positive_amount (Some (rmr_lp_amount r))) (\<lambda>lp_amount.
    question (positive_amount (Some (rmr_min_a r))) (\<lambda>min_a.
    question (positive_amount (Some (rmr_min_b r))) (\<lambda>min_b.
    question (parse_labelled (rmr_deadline r) ''deadlineMs'') (\<lambda>dl.
    else_refuse ''config_unavailable'' (derive_pair A E amm_program token_a token_b (rmr_config r)) (\<lambda>pair.
    or_refuse ''no_pool'' (pool_from_hex A E (rmr_pool_data r)) (\<lambda>p.
    or_refuse ''pair_mismatch'' (pool_orientation p token_a token_b) (\<lambda>reversed.
    (let (min_pool_a, min_pool_b) = swap_if reversed (min_a, min_b);
         (user_a, user_b) = swap_if reversed (holding_a, holding_b) in
     question (to_vec A (RemoveLiquidity lp_amount min_pool_a min_pool_b dl)) (\<lambda>instruction.
     reply (plan_response A (rmr_program r)
       [pair_config pair, pair_pool pair, vault_a_id p, vault_b_id p, liquidity_pool_id p, user_a, user_b,
        user_lp, pair_current_tick pair, pair_clock pair]
       [False, False, False, False, False, False, False, True, False, False] instruction)))))))))))))))))"

section \<open>Synchronisation\<close>

record sync_plan_request =
  syr_program :: string
  syr_config :: account_read
  syr_token_a :: string
  syr_token_b :: string
  syr_pool_data :: string

definition sync_reserves_plan ::
  "'x amm_api_env_scheme \<Rightarrow> (bytes, 'y) amm_env_scheme \<Rightarrow> sync_plan_request \<Rightarrow> json api" where
  "sync_reserves_plan A E r =
    question (parse_program_id A (syr_program r)) (\<lambda>amm_program.
    question (account_id_from_hex A (syr_token_a r) ''token A id'') (\<lambda>token_a.
    question (account_id_from_hex A (syr_token_b r) ''token B id'') (\<lambda>token_b.
    refuse (token_a = token_b) ''same_token_pair'' (
    else_refuse ''config_unavailable'' (derive_pair A E amm_program token_a token_b (syr_config r)) (\<lambda>pair.
    or_refuse ''no_pool'' (pool_from_hex A E (syr_pool_data r)) (\<lambda>p.
    question (to_vec A SyncReserves) (\<lambda>instruction.
    reply (plan_response A (syr_program r)
      [pair_config pair, pair_pool pair, vault_a_id p, vault_b_id p, pair_current_tick pair, pair_clock pair]
      (replicate 6 False) instruction))))))))"

end
