(* ===== verification/Amm_Api_Runs.thy ===== *)
theory Amm_Api_Runs
  imports Amm_Liquidity_Api Amm_Ledger
begin

text \<open>
  From the client to the chain: what a plan submits, when accounts on the chain present it, and the
  forward runs of the swap handlers that a preview foresees.
\<close>

section \<open>Submissions\<close>

text \<open>The guest decodes the instruction from the plan's bytes.\<close>

definition submits :: "'x amm_api_env_scheme \<Rightarrow> json \<Rightarrow> 'd account_with_metadata list \<Rightarrow> amm_instruction \<Rightarrow> bool" where
  "submits A plan accounts i \<longleftrightarrow>
    (\<exists>bs. presents A plan accounts bs \<and> instruction_from_slice A bs = Some i)"

context amm_api_text
begin

lemma submits_response:
  assumes "submits A (plan_response A p ids signing bs) accounts i" "instruction_to_vec A j = Inr bs"
  shows "map account_id accounts = ids" "i = j" "list_all2 (\<lambda>needed a. needed \<longrightarrow> is_authorized a) signing accounts"
  using assms instruction_round by (auto simp: submits_def presents_response)

end

section \<open>Inversion of the previews and plans\<close>

lemma compute_pool_pda_commute: "compute_pool_pda E p c a b = compute_pool_pda E p c b a"
  by (auto simp: compute_pool_pda_def compute_pool_pda_seed_def pool_seed_bytes_def)

lemma derive_pair_reply [success]:
  "derive_pair A E amm a b r = reply pair \<longleftrightarrow>
    (\<exists>i cfg pool. load_config A E amm r = Inr (i, cfg) \<and> compute_pool_pda E amm i a b = Inr pool \<and>
      pair = \<lparr> pair_token_a = a, pair_token_b = b, pair_config = i, pair_pool = pool,
        pair_vault_a = compute_vault_pda E amm pool a, pair_vault_b = compute_vault_pda E amm pool b,
        pair_lp_definition = compute_liquidity_token_pda E amm pool,
        pair_lp_lock_holding = compute_lp_lock_holding_pda E amm pool,
        pair_current_tick = compute_current_tick_account_pda E (config_oracle_program cfg) pool,
        pair_clock = clock_01_program_account_id E, pair_oracle_program = config_oracle_program cfg \<rparr>)"
  by (auto simp: derive_pair_def question_success attempt_success)

lemma live_pool_Some [success]:
  "live_pool_from_hex A E s = Some p \<longleftrightarrow>
    (\<exists>bs. hex_decode A s = Inr bs \<and> decode (pool_codec E) bs = Some p) \<and> liquidity_pool_supply p \<noteq> 0"
  by (auto simp: live_pool_from_hex_def pool_from_hex_def split: sum.splits option.splits if_splits)

lemma pool_from_hex_Some [success]:
  "pool_from_hex A E s = Some p \<longleftrightarrow> (\<exists>bs. hex_decode A s = Inr bs \<and> decode (pool_codec E) bs = Some p)"
  by (auto simp: pool_from_hex_def split: sum.splits)

lemma swap_fee_Inr [success]:
  "swap_fee_bps_from_config A E r = Inr f \<longleftrightarrow>
    (\<exists>i a cfg. decode_account A r = Inr (i, a) \<and> decode (config_codec E) (data a) = Some cfg \<and> f = swap_fee_bps cfg)"
  by (auto simp: swap_fee_bps_from_config_def split: sum.splits option.splits)

lemma oriented_reserves_Some [success]:
  "oriented_reserves p tin tout = Some (rin, rout) \<longleftrightarrow>
    (if tin = definition_token_a_id p \<and> tout = definition_token_b_id p then rin = reserve_a p \<and> rout = reserve_b p
     else tin = definition_token_b_id p \<and> tout = definition_token_a_id p \<and> rin = reserve_b p \<and> rout = reserve_a p)"
  by (auto simp: oriented_reserves_def)

lemma pool_orientation_Some [success]:
  "pool_orientation p ta tb = Some reversed \<longleftrightarrow>
    (if ta = definition_token_a_id p \<and> tb = definition_token_b_id p then reversed = False
     else ta = definition_token_b_id p \<and> tb = definition_token_a_id p \<and> reversed = True)"
  by (auto simp: pool_orientation_def)

text \<open>What a preview of a swap has established.\<close>

lemma swap_exact_in_quote_run:
  assumes "swap_exact_in_quote A E r = reply v"
  obtains tin tout x fee p rin rout e out m k where
    "account_id_from_hex A (sqr_token_in r) ''token in id'' = Inr tin"
    "account_id_from_hex A (sqr_token_out r) ''token out id'' = Inr tout" "tin \<noteq> tout"
    "parse_uint (sqr_amount r) = Inr x" "ucast (sqr_slippage r) < FEE_BPS_DENOMINATOR"
    "swap_fee_bps_from_config A E (sqr_config r) = Inr fee"
    "live_pool_from_hex A E (sqr_pool_data r) = Some p"
    "oriented_reserves p tin tout = Some (rin, rout)" "rin \<noteq> 0" "rout \<noteq> 0"
    "swap_exact_in_amounts x rin rout fee = Inr (e, out)" "e \<noteq> 0" "out \<noteq> 0"
    "mul_div_floor out (FEE_BPS_DENOMINATOR - ucast (sqr_slippage r)) FEE_BPS_DENOMINATOR = Inr m"
    "v = JObj [(''expectedOut'', JStr (decimal (unat out))), (''minReceived'', JStr (decimal (unat m))),
       (''priceImpactBps'', JNum (uint (k :: u32)))]"
  using assms unfolding swap_exact_in_quote_def
  by (simp only: api_inversion attempt_success split_paired_Ex prod.case parse_labelled_Inr
      sum.inject not_le de_Morgan_disj)
    (elim exE conjE, rule that; (assumption | erule sym))

lemma swap_exact_out_quote_run:
  assumes "swap_exact_out_quote A E r = reply v"
  obtains tin tout x fee p rin rout amounts e req m k where
    "account_id_from_hex A (sqr_token_in r) ''token in id'' = Inr tin"
    "account_id_from_hex A (sqr_token_out r) ''token out id'' = Inr tout" "tin \<noteq> tout"
    "parse_uint (sqr_amount r) = Inr x" "x \<noteq> 0" "ucast (sqr_slippage r) < FEE_BPS_DENOMINATOR"
    "swap_fee_bps_from_config A E (sqr_config r) = Inr fee"
    "live_pool_from_hex A E (sqr_pool_data r) = Some p"
    "oriented_reserves p tin tout = Some (rin, rout)" "rin \<noteq> 0" "rout \<noteq> 0"
    "swap_exact_out_amounts x rin rout fee = Inr amounts" "amounts = Some (e, req)"
    "mul_div_ceil req (FEE_BPS_DENOMINATOR + ucast (sqr_slippage r)) FEE_BPS_DENOMINATOR = Inr m"
    "v = JObj [(''requiredIn'', JStr (decimal (unat req))), (''maxIn'', JStr (decimal (unat m))),
       (''priceImpactBps'', JNum (uint (k :: u32)))]"
  using assms unfolding swap_exact_out_quote_def
  by (simp only: api_inversion attempt_success split_paired_Ex prod.case parse_labelled_Inr
      sum.inject not_le de_Morgan_disj)
    (elim exE conjE, rule that; (assumption | erule sym))

lemma swap_plan_run:
  assumes "swap_plan la ll build A E r = reply s"
  obtains amm tin tout i cfg pool bs p uin uout x lim dl code where
    "parse_program_id A (plr_program r) = Inr amm"
    "account_id_from_hex A (plr_token_in r) ''token in id'' = Inr tin"
    "account_id_from_hex A (plr_token_out r) ''token out id'' = Inr tout" "tin \<noteq> tout"
    "load_config A E amm (plr_config r) = Inr (i, cfg)" "compute_pool_pda E amm i tin tout = Inr pool"
    "hex_decode A (plr_pool_data r) = Inr bs" "decode (pool_codec E) bs = Some p"
    "account_id_from_hex A (plr_input_holding r) ''user input holding id'' = Inr uin"
    "account_id_from_hex A (plr_output_holding r) ''user output holding id'' = Inr uout"
    "parse_uint (plr_amount r) = Inr x" "parse_uint (plr_limit r) = Inr lim" "parse_uint (plr_deadline r) = Inr dl"
    "instruction_to_vec A (build x lim dl) = Inr code"
    "s = plan_response A (plr_program r)
       [i, pool, vault_a_id p, vault_b_id p, uin, uout, compute_current_tick_account_pda E (config_oracle_program cfg) pool,
        clock_01_program_account_id E, compute_protocol_fee_pda E amm i tin]
       [False, False, False, False, True, False, False, False, False] code"
proof -
  have pda: "compute_pool_pda E amm i (fst (canonical_pair tin tout)) (snd (canonical_pair tin tout)) =
      compute_pool_pda E amm i tin tout" for amm i tin tout
    by (simp add: canonical_pair_def compute_pool_pda_commute)
  show thesis
    using assms that unfolding swap_plan_def
    by (simp only: Let_def case_prod_beta api_inversion derive_pair_reply parse_labelled_Inr pool_from_hex_Some
        to_vec_Inr sum.inject pda) (elim exE conjE, simp)
qed

section \<open>The swap that a preview foresees\<close>

text \<open>
  The state of the chain a swap of \<^theory_text>\<open>x\<close> needs beyond what the client reads: holdings of the
  configured Token program in the vaults, which cover the reserves, and at the user; and reserves
  that can still take \<^theory_text>\<open>x\<close> in.
\<close>

definition tradable ::
  "('d, 'x) amm_env_scheme \<Rightarrow> amm_config \<Rightarrow> pool_definition \<Rightarrow> account_id \<Rightarrow> u128 \<Rightarrow> 'd account_with_metadata list \<Rightarrow> bool" where
  "tradable E c p token_in x accounts \<longleftrightarrow>
    (case accounts of [config, pool, va, vb, uin, uout, tk, clk, fh] \<Rightarrow>
      list_all (\<lambda>a. program_owner (account a) = config_token_program c) [va, vb, uin, uout] \<and>
      (\<exists>da a db b. decode (holding_codec E) (data (account va)) = Some (Fungible da a) \<and>
        decode (holding_codec E) (data (account vb)) = Some (Fungible db b) \<and>
        reserve_a p \<le> a \<and> reserve_b p \<le> b) \<and>
      (\<exists>h. decode (holding_codec E) (data (account uin)) = Some h \<and> definition_id h = token_in) \<and>
      MINIMUM_LIQUIDITY \<le> liquidity_pool_supply p \<and> fees_valid c \<and>
      unat (reserve_a p) + unat x < 2 ^ 128 \<and> unat (reserve_b p) + unat x < 2 ^ 128
     | _ \<Rightarrow> False)"

text \<open>The accounts of a swap as the guest checks them against the pool and the configuration.\<close>

definition swap_accounts_match ::
  "('d, 'x) amm_env_scheme \<Rightarrow> account_id \<Rightarrow> amm_config \<Rightarrow> pool_definition \<Rightarrow> account_id \<Rightarrow>
    'd account_with_metadata list \<Rightarrow> bool" where
  "swap_accounts_match E amm c p token_in accounts \<longleftrightarrow>
    (case accounts of [config, pool, va, vb, uin, uout, tk, clk, fh] \<Rightarrow>
      program_owner (account config) = amm \<and> decode (config_codec E) (data (account config)) = Some c \<and>
      decode (pool_codec E) (data (account pool)) = Some p \<and>
      compute_pool_pda E amm (account_id config) (definition_token_a_id p) (definition_token_b_id p) =
        Inr (account_id pool) \<and>
      account_id va = vault_a_id p \<and> account_id vb = vault_b_id p \<and>
      account_id tk = compute_current_tick_account_pda E (config_oracle_program c) (account_id pool) \<and>
      account_id clk = clock_01_program_account_id E \<and>
      account_id fh = compute_protocol_fee_pda E amm (account_id config) token_in
     | _ \<Rightarrow> False)"

lemma swap_checks_succeed:
  assumes "swap_accounts_match E amm c p tin [config, pool, va, vb, uin, uout, tk, clk, fh]"
    and "tradable E c p tin x [config, pool, va, vb, uin, uout, tk, clk, fh]"
    and "tin = definition_token_a_id p \<or> tin = definition_token_b_id p"
  shows "swap_checks E ctx config pool va vb uin uout tk clk fh amm =
    Inr (p, c, tin, if tin = definition_token_a_id p then uin else uout,
      if tin = definition_token_a_id p then uout else uin)"
proof -
  from assms(2) obtain da a db b h where world:
    "program_owner (account va) = config_token_program c" "program_owner (account vb) = config_token_program c"
    "program_owner (account uin) = config_token_program c" "program_owner (account uout) = config_token_program c"
    "decode (holding_codec E) (data (account va)) = Some (Fungible da a)"
    "decode (holding_codec E) (data (account vb)) = Some (Fungible db b)" "reserve_a p \<le> a" "reserve_b p \<le> b"
    "decode (holding_codec E) (data (account uin)) = Some h" "definition_id h = tin"
    "MINIMUM_LIQUIDITY \<le> liquidity_pool_supply p"
    by (auto simp: tradable_def)
  have ids: "program_owner (account config) = amm" "decode (config_codec E) (data (account config)) = Some c"
    "decode (pool_codec E) (data (account pool)) = Some p"
    "compute_pool_pda E amm (account_id config) (definition_token_a_id p) (definition_token_b_id p) =
        Inr (account_id pool)"
    "account_id va = vault_a_id p" "account_id vb = vault_b_id p"
    "account_id tk = compute_current_tick_account_pda E (config_oracle_program c) (account_id pool)"
    "account_id clk = clock_01_program_account_id E"
    "account_id fh = compute_protocol_fee_pda E amm (account_id config) tin"
    using assms(1) by (simp_all add: swap_accounts_match_def)
  have valid: "validate_swap_setup E pool va vb = Inr p"
    by (simp add: validate_swap_setup_def read_vault_fungible_balances_def read_fungible_holding_def world ids)
  have "assert_pool_in_config_namespace E pool config p amm = Inr ()"
    by (simp add: assert_pool_in_config_namespace_def ids)
  then show ?thesis
    using assms(3) by (auto simp: swap_checks_def valid ids(1,2,7-9) world)
qed

lemma swap_logic_succeeds:
  assumes "swap_exact_in_amounts x rin rout (swap_fee_bps c) = Inr (e, out)" "e \<noteq> 0" "out \<noteq> 0" "lim \<le> out"
    and "rin \<noteq> 0" "fees_valid c"
    and "decode (holding_codec E) (data (account vd)) = Some hdep" "decode (holding_codec E) (data (account vw)) = Some hw"
  shows "\<exists>f net. unat x = unat net + unat f \<and>
    swap_logic E ud vd vw uw x lim (swap_fee_bps c) (protocol_fee_bps c) fh rin rout pid cid =
      Inr (swap_transfers E (program_owner (account ud)) (account_id ud) (account_id vd) (account_id vw) (account_id uw)
         (account_id fh) pid cid (definition_id hdep) (definition_id hw) x out f, net, out)"
proof -
  have fee: "swap_fee_bps c \<le> FEE_BPS_DENOMINATOR" "protocol_fee_bps c \<le> FEE_BPS_DENOMINATOR"
    using assms(6) by (auto simp: fees_valid_def)
  have "unat e = effective_in (unat x) (unat (swap_fee_bps c))"
    using swap_exact_in_amounts_cases [OF assms(5) fee(1), of x rout] assms(1) by auto
  then have ex: "unat e \<le> unat x"
    by (simp add: effective_in_le)
  then have s: "checked_sub x e = Some (x - e)"
    by (simp add: checked_sub_def word_le_nat_alt)
  obtain f where f: "protocol_fee_amount (x - e) (protocol_fee_bps c) = Inr f" "unat f \<le> unat (x - e)"
    using protocol_fee_le [OF fee(2)] by blast
  have "unat (x - e) \<le> unat x"
    using ex by (simp add: unat_minus_exact word_le_nat_alt)
  then have fx: "unat f \<le> unat x"
    using f(2) by simp
  then have n: "checked_sub x f = Some (x - f)" "unat x = unat (x - f) + unat f"
    by (simp_all add: checked_sub_def word_le_nat_alt unat_minus_exact)
  show ?thesis
    by (intro exI [of _ f] exI [of _ "x - f"]) (simp add: swap_logic_def assms s f(1) n)
qed

lemma finalize_swap_succeeds:
  assumes "compute_pool_pda_seed E (account_id config) (definition_token_a_id p) (definition_token_b_id p) = Inr seed"
    and "unat (reserve_a p) + unat da < 2 ^ 128" "unat wa \<le> unat (reserve_a p) + unat da"
    and "unat wa \<noteq> unat (reserve_a p) + unat da"
    and "unat (reserve_b p) + unat db < 2 ^ 128" "unat wb \<le> unat (reserve_b p) + unat db"
    and "\<And>q. \<exists>d. encode (pool_codec E) q = Some d"
  shows "\<exists>ds call. finalize_swap E config pool p va vb uin uout tk clk fh da wa db wb oracle = Inr (ds, call) \<and>
    (\<forall>v. transfer_flow v call = 0)"
proof -
  have sum: "unat (reserve_a p + da) = unat (reserve_a p) + unat da" "unat (reserve_b p + db) = unat (reserve_b p) + unat db"
    using assms(2,5) by (simp_all add: unat_plus_exact)
  have le: "wa \<le> reserve_a p + da" "wb \<le> reserve_b p + db"
    using assms(3,6) by (simp_all add: word_le_nat_alt sum)
  have steps: "checked_add (reserve_a p) da = Some (reserve_a p + da)"
    "checked_sub (reserve_a p + da) wa = Some (reserve_a p + da - wa)"
    "checked_add (reserve_b p) db = Some (reserve_b p + db)"
    "checked_sub (reserve_b p + db) wb = Some (reserve_b p + db - wb)"
    using assms(2,5) le by (simp_all add: checked_add_def checked_sub_def)
  have nz: "reserve_a p + da - wa \<noteq> 0"
    using assms(4) sum(1) by auto
  obtain price where price:
    "spot_price_q64_64 (reserve_a p + da - wa) (reserve_b p + db - wb) = Inr price"
    using nz by (simp add: spot_price_cases)
  obtain d where d: "encode (pool_codec E)
      (p \<lparr> reserve_a := reserve_a p + da - wa, reserve_b := reserve_b p + db - wb \<rparr>) = Some d"
    using assms(7) by blast
  show ?thesis
    by (simp add: finalize_swap_def steps price d update_tick_call_def assms(1) pool_data_def)
qed

text \<open>
  The chain executes the swap a preview foresees: the handler succeeds, and its transfers are those
  of the previewed amounts.
\<close>

lemma swap_exact_input_succeeds:
  assumes match: "swap_accounts_match E amm c p tin [config, pool, va, vb, uin, uout, tk, clk, fh]"
    and world: "tradable E c p tin x [config, pool, va, vb, uin, uout, tk, clk, fh]"
    and oriented: "oriented_reserves p tin tout = Some (rin, rout)" "tin \<noteq> tout" "rin \<noteq> 0" "rout \<noteq> 0"
    and quote: "swap_exact_in_amounts x rin rout (swap_fee_bps c) = Inr (e, out)" "e \<noteq> 0" "out \<noteq> 0" "lim \<le> out"
    and fits: "\<And>q. \<exists>d. encode (pool_codec E) q = Some d"
  shows "\<exists>ds td tw f vd vw call. swap_exact_input E config pool va vb uin uout tk clk fh x lim amm =
      Inr (ds, swap_transfers E (program_owner (account uin)) (account_id uin) (account_id vd) (account_id vw)
        (account_id uout) (account_id fh) (account_id pool) (account_id config) td tw x out f @ [call]) \<and>
    (vd = va \<and> vw = vb \<or> vd = vb \<and> vw = va) \<and> (\<forall>v. transfer_flow v call = 0)"
proof -
  have side: "tin = definition_token_a_id p \<and> rin = reserve_a p \<and> rout = reserve_b p \<or>
      tin \<noteq> definition_token_a_id p \<and> tin = definition_token_b_id p \<and> rin = reserve_b p \<and> rout = reserve_a p"
    using oriented(1,2) by (auto simp: oriented_reserves_Some split: if_splits)
  have checks: "swap_checks E ''Swap exact input'' config pool va vb uin uout tk clk fh amm =
    Inr (p, c, tin, if tin = definition_token_a_id p then uin else uout,
      if tin = definition_token_a_id p then uout else uin)"
    using match world side by (intro swap_checks_succeed) auto
  from world obtain da a db b where vaults: "fees_valid c"
    "decode (holding_codec E) (data (account va)) = Some (Fungible da a)"
    "decode (holding_codec E) (data (account vb)) = Some (Fungible db b)"
    "unat (reserve_a p) + unat x < 2 ^ 128" "unat (reserve_b p) + unat x < 2 ^ 128"
    by (auto simp: tradable_def)
  obtain seed where seed:
    "compute_pool_pda_seed E (account_id config) (definition_token_a_id p) (definition_token_b_id p) = Inr seed"
    using match by (auto simp: swap_accounts_match_def compute_pool_pda_Inr)
  have "unat out < unat rout"
  proof -
    have "swap_fee_bps c \<le> FEE_BPS_DENOMINATOR"
      using vaults(1) by (auto simp: fees_valid_def)
    then have "unat out = (if unat rin + unat e < 2 ^ 128 then curve_out (unat rin) (unat rout) (unat e) else 0)"
      using swap_exact_in_amounts_cases [OF oriented(3), of "swap_fee_bps c" x rout] quote(1) by auto
    moreover have pos: "0 < unat rin" "0 < unat rout"
      using oriented(3,4) unat_pos_iff by blast+
    ultimately show ?thesis
      using curve_out_less [OF pos, of "unat e"] by (simp split: if_splits)
  qed
  note logic = swap_logic_succeeds [OF quote oriented(3) vaults(1)]
  show ?thesis
  proof (cases "tin = definition_token_a_id p")
    case True
    then have r: "rin = reserve_a p" "rout = reserve_b p"
      using side by auto
    obtain f net where run: "unat x = unat net + unat f" "swap_logic E uin va vb uout x lim (swap_fee_bps c) (protocol_fee_bps c) fh
        rin rout (account_id pool) (account_id config) =
      Inr (swap_transfers E (program_owner (account uin)) (account_id uin) (account_id va) (account_id vb) (account_id uout)
         (account_id fh) (account_id pool) (account_id config) da db x out f, net, out)"
      using logic [OF vaults(2,3), of uin uout fh "account_id pool" "account_id config"] by auto
    obtain ds call where fin: "finalize_swap E config pool p va vb uin uout tk clk fh net 0 0 out (config_oracle_program c) =
        Inr (ds, call)" "\<forall>v. transfer_flow v call = 0"
      using finalize_swap_succeeds [OF seed, of net 0 0 out pool va vb uin uout tk clk fh "config_oracle_program c"]
        fits vaults(4) run(1) \<open>unat out < unat rout\<close> r oriented(3)
        unat_lt [of "reserve_b p"] by (auto simp: unat_eq_zero)
    have "swap_exact_input E config pool va vb uin uout tk clk fh x lim amm =
      Inr (ds, swap_transfers E (program_owner (account uin)) (account_id uin) (account_id va) (account_id vb)
        (account_id uout) (account_id fh) (account_id pool) (account_id config) da db x out f @ [call])"
      using run(2) fin(1) True by (simp add: swap_exact_input_def checks swap_direction_def r Let_def)
    then show ?thesis
      using fin(2) by blast
  next
    case False
    then have r: "rin = reserve_b p" "rout = reserve_a p" "tin = definition_token_b_id p"
      using side by auto
    obtain f net where run: "unat x = unat net + unat f" "swap_logic E uin vb va uout x lim (swap_fee_bps c) (protocol_fee_bps c) fh
        rin rout (account_id pool) (account_id config) =
      Inr (swap_transfers E (program_owner (account uin)) (account_id uin) (account_id vb) (account_id va) (account_id uout)
         (account_id fh) (account_id pool) (account_id config) db da x out f, net, out)"
      using logic [OF vaults(3,2), of uin uout fh "account_id pool" "account_id config"] by auto
    obtain ds call where fin: "finalize_swap E config pool p va vb uin uout tk clk fh 0 out net 0 (config_oracle_program c) =
        Inr (ds, call)" "\<forall>v. transfer_flow v call = 0"
      using finalize_swap_succeeds [OF seed, of 0 out net 0 pool va vb uin uout tk clk fh "config_oracle_program c"]
        fits vaults(5) run(1) \<open>unat out < unat rout\<close> r oriented(3) unat_lt [of "reserve_a p"] by auto
    have "swap_exact_input E config pool va vb uin uout tk clk fh x lim amm =
      Inr (ds, swap_transfers E (program_owner (account uin)) (account_id uin) (account_id vb) (account_id va)
        (account_id uout) (account_id fh) (account_id pool) (account_id config) db da x out f @ [call])"
      using run(2) fin(1) False by (simp add: swap_exact_input_def checks swap_direction_def r Let_def)
    then show ?thesis
      using fin(2) by blast
  qed
qed

section \<open>The accounts a plan names\<close>

text \<open>
  Accounts that present a swap's plan, on a chain where the configuration and the pool are the ones the
  client read, are the accounts the guest checks for, and the instruction is the one requested.
\<close>

lemma planned_swap:
  assumes api: "amm_api_text A" and plan: "swap_plan la ll build A E r = reply s"
    and program: "parse_program_id A (plr_program r) = Inr amm"
    and submitted: "submits A s [config, pool, va, vb, uin, uout, tk, clk, fh] i"
    and fresh: "decode_account A (plr_config r) = Inr (account_id config, account config)"
      "hex_decode A (plr_pool_data r) = Inr (data (account pool))"
    and request: "account_id_from_hex A (plr_token_in r) ''token in id'' = Inr tin"
      "account_id_from_hex A (plr_token_out r) ''token out id'' = Inr tout" "parse_uint (plr_amount r) = Inr x"
      "parse_uint (plr_limit r) = Inr lim" "parse_uint (plr_deadline r) = Inr dl"
    and world: "decode (config_codec E) (data (account config)) = Some c"
      "decode (pool_codec E) (data (account pool)) = Some p" "oriented_reserves p tin tout = Some (rin, rout)"
  shows "i = build x lim dl" "is_authorized uin"
    and "swap_accounts_match E amm c p tin [config, pool, va, vb, uin, uout, tk, clk, fh]"
proof -
  obtain ic cfg i_pool uin_id uout_id code where P:
    "load_config A E amm (plr_config r) = Inr (ic, cfg)" "compute_pool_pda E amm ic tin tout = Inr i_pool"
    "instruction_to_vec A (build x lim dl) = Inr code"
    "s = plan_response A (plr_program r)
       [ic, i_pool, vault_a_id p, vault_b_id p, uin_id, uout_id,
        compute_current_tick_account_pda E (config_oracle_program cfg) i_pool,
        clock_01_program_account_id E, compute_protocol_fee_pda E amm ic tin]
       [False, False, False, False, True, False, False, False, False] code"
    by (rule swap_plan_run [OF plan]) (use program request fresh(2) world(2) in simp)
  note S = amm_api_text.submits_response [OF api submitted [unfolded P(4)] P(3)]
  show "i = build x lim dl" "is_authorized uin"
    using S(2,3) by simp_all
  have cfg: "ic = account_id config" "cfg = c" "program_owner (account config) = amm"
    using P(1) fresh(1) world(1) by (auto simp: load_config_Inr)
  have "{tin, tout} = {definition_token_a_id p, definition_token_b_id p}"
    using world(3) by (auto simp: oriented_reserves_Some split: if_splits)
  then have "compute_pool_pda E amm (account_id config) (definition_token_a_id p) (definition_token_b_id p) =
      Inr (account_id pool)"
    using P(2) S(1) cfg(1) compute_pool_pda_commute [of E amm ic tin tout] by (auto simp: doubleton_eq_iff)
  then show "swap_accounts_match E amm c p tin [config, pool, va, vb, uin, uout, tk, clk, fh]"
    using S(1) cfg world(1,2) by (simp add: swap_accounts_match_def)
qed

section \<open>Liquidity\<close>

text \<open>What a preview of a deposit has established, and the plan of one.\<close>

lemma add_liquidity_quote_run:
  assumes "add_liquidity_quote A E r = reply v"
  obtains ta tb xa xb p reversed ia ib la lb where
    "account_id_from_hex A (aqr_token_a r) ''token A id'' = Inr ta"
    "account_id_from_hex A (aqr_token_b r) ''token B id'' = Inr tb"
    "positive_amount (Some (aqr_max_a r)) = Inr xa" "positive_amount (Some (aqr_max_b r)) = Inr xb"
    "live_pool_from_hex A E (aqr_pool_data r) = Some p" "pool_orientation p ta tb = Some reversed"
    "mul_div_floor (reserve_a p) (snd (swap_if reversed (xa, xb))) (reserve_b p) = Inr ia"
    "mul_div_floor (reserve_b p) (fst (swap_if reversed (xa, xb))) (reserve_a p) = Inr ib"
    "mul_div_floor (liquidity_pool_supply p) (min ia (fst (swap_if reversed (xa, xb)))) (reserve_a p) = Inr la"
    "mul_div_floor (liquidity_pool_supply p) (min ib (snd (swap_if reversed (xa, xb)))) (reserve_b p) = Inr lb"
    "json_field ''amountA'' v = Some (JStr (decimal (unat (fst (swap_if reversed
       (min ia (fst (swap_if reversed (xa, xb))), min ib (snd (swap_if reversed (xa, xb)))))))))"
    "json_field ''amountB'' v = Some (JStr (decimal (unat (snd (swap_if reversed
       (min ia (fst (swap_if reversed (xa, xb))), min ib (snd (swap_if reversed (xa, xb)))))))))"
    "json_field ''expectedLp'' v = Some (JStr (decimal (unat (min la lb))))"
proof -
  have "\<exists>ta tb xa xb p reversed ia ib la lb m price lp.
    account_id_from_hex A (aqr_token_a r) ''token A id'' = Inr ta \<and>
    account_id_from_hex A (aqr_token_b r) ''token B id'' = Inr tb \<and>
    positive_amount (Some (aqr_max_a r)) = Inr xa \<and> positive_amount (Some (aqr_max_b r)) = Inr xb \<and>
    live_pool_from_hex A E (aqr_pool_data r) = Some p \<and> pool_orientation p ta tb = Some reversed \<and>
    mul_div_floor (reserve_a p) (snd (swap_if reversed (xa, xb))) (reserve_b p) = Inr ia \<and>
    mul_div_floor (reserve_b p) (fst (swap_if reversed (xa, xb))) (reserve_a p) = Inr ib \<and>
    mul_div_floor (liquidity_pool_supply p) (min ia (fst (swap_if reversed (xa, xb)))) (reserve_a p) = Inr la \<and>
    mul_div_floor (liquidity_pool_supply p) (min ib (snd (swap_if reversed (xa, xb)))) (reserve_b p) = Inr lb \<and>
    v = JObj
      [(''amountA'', JStr (decimal (unat (fst (swap_if reversed
         (min ia (fst (swap_if reversed (xa, xb))), min ib (snd (swap_if reversed (xa, xb))))))))),
       (''amountB'', JStr (decimal (unat (snd (swap_if reversed
         (min ia (fst (swap_if reversed (xa, xb))), min ib (snd (swap_if reversed (xa, xb))))))))),
       (''expectedLp'', JStr (decimal (unat (min la lb)))), (''minimumLp'', m), (''price'', price),
       (''lpDefinitionId'', lp)]"
    using assms unfolding add_liquidity_quote_def
    by (simp only: Let_def case_prod_beta api_inversion attempt_success sum.inject not_le de_Morgan_disj)
      (elim exE conjE, intro exI conjI; (assumption | erule sym))
  then show thesis
    by (elim exE conjE) (rule that; (assumption | simp))
qed

lemma add_liquidity_plan_run:
  assumes "add_liquidity_plan A E r = reply s"
  obtains ta tb p ha hb hl max_a max_b min_lp dl reversed ids code where
    "account_id_from_hex A (apr_token_a r) ''token A id'' = Inr ta"
    "account_id_from_hex A (apr_token_b r) ''token B id'' = Inr tb"
    "account_id_from_hex A (apr_holding_a r) ''user holding A id'' = Inr ha"
    "account_id_from_hex A (apr_holding_b r) ''user holding B id'' = Inr hb"
    "account_id_from_hex A (apr_holding_lp r) ''user LP holding id'' = Inr hl"
    "positive_amount (Some (apr_max_a r)) = Inr max_a" "positive_amount (Some (apr_max_b r)) = Inr max_b"
    "positive_amount (Some (apr_min_lp r)) = Inr min_lp" "parse_uint (apr_deadline r) = Inr dl"
    "pool_from_hex A E (apr_pool_data r) = Some p" "pool_orientation p ta tb = Some reversed"
    "instruction_to_vec A (AddLiquidity min_lp (fst (swap_if reversed (max_a, max_b)))
       (snd (swap_if reversed (max_a, max_b))) dl) = Inr code"
    "ids ! 4 = liquidity_pool_id p" "ids ! 5 = fst (swap_if reversed (ha, hb))"
    "ids ! 6 = snd (swap_if reversed (ha, hb))" "ids ! 7 = hl"
    "s = plan_response A (apr_program r) ids
       [False, False, False, False, False, True, True, True, False, False] code"
proof -
  have "\<exists>ta tb p ha hb hl max_a max_b min_lp dl reversed (pair :: pair_accounts) code.
    account_id_from_hex A (apr_token_a r) ''token A id'' = Inr ta \<and>
    account_id_from_hex A (apr_token_b r) ''token B id'' = Inr tb \<and>
    account_id_from_hex A (apr_holding_a r) ''user holding A id'' = Inr ha \<and>
    account_id_from_hex A (apr_holding_b r) ''user holding B id'' = Inr hb \<and>
    account_id_from_hex A (apr_holding_lp r) ''user LP holding id'' = Inr hl \<and>
    positive_amount (Some (apr_max_a r)) = Inr max_a \<and> positive_amount (Some (apr_max_b r)) = Inr max_b \<and>
    positive_amount (Some (apr_min_lp r)) = Inr min_lp \<and> parse_uint (apr_deadline r) = Inr dl \<and>
    pool_from_hex A E (apr_pool_data r) = Some p \<and> pool_orientation p ta tb = Some reversed \<and>
    instruction_to_vec A (AddLiquidity min_lp (fst (swap_if reversed (max_a, max_b)))
       (snd (swap_if reversed (max_a, max_b))) dl) = Inr code \<and>
    s = plan_response A (apr_program r)
       [pair_config pair, pair_pool pair, vault_a_id p, vault_b_id p, liquidity_pool_id p,
        fst (swap_if reversed (ha, hb)), snd (swap_if reversed (ha, hb)), hl, pair_current_tick pair, pair_clock pair]
       [False, False, False, False, False, True, True, True, False, False] code"
    using assms unfolding add_liquidity_plan_def
    by (simp only: Let_def case_prod_beta api_inversion parse_labelled_Inr to_vec_Inr sum.inject)
      (elim exE conjE, intro exI conjI; (assumption | erule sym))
  then show thesis
    by (elim exE conjE) (rule that; (assumption | simp))
qed

text \<open>The same for a withdrawal.\<close>

lemma remove_liquidity_quote_run:
  assumes "remove_liquidity_quote A E r = reply v"
  obtains ta tb n p reversed a b where
    "account_id_from_hex A (rqr_token_a r) ''token A id'' = Inr ta"
    "account_id_from_hex A (rqr_token_b r) ''token B id'' = Inr tb" "ta \<noteq> tb"
    "positive_amount (Some (rqr_lp_amount r)) = Inr n"
    "live_pool_from_hex A E (rqr_pool_data r) = Some p" "pool_orientation p ta tb = Some reversed"
    "mul_div_floor (reserve_a p) n (liquidity_pool_supply p) = Inr a"
    "mul_div_floor (reserve_b p) n (liquidity_pool_supply p) = Inr b"
    "json_field ''amountA'' v = Some (JStr (decimal (unat (fst (swap_if reversed (a, b))))))"
    "json_field ''amountB'' v = Some (JStr (decimal (unat (snd (swap_if reversed (a, b))))))"
proof -
  have "\<exists>ta tb n p reversed a b ma mb price.
    account_id_from_hex A (rqr_token_a r) ''token A id'' = Inr ta \<and>
    account_id_from_hex A (rqr_token_b r) ''token B id'' = Inr tb \<and> ta \<noteq> tb \<and>
    positive_amount (Some (rqr_lp_amount r)) = Inr n \<and>
    live_pool_from_hex A E (rqr_pool_data r) = Some p \<and> pool_orientation p ta tb = Some reversed \<and>
    mul_div_floor (reserve_a p) n (liquidity_pool_supply p) = Inr a \<and>
    mul_div_floor (reserve_b p) n (liquidity_pool_supply p) = Inr b \<and>
    v = JObj
      [(''amountA'', JStr (decimal (unat (fst (swap_if reversed (a, b)))))),
       (''amountB'', JStr (decimal (unat (snd (swap_if reversed (a, b)))))),
       (''minimumAmountA'', ma), (''minimumAmountB'', mb), (''price'', price)]"
    using assms unfolding remove_liquidity_quote_def
    by (simp only: Let_def case_prod_beta api_inversion attempt_success sum.inject not_le de_Morgan_disj)
      (elim exE conjE, intro exI conjI; (assumption | erule sym))
  then show thesis
    by (elim exE conjE) (rule that; (assumption | simp))
qed

lemma remove_liquidity_plan_run:
  assumes "remove_liquidity_plan A E r = reply s"
  obtains ta tb p ha hb hl n min_a min_b dl reversed ids code where
    "account_id_from_hex A (rmr_token_a r) ''token A id'' = Inr ta"
    "account_id_from_hex A (rmr_token_b r) ''token B id'' = Inr tb"
    "account_id_from_hex A (rmr_holding_a r) ''user holding A id'' = Inr ha"
    "account_id_from_hex A (rmr_holding_b r) ''user holding B id'' = Inr hb"
    "account_id_from_hex A (rmr_holding_lp r) ''user LP holding id'' = Inr hl"
    "positive_amount (Some (rmr_lp_amount r)) = Inr n" "positive_amount (Some (rmr_min_a r)) = Inr min_a"
    "positive_amount (Some (rmr_min_b r)) = Inr min_b" "parse_uint (rmr_deadline r) = Inr dl"
    "pool_from_hex A E (rmr_pool_data r) = Some p" "pool_orientation p ta tb = Some reversed"
    "instruction_to_vec A (RemoveLiquidity n (fst (swap_if reversed (min_a, min_b)))
       (snd (swap_if reversed (min_a, min_b))) dl) = Inr code"
    "ids ! 4 = liquidity_pool_id p" "ids ! 5 = fst (swap_if reversed (ha, hb))"
    "ids ! 6 = snd (swap_if reversed (ha, hb))" "ids ! 7 = hl"
    "s = plan_response A (rmr_program r) ids
       [False, False, False, False, False, False, False, True, False, False] code"
proof -
  have "\<exists>ta tb p ha hb hl n min_a min_b dl reversed (pair :: pair_accounts) code.
    account_id_from_hex A (rmr_token_a r) ''token A id'' = Inr ta \<and>
    account_id_from_hex A (rmr_token_b r) ''token B id'' = Inr tb \<and>
    account_id_from_hex A (rmr_holding_a r) ''user holding A id'' = Inr ha \<and>
    account_id_from_hex A (rmr_holding_b r) ''user holding B id'' = Inr hb \<and>
    account_id_from_hex A (rmr_holding_lp r) ''user LP holding id'' = Inr hl \<and>
    positive_amount (Some (rmr_lp_amount r)) = Inr n \<and> positive_amount (Some (rmr_min_a r)) = Inr min_a \<and>
    positive_amount (Some (rmr_min_b r)) = Inr min_b \<and> parse_uint (rmr_deadline r) = Inr dl \<and>
    pool_from_hex A E (rmr_pool_data r) = Some p \<and> pool_orientation p ta tb = Some reversed \<and>
    instruction_to_vec A (RemoveLiquidity n (fst (swap_if reversed (min_a, min_b)))
       (snd (swap_if reversed (min_a, min_b))) dl) = Inr code \<and>
    s = plan_response A (rmr_program r)
       [pair_config pair, pair_pool pair, vault_a_id p, vault_b_id p, liquidity_pool_id p,
        fst (swap_if reversed (ha, hb)), snd (swap_if reversed (ha, hb)), hl, pair_current_tick pair, pair_clock pair]
       [False, False, False, False, False, False, False, True, False, False] code"
    using assms unfolding remove_liquidity_plan_def
    by (simp only: Let_def case_prod_beta api_inversion parse_labelled_Inr to_vec_Inr sum.inject)
      (elim exE conjE, intro exI conjI; (assumption | erule sym))
  then show thesis
    by (elim exE conjE) (rule that; (assumption | simp))
qed

text \<open>The amounts of a deposit as the preview computes them.\<close>

lemma deposit_amounts_min:
  assumes "deposit_amounts p lo xa xb = Inr (a, b, lp)"
  obtains ia ib la lb where "mul_div_floor (reserve_a p) xb (reserve_b p) = Inr ia"
    "mul_div_floor (reserve_b p) xa (reserve_a p) = Inr ib" "a = min ia xa" "b = min ib xb"
    "mul_div_floor (liquidity_pool_supply p) a (reserve_a p) = Inr la"
    "mul_div_floor (liquidity_pool_supply p) b (reserve_b p) = Inr lb" "lp = min la lb"
proof -
  from assms obtain ia ib la lb where run: "mul_div_floor (reserve_a p) xb (reserve_b p) = Inr ia"
    "mul_div_floor (reserve_b p) xa (reserve_a p) = Inr ib"
    "a = (if xa < ia then xa else ia)" "b = (if xb < ib then xb else ib)"
    "mul_div_floor (liquidity_pool_supply p) a (reserve_a p) = Inr la"
    "mul_div_floor (liquidity_pool_supply p) b (reserve_b p) = Inr lb" "lp = min la lb"
    unfolding deposit_amounts_def Let_def inversion by blast
  then show thesis
    by (intro that) (auto simp: min_def)
qed

text \<open>
  Accounts that present a plan on a chain whose pool is the one the client read, when the guest accepts
  it: the run has the request's amounts in the pool's order, and the user's accounts are those requested.
\<close>

lemma planned_deposit:
  assumes api: "amm_api_text A" and plan: "add_liquidity_plan A E r = reply s"
    and submitted: "submits A s accounts i"
    and fresh: "hex_decode A (apr_pool_data r) = Inr (data (account (accounts ! 1)))"
    and run: "amm_main E amm i accounts = Inr (ds, cs, w)"
  obtains ta tb ha hb hl n xa xb p p' c reversed where
    "account_id_from_hex A (apr_token_a r) ''token A id'' = Inr ta"
    "account_id_from_hex A (apr_token_b r) ''token B id'' = Inr tb"
    "account_id_from_hex A (apr_holding_a r) ''user holding A id'' = Inr ha"
    "account_id_from_hex A (apr_holding_b r) ''user holding B id'' = Inr hb"
    "account_id_from_hex A (apr_holding_lp r) ''user LP holding id'' = Inr hl"
    "positive_amount (Some (apr_min_lp r)) = Inr n"
    "positive_amount (Some (apr_max_a r)) = Inr xa" "positive_amount (Some (apr_max_b r)) = Inr xb"
    "pool_from_hex A E (apr_pool_data r) = Some p" "pool_orientation p ta tb = Some reversed"
    "add_ran E amm n (fst (swap_if reversed (xa, xb))) (snd (swap_if reversed (xa, xb))) accounts c p p' ds cs"
    "account_id (accounts ! 5) = fst (swap_if reversed (ha, hb))"
    "account_id (accounts ! 6) = snd (swap_if reversed (ha, hb))" "account_id (accounts ! 7) = hl"
proof -
  obtain ta tb p ha hb hl xa xb n dl rev ids code where P:
    "account_id_from_hex A (apr_token_a r) ''token A id'' = Inr ta"
    "account_id_from_hex A (apr_token_b r) ''token B id'' = Inr tb"
    "account_id_from_hex A (apr_holding_a r) ''user holding A id'' = Inr ha"
    "account_id_from_hex A (apr_holding_b r) ''user holding B id'' = Inr hb"
    "account_id_from_hex A (apr_holding_lp r) ''user LP holding id'' = Inr hl"
    "positive_amount (Some (apr_max_a r)) = Inr xa" "positive_amount (Some (apr_max_b r)) = Inr xb"
    "positive_amount (Some (apr_min_lp r)) = Inr n" "parse_uint (apr_deadline r) = Inr dl"
    "pool_from_hex A E (apr_pool_data r) = Some p" "pool_orientation p ta tb = Some rev"
    "instruction_to_vec A (AddLiquidity n (fst (swap_if rev (xa, xb))) (snd (swap_if rev (xa, xb))) dl) = Inr code"
    "ids ! 4 = liquidity_pool_id p" "ids ! 5 = fst (swap_if rev (ha, hb))"
    "ids ! 6 = snd (swap_if rev (ha, hb))" "ids ! 7 = hl"
    "s = plan_response A (apr_program r) ids [False, False, False, False, False, True, True, True, False, False] code"
    using plan by (rule add_liquidity_plan_run)
  note S = amm_api_text.submits_response [OF api submitted [unfolded P(17)] P(12)]
  obtain c p1 p2 where ran: "add_ran E amm n (fst (swap_if rev (xa, xb))) (snd (swap_if rev (xa, xb))) accounts c p1 p2 ds cs"
    using run unfolding S(2) by (blast dest: amm_main_liquidity_runs add_liquidity_run)
  then have "p1 = p" "length accounts = 10"
    using P(10) fresh by (auto simp: add_ran_def pool_from_hex_Some split: list.splits)
  then show thesis
    using ran P(1-8,10,11,14-16) S(1) by (intro that) auto
qed

lemma planned_withdrawal:
  assumes api: "amm_api_text A" and plan: "remove_liquidity_plan A E r = reply s"
    and submitted: "submits A s accounts i"
    and fresh: "hex_decode A (rmr_pool_data r) = Inr (data (account (accounts ! 1)))"
    and run: "amm_main E amm i accounts = Inr (ds, cs, w)"
  obtains ta tb ha hb hl n xa xb p p' c reversed where
    "account_id_from_hex A (rmr_token_a r) ''token A id'' = Inr ta"
    "account_id_from_hex A (rmr_token_b r) ''token B id'' = Inr tb"
    "account_id_from_hex A (rmr_holding_a r) ''user holding A id'' = Inr ha"
    "account_id_from_hex A (rmr_holding_b r) ''user holding B id'' = Inr hb"
    "account_id_from_hex A (rmr_holding_lp r) ''user LP holding id'' = Inr hl"
    "positive_amount (Some (rmr_lp_amount r)) = Inr n"
    "positive_amount (Some (rmr_min_a r)) = Inr xa" "positive_amount (Some (rmr_min_b r)) = Inr xb"
    "pool_from_hex A E (rmr_pool_data r) = Some p" "pool_orientation p ta tb = Some reversed"
    "remove_ran E amm n (fst (swap_if reversed (xa, xb))) (snd (swap_if reversed (xa, xb))) accounts c p p' ds cs"
    "account_id (accounts ! 5) = fst (swap_if reversed (ha, hb))"
    "account_id (accounts ! 6) = snd (swap_if reversed (ha, hb))" "account_id (accounts ! 7) = hl"
proof -
  obtain ta tb p ha hb hl n xa xb dl rev ids code where P:
    "account_id_from_hex A (rmr_token_a r) ''token A id'' = Inr ta"
    "account_id_from_hex A (rmr_token_b r) ''token B id'' = Inr tb"
    "account_id_from_hex A (rmr_holding_a r) ''user holding A id'' = Inr ha"
    "account_id_from_hex A (rmr_holding_b r) ''user holding B id'' = Inr hb"
    "account_id_from_hex A (rmr_holding_lp r) ''user LP holding id'' = Inr hl"
    "positive_amount (Some (rmr_lp_amount r)) = Inr n" "positive_amount (Some (rmr_min_a r)) = Inr xa"
    "positive_amount (Some (rmr_min_b r)) = Inr xb" "parse_uint (rmr_deadline r) = Inr dl"
    "pool_from_hex A E (rmr_pool_data r) = Some p" "pool_orientation p ta tb = Some rev"
    "instruction_to_vec A (RemoveLiquidity n (fst (swap_if rev (xa, xb))) (snd (swap_if rev (xa, xb))) dl) = Inr code"
    "ids ! 4 = liquidity_pool_id p" "ids ! 5 = fst (swap_if rev (ha, hb))"
    "ids ! 6 = snd (swap_if rev (ha, hb))" "ids ! 7 = hl"
    "s = plan_response A (rmr_program r) ids [False, False, False, False, False, False, False, True, False, False] code"
    using plan by (rule remove_liquidity_plan_run)
  note S = amm_api_text.submits_response [OF api submitted [unfolded P(17)] P(12)]
  obtain c p1 p2 where ran: "remove_ran E amm n (fst (swap_if rev (xa, xb))) (snd (swap_if rev (xa, xb))) accounts c p1 p2 ds cs"
    using run unfolding S(2) by (blast dest: amm_main_liquidity_runs remove_liquidity_run)
  then have "p1 = p" "length accounts = 10"
    using P(10) fresh by (auto simp: remove_ran_def pool_from_hex_Some split: list.splits)
  then show thesis
    using ran P(1-8,10,11,14-16) S(1) by (intro that) auto
qed

end
