(* ===== verification/Amm_Api_Borsh.thy ===== *)
theory Amm_Api_Borsh
  imports Amm_Api_Runs Amm_Demo
begin

text \<open>
  The Borsh format of the AMM's instructions, and a concrete environment of the client module on which
  its interface is interpreted.
\<close>

declare borsh_codec_simps [simp del] ser_holding.simps [simp del] ser_definition.simps [simp del]

section \<open>Instructions\<close>

fun ser_instruction :: "amm_instruction \<Rightarrow> bytes" where
  "ser_instruction (Initialize n t orc adm f pf) =
    0 # to_bytes n @ to_bytes t @ to_bytes orc @ to_bytes adm @ to_le_bytes f @ to_le_bytes pf"
| "ser_instruction (UpdateConfig adm) = 1 # to_bytes adm"
| "ser_instruction (PoolPriceObservations w) = 2 # to_le_bytes w"
| "ser_instruction (PoolOraclePriceAccount w) = 3 # to_le_bytes w"
| "ser_instruction (NewDefinition a b dl) = 4 # to_le_bytes a @ to_le_bytes b @ to_le_bytes dl"
| "ser_instruction (AddLiquidity lo a b dl) = 5 # to_le_bytes lo @ to_le_bytes a @ to_le_bytes b @ to_le_bytes dl"
| "ser_instruction (RemoveLiquidity n a b dl) = 6 # to_le_bytes n @ to_le_bytes a @ to_le_bytes b @ to_le_bytes dl"
| "ser_instruction (SwapExactInput x lo dl) = 7 # to_le_bytes x @ to_le_bytes lo @ to_le_bytes dl"
| "ser_instruction (SwapExactOutput y hi dl) = 8 # to_le_bytes y @ to_le_bytes hi @ to_le_bytes dl"
| "ser_instruction SyncReserves = [9]"
| "ser_instruction (WithdrawProtocolFees n) = 10 # to_le_bytes n"

fun de_instruction :: "amm_instruction parser" where
  "de_instruction [] = None"
| "de_instruction (tag # bs) =
    (if tag = 0 then
       de_bind de_id (\<lambda>n. de_bind de_id (\<lambda>t. de_bind de_id (\<lambda>orc. de_bind de_id (\<lambda>adm. de_bind de_word (\<lambda>f.
       de_bind de_word (\<lambda>pf. de_return (Initialize n t orc adm f pf))))))) bs
     else if tag = 1 then de_bind de_id (\<lambda>adm. de_return (UpdateConfig adm)) bs
     else if tag = 2 then de_bind de_word (\<lambda>w. de_return (PoolPriceObservations w)) bs
     else if tag = 3 then de_bind de_word (\<lambda>w. de_return (PoolOraclePriceAccount w)) bs
     else if tag = 4 then
       de_bind de_word (\<lambda>a. de_bind de_word (\<lambda>b. de_bind de_word (\<lambda>dl. de_return (NewDefinition a b dl)))) bs
     else if tag = 5 then
       de_bind de_word (\<lambda>lo. de_bind de_word (\<lambda>a. de_bind de_word (\<lambda>b. de_bind de_word (\<lambda>dl.
       de_return (AddLiquidity lo a b dl))))) bs
     else if tag = 6 then
       de_bind de_word (\<lambda>n. de_bind de_word (\<lambda>a. de_bind de_word (\<lambda>b. de_bind de_word (\<lambda>dl.
       de_return (RemoveLiquidity n a b dl))))) bs
     else if tag = 7 then
       de_bind de_word (\<lambda>x. de_bind de_word (\<lambda>lo. de_bind de_word (\<lambda>dl. de_return (SwapExactInput x lo dl)))) bs
     else if tag = 8 then
       de_bind de_word (\<lambda>y. de_bind de_word (\<lambda>hi. de_bind de_word (\<lambda>dl. de_return (SwapExactOutput y hi dl)))) bs
     else if tag = 9 then Some (SyncReserves, bs)
     else if tag = 10 then de_bind de_word (\<lambda>n. de_return (WithdrawProtocolFees n)) bs
     else None)"

lemma de_instruction_ser: "de_instruction (ser_instruction i @ rest) = Some (i, rest)"
  by (cases i) (simp_all add: borsh)

lemma de_instruction_ser_exact: "de_instruction (ser_instruction i) = Some (i, [])"
  using de_instruction_ser [of i "[]"] by simp

interpretation borsh_instruction: borsh_type ser_instruction de_instruction
  by unfold_locales (simp only: de_instruction_ser)

declare ser_instruction.simps [simp del] de_instruction.simps [simp del]

section \<open>A concrete environment\<close>

text \<open>\<^theory_text>\<open>to_vec\<close> of an instruction cannot fail; \<^theory_text>\<open>from_slice\<close> consumes the whole slice.\<close>

definition plain_amm_api :: amm_api_env where
  "plain_amm_api = api_env.extend plain_api
    \<lparr> instruction_to_vec = (\<lambda>i. Inr (ser_instruction i)),
      instruction_from_slice = (\<lambda>bs. case de_instruction bs of Some (i, []) \<Rightarrow> Some i | _ \<Rightarrow> None) \<rparr>"

lemma plain_amm_simps [simp]:
  "hex_encode plain_amm_api = hex_text" "hex_decode plain_amm_api = hex_bytes"
  "base58_encode plain_amm_api = base58_encode plain_api" "base58_decode plain_amm_api = base58_decode plain_api"
  "data_from_bytes plain_amm_api = Inr"
  "instruction_to_vec plain_amm_api i = Inr (ser_instruction i)"
  "instruction_from_slice plain_amm_api (ser_instruction i) = Some i"
  by (simp_all add: plain_amm_api_def api_env.extend_def plain_api_def de_instruction_ser_exact)

interpretation plain_amm: amm_api_text plain_amm_api
proof unfold_locales
  show "base58_decode plain_amm_api (base58_encode plain_amm_api i) = Inr i" for i
    using plain.base58_round by simp
qed (auto simp: hex_bytes_text hex_text_shape)

section \<open>What the wallet of the demonstration world reads\<close>

definition demo_config_read :: account_read where
  "demo_config_read = read_of plain_amm_api 100 (account config_acc)"

definition demo_pool_text :: string where
  "demo_pool_text = hex_text (ser_pool demo_pool)"

abbreviation id_text :: "account_id \<Rightarrow> string" where
  "id_text i \<equiv> account_id_hex plain_amm_api i"

lemma demo_config_read [simp]:
  "decode_account plain_amm_api demo_config_read = Inr (100, account config_acc)"
  unfolding demo_config_read_def by (rule plain_amm.read_round) simp

lemma demo_pool_text [simp]: "hex_bytes demo_pool_text = Inr (ser_pool demo_pool)"
  by (simp add: demo_pool_text_def hex_bytes_text)

lemma demo_accounts_data [simp]:
  "data (account config_acc) = ser_config demo_config" "program_owner (account config_acc) = 4"
  "data (account pool_acc) = ser_pool demo_pool" "account_id config_acc = 100" "account_id pool_acc = 672001334"
  by (simp_all add: config_acc_def pool_acc_def)

lemma demo_validates: "validates_signers borsh_amm_env"
  unfolding validates_signers_def
proof (intro allI impI)
  fix xs :: "(account_flag list \<times> bytes account_with_metadata) list"
  assume "list_all (\<lambda>(fs, a). set fs \<subseteq> {Mut, Signer} \<and> (Signer \<in> set fs \<longrightarrow> is_authorized a)) xs"
  then show "spel_validate borsh_amm_env xs"
    by (induction xs) (auto simp: list_all_iff)
qed

lemma demo_numbers [simp]:
  "parse_uint (decimal 10000) = Inr (10000 :: u128)" "parse_uint (decimal 9821) = Inr (9821 :: u128)"
  "parse_uint (decimal 77) = Inr (77 :: u64)"
  using parse_decimal [of "10000 :: u128"] parse_decimal [of "9821 :: u128"] parse_decimal [of "77 :: u64"] by simp_all

definition demo_quote :: swap_quote_request where
  "demo_quote = \<lparr> sqr_token_in = id_text 20, sqr_token_out = id_text 30, sqr_amount = decimal 10000, sqr_slippage = 50,
     sqr_config = demo_config_read, sqr_pool_data = demo_pool_text \<rparr>"

definition demo_swap_plan :: swap_plan_request where
  "demo_swap_plan = \<lparr> plr_program = id_text 4, plr_token_in = id_text 20, plr_token_out = id_text 30,
     plr_config = demo_config_read, plr_input_holding = id_text 200, plr_output_holding = id_text 201,
     plr_amount = decimal 10000, plr_limit = decimal 9821, plr_deadline = decimal 77, plr_pool_data = demo_pool_text \<rparr>"

lemma demo_quote_fields [simp]:
  "sqr_token_in demo_quote = id_text 20" "sqr_token_out demo_quote = id_text 30" "sqr_amount demo_quote = decimal 10000"
  "sqr_slippage demo_quote = 50" "sqr_config demo_quote = demo_config_read" "sqr_pool_data demo_quote = demo_pool_text"
  by (simp_all add: demo_quote_def)

lemma demo_pool_read [simp]: "pool_from_hex plain_amm_api borsh_amm_env demo_pool_text = Some demo_pool"
  "live_pool_from_hex plain_amm_api borsh_amm_env demo_pool_text = Some demo_pool"
  "swap_fee_bps_from_config plain_amm_api borsh_amm_env demo_config_read = Inr 30"
  by (simp_all add: live_pool_from_hex_def pool_from_hex_def swap_fee_bps_from_config_def)

lemma demo_impact: "price_impact_bps 10000 9871 1000000 1000000 = Inr 129"
  by (simp add: price_impact_bps_def checked_mul_def checked_div_def widen256_def narrow_def saturating_sub_def
      FEE_BPS_DENOMINATOR_def min_def Let_def)

lemma demo_quote_reply:
  "swap_exact_in_quote plain_amm_api borsh_amm_env demo_quote = reply (JObj
    [(''expectedOut'', JStr (decimal 9871)), (''minReceived'', JStr (decimal 9821)), (''priceImpactBps'', JNum 129)])"
  by (simp add: swap_exact_in_quote_def
      oriented_reserves_def demo_amounts FEE_BPS_DENOMINATOR_def mul_div_floor_cases demo_impact parse_labelled_def saturating_sub_def)

lemma demo_load_config [simp]: "load_config plain_amm_api borsh_amm_env 4 demo_config_read = Inr (100, demo_config)"
proof -
  have "account config_acc \<noteq> empty_account"
    by (simp add: config_acc_def demo_account_def empty_account_def)
  then show ?thesis
    by (simp add: load_config_def)
qed

lemma demo_pool_reversed [simp]: "compute_pool_pda borsh_amm_env 4 100 30 20 = Inr 672001334"
  by (subst compute_pool_pda_commute) simp

lemma demo_swap_plan_reply:
  "swap_exact_in_plan plain_amm_api borsh_amm_env demo_swap_plan = reply (plan_response plain_amm_api (id_text 4)
    (map account_id swap_accounts) [False, False, False, False, True, False, False, False, False]
    (ser_instruction (SwapExactInput 10000 9821 77)))"
  unfolding swap_exact_in_plan_def swap_plan_def demo_swap_plan_def
  by (simp add: parse_labelled_def canonical_pair_def is_canonical_pair_def derive_pair_def to_vec_def demo_accounts)

lemma positive_decimal: "w \<noteq> 0 \<Longrightarrow> positive_amount (Some (decimal (unat w))) = Inr w"
  using decimal_digits [of "unat w"] by (simp add: positive_amount_def)

lemma demo_submits:
  "list_all2 (\<lambda>needed a. needed \<longrightarrow> is_authorized a) signing accounts \<Longrightarrow>
    submits plain_amm_api (plan_response plain_amm_api program (map account_id accounts) signing (ser_instruction i))
      accounts i"
  unfolding submits_def presents_def by (intro exI conjI, rule refl) simp_all

lemma demo_liquidity_numbers [simp]:
  "positive_amount (Some (decimal 10000)) = Inr 10000" "positive_amount (Some (decimal 20000)) = Inr 20000"
  "positive_amount (Some (decimal 500000)) = Inr 500000" "positive_amount (Some (decimal (Suc 0))) = Inr 1"
  using positive_decimal [of "10000 :: u128"] positive_decimal [of "20000 :: u128"] positive_decimal [of "500000 :: u128"]
    positive_decimal [of "1 :: u128"] by simp_all

definition demo_add_quote :: add_quote_request where
  "demo_add_quote = \<lparr> aqr_token_a = id_text 20, aqr_token_b = id_text 30, aqr_max_a = decimal 10000,
     aqr_max_b = decimal 20000, aqr_slippage = 0, aqr_pool_data = demo_pool_text \<rparr>"

definition demo_add_plan :: add_plan_request where
  "demo_add_plan = \<lparr> apr_program = id_text 4, apr_config = demo_config_read, apr_token_a = id_text 20,
     apr_token_b = id_text 30, apr_max_a = decimal 10000, apr_max_b = decimal 20000, apr_min_lp = decimal 10000,
     apr_deadline = decimal 77, apr_holding_a = id_text 200, apr_holding_b = id_text 201, apr_holding_lp = id_text 202,
     apr_pool_data = demo_pool_text \<rparr>"

text \<open>The withdrawal names the tokens in the order opposite to the pool's.\<close>

definition demo_remove_quote :: remove_quote_request where
  "demo_remove_quote = \<lparr> rqr_token_a = id_text 30, rqr_token_b = id_text 20, rqr_lp_amount = decimal 500000,
     rqr_slippage = 0, rqr_pool_data = demo_pool_text \<rparr>"

definition demo_remove_plan :: remove_plan_request where
  "demo_remove_plan = \<lparr> rmr_program = id_text 4, rmr_config = demo_config_read, rmr_token_a = id_text 30,
     rmr_token_b = id_text 20, rmr_lp_amount = decimal 500000, rmr_min_a = decimal 1, rmr_min_b = decimal 1,
     rmr_deadline = decimal 77, rmr_holding_a = id_text 201, rmr_holding_b = id_text 200, rmr_holding_lp = id_text 202,
     rmr_pool_data = demo_pool_text \<rparr>"

lemma demo_add_quote_reply:
  "add_liquidity_quote plain_amm_api borsh_amm_env demo_add_quote = reply (JObj
    [(''amountA'', JStr (decimal 10000)), (''amountB'', JStr (decimal 10000)), (''expectedLp'', JStr (decimal 10000)),
     (''minimumLp'', JStr (decimal 10000)), (''price'', JStr (decimal (2 ^ 64))),
     (''lpDefinitionId'', JStr (base58_encode plain_api 5033009888))])"
  unfolding add_liquidity_quote_def demo_add_quote_def
  by (simp add: pool_orientation_def swap_if_def FEE_BPS_DENOMINATOR_def mul_div_floor_cases demo_prices)

lemma demo_remove_quote_reply:
  "remove_liquidity_quote plain_amm_api borsh_amm_env demo_remove_quote = reply (JObj
    [(''amountA'', JStr (decimal 500000)), (''amountB'', JStr (decimal 500000)),
     (''minimumAmountA'', JStr (decimal 500000)), (''minimumAmountB'', JStr (decimal 500000)),
     (''price'', JStr (decimal (2 ^ 64)))])"
  unfolding remove_liquidity_quote_def demo_remove_quote_def
  by (simp add: pool_orientation_def swap_if_def FEE_BPS_DENOMINATOR_def mul_div_floor_cases demo_prices
      checked_sub_def MINIMUM_LIQUIDITY_def)

lemma demo_add_plan_reply:
  "add_liquidity_plan plain_amm_api borsh_amm_env demo_add_plan = reply (plan_response plain_amm_api (id_text 4)
    (map account_id liquidity_accounts) [False, False, False, False, False, True, True, True, False, False]
    (ser_instruction (AddLiquidity 10000 10000 20000 77)))"
  unfolding add_liquidity_plan_def demo_add_plan_def
  by (simp add: parse_labelled_def derive_pair_def to_vec_def pool_orientation_def swap_if_def demo_accounts)

lemma demo_remove_plan_reply:
  "remove_liquidity_plan plain_amm_api borsh_amm_env demo_remove_plan = reply (plan_response plain_amm_api (id_text 4)
    (map account_id liquidity_accounts) [False, False, False, False, False, False, False, True, False, False]
    (ser_instruction (RemoveLiquidity 500000 1 1 77)))"
  unfolding remove_liquidity_plan_def demo_remove_plan_def
  by (simp add: parse_labelled_def derive_pair_def to_vec_def pool_orientation_def swap_if_def demo_accounts)

section \<open>A drained pool\<close>

definition drained_pool :: pool_definition where
  "drained_pool = demo_pool \<lparr> reserve_a := 2, reserve_b := 10 ^ 35 \<rparr>"

definition drained_after :: pool_definition where
  "drained_after = demo_pool \<lparr> reserve_a := 100270812437311935807422266800401205, reserve_b := 2 \<rparr>"

definition drained_accounts :: "bytes account_with_metadata list" where
  "drained_accounts = [config_acc, demo_account 4 672001334 False (ser_pool drained_pool), vault_acc 5152009762 20 2,
     vault_acc 5152009972 30 (10 ^ 35), user_acc 200 20 (2 * 10 ^ 35), user_acc 201 30 0, tick_acc, clock_acc,
     vault_acc 588001124 20 0]"

definition drained_quote :: swap_quote_request where
  "drained_quote = \<lparr> sqr_token_in = id_text 20, sqr_token_out = id_text 30, sqr_amount = decimal (10 ^ 35 - 2),
     sqr_slippage = 0, sqr_config = demo_config_read, sqr_pool_data = hex_text (ser_pool drained_pool) \<rparr>"

lemma drained_amounts:
  "swap_exact_out_amounts 99999999999999999999999999999999998 2 (10 ^ 35) 30 =
    Inr (Some (99999999999999999999999999999999998, 100300902708124373119358074222668003))"
  "protocol_fee_amount 300902708124373119358074222668005 1000 = Inr 30090270812437311935807422266800"
  by (simp_all add: swap_exact_out_amounts_def protocol_fee_amount_def saturating_sub_def
      checked_add_def checked_sub_def FEE_BPS_DENOMINATOR_def mul_div_floor_cases mul_div_ceil_cases cdiv_def)

lemma drained_price: "spot_price_q64_64 100270812437311935807422266800401205 2 = Inr 0"
  by (simp add: spot_price_cases)

lemma drained_records [simp]:
  "definition_token_a_id drained_pool = 20" "definition_token_b_id drained_pool = 30"
  "vault_a_id drained_pool = 5152009762" "vault_b_id drained_pool = 5152009972"
  "liquidity_pool_id drained_pool = 5033009888" "liquidity_pool_supply drained_pool = 1000000"
  "reserve_a drained_pool = 2" "reserve_b drained_pool = 10 ^ 35"
  by (simp_all add: drained_pool_def)

lemma drained_number [simp]: "parse_uint (decimal 99999999999999999999999999999999998) = Inr (99999999999999999999999999999999998 :: u128)"
  using parse_decimal [of "99999999999999999999999999999999998 :: u128"] by simp

end
