(* ===== verification/Amm_Opening.thy ===== *)
theory Amm_Opening
  imports Amm_Liquidity_Api
begin

text \<open>
  The search for the smallest opening pair (\<^theory_text>\<open>minimum_opening_pair\<close> of
  \<^theory_text>\<open>modules/amm/ffi/src/api/quote.rs\<close>): the bisection finds the least hit of a monotone predicate, and
  the paired amount is the exact rounded-up quotient.
\<close>

lemma binary_search_least:
  assumes "low \<le> high" "\<And>x. low \<le> x \<Longrightarrow> x \<le> high \<Longrightarrow> predicate x = Inr (P (unat x))"
    and "\<And>m n. m \<le> n \<Longrightarrow> P m \<Longrightarrow> P n" and "P (unat high)"
  shows "\<exists>k. binary_search_min low high predicate = Inr k \<and> low \<le> k \<and> k \<le> high \<and> P (unat k) \<and>
    (\<forall>n. unat low \<le> n \<and> n < unat k \<longrightarrow> \<not> P n)"
  using assms
proof (induction low high predicate rule: binary_search_min.induct)
  case (1 low high predicate)
  show ?case
  proof (cases "low < high")
    case False
    then have "low = high"
      using 1(3) by simp
    then show ?thesis
      using 1(6) by (auto simp: binary_search_min.simps)
  next
    case True
    define mid where "mid = low + (high - low) div 2"
    have m: "unat mid = unat low + (unat high - unat low) div 2"
      "unat (mid + 1) = unat low + (unat high - unat low) div 2 + 1"
      using unat_mid [OF True] by (simp_all add: mid_def)
    have lt: "unat low < unat high"
      using True by (simp add: word_less_nat_alt)
    have b: "low \<le> mid" "mid < high" "mid + 1 \<le> high" "low \<le> mid + 1"
      using m lt unfolding word_le_nat_alt word_less_nat_alt by linarith+
    have p: "predicate mid = Inr (P (unat mid))"
      using 1(4) b by simp
    have step: "binary_search_min low high predicate =
        (if P (unat mid) then binary_search_min low mid predicate else binary_search_min (mid + 1) high predicate)"
      by (subst binary_search_min.simps) (simp add: True p flip: mid_def)
    show ?thesis
    proof (cases "P (unat mid)")
      case T: True
      have "\<exists>k. binary_search_min low mid predicate = Inr k \<and> low \<le> k \<and> k \<le> mid \<and> P (unat k) \<and>
          (\<forall>n. unat low \<le> n \<and> n < unat k \<longrightarrow> \<not> P n)"
      proof (rule 1(1) [OF True mid_def, of True])
        fix x assume "low \<le> x" "x \<le> mid"
        then show "predicate x = Inr (P (unat x))"
          using 1(4) b(2) by (meson order_trans order.strict_implies_order)
      qed (use b(1) 1(5) T in simp_all)
      then obtain k where k: "binary_search_min low mid predicate = Inr k" "low \<le> k" "k \<le> mid" "P (unat k)"
        "\<forall>n. unat low \<le> n \<and> n < unat k \<longrightarrow> \<not> P n"
        by blast
      have "k \<le> high"
        using k(3) b(2) by (meson order_trans order.strict_implies_order)
      then show ?thesis
        using k step T by (intro exI [of _ k]) simp
    next
      case F: False
      have "\<exists>k. binary_search_min (mid + 1) high predicate = Inr k \<and> mid + 1 \<le> k \<and> k \<le> high \<and> P (unat k) \<and>
          (\<forall>n. unat (mid + 1) \<le> n \<and> n < unat k \<longrightarrow> \<not> P n)"
      proof (rule 1(2) [OF True mid_def, of False])
        fix x assume "mid + 1 \<le> x" "x \<le> high"
        then show "predicate x = Inr (P (unat x))"
          using 1(4) b(4) by (meson order_trans)
      qed (use b(3) 1(5,6) F in simp_all)
      then obtain k where k: "binary_search_min (mid + 1) high predicate = Inr k" "mid + 1 \<le> k" "k \<le> high" "P (unat k)"
        "\<forall>n. unat (mid + 1) \<le> n \<and> n < unat k \<longrightarrow> \<not> P n"
        by blast
      have "\<not> P n" if "n < unat k" for n
      proof (cases "n \<le> unat mid")
        case True
        then show ?thesis
          using F 1(5) by blast
      next
        case False
        then show ?thesis
          using k(5) that m by simp
      qed
      moreover have "low \<le> k"
        using k(2) b(4) by (meson order_trans)
      ultimately show ?thesis
        using k(1,3,4) step F by (intro exI [of _ k]) simp
    qed
  qed
qed

lemma cdiv_mono: "0 < d \<Longrightarrow> m \<le> n \<Longrightarrow> cdiv m d \<le> cdiv n d"
  by (simp add: cdiv_def div_le_mono)

lemma paired_amount_exact:
  assumes "d \<noteq> 0"
  shows "\<exists>b. paired_amount f d a = Inr b \<and> unat b = cdiv (unat a * unat f) (unat d)"
proof -
  have p: "unat (widen256 a * widen256 f) = unat a * unat f"
    using product_fits [of a f] by (simp add: unat_mult_exact)
  have "unat (div_ceil (widen256 a * widen256 f) (widen256 d)) = cdiv (unat a * unat f) (unat d)"
    using assms p by (simp add: unat_div_ceil)
  then show ?thesis
    using assms by (simp add: paired_amount_def div_ceil_u256_def widen256_eq_0)
qed

section \<open>The least opening amount\<close>

text \<open>
  An opening at a price: the searched amount is token A at a price of at least one and token B below,
  the other amount is its counterpart at the price, rounded up, and the product of both is at least the
  square of the locked minimum plus one.
\<close>

definition opens :: "u128 \<Rightarrow> nat \<Rightarrow> nat \<Rightarrow> bool" where
  "opens price a b \<longleftrightarrow>
    (if 2 ^ 64 \<le> unat price then b = cdiv (a * unat price) (2 ^ 64) else a = cdiv (b * 2 ^ 64) (unat price)) \<and>
    1001 ^ 2 \<le> a * b"

lemma search_clears:
  assumes "d \<noteq> 0" "d \<le> f"
  shows "\<exists>k. binary_search_min 1 (MINIMUM_LIQUIDITY + 1) (clears_minimum (1001 ^ 2) f d) = Inr k \<and>
    unat k \<le> 1001 \<and> 1001 ^ 2 \<le> unat k * cdiv (unat k * unat f) (unat d) \<and>
    (\<forall>n. 1001 ^ 2 \<le> n * cdiv (n * unat f) (unat d) \<longrightarrow> unat k \<le> n)"
proof -
  define P where "P n \<longleftrightarrow> 1001 ^ 2 \<le> n * cdiv (n * unat f) (unat d)" for n
  have d: "0 < unat d" "unat d \<le> unat f"
    using assms by (simp_all add: unat_gt_0 word_le_nat_alt)
  have bound: "cdiv (n * unat f) (unat d) \<le> n * unat f" for n
    using d(1) by (simp add: cdiv_le_iff)
  have P: "clears_minimum (1001 ^ 2) f d x = Inr (P (unat x))" if "x \<le> 1001" for x
  proof -
    obtain b where b: "paired_amount f d x = Inr b" "unat b = cdiv (unat x * unat f) (unat d)"
      using paired_amount_exact [OF assms(1)] by blast
    have x: "unat x \<le> 1001"
      using that by (simp add: word_le_nat_alt)
    have "unat x * unat b \<le> 1001 * (1001 * unat f)"
      unfolding b(2) using x bound [of "unat x"] by (meson mult_le_mono le_refl order_trans)
    moreover have "unat f < 2 ^ 128"
      using unat_lt [of f] by simp
    ultimately have "unat x * unat b < 2 ^ 256"
      by simp
    then have "unat (widen256 x * b) = unat x * unat b"
      by (simp add: unat_mult_exact)
    then show ?thesis
      by (simp add: clears_minimum_def b P_def word_le_nat_alt)
  qed
  have mono: "P n" if "m \<le> n" "P m" for m n
  proof -
    have "m * cdiv (m * unat f) (unat d) \<le> n * cdiv (n * unat f) (unat d)"
      using that(1) d(1) by (simp add: mult_le_mono cdiv_mono)
    then show ?thesis
      using that(2) by (simp add: P_def)
  qed
  have top: "P 1001"
  proof -
    have "1001 \<le> cdiv (1001 * unat f) (unat d)"
    proof (rule ccontr)
      assume "\<not> 1001 \<le> cdiv (1001 * unat f) (unat d)"
      then have "1001 * unat f \<le> unat d * 1000"
        using d(1) by (simp add: cdiv_le_iff [symmetric])
      then show False
        using d by linarith
    qed
    then show ?thesis
      by (simp add: P_def)
  qed
  have "\<exists>k. binary_search_min 1 1001 (clears_minimum (1001 ^ 2) f d) = Inr k \<and> 1 \<le> k \<and> k \<le> 1001 \<and>
    P (unat k) \<and> (\<forall>n. unat (1 :: u128) \<le> n \<and> n < unat k \<longrightarrow> \<not> P n)"
    by (rule binary_search_least) (use P mono top in simp_all)
  then obtain k where k: "binary_search_min 1 1001 (clears_minimum (1001 ^ 2) f d) = Inr k" "k \<le> 1001"
    "P (unat k)" "\<forall>n. 1 \<le> n \<and> n < unat k \<longrightarrow> \<not> P n"
    by auto
  have "unat k \<le> n" if "P n" for n
    using k(4) that by (cases "n = 0") (auto simp: P_def intro: leI)
  then show ?thesis
    using k(1-3) by (intro exI [of _ k]) (simp add: MINIMUM_LIQUIDITY_def word_le_nat_alt P_def)
qed

lemma paired_narrows:
  assumes "d \<noteq> 0" "cdiv (unat a * unat f) (unat d) < 2 ^ 128"
  shows "\<exists>b (c :: u128). paired_amount f d a = Inr b \<and> narrow b = Some c \<and> unat c = cdiv (unat a * unat f) (unat d)"
proof -
  obtain b where b: "paired_amount f d a = Inr b" "unat b = cdiv (unat a * unat f) (unat d)"
    using paired_amount_exact [OF assms(1)] by blast
  then have "narrow b = Some (ucast b :: u128)" "unat (ucast b :: u128) = unat b"
    using assms(2) by (simp_all add: narrow_def unsigned_ucast_eq take_bit_nat_eq_self)
  then show ?thesis
    using b by auto
qed

lemma target_product: "checked_mul (widen256 (MINIMUM_LIQUIDITY + 1)) (widen256 (MINIMUM_LIQUIDITY + 1)) = Some (1001 ^ 2)"
  by (simp add: checked_mul_def MINIMUM_LIQUIDITY_def widen256_def)

end
