(* ===== verification/Amm_Api_Props.thy ===== *)
theory Amm_Api_Props
  imports Amm_Api_Borsh Amm_Opening Amm_Liquidity_Props
begin

text \<open>
  Properties of the AMM's client module: what it previews is what the chain does, and what it plans
  is what the guest accepts.
\<close>

declare borsh_codec_simps [simp del] ser_holding.simps [simp del] ser_definition.simps [simp del]

section \<open>Swaps\<close>



text \<open>
  An exact-output preview can panic.  On a pool whose input reserve has shrunk to two units, the
  preview of an output that the chain would pay panics: the price impact is computed in u128 before it is
  clamped to u32.
\<close>

theorem exact_out_preview_can_panic:
  "swap_exact_out_quote plain_amm_api borsh_amm_env drained_quote = Inl (Panic ''mul_div_floor result exceeds u128'') \<and>
   (\<exists>ds cs. amm_main borsh_amm_env 4 (SwapExactOutput (10 ^ 35 - 2) (2 * 10 ^ 35) 77) drained_accounts = Inr (ds, cs, Some 77))"
proof
  show "swap_exact_out_quote plain_amm_api borsh_amm_env drained_quote = Inl (Panic ''mul_div_floor result exceeds u128'')"
    unfolding swap_exact_out_quote_def drained_quote_def
    by (simp add: parse_labelled_def swap_fee_bps_from_config_def live_pool_from_hex_def pool_from_hex_def hex_bytes_text
        oriented_reserves_def drained_amounts [simplified] FEE_BPS_DENOMINATOR_def mul_div_ceil_cases mul_div_floor_cases cdiv_def
        saturating_sub_def)
  show "\<exists>ds cs. amm_main borsh_amm_env 4 (SwapExactOutput (10 ^ 35 - 2) (2 * 10 ^ 35) 77) drained_accounts = Inr (ds, cs, Some 77)"
    by (simp add: demo_run drained_accounts_def drained_amounts [simplified] drained_price)
qed

section \<open>Liquidity\<close>

text \<open>
  C32. A previewed deposit is exact.  Preview and plan are made from the same request, the plan is
  submitted on a chain whose pool is the one the client read, and the guest accepts it.  Then the
  holdings the request names pay exactly the previewed amounts, in the caller's order of the tokens and
  within the caller's maxima, and the named LP holding receives exactly the previewed LP units.
\<close>

theorem previewed_deposit_is_exact:
  assumes api: "amm_api_text A"
    and quote: "add_liquidity_quote A E q = reply v" and plan: "add_liquidity_plan A E r = reply s"
    and same: "aqr_token_a q = apr_token_a r" "aqr_token_b q = apr_token_b r" "aqr_max_a q = apr_max_a r"
      "aqr_max_b q = apr_max_b r" "aqr_pool_data q = apr_pool_data r"
    and submitted: "submits A s accounts i" "distinct (map account_id accounts)"
    and fresh: "hex_decode A (apr_pool_data r) = Inr (data (account (accounts ! 1)))"
    and request: "account_id_from_hex A (apr_holding_a r) ''user holding A id'' = Inr ha"
      "account_id_from_hex A (apr_holding_b r) ''user holding B id'' = Inr hb"
      "account_id_from_hex A (apr_holding_lp r) ''user LP holding id'' = Inr hl"
      "positive_amount (Some (apr_max_a r)) = Inr max_a" "positive_amount (Some (apr_max_b r)) = Inr max_b"
      "positive_amount (Some (apr_min_lp r)) = Inr min_lp"
    and run: "amm_main E amm i accounts = Inr (ds, cs, w)"
  shows "\<exists>a b (lp :: u128). json_field ''amountA'' v = Some (JStr (decimal (unat a))) \<and>
    json_field ''amountB'' v = Some (JStr (decimal (unat b))) \<and>
    json_field ''expectedLp'' v = Some (JStr (decimal (unat lp))) \<and>
    flow ha cs = - int (unat a) \<and> flow hb cs = - int (unat b) \<and>
    issued (account_id (accounts ! 4)) hl cs = int (unat lp) \<and> a \<le> max_a \<and> b \<le> max_b \<and> min_lp \<le> lp"
proof -
  obtain ta tb xa xb p rev ia ib la lb where Q:
    "account_id_from_hex A (aqr_token_a q) ''token A id'' = Inr ta"
    "account_id_from_hex A (aqr_token_b q) ''token B id'' = Inr tb"
    "positive_amount (Some (aqr_max_a q)) = Inr xa" "positive_amount (Some (aqr_max_b q)) = Inr xb"
    "live_pool_from_hex A E (aqr_pool_data q) = Some p" "pool_orientation p ta tb = Some rev"
    "mul_div_floor (reserve_a p) (snd (swap_if rev (xa, xb))) (reserve_b p) = Inr ia"
    "mul_div_floor (reserve_b p) (fst (swap_if rev (xa, xb))) (reserve_a p) = Inr ib"
    "mul_div_floor (liquidity_pool_supply p) (min ia (fst (swap_if rev (xa, xb)))) (reserve_a p) = Inr la"
    "mul_div_floor (liquidity_pool_supply p) (min ib (snd (swap_if rev (xa, xb)))) (reserve_b p) = Inr lb"
    "json_field ''amountA'' v = Some (JStr (decimal (unat (fst (swap_if rev
       (min ia (fst (swap_if rev (xa, xb))), min ib (snd (swap_if rev (xa, xb)))))))))"
    "json_field ''amountB'' v = Some (JStr (decimal (unat (snd (swap_if rev
       (min ia (fst (swap_if rev (xa, xb))), min ib (snd (swap_if rev (xa, xb)))))))))"
    "json_field ''expectedLp'' v = Some (JStr (decimal (unat (min la lb))))"
    using quote by (rule add_liquidity_quote_run)
  obtain ta' tb' ha' hb' hl' lo ya yb p' p2 c rev' where P:
    "account_id_from_hex A (apr_token_a r) ''token A id'' = Inr ta'"
    "account_id_from_hex A (apr_token_b r) ''token B id'' = Inr tb'"
    "account_id_from_hex A (apr_holding_a r) ''user holding A id'' = Inr ha'"
    "account_id_from_hex A (apr_holding_b r) ''user holding B id'' = Inr hb'"
    "account_id_from_hex A (apr_holding_lp r) ''user LP holding id'' = Inr hl'"
    "positive_amount (Some (apr_min_lp r)) = Inr lo"
    "positive_amount (Some (apr_max_a r)) = Inr ya" "positive_amount (Some (apr_max_b r)) = Inr yb"
    "pool_from_hex A E (apr_pool_data r) = Some p'" "pool_orientation p' ta' tb' = Some rev'"
    "add_ran E amm lo (fst (swap_if rev' (ya, yb))) (snd (swap_if rev' (ya, yb))) accounts c p' p2 ds cs"
    "account_id (accounts ! 5) = fst (swap_if rev' (ha', hb'))"
    "account_id (accounts ! 6) = snd (swap_if rev' (ha', hb'))" "account_id (accounts ! 7) = hl'"
    using planned_deposit [OF api plan submitted(1) fresh run] .
  have eq: "p' = p" "rev' = rev" "ha' = ha" "hb' = hb" "hl' = hl" "xa = max_a" "ya = max_a" "xb = max_b" "yb = max_b"
    "lo = min_lp"
    using Q(1-6) P(1-10) request by (auto simp: same live_pool_Some pool_from_hex_Some)
  obtain a b lp where D: "deposit_amounts p min_lp (fst (swap_if rev (max_a, max_b))) (snd (swap_if rev (max_a, max_b))) =
      Inr (a, b, lp)" "liquidity_flows accounts cs (int (unat a)) (int (unat b)) (int (unat lp))"
    using add_ran_flows [OF P(11) [unfolded eq] submitted(2)] by blast
  have amounts: "a = min ia (fst (swap_if rev (max_a, max_b)))" "b = min ib (snd (swap_if rev (max_a, max_b)))"
    "lp = min la lb"
    using deposit_amounts_min [OF D(1)] Q(7-10) unfolding eq by (metis sum.inject(2))+
  have flows: "flow (fst (swap_if rev (ha, hb))) cs = - int (unat a)" "flow (snd (swap_if rev (ha, hb))) cs = - int (unat b)"
    "issued (account_id (accounts ! 4)) hl cs = int (unat lp)"
    using D(2) P(12-14) by (simp_all add: liquidity_flows_def eq)
  have caps: "a \<le> fst (swap_if rev (max_a, max_b))" "b \<le> snd (swap_if rev (max_a, max_b))" "min_lp \<le> lp"
    using deposit_amounts_run(1,2,5) [OF D(1)] by simp_all
  have fields: "json_field ''amountA'' v = Some (JStr (decimal (unat (fst (swap_if rev (a, b))))))"
    "json_field ''amountB'' v = Some (JStr (decimal (unat (snd (swap_if rev (a, b))))))"
    "json_field ''expectedLp'' v = Some (JStr (decimal (unat lp)))"
    using Q(11-13) by (simp_all only: amounts eq)
  show ?thesis
    by (intro exI [of _ "fst (swap_if rev (a, b))"] exI [of _ "snd (swap_if rev (a, b))"] exI [of _ lp])
      (use flows caps fields in \<open>cases rev; simp add: swap_if_def\<close>)
qed

theorem previewed_deposit_is_exact_witness:
  "\<exists>v s ds cs (a :: u128) (b :: u128) (lp :: u128).
    add_liquidity_quote plain_amm_api borsh_amm_env demo_add_quote = reply v \<and>
    add_liquidity_plan plain_amm_api borsh_amm_env demo_add_plan = reply s \<and>
    submits plain_amm_api s liquidity_accounts (AddLiquidity 10000 10000 20000 77) \<and>
    amm_main borsh_amm_env 4 (AddLiquidity 10000 10000 20000 77) liquidity_accounts = Inr (ds, cs, Some 77) \<and>
    json_field ''amountA'' v = Some (JStr (decimal (unat a))) \<and> flow 200 cs = - int (unat a) \<and> a \<le> 10000 \<and>
    flow 201 cs = - int (unat b) \<and> b \<le> 20000 \<and> 10000 \<le> lp"
proof -
  obtain ds cs where run: "amm_main borsh_amm_env 4 (AddLiquidity 10000 10000 20000 77) liquidity_accounts =
      Inr (ds, cs, Some 77)"
    using demo_add by blast
  have submitted: "submits plain_amm_api (plan_response plain_amm_api (id_text 4) (map account_id liquidity_accounts)
      [False, False, False, False, False, True, True, True, False, False]
      (ser_instruction (AddLiquidity 10000 10000 20000 77))) liquidity_accounts (AddLiquidity 10000 10000 20000 77)"
    by (rule demo_submits) (simp add: demo_accounts)
  have accounts: "liquidity_accounts ! Suc 0 = pool_acc"
    by (simp add: liquidity_accounts_def)
  show ?thesis
    using previewed_deposit_is_exact [OF plain_amm.amm_api_text_axioms demo_add_quote_reply demo_add_plan_reply
        _ _ _ _ _ submitted _ _ _ _ _ _ _ _ run, of 200 201 202 10000 20000 10000]
      run submitted demo_add_quote_reply demo_add_plan_reply
    by (simp add: demo_add_quote_def demo_add_plan_def accounts) blast
qed

text \<open>
  C33. A previewed withdrawal is exact.  Preview and plan are made from the same request, the plan is
  submitted on a chain whose pool is the one the client read, and the guest accepts it.  Then the
  holdings the request names receive exactly the previewed amounts, in the caller's order of the tokens
  and at least the caller's minima, and exactly the requested LP units are burnt from the named holding.
\<close>

theorem previewed_withdrawal_is_exact:
  assumes api: "amm_api_text A"
    and quote: "remove_liquidity_quote A E q = reply v" and plan: "remove_liquidity_plan A E r = reply s"
    and same: "rqr_token_a q = rmr_token_a r" "rqr_token_b q = rmr_token_b r" "rqr_lp_amount q = rmr_lp_amount r"
      "rqr_pool_data q = rmr_pool_data r"
    and submitted: "submits A s accounts i" "distinct (map account_id accounts)"
    and fresh: "hex_decode A (rmr_pool_data r) = Inr (data (account (accounts ! 1)))"
    and request: "account_id_from_hex A (rmr_holding_a r) ''user holding A id'' = Inr ha"
      "account_id_from_hex A (rmr_holding_b r) ''user holding B id'' = Inr hb"
      "account_id_from_hex A (rmr_holding_lp r) ''user LP holding id'' = Inr hl"
      "positive_amount (Some (rmr_lp_amount r)) = Inr n" "positive_amount (Some (rmr_min_a r)) = Inr min_a"
      "positive_amount (Some (rmr_min_b r)) = Inr min_b"
    and run: "amm_main E amm i accounts = Inr (ds, cs, w)"
  shows "\<exists>a b. json_field ''amountA'' v = Some (JStr (decimal (unat a))) \<and>
    json_field ''amountB'' v = Some (JStr (decimal (unat b))) \<and>
    flow ha cs = int (unat a) \<and> flow hb cs = int (unat b) \<and> min_a \<le> a \<and> min_b \<le> b \<and>
    issued (account_id (accounts ! 4)) hl cs = - int (unat n)"
proof -
  obtain ta tb n' p rev a b where Q:
    "account_id_from_hex A (rqr_token_a q) ''token A id'' = Inr ta"
    "account_id_from_hex A (rqr_token_b q) ''token B id'' = Inr tb" "ta \<noteq> tb"
    "positive_amount (Some (rqr_lp_amount q)) = Inr n'"
    "live_pool_from_hex A E (rqr_pool_data q) = Some p" "pool_orientation p ta tb = Some rev"
    "mul_div_floor (reserve_a p) n' (liquidity_pool_supply p) = Inr a"
    "mul_div_floor (reserve_b p) n' (liquidity_pool_supply p) = Inr b"
    "json_field ''amountA'' v = Some (JStr (decimal (unat (fst (swap_if rev (a, b))))))"
    "json_field ''amountB'' v = Some (JStr (decimal (unat (snd (swap_if rev (a, b))))))"
    using quote by (rule remove_liquidity_quote_run)
  obtain ta' tb' ha' hb' hl' m ma mb p' p2 c rev' where P:
    "account_id_from_hex A (rmr_token_a r) ''token A id'' = Inr ta'"
    "account_id_from_hex A (rmr_token_b r) ''token B id'' = Inr tb'"
    "account_id_from_hex A (rmr_holding_a r) ''user holding A id'' = Inr ha'"
    "account_id_from_hex A (rmr_holding_b r) ''user holding B id'' = Inr hb'"
    "account_id_from_hex A (rmr_holding_lp r) ''user LP holding id'' = Inr hl'"
    "positive_amount (Some (rmr_lp_amount r)) = Inr m"
    "positive_amount (Some (rmr_min_a r)) = Inr ma" "positive_amount (Some (rmr_min_b r)) = Inr mb"
    "pool_from_hex A E (rmr_pool_data r) = Some p'" "pool_orientation p' ta' tb' = Some rev'"
    "remove_ran E amm m (fst (swap_if rev' (ma, mb))) (snd (swap_if rev' (ma, mb))) accounts c p' p2 ds cs"
    "account_id (accounts ! 5) = fst (swap_if rev' (ha', hb'))"
    "account_id (accounts ! 6) = snd (swap_if rev' (ha', hb'))" "account_id (accounts ! 7) = hl'"
    using planned_withdrawal [OF api plan submitted(1) fresh run] .
  have eq: "p' = p" "rev' = rev" "ha' = ha" "hb' = hb" "hl' = hl" "n' = n" "m = n" "ma = min_a" "mb = min_b"
    using Q(1,2,4-6) P(1-10) request by (auto simp: same live_pool_Some pool_from_hex_Some)
  obtain h a' b' where D: "withdrawal_amounts p h n (fst (swap_if rev (min_a, min_b))) (snd (swap_if rev (min_a, min_b))) =
      Inr (a', b')" "liquidity_flows accounts cs (- int (unat a')) (- int (unat b')) (- int (unat n))"
    using remove_ran_flows [OF P(11) [unfolded eq] submitted(2)] by blast
  have amounts: "a' = a" "b' = b"
    using withdrawal_amounts_exact [OF D(1)] Q(7,8) unfolding eq mul_div_floor_Inr by (simp_all add: word_unat_eq_iff)
  have flows: "flow (fst (swap_if rev (ha, hb))) cs = int (unat a)" "flow (snd (swap_if rev (ha, hb))) cs = int (unat b)"
    "issued (account_id (accounts ! 4)) hl cs = - int (unat n)"
    using D(2) P(12-14) amounts by (simp_all add: liquidity_flows_def eq)
  have floors: "fst (swap_if rev (min_a, min_b)) \<le> a" "snd (swap_if rev (min_a, min_b)) \<le> b"
    using withdrawal_amounts_run(1,2) [OF D(1)] by (simp_all add: amounts)
  show ?thesis
    by (intro exI [of _ "fst (swap_if rev (a, b))"] exI [of _ "snd (swap_if rev (a, b))"])
      (use flows floors Q(9,10) in \<open>cases rev; simp add: swap_if_def\<close>)
qed

theorem previewed_withdrawal_is_exact_witness:
  "\<exists>v s ds cs (a :: u128) (b :: u128). remove_liquidity_quote plain_amm_api borsh_amm_env demo_remove_quote = reply v \<and>
    remove_liquidity_plan plain_amm_api borsh_amm_env demo_remove_plan = reply s \<and>
    submits plain_amm_api s liquidity_accounts (RemoveLiquidity 500000 1 1 77) \<and>
    amm_main borsh_amm_env 4 (RemoveLiquidity 500000 1 1 77) liquidity_accounts = Inr (ds, cs, Some 77) \<and>
    json_field ''amountA'' v = Some (JStr (decimal (unat a))) \<and> flow 201 cs = int (unat a) \<and> 1 \<le> a \<and>
    flow 200 cs = int (unat b) \<and> 1 \<le> b"
proof -
  obtain ds cs where run: "amm_main borsh_amm_env 4 (RemoveLiquidity 500000 1 1 77) liquidity_accounts =
      Inr (ds, cs, Some 77)"
    using demo_remove by blast
  have submitted: "submits plain_amm_api (plan_response plain_amm_api (id_text 4) (map account_id liquidity_accounts)
      [False, False, False, False, False, False, False, True, False, False]
      (ser_instruction (RemoveLiquidity 500000 1 1 77))) liquidity_accounts (RemoveLiquidity 500000 1 1 77)"
    by (rule demo_submits) (simp add: demo_accounts)
  have accounts: "liquidity_accounts ! Suc 0 = pool_acc"
    by (simp add: liquidity_accounts_def)
  show ?thesis
    using previewed_withdrawal_is_exact [OF plain_amm.amm_api_text_axioms demo_remove_quote_reply demo_remove_plan_reply
        _ _ _ _ submitted _ _ _ _ _ _ _ _ run, of 201 200 202 500000 1 1]
      run submitted demo_remove_quote_reply demo_remove_plan_reply
    by (simp add: demo_remove_quote_def demo_remove_plan_def accounts) blast
qed

text \<open>
  C34. The previewed opening pair is the least.  At a nonzero price the search ends with the pair that
  clears the locked minimum and is at most every other pair at that price which does, in both amounts;
  at the price zero it panics.
\<close>

theorem opening_pair_is_least:
  "if price = 0 then minimum_opening_pair price = Inl (Panic ''division by zero'')
   else \<exists>a b. minimum_opening_pair price = reply (a, b) \<and> opens price (unat a) (unat b) \<and>
     (\<forall>m n. opens price m n \<longrightarrow> unat a \<le> m \<and> unat b \<le> n)"
proof -
  consider "price = 0" | "price \<noteq> 0" "Q64 \<le> price" | "price \<noteq> 0" "price < Q64"
    by fastforce
  then show ?thesis
  proof cases
    case 1
    have "clears_minimum t Q64 0 x = Inl (Panic ''division by zero'')" for t x
      by (simp add: clears_minimum_def paired_amount_def div_ceil_u256_def widen256_eq_0)
    then have "binary_search_min 1 (MINIMUM_LIQUIDITY + 1) (clears_minimum t Q64 0) = Inl (Panic ''division by zero'')" for t
      by (subst binary_search_min.simps) (simp add: MINIMUM_LIQUIDITY_def Let_def)
    then show ?thesis
      using 1 unfolding minimum_opening_pair_def Let_def target_product by (simp add: Q64_def)
  next
    case 2
    then have big: "2 ^ 64 \<le> unat price" "\<not> price < Q64"
      by (simp_all add: Q64_def word_le_nat_alt not_less)
    obtain k where k: "binary_search_min 1 (MINIMUM_LIQUIDITY + 1) (clears_minimum (1001 ^ 2) price Q64) = Inr k"
      "unat k \<le> 1001" "1001 ^ 2 \<le> unat k * cdiv (unat k * unat price) (2 ^ 64)"
      "\<And>n. 1001 ^ 2 \<le> n * cdiv (n * unat price) (2 ^ 64) \<Longrightarrow> unat k \<le> n"
      using search_clears [of Q64 price] 2 by (auto simp: Q64_def)
    have "unat k * unat price \<le> 2 ^ 64 * (2 ^ 128 - 1)"
      using mult_le_mono [OF k(2), of "unat price" "2 ^ 128 - 1"] unat_lt [of price] by simp
    then have "cdiv (unat k * unat price) (2 ^ 64) < 2 ^ 128"
      using cdiv_le_iff [of "2 ^ 64" "unat k * unat price" "2 ^ 128 - 1"] by simp
    then obtain b and c :: u128 where c: "paired_amount price Q64 k = Inr b" "narrow b = Some c"
      "unat c = cdiv (unat k * unat price) (2 ^ 64)"
      using paired_narrows [of Q64 k price] by (auto simp: Q64_def)
    have "minimum_opening_pair price = reply (k, c)"
      unfolding minimum_opening_pair_def Let_def target_product by (simp add: 2 k(1) [simplified] c)
    moreover have "opens price (unat k) (unat c)"
      using k(3) c(3) big(1) by (simp add: opens_def)
    moreover have "unat k \<le> m \<and> unat c \<le> n" if "opens price m n" for m n
      using that big(1) k(4) [of m] by (auto simp: opens_def c(3) intro!: cdiv_mono mult_le_mono1)
    ultimately show ?thesis
      using 2 by auto
  next
    case 3
    then have small: "unat price < 2 ^ 64" "0 < unat price"
      by (simp_all add: Q64_def word_less_nat_alt unat_gt_0)
    obtain k where k: "binary_search_min 1 (MINIMUM_LIQUIDITY + 1) (clears_minimum (1001 ^ 2) Q64 price) = Inr k"
      "unat k \<le> 1001" "1001 ^ 2 \<le> unat k * cdiv (unat k * 2 ^ 64) (unat price)"
      "\<And>n. 1001 ^ 2 \<le> n * cdiv (n * 2 ^ 64) (unat price) \<Longrightarrow> unat k \<le> n"
      using search_clears [of price Q64] 3 by (auto simp: Q64_def order.strict_implies_order)
    have "unat k * 2 ^ 64 \<le> unat price * (2 ^ 128 - 1)"
      using mult_le_mono [OF Suc_leI [OF small(2)], of "unat k * 2 ^ 64" "2 ^ 128 - 1"] k(2) by simp
    then have "cdiv (unat k * 2 ^ 64) (unat price) < 2 ^ 128"
      using cdiv_le_iff [OF small(2), of "unat k * 2 ^ 64" "2 ^ 128 - 1"] by simp
    then obtain b and c :: u128 where c: "paired_amount Q64 price k = Inr b" "narrow b = Some c"
      "unat c = cdiv (unat k * 2 ^ 64) (unat price)"
      using paired_narrows [of price k Q64] 3 by (auto simp: Q64_def)
    have "(Q64 \<le> price) = False"
      using 3 by (simp add: not_le)
    then have "minimum_opening_pair price = reply (c, k)"
      unfolding minimum_opening_pair_def Let_def target_product by (simp add: k(1) [simplified] c)
    moreover have "opens price (unat c) (unat k)"
      using k(3) c(3) small(1) by (simp add: opens_def mult.commute)
    moreover have "unat c \<le> m \<and> unat k \<le> n" if "opens price m n" for m n
      using that small(1) k(4) [of n] by (auto simp: opens_def c(3) mult.commute intro!: cdiv_mono small mult_le_mono2)
    ultimately show ?thesis
      using 3 by auto
  qed
qed

theorem opening_pair_is_least_witness:
  "\<exists>a b. minimum_opening_pair Q64 = reply (a, b) \<and> opens Q64 (unat a) (unat b) \<and> unat a \<le> 1001 \<and> unat b \<le> 1001"
  using opening_pair_is_least [of Q64] by (auto simp: Q64_def opens_def cdiv_def)

end
