(* ===== verification/Program_Api.thy ===== *)
theory Program_Api
  imports Api
begin

text \<open>
  What the client modules of the stablecoin, the oracle and the Token program share beyond \<^theory_text>\<open>Api\<close>: codes
  in the place of errors, texts free of blanks, the reading of the clock, and the comparison of a program's
  binary with the header it was deployed under.  The decoding of the clock's account, the image of a
  binary and the header of a deployed program are fields of the environment.
\<close>

record program_api_env = api_env +
  clock_from_slice :: "bytes \<Rightarrow> u64 option"
  binary_image_id :: "bytes \<Rightarrow> account_id option"
  header_image_id :: "bytes \<Rightarrow> account_id option"
  program_loader_id :: account_id

text \<open>\<^theory_text>\<open>x.map_err(|_| StablecoinApiError::new(code))?\<close>.\<close>

definition coded :: "string \<Rightarrow> 'a result \<Rightarrow> 'a result" where
  "coded code r = (case r of Inl _ \<Rightarrow> Inl code | Inr x \<Rightarrow> Inr x)"

section \<open>Texts\<close>

text \<open>Characters below 256: ASCII and the two other blanks of that range.\<close>

definition is_whitespace :: "char \<Rightarrow> bool" where
  "is_whitespace c = (let n = of_char c :: nat in 9 \<le> n \<and> n \<le> 13 \<or> n = 32 \<or> n = 133 \<or> n = 160)"

definition trim :: "string \<Rightarrow> string" where
  "trim s = rev (dropWhile is_whitespace (rev (dropWhile is_whitespace s)))"

definition to_ascii_lowercase :: "string \<Rightarrow> string" where
  "to_ascii_lowercase s = map (\<lambda>c. let n = of_char c :: nat in if 65 \<le> n \<and> n \<le> 90 then char_of (n + 32) else c) s"

lemma trim_plain: "list_all (\<lambda>c. \<not> is_whitespace c) s \<Longrightarrow> trim s = s"
proof -
  have keep: "list_all (\<lambda>c. \<not> is_whitespace c) t \<Longrightarrow> dropWhile is_whitespace t = t" for t
    by (cases t) simp_all
  assume "list_all (\<lambda>c. \<not> is_whitespace c) s"
  then show ?thesis
    by (simp add: trim_def keep)
qed

lemma digit_shape: "is_ascii_digit c \<longleftrightarrow> (let n = of_char c :: nat in 48 \<le> n \<and> n \<le> 57)"
  by (simp add: is_ascii_digit_def digit_value_def Let_def)

lemma plain_characters:
  "is_ascii_digit c \<Longrightarrow> \<not> is_whitespace c" "is_lower_hex c \<Longrightarrow> \<not> is_whitespace c"
  "is_lower_hex c \<Longrightarrow> \<not> (65 \<le> (of_char c :: nat) \<and> (of_char c :: nat) \<le> 90)"
  by (auto simp: is_lower_hex_def digit_shape is_whitespace_def Let_def)

lemma lower_hex_text: "list_all is_lower_hex s \<Longrightarrow> trim s = s \<and> to_ascii_lowercase s = s"
proof
  assume s: "list_all is_lower_hex s"
  then show "trim s = s"
    by (intro trim_plain) (auto simp: list_all_iff plain_characters)
  show "to_ascii_lowercase s = s"
    unfolding to_ascii_lowercase_def Let_def
    using s plain_characters(3) by (intro map_idI) (auto simp: list_all_iff)
qed

section \<open>Numbers\<close>

text \<open>A word given as its digits, of any unsigned width.\<close>

definition parse_decimal_text :: "string \<Rightarrow> 'a::len word result" where
  "parse_decimal_text v =
    (if v = [] \<or> \<not> list_all is_ascii_digit v then Inl ''invalid_numeric_value''
     else coded ''invalid_numeric_value'' (parse_uint v))"

text \<open>A signed word: \<^theory_text>\<open>str::parse\<close> admits one more negative value.\<close>

definition parse_signed_text :: "string \<Rightarrow> 'a::len word result" where
  "parse_signed_text v =
    (let negative = (v \<noteq> [] \<and> hd v = CHR ''-''); digits = (if negative then tl v else v);
         limit = 2 ^ (LENGTH('a) - 1) in
     if digits = [] \<or> \<not> list_all is_ascii_digit digits then Inl ''invalid_numeric_value''
     else (case parse_digits (if negative then limit + 1 else limit) 0 digits of
             Inl _ \<Rightarrow> Inl ''invalid_numeric_value''
           | Inr m \<Rightarrow> Inr (word_of_int (if negative then - int m else int m))))"

lemma parse_decimal_text_decimal [simp]: "parse_decimal_text (decimal (unat w)) = Inr w"
  by (simp add: parse_decimal_text_def coded_def decimal_digits)

section \<open>Accounts and programs\<close>

definition required_account :: "'x api_env_scheme \<Rightarrow> account_read \<Rightarrow> (account_id \<times> bytes account) result" where
  "required_account A r = coded ''account_read_failed'' (decode_account A r)"

definition clock_timestamp_read :: "'x program_api_env_scheme \<Rightarrow> ('d, 'y) lee_env_scheme \<Rightarrow> account_read \<Rightarrow> u64 result" where
  "clock_timestamp_read A E r =
    (case required_account A r of Inl e \<Rightarrow> Inl e | Inr (i, a) \<Rightarrow>
     if i \<noteq> clock_01_program_account_id E then Inl ''invalid_clock''
     else (case clock_from_slice A (data a) of None \<Rightarrow> Inl ''invalid_clock'' | Some t \<Rightarrow> Inr t))"

text \<open>An identifier is shown in base 58 and in hexadecimal.\<close>

definition id_fields :: "'x api_env_scheme \<Rightarrow> string \<Rightarrow> account_id \<Rightarrow> (string \<times> json) list" where
  "id_fields A key i = [(key, JStr (base58_encode A i)), (key @ ''Hex'', JStr (account_id_hex A i))]"

definition image_id_from_binary :: "'x program_api_env_scheme \<Rightarrow> string \<Rightarrow> account_id result" where
  "image_id_from_binary A s = (case coded ''invalid_program_binary'' (hex_decode A s) of Inl e \<Rightarrow> Inl e
    | Inr bs \<Rightarrow> (case binary_image_id A bs of None \<Rightarrow> Inl ''invalid_program_binary'' | Some i \<Rightarrow> Inr i))"

definition deployed_image_id :: "'x program_api_env_scheme \<Rightarrow> account_read \<Rightarrow> account_id \<Rightarrow> account_id result" where
  "deployed_image_id A r program =
    (case coded ''program_header_unavailable'' (decode_account A r) of Inl e \<Rightarrow> Inl e | Inr (i, a) \<Rightarrow>
     if i \<noteq> program \<or> program_owner a \<noteq> program_loader_id A then Inl ''program_header_unavailable''
     else (case header_image_id A (data a) of None \<Rightarrow> Inl ''program_header_unavailable'' | Some h \<Rightarrow> Inr h))"

section \<open>What the guest validates\<close>

text \<open>
  The validation the SPEL macro generates: a \<^theory_text>\<open>signer\<close> account has signed and an \<^theory_text>\<open>init\<close> account is the
  default account.
\<close>

definition validates_flags :: "('d, 'x) lee_env_scheme \<Rightarrow> bool" where
  "validates_flags E \<longleftrightarrow>
    (\<forall>xs. spel_validate E xs = list_all (\<lambda>(fs, a). (Signer \<in> set fs \<longrightarrow> is_authorized a) \<and>
      (Init \<in> set fs \<longrightarrow> account a = account_default E)) xs)"

section \<open>A concrete environment\<close>

text \<open>The clock is its time stamp, and images of programs are their first word.\<close>

definition plain_program_api :: program_api_env where
  "plain_program_api = api_env.extend plain_api
    \<lparr> clock_from_slice = (\<lambda>bs. if length bs = 8 then Some (from_le_bytes bs) else None),
      binary_image_id = (\<lambda>bs. if length bs = 32 then Some (leading_word bs) else None),
      header_image_id = (\<lambda>bs. if length bs = 32 then Some (leading_word bs) else None),
      program_loader_id = 3 \<rparr>"

end
