(* ===== verification/Stable_Api.thy ===== *)
theory Stable_Api
  imports Program_Api Stable_Main
begin

text \<open>
  The client module of the stablecoin (\<^theory_text>\<open>modules/stablecoin/ffi/src/api\<close>), first part: the parsing of
  identifiers and numbers, the validated reads of the program's accounts, the decoding operations, the
  projections and the preview of a rate update (\<^theory_text>\<open>mod.rs\<close>, \<^theory_text>\<open>plan.rs\<close>, \<^theory_text>\<open>decode.rs\<close>, \<^theory_text>\<open>position.rs\<close>,
  \<^theory_text>\<open>program.rs\<close>, \<^theory_text>\<open>projection.rs\<close>, \<^theory_text>\<open>health.rs\<close>, \<^theory_text>\<open>quote.rs\<close>).

  A \<^theory_text>\<open>StablecoinApiError\<close> is its code.  The encoding of an instruction is a field of the environment.
\<close>

record stable_api_env = program_api_env +
  stable_to_vec :: "stable_instruction \<Rightarrow> bytes result"
  stable_from_slice :: "bytes \<Rightarrow> stable_instruction option"

text \<open>What the client sees of the chain: instructions survive their encoding, and the clock reads as in the guest.\<close>

locale stable_api_text = api_text A for A :: "'x stable_api_env_scheme" +
  fixes E :: "(bytes, 'y) lee_env_scheme"
  assumes stable_round: "stable_to_vec A i = Inr bs \<Longrightarrow> stable_from_slice A bs = Some i"
    and clock_read: "clock_from_slice A d = Some t \<Longrightarrow> clock_timestamp E d = t"
    and clock_blank: "clock_from_slice A (data (account_default E)) = None"

section \<open>Identifiers and numbers\<close>

definition parse_stablecoin_program_id :: "'x api_env_scheme \<Rightarrow> ('d, 'y) lee_env_scheme \<Rightarrow> string \<Rightarrow> account_id result" where
  "parse_stablecoin_program_id A E s = (case coded ''invalid_program_id'' (parse_program_id A s) of
      Inl e \<Rightarrow> Inl e
    | Inr program \<Rightarrow> if program = default_program_owner E then Inl ''invalid_program_id'' else Inr program)"

definition parse_account_id_value :: "'x api_env_scheme \<Rightarrow> string \<Rightarrow> account_id result" where
  "parse_account_id_value A v =
    (let s = trim v in
     case account_id_from_hex A (to_ascii_lowercase s) ''account id'' of
       Inr i \<Rightarrow> Inr i
     | Inl _ \<Rightarrow> coded ''invalid_account_id'' (base58_decode A s))"

definition parse_account_id :: "'x api_env_scheme \<Rightarrow> string \<Rightarrow> account_id result" where
  "parse_account_id A v = (case parse_account_id_value A v of Inl e \<Rightarrow> Inl e
    | Inr i \<Rightarrow> if i = 0 then Inl ''invalid_account_id'' else Inr i)"

definition decimal_text :: "string \<Rightarrow> string result" where
  "decimal_text v =
    (let trimmed = trim v;
         unquoted = (if 2 \<le> length trimmed \<and> hd trimmed = CHR 0x22 \<and> last trimmed = CHR 0x22
                     then trim (butlast (tl trimmed)) else trimmed) in
     if unquoted = [] then Inl ''invalid_numeric_value'' else Inr unquoted)"

text \<open>\<^theory_text>\<open>parse_u64\<close> and \<^theory_text>\<open>parse_u128\<close> read the same.\<close>

definition parse_value :: "json \<Rightarrow> 'a::len word result" where
  "parse_value v = (case v of
      JNum n \<Rightarrow> if 0 \<le> n \<and> n < 2 ^ 64 then Inr (word_of_int n) else Inl ''invalid_numeric_value''
    | JStr raw \<Rightarrow> (case decimal_text raw of Inl e \<Rightarrow> Inl e | Inr text' \<Rightarrow>
        if \<not> list_all is_ascii_digit text' then Inl ''invalid_numeric_value''
        else coded ''invalid_numeric_value'' (parse_uint text'))
    | _ \<Rightarrow> Inl ''invalid_numeric_value'')"

text \<open>\<^theory_text>\<open>as_i64\<close>, or else \<^theory_text>\<open>as_u64\<close>.\<close>

definition parse_i128 :: "json \<Rightarrow> i128 result" where
  "parse_i128 v = (case v of
      JNum n \<Rightarrow> if - (2 ^ 63) \<le> n \<and> n < 2 ^ 64 then Inr (word_of_int n) else Inl ''invalid_numeric_value''
    | JStr raw \<Rightarrow> (case decimal_text raw of Inl e \<Rightarrow> Inl e | Inr text' \<Rightarrow> parse_signed_text text')
    | _ \<Rightarrow> Inl ''invalid_numeric_value'')"

text \<open>Printed identifiers are read back.\<close>

context api_text
begin

lemma parse_account_id_hex [simp]: "i \<noteq> 0 \<Longrightarrow> parse_account_id A (account_id_hex A i) = Inr i"
proof -
  have "trim (account_id_hex A i) = account_id_hex A i" "to_ascii_lowercase (account_id_hex A i) = account_id_hex A i"
    unfolding account_id_hex_def using lower_hex_text [OF hex_lower] by simp_all
  then show "i \<noteq> 0 \<Longrightarrow> parse_account_id A (account_id_hex A i) = Inr i"
    by (simp add: parse_account_id_def parse_account_id_value_def)
qed

end

section \<open>Validated reads\<close>

text \<open>The three readings of the globals differ in the address, the type and the codes.\<close>

definition validated_global ::
  "'x api_env_scheme \<Rightarrow> account_id \<Rightarrow> ('a, bytes) codec \<Rightarrow> string \<Rightarrow> string \<Rightarrow> account_id \<Rightarrow> account_read \<Rightarrow>
    (account_id \<times> 'a) result" where
  "validated_global A expected C pda_code data_code program r =
    (case required_account A r of Inl e \<Rightarrow> Inl e | Inr (i, a) \<Rightarrow>
     if i \<noteq> expected then Inl pda_code
     else if program_owner a \<noteq> program then Inl ''stablecoin_program_mismatch''
     else (case decode C (data a) of None \<Rightarrow> Inl data_code | Some x \<Rightarrow> Inr (i, x)))"

definition validated_protocol_parameters ::
  "'x api_env_scheme \<Rightarrow> (bytes, 'y) stable_env_scheme \<Rightarrow> account_id \<Rightarrow> account_read \<Rightarrow>
    (account_id \<times> protocol_parameters) result" where
  "validated_protocol_parameters A E program =
    validated_global A (compute_protocol_parameters_pda E program) (parameters_codec E)
      ''protocol_parameters_pda_mismatch'' ''invalid_protocol_parameters_data'' program"

definition validated_stability_fee_accumulator ::
  "'x api_env_scheme \<Rightarrow> (bytes, 'y) stable_env_scheme \<Rightarrow> account_id \<Rightarrow> account_read \<Rightarrow>
    (account_id \<times> stability_fee_accumulator) result" where
  "validated_stability_fee_accumulator A E program =
    validated_global A (compute_stability_fee_accumulator_pda E program) (accumulator_codec E)
      ''stability_fee_accumulator_pda_mismatch'' ''invalid_stability_fee_accumulator_data'' program"

definition validated_redemption_price_state ::
  "'x api_env_scheme \<Rightarrow> (bytes, 'y) stable_env_scheme \<Rightarrow> account_id \<Rightarrow> account_read \<Rightarrow>
    (account_id \<times> redemption_price_state) result" where
  "validated_redemption_price_state A E program =
    validated_global A (compute_redemption_price_state_pda E program) (redemption_codec E)
      ''redemption_price_state_pda_mismatch'' ''invalid_redemption_price_state_data'' program"

definition validated_position ::
  "'x api_env_scheme \<Rightarrow> (bytes, 'y) stable_env_scheme \<Rightarrow> account_id \<Rightarrow> account_id \<Rightarrow> u64 \<Rightarrow> account_read \<Rightarrow>
    (account_id \<times> position) result" where
  "validated_position A E program owner n r =
    (case required_account A r of Inl e \<Rightarrow> Inl e | Inr (i, a) \<Rightarrow>
     if i \<noteq> compute_position_pda E program owner n then Inl ''position_pda_mismatch''
     else if program_owner a \<noteq> program then Inl ''stablecoin_program_mismatch''
     else (case decode (position_codec E) (data a) of
             None \<Rightarrow> Inl ''invalid_position_data''
           | Some pos \<Rightarrow>
               if owner_account_id pos \<noteq> owner then Inl ''position_owner_mismatch''
               else if position_nonce pos \<noteq> n then Inl ''position_nonce_mismatch''
               else Inr (i, pos)))"

section \<open>decode.rs\<close>

record decode_global_request =
  dgr_program :: string
  dgr_account :: account_read

definition parameters_value :: "'x api_env_scheme \<Rightarrow> account_id \<Rightarrow> protocol_parameters \<Rightarrow> json" where
  "parameters_value A i p = JObj
    (id_fields A ''accountId'' i @ id_fields A ''adminId'' (admin_account_id p) @
     id_fields A ''freezeAuthorityId'' (freeze_authority_account_id p) @
     id_fields A ''stablecoinDefinitionId'' (stablecoin_definition_id p) @
     id_fields A ''collateralDefinitionId'' (collateral_definition_id p) @
     id_fields A ''marketPriceOracleId'' (market_price_oracle_id p) @
     [(''stabilityFeePerMillisecond'', JStr (decimal (unat (stability_fee_per_millisecond p)))),
      (''controllerProportionalGain'', JStr (signed_decimal (sint (controller_proportional_gain p)))),
      (''controllerIntegralGain'', JStr (signed_decimal (sint (controller_integral_gain p)))),
      (''minimumCollateralizationRatio'', JStr (decimal (unat (minimum_collateralization_ratio p)))),
      (''minimumMillisecondsBetweenRateUpdates'',
        JStr (decimal (unat (minimum_milliseconds_between_rate_updates p)))),
      (''maximumOraclePriceAgeMilliseconds'', JStr (decimal (unat (maximum_oracle_price_age_milliseconds p)))),
      (''isFrozen'', JBool (is_frozen p))])"

definition stability_fee_accumulator_value ::
  "'x api_env_scheme \<Rightarrow> account_id \<Rightarrow> stability_fee_accumulator \<Rightarrow> json" where
  "stability_fee_accumulator_value A i a = JObj
    (id_fields A ''accountId'' i @
     [(''accumulatedRateAtLastAccrual'', JStr (decimal (unat (accumulated_rate_at_last_accrual a)))),
      (''lastAccruedAt'', JStr (decimal (unat (last_accrued_at a))))])"

definition redemption_price_state_value ::
  "'x api_env_scheme \<Rightarrow> account_id \<Rightarrow> redemption_price_state \<Rightarrow> json" where
  "redemption_price_state_value A i s = JObj
    (id_fields A ''accountId'' i @
     [(''redemptionPriceAtLastUpdate'', JStr (decimal (unat (redemption_price_at_last_update s)))),
      (''redemptionRatePerMillisecond'', JStr (decimal (unat (redemption_rate_per_millisecond s)))),
      (''controllerIntegralTerm'', JStr (signed_decimal (sint (controller_integral_term s)))),
      (''lastUpdatedAt'', JStr (decimal (unat (last_updated_at s))))])"

definition decode_protocol_parameters ::
  "'x api_env_scheme \<Rightarrow> (bytes, 'y) stable_env_scheme \<Rightarrow> decode_global_request \<Rightarrow> json api" where
  "decode_protocol_parameters A E r =
    question (parse_stablecoin_program_id A E (dgr_program r)) (\<lambda>program.
    question (validated_protocol_parameters A E program (dgr_account r)) (\<lambda>(i, p).
    reply (parameters_value A i p)))"

definition decode_stability_fee_accumulator ::
  "'x api_env_scheme \<Rightarrow> (bytes, 'y) stable_env_scheme \<Rightarrow> decode_global_request \<Rightarrow> json api" where
  "decode_stability_fee_accumulator A E r =
    question (parse_stablecoin_program_id A E (dgr_program r)) (\<lambda>program.
    question (validated_stability_fee_accumulator A E program (dgr_account r)) (\<lambda>(i, a).
    reply (stability_fee_accumulator_value A i a)))"

definition decode_redemption_price_state ::
  "'x api_env_scheme \<Rightarrow> (bytes, 'y) stable_env_scheme \<Rightarrow> decode_global_request \<Rightarrow> json api" where
  "decode_redemption_price_state A E r =
    question (parse_stablecoin_program_id A E (dgr_program r)) (\<lambda>program.
    question (validated_redemption_price_state A E program (dgr_account r)) (\<lambda>(i, s).
    reply (redemption_price_state_value A i s)))"

section \<open>position.rs\<close>

text \<open>Here the owner is given in hexadecimal only.\<close>

definition parse_owner_id :: "'x api_env_scheme \<Rightarrow> string \<Rightarrow> account_id result" where
  "parse_owner_id A v = (case coded ''invalid_account_id'' (account_id_from_hex A v ''owner id'') of
      Inl e \<Rightarrow> Inl e | Inr i \<Rightarrow> if i = 0 then Inl ''invalid_account_id'' else Inr i)"

definition position_identity :: "'x api_env_scheme \<Rightarrow> account_id \<Rightarrow> u64 \<Rightarrow> account_id \<Rightarrow> account_id \<Rightarrow> (string \<times> json) list" where
  "position_identity A owner n position_id vault_id =
    id_fields A ''ownerId'' owner @ [(''positionNonce'', JStr (decimal (unat n)))] @
    id_fields A ''positionId'' position_id @ id_fields A ''vaultId'' vault_id"

record position_request =
  por_program :: string
  por_owner :: string
  por_nonce :: string

record decode_position_request = position_request +
  dpr_position :: account_read

definition position_info ::
  "'x api_env_scheme \<Rightarrow> ('d, 'y) lee_env_scheme \<Rightarrow> 'r position_request_scheme \<Rightarrow> json api" where
  "position_info A E r =
    question (parse_stablecoin_program_id A E (por_program r)) (\<lambda>program.
    question (parse_owner_id A (por_owner r)) (\<lambda>owner.
    question (parse_decimal_text (por_nonce r)) (\<lambda>n.
    (let position_id = compute_position_pda E program owner n;
         vault_id = compute_position_vault_pda E program position_id in
     reply (JObj (position_identity A owner n position_id vault_id))))))"

definition decode_position ::
  "'x api_env_scheme \<Rightarrow> (bytes, 'y) stable_env_scheme \<Rightarrow> decode_position_request \<Rightarrow> json api" where
  "decode_position A E r =
    question (parse_stablecoin_program_id A E (por_program r)) (\<lambda>program.
    question (parse_owner_id A (por_owner r)) (\<lambda>owner.
    question (parse_decimal_text (por_nonce r)) (\<lambda>n.
    (let expected_position = compute_position_pda E program owner n;
         expected_vault = compute_position_vault_pda E program expected_position in
     question (validated_position A E program owner n (dpr_position r)) (\<lambda>(_, pos).
     refuse (vault_account_id pos \<noteq> expected_vault) ''position_vault_mismatch'' (
     reply (JObj (position_identity A owner n expected_position expected_vault @
       [(''collateralAmount'', JStr (decimal (unat (collateral_amount pos)))),
        (''normalizedDebtAmount'', JStr (decimal (unat (normalized_debt_amount pos)))),
        (''openedAt'', JStr (decimal (unat (opened_at pos))))]))))))))"

section \<open>program.rs\<close>

record program_info_request =
  pgr_program :: "string option"
  pgr_elf :: "string option"
  pgr_header :: "account_read option"

definition program_info_fields :: "'x api_env_scheme \<Rightarrow> ('d, 'y) lee_env_scheme \<Rightarrow> account_id \<Rightarrow> (string \<times> json) list" where
  "program_info_fields A E program =
    id_fields A ''programId'' program @
    id_fields A ''protocolParametersId'' (compute_protocol_parameters_pda E program) @
    id_fields A ''stabilityFeeAccumulatorId'' (compute_stability_fee_accumulator_pda E program) @
    id_fields A ''redemptionPriceStateId'' (compute_redemption_price_state_pda E program) @
    id_fields A ''stablecoinDefinitionId'' (compute_stablecoin_definition_pda E program) @
    id_fields A ''stablecoinMasterHoldingId'' (compute_stablecoin_master_holding_pda E program) @
    id_fields A ''clockId'' (clock_01_program_account_id E)"

definition program_info ::
  "'x stable_api_env_scheme \<Rightarrow> ('d, 'y) lee_env_scheme \<Rightarrow> program_info_request \<Rightarrow> json api" where
  "program_info A E r =
    question (case pgr_program r of None \<Rightarrow> Inl ''config_missing'' | Some s \<Rightarrow> parse_stablecoin_program_id A E s)
      (\<lambda>program.
    question_api (case pgr_elf r of
        None \<Rightarrow> reply None
      | Some elf \<Rightarrow>
          question (image_id_from_binary A elf) (\<lambda>image_id.
          or_refuse ''program_header_unavailable'' (pgr_header r) (\<lambda>header.
          question (deployed_image_id A header program) (\<lambda>deployed.
          refuse (deployed \<noteq> image_id) ''program_binary_mismatch'' (reply (Some image_id)))))) (\<lambda>image_id.
    reply (JObj (program_info_fields A E program @
      [(''imageIdHex'', JStr (case image_id of None \<Rightarrow> [] | Some i \<Rightarrow> account_id_hex A i))]))))"

section \<open>projection.rs\<close>

record global_state_request =
  gsr_program :: string
  gsr_parameters :: account_read
  gsr_accumulator :: account_read
  gsr_redemption :: account_read
  gsr_clock :: account_read

definition current_global_state ::
  "'x stable_api_env_scheme \<Rightarrow> (bytes, 'y) stable_env_scheme \<Rightarrow> global_state_request \<Rightarrow> json api" where
  "current_global_state A E r =
    question (parse_stablecoin_program_id A E (gsr_program r)) (\<lambda>program.
    question (validated_protocol_parameters A E program (gsr_parameters r)) (\<lambda>(_, parameters).
    question (validated_stability_fee_accumulator A E program (gsr_accumulator r)) (\<lambda>(_, accumulator).
    question (validated_redemption_price_state A E program (gsr_redemption r)) (\<lambda>(_, redemption).
    question (clock_timestamp_read A E (gsr_clock r)) (\<lambda>projected_at.
    attempt (compute_current_accumulated_rate (accumulated_rate_at_last_accrual accumulator)
      (stability_fee_per_millisecond parameters) (last_accrued_at accumulator) projected_at) (\<lambda>rate.
    attempt (compute_current_redemption_price (redemption_price_at_last_update redemption)
      (redemption_rate_per_millisecond redemption) (last_updated_at redemption) projected_at) (\<lambda>price.
    reply (JObj
      [(''accumulatedRateAtLastAccrual'', JStr (decimal (unat (accumulated_rate_at_last_accrual accumulator)))),
       (''lastAccruedAt'', JStr (decimal (unat (last_accrued_at accumulator)))),
       (''redemptionPriceAtLastUpdate'', JStr (decimal (unat (redemption_price_at_last_update redemption)))),
       (''lastUpdatedAt'', JStr (decimal (unat (last_updated_at redemption)))),
       (''currentAccumulatedRate'', JStr (decimal (unat rate))),
       (''currentRedemptionPrice'', JStr (decimal (unat price))),
       (''projectedAt'', JStr (decimal (unat projected_at)))]))))))))"

section \<open>health.rs\<close>

record health_request =
  hlr_program :: string
  hlr_owner :: string
  hlr_nonce :: string
  hlr_position :: account_read
  hlr_parameters :: account_read
  hlr_accumulator :: account_read
  hlr_redemption :: account_read
  hlr_clock :: account_read

definition position_health ::
  "'x stable_api_env_scheme \<Rightarrow> (bytes, 'y) stable_env_scheme \<Rightarrow> health_request \<Rightarrow> json api" where
  "position_health A E r =
    question (parse_stablecoin_program_id A E (hlr_program r)) (\<lambda>program.
    question (parse_account_id A (hlr_owner r)) (\<lambda>owner.
    question (parse_decimal_text (hlr_nonce r)) (\<lambda>n.
    question (validated_position A E program owner n (hlr_position r)) (\<lambda>(position_id, pos).
    (let vault_id = compute_position_vault_pda E program position_id in
     refuse (vault_account_id pos \<noteq> vault_id) ''position_vault_mismatch'' (
     question (validated_protocol_parameters A E program (hlr_parameters r)) (\<lambda>(_, parameters).
     question (validated_stability_fee_accumulator A E program (hlr_accumulator r)) (\<lambda>(_, accumulator).
     question (validated_redemption_price_state A E program (hlr_redemption r)) (\<lambda>(_, redemption).
     question (clock_timestamp_read A E (hlr_clock r)) (\<lambda>now.
     or_refuse ''health_projection_overflow''
       (try_project_rate_wide (accumulated_rate_at_last_accrual accumulator)
         (stability_fee_per_millisecond parameters) (last_accrued_at accumulator) now) (\<lambda>current_accumulator.
     or_refuse ''health_projection_overflow''
       (try_project_rate_wide (redemption_price_at_last_update redemption)
         (redemption_rate_per_millisecond redemption) (last_updated_at redemption) now) (\<lambda>current_price.
     or_refuse ''health_arithmetic_overflow''
       (checked_mul (widen512 (normalized_debt_amount pos)) current_accumulator) (\<lambda>scaled_debt.
     (let values = collateralization_values (collateral_amount pos) (normalized_debt_amount pos)
            current_accumulator current_price (minimum_collateralization_ratio parameters) in
      reply (JObj (position_identity A owner n position_id vault_id @
        [(''collateralAmount'', JStr (decimal (unat (collateral_amount pos)))),
         (''normalizedDebtAmount'', JStr (decimal (unat (normalized_debt_amount pos)))),
         (''openedAt'', JStr (decimal (unat (opened_at pos)))),
         (''currentAccumulatedRate'', JStr (decimal (unat current_accumulator))),
         (''currentRedemptionPrice'', JStr (decimal (unat current_price))),
         (''minimumCollateralizationRatio'', JStr (decimal (unat (minimum_collateralization_ratio parameters)))),
         (''projectedAt'', JStr (decimal (unat now))),
         (''nominalDebt'', JStr (decimal (unat (scaled_debt div widen512 FIXED_POINT_ONE)))),
         (''collateralValue'', JStr (decimal (unat (collateral_value values)))),
         (''requiredCollateralValue'', JStr (decimal (unat (required_collateral_value values)))),
         (''requirementSaturated'', JBool (requirement_saturated values)),
         (''isCollateralized'', JBool (is_collateralized values))]))))))))))))))))"

section \<open>quote.rs\<close>

record rate_quote_request =
  rqq_program :: string
  rqq_parameters :: account_read
  rqq_redemption :: account_read
  rqq_oracle :: account_read
  rqq_clock :: account_read

definition usable_market_price_oracle ::
  "'x api_env_scheme \<Rightarrow> (bytes, 'y) stable_env_scheme \<Rightarrow> account_read \<Rightarrow> protocol_parameters \<Rightarrow>
    oracle_price_account option result" where
  "usable_market_price_oracle A E r parameters =
    (case required_account A r of Inl e \<Rightarrow> Inl e | Inr (i, a) \<Rightarrow>
     if i \<noteq> market_price_oracle_id parameters then Inl ''market_price_oracle_mismatch''
     else if a = account_default E then Inr None
     else Inr (case decode (oracle_price_codec E) (data a) of
         None \<Rightarrow> None
       | Some oracle' \<Rightarrow>
           (if oracle_base_asset oracle' = stablecoin_definition_id parameters \<and>
               oracle_quote_asset oracle' = collateral_definition_id parameters
            then Some oracle' else None)))"

definition blocker :: "string \<Rightarrow> (string \<times> json) list \<Rightarrow> json" where
  "blocker code details = JObj
    [(''code'', JStr code), (''recoverable'', JBool True), (''blockingFields'', JArr []), (''details'', JObj details)]"

text \<open>What stands in the way of an update, in the order of the answer.\<close>

definition rate_update_blockers ::
  "protocol_parameters \<Rightarrow> redemption_price_state \<Rightarrow> oracle_price_account option \<Rightarrow> u64 \<Rightarrow> json list" where
  "rate_update_blockers parameters redemption oracle' now =
    (let elapsed = saturating_sub now (last_updated_at redemption) in
     (case oracle' of
        None \<Rightarrow> [blocker ''oracle_unavailable'' []]
      | Some oracle' \<Rightarrow>
          (let age = saturating_sub now (oracle_timestamp oracle') in
           if maximum_oracle_price_age_milliseconds parameters < age
           then [blocker ''oracle_stale''
             [(''oracleAgeMilliseconds'', JStr (decimal (unat age))),
              (''maximumOraclePriceAgeMilliseconds'',
                JStr (decimal (unat (maximum_oracle_price_age_milliseconds parameters))))]] else []) @
          (if oracle_price oracle' = 0 then [blocker ''oracle_price_zero'' [(''marketPrice'', JStr ''0'')]] else [])) @
     (if elapsed < minimum_milliseconds_between_rate_updates parameters
      then [blocker ''rate_update_too_soon''
        [(''elapsedMilliseconds'', JStr (decimal (unat elapsed))),
         (''minimumMillisecondsBetweenRateUpdates'',
           JStr (decimal (unat (minimum_milliseconds_between_rate_updates parameters))))]] else []))"

definition clamp_metadata :: json where
  "clamp_metadata = JObj
    [(''integralMinimum'', JStr (signed_decimal (- sint INTEGRAL_CLAMP))),
     (''integralMaximum'', JStr (signed_decimal (sint INTEGRAL_CLAMP))),
     (''rateDeltaMinimum'', JStr (signed_decimal (- sint RATE_DELTA_CLAMP))),
     (''rateDeltaMaximum'', JStr (signed_decimal (sint RATE_DELTA_CLAMP)))]"

definition redemption_rate_update_quote ::
  "'x stable_api_env_scheme \<Rightarrow> (bytes, 'y) stable_env_scheme \<Rightarrow> rate_quote_request \<Rightarrow> json api" where
  "redemption_rate_update_quote A E r =
    question (parse_stablecoin_program_id A E (rqq_program r)) (\<lambda>program.
    question (validated_protocol_parameters A E program (rqq_parameters r)) (\<lambda>(_, parameters).
    question (validated_redemption_price_state A E program (rqq_redemption r)) (\<lambda>(_, redemption).
    question (usable_market_price_oracle A E (rqq_oracle r) parameters) (\<lambda>oracle'.
    question (clock_timestamp_read A E (rqq_clock r)) (\<lambda>now.
    (let elapsed = saturating_sub now (last_updated_at redemption) in
     attempt (bound_redemption_price (compute_current_redemption_price_wide
       (redemption_price_at_last_update redemption) (redemption_rate_per_millisecond redemption)
       (last_updated_at redemption) now)) (\<lambda>current_price.
     (let errors = rate_update_blockers parameters redemption oracle' now;
          can_submit = (errors = []) in
      attempt (case (can_submit, oracle') of
          (True, Some oracle') \<Rightarrow>
            attempt (run_controller_tick current_price (oracle_price_to_fixed_point (oracle_price oracle'))
              (controller_integral_term redemption) (controller_proportional_gain parameters)
              (controller_integral_gain parameters) elapsed) (\<lambda>out.
            Inr (JStr (decimal (unat (out_redemption_rate_per_millisecond out))),
                 JStr (signed_decimal (sint (out_controller_integral_term out)))))
        | _ \<Rightarrow> Inr (JNull, JNull)) (\<lambda>(next_rate, next_integral).
      reply (JObj
        [(''canSubmit'', JBool can_submit),
         (''code'', JStr (if can_submit then ''ready'' else ''blocked'')),
         (''currentRedemptionPrice'', JStr (decimal (unat current_price))),
         (''marketPrice'', case oracle' of None \<Rightarrow> JNull
           | Some oracle' \<Rightarrow> JStr (decimal (unat (oracle_price_to_fixed_point (oracle_price oracle'))))),
         (''elapsedMilliseconds'', JStr (decimal (unat elapsed))),
         (''nextRedemptionRatePerMillisecond'', next_rate),
         (''nextControllerIntegralTerm'', next_integral),
         (''clampMetadata'', clamp_metadata),
         (''errors'', JArr errors), (''warnings'', JArr [])]))))))))))"

end
