(* ===== verification/Stable_Plan_Api.thy ===== *)
theory Stable_Plan_Api
  imports Stable_Api
begin

text \<open>
  The client module of the stablecoin, second part: the plans that submit an instruction (\<^theory_text>\<open>plan.rs\<close>,
  \<^theory_text>\<open>debt.rs\<close>, \<^theory_text>\<open>withdraw.rs\<close>, \<^theory_text>\<open>close.rs\<close>, \<^theory_text>\<open>freeze.rs\<close>, \<^theory_text>\<open>admin.rs\<close>).  A plan reads the accounts it
  is given and refuses what it can tell the guest would refuse.
\<close>

definition stable_plan ::
  "'x stable_api_env_scheme \<Rightarrow> account_id \<Rightarrow> account_id list \<Rightarrow> bool list \<Rightarrow> stable_instruction \<Rightarrow> json api" where
  "stable_plan A program ids signing i =
    question (coded ''backend_error'' (stable_to_vec A i)) (\<lambda>instruction.
    reply (plan_response A (account_id_hex A program) ids signing instruction))"

text \<open>The readings of token accounts the plans share: a fungible definition, and a fungible holding of a token.\<close>

definition read_definition ::
  "(bytes, 'y) token_env_scheme \<Rightarrow> string \<Rightarrow> bytes account \<Rightarrow> token_definition result" where
  "read_definition E code a = (case decode (definition_codec E) (data a) of
      Some (DefFungible n s m w) \<Rightarrow> Inr (DefFungible n s m w) | _ \<Rightarrow> Inl code)"

definition holding_balance ::
  "(bytes, 'y) token_env_scheme \<Rightarrow> string \<Rightarrow> string \<Rightarrow> account_id \<Rightarrow> bytes account \<Rightarrow> u128 result" where
  "holding_balance E invalid mismatch token a = (case decode (holding_codec E) (data a) of
      None \<Rightarrow> Inl invalid
    | Some (Fungible d b) \<Rightarrow> if d = token then Inr b else Inl mismatch
    | Some _ \<Rightarrow> Inl invalid)"

section \<open>debt.rs: fallible pricing\<close>

text \<open>Two factors of 128 bits fit \<^theory_text>\<open>U256\<close>; division and narrowing can still fail.\<close>

definition checked_mul_div :: "u128 \<Rightarrow> u128 \<Rightarrow> u128 \<Rightarrow> u128 option" where
  "checked_mul_div a b divisor =
    (case checked_div (widen256 a * widen256 b) (widen256 divisor) of None \<Rightarrow> None | Some q \<Rightarrow> narrow q)"

text \<open>The loop of \<^theory_text>\<open>checked_accumulator\<close>: the exponent is halved until it is zero.\<close>

function checked_loop :: "u128 \<Rightarrow> u128 \<Rightarrow> u64 \<Rightarrow> u128 option" where
  "checked_loop factor base exponent =
    (if exponent = 0 then Some factor else
     case (if exponent AND 1 = 1 then checked_mul_div factor base FIXED_POINT_ONE else Some factor) of
       None \<Rightarrow> None
     | Some factor' \<Rightarrow>
         (case (if drop_bit 1 exponent \<noteq> 0 then checked_mul_div base base FIXED_POINT_ONE else Some base) of
            None \<Rightarrow> None
          | Some base' \<Rightarrow> checked_loop factor' base' (drop_bit 1 exponent)))"
  by pat_completeness auto

termination
proof (relation "measure (\<lambda>(f, b, e). unat e)")
  show "((f', b', drop_bit 1 e), (f, b, e)) \<in> measure (\<lambda>(f, b, e). unat e)"
    if "e \<noteq> 0" for f b f' b' :: u128 and e :: u64
    using that by (simp add: unat_drop_bit unat_gt_0)
qed simp

declare checked_loop.simps [simp del]

definition checked_accumulator :: "u128 \<Rightarrow> u128 \<Rightarrow> u64 \<Rightarrow> u64 \<Rightarrow> u128 option" where
  "checked_accumulator anchor rate last_at now =
    (case (if rate \<noteq> FIXED_POINT_ONE then checked_loop FIXED_POINT_ONE rate (clamped_elapsed last_at now)
           else Some FIXED_POINT_ONE) of
       None \<Rightarrow> None
     | Some factor \<Rightarrow> checked_mul_div anchor factor FIXED_POINT_ONE)"

definition checked_debt_delta :: "u128 \<Rightarrow> u128 \<Rightarrow> u128 option" where
  "checked_debt_delta amount accumulator =
    (let product = widen256 amount * widen256 FIXED_POINT_ONE; divisor = widen256 accumulator in
     case checked_div product divisor of None \<Rightarrow> None
     | Some q \<Rightarrow> narrow (if product mod divisor = 0 then q else q + 1))"

section \<open>plan.rs\<close>

record initialize_plan_request =
  ipr_program :: string
  ipr_admin :: string
  ipr_freeze_authority :: string
  ipr_collateral :: account_read
  ipr_oracle :: account_read
  ipr_clock :: account_read
  ipr_fee :: json
  ipr_proportional_gain :: json
  ipr_integral_gain :: json
  ipr_ratio :: json
  ipr_minimum_interval :: json
  ipr_maximum_age :: json
  ipr_price :: json
  ipr_name :: string

definition initialize_program_plan ::
  "'x stable_api_env_scheme \<Rightarrow> (bytes, 'y) stable_env_scheme \<Rightarrow> initialize_plan_request \<Rightarrow> json api" where
  "initialize_program_plan A E r =
    question (parse_stablecoin_program_id A E (ipr_program r)) (\<lambda>program.
    question (parse_account_id A (ipr_admin r)) (\<lambda>admin.
    question (parse_account_id A (ipr_freeze_authority r)) (\<lambda>freeze_authority.
    question (required_account A (ipr_collateral r)) (\<lambda>(collateral_id, collateral).
    question (read_definition E ''invalid_collateral_definition'' collateral) (\<lambda>_.
    question (required_account A (ipr_oracle r)) (\<lambda>(oracle_id, oracle').
    question (if oracle' = account_default E then Inr None
              else (case decode (oracle_price_codec E) (data oracle') of
                      None \<Rightarrow> Inl ''invalid_market_price_oracle'' | Some x \<Rightarrow> Inr (Some x))) (\<lambda>observation.
    question (required_account A (ipr_clock r)) (\<lambda>(clock_id, clock).
    refuse (clock_id \<noteq> clock_01_program_account_id E \<or> clock_from_slice A (data clock) = None) ''invalid_clock'' (
    (let stablecoin_id = compute_stablecoin_definition_pda E program in
     refuse (case observation of None \<Rightarrow> False
             | Some x \<Rightarrow> oracle_base_asset x \<noteq> stablecoin_id \<or> oracle_quote_asset x \<noteq> collateral_id)
       ''oracle_asset_mismatch'' (
     question (parse_value (ipr_fee r)) (\<lambda>fee.
     question (parse_i128 (ipr_proportional_gain r)) (\<lambda>kp.
     question (parse_i128 (ipr_integral_gain r)) (\<lambda>ki.
     question (parse_value (ipr_ratio r)) (\<lambda>ratio.
     question (parse_value (ipr_minimum_interval r)) (\<lambda>interval.
     question (parse_value (ipr_maximum_age r)) (\<lambda>age.
     question (parse_value (ipr_price r)) (\<lambda>price.
     refuse (ipr_name r = []) ''invalid_stablecoin_name'' (
     stable_plan A program
       [admin, compute_protocol_parameters_pda E program, compute_stability_fee_accumulator_pda E program,
        compute_redemption_price_state_pda E program, stablecoin_id,
        compute_stablecoin_master_holding_pda E program, collateral_id, oracle_id, clock_id]
       [True, False, False, False, False, False, False, False, False]
       (InitializeProgram
         \<lparr> params_freeze_authority_account_id = freeze_authority, initial_stability_fee_per_millisecond = fee,
           initial_controller_proportional_gain = kp, initial_controller_integral_gain = ki,
           initial_minimum_collateralization_ratio = ratio,
           params_minimum_milliseconds_between_rate_updates = interval,
           params_maximum_oracle_price_age_milliseconds = age, initial_redemption_price = price,
           stablecoin_name = ascii (ipr_name r) \<rparr>))))))))))))))))))))"

record open_plan_request =
  opr_program :: string
  opr_owner :: string
  opr_nonce :: string
  opr_amount :: string
  opr_holding_id :: string
  opr_holding :: account_read
  opr_collateral :: account_read
  opr_parameters :: account_read
  opr_clock :: account_read

definition open_position_plan ::
  "'x stable_api_env_scheme \<Rightarrow> (bytes, 'y) stable_env_scheme \<Rightarrow> open_plan_request \<Rightarrow> json api" where
  "open_position_plan A E r =
    question (parse_stablecoin_program_id A E (opr_program r)) (\<lambda>program.
    question (parse_account_id A (opr_owner r)) (\<lambda>owner.
    question (parse_account_id A (opr_holding_id r)) (\<lambda>holding_id.
    question (parse_decimal_text (opr_nonce r)) (\<lambda>n.
    question (parse_decimal_text (opr_amount r)) (\<lambda>amount.
    question (validated_protocol_parameters A E program (opr_parameters r)) (\<lambda>(_, parameters).
    refuse (is_frozen parameters) ''protocol_frozen'' (
    question (required_account A (opr_collateral r)) (\<lambda>(collateral_id, collateral).
    refuse (collateral_id \<noteq> collateral_definition_id parameters) ''collateral_definition_mismatch'' (
    question (read_definition E ''invalid_collateral_definition'' collateral) (\<lambda>_.
    question (required_account A (opr_holding r)) (\<lambda>(read_holding, holding_account).
    refuse (read_holding \<noteq> holding_id) ''invalid_user_collateral_holding'' (
    question (holding_balance E ''invalid_user_collateral_holding'' ''invalid_user_collateral_holding''
      collateral_id holding_account) (\<lambda>_.
    refuse (program_owner holding_account \<noteq> program_owner collateral) ''token_program_mismatch'' (
    question (required_account A (opr_clock r)) (\<lambda>(clock_id, _).
    question (clock_timestamp_read A E (opr_clock r)) (\<lambda>_.
    (let position_id = compute_position_pda E program owner n;
         vault_id = compute_position_vault_pda E program position_id in
     stable_plan A program
       [owner, position_id, vault_id, holding_id, collateral_id, compute_protocol_parameters_pda E program, clock_id]
       [True, False, False, True, False, False, False]
       (OpenPosition n amount))))))))))))))))))"

definition position_addresses ::
  "'x api_env_scheme \<Rightarrow> ('d, 'y) lee_env_scheme \<Rightarrow> 'r position_request_scheme \<Rightarrow> json api" where
  "position_addresses A E r =
    question (parse_stablecoin_program_id A E (por_program r)) (\<lambda>program.
    question (parse_account_id A (por_owner r)) (\<lambda>owner.
    question (parse_decimal_text (por_nonce r)) (\<lambda>n.
    (let position_id = compute_position_pda E program owner n in
     reply (JObj (id_fields A ''positionId'' position_id @
       id_fields A ''vaultId'' (compute_position_vault_pda E program position_id)))))))"

record deposit_plan_request =
  dcr_program :: string
  dcr_owner :: string
  dcr_nonce :: string
  dcr_amount :: json
  dcr_holding_id :: string
  dcr_position :: account_read
  dcr_vault :: account_read
  dcr_holding :: account_read
  dcr_parameters :: account_read

definition deposit_collateral_plan ::
  "'x stable_api_env_scheme \<Rightarrow> (bytes, 'y) stable_env_scheme \<Rightarrow> deposit_plan_request \<Rightarrow> json api" where
  "deposit_collateral_plan A E r =
    question (parse_stablecoin_program_id A E (dcr_program r)) (\<lambda>program.
    question (parse_account_id A (dcr_owner r)) (\<lambda>owner.
    question (parse_decimal_text (dcr_nonce r)) (\<lambda>n.
    question (parse_value (dcr_amount r)) (\<lambda>amount.
    question (parse_account_id A (dcr_holding_id r)) (\<lambda>holding_id.
    question (validated_protocol_parameters A E program (dcr_parameters r)) (\<lambda>(parameters_id, parameters).
    question (validated_position A E program owner n (dcr_position r)) (\<lambda>(position_id, pos).
    (let expected_vault = compute_position_vault_pda E program position_id in
     refuse (vault_account_id pos \<noteq> expected_vault) ''position_vault_mismatch'' (
     question (required_account A (dcr_vault r)) (\<lambda>(vault_id, vault).
     refuse (vault_id \<noteq> expected_vault) ''vault_pda_mismatch'' (
     question (holding_balance E ''invalid_position_vault'' ''collateral_definition_mismatch''
       (collateral_definition_id parameters) vault) (\<lambda>vault_balance.
     question (required_account A (dcr_holding r)) (\<lambda>(read_holding, holding_account).
     refuse (read_holding \<noteq> holding_id) ''invalid_user_collateral_holding'' (
     refuse (program_owner holding_account \<noteq> program_owner vault) ''token_program_mismatch'' (
     question (holding_balance E ''invalid_user_collateral_holding'' ''collateral_definition_mismatch''
       (collateral_definition_id parameters) holding_account) (\<lambda>source_balance.
     refuse (source_balance < amount) ''insufficient_collateral_balance'' (
     or_refuse ''collateral_amount_overflow'' (checked_add vault_balance amount) (\<lambda>_.
     stable_plan A program [owner, position_id, vault_id, holding_id, parameters_id]
       [True, False, False, True, False] (DepositCollateral amount)))))))))))))))))))"

record debt_plan_request =
  dbr_program :: string
  dbr_owner :: string
  dbr_nonce :: string
  dbr_amount :: json
  dbr_holding_id :: string
  dbr_position :: account_read
  dbr_definition :: account_read
  dbr_holding :: account_read
  dbr_accumulator :: account_read
  dbr_parameters :: account_read
  dbr_clock :: account_read

text \<open>\<^theory_text>\<open>std::panic::catch_unwind\<close> turns a panic into an error.\<close>

definition catch_unwind :: "'a outcome \<Rightarrow> 'a option" where
  "catch_unwind m = (case m of Inl _ \<Rightarrow> None | Inr x \<Rightarrow> Some x)"

definition repay_debt_plan ::
  "'x stable_api_env_scheme \<Rightarrow> (bytes, 'y) stable_env_scheme \<Rightarrow> debt_plan_request \<Rightarrow> json api" where
  "repay_debt_plan A E r =
    question (parse_stablecoin_program_id A E (dbr_program r)) (\<lambda>program.
    question (parse_account_id A (dbr_owner r)) (\<lambda>owner.
    question (parse_decimal_text (dbr_nonce r)) (\<lambda>n.
    question (parse_value (dbr_amount r)) (\<lambda>amount.
    question (parse_account_id A (dbr_holding_id r)) (\<lambda>holding_id.
    question (validated_protocol_parameters A E program (dbr_parameters r)) (\<lambda>(parameters_id, parameters).
    question (validated_position A E program owner n (dbr_position r)) (\<lambda>(position_id, pos).
    question (required_account A (dbr_definition r)) (\<lambda>(token_id, defn).
    refuse (token_id \<noteq> stablecoin_definition_id parameters) ''stablecoin_definition_mismatch'' (
    question (read_definition E ''invalid_stablecoin_definition'' defn) (\<lambda>_.
    question (required_account A (dbr_holding r)) (\<lambda>(read_holding, holding_account).
    refuse (read_holding \<noteq> holding_id) ''invalid_user_stablecoin_holding'' (
    refuse (program_owner holding_account \<noteq> program_owner defn) ''token_program_mismatch'' (
    question (holding_balance E ''invalid_user_stablecoin_holding'' ''stablecoin_definition_mismatch''
      token_id holding_account) (\<lambda>available.
    refuse (available < amount) ''insufficient_stablecoin_balance'' (
    question (validated_stability_fee_accumulator A E program (dbr_accumulator r)) (\<lambda>(accumulator_id, accumulator).
    question (clock_timestamp_read A E (dbr_clock r)) (\<lambda>now.
    or_refuse ''repayment_arithmetic_error'' (catch_unwind (
        attempt (compute_current_accumulated_rate (accumulated_rate_at_last_accrual accumulator)
          (stability_fee_per_millisecond parameters) (last_accrued_at accumulator) now) (\<lambda>current.
        mul_div amount FIXED_POINT_ONE current))) (\<lambda>debt_delta.
    refuse (normalized_debt_amount pos < debt_delta) ''repay_amount_exceeds_debt'' (
    stable_plan A program
      [owner, position_id, token_id, holding_id, compute_stablecoin_master_holding_pda E program,
       accumulator_id, parameters_id, clock_01_program_account_id E]
      [True, False, False, True, False, False, False, False] (RepayDebt amount))))))))))))))))))))"

record poke_plan_request =
  pkr_program :: string
  pkr_caller :: string
  pkr_parameters :: account_read
  pkr_clock :: account_read

record accrue_plan_request = poke_plan_request +
  acr_accumulator :: account_read

record update_plan_request = poke_plan_request +
  upr_redemption :: account_read
  upr_oracle :: account_read

record refresh_plan_request = poke_plan_request +
  rfr_accumulator :: account_read
  rfr_redemption :: account_read
  rfr_oracle :: account_read

definition accrue_stability_fee_plan ::
  "'x stable_api_env_scheme \<Rightarrow> (bytes, 'y) stable_env_scheme \<Rightarrow> accrue_plan_request \<Rightarrow> json api" where
  "accrue_stability_fee_plan A E r =
    question (parse_stablecoin_program_id A E (pkr_program r)) (\<lambda>program.
    question (parse_account_id A (pkr_caller r)) (\<lambda>caller.
    question (validated_protocol_parameters A E program (pkr_parameters r)) (\<lambda>(_, parameters).
    question (validated_stability_fee_accumulator A E program (acr_accumulator r)) (\<lambda>_.
    question (clock_timestamp_read A E (pkr_clock r)) (\<lambda>_.
    stable_plan A program
      [caller, compute_protocol_parameters_pda E program, compute_stability_fee_accumulator_pda E program,
       stablecoin_definition_id parameters, compute_stablecoin_master_holding_pda E program,
       clock_01_program_account_id E]
      [True, False, False, False, False, False] AccrueStabilityFee)))))"

text \<open>The plan reads the preview back from its JSON.\<close>

definition first_blocker :: "json \<Rightarrow> string option" where
  "first_blocker quote' = (case json_field ''errors'' quote' of
      Some (JArr (error # _)) \<Rightarrow> (case json_field ''code'' error of Some (JStr code) \<Rightarrow> Some code | _ \<Rightarrow> None)
    | _ \<Rightarrow> None)"

definition require_ready_quote :: "json \<Rightarrow> unit result" where
  "require_ready_quote quote' =
    (if json_field ''canSubmit'' quote' = Some (JBool True) then Inr ()
     else Inl (case first_blocker quote' of
         Some code \<Rightarrow> (if code \<in> set [''oracle_unavailable'', ''oracle_stale'', ''oracle_price_zero'',
                            ''rate_update_too_soon''] then code else ''backend_error'')
       | None \<Rightarrow> ''backend_error''))"

definition update_redemption_rate_plan ::
  "'x stable_api_env_scheme \<Rightarrow> (bytes, 'y) stable_env_scheme \<Rightarrow> update_plan_request \<Rightarrow> json api" where
  "update_redemption_rate_plan A E r =
    question (parse_stablecoin_program_id A E (pkr_program r)) (\<lambda>program.
    question (parse_account_id A (pkr_caller r)) (\<lambda>caller.
    question (validated_protocol_parameters A E program (pkr_parameters r)) (\<lambda>(_, parameters).
    question_api (redemption_rate_update_quote A E
      \<lparr> rqq_program = pkr_program r, rqq_parameters = pkr_parameters r, rqq_redemption = upr_redemption r,
        rqq_oracle = upr_oracle r, rqq_clock = pkr_clock r \<rparr>) (\<lambda>quote'.
    question (require_ready_quote quote') (\<lambda>_.
    stable_plan A program
      [caller, compute_protocol_parameters_pda E program, compute_redemption_price_state_pda E program,
       market_price_oracle_id parameters, clock_01_program_account_id E]
      [True, False, False, False, False] UpdateRedemptionRate)))))"

definition refresh_globals_plan ::
  "'x stable_api_env_scheme \<Rightarrow> (bytes, 'y) stable_env_scheme \<Rightarrow> refresh_plan_request \<Rightarrow> json api" where
  "refresh_globals_plan A E r =
    question (parse_stablecoin_program_id A E (pkr_program r)) (\<lambda>program.
    question (parse_account_id A (pkr_caller r)) (\<lambda>caller.
    question (validated_protocol_parameters A E program (pkr_parameters r)) (\<lambda>(_, parameters).
    question (validated_stability_fee_accumulator A E program (rfr_accumulator r)) (\<lambda>_.
    question (validated_redemption_price_state A E program (rfr_redemption r)) (\<lambda>_.
    question (usable_market_price_oracle A E (rfr_oracle r) parameters) (\<lambda>_.
    question (clock_timestamp_read A E (pkr_clock r)) (\<lambda>_.
    stable_plan A program
      [caller, compute_protocol_parameters_pda E program, compute_stability_fee_accumulator_pda E program,
       stablecoin_definition_id parameters, compute_stablecoin_master_holding_pda E program,
       compute_redemption_price_state_pda E program, market_price_oracle_id parameters,
       clock_01_program_account_id E]
      [True, False, False, False, False, False, False, False] RefreshGlobals)))))))"

section \<open>debt.rs\<close>

record generate_plan_request = debt_plan_request +
  gnr_redemption :: account_read

definition mintable_supply ::
  "(bytes, 'y) token_env_scheme \<Rightarrow> account_id \<Rightarrow> bytes account \<Rightarrow> u128 result" where
  "mintable_supply E token_id defn = (case decode (definition_codec E) (data defn) of
      Some (DefFungible _ in_circulation _ minter) \<Rightarrow>
        if minter \<noteq> Some token_id then Inl ''invalid_stablecoin_mint_authority'' else Inr in_circulation
    | _ \<Rightarrow> Inl ''invalid_stablecoin_definition'')"

definition generate_debt_plan ::
  "'x stable_api_env_scheme \<Rightarrow> (bytes, 'y) stable_env_scheme \<Rightarrow> generate_plan_request \<Rightarrow> json api" where
  "generate_debt_plan A E r =
    question (parse_stablecoin_program_id A E (dbr_program r)) (\<lambda>program.
    question (parse_account_id A (dbr_owner r)) (\<lambda>owner.
    question (parse_decimal_text (dbr_nonce r)) (\<lambda>n.
    question (parse_value (dbr_amount r)) (\<lambda>amount.
    question (parse_account_id A (dbr_holding_id r)) (\<lambda>destination_id.
    question (validated_position A E program owner n (dbr_position r)) (\<lambda>(position_id, pos).
    question (validated_protocol_parameters A E program (dbr_parameters r)) (\<lambda>(parameters_id, parameters).
    refuse (is_frozen parameters) ''protocol_frozen'' (
    question (validated_stability_fee_accumulator A E program (dbr_accumulator r)) (\<lambda>(accumulator_id, accumulator).
    question (validated_redemption_price_state A E program (gnr_redemption r)) (\<lambda>(redemption_id, redemption).
    question (clock_timestamp_read A E (dbr_clock r)) (\<lambda>now.
    question (required_account A (dbr_definition r)) (\<lambda>(token_id, defn).
    refuse (token_id \<noteq> stablecoin_definition_id parameters \<or>
        token_id \<noteq> compute_stablecoin_definition_pda E program) ''stablecoin_definition_mismatch'' (
    question (mintable_supply E token_id defn) (\<lambda>in_circulation.
    refuse (destination_id = owner \<or> destination_id = token_id) ''invalid_user_stablecoin_holding'' (
    question (required_account A (dbr_holding r)) (\<lambda>(read_destination, destination).
    refuse (read_destination \<noteq> destination_id) ''invalid_user_stablecoin_holding'' (
    refuse (program_owner destination \<noteq> program_owner defn) ''token_program_mismatch'' (
    question (holding_balance E ''invalid_user_stablecoin_holding'' ''stablecoin_definition_mismatch''
      token_id destination) (\<lambda>held.
    or_refuse ''stablecoin_supply_overflow'' (checked_add in_circulation amount) (\<lambda>_.
    or_refuse ''stablecoin_balance_overflow'' (checked_add held amount) (\<lambda>_.
    or_refuse ''debt_pricing_arithmetic_error'' (checked_accumulator (accumulated_rate_at_last_accrual accumulator)
      (stability_fee_per_millisecond parameters) (last_accrued_at accumulator) now) (\<lambda>current.
    or_refuse ''debt_pricing_arithmetic_error'' (checked_debt_delta amount current) (\<lambda>debt_delta.
    or_refuse ''normalized_debt_overflow'' (checked_add (normalized_debt_amount pos) debt_delta) (\<lambda>new_debt.
    (let price = compute_current_redemption_price_wide (redemption_price_at_last_update redemption)
           (redemption_rate_per_millisecond redemption) (last_updated_at redemption) now in
     refuse (price = 0) ''redemption_price_zero'' (
     refuse (\<not> is_collateralized (collateralization_values (collateral_amount pos) new_debt (widen512 current) price
         (minimum_collateralization_ratio parameters))) ''position_undercollateralized'' (
     stable_plan A program
       [owner, position_id, token_id, destination_id, compute_stablecoin_master_holding_pda E program,
        accumulator_id, redemption_id, parameters_id, clock_01_program_account_id E]
       [True, False, False, False, False, False, False, False, False] (GenerateDebt amount))))))))))))))))))))))))))))"

section \<open>withdraw.rs\<close>

record withdraw_plan_request = deposit_plan_request +
  wdr_accumulator :: account_read
  wdr_redemption :: account_read
  wdr_clock :: account_read

definition withdraw_collateral_plan ::
  "'x stable_api_env_scheme \<Rightarrow> (bytes, 'y) stable_env_scheme \<Rightarrow> withdraw_plan_request \<Rightarrow> json api" where
  "withdraw_collateral_plan A E r =
    question (parse_stablecoin_program_id A E (dcr_program r)) (\<lambda>program.
    question (parse_account_id A (dcr_owner r)) (\<lambda>owner.
    question (parse_decimal_text (dcr_nonce r)) (\<lambda>n.
    question (parse_value (dcr_amount r)) (\<lambda>amount.
    question (parse_account_id A (dcr_holding_id r)) (\<lambda>destination_id.
    question (validated_protocol_parameters A E program (dcr_parameters r)) (\<lambda>(parameters_id, parameters).
    refuse (is_frozen parameters) ''protocol_frozen'' (
    question (validated_stability_fee_accumulator A E program (wdr_accumulator r)) (\<lambda>(accumulator_id, accumulator).
    question (validated_redemption_price_state A E program (wdr_redemption r)) (\<lambda>(redemption_id, redemption).
    question (clock_timestamp_read A E (wdr_clock r)) (\<lambda>now.
    question (validated_position A E program owner n (dcr_position r)) (\<lambda>(position_id, pos).
    (let expected_vault = compute_position_vault_pda E program position_id in
     refuse (vault_account_id pos \<noteq> expected_vault) ''position_vault_mismatch'' (
     question (required_account A (dcr_vault r)) (\<lambda>(vault_id, vault).
     refuse (vault_id \<noteq> expected_vault) ''vault_pda_mismatch'' (
     refuse (destination_id = vault_id \<or> destination_id = owner) ''invalid_user_collateral_holding'' (
     question (holding_balance E ''invalid_position_vault'' ''collateral_definition_mismatch''
       (collateral_definition_id parameters) vault) (\<lambda>vault_balance.
     question (required_account A (dcr_holding r)) (\<lambda>(read_destination, destination).
     refuse (read_destination \<noteq> destination_id) ''invalid_user_collateral_holding'' (
     refuse (program_owner destination \<noteq> program_owner vault) ''token_program_mismatch'' (
     question (holding_balance E ''invalid_user_collateral_holding'' ''collateral_definition_mismatch''
       (collateral_definition_id parameters) destination) (\<lambda>destination_balance.
     or_refuse ''withdraw_amount_exceeds_collateral'' (checked_sub (collateral_amount pos) amount) (\<lambda>remaining.
     refuse (vault_balance < amount) ''insufficient_vault_balance'' (
     or_refuse ''collateral_amount_overflow'' (checked_add destination_balance amount) (\<lambda>_.
     question_api
       (if amount \<noteq> 0 \<and> normalized_debt_amount pos \<noteq> 0 then
          (let price = compute_current_redemption_price_wide (redemption_price_at_last_update redemption)
                 (redemption_rate_per_millisecond redemption) (last_updated_at redemption) now in
           refuse (price = 0) ''redemption_price_zero'' (
           (let current = compute_current_accumulated_rate_wide (accumulated_rate_at_last_accrual accumulator)
                  (stability_fee_per_millisecond parameters) (last_accrued_at accumulator) now in
            refuse (\<not> is_collateralized (collateralization_values remaining (normalized_debt_amount pos) current price
                (minimum_collateralization_ratio parameters))) ''position_undercollateralized'' (reply ()))))
        else reply ()) (\<lambda>_.
     stable_plan A program
       [owner, position_id, vault_id, destination_id, accumulator_id, redemption_id, parameters_id,
        clock_01_program_account_id E]
       [True, False, False, False, False, False, False, False] (WithdrawCollateral amount))))))))))))))))))))))))))"

section \<open>close.rs\<close>

record close_plan_request = position_request +
  clr_position :: account_read
  clr_vault :: account_read
  clr_parameters :: account_read

definition close_position_plan ::
  "'x stable_api_env_scheme \<Rightarrow> (bytes, 'y) stable_env_scheme \<Rightarrow> close_plan_request \<Rightarrow> json api" where
  "close_position_plan A E r =
    question (parse_stablecoin_program_id A E (por_program r)) (\<lambda>program.
    question (parse_account_id A (por_owner r)) (\<lambda>owner.
    question (parse_decimal_text (por_nonce r)) (\<lambda>n.
    question (validated_position A E program owner n (clr_position r)) (\<lambda>(position_id, pos).
    question (validated_protocol_parameters A E program (clr_parameters r)) (\<lambda>(parameters_id, _).
    refuse (normalized_debt_amount pos \<noteq> 0) ''position_has_debt'' (
    refuse (collateral_amount pos \<noteq> 0) ''position_has_collateral'' (
    (let expected_vault = compute_position_vault_pda E program position_id in
     refuse (vault_account_id pos \<noteq> expected_vault) ''position_vault_mismatch'' (
     question (required_account A (clr_vault r)) (\<lambda>(vault_id, vault).
     refuse (vault_id \<noteq> expected_vault) ''vault_pda_mismatch'' (
     question (case decode (holding_codec E) (data vault) of
         Some (Fungible _ b) \<Rightarrow> Inr b | _ \<Rightarrow> Inl ''invalid_position_vault'') (\<lambda>left.
     refuse (left \<noteq> 0) ''vault_not_empty'' (
     stable_plan A program [owner, position_id, vault_id, parameters_id] [True, False, False, False]
       ClosePosition)))))))))))))"

section \<open>freeze.rs\<close>

record freeze_plan_request =
  fzr_program :: string
  fzr_authority :: string
  fzr_parameters :: account_read

definition freeze_authority_plan ::
  "'x stable_api_env_scheme \<Rightarrow> (bytes, 'y) stable_env_scheme \<Rightarrow> freeze_plan_request \<Rightarrow> stable_instruction \<Rightarrow> json api" where
  "freeze_authority_plan A E r i =
    question (parse_stablecoin_program_id A E (fzr_program r)) (\<lambda>program.
    question (parse_account_id A (fzr_authority r)) (\<lambda>authority.
    question (validated_protocol_parameters A E program (fzr_parameters r)) (\<lambda>(parameters_id, parameters).
    refuse (authority \<noteq> freeze_authority_account_id parameters) ''freeze_authority_mismatch'' (
    stable_plan A program [authority, parameters_id] [True, False] i))))"

definition freeze_plan ::
  "'x stable_api_env_scheme \<Rightarrow> (bytes, 'y) stable_env_scheme \<Rightarrow> freeze_plan_request \<Rightarrow> json api" where
  "freeze_plan A E r = freeze_authority_plan A E r Freeze"

definition unfreeze_plan ::
  "'x stable_api_env_scheme \<Rightarrow> (bytes, 'y) stable_env_scheme \<Rightarrow> freeze_plan_request \<Rightarrow> json api" where
  "unfreeze_plan A E r = freeze_authority_plan A E r Unfreeze"

section \<open>admin.rs\<close>

record admin_context =
  adm_program :: string
  adm_admin :: string
  adm_parameters :: account_read

record validated_admin =
  va_program :: account_id
  va_admin :: account_id
  va_parameters_id :: account_id
  va_parameters :: protocol_parameters

definition admin_read ::
  "'x stable_api_env_scheme \<Rightarrow> (bytes, 'y) stable_env_scheme \<Rightarrow> 'r admin_context_scheme \<Rightarrow> validated_admin result" where
  "admin_read A E r =
    (case parse_stablecoin_program_id A E (adm_program r) of Inl e \<Rightarrow> Inl e | Inr program \<Rightarrow>
     case parse_account_id A (adm_admin r) of Inl e \<Rightarrow> Inl e | Inr admin \<Rightarrow>
     case validated_protocol_parameters A E program (adm_parameters r) of Inl e \<Rightarrow> Inl e
     | Inr (parameters_id, parameters) \<Rightarrow>
         if admin \<noteq> admin_account_id parameters then Inl ''admin_mismatch''
         else Inr \<lparr> va_program = program, va_admin = admin, va_parameters_id = parameters_id,
           va_parameters = parameters \<rparr>)"

definition admin_plan ::
  "'x stable_api_env_scheme \<Rightarrow> validated_admin \<Rightarrow> stable_instruction \<Rightarrow> json api" where
  "admin_plan A c i = stable_plan A (va_program c) [va_admin c, va_parameters_id c] [True, False] i"

record set_fee_request = admin_context +
  sfr_rate :: json
  sfr_accumulator :: account_read
  sfr_clock :: account_read

definition set_stability_fee_per_millisecond_plan ::
  "'x stable_api_env_scheme \<Rightarrow> (bytes, 'y) stable_env_scheme \<Rightarrow> set_fee_request \<Rightarrow> json api" where
  "set_stability_fee_per_millisecond_plan A E r =
    question (admin_read A E r) (\<lambda>c.
    question (parse_value (sfr_rate r)) (\<lambda>rate.
    refuse (\<not> (FIXED_POINT_ONE \<le> rate \<and> rate \<le> MAXIMUM_STABILITY_FEE_PER_MILLISECOND))
      ''stability_fee_out_of_band'' (
    question (validated_stability_fee_accumulator A E (va_program c) (sfr_accumulator r))
      (\<lambda>(accumulator_id, accumulator).
    question (clock_timestamp_read A E (sfr_clock r)) (\<lambda>now.
    or_refuse ''stability_fee_arithmetic_error''
      (checked_accumulator (accumulated_rate_at_last_accrual accumulator)
        (stability_fee_per_millisecond (va_parameters c)) (last_accrued_at accumulator) now) (\<lambda>_.
    stable_plan A (va_program c)
      [va_admin c, va_parameters_id c, accumulator_id, stablecoin_definition_id (va_parameters c),
       compute_stablecoin_master_holding_pda E (va_program c), clock_01_program_account_id E]
      [True, False, False, False, False, False] (SetStabilityFeePerMillisecond rate)))))))"

record set_ratio_request = admin_context +
  srr_ratio :: json

definition set_minimum_collateralization_ratio_plan ::
  "'x stable_api_env_scheme \<Rightarrow> (bytes, 'y) stable_env_scheme \<Rightarrow> set_ratio_request \<Rightarrow> json api" where
  "set_minimum_collateralization_ratio_plan A E r =
    question (admin_read A E r) (\<lambda>c.
    question (parse_value (srr_ratio r)) (\<lambda>ratio.
    refuse (\<not> (FIXED_POINT_ONE * 110 div 100 \<le> ratio \<and> ratio \<le> FIXED_POINT_ONE * 10))
      ''collateralization_ratio_out_of_band'' (
    admin_plan A c (SetMinimumCollateralizationRatio ratio))))"

record set_gains_request = admin_context +
  sgr_proportional :: json
  sgr_integral :: json

definition set_controller_gains_plan ::
  "'x stable_api_env_scheme \<Rightarrow> (bytes, 'y) stable_env_scheme \<Rightarrow> set_gains_request \<Rightarrow> json api" where
  "set_controller_gains_plan A E r =
    question (admin_read A E r) (\<lambda>c.
    question (parse_i128 (sgr_proportional r)) (\<lambda>kp.
    question (parse_i128 (sgr_integral r)) (\<lambda>ki.
    refuse (\<not> (0 \<le> sint kp \<and> sint kp \<le> sint MAXIMUM_CONTROLLER_PROPORTIONAL_GAIN) \<or>
        \<not> (0 \<le> sint ki \<and> sint ki \<le> sint MAXIMUM_CONTROLLER_INTEGRAL_GAIN)) ''controller_gains_out_of_band'' (
    admin_plan A c (SetControllerGains kp ki)))))"

record set_timing_request = admin_context +
  str_minimum :: json
  str_maximum :: json

definition set_timing_parameters_plan ::
  "'x stable_api_env_scheme \<Rightarrow> (bytes, 'y) stable_env_scheme \<Rightarrow> set_timing_request \<Rightarrow> json api" where
  "set_timing_parameters_plan A E r =
    question (admin_read A E r) (\<lambda>c.
    question (parse_value (str_minimum r)) (\<lambda>interval.
    question (parse_value (str_maximum r)) (\<lambda>age.
    refuse (\<not> (1 \<le> interval \<and> interval \<le> 86400000) \<or> \<not> (1 \<le> age \<and> age \<le> 86400000))
      ''timing_parameters_out_of_band'' (
    admin_plan A c (SetTimingParameters interval age)))))"

record set_role_request = admin_context +
  sor_new :: string

definition set_admin_plan ::
  "'x stable_api_env_scheme \<Rightarrow> (bytes, 'y) stable_env_scheme \<Rightarrow> set_role_request \<Rightarrow> json api" where
  "set_admin_plan A E r =
    question (admin_read A E r) (\<lambda>c.
    question (parse_account_id_value A (sor_new r)) (\<lambda>new_admin.
    admin_plan A c (SetAdmin new_admin)))"

definition set_freeze_authority_plan ::
  "'x stable_api_env_scheme \<Rightarrow> (bytes, 'y) stable_env_scheme \<Rightarrow> set_role_request \<Rightarrow> json api" where
  "set_freeze_authority_plan A E r =
    question (admin_read A E r) (\<lambda>c.
    question (parse_account_id_value A (sor_new r)) (\<lambda>new_authority.
    admin_plan A c (SetFreezeAuthority new_authority)))"

record set_oracle_request = set_role_request +
  sqr_oracle :: account_read

definition set_market_price_oracle_plan ::
  "'x stable_api_env_scheme \<Rightarrow> (bytes, 'y) stable_env_scheme \<Rightarrow> set_oracle_request \<Rightarrow> json api" where
  "set_market_price_oracle_plan A E r =
    question (admin_read A E r) (\<lambda>c.
    question (parse_account_id A (sor_new r)) (\<lambda>new_oracle_id.
    question (required_account A (sqr_oracle r)) (\<lambda>(read_id', a).
    refuse (read_id' \<noteq> new_oracle_id) ''market_price_oracle_mismatch'' (
    question (if a = account_default E then Inr ()
              else (case decode (oracle_price_codec E) (data a) of
                  None \<Rightarrow> Inl ''invalid_market_price_oracle''
                | Some x \<Rightarrow>
                    if oracle_base_asset x \<noteq> stablecoin_definition_id (va_parameters c) \<or>
                       oracle_quote_asset x \<noteq> collateral_definition_id (va_parameters c)
                    then Inl ''oracle_asset_mismatch'' else Inr ())) (\<lambda>_.
    refuse (new_oracle_id = va_admin c) ''invalid_market_price_oracle'' (
    stable_plan A (va_program c) [va_admin c, va_parameters_id c, new_oracle_id] [True, False, False]
      SetMarketPriceOracle))))))"

end
