(* ===== verification/Stable_Api_Runs.thy ===== *)
theory Stable_Api_Runs
  imports Stable_Plan_Api Stable_Safety
begin

text \<open>
  From the stablecoin's client to the chain: the client's fallible pricing is the guest's, what the
  validated reads and the plans establish, and the forward runs of the handlers they foresee.
\<close>

section \<open>Pricing\<close>

lemma catch_unwind_simps [simp]:
  "catch_unwind (Inr x) = Some x" "catch_unwind (Inl e) = None"
  "catch_unwind (attempt m k) = (case catch_unwind m of None \<Rightarrow> None | Some x \<Rightarrow> catch_unwind (k x))"
  "catch_unwind (expect msg z f) = (case z of None \<Rightarrow> None | Some x \<Rightarrow> catch_unwind (f x))"
  "catch_unwind (ensure c msg m) = (if c then catch_unwind m else None)"
  by (simp_all add: catch_unwind_def attempt_def expect_def ensure_def split: sum.splits option.splits)

lemma catch_unwind_Some: "catch_unwind m = Some x \<longleftrightarrow> m = Inr x"
  by (simp add: catch_unwind_def split: sum.splits)

lemma checked_mul_div_guest: "checked_mul_div a b c = catch_unwind (mul_div a b c)"
proof -
  obtain q where q: "checked_mul (widen256 a) (widen256 b) = Some q" "unat q = unat a * unat b"
    using checked_mul_widen by blast
  then have "q = widen256 a * widen256 b"
    by (simp add: checked_mul_def split: if_splits)
  then show ?thesis
    using q(1) by (auto simp: checked_mul_div_def mul_div_def checked_div_def split: option.splits)
qed

lemma checked_loop_guest: "checked_loop f b e = catch_unwind (compound_loop f b e)"
proof (induction f b e rule: checked_loop.induct)
  case (1 f b e)
  show ?case
  proof (cases "e = 0")
    case False
    then show ?thesis
      using "1.IH" by (subst checked_loop.simps, subst compound_loop.simps)
        (auto simp: checked_mul_div_guest split: option.splits if_splits)
  qed (simp add: checked_loop.simps)
qed

lemma checked_accumulator_guest:
  "checked_accumulator x rate since now = catch_unwind (compute_current_accumulated_rate x rate since now)"
  by (auto simp: checked_accumulator_def compute_current_accumulated_rate_def compound_rate_def checked_loop_guest
      checked_mul_div_guest split: option.splits)

lemma checked_debt_delta_guest:
  "checked_debt_delta n rate = catch_unwind (fixed_mul_div_ceil n FIXED_POINT_ONE rate)"
proof (cases "rate = 0")
  case False
  obtain q where q: "checked_mul (widen256 n) (widen256 FIXED_POINT_ONE) = Some q" "q = widen256 n * widen256 FIXED_POINT_ONE"
    using checked_mul_widen [of n FIXED_POINT_ONE] by (auto simp: checked_mul_def split: if_splits)
  then show ?thesis
    using False by (auto simp: checked_debt_delta_def fixed_mul_div_ceil_eq div_ceil_def checked_div_def Let_def
        split: option.splits)
qed (simp add: checked_debt_delta_def fixed_mul_div_ceil_def checked_div_def Let_def)

section \<open>Validated reads\<close>

text \<open>The wallet's read is of this account, as it is on the chain.\<close>

definition reads_account :: "'x api_env_scheme \<Rightarrow> account_read \<Rightarrow> bytes account_with_metadata \<Rightarrow> bool" where
  "reads_account A r a \<longleftrightarrow> decode_account A r = Inr (account_id a, account a)"

lemma coded_Inr [success]: "coded code r = Inr x \<longleftrightarrow> r = Inr x"
  by (simp add: coded_def split: sum.splits)

lemma parse_stablecoin_program_Inr [success]:
  "parse_stablecoin_program_id A E s = Inr p \<longleftrightarrow> parse_program_id A s = Inr p \<and> p \<noteq> default_program_owner E"
  by (auto simp: parse_stablecoin_program_id_def coded_def split: sum.splits)

lemma required_account_Inr [success]: "required_account A r = Inr x \<longleftrightarrow> decode_account A r = Inr x"
  by (simp add: required_account_def coded_Inr)

lemma validated_global_Inr [success]:
  "validated_global A expected C pc dc p r = Inr (i, x) \<longleftrightarrow>
    (\<exists>a. decode_account A r = Inr (i, a) \<and> i = expected \<and> program_owner a = p \<and> decode C (data a) = Some x)"
  by (auto simp: validated_global_def required_account_def coded_def split: sum.splits option.splits)

lemma validated_position_Inr [success]:
  "validated_position A E p owner n r = Inr (i, pos) \<longleftrightarrow>
    (\<exists>a. decode_account A r = Inr (i, a) \<and> i = compute_position_pda E p owner n \<and> program_owner a = p \<and>
      decode (position_codec E) (data a) = Some pos \<and> owner_account_id pos = owner \<and> position_nonce pos = n)"
  by (auto simp: validated_position_def required_account_def coded_def split: sum.splits option.splits)

lemma clock_timestamp_read_Inr [success]:
  "clock_timestamp_read A E r = Inr t \<longleftrightarrow>
    (\<exists>i a. decode_account A r = Inr (i, a) \<and> i = clock_01_program_account_id E \<and> clock_from_slice A (data a) = Some t)"
  by (auto simp: clock_timestamp_read_def required_account_def coded_def split: sum.splits option.splits)

lemma holding_balance_Inr [success]:
  "holding_balance E c1 c2 token a = Inr b \<longleftrightarrow> decode (holding_codec E) (data a) = Some (Fungible token b)"
  by (auto simp: holding_balance_def split: option.splits token_holding.splits)

lemma mintable_supply_Inr [success]:
  "mintable_supply E token a = Inr n \<longleftrightarrow>
    (\<exists>s m. decode (definition_codec E) (data a) = Some (DefFungible s n m (Some token)))"
  by (auto simp: mintable_supply_def split: option.splits token_definition.splits)

lemma usable_market_price_oracle_Inr [success]:
  "usable_market_price_oracle A E r q = Inr m \<longleftrightarrow>
    (\<exists>i a. decode_account A r = Inr (i, a) \<and> i = market_price_oracle_id q \<and>
      m = (if a = account_default E then None
           else case decode (oracle_price_codec E) (data a) of None \<Rightarrow> None
             | Some x \<Rightarrow> if oracle_base_asset x = stablecoin_definition_id q \<and>
                 oracle_quote_asset x = collateral_definition_id q then Some x else None))"
  by (auto simp: usable_market_price_oracle_def required_account_def coded_def split: sum.splits)

text \<open>The client's readings are the guest's.\<close>

lemma read_usable_oracle:
  assumes "usable_market_price_oracle A E r q = Inr m" "reads_account A r a"
  shows "read_oracle E a q = Inr m" "account_id a = market_price_oracle_id q"
  using assms by (auto simp: success reads_account_def read_oracle_def)

context stable_api_text
begin

lemma read_clock:
  assumes "clock_timestamp_read A E r = Inr t" "reads_account A r a"
  shows "stable_read_clock E a = Inr t"
  using assms clock_read clock_blank by (auto simp: success reads_account_def)

lemma plan_presented:
  assumes "stable_plan A p ids signing j = reply s" "presents A s accounts bs" "stable_from_slice A bs = Some i"
  shows "i = j" "map account_id accounts = ids" "list_all2 (\<lambda>needed a. needed \<longrightarrow> is_authorized a) signing accounts"
  using assms stable_round by (auto simp: stable_plan_def question_success coded_Inr presents_response)

end

section \<open>Inversion of the plans\<close>

lemma generate_debt_plan_run:
  assumes "generate_debt_plan A E r = reply s"
  obtains p owner n x destination pos_id pos q_id q y_id y red_id red now token defn total d held cur \<delta> nd where
    "parse_stablecoin_program_id A E (dbr_program r) = Inr p" "parse_account_id A (dbr_owner r) = Inr owner"
    "parse_decimal_text (dbr_nonce r) = Inr n" "parse_value (dbr_amount r) = Inr x"
    "parse_account_id A (dbr_holding_id r) = Inr destination"
    "validated_position A E p owner n (dbr_position r) = Inr (pos_id, pos)"
    "validated_protocol_parameters A E p (dbr_parameters r) = Inr (q_id, q)" "\<not> is_frozen q"
    "validated_stability_fee_accumulator A E p (dbr_accumulator r) = Inr (y_id, y)"
    "validated_redemption_price_state A E p (gnr_redemption r) = Inr (red_id, red)"
    "clock_timestamp_read A E (dbr_clock r) = Inr now"
    "decode_account A (dbr_definition r) = Inr (token, defn)" "token = stablecoin_definition_id q"
    "token = compute_stablecoin_definition_pda E p" "mintable_supply E token defn = Inr total"
    "decode_account A (dbr_holding r) = Inr (destination, d)" "program_owner d = program_owner defn"
    "holding_balance E ''invalid_user_stablecoin_holding'' ''stablecoin_definition_mismatch'' token d = Inr held"
    "checked_accumulator (accumulated_rate_at_last_accrual y) (stability_fee_per_millisecond q) (last_accrued_at y) now =
      Some cur"
    "checked_debt_delta x cur = Some \<delta>" "checked_add (normalized_debt_amount pos) \<delta> = Some nd"
    "compute_current_redemption_price_wide (redemption_price_at_last_update red)
      (redemption_rate_per_millisecond red) (last_updated_at red) now \<noteq> 0"
    "is_collateralized (collateralization_values (collateral_amount pos) nd (widen512 cur)
      (compute_current_redemption_price_wide (redemption_price_at_last_update red)
        (redemption_rate_per_millisecond red) (last_updated_at red) now) (minimum_collateralization_ratio q))"
    "stable_plan A p [owner, pos_id, token, destination, compute_stablecoin_master_holding_pda E p, y_id, red_id, q_id,
        clock_01_program_account_id E] [True, False, False, False, False, False, False, False, False]
        (GenerateDebt x) = reply s"
  using assms unfolding generate_debt_plan_def Let_def
  by (simp only: api_inversion split_paired_Ex prod.case required_account_Inr not_not de_Morgan_disj)
    (elim exE conjE, rule that; (assumption | erule sym | simp))

text \<open>The preview of a rate update has read the accounts, and its answer depends on what stands in the way.\<close>

lemma rate_update_blockers_Nil:
  "rate_update_blockers q r m now = [] \<longleftrightarrow>
    (\<exists>x. m = Some x \<and> saturating_sub now (oracle_timestamp x) \<le> maximum_oracle_price_age_milliseconds q \<and>
      oracle_price x \<noteq> 0) \<and>
    minimum_milliseconds_between_rate_updates q \<le> saturating_sub now (last_updated_at r)"
  by (auto simp: rate_update_blockers_def Let_def not_less split: option.splits)

lemma redemption_rate_update_quote_run:
  assumes "redemption_rate_update_quote A E r = reply v"
  obtains p q_id q red_id red m now price where
    "parse_stablecoin_program_id A E (rqq_program r) = Inr p"
    "validated_protocol_parameters A E p (rqq_parameters r) = Inr (q_id, q)"
    "validated_redemption_price_state A E p (rqq_redemption r) = Inr (red_id, red)"
    "usable_market_price_oracle A E (rqq_oracle r) q = Inr m" "clock_timestamp_read A E (rqq_clock r) = Inr now"
    "bound_redemption_price (compute_current_redemption_price_wide (redemption_price_at_last_update red)
      (redemption_rate_per_millisecond red) (last_updated_at red) now) = Inr price"
    "json_field ''canSubmit'' v = Some (JBool (rate_update_blockers q red m now = []))"
    "rate_update_blockers q red m now = [] \<longrightarrow> (\<exists>x out. m = Some x \<and>
      run_controller_tick price (oracle_price_to_fixed_point (oracle_price x)) (controller_integral_term red)
        (controller_proportional_gain q) (controller_integral_gain q) (saturating_sub now (last_updated_at red)) =
        Inr out \<and>
      json_field ''currentRedemptionPrice'' v = Some (JStr (decimal (unat price))) \<and>
      json_field ''nextRedemptionRatePerMillisecond'' v =
        Some (JStr (decimal (unat (out_redemption_rate_per_millisecond out)))) \<and>
      json_field ''nextControllerIntegralTerm'' v =
        Some (JStr (signed_decimal (sint (out_controller_integral_term out)))))"
  using assms unfolding redemption_rate_update_quote_def Let_def
  by (simp only: api_inversion split_paired_Ex prod.case attempt_success sum.inject)
    (elim exE conjE, rule that,
     (assumption | (drule sym, simp; fail) | (drule sym, auto simp: rate_update_blockers_Nil attempt_success; fail))+)

text \<open>The client of a deployment: its program is \<^theory_text>\<open>p\<close>.\<close>

locale stable_client = stable_api_text A E + stable_runtime E p
  for A :: "'x stable_api_env_scheme" and E :: "(bytes, 'y) stable_env_scheme" and p :: account_id
begin

lemma read_global:
  assumes "validated_global A expected C pc dc p r = Inr (i, x)" "reads_account A r a"
  shows "holds_global E C expected p a x" "account_id a = i" "i = expected"
  using assms default_unowned program_owned by (auto simp: success reads_account_def holds_global_def default_owned_def)

lemma read_position:
  assumes "validated_position A E p owner n r = Inr (i, pos)" "reads_account A r a" "account_id w = owner"
  shows "read_owned_position E w a p = Inr pos" "account_id a = i" "i = compute_position_pda E p owner n"
  using assms default_unowned program_owned by (auto simp: success reads_account_def default_owned_def)

text \<open>
  Borrowing is possible: the master holding exists under the Token program, the globals are within
  their bands, with room for the fees and for the new debt in the total.
\<close>

end

definition borrowing_room ::
  "('d, 'x) lee_env_scheme \<Rightarrow> 'd account_with_metadata list \<Rightarrow> protocol_parameters \<Rightarrow> stability_fee_accumulator \<Rightarrow>
    u128 \<Rightarrow> bool" where
  "borrowing_room E accounts q y x \<longleftrightarrow>
    account (accounts ! 4) \<noteq> account_default E \<and>
    program_owner (account (accounts ! 4)) = program_owner (account (accounts ! 2)) \<and>
    params_ok q \<and> accumulator_ok y \<and>
    1014 * unat (accumulated_rate_at_last_accrual y) < 1000 * 2 ^ 128 \<and>
    14 * unat (total_normalized_debt y) * unat (accumulated_rate_at_last_accrual y) < 1000 * (2 ^ 128 * scale) \<and>
    unat (total_normalized_debt y) + unat x < 2 ^ 128"

lemma added_debt_succeeds:
  assumes "fixed_mul_div_ceil x FIXED_POINT_ONE (accumulated_rate_at_last_accrual y) = Inr \<delta>"
    and "scale \<le> unat (accumulated_rate_at_last_accrual y)"
    and "checked_add (normalized_debt_amount pos) \<delta> = Some nd" "unat (total_normalized_debt y) + unat x < 2 ^ 128"
  shows "\<exists>y'. added_debt pos y x = Inr (pos \<lparr> normalized_debt_amount := nd \<rparr>, y')"
proof -
  have "unat \<delta> = cdiv (unat x * scale) (unat (accumulated_rate_at_last_accrual y))"
    using assms(1) by (simp add: fixed_mul_div_ceil_Inr)
  moreover have "cdiv (unat x * scale) (unat (accumulated_rate_at_last_accrual y)) \<le> unat x"
    using assms(2) by (subst cdiv_le_iff) (simp_all add: mult.commute)
  ultimately have "unat (total_normalized_debt y) + unat \<delta> < 2 ^ 128"
    using assms(4) by linarith
  then have "checked_add (total_normalized_debt y) \<delta> = Some (total_normalized_debt y + \<delta>)"
    by (simp add: checked_add_def)
  then show ?thesis
    using assms(1,3) by (simp add: added_debt_def)
qed

lemma accrual_succeeds:
  assumes "compute_current_accumulated_rate (accumulated_rate_at_last_accrual y) (stability_fee_per_millisecond q)
      (last_accrued_at y) now = Inr cur"
    and "params_ok q" "1014 * unat (accumulated_rate_at_last_accrual y) < 1000 * 2 ^ 128"
    and "14 * unat (total_normalized_debt y) * unat (accumulated_rate_at_last_accrual y) < 1000 * (2 ^ 128 * scale)"
  shows "\<exists>f. accrue_fees q y now = Inr f \<and> accumulated_rate_at_last_accrual (accrual_accumulator f) = cur \<and>
    total_normalized_debt (accrual_accumulator f) = total_normalized_debt y \<and> accumulated_rate_at_last_accrual y \<le> cur"
proof -
  obtain f where f: "accrue_fees q y now = Inr f"
    using accrue_fees_total [OF assms(2-4)] by blast
  have "accumulated_rate_at_last_accrual (accrual_accumulator f) = cur"
    using accrue_fees_run(1) [OF f] compute_current_accumulated_rate_Inr [OF assms(1)] by (simp add: word_unat_eq_iff)
  then show ?thesis
    using f accrue_fees_run(2,4) [OF f] by auto
qed

text \<open>The guest accepts what a client may plan.\<close>

lemma generate_debt_succeeds:
  assumes "is_authorized owner" "read_owned_position E owner pa p = Inr pos"
    and "decode_parameters E ppa p = Inr q" "\<not> is_frozen q"
    and "decode_accumulator E aa p = Inr y" "decode_redemption E ra p = Inr red" "stable_read_clock E clk = Inr now"
    and "account_id sd = stablecoin_definition_id q" "account sd \<noteq> account_default E"
    and "account uh \<noteq> account_default E" "program_owner (account uh) = program_owner (account sd)"
    and "decode (holding_codec E) (data (account uh)) = Some (Fungible (account_id sd) b)"
    and "account_id mh = compute_stablecoin_master_holding_pda E p" "account mh \<noteq> account_default E"
    and "program_owner (account mh) = program_owner (account sd)"
    and "accrue_fees q y now = Inr f" "added_debt pos (accrual_accumulator f) x = Inr (pos', y')"
    and "compute_current_redemption_price_wide (redemption_price_at_last_update red)
      (redemption_rate_per_millisecond red) (last_updated_at red) now \<noteq> 0"
    and "is_collateralized (collateralization_values (collateral_amount pos') (normalized_debt_amount pos')
      (widen512 (accumulated_rate_at_last_accrual (accrual_accumulator f)))
      (compute_current_redemption_price_wide (redemption_price_at_last_update red)
        (redemption_rate_per_millisecond red) (last_updated_at red) now) (minimum_collateralization_ratio q))"
    and "encode (position_codec E) pos' = Some d" "encode (accumulator_codec E) y' = Some a"
  shows "\<exists>ds cs. generate_debt E owner pa sd uh mh aa ra ppa clk p x = Inr (ds, cs) \<and>
    last cs = with_pda_seeds (chained_call_new (program_owner (account sd)) [account_id sd, account_id uh] (Mint x))
      [compute_stablecoin_definition_pda_seed E]"
  using assms
  by (simp add: generate_debt_def surplus_mint_call_def assert_position_is_collateralized_def position_data_def
      accumulator_data_def Let_def)

context stable_client
begin

lemma planned_borrowing:
  assumes plan: "generate_debt_plan A E r = reply s" and program: "parse_program_id A (dbr_program r) = Inr p"
    and submitted: "presents A s accounts bs" "stable_from_slice A bs = Some i"
    and accounts: "accounts = [owner, pa, sd, uh, mh, aa, ra, ppa, clk]"
    and fresh: "reads_account A (dbr_position r) pa" "reads_account A (dbr_definition r) sd"
      "reads_account A (dbr_holding r) uh" "reads_account A (dbr_accumulator r) aa"
      "reads_account A (gnr_redemption r) ra" "reads_account A (dbr_parameters r) ppa" "reads_account A (dbr_clock r) clk"
    and token: "token_runtime E T" and signers: "validates_signers E"
    and fits: "\<forall>x. encode (position_codec E) x \<noteq> None" "\<forall>y. encode (accumulator_codec E) y \<noteq> None"
    and world: "decode (parameters_codec E) (data (account ppa)) = Some q"
      "decode (accumulator_codec E) (data (account aa)) = Some y" "parse_value (dbr_amount r) = Inr x"
      "borrowing_room E accounts q y x"
  shows "\<exists>ds cs. stable_main E p i accounts = Inr (ds, cs) \<and> last cs =
    with_pda_seeds (chained_call_new (program_owner (account sd)) [account_id sd, account_id uh] (Mint x))
      [compute_stablecoin_definition_pda_seed E]"
proof -
  obtain p' w n x' destination pos_id pos q_id q' y_id y' red_id red now tk defn tot d held cur \<delta> nd where P:
    "parse_stablecoin_program_id A E (dbr_program r) = Inr p'" "parse_account_id A (dbr_owner r) = Inr w"
    "parse_decimal_text (dbr_nonce r) = Inr n" "parse_value (dbr_amount r) = Inr x'"
    "parse_account_id A (dbr_holding_id r) = Inr destination"
    "validated_position A E p' w n (dbr_position r) = Inr (pos_id, pos)"
    "validated_protocol_parameters A E p' (dbr_parameters r) = Inr (q_id, q')" "\<not> is_frozen q'"
    "validated_stability_fee_accumulator A E p' (dbr_accumulator r) = Inr (y_id, y')"
    "validated_redemption_price_state A E p' (gnr_redemption r) = Inr (red_id, red)"
    "clock_timestamp_read A E (dbr_clock r) = Inr now"
    "decode_account A (dbr_definition r) = Inr (tk, defn)" "tk = stablecoin_definition_id q'"
    "tk = compute_stablecoin_definition_pda E p'" "mintable_supply E tk defn = Inr tot"
    "decode_account A (dbr_holding r) = Inr (destination, d)" "program_owner d = program_owner defn"
    "holding_balance E ''invalid_user_stablecoin_holding'' ''stablecoin_definition_mismatch'' tk d = Inr held"
    "checked_accumulator (accumulated_rate_at_last_accrual y') (stability_fee_per_millisecond q') (last_accrued_at y') now =
      Some cur"
    "checked_debt_delta x' cur = Some \<delta>" "checked_add (normalized_debt_amount pos) \<delta> = Some nd"
    "compute_current_redemption_price_wide (redemption_price_at_last_update red)
      (redemption_rate_per_millisecond red) (last_updated_at red) now \<noteq> 0"
    "is_collateralized (collateralization_values (collateral_amount pos) nd (widen512 cur)
      (compute_current_redemption_price_wide (redemption_price_at_last_update red)
        (redemption_rate_per_millisecond red) (last_updated_at red) now) (minimum_collateralization_ratio q'))"
    "stable_plan A p' [w, pos_id, tk, destination, compute_stablecoin_master_holding_pda E p', y_id, red_id, q_id,
        clock_01_program_account_id E] [True, False, False, False, False, False, False, False, False]
        (GenerateDebt x') = reply s"
    using plan by (rule generate_debt_plan_run)
  have same: "p' = p" "x' = x"
    using P(1,4) program world(3) by (simp_all add: success)
  note P = P [unfolded same]
  note S = plan_presented [OF P(24) submitted, unfolded accounts list.map]
  have ids: "account_id owner = w" "account_id mh = compute_stablecoin_master_holding_pda E p"
    using S(2) by simp_all
  have owner: "is_authorized owner"
    using S(3) by simp
  have tokens: "(tk, defn) = (account_id sd, account sd)" "(destination, d) = (account_id uh, account uh)"
    using P(12,16) fresh(2,3) by (simp_all add: reads_account_def)
  have position: "read_owned_position E owner pa p = Inr pos"
    using read_position [OF P(6) fresh(1) ids(1)] by simp
  have globals: "decode_parameters E ppa p = Inr q'" "decode_accumulator E aa p = Inr y'" "decode_redemption E ra p = Inr red"
    using read_global [OF P(7) [unfolded validated_protocol_parameters_def] fresh(6)]
      read_global [OF P(9) [unfolded validated_stability_fee_accumulator_def] fresh(4)]
      read_global [OF P(10) [unfolded validated_redemption_price_state_def] fresh(5)]
    by (simp_all add: decode_globals_success)
  have qy: "q' = q" "y' = y"
    using globals(1,2) world(1,2) by (simp_all add: decode_globals_success holds_global_def)
  have clock: "stable_read_clock E clk = Inr now"
    using P(11) fresh(7) by (rule read_clock)
  have blank: "account sd \<noteq> account_default E" "account uh \<noteq> account_default E"
    using P(15,18) tokens token_runtime.empty_definition [OF token] token_runtime.empty_holding [OF token]
    by (auto simp: success)
  have room: "account mh \<noteq> account_default E" "program_owner (account mh) = program_owner (account sd)" "params_ok q"
    "accumulator_ok y" "1014 * unat (accumulated_rate_at_last_accrual y) < 1000 * 2 ^ 128"
    "14 * unat (total_normalized_debt y) * unat (accumulated_rate_at_last_accrual y) < 1000 * (2 ^ 128 * scale)"
    "unat (total_normalized_debt y) + unat x < 2 ^ 128"
    using world(4) by (simp_all add: borrowing_room_def accounts)
  note P = P [unfolded qy]
  have priced: "compute_current_accumulated_rate (accumulated_rate_at_last_accrual y) (stability_fee_per_millisecond q)
      (last_accrued_at y) now = Inr cur" "fixed_mul_div_ceil x FIXED_POINT_ONE cur = Inr \<delta>"
    using P(19,20) by (simp_all add: checked_accumulator_guest checked_debt_delta_guest catch_unwind_Some)
  obtain f where f: "accrue_fees q y now = Inr f" "accumulated_rate_at_last_accrual (accrual_accumulator f) = cur"
    "total_normalized_debt (accrual_accumulator f) = total_normalized_debt y" "accumulated_rate_at_last_accrual y \<le> cur"
    using accrual_succeeds [OF priced(1) room(3,5,6)] by blast
  have "scale \<le> unat cur"
    using room(4) f(4) by (simp add: accumulator_ok_def word_le_nat_alt)
  then obtain y' where debt: "added_debt pos (accrual_accumulator f) x = Inr (pos \<lparr> normalized_debt_amount := nd \<rparr>, y')"
    using added_debt_succeeds [of x "accrual_accumulator f" \<delta> pos nd] priced(2) P(21) room(7) f(2,3) by auto
  obtain d' a' where bytes: "encode (position_codec E) (pos \<lparr> normalized_debt_amount := nd \<rparr>) = Some d'"
    "encode (accumulator_codec E) y' = Some a'"
    using fits by (metis option.exhaust)
  have sd: "account_id sd = stablecoin_definition_id q"
    and uh: "program_owner (account uh) = program_owner (account sd)"
      "decode (holding_codec E) (data (account uh)) = Some (Fungible (account_id sd) held)"
    using P(13,17,18) tokens by (simp_all add: holding_balance_Inr)
  have "\<exists>ds cs. generate_debt E owner pa sd uh mh aa ra ppa clk p x = Inr (ds, cs) \<and>
    last cs = with_pda_seeds (chained_call_new (program_owner (account sd)) [account_id sd, account_id uh] (Mint x))
      [compute_stablecoin_definition_pda_seed E]"
    by (rule generate_debt_succeeds [OF owner position globals(1) [unfolded qy] P(8) globals(2) [unfolded qy] globals(3)
          clock sd blank uh ids(2) room(1,2) f(1) debt P(22) _ bytes]) (simp add: f(2) P(23))
  moreover have "spel_validate E [([Signer], owner), ([Mut], pa), ([Mut], sd), ([Mut], uh), ([Mut], mh), ([Mut], aa),
      ([], ra), ([], ppa), ([], clk)]"
    using signers owner by (simp add: validates_signers_def)
  ultimately show ?thesis
    by (simp add: stable_main_def S(1) accounts)
qed


text \<open>The rate update runs exactly when nothing stands in its way.\<close>

lemma update_redemption_rate_decided:
  assumes "is_authorized caller" "decode_redemption_inputs E ppa ra p = Inr (q, red)" "read_oracle E oa q = Inr m"
    and "stable_read_clock E clk = Inr now"
    and price: "bound_redemption_price (compute_current_redemption_price_wide (redemption_price_at_last_update red)
      (redemption_rate_per_millisecond red) (last_updated_at red) now) = Inr price"
  shows "encode (redemption_codec E) \<lparr> redemption_price_at_last_update = price,
      redemption_rate_per_millisecond = out_redemption_rate_per_millisecond out,
      controller_integral_term = out_controller_integral_term out, last_updated_at = now \<rparr> = Some d \<Longrightarrow>
      rate_update_blockers q red m now = [] \<Longrightarrow> m = Some x \<Longrightarrow>
      run_controller_tick price (oracle_price_to_fixed_point (oracle_price x)) (controller_integral_term red)
        (controller_proportional_gain q) (controller_integral_gain q) (saturating_sub now (last_updated_at red)) = Inr out \<Longrightarrow>
      update_redemption_rate E caller ppa ra oa clk p =
        Inr ([Unchanged caller, Unchanged ppa, NewData ra (Add 0) d, Unchanged oa, Unchanged clk], [])"
    and "rate_update_blockers q red m now \<noteq> [] \<Longrightarrow> \<exists>e. update_redemption_rate E caller ppa ra oa clk p = Inl e"
proof -
  assume free: "encode (redemption_codec E) \<lparr> redemption_price_at_last_update = price,
      redemption_rate_per_millisecond = out_redemption_rate_per_millisecond out,
      controller_integral_term = out_controller_integral_term out, last_updated_at = now \<rparr> = Some d"
    "rate_update_blockers q red m now = []" "m = Some x"
    "run_controller_tick price (oracle_price_to_fixed_point (oracle_price x)) (controller_integral_term red)
        (controller_proportional_gain q) (controller_integral_gain q) (saturating_sub now (last_updated_at red)) = Inr out"
  have "account oa \<noteq> account_default E"
    using assms(3) free(3) by (auto simp: read_oracle_def success)
  then show "update_redemption_rate E caller ppa ra oa clk p =
      Inr ([Unchanged caller, Unchanged ppa, NewData ra (Add 0) d, Unchanged oa, Unchanged clk], [])"
    using assms free by (auto simp: update_redemption_rate_def advance_redemption_price_def redemption_data_def
        rate_update_blockers_Nil Let_def word_gt_0)
next
  assume blocked: "rate_update_blockers q red m now \<noteq> []"
  have "update_redemption_rate E caller ppa ra oa clk p \<noteq> Inr (ds, cs)" for ds cs
  proof
    assume "update_redemption_rate E caller ppa ra oa clk p = Inr (ds, cs)"
    then show False
      using blocked assms(2-4) by (rule_tac update_redemption_rate_run) (auto simp: rate_update_blockers_Nil word_gt_0)
  qed
  then show "\<exists>e. update_redemption_rate E caller ppa ra oa clk p = Inl e"
    by (cases "update_redemption_rate E caller ppa ra oa clk p") auto
qed

lemma quoted_update:
  assumes quote: "redemption_rate_update_quote A E r = reply v" and program: "parse_program_id A (rqq_program r) = Inr p"
    and fresh: "reads_account A (rqq_parameters r) ppa" "reads_account A (rqq_redemption r) ra"
      "reads_account A (rqq_oracle r) oa" "reads_account A (rqq_clock r) clk"
    and caller: "is_authorized caller" and signers: "validates_signers E"
    and fits: "\<forall>x. encode (redemption_codec E) x \<noteq> None"
  shows "if json_field ''canSubmit'' v = Some (JBool True)
    then \<exists>x d. stable_main E p UpdateRedemptionRate [caller, ppa, ra, oa, clk] =
        Inr ([Unchanged caller, Unchanged ppa, NewData ra (Add 0) d, Unchanged oa, Unchanged clk], []) \<and>
      encode (redemption_codec E) x = Some d \<and> last_updated_at x = clock_timestamp E (data (account clk)) \<and>
      json_field ''currentRedemptionPrice'' v = Some (JStr (decimal (unat (redemption_price_at_last_update x)))) \<and>
      json_field ''nextRedemptionRatePerMillisecond'' v =
        Some (JStr (decimal (unat (redemption_rate_per_millisecond x)))) \<and>
      json_field ''nextControllerIntegralTerm'' v = Some (JStr (signed_decimal (sint (controller_integral_term x))))
    else \<exists>e. stable_main E p UpdateRedemptionRate [caller, ppa, ra, oa, clk] = Inl e"
proof -
  obtain p' q_id q red_id red m now price where Q:
    "parse_stablecoin_program_id A E (rqq_program r) = Inr p'"
    "validated_protocol_parameters A E p' (rqq_parameters r) = Inr (q_id, q)"
    "validated_redemption_price_state A E p' (rqq_redemption r) = Inr (red_id, red)"
    "usable_market_price_oracle A E (rqq_oracle r) q = Inr m" "clock_timestamp_read A E (rqq_clock r) = Inr now"
    "bound_redemption_price (compute_current_redemption_price_wide (redemption_price_at_last_update red)
      (redemption_rate_per_millisecond red) (last_updated_at red) now) = Inr price"
    "json_field ''canSubmit'' v = Some (JBool (rate_update_blockers q red m now = []))"
    "rate_update_blockers q red m now = [] \<longrightarrow> (\<exists>x out. m = Some x \<and>
      run_controller_tick price (oracle_price_to_fixed_point (oracle_price x)) (controller_integral_term red)
        (controller_proportional_gain q) (controller_integral_gain q) (saturating_sub now (last_updated_at red)) =
        Inr out \<and>
      json_field ''currentRedemptionPrice'' v = Some (JStr (decimal (unat price))) \<and>
      json_field ''nextRedemptionRatePerMillisecond'' v =
        Some (JStr (decimal (unat (out_redemption_rate_per_millisecond out)))) \<and>
      json_field ''nextControllerIntegralTerm'' v =
        Some (JStr (signed_decimal (sint (out_controller_integral_term out)))))"
    using quote by (rule redemption_rate_update_quote_run)
  have p: "p' = p"
    using Q(1) program by (simp add: success)
  have inputs: "decode_redemption_inputs E ppa ra p = Inr (q, red)"
    using read_global [OF Q(2) [unfolded p validated_protocol_parameters_def] fresh(1)]
      read_global [OF Q(3) [unfolded p validated_redemption_price_state_def] fresh(2)]
    by (auto simp: decode_redemption_inputs_success holds_global_def)
  have oracle': "read_oracle E oa q = Inr m"
    using Q(4) fresh(3) by (rule read_usable_oracle)
  have clock: "stable_read_clock E clk = Inr now" and now: "clock_timestamp E (data (account clk)) = now"
    using read_clock [OF Q(5) fresh(4)] by (simp_all add: success)
  have main: "stable_main E p UpdateRedemptionRate [caller, ppa, ra, oa, clk] = update_redemption_rate E caller ppa ra oa clk p"
    using signers caller by (simp add: stable_main_def validates_signers_def)
  note decided = update_redemption_rate_decided [OF caller inputs oracle' clock Q(6)]
  show ?thesis
  proof (cases "rate_update_blockers q red m now = []")
    case True
    then obtain x out where t: "m = Some x"
      "run_controller_tick price (oracle_price_to_fixed_point (oracle_price x)) (controller_integral_term red)
        (controller_proportional_gain q) (controller_integral_gain q) (saturating_sub now (last_updated_at red)) = Inr out"
      "json_field ''currentRedemptionPrice'' v = Some (JStr (decimal (unat price)))"
      "json_field ''nextRedemptionRatePerMillisecond'' v =
        Some (JStr (decimal (unat (out_redemption_rate_per_millisecond out))))"
      "json_field ''nextControllerIntegralTerm'' v =
        Some (JStr (signed_decimal (sint (out_controller_integral_term out))))"
      using Q(8) by blast
    let ?x = "\<lparr> redemption_price_at_last_update = price,
      redemption_rate_per_millisecond = out_redemption_rate_per_millisecond out,
      controller_integral_term = out_controller_integral_term out, last_updated_at = now \<rparr>"
    obtain d where d: "encode (redemption_codec E) ?x = Some d"
      using fits by (metis option.exhaust)
    have "json_field ''canSubmit'' v = Some (JBool True)"
      using Q(7) True by simp
    moreover have "\<exists>x d. stable_main E p UpdateRedemptionRate [caller, ppa, ra, oa, clk] =
        Inr ([Unchanged caller, Unchanged ppa, NewData ra (Add 0) d, Unchanged oa, Unchanged clk], []) \<and>
      encode (redemption_codec E) x = Some d \<and> last_updated_at x = clock_timestamp E (data (account clk)) \<and>
      json_field ''currentRedemptionPrice'' v = Some (JStr (decimal (unat (redemption_price_at_last_update x)))) \<and>
      json_field ''nextRedemptionRatePerMillisecond'' v =
        Some (JStr (decimal (unat (redemption_rate_per_millisecond x)))) \<and>
      json_field ''nextControllerIntegralTerm'' v = Some (JStr (signed_decimal (sint (controller_integral_term x))))"
      by (intro exI [of _ ?x] exI [of _ d])
        (simp only: main decided(1) [OF d True t(1,2)] d t(3-5) now redemption_price_state.simps simp_thms)
    ultimately show ?thesis
      by (simp only: if_True simp_thms)
  next
    case False
    note stopped = decided(2) [OF False]
    have "json_field ''canSubmit'' v \<noteq> Some (JBool True)"
      using Q(7) False by simp
    then show ?thesis
      using stopped by (simp only: main if_False simp_thms)
  qed
qed

end

end
