(* ===== verification/Stable_Api_Health.thy ===== *)
theory Stable_Api_Health
  imports Stable_Api_Runs
begin

text \<open>
  The displayed health of a position, on natural numbers: the 512-bit projections it shows are the
  unbounded ones, and within the bands the verdict is the exact comparison.
\<close>

lemma position_health_run:
  assumes "position_health A E r = reply v"
  obtains p owner n pos_id x q_id q y_id y red_id red now cur price scaled where
    "parse_stablecoin_program_id A E (hlr_program r) = Inr p" "parse_account_id A (hlr_owner r) = Inr owner"
    "parse_decimal_text (hlr_nonce r) = Inr n"
    "validated_position A E p owner n (hlr_position r) = Inr (pos_id, x)"
    "vault_account_id x = compute_position_vault_pda E p pos_id"
    "validated_protocol_parameters A E p (hlr_parameters r) = Inr (q_id, q)"
    "validated_stability_fee_accumulator A E p (hlr_accumulator r) = Inr (y_id, y)"
    "validated_redemption_price_state A E p (hlr_redemption r) = Inr (red_id, red)"
    "clock_timestamp_read A E (hlr_clock r) = Inr now"
    "try_project_rate_wide (accumulated_rate_at_last_accrual y) (stability_fee_per_millisecond q) (last_accrued_at y) now
      = Some cur"
    "try_project_rate_wide (redemption_price_at_last_update red) (redemption_rate_per_millisecond red)
      (last_updated_at red) now = Some price"
    "checked_mul (widen512 (normalized_debt_amount x)) cur = Some scaled"
    "json_field ''nominalDebt'' v = Some (JStr (decimal (unat (scaled div widen512 FIXED_POINT_ONE))))"
    "json_field ''collateralValue'' v = Some (JStr (decimal (unat (collateral_value (collateralization_values
      (collateral_amount x) (normalized_debt_amount x) cur price (minimum_collateralization_ratio q))))))"
    "json_field ''isCollateralized'' v = Some (JBool (is_collateralized (collateralization_values
      (collateral_amount x) (normalized_debt_amount x) cur price (minimum_collateralization_ratio q))))"
  using assms unfolding position_health_def Let_def
  by (simp only: api_inversion split_paired_Ex prod.case not_not sum.inject)
    (elim exE conjE, rule that, (assumption | (drule sym, simp add: position_identity_def id_fields_def; fail))+)

text \<open>Within the bands the redemption price stays positive over one window.\<close>

lemma price_positive:
  assumes "redemption_ok r"
  shows "0 < projected (redemption_price_at_last_update r) (redemption_rate_per_millisecond r) since now"
proof -
  have "993 * scale \<le> 1000 * growth (redemption_rate_per_millisecond r) (unat (clamped_elapsed since now))"
    using redemption_growth [of "redemption_rate_per_millisecond r" since now] assms by (auto simp: redemption_ok_def)
  from projected_ge [OF this, of "redemption_price_at_last_update r"]
  have "993 * unat (redemption_price_at_last_update r) div 1000 \<le>
      projected (redemption_price_at_last_update r) (redemption_rate_per_millisecond r) since now" .
  moreover have "993 * 1000000000 div 1000 \<le> 993 * unat (redemption_price_at_last_update r) div 1000"
    using assms by (intro div_le_mono) (simp add: redemption_ok_def)
  ultimately show ?thesis
    by simp
qed

lemma health_exact:
  assumes "position_health A E r = reply v" "decode_account A (hlr_position r) = Inr (j, a)"
    and "decode_account A (hlr_parameters r) = Inr (jq, aq)" "decode_account A (hlr_accumulator r) = Inr (jy, ay)"
    and "decode_account A (hlr_redemption r) = Inr (jr, ar)" "clock_timestamp_read A E (hlr_clock r) = Inr now"
    and "decode (position_codec E) (data a) = Some x" "decode (parameters_codec E) (data aq) = Some q"
    and "decode (accumulator_codec E) (data ay) = Some y" "decode (redemption_codec E) (data ar) = Some red"
    and "params_ok q" "accumulator_ok y" "redemption_ok red"
  shows "json_field ''isCollateralized'' v = Some (JBool (position_covered q y red now x))"
    "json_field ''nominalDebt'' v = Some (JStr (decimal (unat (normalized_debt_amount x) *
      projected (accumulated_rate_at_last_accrual y) (stability_fee_per_millisecond q) (last_accrued_at y) now div scale)))"
    "json_field ''collateralValue'' v = Some (JStr (decimal (unat (collateral_amount x) * scale ^ 3)))"
proof -
  obtain p owner n pos_id x' q_id q' y_id y' red_id red' now' cur price scaled where H:
    "validated_position A E p owner n (hlr_position r) = Inr (pos_id, x')"
    "validated_protocol_parameters A E p (hlr_parameters r) = Inr (q_id, q')"
    "validated_stability_fee_accumulator A E p (hlr_accumulator r) = Inr (y_id, y')"
    "validated_redemption_price_state A E p (hlr_redemption r) = Inr (red_id, red')"
    "clock_timestamp_read A E (hlr_clock r) = Inr now'"
    "try_project_rate_wide (accumulated_rate_at_last_accrual y') (stability_fee_per_millisecond q') (last_accrued_at y') now'
      = Some cur"
    "try_project_rate_wide (redemption_price_at_last_update red') (redemption_rate_per_millisecond red')
      (last_updated_at red') now' = Some price"
    "checked_mul (widen512 (normalized_debt_amount x')) cur = Some scaled"
    "json_field ''nominalDebt'' v = Some (JStr (decimal (unat (scaled div widen512 FIXED_POINT_ONE))))"
    "json_field ''collateralValue'' v = Some (JStr (decimal (unat (collateral_value (collateralization_values
      (collateral_amount x') (normalized_debt_amount x') cur price (minimum_collateralization_ratio q'))))))"
    "json_field ''isCollateralized'' v = Some (JBool (is_collateralized (collateralization_values
      (collateral_amount x') (normalized_debt_amount x') cur price (minimum_collateralization_ratio q'))))"
    using assms(1) by (rule position_health_run)
  have same: "x' = x" "q' = q" "y' = y" "red' = red" "now' = now"
    using H(1-5) assms(2-10) by (auto simp: success validated_protocol_parameters_def
        validated_stability_fee_accumulator_def validated_redemption_price_state_def)
  note H = H [unfolded same]
  have cur: "unat cur = projected (accumulated_rate_at_last_accrual y) (stability_fee_per_millisecond q) (last_accrued_at y) now"
    and price: "unat price =
      projected (redemption_price_at_last_update red) (redemption_rate_per_millisecond red) (last_updated_at red) now"
    using try_project_rate_wide_Some [OF H(6)] try_project_rate_wide_Some [OF H(7)] by simp_all
  have "cur \<noteq> 0" "price \<noteq> 0"
    using accumulator_positive [OF assms(11,12), of "last_accrued_at y" now] price_positive [OF assms(13), of "last_updated_at red" now]
      cur price by auto
  moreover have "minimum_collateralization_ratio q \<noteq> 0"
    using params_ok_ratio [OF assms(11)] by auto
  ultimately show "json_field ''isCollateralized'' v = Some (JBool (position_covered q y red now x))"
    by (simp add: H(11) is_collateralized_iff position_covered_def cur price)
  have "unat (scaled div widen512 FIXED_POINT_ONE) = unat (normalized_debt_amount x) * unat cur div scale"
    using H(8) by (simp add: checked unat_div unat_widen512)
  then show "json_field ''nominalDebt'' v = Some (JStr (decimal (unat (normalized_debt_amount x) *
      projected (accumulated_rate_at_last_accrual y) (stability_fee_per_millisecond q) (last_accrued_at y) now div scale)))"
    by (simp only: H(9) cur)
  show "json_field ''collateralValue'' v = Some (JStr (decimal (unat (collateral_amount x) * scale ^ 3)))"
    by (simp only: H(10) unat_collateral_value)
qed

end
