(* ===== verification/Stable_Api_Admin.thy ===== *)
theory Stable_Api_Admin
  imports Stable_Api_Runs
begin

text \<open>
  The plans that change the parameters: what the client lets through, the guest accepts.
\<close>

text \<open>A plan of one of the operations that take the authority and the parameters account.\<close>

inductive planned_change ::
  "'x stable_api_env_scheme \<Rightarrow> (bytes, 'y) stable_env_scheme \<Rightarrow> account_read \<Rightarrow> json \<Rightarrow> bool" for A E where
  "set_minimum_collateralization_ratio_plan A E r = reply s \<Longrightarrow> planned_change A E (adm_parameters r) s"
| "set_controller_gains_plan A E g = reply s \<Longrightarrow> planned_change A E (adm_parameters g) s"
| "set_timing_parameters_plan A E t = reply s \<Longrightarrow> planned_change A E (adm_parameters t) s"
| "set_admin_plan A E w = reply s \<Longrightarrow> planned_change A E (adm_parameters w) s"
| "set_freeze_authority_plan A E w = reply s \<Longrightarrow> planned_change A E (adm_parameters w) s"
| "freeze_plan A E f = reply s \<Longrightarrow> planned_change A E (fzr_parameters f) s"
| "unfreeze_plan A E f = reply s \<Longrightarrow> planned_change A E (fzr_parameters f) s"

lemma admin_read_Inr [success]:
  "admin_read A E r = Inr c \<longleftrightarrow>
    (\<exists>p admin q_id q. parse_stablecoin_program_id A E (adm_program r) = Inr p \<and>
      parse_account_id A (adm_admin r) = Inr admin \<and>
      validated_protocol_parameters A E p (adm_parameters r) = Inr (q_id, q) \<and> admin = admin_account_id q \<and>
      c = \<lparr> va_program = p, va_admin = admin, va_parameters_id = q_id, va_parameters = q \<rparr>)"
  by (auto simp: admin_read_def split: sum.splits)

text \<open>The change a plan asks for, as a function on the parameters, and the signer it needs.\<close>

fun changed :: "stable_instruction \<Rightarrow> protocol_parameters \<Rightarrow> protocol_parameters" where
  "changed (SetMinimumCollateralizationRatio z) q = q \<lparr> minimum_collateralization_ratio := z \<rparr>"
| "changed (SetControllerGains kp ki) q =
    q \<lparr> controller_proportional_gain := kp, controller_integral_gain := ki \<rparr>"
| "changed (SetTimingParameters a b) q =
    q \<lparr> minimum_milliseconds_between_rate_updates := a, maximum_oracle_price_age_milliseconds := b \<rparr>"
| "changed (SetAdmin w) q = q \<lparr> admin_account_id := w \<rparr>"
| "changed (SetFreezeAuthority w) q = q \<lparr> freeze_authority_account_id := w \<rparr>"
| "changed Freeze q = q \<lparr> is_frozen := True \<rparr>"
| "changed Unfreeze q = q \<lparr> is_frozen := False \<rparr>"
| "changed _ q = q"

text \<open>What such a plan says: the authority of the parameters read signs an instruction within its bands.\<close>

fun change_allowed :: "stable_instruction \<Rightarrow> protocol_parameters \<Rightarrow> account_id \<Rightarrow> bool" where
  "change_allowed (SetMinimumCollateralizationRatio z) q w \<longleftrightarrow> w = admin_account_id q \<and>
    FIXED_POINT_ONE * 110 div 100 \<le> z \<and> z \<le> FIXED_POINT_ONE * 10"
| "change_allowed (SetControllerGains kp ki) q w \<longleftrightarrow> w = admin_account_id q \<and>
    0 \<le> sint kp \<and> sint kp \<le> sint MAXIMUM_CONTROLLER_PROPORTIONAL_GAIN \<and>
    0 \<le> sint ki \<and> sint ki \<le> sint MAXIMUM_CONTROLLER_INTEGRAL_GAIN"
| "change_allowed (SetTimingParameters a b) q w \<longleftrightarrow> w = admin_account_id q \<and>
    1 \<le> a \<and> a \<le> 86400000 \<and> 1 \<le> b \<and> b \<le> 86400000"
| "change_allowed (SetAdmin z) q w \<longleftrightarrow> w = admin_account_id q"
| "change_allowed (SetFreezeAuthority z) q w \<longleftrightarrow> w = admin_account_id q"
| "change_allowed Freeze q w \<longleftrightarrow> w = freeze_authority_account_id q"
| "change_allowed Unfreeze q w \<longleftrightarrow> w = freeze_authority_account_id q"
| "change_allowed _ q w \<longleftrightarrow> False"

lemmas change_plans = set_minimum_collateralization_ratio_plan_def set_controller_gains_plan_def
  set_timing_parameters_plan_def set_admin_plan_def set_freeze_authority_plan_def freeze_plan_def unfreeze_plan_def
  freeze_authority_plan_def admin_plan_def

lemma planned_change_run:
  assumes "planned_change A E read s"
  shows "\<exists>p q_id q w j. validated_protocol_parameters A E p read = Inr (q_id, q) \<and>
    stable_plan A p [w, q_id] [True, False] j = reply s \<and> change_allowed j q w"
  using assms
  by cases
    (clarsimp simp: change_plans api_inversion admin_read_Inr,
      intro exI conjI, assumption, assumption, simp)+

context stable_client
begin

text \<open>The guest runs an allowed change and writes the changed parameters.\<close>

lemma change_accepted:
  assumes "change_allowed i q (account_id w)" "is_authorized w" "decode_parameters E ppa p = Inr q"
    and "validates_signers E" "encode (parameters_codec E) (changed i q) = Some d"
  shows "stable_main E p i [w, ppa] = Inr ([Unchanged w, NewData ppa (Add 0) d], [])"
proof -
  have valid: "spel_validate E [([Signer], w), ([Mut], ppa)]"
    using assms(2,4) by (simp add: validates_signers_def)
  show ?thesis
    using assms(1,2,3,5) valid
    by (cases i) (auto simp: stable_main_def set_minimum_collateralization_ratio_def set_controller_gains_def
        set_timing_parameters_def set_admin_def set_freeze_authority_def freeze_def unfreeze_def set_frozen_def
        update_parameters_def assert_admin_authorized_def assert_collateralization_ratio_in_band_def
        assert_controller_gains_in_band_def assert_timing_milliseconds_in_band_def parameters_data_def
        MIN_COLLATERALIZATION_RATIO_def MAX_COLLATERALIZATION_RATIO_def MAX_TIMING_MILLISECONDS_def)
qed

end

end
