(* ===== verification/Stable_Api_Borsh.thy ===== *)
theory Stable_Api_Borsh
  imports Stable_Api_Health Stable_Api_Admin Stable_Demo
begin

text \<open>
  The Borsh format of the stablecoin's instructions, a concrete environment on which the interface of its
  client module is interpreted, and the requests of the demonstration world.
\<close>

declare borsh_codec_simps [simp del] ser_holding.simps [simp del] ser_definition.simps [simp del]

section \<open>Instructions\<close>

definition ser_initialize :: "initialize_params \<Rightarrow> bytes" where
  "ser_initialize x =
    to_bytes (params_freeze_authority_account_id x) @ to_le_bytes (initial_stability_fee_per_millisecond x) @
    to_le_bytes (initial_controller_proportional_gain x) @ to_le_bytes (initial_controller_integral_gain x) @
    to_le_bytes (initial_minimum_collateralization_ratio x) @
    to_le_bytes (params_minimum_milliseconds_between_rate_updates x) @
    to_le_bytes (params_maximum_oracle_price_age_milliseconds x) @ to_le_bytes (initial_redemption_price x) @
    ser_string (stablecoin_name x)"

definition de_initialize :: "initialize_params parser" where
  "de_initialize = de_bind de_id (\<lambda>fa. de_bind de_word (\<lambda>fee. de_bind de_word (\<lambda>kp. de_bind de_word (\<lambda>ki.
    de_bind de_word (\<lambda>mr. de_bind de_word (\<lambda>t1. de_bind de_word (\<lambda>t2. de_bind de_word (\<lambda>rp. de_bind de_string (\<lambda>nm.
    de_return \<lparr> params_freeze_authority_account_id = fa, initial_stability_fee_per_millisecond = fee,
      initial_controller_proportional_gain = kp, initial_controller_integral_gain = ki,
      initial_minimum_collateralization_ratio = mr, params_minimum_milliseconds_between_rate_updates = t1,
      params_maximum_oracle_price_age_milliseconds = t2, initial_redemption_price = rp,
      stablecoin_name = nm \<rparr>)))))))))"

interpretation borsh_initialize: borsh_type ser_initialize de_initialize
  by unfold_locales (simp add: ser_initialize_def de_initialize_def borsh)

fun ser_stable :: "stable_instruction \<Rightarrow> bytes" where
  "ser_stable (InitializeProgram x) = 0 # ser_initialize x"
| "ser_stable AccrueStabilityFee = [1]"
| "ser_stable UpdateRedemptionRate = [2]"
| "ser_stable RefreshGlobals = [3]"
| "ser_stable (OpenPosition n c) = 4 # to_le_bytes n @ to_le_bytes c"
| "ser_stable (DepositCollateral c) = 5 # to_le_bytes c"
| "ser_stable (GenerateDebt c) = 6 # to_le_bytes c"
| "ser_stable ClosePosition = [7]"
| "ser_stable (SetMinimumCollateralizationRatio c) = 8 # to_le_bytes c"
| "ser_stable (SetControllerGains kp ki) = 9 # to_le_bytes kp @ to_le_bytes ki"
| "ser_stable SetMarketPriceOracle = [10]"
| "ser_stable (SetTimingParameters t1 t2) = 11 # to_le_bytes t1 @ to_le_bytes t2"
| "ser_stable (SetAdmin w) = 12 # to_bytes w"
| "ser_stable (SetFreezeAuthority w) = 13 # to_bytes w"
| "ser_stable (SetStabilityFeePerMillisecond c) = 14 # to_le_bytes c"
| "ser_stable Freeze = [15]"
| "ser_stable Unfreeze = [16]"
| "ser_stable (WithdrawCollateral c) = 17 # to_le_bytes c"
| "ser_stable (RepayDebt c) = 18 # to_le_bytes c"
| "ser_stable ResetRedemptionRateController = [19]"

fun de_stable :: "stable_instruction parser" where
  "de_stable [] = None"
| "de_stable (tag # bs) =
    (if tag = 0 then de_bind de_initialize (\<lambda>x. de_return (InitializeProgram x)) bs
     else if tag = 1 then Some (AccrueStabilityFee, bs)
     else if tag = 2 then Some (UpdateRedemptionRate, bs)
     else if tag = 3 then Some (RefreshGlobals, bs)
     else if tag = 4 then de_bind de_word (\<lambda>n. de_bind de_word (\<lambda>c. de_return (OpenPosition n c))) bs
     else if tag = 5 then de_bind de_word (\<lambda>c. de_return (DepositCollateral c)) bs
     else if tag = 6 then de_bind de_word (\<lambda>c. de_return (GenerateDebt c)) bs
     else if tag = 7 then Some (ClosePosition, bs)
     else if tag = 8 then de_bind de_word (\<lambda>c. de_return (SetMinimumCollateralizationRatio c)) bs
     else if tag = 9 then de_bind de_word (\<lambda>kp. de_bind de_word (\<lambda>ki. de_return (SetControllerGains kp ki))) bs
     else if tag = 10 then Some (SetMarketPriceOracle, bs)
     else if tag = 11 then de_bind de_word (\<lambda>a. de_bind de_word (\<lambda>b. de_return (SetTimingParameters a b))) bs
     else if tag = 12 then de_bind de_id (\<lambda>w. de_return (SetAdmin w)) bs
     else if tag = 13 then de_bind de_id (\<lambda>w. de_return (SetFreezeAuthority w)) bs
     else if tag = 14 then de_bind de_word (\<lambda>c. de_return (SetStabilityFeePerMillisecond c)) bs
     else if tag = 15 then Some (Freeze, bs)
     else if tag = 16 then Some (Unfreeze, bs)
     else if tag = 17 then de_bind de_word (\<lambda>c. de_return (WithdrawCollateral c)) bs
     else if tag = 18 then de_bind de_word (\<lambda>c. de_return (RepayDebt c)) bs
     else if tag = 19 then Some (ResetRedemptionRateController, bs)
     else None)"

lemma de_stable_ser: "length (ser_stable i) < 2 ^ 32 \<Longrightarrow> de_stable (ser_stable i @ rest) = Some (i, rest)"
  by (cases i) (simp_all add: borsh borsh_initialize.parse)

interpretation borsh_stable_instruction: borsh_type ser_stable de_stable
  by unfold_locales (rule de_stable_ser)

declare ser_stable.simps [simp del] de_stable.simps [simp del]

section \<open>A concrete environment\<close>

text \<open>\<^theory_text>\<open>to_vec\<close> refuses a text of more than 32-bit length.\<close>

definition plain_stable_api :: stable_api_env where
  "plain_stable_api = program_api_env.extend plain_program_api
    \<lparr> stable_to_vec = (\<lambda>i. if length (ser_stable i) < 2 ^ 32 then Inr (ser_stable i) else Inl ''too long''),
      stable_from_slice = (\<lambda>bs. case de_stable bs of Some (i, []) \<Rightarrow> Some i | _ \<Rightarrow> None) \<rparr>"

lemma plain_stable_simps [simp]:
  "hex_encode plain_stable_api = hex_text" "hex_decode plain_stable_api = hex_bytes"
  "base58_encode plain_stable_api = base58_encode plain_api" "base58_decode plain_stable_api = base58_decode plain_api"
  "data_from_bytes plain_stable_api = Inr"
  "stable_to_vec plain_stable_api i = (if length (ser_stable i) < 2 ^ 32 then Inr (ser_stable i) else Inl ''too long'')"
  "clock_from_slice plain_stable_api bs = (if length bs = 8 then Some (from_le_bytes bs) else None)"
  by (simp_all add: plain_stable_api_def plain_program_api_def program_api_env.extend_def api_env.extend_def plain_api_def)

lemma plain_stable_from_slice [simp]:
  "length (ser_stable i) < 2 ^ 32 \<Longrightarrow> stable_from_slice plain_stable_api (ser_stable i) = Some i"
  by (simp add: plain_stable_api_def program_api_env.extend_def borsh_stable_instruction.parse_exact)

interpretation plain_stable: stable_client plain_stable_api borsh_stable_env 6
proof unfold_locales
  show "base58_decode plain_stable_api (base58_encode plain_stable_api i) = Inr i" for i
    using plain.base58_round by simp
  show "stable_from_slice plain_stable_api bs = Some i" if "stable_to_vec plain_stable_api i = Inr bs" for i bs
    using that by (auto split: if_splits)
  show "clock_from_slice plain_stable_api (data (account_default borsh_stable_env)) = None"
    by (simp add: empty_account_def)
qed (auto simp: hex_bytes_text hex_text_shape split: if_splits)

interpretation borsh_stable_tokens: token_runtime borsh_stable_env 2
  using borsh_runtime.token_runtime_axioms by (simp add: token_runtime_def default_owned_def)

lemma demo_stable_validates: "validates_signers borsh_stable_env"
  unfolding validates_signers_def
proof (intro allI impI)
  fix xs :: "(account_flag list \<times> bytes account_with_metadata) list"
  assume "list_all (\<lambda>(fs, a). set fs \<subseteq> {Mut, Signer} \<and> (Signer \<in> set fs \<longrightarrow> is_authorized a)) xs"
  then show "spel_validate borsh_stable_env xs"
    by (induction xs) (auto simp: list_all_iff)
qed

section \<open>Requests\<close>

abbreviation stable_id :: "account_id \<Rightarrow> string" where
  "stable_id i \<equiv> account_id_hex plain_stable_api i"

text \<open>The wallet's read of an account.\<close>

definition read_acc :: "bytes account_with_metadata \<Rightarrow> account_read" where
  "read_acc a = read_of plain_stable_api (account_id a) (account a)"

lemma read_acc [simp]: "decode_account plain_stable_api (read_acc a) = Inr (account_id a, account a)"
  unfolding read_acc_def by (rule plain_stable.read_round) simp

lemma reads_acc [simp]: "reads_account plain_stable_api (read_acc a) a"
  by (simp add: reads_account_def)

lemma stable_acc_simps [simp]:
  "account_id params_acc = 224566" "account_id accumulator_acc = 175489" "account_id redemption_acc = 154580"
  "account_id position_acc = 336002106" "program_owner (account params_acc) = 6"
  "program_owner (account accumulator_acc) = 6" "program_owner (account redemption_acc) = 6"
  "program_owner (account position_acc) = 6" "data (account params_acc) = ser_parameters demo_parameters"
  "data (account accumulator_acc) = ser_accumulator demo_accumulator"
  "data (account redemption_acc) = ser_redemption demo_redemption" "data (account position_acc) = ser_position demo_position"
  by (simp_all add: stable_accounts)

lemma demo_globals_read [simp]:
  "parse_stablecoin_program_id plain_stable_api borsh_stable_env (stable_id 6) = Inr 6"
  "validated_protocol_parameters plain_stable_api borsh_stable_env 6 (read_acc params_acc) = Inr (224566, demo_parameters)"
  "validated_stability_fee_accumulator plain_stable_api borsh_stable_env 6 (read_acc accumulator_acc) =
    Inr (175489, demo_accumulator)"
  "validated_redemption_price_state plain_stable_api borsh_stable_env 6 (read_acc redemption_acc) =
    Inr (154580, demo_redemption)"
  "validated_position plain_stable_api borsh_stable_env 6 300 5 (read_acc position_acc) = Inr (336002106, demo_position)"
  by (simp_all add: success validated_protocol_parameters_def validated_stability_fee_accumulator_def
      validated_redemption_price_state_def)

lemma demo_nonce [simp]: "parse_decimal_text (decimal 5) = Inr (5 :: u64)"
  using parse_decimal_text_decimal [of "5 :: u64"] by simp

lemma demo_clock_read [simp]:
  "account_id a = 1 \<Longrightarrow> data (account a) = to_le_bytes (t :: u64) \<Longrightarrow>
    clock_timestamp_read plain_stable_api borsh_stable_env (read_acc a) = Inr t"
  by (simp add: success from_to_le_bytes length_to_le_bytes)

lemma demo_definition_read [simp]:
  "decode (borsh_codec ser_definition de_definition) (ser_definition (DefFungible [1] 500 None (Some 224482))) =
    Some (DefFungible [1] 500 None (Some 224482))"
proof -
  have "encode (borsh_codec ser_definition de_definition) (DefFungible [1] 500 None (Some 224482)) =
      Some (ser_definition (DefFungible [1] 500 None (Some 224482)))"
    by (simp add: borsh_codec_simps ser_definition.simps data_max_length_def borsh)
  then show ?thesis
    by (rule codec_laws.round_trip [OF borsh_definition.codec])
qed

definition demo_generate :: generate_plan_request where
  "demo_generate = \<lparr> dbr_program = stable_id 6, dbr_owner = stable_id 300, dbr_nonce = decimal 5, dbr_amount = JNum 1001,
     dbr_holding_id = stable_id 301, dbr_position = read_acc position_acc,
     dbr_definition = read_acc (generate_accounts ! 2), dbr_holding = read_acc (generate_accounts ! 3),
     dbr_accumulator = read_acc accumulator_acc, dbr_parameters = read_acc params_acc,
     dbr_clock = read_acc (generate_accounts ! 8), gnr_redemption = read_acc redemption_acc \<rparr>"

lemma demo_generate_reply:
  "generate_debt_plan plain_stable_api borsh_stable_env demo_generate = reply (plan_response plain_stable_api (stable_id 6)
    (map account_id generate_accounts) [True, False, False, False, False, False, False, False, False]
    (ser_stable (GenerateDebt 1001)))"
proof -
  have cur: "checked_accumulator 2000000000000000000000000000 FIXED_POINT_ONE 5000 6000 = Some 2000000000000000000000000000"
    by (simp add: checked_accumulator_guest compute_current_accumulated_rate_def compound_rate_def mul_div_cases
        FIXED_POINT_ONE_def)
  have "fixed_mul_div_ceil 1001 FIXED_POINT_ONE 2000000000000000000000000000 = Inr 501"
    by (simp add: fixed_mul_div_ceil_Inr cdiv_def)
  then have delta: "checked_debt_delta 1001 2000000000000000000000000000 = Some 501"
    by (simp add: checked_debt_delta_guest)
  have covered: "is_collateralized (collateralization_values 3000 601 (widen512 2000000000000000000000000000)
      (widen512 FIXED_POINT_ONE) 1500000000000000000000000000)"
    using demo_covered by (simp add: assert_position_is_collateralized_def loaned_position_def success)
  have amount: "parse_value (JNum 1001) = Inr (1001 :: u128)"
    by (simp add: parse_value_def)
  have bytes: "length (ser_stable (GenerateDebt 1001)) < 2 ^ 32"
    by (simp add: ser_stable.simps)
  show ?thesis
    unfolding generate_debt_plan_def demo_generate_def stable_plan_def
    using bytes
    by (simp add: amount generate_accounts_def mintable_supply_def holding_balance_def checked_add_def cur delta
        covered compute_current_redemption_price_wide_def wide_one required_account_def coded_def)
qed

text \<open>A rate update at a time of the clock: the market price is one, as is the redemption price.\<close>

definition demo_market :: oracle_price_account where
  "demo_market = \<lparr> oracle_base_asset = 224482, oracle_quote_asset = 40, oracle_price = 2 ^ 64, oracle_timestamp = 5500,
     oracle_source_id = 60, confidence_interval = 0 \<rparr>"

definition demo_rate_accounts :: "u64 \<Rightarrow> bytes account_with_metadata list" where
  "demo_rate_accounts t =
    [demo_account 0 300 True [], params_acc, redemption_acc,
     demo_account 5 50 False (ser_oracle_price demo_market),
     demo_account 99 1 False (to_le_bytes t)]"

definition demo_rate_quote :: "u64 \<Rightarrow> rate_quote_request" where
  "demo_rate_quote t = \<lparr> rqq_program = stable_id 6, rqq_parameters = read_acc params_acc,
     rqq_redemption = read_acc redemption_acc, rqq_oracle = read_acc (demo_rate_accounts t ! 3),
     rqq_clock = read_acc (demo_rate_accounts t ! 4) \<rparr>"

definition demo_health :: health_request where
  "demo_health = \<lparr> hlr_program = stable_id 6, hlr_owner = stable_id 300, hlr_nonce = decimal 5,
     hlr_position = read_acc position_acc, hlr_parameters = read_acc params_acc, hlr_accumulator = read_acc accumulator_acc,
     hlr_redemption = read_acc redemption_acc, hlr_clock = read_acc (generate_accounts ! 8) \<rparr>"

lemma demo_health_replies: "\<exists>v. position_health plain_stable_api borsh_stable_env demo_health = reply v"
proof -
  have rate: "try_project_rate_wide x FIXED_POINT_ONE 5000 6000 = Some (widen512 x)" for x
  proof -
    have "unat x * scale < 2 ^ 128 * 2 ^ 90"
      using unat_lt [of x] by (intro mult_strict_mono) simp_all
    then have "checked_mul (widen512 x) (widen512 FIXED_POINT_ONE) = Some (widen512 x * widen512 FIXED_POINT_ONE)"
      "unat (widen512 x * widen512 FIXED_POINT_ONE) = unat x * scale"
      by (simp_all add: checked_mul_def unat_widen512 unat_mult_exact)
    then show ?thesis
      by (simp add: try_project_rate_wide_def compound_rate_wide_result_def word_unat_eq_iff unat_div unat_widen512)
  qed
  have "checked_mul (widen512 100) (widen512 2000000000000000000000000000) =
      Some (widen512 100 * widen512 2000000000000000000000000000)"
    by (simp add: checked_mul_def unat_widen512)
  then show ?thesis
    unfolding position_health_def demo_health_def
    by (simp add: rate generate_accounts_def Let_def)
qed

lemma demo_market_read [simp]:
  "decode (borsh_codec ser_oracle_price de_oracle_price) (ser_oracle_price demo_market) = Some demo_market"
proof -
  have "encode (borsh_codec ser_oracle_price de_oracle_price) demo_market = Some (ser_oracle_price demo_market)"
    by (simp add: borsh_codec_simps ser_oracle_price_def data_max_length_def demo_market_def)
  then show ?thesis
    by (rule codec_laws.round_trip [OF borsh_oracle_price.codec])
qed

lemma demo_market_simps [simp]:
  "oracle_base_asset demo_market = 224482" "oracle_quote_asset demo_market = 40" "oracle_price demo_market = 2 ^ 64"
  "oracle_timestamp demo_market = 5500"
  "market_price_oracle_id demo_parameters = 50" "stablecoin_definition_id demo_parameters = 224482"
  "collateral_definition_id demo_parameters = 40" "minimum_milliseconds_between_rate_updates demo_parameters = 1000"
  "maximum_oracle_price_age_milliseconds demo_parameters = 60000"
  "controller_proportional_gain demo_parameters = FIXED_POINT_ONE" "controller_integral_gain demo_parameters = FIXED_POINT_ONE"
  "controller_integral_term demo_redemption = 0" "last_updated_at demo_redemption = 5000"
  by (simp_all add: demo_market_def demo_parameters_def demo_redemption_def)

lemma demo_rate_reads [simp]:
  "usable_market_price_oracle plain_stable_api borsh_stable_env (read_acc (demo_rate_accounts t ! 3)) demo_parameters =
    Inr (Some demo_market)"
  "clock_timestamp_read plain_stable_api borsh_stable_env (read_acc (demo_rate_accounts t ! 4)) = Inr t"
  by (simp_all add: usable_market_price_oracle_def demo_rate_accounts_def required_account_def empty_account_def coded_def
      demo_account_def)

lemma demo_rate_price [simp]:
  "bound_redemption_price (compute_current_redemption_price_wide FIXED_POINT_ONE FIXED_POINT_ONE 5000 t) =
    Inr FIXED_POINT_ONE"
  using bound_redemption_price_total [of "widen512 FIXED_POINT_ONE"]
  by (auto simp: compute_current_redemption_price_wide_def wide_one word_unat_eq_iff)

lemma demo_rate_ready:
  "\<exists>v. redemption_rate_update_quote plain_stable_api borsh_stable_env (demo_rate_quote 6000) = reply v \<and>
    json_field ''canSubmit'' v = Some (JBool True)"
proof -
  have market: "oracle_price_to_fixed_point 18446744073709551616 = FIXED_POINT_ONE"
    by (simp add: word_unat_eq_iff unat_oracle_price_to_fixed_point)
  obtain out where "run_controller_tick FIXED_POINT_ONE FIXED_POINT_ONE 0 FIXED_POINT_ONE FIXED_POINT_ONE 1000 = Inr out"
    using run_controller_tick_cases(1) [of FIXED_POINT_ONE FIXED_POINT_ONE FIXED_POINT_ONE 1000 0 FIXED_POINT_ONE]
    by (auto simp: fits_i256_def)
  moreover have "rate_update_blockers demo_parameters demo_redemption (Some demo_market) 6000 = []"
    by (simp add: rate_update_blockers_def saturating_sub_def)
  ultimately show ?thesis
    unfolding redemption_rate_update_quote_def demo_rate_quote_def
    by (simp add: Let_def market saturating_sub_def id_fields_def)
qed

lemma demo_rate_blocked:
  "\<exists>v. redemption_rate_update_quote plain_stable_api borsh_stable_env (demo_rate_quote 5900) = reply v \<and>
    json_field ''canSubmit'' v = Some (JBool False)"
proof -
  have "rate_update_blockers demo_parameters demo_redemption (Some demo_market) 5900 \<noteq> []"
    by (simp add: rate_update_blockers_def saturating_sub_def)
  then show ?thesis
    unfolding redemption_rate_update_quote_def demo_rate_quote_def
    by (simp add: Let_def saturating_sub_def id_fields_def)
qed

end
