(* ===== verification/Stable_Api_Props.thy ===== *)
theory Stable_Api_Props
  imports Stable_Api_Borsh
begin

text \<open>
  Properties of the stablecoin's client module: what it plans the guest accepts, what it previews the
  guest does, and the numbers it shows are exact.
\<close>

declare borsh_codec_simps [simp del] ser_holding.simps [simp del] ser_definition.simps [simp del]

section \<open>Plans\<close>





section \<open>Previews\<close>

text \<open>
  C9. The preview of a rate update decides it.  If the preview of the accounts on the chain says it can be
  submitted, the guest accepts the update by any signer and writes a state with exactly the shown price,
  rate and integral term at the time of the clock; if the preview says it is blocked, the guest refuses.
\<close>

theorem rate_preview_decides_update:
  assumes "stable_client A E p" "validates_signers E" "\<forall>x. encode (redemption_codec E) x \<noteq> None"
    and "redemption_rate_update_quote A E r = reply v" "parse_program_id A (rqq_program r) = Inr p"
    and "reads_account A (rqq_parameters r) params_account" "reads_account A (rqq_redemption r) redemption_account"
      "reads_account A (rqq_oracle r) oracle_account" "reads_account A (rqq_clock r) clock"
    and "is_authorized caller"
  shows "if json_field ''canSubmit'' v = Some (JBool True)
    then \<exists>x d. stable_main E p UpdateRedemptionRate [caller, params_account, redemption_account, oracle_account, clock] =
        Inr ([Unchanged caller, Unchanged params_account, NewData redemption_account (Add 0) d,
          Unchanged oracle_account, Unchanged clock], []) \<and>
      encode (redemption_codec E) x = Some d \<and> last_updated_at x = clock_timestamp E (data (account clock)) \<and>
      json_field ''currentRedemptionPrice'' v = Some (JStr (decimal (unat (redemption_price_at_last_update x)))) \<and>
      json_field ''nextRedemptionRatePerMillisecond'' v =
        Some (JStr (decimal (unat (redemption_rate_per_millisecond x)))) \<and>
      json_field ''nextControllerIntegralTerm'' v = Some (JStr (signed_decimal (sint (controller_integral_term x))))
    else \<exists>e. stable_main E p UpdateRedemptionRate
      [caller, params_account, redemption_account, oracle_account, clock] = Inl e"
  by (rule stable_client.quoted_update [OF assms(1,4-10,2,3)])

theorem rate_preview_decides_update_witness:
  "\<exists>v d. redemption_rate_update_quote plain_stable_api borsh_stable_env (demo_rate_quote 6000) = reply v \<and>
    json_field ''canSubmit'' v = Some (JBool True) \<and>
    stable_main borsh_stable_env 6 UpdateRedemptionRate (demo_rate_accounts 6000) =
      Inr ([Unchanged (demo_rate_accounts 6000 ! 0), Unchanged params_acc, NewData redemption_acc (Add 0) d,
        Unchanged (demo_rate_accounts 6000 ! 3), Unchanged (demo_rate_accounts 6000 ! 4)], []) \<and>
    (\<exists>e. stable_main borsh_stable_env 6 UpdateRedemptionRate (demo_rate_accounts 5900) = Inl e)"
proof -
  have fits: "\<forall>x. encode (redemption_codec borsh_stable_env) x \<noteq> None"
    by simp
  note decides = rate_preview_decides_update [OF plain_stable.stable_client_axioms demo_stable_validates fits]
  obtain v where v: "redemption_rate_update_quote plain_stable_api borsh_stable_env (demo_rate_quote 6000) = reply v"
    "json_field ''canSubmit'' v = Some (JBool True)"
    using demo_rate_ready by blast
  obtain u where u: "redemption_rate_update_quote plain_stable_api borsh_stable_env (demo_rate_quote 5900) = reply u"
    "json_field ''canSubmit'' u = Some (JBool False)"
    using demo_rate_blocked by blast
  have "\<exists>d. stable_main borsh_stable_env 6 UpdateRedemptionRate (demo_rate_accounts 6000) =
      Inr ([Unchanged (demo_rate_accounts 6000 ! 0), Unchanged params_acc, NewData redemption_acc (Add 0) d,
        Unchanged (demo_rate_accounts 6000 ! 3), Unchanged (demo_rate_accounts 6000 ! 4)], [])"
    using decides [OF v(1), of params_acc redemption_acc "demo_rate_accounts 6000 ! 3" "demo_rate_accounts 6000 ! 4"
        "demo_rate_accounts 6000 ! 0"] v(2)
    by (auto simp: demo_rate_quote_def demo_rate_accounts_def)
  moreover have "\<exists>e. stable_main borsh_stable_env 6 UpdateRedemptionRate (demo_rate_accounts 5900) = Inl e"
    using decides [OF u(1), of params_acc redemption_acc "demo_rate_accounts 5900 ! 3" "demo_rate_accounts 5900 ! 4"
        "demo_rate_accounts 5900 ! 0"] u(2)
    by (auto simp: demo_rate_quote_def demo_rate_accounts_def)
  ultimately show ?thesis
    using v by blast
qed

text \<open>
  C35. The shown health is exact.  On globals within their bands and a position the preview replies for,
  the shown verdict is the inequality of unbounded natural numbers the guest decides by, at the time of
  the clock; the shown debt and collateral value are the exact ones.
\<close>

theorem shown_health_is_exact:
  assumes "position_health A E r = reply v" "decode_account A (hlr_position r) = Inr (i, a)"
    and "decode_account A (hlr_parameters r) = Inr (iq, aq)" "decode_account A (hlr_accumulator r) = Inr (iy, ay)"
    and "decode_account A (hlr_redemption r) = Inr (ir, ar)" "clock_timestamp_read A E (hlr_clock r) = Inr now"
    and "decode (position_codec E) (data a) = Some x" "decode (parameters_codec E) (data aq) = Some q"
    and "decode (accumulator_codec E) (data ay) = Some y" "decode (redemption_codec E) (data ar) = Some red"
    and "params_ok q" "accumulator_ok y" "redemption_ok red"
    and "rate = projected (accumulated_rate_at_last_accrual y) (stability_fee_per_millisecond q) (last_accrued_at y) now"
    and "price = projected (redemption_price_at_last_update red) (redemption_rate_per_millisecond red)
      (last_updated_at red) now"
  shows "json_field ''isCollateralized'' v = Some (JBool
      (unat (normalized_debt_amount x) * rate * price * unat (minimum_collateralization_ratio q)
        \<le> unat (collateral_amount x) * scale ^ 3)) \<and>
    json_field ''nominalDebt'' v = Some (JStr (decimal (unat (normalized_debt_amount x) * rate div scale))) \<and>
    json_field ''collateralValue'' v = Some (JStr (decimal (unat (collateral_amount x) * scale ^ 3)))"
  using health_exact [OF assms(1-13)] unfolding assms(14,15) position_covered_def covers_def by blast

theorem shown_health_is_exact_witness:
  "\<exists>v. position_health plain_stable_api borsh_stable_env demo_health = reply v \<and>
    json_field ''isCollateralized'' v = Some (JBool True) \<and> json_field ''nominalDebt'' v = Some (JStr (decimal 200))"
proof -
  obtain v where v: "position_health plain_stable_api borsh_stable_env demo_health = reply v"
    using demo_health_replies by blast
  have read: "decode_account plain_stable_api (hlr_position demo_health) = Inr (336002106, account position_acc)"
    "decode_account plain_stable_api (hlr_parameters demo_health) = Inr (224566, account params_acc)"
    "decode_account plain_stable_api (hlr_accumulator demo_health) = Inr (175489, account accumulator_acc)"
    "decode_account plain_stable_api (hlr_redemption demo_health) = Inr (154580, account redemption_acc)"
    "clock_timestamp_read plain_stable_api borsh_stable_env (hlr_clock demo_health) = Inr 6000"
    by (simp_all add: demo_health_def generate_accounts_def)
  show ?thesis
    using shown_health_is_exact [OF v read, of demo_position demo_parameters demo_accumulator demo_redemption] v
    by (simp add: projected_def)
qed

section \<open>Prices\<close>

text \<open>
  C37. The client prices debt as the guest does.  For every anchor, rate, pair of times and amount, the
  client's fallible arithmetic succeeds exactly when the guest's does not panic, with the same current
  rate and the same normalized debt for the amount.
\<close>

theorem client_prices_as_guest:
  "(checked_accumulator anchor rate since now,
    case checked_accumulator anchor rate since now of None \<Rightarrow> None | Some current \<Rightarrow> checked_debt_delta n current) =
   (catch_unwind (compute_current_accumulated_rate anchor rate since now),
    catch_unwind (attempt (compute_current_accumulated_rate anchor rate since now)
      (\<lambda>current. fixed_mul_div_ceil n FIXED_POINT_ONE current)))"
  by (simp add: checked_accumulator_guest checked_debt_delta_guest split: option.split)

end
