(* ===== verification/Token_Api.thy ===== *)
theory Token_Api
  imports Program_Api Token
begin

text \<open>
  The client module of the Token program (\<^theory_text>\<open>modules/token/ffi/src/api\<close>): the decoding of its accounts
  and one planner per instruction.  A \<^theory_text>\<open>TokenApiError\<close> is its code.  Names and texts of the chain are
  bytes, those of a request are characters; \<^theory_text>\<open>text_of\<close> and \<^theory_text>\<open>ascii\<close> pass from one to the other byte by
  byte, which is UTF-8 for ASCII texts.
\<close>

record token_api_env = program_api_env +
  token_to_vec :: "token_instruction \<Rightarrow> bytes result"
  token_from_slice :: "bytes \<Rightarrow> token_instruction option"
  binary_decodes :: "bytes \<Rightarrow> bool"

locale token_api_text = api_text A for A :: "'x token_api_env_scheme" +
  assumes token_round: "token_to_vec A i = Inr bs \<Longrightarrow> token_from_slice A bs = Some i"

definition parse_token_program_id :: "'x api_env_scheme \<Rightarrow> string \<Rightarrow> account_id result" where
  "parse_token_program_id A s = coded ''bad_request'' (parse_program_id A s)"

section \<open>decode.rs\<close>

record decode_account_request =
  dar_program :: string
  dar_account :: account_read

definition map_account_read_error :: "string \<Rightarrow> string" where
  "map_account_read_error e = (if e = ''account read failed'' then ''account_read_failed'' else ''bad_request'')"

definition parse_and_validate_account ::
  "'x api_env_scheme \<Rightarrow> account_read \<Rightarrow> account_id \<Rightarrow> (account_id \<times> bytes account) result" where
  "parse_and_validate_account A r token_program =
    (case decode_account A r of Inl e \<Rightarrow> Inl (map_account_read_error e) | Inr (i, a) \<Rightarrow>
     if program_owner a \<noteq> token_program then Inl ''token_program_mismatch'' else Inr (i, a))"

definition text_of :: "rust_string \<Rightarrow> string" where
  "text_of bs = map (\<lambda>b. char_of (unat b)) bs"

definition optional_id :: "'x api_env_scheme \<Rightarrow> string \<Rightarrow> account_id option \<Rightarrow> (string \<times> json) list" where
  "optional_id A key i =
    [(key, case i of None \<Rightarrow> JNull | Some j \<Rightarrow> JStr (base58_encode A j)),
     (key @ ''Hex'', case i of None \<Rightarrow> JNull | Some j \<Rightarrow> JStr (account_id_hex A j))]"

fun definition_json :: "'x api_env_scheme \<Rightarrow> account_id \<Rightarrow> token_definition \<Rightarrow> json" where
  "definition_json A i (DefFungible nm in_circulation meta minter) = JObj
    ([(''accountType'', JStr ''definition''), (''kind'', JStr ''fungible'')] @ id_fields A ''accountId'' i @
     [(''name'', JStr (text_of nm)), (''totalSupplyRaw'', JStr (decimal (unat in_circulation)))] @
     optional_id A ''metadataId'' meta @ optional_id A ''mintAuthorityId'' minter)"
| "definition_json A i (DefNonFungible nm printable meta) = JObj
    ([(''accountType'', JStr ''definition''), (''kind'', JStr ''nonFungible'')] @ id_fields A ''accountId'' i @
     [(''name'', JStr (text_of nm)), (''printableSupplyRaw'', JStr (decimal (unat printable)))] @
     id_fields A ''metadataId'' meta)"

fun holding_json :: "'x api_env_scheme \<Rightarrow> account_id \<Rightarrow> token_holding \<Rightarrow> json" where
  "holding_json A i (Fungible d b) = JObj
    ([(''accountType'', JStr ''holding''), (''kind'', JStr ''fungible'')] @ id_fields A ''accountId'' i @
     id_fields A ''definitionId'' d @ [(''balanceRaw'', JStr (decimal (unat b)))])"
| "holding_json A i (NftMaster d p) = JObj
    ([(''accountType'', JStr ''holding''), (''kind'', JStr ''nftMaster'')] @ id_fields A ''accountId'' i @
     id_fields A ''definitionId'' d @ [(''printBalanceRaw'', JStr (decimal (unat p)))])"
| "holding_json A i (NftPrintedCopy d ow) = JObj
    ([(''accountType'', JStr ''holding''), (''kind'', JStr ''nftPrintedCopy'')] @ id_fields A ''accountId'' i @
     id_fields A ''definitionId'' d @ [(''owned'', JBool ow)])"

fun metadata_standard_name :: "metadata_standard \<Rightarrow> string" where
  "metadata_standard_name Simple = ''simple''"
| "metadata_standard_name Expanded = ''expanded''"

definition metadata_json :: "'x api_env_scheme \<Rightarrow> account_id \<Rightarrow> token_metadata \<Rightarrow> json" where
  "metadata_json A i m = JObj
    ([(''accountType'', JStr ''metadata'')] @ id_fields A ''accountId'' i @
     id_fields A ''definitionId'' (metadata_definition_id m) @
     [(''standard'', JStr (metadata_standard_name (standard m))), (''uri'', JStr (text_of (uri m))),
      (''creators'', JStr (text_of (creators m))), (''primarySaleDateRaw'', JStr (decimal (unat (primary_sale_date m))))])"

definition decode_definition ::
  "'x api_env_scheme \<Rightarrow> (bytes, 'y) token_env_scheme \<Rightarrow> decode_account_request \<Rightarrow> json api" where
  "decode_definition A E r =
    question (parse_token_program_id A (dar_program r)) (\<lambda>program.
    question (parse_and_validate_account A (dar_account r) program) (\<lambda>(i, a).
    or_refuse ''invalid_definition_data'' (decode (definition_codec E) (data a)) (\<lambda>x. reply (definition_json A i x))))"

definition decode_holding ::
  "'x api_env_scheme \<Rightarrow> (bytes, 'y) token_env_scheme \<Rightarrow> decode_account_request \<Rightarrow> json api" where
  "decode_holding A E r =
    question (parse_token_program_id A (dar_program r)) (\<lambda>program.
    question (parse_and_validate_account A (dar_account r) program) (\<lambda>(i, a).
    or_refuse ''invalid_holding_data'' (decode (holding_codec E) (data a)) (\<lambda>x. reply (holding_json A i x))))"

definition decode_metadata ::
  "'x api_env_scheme \<Rightarrow> (bytes, 'y) token_env_scheme \<Rightarrow> decode_account_request \<Rightarrow> json api" where
  "decode_metadata A E r =
    question (parse_token_program_id A (dar_program r)) (\<lambda>program.
    question (parse_and_validate_account A (dar_account r) program) (\<lambda>(i, a).
    or_refuse ''invalid_metadata_data'' (decode (metadata_codec E) (data a)) (\<lambda>x. reply (metadata_json A i x))))"

text \<open>An account of unknown type must decode as exactly one of the three.\<close>

definition decode_token_account ::
  "'x api_env_scheme \<Rightarrow> (bytes, 'y) token_env_scheme \<Rightarrow> decode_account_request \<Rightarrow> json api" where
  "decode_token_account A E r =
    question (parse_token_program_id A (dar_program r)) (\<lambda>program.
    question (parse_and_validate_account A (dar_account r) program) (\<lambda>(i, a).
    (case (decode (definition_codec E) (data a), decode (holding_codec E) (data a), decode (metadata_codec E) (data a)) of
       (Some x, None, None) \<Rightarrow> reply (definition_json A i x)
     | (None, Some x, None) \<Rightarrow> reply (holding_json A i x)
     | (None, None, Some x) \<Rightarrow> reply (metadata_json A i x)
     | (None, None, None) \<Rightarrow> refusal ''invalid_account_data''
     | _ \<Rightarrow> refusal ''ambiguous_account_type'')))"

section \<open>plan.rs: arguments\<close>

definition parse_token_id :: "'x api_env_scheme \<Rightarrow> string \<Rightarrow> string \<Rightarrow> account_id result" where
  "parse_token_id A v label = coded ''invalid_account_id'' (account_id_from_hex A v label)"

definition parse_amount_string :: "string \<Rightarrow> u128 result" where
  "parse_amount_string v =
    (let trimmed = trim v in
     if trimmed = [] then Inl ''bad_amount''
     else (let normalized = trim (if 2 \<le> length trimmed \<and> hd trimmed = CHR 0x22 \<and> last trimmed = CHR 0x22
                                  then butlast (tl trimmed) else trimmed) in
       if normalized = [] \<or> \<not> list_all is_ascii_digit normalized then Inl ''bad_amount''
       else coded ''bad_amount'' (parse_uint normalized)))"

definition parse_amount :: "json \<Rightarrow> u128 result" where
  "parse_amount v = (case v of
      JStr raw \<Rightarrow> parse_amount_string raw
    | JNum n \<Rightarrow> if 0 \<le> n \<and> n < 2 ^ 64 then Inr (word_of_int n) else Inl ''bad_amount''
    | _ \<Rightarrow> Inl ''bad_amount'')"

definition parse_metadata_standard :: "string \<Rightarrow> metadata_standard result" where
  "parse_metadata_standard v =
    (let s = to_ascii_lowercase (trim v) in
     if s = ''simple'' then Inr Simple else if s = ''expanded'' then Inr Expanded
     else Inl ''invalid_metadata_standard'')"

definition parse_authority_sentinel :: "'x api_env_scheme \<Rightarrow> string \<Rightarrow> account_id \<Rightarrow> account_id option result" where
  "parse_authority_sentinel A v self_id =
    (let trimmed = trim v in
     if trimmed = [] then Inl ''invalid_authority''
     else if to_ascii_lowercase trimmed = ''none'' then Inr None
     else if to_ascii_lowercase trimmed = ''self'' then
       (if self_id = 0 then Inl ''invalid_authority'' else Inr (Some self_id))
     else (case coded ''invalid_authority'' (parse_token_id A trimmed ''authority id'') of Inl e \<Rightarrow> Inl e
       | Inr i \<Rightarrow> if i = 0 then Inl ''invalid_authority'' else Inr (Some i)))"

definition token_plan ::
  "'x token_api_env_scheme \<Rightarrow> account_id \<Rightarrow> account_id list \<Rightarrow> bool list \<Rightarrow> token_instruction \<Rightarrow> json api" where
  "token_plan A program ids signing i =
    question (coded ''backend_error'' (token_to_vec A i)) (\<lambda>instruction.
    reply (plan_response A (account_id_hex A program) ids signing instruction))"

section \<open>plan.rs: operations\<close>

definition image_program_id :: "'x token_api_env_scheme \<Rightarrow> string \<Rightarrow> json api" where
  "image_program_id A elf =
    question (coded ''bad_request'' (hex_decode A elf)) (\<lambda>bs.
    refuse (\<not> binary_decodes A bs) ''bad_request'' (
    or_refuse ''backend_error'' (binary_image_id A bs) (\<lambda>i.
    reply (JObj [(''imageId'', JStr (hex_encode A (to_bytes i))), (''imageIdBase58'', JStr (base58_encode A i))]))))"

record create_fungible_request =
  cfr_program :: string
  cfr_definition :: string
  cfr_holding :: string
  cfr_name :: string
  cfr_supply :: json
  cfr_authority :: string

record create_with_metadata_request = create_fungible_request +
  cmr_metadata :: string
  cmr_standard :: string
  cmr_uri :: string
  cmr_creators :: string

record create_nft_request =
  cnr_program :: string
  cnr_definition :: string
  cnr_holding :: string
  cnr_metadata :: string
  cnr_name :: string
  cnr_supply :: json
  cnr_standard :: string
  cnr_uri :: string
  cnr_creators :: string

definition create_fungible_plan ::
  "'x token_api_env_scheme \<Rightarrow> 'r create_fungible_request_scheme \<Rightarrow> json api" where
  "create_fungible_plan A r =
    question (parse_token_program_id A (cfr_program r)) (\<lambda>program.
    question (parse_token_id A (cfr_definition r) ''definition target id'') (\<lambda>defn.
    question (parse_token_id A (cfr_holding r) ''holding target id'') (\<lambda>target.
    question (parse_amount (cfr_supply r)) (\<lambda>amount.
    question (parse_authority_sentinel A (cfr_authority r) defn) (\<lambda>minter.
    token_plan A program [defn, target] [True, True]
      (NewFungibleDefinition (ascii (cfr_name r)) amount minter))))))"

definition create_fungible_with_metadata_plan ::
  "'x token_api_env_scheme \<Rightarrow> create_with_metadata_request \<Rightarrow> json api" where
  "create_fungible_with_metadata_plan A r =
    question (parse_token_program_id A (cfr_program r)) (\<lambda>program.
    question (parse_token_id A (cfr_definition r) ''definition target id'') (\<lambda>defn.
    question (parse_token_id A (cfr_holding r) ''holding target id'') (\<lambda>target.
    question (parse_token_id A (cmr_metadata r) ''metadata target id'') (\<lambda>meta.
    question (parse_amount (cfr_supply r)) (\<lambda>amount.
    question (parse_authority_sentinel A (cfr_authority r) defn) (\<lambda>minter.
    question (parse_metadata_standard (cmr_standard r)) (\<lambda>std.
    token_plan A program [defn, target, meta] [True, True, True]
      (NewDefinitionWithMetadata (NewFungible (ascii (cfr_name r)) amount minter)
        \<lparr> new_standard = std, new_uri = ascii (cmr_uri r), new_creators = ascii (cmr_creators r) \<rparr>))))))))"

definition create_non_fungible_plan :: "'x token_api_env_scheme \<Rightarrow> create_nft_request \<Rightarrow> json api" where
  "create_non_fungible_plan A r =
    question (parse_token_program_id A (cnr_program r)) (\<lambda>program.
    question (parse_token_id A (cnr_definition r) ''definition target id'') (\<lambda>defn.
    question (parse_token_id A (cnr_holding r) ''master holding target id'') (\<lambda>master.
    question (parse_token_id A (cnr_metadata r) ''metadata target id'') (\<lambda>meta.
    question (parse_amount (cnr_supply r)) (\<lambda>printable.
    question (parse_metadata_standard (cnr_standard r)) (\<lambda>std.
    token_plan A program [defn, master, meta] [True, True, True]
      (NewDefinitionWithMetadata (NewNonFungible (ascii (cnr_name r)) printable)
        \<lparr> new_standard = std, new_uri = ascii (cnr_uri r), new_creators = ascii (cnr_creators r) \<rparr>)))))))"

record holding_plan_request =
  hpr_program :: string
  hpr_definition :: string
  hpr_holding :: string

record amount_plan_request = holding_plan_request +
  apr_amount :: json

record mint_plan_request = amount_plan_request +
  mpr_fresh :: bool

record mint_with_authority_request = mint_plan_request +
  mar_authority :: string

record transfer_plan_request =
  tpr_program :: string
  tpr_sender :: string
  tpr_recipient :: string
  tpr_amount :: json
  tpr_fresh :: bool

record authority_plan_request =
  aur_program :: string
  aur_definition :: string
  aur_new :: string

record authority_with_authority_request = authority_plan_request +
  aar_authority :: string

record print_plan_request =
  prr_program :: string
  prr_master :: string
  prr_printed :: string

definition initialize_holding_plan :: "'x token_api_env_scheme \<Rightarrow> 'r holding_plan_request_scheme \<Rightarrow> json api" where
  "initialize_holding_plan A r =
    question (parse_token_program_id A (hpr_program r)) (\<lambda>program.
    question (parse_token_id A (hpr_definition r) ''definition id'') (\<lambda>defn.
    question (parse_token_id A (hpr_holding r) ''holding target id'') (\<lambda>target.
    token_plan A program [defn, target] [False, True] InitializeAccount)))"

definition transfer_plan :: "'x token_api_env_scheme \<Rightarrow> transfer_plan_request \<Rightarrow> json api" where
  "transfer_plan A r =
    question (parse_token_program_id A (tpr_program r)) (\<lambda>program.
    question (parse_token_id A (tpr_sender r) ''sender holding id'') (\<lambda>sender.
    question (parse_token_id A (tpr_recipient r) ''recipient holding id'') (\<lambda>recipient.
    question (parse_amount (tpr_amount r)) (\<lambda>amount.
    token_plan A program [sender, recipient] [True, tpr_fresh r] (Transfer amount)))))"

definition burn_plan :: "'x token_api_env_scheme \<Rightarrow> 'r amount_plan_request_scheme \<Rightarrow> json api" where
  "burn_plan A r =
    question (parse_token_program_id A (hpr_program r)) (\<lambda>program.
    question (parse_token_id A (hpr_definition r) ''definition id'') (\<lambda>defn.
    question (parse_token_id A (hpr_holding r) ''holding id'') (\<lambda>holding.
    question (parse_amount (apr_amount r)) (\<lambda>amount.
    token_plan A program [defn, holding] [False, True] (Burn amount)))))"

definition mint_plan :: "'x token_api_env_scheme \<Rightarrow> 'r mint_plan_request_scheme \<Rightarrow> json api" where
  "mint_plan A r =
    question (parse_token_program_id A (hpr_program r)) (\<lambda>program.
    question (parse_token_id A (hpr_definition r) ''definition id'') (\<lambda>defn.
    question (parse_token_id A (hpr_holding r) ''holding id'') (\<lambda>holding.
    question (parse_amount (apr_amount r)) (\<lambda>amount.
    token_plan A program [defn, holding] [True, mpr_fresh r] (Mint amount)))))"

definition mint_with_authority_plan :: "'x token_api_env_scheme \<Rightarrow> mint_with_authority_request \<Rightarrow> json api" where
  "mint_with_authority_plan A r =
    question (parse_token_program_id A (hpr_program r)) (\<lambda>program.
    question (parse_token_id A (hpr_definition r) ''definition id'') (\<lambda>defn.
    question (parse_token_id A (hpr_holding r) ''holding id'') (\<lambda>holding.
    question (parse_token_id A (mar_authority r) ''authority id'') (\<lambda>minter.
    refuse (minter = 0) ''invalid_authority'' (
    question (parse_amount (apr_amount r)) (\<lambda>amount.
    token_plan A program [defn, holding, minter] [False, mpr_fresh r, True] (MintWithAuthority amount)))))))"

definition set_authority_plan :: "'x token_api_env_scheme \<Rightarrow> 'r authority_plan_request_scheme \<Rightarrow> json api" where
  "set_authority_plan A r =
    question (parse_token_program_id A (aur_program r)) (\<lambda>program.
    question (parse_token_id A (aur_definition r) ''definition id'') (\<lambda>defn.
    question (parse_authority_sentinel A (aur_new r) defn) (\<lambda>new.
    token_plan A program [defn] [True] (SetAuthority new))))"

definition set_authority_with_authority_plan ::
  "'x token_api_env_scheme \<Rightarrow> authority_with_authority_request \<Rightarrow> json api" where
  "set_authority_with_authority_plan A r =
    question (parse_token_program_id A (aur_program r)) (\<lambda>program.
    question (parse_token_id A (aur_definition r) ''definition id'') (\<lambda>defn.
    question (parse_token_id A (aar_authority r) ''authority id'') (\<lambda>minter.
    refuse (minter = 0) ''invalid_authority'' (
    question (parse_authority_sentinel A (aur_new r) defn) (\<lambda>new.
    token_plan A program [defn, minter] [False, True] (SetAuthorityWithAuthority new))))))"

definition print_nft_plan :: "'x token_api_env_scheme \<Rightarrow> print_plan_request \<Rightarrow> json api" where
  "print_nft_plan A r =
    question (parse_token_program_id A (prr_program r)) (\<lambda>program.
    question (parse_token_id A (prr_master r) ''master holding id'') (\<lambda>master.
    question (parse_token_id A (prr_printed r) ''printed holding target id'') (\<lambda>printed.
    token_plan A program [master, printed] [True, True] PrintNft)))"

end
