(* ===== verification/Token_Api_Props.thy ===== *)
theory Token_Api_Props
  imports Token_Api Token_Props
begin

text \<open>
  The Token program's client module against the guest: the signatures its plans ask for are all the
  guest needs, and an account it shows is what the program stored.
\<close>

declare borsh_codec_simps [simp del] ser_holding.simps [simp del] ser_definition.simps [simp del]

section \<open>Plans\<close>

text \<open>The replies of the planners.\<close>

inductive planned_token :: "'x token_api_env_scheme \<Rightarrow> json \<Rightarrow> bool" for A where
  "create_fungible_plan A (r1 :: create_fungible_request) = reply s \<Longrightarrow> planned_token A s"
| "create_fungible_with_metadata_plan A r2 = reply s \<Longrightarrow> planned_token A s"
| "create_non_fungible_plan A r3 = reply s \<Longrightarrow> planned_token A s"
| "initialize_holding_plan A (r4 :: holding_plan_request) = reply s \<Longrightarrow> planned_token A s"
| "transfer_plan A r5 = reply s \<Longrightarrow> planned_token A s"
| "burn_plan A (r6 :: amount_plan_request) = reply s \<Longrightarrow> planned_token A s"
| "mint_plan A (r7 :: mint_plan_request) = reply s \<Longrightarrow> planned_token A s"
| "mint_with_authority_plan A r8 = reply s \<Longrightarrow> planned_token A s"
| "set_authority_plan A (r9 :: authority_plan_request) = reply s \<Longrightarrow> planned_token A s"
| "set_authority_with_authority_plan A r10 = reply s \<Longrightarrow> planned_token A s"
| "print_nft_plan A r11 = reply s \<Longrightarrow> planned_token A s"

text \<open>The accounts whose signature the guest checks are asked to sign.\<close>

definition plan_signs :: "token_instruction \<Rightarrow> bool list \<Rightarrow> bool" where
  "plan_signs i signing = list_all2 (\<lambda>required needed. required \<longrightarrow> needed)
    (case i of
       Transfer n \<Rightarrow> [True, False]
     | NewFungibleDefinition nm n w \<Rightarrow> [True, True]
     | NewDefinitionWithMetadata d m \<Rightarrow> [True, True, True]
     | InitializeAccount \<Rightarrow> [False, True]
     | Burn n \<Rightarrow> [False, True]
     | Mint n \<Rightarrow> [True, False]
     | MintWithAuthority n \<Rightarrow> [False, False, True]
     | PrintNft \<Rightarrow> [True, True]
     | SetAuthority w \<Rightarrow> [True]
     | SetAuthorityWithAuthority w \<Rightarrow> [False, True]) signing"

lemma token_plan_reply [success]:
  "token_plan A p ids signing i = reply s \<longleftrightarrow>
    (\<exists>bs. token_to_vec A i = Inr bs \<and> s = plan_response A (account_id_hex A p) ids signing bs)"
  by (auto simp: token_plan_def coded_def success split: sum.splits)

lemmas token_plan_defs = create_fungible_plan_def create_fungible_with_metadata_plan_def create_non_fungible_plan_def
  initialize_holding_plan_def transfer_plan_def burn_plan_def mint_plan_def mint_with_authority_plan_def
  set_authority_plan_def set_authority_with_authority_plan_def print_nft_plan_def

lemma planned_token_run:
  assumes "planned_token A s"
  shows "\<exists>i p ids signing bs. token_to_vec A i = Inr bs \<and> plan_signs i signing \<and>
    s = plan_response A p ids signing bs"
  using assms by (induction rule: planned_token.induct) (force simp: token_plan_defs success plan_signs_def)+

text \<open>The same accounts with every signature.\<close>

definition with_signature :: "'d account_with_metadata \<Rightarrow> 'd account_with_metadata" where
  "with_signature a = a \<lparr> is_authorized := True \<rparr>"

primrec signed_diff :: "'d state_diff \<Rightarrow> 'd state_diff" where
  "signed_diff (Unchanged a) = Unchanged (with_signature a)"
| "signed_diff (NewData a b d) = NewData (with_signature a) b d"

lemma signed_simps [simp]:
  "account (with_signature a) = account a" "account_id (with_signature a) = account_id a" "is_authorized (with_signature a)"
  by (simp_all add: with_signature_def)

abbreviation signed_outcome :: "'d state_diff list outcome \<Rightarrow> 'd state_diff list outcome" where
  "signed_outcome m \<equiv> attempt m (\<lambda>ds. Inr (map signed_diff ds))"

lemmas chain_defs = attempt_def expect_def ensure_def

lemma signed_transfer: "is_authorized a \<Longrightarrow> transfer E (with_signature a) (with_signature b) n = signed_outcome (transfer E a b n)"
  unfolding transfer_def chain_defs by (simp split: option.split sum.split)

lemma signed_mint:
  assumes "is_authorized (authority_ref a w)"
  shows "mint_inner E (with_signature a) (with_signature b) (map_option with_signature w) n p = signed_outcome (mint_inner E a b w n p)"
proof -
  have ref: "authority_ref (with_signature a) (map_option with_signature w) = with_signature (authority_ref a w)"
    by (cases w) (simp_all add: authority_ref_def)
  have "check_mint_authority (with_signature a) (map_option with_signature w) f = check_mint_authority a w f" for f
    using assms by (cases f) (simp_all add: ref chain_defs split: option.split)
  then show ?thesis
    unfolding mint_inner_def chain_defs by (simp split: option.split sum.split)
qed

lemma signed_set_authority:
  assumes "is_authorized (authority_ref a w)"
  shows "set_authority_inner E (with_signature a) (map_option with_signature w) new p = signed_outcome (set_authority_inner E a w new p)"
proof -
  have ref: "authority_ref (with_signature a) (map_option with_signature w) = with_signature (authority_ref a w)"
    by (cases w) (simp_all add: authority_ref_def)
  have "rotate_authority (with_signature a) (map_option with_signature w) new f = rotate_authority a w new f" for f
    using assms by (cases f) (simp_all add: ref chain_defs split: option.split)
  then show ?thesis
    unfolding set_authority_inner_def chain_defs by (simp split: option.split sum.split)
qed

lemma signed_burn: "is_authorized b \<Longrightarrow> burn E (with_signature a) (with_signature b) n = signed_outcome (burn E a b n)"
  unfolding burn_def chain_defs by (simp split: option.split sum.split)

lemma signed_initialize:
  "is_authorized b \<Longrightarrow> initialize_account E (with_signature a) (with_signature b) p = signed_outcome (initialize_account E a b p)"
  unfolding initialize_account_def chain_defs by (simp split: option.split sum.split)

lemma signed_print:
  "is_authorized a \<Longrightarrow> is_authorized b \<Longrightarrow> print_nft E (with_signature a) (with_signature b) = signed_outcome (print_nft E a b)"
  unfolding print_nft_def chain_defs by (auto split: option.splits sum.splits token_holding.splits)

lemma signed_new_fungible:
  "is_authorized a \<Longrightarrow> is_authorized b \<Longrightarrow>
    new_fungible_definition E (with_signature a) (with_signature b) nm n w = signed_outcome (new_fungible_definition E a b nm n w)"
  unfolding new_fungible_definition_def chain_defs by (simp split: option.split sum.split)

lemma signed_new_with_metadata:
  "is_authorized a \<Longrightarrow> is_authorized b \<Longrightarrow> is_authorized c \<Longrightarrow>
    new_definition_with_metadata E (with_signature a) (with_signature b) (with_signature c) d m =
    signed_outcome (new_definition_with_metadata E a b c d m)"
  unfolding new_definition_with_metadata_def chain_defs by (simp split: option.split sum.split)

text \<open>Authority rests with the definition or with the account given beside it.\<close>

lemmas signed_by_definition = signed_mint [of a None for a, unfolded authority_ref_def option.map option.case]
  signed_set_authority [of a None for a, unfolded authority_ref_def option.map option.case]

lemmas signed_by_account = signed_mint [of a "Some w" for a w, unfolded authority_ref_def option.map option.case]
  signed_set_authority [of a "Some w" for a w, unfolded authority_ref_def option.map option.case]

lemmas signed_handlers = signed_transfer signed_by_definition signed_by_account signed_burn signed_initialize
  signed_print signed_new_fungible signed_new_with_metadata

text \<open>A guest that is given the signatures of a plan behaves as if everyone had signed.\<close>

lemma signatures_suffice:
  assumes "validates_flags E" "plan_signs i signing" "list_all2 (\<lambda>needed a. needed \<longrightarrow> is_authorized a) signing accounts"
  shows "token_main E p i (map with_signature accounts) = signed_outcome (token_main E p i accounts)"
proof -
  have valid: "spel_validate E xs = list_all (\<lambda>(fs, a). (Signer \<in> set fs \<longrightarrow> is_authorized a) \<and>
      (Init \<in> set fs \<longrightarrow> account a = account_default E)) xs" for xs
    using assms(1) by (simp add: validates_flags_def)
  show ?thesis
    using assms(2,3)
    by (cases i) (auto simp: plan_signs_def list_all2_Cons1 token_main_def valid ensure_def signed_handlers
        mint_def mint_with_authority_def set_authority_def set_authority_with_authority_def)
qed

section \<open>The Borsh format of the instructions\<close>

fun ser_new_definition :: "new_token_definition \<Rightarrow> bytes" where
  "ser_new_definition (NewFungible nm n w) = 0 # ser_string nm @ to_le_bytes n @ ser_option to_bytes w"
| "ser_new_definition (NewNonFungible nm n) = 1 # ser_string nm @ to_le_bytes n"

fun de_new_definition :: "new_token_definition parser" where
  "de_new_definition [] = None"
| "de_new_definition (tag # bs) =
    (if tag = 0 then de_bind de_string (\<lambda>nm. de_bind de_word (\<lambda>n. de_bind (de_option de_id) (\<lambda>w.
       de_return (NewFungible nm n w)))) bs
     else if tag = 1 then de_bind de_string (\<lambda>nm. de_bind de_word (\<lambda>n. de_return (NewNonFungible nm n))) bs
     else None)"

definition ser_new_metadata :: "new_token_metadata \<Rightarrow> bytes" where
  "ser_new_metadata m = ser_standard (new_standard m) @ ser_string (new_uri m) @ ser_string (new_creators m)"

definition de_new_metadata :: "new_token_metadata parser" where
  "de_new_metadata = de_bind de_standard (\<lambda>st. de_bind de_string (\<lambda>u. de_bind de_string (\<lambda>c.
    de_return \<lparr> new_standard = st, new_uri = u, new_creators = c \<rparr>)))"

interpretation borsh_new_definition: borsh_type ser_new_definition de_new_definition
proof
  show "de_new_definition (ser_new_definition x @ rest) = Some (x, rest)"
    if "length (ser_new_definition x) < 2 ^ 32" for x rest
    using that by (cases x) (simp_all add: borsh)
qed

interpretation borsh_new_metadata: borsh_type ser_new_metadata de_new_metadata
proof
  have st: "de_standard (ser_standard x @ r) = Some (x, r)" for x r
    by (cases x) simp_all
  show "de_new_metadata (ser_new_metadata x @ rest) = Some (x, rest)"
    if "length (ser_new_metadata x) < 2 ^ 32" for x rest
    using that by (simp add: borsh st ser_new_metadata_def de_new_metadata_def)
qed

declare ser_new_definition.simps [simp del] de_new_definition.simps [simp del]

fun ser_token :: "token_instruction \<Rightarrow> bytes" where
  "ser_token (Transfer n) = 0 # to_le_bytes n"
| "ser_token (NewFungibleDefinition nm n w) = 1 # ser_string nm @ to_le_bytes n @ ser_option to_bytes w"
| "ser_token (NewDefinitionWithMetadata d m) = 2 # ser_new_definition d @ ser_new_metadata m"
| "ser_token InitializeAccount = [3]"
| "ser_token (Burn n) = 4 # to_le_bytes n"
| "ser_token (Mint n) = 5 # to_le_bytes n"
| "ser_token (MintWithAuthority n) = 6 # to_le_bytes n"
| "ser_token PrintNft = [7]"
| "ser_token (SetAuthority w) = 8 # ser_option to_bytes w"
| "ser_token (SetAuthorityWithAuthority w) = 9 # ser_option to_bytes w"

fun de_token :: "token_instruction parser" where
  "de_token [] = None"
| "de_token (tag # bs) =
    (if tag = 0 then de_bind de_word (\<lambda>n. de_return (Transfer n)) bs
     else if tag = 1 then de_bind de_string (\<lambda>nm. de_bind de_word (\<lambda>n. de_bind (de_option de_id) (\<lambda>w.
       de_return (NewFungibleDefinition nm n w)))) bs
     else if tag = 2 then de_bind de_new_definition (\<lambda>d. de_bind de_new_metadata (\<lambda>m.
       de_return (NewDefinitionWithMetadata d m))) bs
     else if tag = 3 then Some (InitializeAccount, bs)
     else if tag = 4 then de_bind de_word (\<lambda>n. de_return (Burn n)) bs
     else if tag = 5 then de_bind de_word (\<lambda>n. de_return (Mint n)) bs
     else if tag = 6 then de_bind de_word (\<lambda>n. de_return (MintWithAuthority n)) bs
     else if tag = 7 then Some (PrintNft, bs)
     else if tag = 8 then de_bind (de_option de_id) (\<lambda>w. de_return (SetAuthority w)) bs
     else if tag = 9 then de_bind (de_option de_id) (\<lambda>w. de_return (SetAuthorityWithAuthority w)) bs
     else None)"

interpretation borsh_token_instruction: borsh_type ser_token de_token
proof
  show "de_token (ser_token i @ rest) = Some (i, rest)" if "length (ser_token i) < 2 ^ 32" for i rest
    using that by (cases i) (simp_all add: borsh borsh_new_definition.parse borsh_new_metadata.parse)
qed

definition plain_token_api :: token_api_env where
  "plain_token_api = program_api_env.extend plain_program_api
    \<lparr> token_to_vec = (\<lambda>i. if length (ser_token i) < 2 ^ 32 then Inr (ser_token i) else Inl ''too long''),
      token_from_slice = (\<lambda>bs. case de_token bs of Some (i, []) \<Rightarrow> Some i | _ \<Rightarrow> None),
      binary_decodes = (\<lambda>bs. length bs = 32) \<rparr>"

lemma plain_token_simps [simp]:
  "hex_encode plain_token_api = hex_text" "hex_decode plain_token_api = hex_bytes"
  "base58_encode plain_token_api = base58_encode plain_api" "base58_decode plain_token_api = base58_decode plain_api"
  "data_from_bytes plain_token_api = Inr"
  "token_to_vec plain_token_api i = (if length (ser_token i) < 2 ^ 32 then Inr (ser_token i) else Inl ''too long'')"
  by (simp_all add: plain_token_api_def plain_program_api_def program_api_env.extend_def api_env.extend_def plain_api_def)

lemma plain_token_from_slice:
  "length (ser_token i) < 2 ^ 32 \<Longrightarrow> token_from_slice plain_token_api (ser_token i) = Some i"
  by (simp add: plain_token_api_def program_api_env.extend_def borsh_token_instruction.parse_exact)

interpretation plain_token: token_api_text plain_token_api
proof unfold_locales
  show "base58_decode plain_token_api (base58_encode plain_token_api i) = Inr i" for i
    using plain.base58_round by simp
  show "token_from_slice plain_token_api bs = Some i" if "token_to_vec plain_token_api i = Inr bs" for i bs
    using that by (auto simp: plain_token_from_slice split: if_splits)
qed (auto simp: hex_bytes_text hex_text_shape)

lemma token_validates: "validates_flags borsh_env"
  by (simp add: validates_flags_def flags_hold)

section \<open>Signatures and readings\<close>

text \<open>
  C38. The planned signatures are enough.  If the client plans any of the eleven instructions and the
  accounts of the plan are presented with the signatures it asks for, then the guest does exactly what it
  would do if every account had signed: it panics with the same message or writes the same data.
\<close>

theorem planned_signatures_suffice:
  assumes "token_api_text A" "validates_flags E" "planned_token A s" "presents A s accounts bs"
    and "token_from_slice A bs = Some i"
  shows "token_main E p i (map with_signature accounts) =
    (case token_main E p i accounts of Inl e \<Rightarrow> Inl e | Inr ds \<Rightarrow> Inr (map signed_diff ds))"
proof -
  obtain j q ids signing bs' where run: "token_to_vec A j = Inr bs'" "plan_signs j signing"
    "s = plan_response A q ids signing bs'"
    using planned_token_run [OF assms(3)] by blast
  have "bs = bs'" "list_all2 (\<lambda>needed a. needed \<longrightarrow> is_authorized a) signing accounts"
    using assms(4) token_api_text.axioms(1) [OF assms(1)] by (simp_all add: run(3) api_text.presents_response)
  moreover have "i = j"
    using token_api_text.token_round [OF assms(1) run(1)] assms(5) calculation(1) by simp
  ultimately show ?thesis
    using signatures_suffice [OF assms(2)] run(2) by (simp add: attempt_def)
qed

theorem planned_signatures_suffice_witness:
  "token_main borsh_env 2 (Burn 40) (map with_signature (demo_accounts 100)) =
    Inr (map signed_diff (demo_burn 100 40))"
proof -
  let ?A = plain_token_api
  let ?r = "\<lparr> hpr_program = account_id_hex ?A 2, hpr_definition = account_id_hex ?A 10,
    hpr_holding = account_id_hex ?A 11, apr_amount = JNum 40 \<rparr>"
  let ?s = "plan_response ?A (account_id_hex ?A 2) [10, 11] [False, True] (ser_token (Burn 40))"
  have "burn_plan ?A ?r = reply ?s"
    by (simp add: burn_plan_def parse_token_program_id_def parse_token_id_def coded_def parse_amount_def token_plan_def)
  then have planned: "planned_token ?A ?s"
    by (rule planned_token.intros(6))
  have presented: "presents ?A ?s (demo_accounts 100) (ser_token (Burn 40))"
    by (simp add: plain_token.presents_response demo_accounts_def)
  have decoded: "token_from_slice ?A (ser_token (Burn 40)) = Some (Burn 40)"
    by (rule plain_token_from_slice) simp
  show ?thesis
    using planned_signatures_suffice [OF plain_token.token_api_text_axioms token_validates planned presented decoded, of 2]
      demo_burn_runs [of 40 100] by simp
qed

text \<open>
  C39. A shown account is the stored one.  An account of the Token program is shown as the definition,
  holding or metadata it was written as, or refused as ambiguous, and it is refused exactly if its
  bytes also decode as another of the three types; it is never shown as something else.
\<close>

theorem shown_account_is_stored:
  assumes "codec_laws (definition_codec E)" "codec_laws (holding_codec E)" "codec_laws (metadata_codec E)"
    and "decode_account A (dar_account r) = Inr (i, a)" "parse_program_id A (dar_program r) = Inr (program_owner a)"
  shows "(encode (definition_codec E) f = Some (data a) \<longrightarrow> decode_token_account A E r =
      (if decode (holding_codec E) (data a) = None \<and> decode (metadata_codec E) (data a) = None
       then reply (definition_json A i f) else refusal ''ambiguous_account_type'')) \<and>
    (encode (holding_codec E) h = Some (data a) \<longrightarrow> decode_token_account A E r =
      (if decode (definition_codec E) (data a) = None \<and> decode (metadata_codec E) (data a) = None
       then reply (holding_json A i h) else refusal ''ambiguous_account_type'')) \<and>
    (encode (metadata_codec E) m = Some (data a) \<longrightarrow> decode_token_account A E r =
      (if decode (definition_codec E) (data a) = None \<and> decode (holding_codec E) (data a) = None
       then reply (metadata_json A i m) else refusal ''ambiguous_account_type''))"
proof -
  have read: "parse_token_program_id A (dar_program r) = Inr (program_owner a)"
    "parse_and_validate_account A (dar_account r) (program_owner a) = Inr (i, a)"
    using assms(4,5) by (simp_all add: parse_token_program_id_def parse_and_validate_account_def coded_def)
  show ?thesis
    using codec_laws.round_trip [OF assms(1), of f] codec_laws.round_trip [OF assms(2), of h]
      codec_laws.round_trip [OF assms(3), of m]
    by (auto simp: decode_token_account_def read split: option.split)
qed

theorem shown_account_is_stored_witness:
  "decode_token_account plain_token_api borsh_env \<lparr> dar_program = account_id_hex plain_token_api 2,
      dar_account = read_of plain_token_api 11 (stored (ser_holding (Fungible 10 100))) \<rparr> =
    reply (holding_json plain_token_api 11 (Fungible 10 100)) \<and>
   (\<exists>D. decode (holding_codec borsh_env) (ser_definition (DefFungible (replicate 26 65) 1000000 None None)) =
      Some (Fungible D 15)) \<and>
   decode_token_account plain_token_api borsh_env \<lparr> dar_program = account_id_hex plain_token_api 2,
      dar_account = read_of plain_token_api 7 (stored (ser_definition (DefFungible (replicate 26 65) 1000000 None None))) \<rparr> =
    refusal ''ambiguous_account_type''"
proof -
  let ?f = "DefFungible (replicate 26 65) 1000000 None None"
  let ?r = "\<lambda>i d. \<lparr> dar_program = account_id_hex plain_token_api 2, dar_account = read_of plain_token_api i (stored d) \<rparr>"
  have laws: "codec_laws (definition_codec borsh_env)" "codec_laws (holding_codec borsh_env)" "codec_laws (metadata_codec borsh_env)"
    using borsh_definition.codec borsh_holding.codec borsh_metadata.codec by simp_all
  have read: "decode_account plain_token_api (dar_account (?r i d)) = Inr (i, stored d)" for i d
    using plain_token.read_round [of "stored d" i] by simp
  note shown = shown_account_is_stored [OF laws read]
  have "decode (borsh_codec ser_metadata de_metadata) (ser_holding (Fungible 10 100)) = None"
    by (simp add: borsh_codec_simps ser_holding.simps de_metadata_def de_bind_def de_id_def to_bytes_def to_be_bytes_def
        to_le_bytes_def nat_to_le_numeral from_le_bytes_def)
  then have "decode_token_account plain_token_api borsh_env (?r 11 (ser_holding (Fungible 10 100))) =
      reply (holding_json plain_token_api 11 (Fungible 10 100))"
    using shown [of 11 "ser_holding (Fungible 10 100)"] by simp
  moreover obtain D where D: "decode (borsh_codec ser_holding de_holding) (ser_definition ?f) = Some (Fungible D 15)"
    using definition_reads_as_holding [of "replicate 26 65" 1000000] by (auto simp: drop_bit_eq_div)
  moreover have "encode (borsh_codec ser_definition de_definition) ?f = Some (ser_definition ?f)"
    by (simp add: borsh_codec_simps ser_definition.simps data_max_length_def length_ser_string)
  then have "decode_token_account plain_token_api borsh_env (?r 7 (ser_definition ?f)) = refusal ''ambiguous_account_type''"
    using shown [of 7 "ser_definition ?f" ?f] D by simp
  ultimately show ?thesis
    by simp
qed

end
