(* ===== verification/Oracle_Api.thy ===== *)
theory Oracle_Api
  imports Program_Api Twap
begin

text \<open>
  The client module of the TWAP oracle (\<^theory_text>\<open>modules/oracle/ffi/src/api\<close>): the addresses of a feed, the
  reading of a published price, and one planner per instruction, which derives the accounts and
  checks the arguments without reading any account.  An \<^theory_text>\<open>OracleApiError\<close> is its code.
\<close>

record oracle_api_env = program_api_env +
  oracle_to_vec :: "twap_instruction \<Rightarrow> bytes result"
  oracle_from_slice :: "bytes \<Rightarrow> twap_instruction option"

locale oracle_api_text = api_text A for A :: "'x oracle_api_env_scheme" +
  assumes oracle_round: "oracle_to_vec A i = Inr bs \<Longrightarrow> oracle_from_slice A bs = Some i"

section \<open>mod.rs and program.rs\<close>

definition parse_id :: "'x api_env_scheme \<Rightarrow> string \<Rightarrow> string \<Rightarrow> account_id result" where
  "parse_id A v code = (case coded code (account_id_from_hex A v ''account id'') of
      Inl e \<Rightarrow> Inl e | Inr i \<Rightarrow> if i = 0 then Inl code else Inr i)"

record oracle_info_request =
  oir_program :: "string option"
  oir_elf :: "string option"
  oir_header :: "account_read option"

definition oracle_program_info ::
  "'x program_api_env_scheme \<Rightarrow> ('d, 'y) lee_env_scheme \<Rightarrow> oracle_info_request \<Rightarrow> json api" where
  "oracle_program_info A E r =
    question (case oir_program r of None \<Rightarrow> Inl ''config_missing'' | Some s \<Rightarrow> parse_id A s ''invalid_program_id'')
      (\<lambda>program.
    question_api (case oir_elf r of
        None \<Rightarrow> reply None
      | Some elf \<Rightarrow>
          question (image_id_from_binary A elf) (\<lambda>image_id.
          or_refuse ''program_header_unavailable'' (oir_header r) (\<lambda>header.
          question (deployed_image_id A header program) (\<lambda>deployed.
          refuse (deployed \<noteq> image_id) ''program_binary_mismatch'' (reply (Some image_id)))))) (\<lambda>image_id.
    reply (JObj (id_fields A ''programId'' program @ id_fields A ''clockId'' (clock_01_program_account_id E) @
      [(''imageIdHex'', JStr (case image_id of None \<Rightarrow> [] | Some i \<Rightarrow> account_id_hex A i))]))))"

section \<open>price.rs\<close>

datatype price_account_error = ReadFailed | IdMismatch | NotFound | OwnerMismatch | InvalidData

definition validate_price_account ::
  "'x api_env_scheme \<Rightarrow> (bytes, 'y) twap_env_scheme \<Rightarrow> account_read \<Rightarrow> account_id \<Rightarrow> account_id \<Rightarrow>
    price_account_error + oracle_price_account" where
  "validate_price_account A E r expected_id expected_owner =
    (case decode_account A r of Inl _ \<Rightarrow> Inl ReadFailed | Inr (i, a) \<Rightarrow>
     if i \<noteq> expected_id then Inl IdMismatch
     else if a = account_default E then Inl NotFound
     else if program_owner a \<noteq> expected_owner then Inl OwnerMismatch
     else (case decode (oracle_price_codec E) (data a) of None \<Rightarrow> Inl InvalidData | Some x \<Rightarrow> Inr x))"

section \<open>twap.rs\<close>

record feed_addresses_request =
  far_program :: string
  far_source :: string
  far_window :: string

definition parse_window :: "string \<Rightarrow> u64 result" where
  "parse_window v = (case parse_decimal_text v of Inl e \<Rightarrow> Inl e
    | Inr window \<Rightarrow> if unat window < OBSERVATIONS_CAPACITY then Inl ''invalid_window'' else Inr window)"

definition feed_addresses ::
  "'x api_env_scheme \<Rightarrow> ('d, 'y) lee_env_scheme \<Rightarrow> feed_addresses_request \<Rightarrow> json api" where
  "feed_addresses A E r =
    question (parse_id A (far_program r) ''invalid_program_id'') (\<lambda>program.
    question (parse_id A (far_source r) ''invalid_account_id'') (\<lambda>source_id.
    question (parse_window (far_window r)) (\<lambda>window.
    reply (JObj (id_fields A ''currentTickAccountId'' (compute_current_tick_account_pda E program source_id) @
      id_fields A ''priceObservationsId'' (compute_price_observations_pda E program source_id window) @
      id_fields A ''priceAccountId'' (compute_oracle_price_account_pda E program source_id window) @
      id_fields A ''clockId'' (clock_01_program_account_id E))))))"

text \<open>How many accounts an instruction has, and whether the second of them, the price source, signs.\<close>

fun plan_shape :: "twap_instruction \<Rightarrow> nat \<times> bool" where
  "plan_shape (CreatePriceObservations t w) = (3, True)"
| "plan_shape (CreateOraclePriceAccount b q p w) = (3, True)"
| "plan_shape (CreateCurrentTickAccount p) = (3, True)"
| "plan_shape (UpdateCurrentTick p) = (3, True)"
| "plan_shape (RecordTick s w) = (3, False)"
| "plan_shape (PublishPrice s w) = (4, False)"

definition transaction_plan ::
  "'x oracle_api_env_scheme \<Rightarrow> account_id \<Rightarrow> account_id list \<Rightarrow> twap_instruction \<Rightarrow> json result" where
  "transaction_plan A program ids i =
    (let (count, source_write) = plan_shape i in
     if length ids \<noteq> count then Inl ''bad_request''
     else (case coded ''backend_error'' (oracle_to_vec A i) of Inl e \<Rightarrow> Inl e | Inr bs \<Rightarrow>
       Inr (plan_response A (account_id_hex A program) ids
         (map (\<lambda>k. source_write \<and> k = 1) [0..<length ids]) bs)))"

section \<open>plan.rs\<close>

record plan_feed =
  pf_program :: account_id
  pf_source :: account_id

definition parse_feed :: "'x api_env_scheme \<Rightarrow> string \<Rightarrow> string \<Rightarrow> plan_feed result" where
  "parse_feed A program source_id =
    (case parse_id A program ''invalid_program_id'' of Inl e \<Rightarrow> Inl e | Inr p \<Rightarrow>
     case parse_id A source_id ''invalid_account_id'' of Inl e \<Rightarrow> Inl e | Inr s \<Rightarrow>
     Inr \<lparr> pf_program = p, pf_source = s \<rparr>)"

definition feed_tick :: "('d, 'y) lee_env_scheme \<Rightarrow> plan_feed \<Rightarrow> account_id" where
  "feed_tick E f = compute_current_tick_account_pda E (pf_program f) (pf_source f)"

definition feed_observations :: "('d, 'y) lee_env_scheme \<Rightarrow> plan_feed \<Rightarrow> u64 \<Rightarrow> account_id" where
  "feed_observations E f window = compute_price_observations_pda E (pf_program f) (pf_source f) window"

definition feed_price :: "('d, 'y) lee_env_scheme \<Rightarrow> plan_feed \<Rightarrow> u64 \<Rightarrow> account_id" where
  "feed_price E f window = compute_oracle_price_account_pda E (pf_program f) (pf_source f) window"

definition planned_feed ::
  "'x oracle_api_env_scheme \<Rightarrow> ('d, 'y) lee_env_scheme \<Rightarrow> plan_feed \<Rightarrow> account_id list \<Rightarrow> twap_instruction \<Rightarrow>
    (string \<times> account_id) list \<Rightarrow> json api" where
  "planned_feed A E f ids i identities =
    question (transaction_plan A (pf_program f) ids i) (\<lambda>plan.
    reply (JObj [(''plan'', plan), (''identities'',
      JObj (concat (map (\<lambda>(key, i). id_fields A key i)
        (identities @ [(''priceSourceId'', pf_source f), (''clockId'', clock_01_program_account_id E)]))))]))"

record feed_request =
  fdr_program :: string
  fdr_source :: string

record current_tick_request = feed_request +
  ctr_price :: string

record price_observations_request = feed_request +
  pob_tick :: string
  pob_window :: string

record oracle_price_request = feed_request +
  opq_base :: string
  opq_quote :: string
  opq_price :: string
  opq_window :: string

record feed_maintenance_request = feed_request +
  fmr_window :: string

definition plan_current_tick_account ::
  "'x oracle_api_env_scheme \<Rightarrow> ('d, 'y) lee_env_scheme \<Rightarrow> current_tick_request \<Rightarrow> json api" where
  "plan_current_tick_account A E r =
    question (parse_feed A (fdr_program r) (fdr_source r)) (\<lambda>f.
    question (parse_decimal_text (ctr_price r)) (\<lambda>price.
    planned_feed A E f [feed_tick E f, pf_source f, clock_01_program_account_id E]
      (CreateCurrentTickAccount price) [(''currentTickAccountId'', feed_tick E f)]))"

definition plan_price_observations ::
  "'x oracle_api_env_scheme \<Rightarrow> ('d, 'y) lee_env_scheme \<Rightarrow> price_observations_request \<Rightarrow> json api" where
  "plan_price_observations A E r =
    question (parse_feed A (fdr_program r) (fdr_source r)) (\<lambda>f.
    question (parse_signed_text (pob_tick r)) (\<lambda>t.
    question (parse_window (pob_window r)) (\<lambda>window.
    planned_feed A E f [feed_observations E f window, pf_source f, clock_01_program_account_id E]
      (CreatePriceObservations t window) [(''priceObservationsId'', feed_observations E f window)])))"

definition plan_oracle_price_account ::
  "'x oracle_api_env_scheme \<Rightarrow> ('d, 'y) lee_env_scheme \<Rightarrow> oracle_price_request \<Rightarrow> json api" where
  "plan_oracle_price_account A E r =
    question (parse_feed A (fdr_program r) (fdr_source r)) (\<lambda>f.
    question (parse_id A (opq_base r) ''invalid_account_id'') (\<lambda>base.
    question (parse_id A (opq_quote r) ''invalid_account_id'') (\<lambda>quote_id.
    question (parse_decimal_text (opq_price r)) (\<lambda>price.
    refuse (price = 0) ''invalid_price'' (
    question (parse_window (opq_window r)) (\<lambda>window.
    planned_feed A E f [feed_price E f window, pf_source f, clock_01_program_account_id E]
      (CreateOraclePriceAccount base quote_id price window)
      [(''priceAccountId'', feed_price E f window), (''baseAssetId'', base), (''quoteAssetId'', quote_id)]))))))"

definition plan_update_current_tick ::
  "'x oracle_api_env_scheme \<Rightarrow> ('d, 'y) lee_env_scheme \<Rightarrow> current_tick_request \<Rightarrow> json api" where
  "plan_update_current_tick A E r =
    question (parse_feed A (fdr_program r) (fdr_source r)) (\<lambda>f.
    question (parse_decimal_text (ctr_price r)) (\<lambda>price.
    planned_feed A E f [feed_tick E f, pf_source f, clock_01_program_account_id E]
      (UpdateCurrentTick price) [(''currentTickAccountId'', feed_tick E f)]))"

definition plan_record_tick ::
  "'x oracle_api_env_scheme \<Rightarrow> ('d, 'y) lee_env_scheme \<Rightarrow> feed_maintenance_request \<Rightarrow> json api" where
  "plan_record_tick A E r =
    question (parse_feed A (fdr_program r) (fdr_source r)) (\<lambda>f.
    question (parse_window (fmr_window r)) (\<lambda>window.
    planned_feed A E f [feed_observations E f window, feed_tick E f, clock_01_program_account_id E]
      (RecordTick (pf_source f) window)
      [(''priceObservationsId'', feed_observations E f window), (''currentTickAccountId'', feed_tick E f)]))"

definition plan_publish_price ::
  "'x oracle_api_env_scheme \<Rightarrow> ('d, 'y) lee_env_scheme \<Rightarrow> feed_maintenance_request \<Rightarrow> json api" where
  "plan_publish_price A E r =
    question (parse_feed A (fdr_program r) (fdr_source r)) (\<lambda>f.
    question (parse_window (fmr_window r)) (\<lambda>window.
    planned_feed A E f
      [feed_observations E f window, feed_price E f window, feed_tick E f, clock_01_program_account_id E]
      (PublishPrice (pf_source f) window)
      [(''priceObservationsId'', feed_observations E f window), (''priceAccountId'', feed_price E f window),
       (''currentTickAccountId'', feed_tick E f)]))"

end
