(* ===== verification/Oracle_Api_Props.thy ===== *)
theory Oracle_Api_Props
  imports Oracle_Api Twap_Claims
begin


section \<open>From a plan to the guest\<close>






lemma parse_window_Inr [success]:
  "parse_window v = Inr w \<longleftrightarrow> parse_decimal_text v = Inr w \<and> OBSERVATIONS_CAPACITY \<le> unat w"
  by (auto simp: parse_window_def split: sum.splits)

lemma parse_id_Inr [success]:
  "parse_id A v code = Inr i \<longleftrightarrow> account_id_from_hex A v ''account id'' = Inr i \<and> i \<noteq> 0"
  by (auto simp: parse_id_def coded_def split: sum.splits)


lemma parse_feed_Inr [success]:
  "parse_feed A p s = Inr f \<longleftrightarrow> parse_id A p ''invalid_program_id'' = Inr (pf_program f) \<and>
    parse_id A s ''invalid_account_id'' = Inr (pf_source f)"
  by (cases f) (auto simp: parse_feed_def split: sum.splits)



section \<open>The Borsh format of the instructions\<close>

fun ser_twap :: "twap_instruction \<Rightarrow> bytes" where
  "ser_twap (CreatePriceObservations t w) = 0 # to_le_bytes t @ to_le_bytes w"
| "ser_twap (CreateOraclePriceAccount b q p w) = 1 # to_bytes b @ to_bytes q @ to_le_bytes p @ to_le_bytes w"
| "ser_twap (CreateCurrentTickAccount p) = 2 # to_le_bytes p"
| "ser_twap (UpdateCurrentTick p) = 3 # to_le_bytes p"
| "ser_twap (PublishPrice s w) = 4 # to_bytes s @ to_le_bytes w"
| "ser_twap (RecordTick s w) = 5 # to_bytes s @ to_le_bytes w"

fun de_twap :: "twap_instruction parser" where
  "de_twap [] = None"
| "de_twap (tag # bs) =
    (if tag = 0 then de_bind de_word (\<lambda>t. de_bind de_word (\<lambda>w. de_return (CreatePriceObservations t w))) bs
     else if tag = 1 then de_bind de_id (\<lambda>b. de_bind de_id (\<lambda>q. de_bind de_word (\<lambda>p. de_bind de_word (\<lambda>w.
       de_return (CreateOraclePriceAccount b q p w))))) bs
     else if tag = 2 then de_bind de_word (\<lambda>p. de_return (CreateCurrentTickAccount p)) bs
     else if tag = 3 then de_bind de_word (\<lambda>p. de_return (UpdateCurrentTick p)) bs
     else if tag = 4 then de_bind de_id (\<lambda>s. de_bind de_word (\<lambda>w. de_return (PublishPrice s w))) bs
     else if tag = 5 then de_bind de_id (\<lambda>s. de_bind de_word (\<lambda>w. de_return (RecordTick s w))) bs
     else None)"



definition plain_oracle_api :: oracle_api_env where
  "plain_oracle_api = program_api_env.extend plain_program_api
    \<lparr> oracle_to_vec = (\<lambda>i. Inr (ser_twap i)),
      oracle_from_slice = (\<lambda>bs. case de_twap bs of Some (i, []) \<Rightarrow> Some i | _ \<Rightarrow> None) \<rparr>"

lemma plain_oracle_simps [simp]:
  "hex_encode plain_oracle_api = hex_text" "hex_decode plain_oracle_api = hex_bytes"
  "base58_encode plain_oracle_api = base58_encode plain_api" "base58_decode plain_oracle_api = base58_decode plain_api"
  "data_from_bytes plain_oracle_api = Inr" "oracle_to_vec plain_oracle_api i = Inr (ser_twap i)"
  by (simp_all add: plain_oracle_api_def plain_program_api_def program_api_env.extend_def api_env.extend_def plain_api_def)





section \<open>Planned writes\<close>



end
