(* ===== verification/Boundary.thy ===== *)
theory Boundary
  imports Token_Api Oracle_Api Stable_Plan_Api
begin

text \<open>
  The C boundary of the client modules of the stablecoin, the Token program and the oracle
  (\<^theory_text>\<open>modules/{stablecoin,token,oracle}/ffi/src/ffi.rs\<close>, three files that differ in their operations only): a request
  is a null pointer or memory that holds a NUL-terminated text, and the answer is the JSON text of an
  envelope, NUL-terminated as well.  The deserializer of a request and the writer of an envelope
  (\<^theory_text>\<open>serde_json\<close>) are arguments.  The release of an answer (\<^theory_text>\<open>stablecoin_free\<close> and its like) has no
  effect on values.
\<close>

section \<open>UTF-8\<close>

text \<open>
  \<^theory_text>\<open>CStr::to_str\<close> admits the well-formed sequences of Unicode: no overlong form, no surrogate, nothing
  above \<^theory_text>\<open>U+10FFFF\<close>.
\<close>

definition continuation :: "8 word \<Rightarrow> bool" where
  "continuation b \<longleftrightarrow> 0x80 \<le> b \<and> b \<le> 0xBF"

definition second_byte :: "8 word \<Rightarrow> 8 word \<Rightarrow> bool" where
  "second_byte a b \<longleftrightarrow> continuation b \<and> (a = 0xE0 \<longrightarrow> 0xA0 \<le> b) \<and> (a = 0xED \<longrightarrow> b \<le> 0x9F) \<and>
    (a = 0xF0 \<longrightarrow> 0x90 \<le> b) \<and> (a = 0xF4 \<longrightarrow> b \<le> 0x8F)"

fun utf8_valid :: "bytes \<Rightarrow> bool" where
  "utf8_valid [] = True"
| "utf8_valid (a # bs) =
    (if a < 0x80 then utf8_valid bs
     else if 0xC2 \<le> a \<and> a \<le> 0xDF then
       (case bs of b # r \<Rightarrow> second_byte a b \<and> utf8_valid r | _ \<Rightarrow> False)
     else if 0xE0 \<le> a \<and> a \<le> 0xEF then
       (case bs of b # c # r \<Rightarrow> second_byte a b \<and> continuation c \<and> utf8_valid r | _ \<Rightarrow> False)
     else if 0xF0 \<le> a \<and> a \<le> 0xF4 then
       (case bs of b # c # d # r \<Rightarrow> second_byte a b \<and> continuation c \<and> continuation d \<and> utf8_valid r | _ \<Rightarrow> False)
     else False)"

lemma utf8_valid_ascii: "list_all (\<lambda>b. b < 0x80) bs \<Longrightarrow> utf8_valid bs"
  by (induction bs) simp_all

lemma utf8_examples:
  "utf8_valid [0x4C, 0xC3, 0xA9, 0xE2, 0x82, 0xAC, 0xF0, 0x9D, 0x84, 0x9E]"
  "\<not> utf8_valid [0xC0, 0x80]" "\<not> utf8_valid [0xED, 0xA0, 0x80]" "\<not> utf8_valid [0xF4, 0x90, 0x80, 0x80]"
  "\<not> utf8_valid [0xE2, 0x82]" "\<not> utf8_valid [0xFF]"
  by (simp_all add: second_byte_def continuation_def)

section \<open>Requests\<close>

text \<open>\<^theory_text>\<open>CStr::from_ptr\<close>: the text ends at the first NUL.  The caller promises there is one.\<close>

definition c_str :: "bytes \<Rightarrow> bytes" where
  "c_str m = takeWhile (\<lambda>b. b \<noteq> 0) m"

definition c_string :: "bytes \<Rightarrow> bytes" where
  "c_string t = t @ [0]"

definition request_text :: "bytes option \<Rightarrow> bytes result" where
  "request_text p = (case p of
      None \<Rightarrow> Inl ''bad_request''
    | Some m \<Rightarrow> if utf8_valid (c_str m) then Inr (c_str m) else Inl ''bad_request'')"

lemma c_str_c_string: "0 \<notin> set t \<Longrightarrow> c_str (c_string t @ junk) = t"
  by (induction t) (simp_all add: c_str_def c_string_def)

lemma request_text_reads: "0 \<notin> set t \<Longrightarrow> utf8_valid t \<Longrightarrow> request_text (Some (c_string t @ junk)) = Inr t"
  by (simp add: request_text_def c_str_c_string)

section \<open>Answers\<close>

definition success_envelope :: "'a \<Rightarrow> 'a envelope" where
  "success_envelope v = \<lparr> envelope_ok = True, envelope_value = Some v, envelope_error = None \<rparr>"

definition failure_envelope :: "string \<Rightarrow> 'a envelope" where
  "failure_envelope e = \<lparr> envelope_ok = False, envelope_value = None, envelope_error = Some e \<rparr>"

text \<open>\<^theory_text>\<open>call\<close> of these modules: a panic of the operation is caught, and is \<^theory_text>\<open>backend_error\<close>.\<close>

definition backend_call :: "(bytes \<Rightarrow> 'r option) \<Rightarrow> ('r \<Rightarrow> 'a api) \<Rightarrow> bytes option \<Rightarrow> 'a envelope" where
  "backend_call parse operation p =
    (case question (request_text p) (\<lambda>t. or_refuse ''bad_request'' (parse t) operation) of
       Inr (Inr v) \<Rightarrow> success_envelope v
     | Inr (Inl e) \<Rightarrow> failure_envelope e
     | Inl _ \<Rightarrow> failure_envelope ''backend_error'')"

text \<open>The fields that are absent are skipped.\<close>

definition envelope_json :: "json envelope \<Rightarrow> json" where
  "envelope_json e = JObj ([(''ok'', JBool (envelope_ok e))] @
    (case envelope_value e of None \<Rightarrow> [] | Some v \<Rightarrow> [(''value'', v)]) @
    (case envelope_error e of None \<Rightarrow> [] | Some t \<Rightarrow> [(''error'', JStr t)]))"

definition fallback_answer :: bytes where
  "fallback_answer = ascii ''{\"ok\":false,\"error\":\"backend_error\"}''"

definition encode_envelope :: "(json \<Rightarrow> bytes option) \<Rightarrow> json envelope \<Rightarrow> bytes" where
  "encode_envelope write e =
    (let t = (case write (envelope_json e) of None \<Rightarrow> fallback_answer | Some t \<Rightarrow> t) in
     c_string (if 0 \<in> set t then fallback_answer else t))"

lemma fallback_no_nul: "0 \<notin> set fallback_answer"
  by (simp add: fallback_answer_def ascii_def)

text \<open>An answer is a value or an error, never both, whatever the request.\<close>

lemma backend_call_wellformed:
  "envelope_ok (backend_call parse op p) \<longleftrightarrow> envelope_value (backend_call parse op p) \<noteq> None"
  "envelope_ok (backend_call parse op p) \<longleftrightarrow> envelope_error (backend_call parse op p) = None"
  by (simp_all add: backend_call_def success_envelope_def failure_envelope_def split: sum.split)

lemma backend_call_value:
  "envelope_value (backend_call parse op p) = Some v \<longleftrightarrow>
    (\<exists>t r. request_text p = Inr t \<and> parse t = Some r \<and> op r = reply v)"
  by (auto simp: backend_call_def success_envelope_def failure_envelope_def question_def or_refuse_def
      split: sum.splits option.splits)

lemma backend_call_error:
  assumes "request_text p = Inr t" "parse t = Some r"
  shows "backend_call parse op p = (case op r of Inl _ \<Rightarrow> failure_envelope ''backend_error''
    | Inr (Inl e) \<Rightarrow> failure_envelope e | Inr (Inr v) \<Rightarrow> success_envelope v)"
  by (simp add: backend_call_def assms)

lemma backend_call_bad_request:
  "backend_call parse op None = failure_envelope ''bad_request''"
  "\<not> utf8_valid (c_str m) \<Longrightarrow> backend_call parse op (Some m) = failure_envelope ''bad_request''"
  "request_text p = Inr t \<Longrightarrow> parse t = None \<Longrightarrow> backend_call parse op p = failure_envelope ''bad_request''"
  by (simp_all add: backend_call_def request_text_def)

text \<open>The answer is one C string: the caller reads it to its end, and back to the envelope it stands for.\<close>

lemma encode_envelope_ends: "\<exists>t. encode_envelope write e = c_string t \<and> 0 \<notin> set t"
  by (auto simp: encode_envelope_def Let_def fallback_no_nul)

lemma encode_envelope_read:
  assumes "write (envelope_json e) = Some t" "0 \<notin> set t" "parse t = Some (envelope_json e)"
  shows "parse (c_str (encode_envelope write e @ junk)) = Some (envelope_json e)"
  by (simp add: encode_envelope_def Let_def assms c_str_c_string)

section \<open>The exported functions\<close>

text \<open>
  An exported function reads the request of its operation and calls it: \<^theory_text>\<open>call::<R>(p, api::f)\<close> is
  the constructor of \<^theory_text>\<open>f\<close> in the module's family of requests, with the deserializer of \<^theory_text>\<open>R\<close>.
\<close>

datatype stable_request =
    AskProgramInfo program_info_request
  | AskProtocolParameters decode_global_request
  | AskStabilityFeeAccumulator decode_global_request
  | AskPositionInfo position_request
  | AskPosition decode_position_request
  | AskRedemptionPriceState decode_global_request
  | AskCurrentGlobalState global_state_request
  | AskRateUpdateQuote rate_quote_request
  | AskAccrueStabilityFee accrue_plan_request
  | AskUpdateRedemptionRate update_plan_request
  | AskRefreshGlobals refresh_plan_request
  | AskInitializeProgram initialize_plan_request
  | AskOpenPosition open_plan_request
  | AskPositionAddresses position_request
  | AskDepositCollateral deposit_plan_request
  | AskRepayDebt debt_plan_request
  | AskPositionHealth health_request
  | AskWithdrawCollateral withdraw_plan_request
  | AskGenerateDebt generate_plan_request
  | AskClosePosition close_plan_request
  | AskSetStabilityFee set_fee_request
  | AskSetMinimumRatio set_ratio_request
  | AskSetControllerGains set_gains_request
  | AskSetTimingParameters set_timing_request
  | AskSetAdmin set_role_request
  | AskSetFreezeAuthority set_role_request
  | AskSetMarketPriceOracle set_oracle_request
  | AskFreeze freeze_plan_request
  | AskUnfreeze freeze_plan_request

fun stable_operation ::
  "'x stable_api_env_scheme \<Rightarrow> (bytes, 'y) stable_env_scheme \<Rightarrow> stable_request \<Rightarrow> json api" where
  "stable_operation A E (AskProgramInfo r) = program_info A E r"
| "stable_operation A E (AskProtocolParameters r) = decode_protocol_parameters A E r"
| "stable_operation A E (AskStabilityFeeAccumulator r) = decode_stability_fee_accumulator A E r"
| "stable_operation A E (AskPositionInfo r) = position_info A E r"
| "stable_operation A E (AskPosition r) = decode_position A E r"
| "stable_operation A E (AskRedemptionPriceState r) = decode_redemption_price_state A E r"
| "stable_operation A E (AskCurrentGlobalState r) = current_global_state A E r"
| "stable_operation A E (AskRateUpdateQuote r) = redemption_rate_update_quote A E r"
| "stable_operation A E (AskAccrueStabilityFee r) = accrue_stability_fee_plan A E r"
| "stable_operation A E (AskUpdateRedemptionRate r) = update_redemption_rate_plan A E r"
| "stable_operation A E (AskRefreshGlobals r) = refresh_globals_plan A E r"
| "stable_operation A E (AskInitializeProgram r) = initialize_program_plan A E r"
| "stable_operation A E (AskOpenPosition r) = open_position_plan A E r"
| "stable_operation A E (AskPositionAddresses r) = position_addresses A E r"
| "stable_operation A E (AskDepositCollateral r) = deposit_collateral_plan A E r"
| "stable_operation A E (AskRepayDebt r) = repay_debt_plan A E r"
| "stable_operation A E (AskPositionHealth r) = position_health A E r"
| "stable_operation A E (AskWithdrawCollateral r) = withdraw_collateral_plan A E r"
| "stable_operation A E (AskGenerateDebt r) = generate_debt_plan A E r"
| "stable_operation A E (AskClosePosition r) = close_position_plan A E r"
| "stable_operation A E (AskSetStabilityFee r) = set_stability_fee_per_millisecond_plan A E r"
| "stable_operation A E (AskSetMinimumRatio r) = set_minimum_collateralization_ratio_plan A E r"
| "stable_operation A E (AskSetControllerGains r) = set_controller_gains_plan A E r"
| "stable_operation A E (AskSetTimingParameters r) = set_timing_parameters_plan A E r"
| "stable_operation A E (AskSetAdmin r) = set_admin_plan A E r"
| "stable_operation A E (AskSetFreezeAuthority r) = set_freeze_authority_plan A E r"
| "stable_operation A E (AskSetMarketPriceOracle r) = set_market_price_oracle_plan A E r"
| "stable_operation A E (AskFreeze r) = freeze_plan A E r"
| "stable_operation A E (AskUnfreeze r) = unfreeze_plan A E r"

datatype token_request =
    AskTokenProgramId string
  | AskDefinition decode_account_request
  | AskHolding decode_account_request
  | AskMetadata decode_account_request
  | AskAccount decode_account_request
  | AskCreateFungible create_fungible_request
  | AskCreateFungibleWithMetadata create_with_metadata_request
  | AskCreateNonFungible create_nft_request
  | AskInitializeHolding holding_plan_request
  | AskTransfer transfer_plan_request
  | AskBurn amount_plan_request
  | AskMint mint_plan_request
  | AskMintWithAuthority mint_with_authority_request
  | AskSetAuthority authority_plan_request
  | AskSetAuthorityWithAuthority authority_with_authority_request
  | AskPrintNft print_plan_request

fun token_operation ::
  "'x token_api_env_scheme \<Rightarrow> (bytes, 'y) token_env_scheme \<Rightarrow> token_request \<Rightarrow> json api" where
  "token_operation A E (AskTokenProgramId elf) = image_program_id A elf"
| "token_operation A E (AskDefinition r) = decode_definition A E r"
| "token_operation A E (AskHolding r) = decode_holding A E r"
| "token_operation A E (AskMetadata r) = decode_metadata A E r"
| "token_operation A E (AskAccount r) = decode_token_account A E r"
| "token_operation A E (AskCreateFungible r) = create_fungible_plan A r"
| "token_operation A E (AskCreateFungibleWithMetadata r) = create_fungible_with_metadata_plan A r"
| "token_operation A E (AskCreateNonFungible r) = create_non_fungible_plan A r"
| "token_operation A E (AskInitializeHolding r) = initialize_holding_plan A r"
| "token_operation A E (AskTransfer r) = transfer_plan A r"
| "token_operation A E (AskBurn r) = burn_plan A r"
| "token_operation A E (AskMint r) = mint_plan A r"
| "token_operation A E (AskMintWithAuthority r) = mint_with_authority_plan A r"
| "token_operation A E (AskSetAuthority r) = set_authority_plan A r"
| "token_operation A E (AskSetAuthorityWithAuthority r) = set_authority_with_authority_plan A r"
| "token_operation A E (AskPrintNft r) = print_nft_plan A r"

datatype oracle_request =
    AskOracleProgramInfo oracle_info_request
  | AskFeedAddresses feed_addresses_request
  | AskCreateCurrentTick current_tick_request
  | AskCreateObservations price_observations_request
  | AskCreateOraclePrice oracle_price_request
  | AskUpdateCurrentTick current_tick_request
  | AskRecordTick feed_maintenance_request
  | AskPublishPrice feed_maintenance_request

fun oracle_operation ::
  "'x oracle_api_env_scheme \<Rightarrow> ('d, 'y) lee_env_scheme \<Rightarrow> oracle_request \<Rightarrow> json api" where
  "oracle_operation A E (AskOracleProgramInfo r) = oracle_program_info A E r"
| "oracle_operation A E (AskFeedAddresses r) = feed_addresses A E r"
| "oracle_operation A E (AskCreateCurrentTick r) = plan_current_tick_account A E r"
| "oracle_operation A E (AskCreateObservations r) = plan_price_observations A E r"
| "oracle_operation A E (AskCreateOraclePrice r) = plan_oracle_price_account A E r"
| "oracle_operation A E (AskUpdateCurrentTick r) = plan_update_current_tick A E r"
| "oracle_operation A E (AskRecordTick r) = plan_record_tick A E r"
| "oracle_operation A E (AskPublishPrice r) = plan_publish_price A E r"

definition stable_export ::
  "'x stable_api_env_scheme \<Rightarrow> (bytes, 'y) stable_env_scheme \<Rightarrow> (bytes \<Rightarrow> stable_request option) \<Rightarrow>
    (json \<Rightarrow> bytes option) \<Rightarrow> bytes option \<Rightarrow> bytes" where
  "stable_export A E parse write p = encode_envelope write (backend_call parse (stable_operation A E) p)"

definition token_export ::
  "'x token_api_env_scheme \<Rightarrow> (bytes, 'y) token_env_scheme \<Rightarrow> (bytes \<Rightarrow> token_request option) \<Rightarrow>
    (json \<Rightarrow> bytes option) \<Rightarrow> bytes option \<Rightarrow> bytes" where
  "token_export A E parse write p = encode_envelope write (backend_call parse (token_operation A E) p)"

definition oracle_export ::
  "'x oracle_api_env_scheme \<Rightarrow> ('d, 'y) lee_env_scheme \<Rightarrow> (bytes \<Rightarrow> oracle_request option) \<Rightarrow>
    (json \<Rightarrow> bytes option) \<Rightarrow> bytes option \<Rightarrow> bytes" where
  "oracle_export A E parse write p = encode_envelope write (backend_call parse (oracle_operation A E) p)"

end
