(* ===== verification/Spec2Isabelle.thy ===== *)
theory Spec2Isabelle
  imports Token_Props Ata Faucet Amm_Math_Props Amm_Props Amm_Liquidity_Props Amm_Solvency_Props Twap_Claims
    Stable_Props Amm_Api_Props Stable_Api_Props Token_Api_Props Oracle_Api_Props Boundary
begin

text \<open>
  Verification of the LEZ programs.

  \<^bold>\<open>The program.\<close>  The repository holds the programs of the Logos execution zone: the Token program
  (fungible tokens and NFTs), the Associated Token Account program (ATA), the faucet that holds the
  mint authority of test tokens, the TWAP oracle, a constant-product AMM and a stablecoin backed by
  collateral; and, under \<^theory_text>\<open>modules/\<close>, the client libraries that wallets and user interfaces call to
  read the accounts, preview an operation and plan the instruction to submit.  A program has no storage.  An
  instruction is a pure function of the accounts it is given; it returns one diff per account and a
  list of calls to other programs, which the runtime applies if nothing panicked.  The AMM, the ATA
  program, the faucet and the stablecoin move tokens only by emitting calls to the Token program; the
  AMM also calls the oracle, to report its price, and the stablecoin reads a price account the
  oracle publishes.

  \<^bold>\<open>Conventions.\<close>  Machine integers are words of their Rust width.  Checked operations
  return an option, and the result type \<^theory_text>\<open>panic + 'a\<close> (\<^theory_text>\<open>Prelude\<close>) carries each panic of
  the source as \<^theory_text>\<open>Inl\<close> with the failing condition's text; a definition follows the order in which the source
  evaluates its conditions.  The runtime's types, account identifiers, hashes and address derivation
  (crates outside the repository) are in \<^theory_text>\<open>Lee\<close>; every operation of such a crate is a field of an
  environment record (\<^theory_text>\<open>token_env\<close>, \<^theory_text>\<open>oracle_env\<close>, \<^theory_text>\<open>amm_env\<close>, \<^theory_text>\<open>stable_env\<close>, \<^theory_text>\<open>api_env\<close>,
  \<^theory_text>\<open>amm_api_env\<close>, \<^theory_text>\<open>program_api_env\<close>, \<^theory_text>\<open>stable_api_env\<close>, \<^theory_text>\<open>token_api_env\<close>, \<^theory_text>\<open>oracle_api_env\<close>), an argument of the definitions that use it.  What the code relies on is the assumption of a
  locale (\<^theory_text>\<open>token_runtime\<close>, \<^theory_text>\<open>oracle_runtime\<close>, \<^theory_text>\<open>amm_runtime\<close>, \<^theory_text>\<open>stable_runtime\<close>, \<^theory_text>\<open>api_text\<close>,
  \<^theory_text>\<open>amm_api_text\<close>, \<^theory_text>\<open>stable_api_text\<close>, \<^theory_text>\<open>stable_client\<close>, \<^theory_text>\<open>token_api_text\<close>,
  \<^theory_text>\<open>oracle_api_text\<close>): encodings decode to what they came from.  Each locale is interpreted on the real
  Borsh byte format (\<^theory_text>\<open>Borsh\<close>, \<^theory_text>\<open>Token_Borsh\<close>, \<^theory_text>\<open>Twap_Borsh\<close>, \<^theory_text>\<open>Amm_Borsh\<close>, \<^theory_text>\<open>Stable_Borsh\<close>,
  \<^theory_text>\<open>Amm_Api_Borsh\<close>, \<^theory_text>\<open>Stable_Api_Borsh\<close>, \<^theory_text>\<open>Token_Api_Props\<close>, \<^theory_text>\<open>Oracle_Api_Props\<close>), which is modelled in full; the witnesses of the properties run there
  (\<^theory_text>\<open>Demo_Ledger\<close>, \<^theory_text>\<open>Amm_Demo\<close>, \<^theory_text>\<open>Stable_Demo\<close>).

  \<^bold>\<open>Token program\<close> (\<^theory_text>\<open>programs/token\<close>).  \<^theory_text>\<open>Token_Core\<close>: instructions and stored accounts of
  \<^theory_text>\<open>core/src/lib.rs\<close>; \<^theory_text>\<open>Token\<close>: one definition per handler of \<^theory_text>\<open>src/\<close> and the dispatch of the
  guest; \<^theory_text>\<open>Token_Ledger\<close>: the ledger of all accounts under the runtime's write rule, and the lemmas
  that every handler balances supply against holdings; \<^theory_text>\<open>Token_Props\<close>: backing of the supply, who may
  change what, transfers on every branch, and the confusion of a definition with a holding.

  \<^bold>\<open>ATA program and faucet\<close> (\<^theory_text>\<open>programs/ata\<close>, \<^theory_text>\<open>programs/token_mint_authority\<close>).  \<^theory_text>\<open>Ata\<close> and
  \<^theory_text>\<open>Faucet\<close> hold model, lemmas and properties: the delegation of the ATA's seed, and the rate limit of
  the faucet over any sequence of grants.

  \<^bold>\<open>TWAP oracle\<close> (\<^theory_text>\<open>programs/twap_oracle\<close>).  \<^theory_text>\<open>Twap_Core\<close> (data, ring buffer, integer square root),
  \<^theory_text>\<open>Twap\<close> (handlers, guest), \<^theory_text>\<open>Twap_Props\<close> (the ring refines the list of its observations; the
  invariant of a feed), \<^theory_text>\<open>Twap_Claims\<close> (properties).  The tick mathematics of the Uniswap crate is a parameter.

  \<^bold>\<open>AMM\<close> (\<^theory_text>\<open>programs/amm\<close>).  \<^theory_text>\<open>Amm_Math\<close>: quotes, fees and shares of \<^theory_text>\<open>core/src/lib.rs\<close>;
  \<^theory_text>\<open>Amm_Core\<close>: data and addresses; \<^theory_text>\<open>Amm_Swap\<close>, \<^theory_text>\<open>Amm_Liquidity\<close>, \<^theory_text>\<open>Amm_Admin\<close>: the handlers and
  the guest; \<^theory_text>\<open>Amm_Pool\<close>: the abstract pool (reserves and shares as natural numbers) that every
  handler refines; \<^theory_text>\<open>Amm_Runs\<close>, \<^theory_text>\<open>Amm_Liquidity_Runs\<close>: what a successful run has checked and written;
  \<^theory_text>\<open>Amm_Ledger\<close>: pools and configurations over the life of the chain; \<^theory_text>\<open>Amm_Solvency\<close>: the AMM's
  calls executed by the model of the Token program, hence vaults against reserves; the properties are
  in \<^theory_text>\<open>Amm_Math_Props\<close>, \<^theory_text>\<open>Amm_Props\<close>, \<^theory_text>\<open>Amm_Liquidity_Props\<close> and \<^theory_text>\<open>Amm_Solvency_Props\<close>.

  \<^bold>\<open>Stablecoin\<close> (\<^theory_text>\<open>programs/stablecoin\<close>).  \<^theory_text>\<open>Stable_Math\<close> (fixed-point products and the compounding
  loops of \<^theory_text>\<open>core/src/math.rs\<close>), \<^theory_text>\<open>Stable_Controller\<close> (the proportional-integral controller),
  \<^theory_text>\<open>Stable_Core\<close> (data, addresses), \<^theory_text>\<open>Stable_Checks\<close> (the shared checks and projections),
  \<^theory_text>\<open>Stable_Globals\<close> and \<^theory_text>\<open>Stable_Positions\<close> (the twenty handlers), \<^theory_text>\<open>Stable_Main\<close> (guest);
  \<^theory_text>\<open>Stable_Compound\<close> and \<^theory_text>\<open>Stable_Bounds\<close>: the loops compute the floored power or saturate, and the
  permitted rates keep the growth over one window small; \<^theory_text>\<open>Stable_Runs\<close>, \<^theory_text>\<open>Stable_Ledger\<close>,
  \<^theory_text>\<open>Stable_Steps\<close>: what one instruction writes, and the invariants of all accounts over the life of the chain;
  \<^theory_text>\<open>Stable_Safety\<close>: the saturating 512-bit check is the comparison of natural numbers, rounding
  favours the protocol; \<^theory_text>\<open>Stable_Props\<close>: the properties.

  \<^bold>\<open>AMM client module\<close> (\<^theory_text>\<open>modules/amm/ffi\<close>).  \<^theory_text>\<open>Api\<close>: results, texts and JSON values that the
  client modules share; \<^theory_text>\<open>Amm_Api\<close>: configuration, pool and context reading, addresses and the
  boundary; \<^theory_text>\<open>Amm_Swap_Api\<close> and \<^theory_text>\<open>Amm_Liquidity_Api\<close>: lookups, previews and plans; \<^theory_text>\<open>Amm_Opening\<close>:
  the bisection of the opening preview; \<^theory_text>\<open>Amm_Api_Runs\<close>: from a plan to the guest's run on the chain
  that was read; \<^theory_text>\<open>Amm_Api_Props\<close>: a preview is what the chain does, and where it is not.

  \<^bold>\<open>Stablecoin client module\<close> (\<^theory_text>\<open>modules/stablecoin/ffi/src/api\<close>).  \<^theory_text>\<open>Program_Api\<close>: what this module
  shares with the two below, numbers as text, the clock, images of programs; \<^theory_text>\<open>Stable_Api\<close>: the readings of
  identifiers, numbers and accounts, the decoded state, the projections, the health of a position and
  the preview of a rate update; \<^theory_text>\<open>Stable_Plan_Api\<close>: the nineteen plans and the fallible pricing they use;
  \<^theory_text>\<open>Stable_Api_Runs\<close>: the client's pricing is the guest's, what a reply has checked, and from the plan of
  a borrowing or the preview of an update to the guest's run; \<^theory_text>\<open>Stable_Api_Health\<close> and
  \<^theory_text>\<open>Stable_Api_Admin\<close>: the health on natural numbers, and the planned changes of the parameters as an
  inductive family; \<^theory_text>\<open>Stable_Api_Props\<close>: the properties.

  \<^bold>\<open>Token and oracle client modules\<close> (\<^theory_text>\<open>modules/token/ffi\<close>, \<^theory_text>\<open>modules/oracle/ffi\<close>).  \<^theory_text>\<open>Token_Api\<close> and
  \<^theory_text>\<open>Oracle_Api\<close> hold the operations, \<^theory_text>\<open>Token_Api_Props\<close> and \<^theory_text>\<open>Oracle_Api_Props\<close> the properties: the
  signatures of a plan are enough for the guest, an account is shown as what was stored or refused as
  ambiguous, and a planned write of a price source depends on the state alone.  \<^theory_text>\<open>Boundary\<close> is the C
  boundary of these two modules and of the stablecoin's: the text of a request, the dispatch to the
  operations, and the answer as one C string that holds a value or an error.

  \<^bold>\<open>Bounds and fuel.\<close>  No definition carries fuel: every loop of the source has its measure (the
  length of a list, the bits of an exponent, the width of a search interval).  The 512-bit words of the
  stablecoin and the 256-bit words of the AMM are those of the source.  The liveness of the
  price update is proved for five years between two updates, beyond which it can panic (a finding of the manifest).

  \<^bold>\<open>Not modelled.\<close>  The account-constraint macros of the SPEL framework are parameters where an
  instruction names them.  Hexadecimal and base-58 texts and the JSON parser of the client boundary are crates
  outside the repository.  The boundary of the AMM's module is modelled from the decoded request to the
  envelope (\<^theory_text>\<open>call\<close> of \<^theory_text>\<open>Api\<close>), without its texts for malformed requests; its \<^theory_text>\<open>program_id\<close> is left out.
  The release of an answer's memory is left out of all four modules.
  The client modules do not check all the guest checks: a planned borrowing or repayment may still meet
  a master holding that does not exist, or fees or a total debt that overflow; the properties name what they assume.  The
  applications, command-line tools, interface-definition generators and benchmarks are input, output and
  glue.
\<close>

end
